(* ===== verification/Prelude.thy ===== *)
theory Prelude
  imports Complex_Main "HOL-Library.AList" "HOL-Library.Product_Lexorder" "HOL-Library.Option_ord"
begin

text \<open>
  Shared vocabulary of the development: database tables and the statements the repositories
  issue on them, instants of time, Python's rounding, dictionaries, JSON values, exceptions and
  events. The lemmas are generic facts about tables; the collections \<open>table_simps\<close> (lookups after a
  statement) and \<open>table_intros\<close> (what a statement keeps) are used by every component.
\<close>

named_theorems table_simps
named_theorems table_intros

section \<open>Time and numbers\<close>

text \<open>
  A \<open>datetime\<close> is the integer number of microseconds since the epoch, which is Python's own
  resolution. Durations given in seconds as \<open>float\<close> are exact rationals here; \<open>timedelta\<close> rounds
  half to even to a whole microsecond, as \<open>round\<close> does to a whole number.
\<close>

type_synonym instant = int

definition py_round :: "rat \<Rightarrow> int" where
  "py_round x = (let f = \<lfloor>x\<rfloor>; d = x - of_int f
     in if d < 1 / 2 then f else if 1 / 2 < d then f + 1 else if even f then f else f + 1)"

definition timedelta_sec :: "rat \<Rightarrow> int" where
  "timedelta_sec s = py_round (s * 1000000)"

lemma py_round_of_int [simp]: "py_round (of_int n) = n"
  by (simp add: py_round_def)

lemma py_round_bounds: "of_int (py_round x) - 1 / 2 \<le> x" "x \<le> of_int (py_round x) + 1 / 2"
  by (auto simp: py_round_def Let_def) linarith+

lemma py_round_mono: "x \<le> y \<Longrightarrow> py_round x \<le> py_round y"
proof (rule ccontr)
  assume le: "x \<le> y" and "\<not> py_round x \<le> py_round y"
  then have lt: "py_round y + 1 \<le> py_round x" by simp
  then have "of_int (py_round y) + 1 \<le> (of_int (py_round x) :: rat)"
    by (metis of_int_1 of_int_add of_int_le_iff)
  with py_round_bounds(1)[of x] py_round_bounds(2)[of y] le
  have eq: "x = y" by linarith
  with lt show False by simp
qed

lemma timedelta_sec_nonneg: "0 \<le> s \<Longrightarrow> 0 \<le> timedelta_sec s"
  using py_round_mono[of 0 "s * 1000000"] py_round_of_int[of 0]
  by (simp add: timedelta_sec_def)

lemma timedelta_sec_mono: "s \<le> t \<Longrightarrow> timedelta_sec s \<le> timedelta_sec t"
  by (simp add: timedelta_sec_def py_round_mono)

section \<open>Tables\<close>

text \<open>
  A table is the list of its rows with their primary keys, in insertion order. A statement
  \<open>UPDATE \<dots> WHERE p\<close> rewrites every row the condition holds of; its row count is the number of
  those rows. A new row takes the key after the greatest one, as SQLite's rowid does.
\<close>

type_synonym 'r table = "(int \<times> 'r) list"

definition ids :: "'r table \<Rightarrow> int list" where
  "ids t = map fst t"

definition tget :: "'r table \<Rightarrow> int \<Rightarrow> 'r option" where
  "tget t i = map_of t i"

definition update_where :: "(int \<Rightarrow> 'r \<Rightarrow> bool) \<Rightarrow> ('r \<Rightarrow> 'r) \<Rightarrow> 'r table \<Rightarrow> 'r table" where
  "update_where p f t = map (\<lambda>(i, r). (i, if p i r then f r else r)) t"

definition select_where :: "(int \<Rightarrow> 'r \<Rightarrow> bool) \<Rightarrow> 'r table \<Rightarrow> 'r table" where
  "select_where p t = filter (\<lambda>(i, r). p i r) t"

definition rowcount :: "(int \<Rightarrow> 'r \<Rightarrow> bool) \<Rightarrow> 'r table \<Rightarrow> nat" where
  "rowcount p t = length (select_where p t)"

definition set_row :: "int \<Rightarrow> ('r \<Rightarrow> 'r) \<Rightarrow> 'r table \<Rightarrow> 'r table" where
  "set_row i f t = update_where (\<lambda>j _. j = i) f t"

definition fresh_id :: "'r table \<Rightarrow> int" where
  "fresh_id t = 1 + foldr max (ids t) 0"

definition insert_row :: "'r \<Rightarrow> 'r table \<Rightarrow> 'r table" where
  "insert_row r t = t @ [(fresh_id t, r)]"

definition delete_where :: "(int \<Rightarrow> 'r \<Rightarrow> bool) \<Rightarrow> 'r table \<Rightarrow> 'r table" where
  "delete_where p t = filter (\<lambda>(i, r). \<not> p i r) t"

definition wf_table :: "'r table \<Rightarrow> bool" where
  "wf_table t \<longleftrightarrow> distinct (ids t) \<and> (\<forall>i \<in> set (ids t). 0 < i)"

definition all_rows :: "(int \<Rightarrow> 'r \<Rightarrow> bool) \<Rightarrow> 'r table \<Rightarrow> bool" where
  "all_rows p t \<longleftrightarrow> (\<forall>(i, r) \<in> set t. p i r)"

subsection \<open>Statements and lookups\<close>

lemma ids_update_where [simp, table_simps]: "ids (update_where p f t) = ids t"
  by (simp add: ids_def update_where_def case_prod_beta comp_def)

lemma ids_set_row [simp, table_simps]: "ids (set_row i f t) = ids t"
  by (simp add: set_row_def)

lemma ids_insert_row [simp, table_simps]: "ids (insert_row r t) = ids t @ [fresh_id t]"
  by (simp add: ids_def insert_row_def)

lemma fresh_id_update_where [simp, table_simps]: "fresh_id (update_where p f t) = fresh_id t"
  by (simp add: fresh_id_def)

lemma tget_update_where [simp, table_simps]:
  "tget (update_where p f t) i = map_option (\<lambda>r. if p i r then f r else r) (tget t i)"
  by (induction t) (auto simp: tget_def update_where_def)

lemma tget_set_row [simp, table_simps]:
  "tget (set_row i f t) j = (if j = i then map_option f (tget t j) else tget t j)"
  by (cases "tget t j") (auto simp: set_row_def)

lemma fresh_id_above: "i \<in> set (ids t) \<Longrightarrow> i < fresh_id t"
proof -
  have "x \<in> set xs \<Longrightarrow> x \<le> foldr max xs (0::int)" for x xs
    by (induction xs) auto
  then show "i \<in> set (ids t) \<Longrightarrow> i < fresh_id t"
    by (simp add: fresh_id_def) (metis add.commute le_imp_0_less less_add_one order_le_less_trans zle_add1_eq_le)
qed

lemma fresh_id_pos: "0 < fresh_id t"
proof -
  have "0 \<le> foldr max xs (0::int)" for xs by (induction xs) auto
  then show ?thesis by (simp add: fresh_id_def) (metis add.commute le_imp_0_less)
qed

lemma fresh_id_not_in: "fresh_id t \<notin> set (ids t)"
  using fresh_id_above by blast

lemma tget_None_iff: "tget t i = None \<longleftrightarrow> i \<notin> set (ids t)"
  by (simp add: tget_def ids_def map_of_eq_None_iff)

lemma tget_in_ids: "tget t i = Some r \<Longrightarrow> i \<in> set (ids t)"
  by (metis option.distinct(1) tget_None_iff)

lemma tget_in_set: "tget t i = Some r \<Longrightarrow> (i, r) \<in> set t"
  by (simp add: tget_def map_of_SomeD)

lemma tget_eqI: "wf_table t \<Longrightarrow> (i, r) \<in> set t \<Longrightarrow> tget t i = Some r"
  by (simp add: wf_table_def tget_def ids_def)

lemma tget_iff: "wf_table t \<Longrightarrow> (i, r) \<in> set t \<longleftrightarrow> tget t i = Some r"
  using tget_eqI tget_in_set by metis

lemma tget_fresh [simp, table_simps]: "tget t (fresh_id t) = None"
  by (simp add: tget_None_iff fresh_id_not_in)

lemma tget_insert_row [table_simps]:
  "tget (insert_row r t) i = (if i = fresh_id t then Some r else tget t i)"
  using fresh_id_not_in[of t]
  by (auto simp: tget_def insert_row_def map_add_def ids_def map_of_eq_None_iff[symmetric]
      split: option.split)

subsection \<open>Well-formed tables\<close>

lemma wf_update_where [simp, table_intros]: "wf_table (update_where p f t) \<longleftrightarrow> wf_table t"
  by (simp add: wf_table_def)

lemma wf_set_row [simp, table_intros]: "wf_table (set_row i f t) \<longleftrightarrow> wf_table t"
  by (simp add: wf_table_def)

lemma wf_insert_row [intro, table_intros]: "wf_table t \<Longrightarrow> wf_table (insert_row r t)"
  using fresh_id_not_in[of t] fresh_id_pos[of t] by (auto simp: wf_table_def)

lemma wf_Nil [simp]: "wf_table []"
  by (simp add: wf_table_def ids_def)

lemma ids_delete_where: "set (ids (delete_where p t)) \<subseteq> set (ids t)"
  by (auto simp: ids_def delete_where_def)

lemma wf_delete_where [intro, table_intros]: "wf_table t \<Longrightarrow> wf_table (delete_where p t)"
proof -
  assume wf: "wf_table t"
  then have "distinct (ids (delete_where p t))"
    by (simp add: wf_table_def ids_def delete_where_def distinct_map_filter)
  with wf ids_delete_where[of p t] show ?thesis by (auto simp: wf_table_def)
qed

subsection \<open>Row invariants\<close>

lemma all_rows_tget: "all_rows p t \<Longrightarrow> tget t i = Some r \<Longrightarrow> p i r"
  using tget_in_set[of t i r] by (auto simp: all_rows_def)

lemma all_rowsI: "wf_table t \<Longrightarrow> (\<And>i r. tget t i = Some r \<Longrightarrow> p i r) \<Longrightarrow> all_rows p t"
  by (auto simp: all_rows_def tget_iff)

lemma all_rows_update_where [table_intros]:
  "all_rows q t \<Longrightarrow> (\<And>i r. q i r \<Longrightarrow> p i r \<Longrightarrow> q i (f r)) \<Longrightarrow> all_rows q (update_where p f t)"
  by (auto simp: all_rows_def update_where_def)

lemma all_rows_set_row [table_intros]:
  "all_rows q t \<Longrightarrow> (\<And>r. q i r \<Longrightarrow> q i (f r)) \<Longrightarrow> all_rows q (set_row i f t)"
  by (auto simp: set_row_def intro: all_rows_update_where)

lemma all_rows_insert_row [table_intros]:
  "all_rows q t \<Longrightarrow> q (fresh_id t) r \<Longrightarrow> all_rows q (insert_row r t)"
  by (auto simp: all_rows_def insert_row_def)

lemma all_rows_Nil [simp]: "all_rows p []"
  by (simp add: all_rows_def)

subsection \<open>Selections and row counts\<close>

lemma select_where_iff: "wf_table t \<Longrightarrow> (i, r) \<in> set (select_where p t) \<longleftrightarrow> tget t i = Some r \<and> p i r"
  by (auto simp: select_where_def tget_iff)

lemma rowcount_pos_iff: "wf_table t \<Longrightarrow> 0 < rowcount p t \<longleftrightarrow> (\<exists>i r. tget t i = Some r \<and> p i r)"
  by (auto simp: rowcount_def select_where_def tget_iff[symmetric] filter_empty_conv)

lemma rowcount_zero_unchanged: "rowcount p t = 0 \<Longrightarrow> update_where p f t = t"
  by (induction t) (auto simp: rowcount_def select_where_def update_where_def split: if_splits)

lemma update_where_none:
  "wf_table t \<Longrightarrow> (\<And>i r. tget t i = Some r \<Longrightarrow> \<not> p i r) \<Longrightarrow> update_where p f t = t"
  by (rule rowcount_zero_unchanged) (metis gr0I rowcount_pos_iff)

lemma rowcount_le: "(\<And>i r. (i, r) \<in> set t \<Longrightarrow> p i r \<Longrightarrow> q i r) \<Longrightarrow> rowcount p t \<le> rowcount q t"
proof (induction t)
  case (Cons x t)
  then show ?case
  proof (cases x)
    case (Pair a b)
    have "rowcount p t \<le> rowcount q t" using Cons by auto
    moreover have "p a b \<Longrightarrow> q a b" using Cons.prems Pair by simp
    ultimately show ?thesis by (simp add: Pair rowcount_def select_where_def)
  qed
qed (simp add: rowcount_def select_where_def)

lemma rowcount_update_where:
  "rowcount q (update_where p f t) = rowcount (\<lambda>i r. q i (if p i r then f r else r)) t"
proof (induction t)
  case (Cons x t)
  then show ?case
    by (cases x) (simp add: rowcount_def select_where_def update_where_def)
qed (simp add: rowcount_def select_where_def update_where_def)

lemma rowcount_insert_row:
  "rowcount q (insert_row r t) = rowcount q t + (if q (fresh_id t) r then 1 else 0)"
  by (simp add: rowcount_def select_where_def insert_row_def)

lemma rowcount_card:
  assumes "wf_table t"
  shows "rowcount p t = card {i. \<exists>r. tget t i = Some r \<and> p i r}"
proof -
  have "distinct (map fst (select_where p t))"
    using assms by (simp add: wf_table_def ids_def select_where_def distinct_map_filter)
  then have "rowcount p t = card (set (map fst (select_where p t)))"
    by (simp only: rowcount_def distinct_card length_map)
  also have "set (map fst (select_where p t)) = {i. \<exists>r. tget t i = Some r \<and> p i r}"
    by (simp add: Domain_fst[symmetric] Domain_iff select_where_iff[OF assms] set_eq_iff)
  finally show ?thesis .
qed

lemma finite_selected: "finite {i. \<exists>r. tget t i = Some r \<and> p i r}"
  by (rule finite_subset[of _ "set (ids t)"]) (auto dest: tget_in_ids)

lemma rowcount_mono_rows:
  assumes "wf_table t" "wf_table t'"
    "\<And>i r. tget t i = Some r \<Longrightarrow> p i r \<Longrightarrow> \<exists>r'. tget t' i = Some r' \<and> q i r'"
  shows "rowcount p t \<le> rowcount q t'"
  unfolding rowcount_card[OF assms(1)] rowcount_card[OF assms(2)]
  by (rule card_mono[OF finite_selected]) (use assms(3) in blast)

text \<open>A statement addressed by primary key touches at most one row.\<close>

lemma rowcount_id_iff:
  "wf_table t \<Longrightarrow>
   0 < rowcount (\<lambda>j r. j = i \<and> q r) t \<longleftrightarrow> (\<exists>r. tget t i = Some r \<and> q r)"
  by (auto simp: rowcount_pos_iff)

section \<open>Dictionaries, JSON and exceptions\<close>

text \<open>
  A Python dictionary keeps insertion order: assigning an existing key replaces its value in
  place, a new key goes to the end. \<open>HOL-Library.AList\<close>'s \<open>update\<close> does just that.
\<close>

type_synonym 'v dict = "(string \<times> 'v) list"

definition dict_merge :: "('k \<times> 'v) list \<Rightarrow> ('k \<times> 'v) list \<Rightarrow> ('k \<times> 'v) list" where
  "dict_merge d e = fold (\<lambda>(k, v) acc. AList.update k v acc) e d"

datatype json =
    JNull
  | JBool bool
  | JInt int
  | JFloat rat
  | JStr string
  | JArr "json list"
  | JObj "(string \<times> json) list"

text \<open>Python's \<open>d.get(key)\<close>: a missing key reads as \<open>None\<close>, which JSON \<open>null\<close> also is.\<close>

definition jget :: "(string \<times> json) list \<Rightarrow> string \<Rightarrow> json" where
  "jget d k = (case map_of d k of None \<Rightarrow> JNull | Some v \<Rightarrow> v)"

definition opt_json :: "json option \<Rightarrow> (string \<times> json) list" where
  "opt_json p = (case p of Some (JObj d) \<Rightarrow> d | _ \<Rightarrow> [])"

lemma map_of_dict_merge: "map_of (dict_merge d e) = map_of d ++ map_of (rev e)"
proof (induction e arbitrary: d)
  case (Cons x e)
  obtain k v where [simp]: "x = (k, v)" by (cases x)
  have "map_of (dict_merge d (x # e)) = map_of (dict_merge (AList.update k v d) e)"
    by (simp add: dict_merge_def)
  also have "\<dots> = (map_of d)(k \<mapsto> v) ++ map_of (rev e)"
    by (simp only: Cons.IH update_conv')
  finally show ?case by (simp add: map_add_def fun_eq_iff split: option.split)
qed (simp add: dict_merge_def)

text \<open>
  Exceptions the modelled code raises, without their messages. \<open>is_value_error\<close>,
  \<open>is_lookup_error\<close>, \<open>is_runtime_error\<close> and \<open>is_os_error\<close> are the \<open>isinstance\<close> tests of the
  handlers that catch a class with its subclasses. A \<open>StorageOperationError\<close> carries the value of
  its classification and its reason code.
\<close>

datatype exn =
    LookupError
  | KeyError
  | TypeError
  | ValueError
  | RuntimeError
  | AssertionError
  | InvalidStateTransition
  | StateTransitionConflict
  | SyncAlreadyRunningError
  | OptionValidationError
  | NamingValidationError
  | LayoutValidationError
  | AttributeError
  | IndexError
  | OverflowError
  | StoragePathError
  | StorageOperationError string string
  | OSError
  | FileNotFoundError
  | FileExistsError

fun is_value_error :: "exn \<Rightarrow> bool" where
  "is_value_error ValueError = True"
| "is_value_error InvalidStateTransition = True"
| "is_value_error SyncAlreadyRunningError = True"
| "is_value_error OptionValidationError = True"
| "is_value_error NamingValidationError = True"
| "is_value_error LayoutValidationError = True"
| "is_value_error StoragePathError = True"
| "is_value_error _ = False"

fun is_lookup_error :: "exn \<Rightarrow> bool" where
  "is_lookup_error LookupError = True"
| "is_lookup_error KeyError = True"
| "is_lookup_error IndexError = True"
| "is_lookup_error _ = False"

fun is_runtime_error :: "exn \<Rightarrow> bool" where
  "is_runtime_error RuntimeError = True"
| "is_runtime_error StateTransitionConflict = True"
| "is_runtime_error (StorageOperationError c r) = True"
| "is_runtime_error _ = False"

fun is_os_error :: "exn \<Rightarrow> bool" where
  "is_os_error OSError = True"
| "is_os_error FileNotFoundError = True"
| "is_os_error FileExistsError = True"
| "is_os_error _ = False"

fun exn_name :: "exn \<Rightarrow> string" where
  "exn_name LookupError = ''LookupError''"
| "exn_name KeyError = ''KeyError''"
| "exn_name TypeError = ''TypeError''"
| "exn_name ValueError = ''ValueError''"
| "exn_name RuntimeError = ''RuntimeError''"
| "exn_name AssertionError = ''AssertionError''"
| "exn_name InvalidStateTransition = ''InvalidStateTransition''"
| "exn_name StateTransitionConflict = ''StateTransitionConflict''"
| "exn_name SyncAlreadyRunningError = ''SyncAlreadyRunningError''"
| "exn_name OptionValidationError = ''OptionValidationError''"
| "exn_name NamingValidationError = ''NamingValidationError''"
| "exn_name LayoutValidationError = ''LayoutValidationError''"
| "exn_name AttributeError = ''AttributeError''"
| "exn_name IndexError = ''IndexError''"
| "exn_name OverflowError = ''OverflowError''"
| "exn_name StoragePathError = ''StoragePathError''"
| "exn_name (StorageOperationError c r) = ''StorageOperationError''"
| "exn_name OSError = ''OSError''"
| "exn_name FileNotFoundError = ''FileNotFoundError''"
| "exn_name FileExistsError = ''FileExistsError''"

text \<open>A comprehension or generator that is consumed in order stops at the first element that raises.\<close>

fun map_results :: "('a \<Rightarrow> exn + 'b) \<Rightarrow> 'a list \<Rightarrow> exn + 'b list" where
  "map_results f [] = Inr []"
| "map_results f (x # xs) =
     (case f x of Inl e \<Rightarrow> Inl e
      | Inr y \<Rightarrow> (case map_results f xs of Inl e \<Rightarrow> Inl e | Inr ys \<Rightarrow> Inr (y # ys)))"

lemma map_results_Inr:
  "map_results f xs = Inr ys \<longleftrightarrow> list_all2 (\<lambda>x y. f x = Inr y) xs ys"
  by (induction f xs arbitrary: ys rule: map_results.induct)
     (auto simp: list_all2_Cons1 split: sum.splits)

definition last_n :: "nat \<Rightarrow> 'a list \<Rightarrow> 'a list" where
  "last_n n xs = drop (length xs - n) xs"

lemma length_last_n: "length (last_n n xs) = min n (length xs)"
  by (simp add: last_n_def)

end
