(* ===== verification/Models.thy ===== *)
theory Models
  imports Prelude
begin

text \<open>
  The data model of \<open>src/sluicery/db/models.py\<close>: the enumerations with their stored string
  values, one record per database table with the columns' names behind a table prefix, the column
  defaults, and the database as a record of tables. An encrypted column is the JSON value the code
  reads from it. Cookie sessions, users, releases and settings are not part of this record; a
  component that needs a setting takes its value as an argument.
\<close>

section \<open>Enumerations\<close>

datatype storage_kind = SK_Local | SK_Remote | SK_Mount
datatype profile_kind = PK_Video | PK_Music | PK_Other
datatype layout_strategy = LS_Flat | LS_Custom
datatype playlist_kind_hint = KH_Video | KH_Music | KH_Mixed
datatype missing_policy = MP_Leave | MP_Redownload | MP_Ignore
datatype item_membership = IM_Active | IM_Delisted
datatype worker_class = WC_Network | WC_Compute
datatype artifact_role = AR_Source | AR_Derived
datatype run_trigger = RT_Manual | RT_Schedule | RT_Api
datatype run_status = RS_Running | RS_Succeeded | RS_Failed | RS_Cancelled | RS_Skipped

datatype target_status =
    TG_Pending | TG_Queued | TG_Downloading | TG_Processing | TG_Downloaded
  | TG_Failed | TG_Unavailable | TG_Blocked | TG_Missing | TG_Ignored

datatype task_type =
    TT_Discover | TT_Download | TT_Verify | TT_Postprocess | TT_Publish | TT_Index
  | TT_Integrity_check | TT_Retention | TT_Update_ytdlp
  | TT_Noop | TT_Sleep | TT_Fail | TT_Fail_unavailable | TT_Fail_blocked | TT_Spawn

datatype task_status =
    TS_Pending | TS_Queued | TS_Running | TS_Succeeded
  | TS_Failed | TS_Unavailable | TS_Blocked | TS_Cancelled

primrec profile_kind_value :: "profile_kind \<Rightarrow> string" where
  "profile_kind_value PK_Video = ''video''"
| "profile_kind_value PK_Music = ''music''"
| "profile_kind_value PK_Other = ''other''"

primrec layout_strategy_value :: "layout_strategy \<Rightarrow> string" where
  "layout_strategy_value LS_Flat = ''flat''"
| "layout_strategy_value LS_Custom = ''custom''"

primrec run_status_value :: "run_status \<Rightarrow> string" where
  "run_status_value RS_Running = ''running''"
| "run_status_value RS_Succeeded = ''succeeded''"
| "run_status_value RS_Failed = ''failed''"
| "run_status_value RS_Cancelled = ''cancelled''"
| "run_status_value RS_Skipped = ''skipped''"

primrec run_trigger_value :: "run_trigger \<Rightarrow> string" where
  "run_trigger_value RT_Manual = ''manual''"
| "run_trigger_value RT_Schedule = ''schedule''"
| "run_trigger_value RT_Api = ''api''"

primrec task_status_value :: "task_status \<Rightarrow> string" where
  "task_status_value TS_Pending = ''pending''"
| "task_status_value TS_Queued = ''queued''"
| "task_status_value TS_Running = ''running''"
| "task_status_value TS_Succeeded = ''succeeded''"
| "task_status_value TS_Failed = ''failed''"
| "task_status_value TS_Unavailable = ''unavailable''"
| "task_status_value TS_Blocked = ''blocked''"
| "task_status_value TS_Cancelled = ''cancelled''"

primrec task_type_value :: "task_type \<Rightarrow> string" where
  "task_type_value TT_Discover = ''discover''"
| "task_type_value TT_Download = ''download''"
| "task_type_value TT_Verify = ''verify''"
| "task_type_value TT_Postprocess = ''postprocess''"
| "task_type_value TT_Publish = ''publish''"
| "task_type_value TT_Index = ''index''"
| "task_type_value TT_Integrity_check = ''integrity_check''"
| "task_type_value TT_Retention = ''retention''"
| "task_type_value TT_Update_ytdlp = ''update_ytdlp''"
| "task_type_value TT_Noop = ''noop''"
| "task_type_value TT_Sleep = ''sleep''"
| "task_type_value TT_Fail = ''fail''"
| "task_type_value TT_Fail_unavailable = ''fail_unavailable''"
| "task_type_value TT_Fail_blocked = ''fail_blocked''"
| "task_type_value TT_Spawn = ''spawn''"

section \<open>Tables\<close>

record storage =
  st_name :: string
  st_kind :: storage_kind
  st_enabled :: bool
  st_config_json :: "json option"
  st_credentials :: "json option"
  st_last_check_at :: "instant option"
  st_last_check_result_json :: "json option"
  st_created_at :: instant
  st_updated_at :: instant

record profile =
  pf_name :: string
  pf_description :: "string option"
  pf_kind :: profile_kind
  pf_ytdlp_args :: "string option"
  pf_format_selector :: "string option"
  pf_output_template :: "string option"
  pf_layout_strategy :: layout_strategy
  pf_audio_extract :: "bool option"
  pf_audio_format :: "string option"
  pf_audio_quality :: "string option"
  pf_container :: "string option"
  pf_embed_metadata :: "bool option"
  pf_embed_thumbnail :: "bool option"
  pf_embed_chapters :: "bool option"
  pf_subtitle_langs :: "string option"
  pf_subtitle_auto :: "bool option"
  pf_subtitle_embed :: "bool option"
  pf_expert_mode :: bool
  pf_allow_exec :: bool
  pf_concurrent_fragments :: "int option"
  pf_postprocess_chain_json :: "json option"
  pf_created_at :: instant
  pf_updated_at :: instant

record playlist =
  pl_name :: string
  pl_folder_name :: string
  pl_url :: string
  pl_enabled :: bool
  pl_kind_hint :: playlist_kind_hint
  pl_paused :: bool
  pl_ytdlp_args :: "string option"
  pl_discover_cron :: "string option"
  pl_download_cron :: "string option"
  pl_retention_policy_json :: "json option"
  pl_missing_policy :: missing_policy
  pl_dedup_hardlink :: bool
  pl_cookie_enabled :: bool
  pl_cookies :: "json option"
  pl_last_discover_at :: "instant option"
  pl_last_download_at :: "instant option"
  pl_created_at :: instant
  pl_updated_at :: instant

record playlist_profile =
  pp_playlist_id :: int
  pp_profile_id :: int
  pp_storage_id :: int
  pp_subpath :: string
  pp_enabled :: bool
  pp_sort_order :: int
  pp_created_at :: instant
  pp_updated_at :: instant

record item =
  it_playlist_id :: int
  it_source_id :: string
  it_source_url :: string
  it_title :: "string option"
  it_uploader :: "string option"
  it_duration :: "int option"
  it_upload_date :: "string option"
  it_playlist_index :: "int option"
  it_membership :: item_membership
  it_metadata_json :: "json option"
  it_first_seen_at :: instant
  it_last_seen_at :: instant
  it_delisted_at :: "instant option"
  it_created_at :: instant
  it_updated_at :: instant

record target =
  tg_item_id :: int
  tg_playlist_profile_id :: int
  tg_status :: target_status
  tg_retry_count :: int
  tg_last_error :: "string option"
  tg_last_attempt_at :: "instant option"
  tg_blocked_reason :: "string option"
  tg_downloaded_at :: "instant option"
  tg_created_at :: instant
  tg_updated_at :: instant

record artifact =
  ar_target_id :: int
  ar_role :: artifact_role
  ar_storage_id :: int
  ar_relative_path :: string
  ar_absolute_path_cache :: "string option"
  ar_container :: "string option"
  ar_format_id :: "string option"
  ar_video_codec :: "string option"
  ar_audio_codec :: "string option"
  ar_filesize :: "int option"
  ar_duration :: "int option"
  ar_checksum :: "string option"
  ar_produced_by_task_id :: "int option"
  ar_verified_at :: "instant option"
  ar_missing_since :: "instant option"
  ar_manual_link_previous_path :: "string option"
  ar_manual_linked_at :: "instant option"
  ar_created_at :: instant
  ar_updated_at :: instant

record task =
  tk_type :: task_type
  tk_target_ref_type :: string
  tk_target_ref_id :: int
  tk_payload_json :: "json option"
  tk_worker_class :: worker_class
  tk_priority :: int
  tk_status :: task_status
  tk_depends_on_task_id :: "int option"
  tk_attempts :: int
  tk_max_attempts :: int
  tk_scheduled_at :: "instant option"
  tk_started_at :: "instant option"
  tk_finished_at :: "instant option"
  tk_available_at :: "instant option"
  tk_blocked_until :: "instant option"
  tk_blocked_reason :: "string option"
  tk_heartbeat_at :: "instant option"
  tk_worker_id :: "string option"
  tk_cancel_requested :: bool
  tk_error_message :: "string option"
  tk_log_excerpt :: "string option"
  tk_run_id :: "int option"
  tk_created_at :: instant

record run =
  rn_trigger :: run_trigger
  rn_kind :: string
  rn_playlist_id :: "int option"
  rn_status :: run_status
  rn_started_at :: instant
  rn_finished_at :: "instant option"
  rn_stats_json :: "json option"
  rn_log_path :: "string option"

text \<open>A row as the constructor call of the code leaves it: the given columns, defaults elsewhere.\<close>

definition new_task :: "task_type \<Rightarrow> string \<Rightarrow> int \<Rightarrow> json option \<Rightarrow> worker_class \<Rightarrow> int
    \<Rightarrow> int option \<Rightarrow> instant \<Rightarrow> task" where
  "new_task ty rty rid payload wc max_attempts run_id now =
     \<lparr>tk_type = ty, tk_target_ref_type = rty, tk_target_ref_id = rid, tk_payload_json = payload,
      tk_worker_class = wc, tk_priority = 0, tk_status = TS_Pending, tk_depends_on_task_id = None,
      tk_attempts = 0, tk_max_attempts = max_attempts, tk_scheduled_at = None,
      tk_started_at = None, tk_finished_at = None, tk_available_at = None,
      tk_blocked_until = None, tk_blocked_reason = None, tk_heartbeat_at = None,
      tk_worker_id = None, tk_cancel_requested = False, tk_error_message = None,
      tk_log_excerpt = None, tk_run_id = run_id, tk_created_at = now\<rparr>"

definition new_target :: "int \<Rightarrow> int \<Rightarrow> instant \<Rightarrow> target" where
  "new_target item_id pp_id now =
     \<lparr>tg_item_id = item_id, tg_playlist_profile_id = pp_id, tg_status = TG_Pending,
      tg_retry_count = 0, tg_last_error = None, tg_last_attempt_at = None,
      tg_blocked_reason = None, tg_downloaded_at = None, tg_created_at = now, tg_updated_at = now\<rparr>"

definition new_run :: "run_trigger \<Rightarrow> string \<Rightarrow> int \<Rightarrow> instant \<Rightarrow> run" where
  "new_run trig kind playlist_id now =
     \<lparr>rn_trigger = trig, rn_kind = kind, rn_playlist_id = Some playlist_id,
      rn_status = RS_Running, rn_started_at = now, rn_finished_at = None,
      rn_stats_json = None, rn_log_path = None\<rparr>"

record db =
  db_storages :: "storage table"
  db_profiles :: "profile table"
  db_playlists :: "playlist table"
  db_assignments :: "playlist_profile table"
  db_items :: "item table"
  db_targets :: "target table"
  db_artifacts :: "artifact table"
  db_tasks :: "task table"
  db_runs :: "run table"

definition empty_db :: db where
  "empty_db = \<lparr>db_storages = [], db_profiles = [], db_playlists = [], db_assignments = [],
     db_items = [], db_targets = [], db_artifacts = [], db_tasks = [], db_runs = []\<rparr>"

text \<open>Hook events the code emits (\<open>emit_safely\<close>): their type and their payload.\<close>

datatype event = Event string "(string \<times> json) list"

end
