(* ===== verification/Task_Repository.thy ===== *)
theory Task_Repository
  imports Models
begin

text \<open>
  The task queue: every operation of \<open>TaskRepository\<close> in
  \<open>src/sluicery/db/repositories/task.py\<close> as a function on the task table. A conditional
  \<open>UPDATE \<dots> WHERE\<close> is \<open>update_where\<close> with the code's condition and values, its result the row
  count or the returned column. Each operation reads the clock at most once; \<open>now\<close> is that reading.
  The second half states what the operations do to a single task: the ownership, timing and retry
  invariant of a row, and the status graph the operations move along.
\<close>

section \<open>Status classes and ownership\<close>

definition waiting_statuses :: "task_status list" where
  "waiting_statuses = [TS_Pending, TS_Queued, TS_Blocked]"

definition claimable_statuses :: "task_status list" where
  "claimable_statuses = [TS_Pending, TS_Queued, TS_Blocked]"

definition waiting :: "task \<Rightarrow> bool" where
  "waiting t \<longleftrightarrow> tk_status t \<in> set waiting_statuses"

definition claimable :: "task \<Rightarrow> bool" where
  "claimable t \<longleftrightarrow> tk_status t \<in> set claimable_statuses"

text \<open>The condition every worker-side statement carries: this task, running, owned by this worker.\<close>

definition owned :: "int \<Rightarrow> string \<Rightarrow> int \<Rightarrow> task \<Rightarrow> bool" where
  "owned tid w i t \<longleftrightarrow> i = tid \<and> tk_status t = TS_Running \<and> tk_worker_id t = Some w"

section \<open>Enqueueing and listing\<close>

definition enqueue :: "task_type \<Rightarrow> string \<Rightarrow> int \<Rightarrow> json option \<Rightarrow> worker_class \<Rightarrow> int
    \<Rightarrow> int option \<Rightarrow> instant \<Rightarrow> task table \<Rightarrow> int \<times> task table" where
  "enqueue ty rty rid payload wc max_attempts run_id now ts =
     (fresh_id ts,
      insert_row ((new_task ty rty rid payload wc max_attempts run_id now)
                    \<lparr>tk_status := TS_Queued\<rparr>) ts)"

definition list_pending :: "task table \<Rightarrow> task table" where
  "list_pending ts = select_where (\<lambda>_ t. waiting t) ts"

definition list_filtered :: "task_status option \<Rightarrow> worker_class option \<Rightarrow> task table \<Rightarrow> task table" where
  "list_filtered st wc ts =
     rev (sort_key fst
       (select_where (\<lambda>_ t. (st = None \<or> st = Some (tk_status t)) \<and>
                            (wc = None \<or> wc = Some (tk_worker_class t))) ts))"

section \<open>Claiming\<close>

definition dependency_succeeded :: "task table \<Rightarrow> task \<Rightarrow> bool" where
  "dependency_succeeded ts t = (case tk_depends_on_task_id t of
       None \<Rightarrow> True
     | Some d \<Rightarrow> list_ex (\<lambda>(j, u). j = d \<and> tk_status u = TS_Succeeded) ts)"

text \<open>A comparison with a NULL column is not true in SQL, so it selects nothing.\<close>

definition at_or_before :: "instant option \<Rightarrow> instant \<Rightarrow> bool" where
  "at_or_before x now = (case x of None \<Rightarrow> False | Some a \<Rightarrow> a \<le> now)"

definition time_eligible :: "instant \<Rightarrow> task \<Rightarrow> bool" where
  "time_eligible now t \<longleftrightarrow>
     (tk_available_at t = None \<or> at_or_before (tk_available_at t) now) \<and>
     ((tk_status t \<noteq> TS_Blocked \<and> tk_blocked_until t = None) \<or>
      at_or_before (tk_blocked_until t) now)"

definition running_download_count :: "task table \<Rightarrow> nat" where
  "running_download_count ts =
     rowcount (\<lambda>_ t. tk_type t = TT_Download \<and> tk_status t = TS_Running) ts"

definition item_slot_available :: "task table \<Rightarrow> worker_class \<Rightarrow> int option \<Rightarrow> task \<Rightarrow> bool" where
  "item_slot_available ts wc item_concurrency t = (case item_concurrency of
       None \<Rightarrow> True
     | Some n \<Rightarrow> wc \<noteq> WC_Network \<or> tk_type t \<noteq> TT_Download
                \<or> int (running_download_count ts) < n)"

definition candidate_where ::
  "task table \<Rightarrow> worker_class \<Rightarrow> int option \<Rightarrow> instant \<Rightarrow> int \<Rightarrow> task \<Rightarrow> bool" where
  "candidate_where ts wc item_concurrency now i t \<longleftrightarrow>
     claimable t \<and> tk_worker_class t = wc \<and> \<not> tk_cancel_requested t \<and>
     time_eligible now t \<and> dependency_succeeded ts t \<and>
     item_slot_available ts wc item_concurrency t"

text \<open>
  The order of the candidates, \<open>priority DESC, scheduled_at ASC, id ASC\<close>, with SQLite's NULL before
  every value, as a linear order on the sort key.
\<close>

datatype claim_key = ClaimKey (ck_priority: int) (ck_scheduled_at: "instant option") (ck_id: int)

definition claim_tuple :: "claim_key \<Rightarrow> int \<times> instant option \<times> int" where
  "claim_tuple k = (- ck_priority k, ck_scheduled_at k, ck_id k)"

lemma claim_tuple_inject [simp]: "claim_tuple k = claim_tuple l \<longleftrightarrow> k = l"
  by (cases k; cases l) (simp add: claim_tuple_def)

instantiation claim_key :: linorder
begin

definition less_eq_claim_key :: "claim_key \<Rightarrow> claim_key \<Rightarrow> bool" where
  "less_eq_claim_key k l \<longleftrightarrow> claim_tuple k \<le> claim_tuple l"

definition less_claim_key :: "claim_key \<Rightarrow> claim_key \<Rightarrow> bool" where
  "less_claim_key k l \<longleftrightarrow> claim_tuple k < claim_tuple l"

instance
proof
  fix k l m :: claim_key
  show "(k < l) = (k \<le> l \<and> \<not> l \<le> k)"
    by (simp only: less_eq_claim_key_def less_claim_key_def less_le_not_le)
  show "k \<le> k" by (simp add: less_eq_claim_key_def)
  show "k \<le> l \<Longrightarrow> l \<le> m \<Longrightarrow> k \<le> m" by (metis less_eq_claim_key_def order_trans)
  show "k \<le> l \<Longrightarrow> l \<le> k \<Longrightarrow> k = l"
    by (metis claim_tuple_inject less_eq_claim_key_def order_antisym)
  show "k \<le> l \<or> l \<le> k" by (simp only: less_eq_claim_key_def linear)
qed

end

definition claim_key :: "int \<times> task \<Rightarrow> claim_key" where
  "claim_key = (\<lambda>(i, t). ClaimKey (tk_priority t) (tk_scheduled_at t) i)"

definition claim_candidate ::
  "task table \<Rightarrow> worker_class \<Rightarrow> int option \<Rightarrow> instant \<Rightarrow> int option" where
  "claim_candidate ts wc item_concurrency now =
     (case sort_key claim_key (select_where (candidate_where ts wc item_concurrency now) ts) of
        [] \<Rightarrow> None
      | (i, _) # _ \<Rightarrow> Some i)"

definition claim_row :: "string \<Rightarrow> instant \<Rightarrow> task \<Rightarrow> task" where
  "claim_row w now t = t\<lparr>tk_status := TS_Running, tk_worker_id := Some w,
     tk_started_at := Some now, tk_heartbeat_at := Some now, tk_finished_at := None,
     tk_available_at := None, tk_blocked_until := None, tk_blocked_reason := None\<rparr>"

definition claim_next :: "worker_class \<Rightarrow> string \<Rightarrow> instant \<Rightarrow> int option \<Rightarrow> task table
    \<Rightarrow> (exn + int option) \<times> task table" where
  "claim_next wc w now item_concurrency ts =
     (if (case item_concurrency of None \<Rightarrow> False | Some n \<Rightarrow> n < 1) then (Inl ValueError, ts)
      else (case claim_candidate ts wc item_concurrency now of
          None \<Rightarrow> (Inr None, ts)
        | Some c \<Rightarrow>
            (let p = (\<lambda>i t. i = c \<and> claimable t)
             in (Inr (map_option fst (List.find (\<lambda>(i, t). p i t) ts)),
                 update_where p (claim_row w now) ts))))"

section \<open>Worker-side updates\<close>

definition heartbeat :: "int \<Rightarrow> string \<Rightarrow> instant \<Rightarrow> task table \<Rightarrow> bool option \<times> task table" where
  "heartbeat tid w now ts =
     (map_option (\<lambda>(_, t). tk_cancel_requested t) (List.find (\<lambda>(i, t). owned tid w i t) ts),
      update_where (owned tid w) (\<lambda>t. t\<lparr>tk_heartbeat_at := Some now\<rparr>) ts)"

definition write_result_payload ::
  "int \<Rightarrow> string \<Rightarrow> (string \<times> json) list \<Rightarrow> task table \<Rightarrow> bool \<times> task table" where
  "write_result_payload tid w vals ts =
     (case List.find (\<lambda>(i, t). owned tid w i t) ts of
        None \<Rightarrow> (False, ts)
      | Some (_, task) \<Rightarrow>
          (let payload = dict_merge (opt_json (tk_payload_json task)) vals
           in (0 < rowcount (owned tid w) ts,
               update_where (owned tid w) (\<lambda>t. t\<lparr>tk_payload_json := Some (JObj payload)\<rparr>) ts)))"

definition finish_row :: "task_status \<Rightarrow> string option \<Rightarrow> instant \<Rightarrow> task \<Rightarrow> task" where
  "finish_row st msg now t = t\<lparr>tk_status := st, tk_finished_at := Some now,
     tk_worker_id := None, tk_heartbeat_at := None, tk_cancel_requested := False,
     tk_error_message := msg\<rparr>"

definition finish_task :: "int \<Rightarrow> string \<Rightarrow> task_status \<Rightarrow> string option \<Rightarrow> instant \<Rightarrow> task table
    \<Rightarrow> bool \<times> task table" where
  "finish_task tid w st msg now ts =
     (0 < rowcount (owned tid w) ts, update_where (owned tid w) (finish_row st msg now) ts)"

subsection \<open>Cancelling everything behind a task\<close>

definition waiting_children :: "task table \<Rightarrow> int list \<Rightarrow> int list" where
  "waiting_children ts frontier =
     map fst (select_where (\<lambda>_ t. (case tk_depends_on_task_id t of
         None \<Rightarrow> False | Some d \<Rightarrow> d \<in> set frontier) \<and> waiting t) ts)"

definition cancel_row :: "instant \<Rightarrow> task \<Rightarrow> task" where
  "cancel_row now t = t\<lparr>tk_status := TS_Cancelled, tk_finished_at := Some now,
     tk_cancel_requested := False\<rparr>"

definition cancel_ids :: "instant \<Rightarrow> int list \<Rightarrow> task table \<Rightarrow> task table" where
  "cancel_ids now cs ts = update_where (\<lambda>i t. i \<in> set cs \<and> waiting t) (cancel_row now) ts"

definition waiting_count :: "task table \<Rightarrow> nat" where
  "waiting_count ts = rowcount (\<lambda>_ t. waiting t) ts"

lemma waiting_cancel_row [simp]: "\<not> waiting (cancel_row now t)"
  by (simp add: waiting_def cancel_row_def waiting_statuses_def)

lemma waiting_children_mem:
  "i \<in> set (waiting_children ts fs) \<longleftrightarrow>
   (\<exists>t. (i, t) \<in> set ts \<and> waiting t \<and> (\<exists>d \<in> set fs. tk_depends_on_task_id t = Some d))"
  by (force simp: waiting_children_def select_where_def split: option.splits)

lemma cancel_ids_decreases:
  assumes "waiting_children ts fs \<noteq> []"
  shows "waiting_count (cancel_ids now (waiting_children ts fs) ts) < waiting_count ts"
proof -
  let ?cs = "waiting_children ts fs"
  obtain i t where it: "(i, t) \<in> set ts" "waiting t" "i \<in> set ?cs"
    using assms waiting_children_mem by (metis list.set_intros(1) neq_Nil_conv)
  have "length (filter (\<lambda>(i, t). waiting t \<and> i \<notin> set cs) us) \<le> length (filter (\<lambda>(_, t). waiting t) us)"
    for cs and us :: "task table" by (induction us) auto
  moreover have "(i, t) \<in> set us \<Longrightarrow> waiting t \<Longrightarrow> i \<in> set cs \<Longrightarrow>
      length (filter (\<lambda>(i, t). waiting t \<and> i \<notin> set cs) us) < length (filter (\<lambda>(_, t). waiting t) us)"
    for cs and us :: "task table"
  proof (induction us)
    case (Cons u us)
    have "length (filter (\<lambda>(i, t). waiting t \<and> i \<notin> set cs) us) \<le> length (filter (\<lambda>(_, t). waiting t) us)"
      by (induction us) auto
    with Cons show ?case by auto
  qed simp
  moreover have "waiting_count (cancel_ids now cs ts) = length (filter (\<lambda>(i, t). waiting t \<and> i \<notin> set cs) ts)" for cs
    by (simp add: waiting_count_def cancel_ids_def rowcount_update_where)
       (simp add: rowcount_def select_where_def case_prod_beta, intro arg_cong[where f = length] filter_cong, auto)
  ultimately show ?thesis
    using it by (simp add: waiting_count_def rowcount_def select_where_def)
qed

function cancel_loop :: "instant \<Rightarrow> int list \<Rightarrow> nat \<Rightarrow> task table \<Rightarrow> nat \<times> task table" where
  "cancel_loop now frontier n ts =
     (if frontier = [] then (n, ts)
      else (let child_ids = waiting_children ts frontier
            in if child_ids = [] then (n, ts)
               else cancel_loop now child_ids
                      (n + rowcount (\<lambda>i t. i \<in> set child_ids \<and> waiting t) ts)
                      (cancel_ids now child_ids ts)))"
  by pat_completeness auto
termination
  by (relation "measure (\<lambda>(now, fs, n, ts). waiting_count ts)") (auto simp: cancel_ids_decreases)

declare cancel_loop.simps [simp del]

definition cancel_descendants :: "int \<Rightarrow> instant \<Rightarrow> task table \<Rightarrow> nat \<times> task table" where
  "cancel_descendants tid now ts = cancel_loop now [tid] 0 ts"

subsection \<open>Settling a task\<close>

definition mark_succeeded :: "int \<Rightarrow> string \<Rightarrow> instant \<Rightarrow> task table \<Rightarrow> bool \<times> task table" where
  "mark_succeeded tid w now ts = finish_task tid w TS_Succeeded None now ts"

definition finish_and_cancel ::
  "int \<Rightarrow> string \<Rightarrow> task_status \<Rightarrow> string option \<Rightarrow> instant \<Rightarrow> task table \<Rightarrow> bool \<times> task table" where
  "finish_and_cancel tid w st msg now ts =
     (case finish_task tid w st msg now ts of
        (changed, ts') \<Rightarrow>
          (changed, if changed then snd (cancel_descendants tid now ts') else ts'))"

definition mark_unavailable ::
  "int \<Rightarrow> string \<Rightarrow> string option \<Rightarrow> instant \<Rightarrow> task table \<Rightarrow> bool \<times> task table" where
  "mark_unavailable tid w msg now ts = finish_and_cancel tid w TS_Unavailable msg now ts"

definition mark_failed ::
  "int \<Rightarrow> string \<Rightarrow> string option \<Rightarrow> instant \<Rightarrow> task table \<Rightarrow> bool \<times> task table" where
  "mark_failed tid w msg now ts = finish_and_cancel tid w TS_Failed msg now ts"

definition mark_cancelled :: "int \<Rightarrow> string \<Rightarrow> instant \<Rightarrow> task table \<Rightarrow> bool \<times> task table" where
  "mark_cancelled tid w now ts = finish_and_cancel tid w TS_Cancelled None now ts"

text \<open>
  \<open>UPDATE \<dots> RETURNING status\<close> with \<open>scalar_one_or_none\<close>: the new status of the one row addressed.
\<close>

definition returning_status :: "(int \<Rightarrow> task \<Rightarrow> bool) \<Rightarrow> (task \<Rightarrow> task) \<Rightarrow> task table \<Rightarrow> task_status option" where
  "returning_status p f ts = map_option (\<lambda>(_, t). tk_status (f t)) (List.find (\<lambda>(i, t). p i t) ts)"

definition retry_row :: "rat \<Rightarrow> string option \<Rightarrow> instant \<Rightarrow> task \<Rightarrow> task" where
  "retry_row retry_delay msg failed_at t =
     (let next_attempts = tk_attempts t + 1;
          cancel = tk_cancel_requested t;
          exhausted = (tk_max_attempts t \<le> next_attempts)
      in t\<lparr>tk_status := (if cancel then TS_Cancelled else if exhausted then TS_Unavailable else TS_Pending),
           tk_attempts := (if cancel then tk_attempts t else next_attempts),
           tk_available_at := (if cancel \<or> exhausted then None
                               else Some (failed_at + timedelta_sec retry_delay)),
           tk_finished_at := (if cancel \<or> exhausted then Some failed_at else None),
           tk_error_message := msg, tk_worker_id := None, tk_started_at := None,
           tk_heartbeat_at := None, tk_cancel_requested := False\<rparr>)"

definition mark_failed_for_retry ::
  "int \<Rightarrow> string \<Rightarrow> rat \<Rightarrow> string option \<Rightarrow> instant \<Rightarrow> task table \<Rightarrow> task_status option \<times> task table" where
  "mark_failed_for_retry tid w retry_delay msg now ts =
     (let f = retry_row retry_delay msg now;
          status = returning_status (owned tid w) f ts;
          ts' = update_where (owned tid w) f ts
      in (status,
          if status = Some TS_Unavailable \<or> status = Some TS_Cancelled
          then snd (cancel_descendants tid now ts') else ts'))"

definition block_row :: "rat \<Rightarrow> string option \<Rightarrow> instant \<Rightarrow> task \<Rightarrow> task" where
  "block_row retry_after reason blocked_at t =
     (let cancel = tk_cancel_requested t
      in t\<lparr>tk_status := (if cancel then TS_Cancelled else TS_Blocked),
           tk_blocked_until := (if cancel then None else Some (blocked_at + timedelta_sec retry_after)),
           tk_blocked_reason := (if cancel then None else reason),
           tk_worker_id := None, tk_started_at := None, tk_heartbeat_at := None,
           tk_finished_at := (if cancel then Some blocked_at else None),
           tk_available_at := None, tk_cancel_requested := False,
           tk_error_message := (if cancel then None else reason)\<rparr>)"

definition mark_blocked ::
  "int \<Rightarrow> string \<Rightarrow> rat \<Rightarrow> string option \<Rightarrow> instant \<Rightarrow> task table \<Rightarrow> bool \<times> task table" where
  "mark_blocked tid w retry_after reason now ts =
     (let f = block_row retry_after reason now;
          status = returning_status (owned tid w) f ts;
          ts' = update_where (owned tid w) f ts
      in (status \<noteq> None,
          if status = Some TS_Cancelled then snd (cancel_descendants tid now ts') else ts'))"

definition release_row :: "instant \<Rightarrow> task \<Rightarrow> task" where
  "release_row now t = t\<lparr>tk_status := TS_Pending, tk_available_at := Some now,
     tk_worker_id := None, tk_started_at := None, tk_heartbeat_at := None,
     tk_finished_at := None, tk_cancel_requested := False\<rparr>"

definition release_for_shutdown :: "int \<Rightarrow> string \<Rightarrow> instant \<Rightarrow> task table \<Rightarrow> bool \<times> task table" where
  "release_for_shutdown tid w now ts =
     (0 < rowcount (owned tid w) ts, update_where (owned tid w) (release_row now) ts)"

section \<open>Operator and application side\<close>

definition request_cancel_row :: "instant \<Rightarrow> task \<Rightarrow> task" where
  "request_cancel_row now t =
     (if tk_status t = TS_Running then t\<lparr>tk_cancel_requested := True\<rparr>
      else t\<lparr>tk_status := TS_Cancelled, tk_finished_at := Some now, tk_cancel_requested := False,
             tk_worker_id := None, tk_started_at := None, tk_heartbeat_at := None,
             tk_available_at := None, tk_blocked_until := None, tk_blocked_reason := None\<rparr>)"

definition request_cancel :: "int \<Rightarrow> instant \<Rightarrow> task table \<Rightarrow> bool \<times> task table" where
  "request_cancel tid now ts =
     (let p = (\<lambda>i t. i = tid \<and> (tk_status t = TS_Running \<or> waiting t));
          f = request_cancel_row now;
          status = returning_status p f ts;
          ts' = update_where p f ts
      in (status \<noteq> None,
          if status = Some TS_Cancelled then snd (cancel_descendants tid now ts') else ts'))"

definition request_cancel_run :: "int \<Rightarrow> instant \<Rightarrow> task table \<Rightarrow> nat \<times> task table" where
  "request_cancel_run run_id now ts =
     (let p = (\<lambda>_ t. tk_run_id t = Some run_id \<and> waiting t);
          ts' = update_where p (\<lambda>t. t\<lparr>tk_status := TS_Cancelled, tk_finished_at := Some now,
                  tk_cancel_requested := False, tk_worker_id := None, tk_started_at := None,
                  tk_heartbeat_at := None\<rparr>) ts;
          q = (\<lambda>_ t. tk_run_id t = Some run_id \<and> tk_status t = TS_Running)
      in (rowcount p ts + rowcount q ts',
          update_where q (\<lambda>t. t\<lparr>tk_cancel_requested := True\<rparr>) ts'))"

definition retry :: "int \<Rightarrow> instant \<Rightarrow> task table \<Rightarrow> bool \<times> task table" where
  "retry tid now ts =
     (let p = (\<lambda>i t. i = tid \<and> tk_status t \<noteq> TS_Running)
      in (0 < rowcount p ts,
          update_where p (\<lambda>t. t\<lparr>tk_status := TS_Pending, tk_attempts := 0,
             tk_available_at := Some now, tk_blocked_until := None, tk_blocked_reason := None,
             tk_cancel_requested := False, tk_finished_at := None, tk_error_message := None,
             tk_worker_id := None, tk_started_at := None, tk_heartbeat_at := None\<rparr>) ts))"

definition before :: "instant option \<Rightarrow> instant \<Rightarrow> bool" where
  "before x limit = (case x of None \<Rightarrow> False | Some a \<Rightarrow> a < limit)"

definition stale_condition :: "instant \<Rightarrow> task \<Rightarrow> bool" where
  "stale_condition stale_before t \<longleftrightarrow>
     before (tk_heartbeat_at t) stale_before \<or>
     (tk_heartbeat_at t = None \<and> before (tk_started_at t) stale_before)"

definition recover_row :: "task_status \<Rightarrow> int \<Rightarrow> bool \<Rightarrow> instant \<Rightarrow> task \<Rightarrow> task" where
  "recover_row st attempts terminal now t = t\<lparr>tk_status := st, tk_attempts := attempts,
     tk_available_at := (if terminal then None else Some now),
     tk_finished_at := (if terminal then Some now else None),
     tk_worker_id := None, tk_started_at := None, tk_heartbeat_at := None\<rparr>"

text \<open>
  The loop over the candidates read first; the state is the table, the recovered and the terminal
  ids. The attempts come from the row as it was read, the update checks status and time again.
\<close>

fun recover_loop :: "instant \<Rightarrow> instant \<Rightarrow> task table \<Rightarrow> int list \<times> int list \<times> task table
    \<Rightarrow> int list \<times> int list \<times> task table" where
  "recover_loop stale_before now [] st = st"
| "recover_loop stale_before now ((i, t) # candidates) (recovered, terminal_ids, ts) =
     (let attempts = tk_attempts t + 1;
          terminal = (tk_max_attempts t \<le> attempts);
          status = (if terminal then TS_Unavailable else TS_Pending);
          p = (\<lambda>j u. j = i \<and> tk_status u = TS_Running \<and> stale_condition stale_before u);
          ts' = update_where p (recover_row status attempts terminal now) ts
      in recover_loop stale_before now candidates
           (if 0 < rowcount p ts
            then (recovered @ [i], if terminal then terminal_ids @ [i] else terminal_ids, ts')
            else (recovered, terminal_ids, ts')))"

definition recover_stale :: "instant \<Rightarrow> instant \<Rightarrow> task table \<Rightarrow> int list \<times> task table" where
  "recover_stale stale_before now ts =
     (let candidates = select_where (\<lambda>_ t. tk_status t = TS_Running \<and> stale_condition stale_before t) ts
      in case recover_loop stale_before now candidates ([], [], ts) of
           (recovered, terminal_ids, ts') \<Rightarrow>
             (recovered, fold (\<lambda>i us. snd (cancel_descendants i now us)) terminal_ids ts'))"

text \<open>
  \<open>write_progress\<close> patches the payload with SQLite's \<open>json_patch\<close>, which is the parameter here.
\<close>

definition write_progress :: "(json \<Rightarrow> json \<Rightarrow> json) \<Rightarrow> int \<Rightarrow> (string \<times> json) list \<Rightarrow> string option
    \<Rightarrow> task table \<Rightarrow> bool \<times> task table" where
  "write_progress json_patch tid progress w ts =
     (let patch = JObj [(''progress'', JObj progress)];
          p = (\<lambda>i t. i = tid \<and> (case w of None \<Rightarrow> True
                   | Some w' \<Rightarrow> tk_status t = TS_Running \<and> tk_worker_id t = Some w'))
      in (0 < rowcount p ts,
          update_where p (\<lambda>t. t\<lparr>tk_payload_json :=
             Some (json_patch (case tk_payload_json t of None \<Rightarrow> JObj [] | Some v \<Rightarrow> v) patch)\<rparr>) ts))"

end
