(* ===== verification/Task_Queue.thy ===== *)
theory Task_Queue
  imports Task_Repository
begin

text \<open>
  What each queue operation does, as equations and lookups the later theories use: the closure that
  \<open>cancel_descendants\<close> computes, the row a claim picks, and the shape every settling operation has,
  one conditional update of the owned row followed by cancelling what waits behind it.
\<close>

section \<open>The tasks waiting behind a task\<close>

inductive waits_on :: "task table \<Rightarrow> int set \<Rightarrow> int \<Rightarrow> bool" for ts and roots where
  direct: "(i, t) \<in> set ts \<Longrightarrow> waiting t \<Longrightarrow> tk_depends_on_task_id t = Some d \<Longrightarrow> d \<in> roots
    \<Longrightarrow> waits_on ts roots i"
| behind: "waits_on ts roots j \<Longrightarrow> (i, t) \<in> set ts \<Longrightarrow> waiting t \<Longrightarrow> tk_depends_on_task_id t = Some j
    \<Longrightarrow> waits_on ts roots i"

lemma waits_on_empty: "waits_on ts {} i \<Longrightarrow> False"
  by (induction rule: waits_on.induct) auto

lemma cancel_ids_waiting_row:
  "(i, t) \<in> set (cancel_ids now cs ts) \<Longrightarrow> waiting t \<Longrightarrow> (i, t) \<in> set ts \<and> i \<notin> set cs"
  by (auto simp: cancel_ids_def update_where_def split: if_splits)

lemma cancel_ids_other_row: "(i, t) \<in> set ts \<Longrightarrow> i \<notin> set cs \<Longrightarrow> (i, t) \<in> set (cancel_ids now cs ts)"
  by (force simp: cancel_ids_def update_where_def)

lemma waits_on_step:
  fixes ts fs now
  defines "cs \<equiv> waiting_children ts fs"
  shows "waits_on ts (set fs) i \<longleftrightarrow> i \<in> set cs \<or> waits_on (cancel_ids now cs ts) (set cs) i"
proof
  assume "waits_on ts (set fs) i"
  then show "i \<in> set cs \<or> waits_on (cancel_ids now cs ts) (set cs) i"
  proof (induction rule: waits_on.induct)
    case (direct i t d)
    then show ?case unfolding cs_def waiting_children_mem by blast
  next
    case (behind j i t)
    show ?case
    proof (cases "i \<in> set cs")
      case False
      then have "(i, t) \<in> set (cancel_ids now cs ts)"
        using behind.hyps by (blast intro: cancel_ids_other_row)
      with behind show ?thesis by (blast intro: waits_on.intros)
    qed simp
  qed
next
  have c: "waits_on ts (set fs) j" if "j \<in> set cs" for j
    using that unfolding cs_def waiting_children_mem by (blast intro: waits_on.direct)
  have "waits_on ts (set fs) i" if "waits_on (cancel_ids now cs ts) (set cs) i"
    using that
  proof (induction rule: waits_on.induct)
    case (direct i t d)
    then show ?case using c cancel_ids_waiting_row by (blast intro: waits_on.behind)
  next
    case (behind j i t)
    then show ?case using cancel_ids_waiting_row by (blast intro: waits_on.behind)
  qed
  with c show "i \<in> set cs \<or> waits_on (cancel_ids now cs ts) (set cs) i \<Longrightarrow> waits_on ts (set fs) i"
    by blast
qed

lemma rowcount_disjoint:
  "rowcount p ts + rowcount (\<lambda>i t. \<not> p i t \<and> q i t) ts = rowcount (\<lambda>i t. p i t \<or> q i t) ts"
  by (induction ts) (auto simp: rowcount_def select_where_def)

lemma cancel_loop_eq:
  "cancel_loop now fs n ts =
    (n + rowcount (\<lambda>i t. waiting t \<and> waits_on ts (set fs) i) ts,
     update_where (\<lambda>i t. waiting t \<and> waits_on ts (set fs) i) (cancel_row now) ts)"
proof (induction now fs n ts rule: cancel_loop.induct)
  case (1 now fs n ts)
  let ?cs = "waiting_children ts fs"
  let ?ts = "cancel_ids now ?cs ts"
  let ?p = "\<lambda>i t. i \<in> set ?cs \<and> waiting t"
  let ?q = "\<lambda>i t. waiting t \<and> waits_on ?ts (set ?cs) i"
  have stop: ?case if "fs = [] \<or> ?cs = []"
  proof -
    have "\<not> waits_on ts (set fs) i" for i
      using that waits_on_empty waits_on_step[of ts fs i now] by force
    then show ?thesis using that
      by (auto simp: cancel_loop.simps[of now fs n ts] Let_def rowcount_zero_unchanged rowcount_def
          select_where_def)
  qed
  show ?case
  proof (cases "fs = [] \<or> ?cs = []")
    case False
    then have IH: "cancel_loop now fs n ts =
       (n + rowcount ?p ts + rowcount ?q ?ts, update_where ?q (cancel_row now) ?ts)"
      using 1 by (simp add: cancel_loop.simps[of now fs n ts] Let_def)
    have split: "waiting t \<and> waits_on ts (set fs) i \<longleftrightarrow> ?p i t \<or> ?q i t" for i t
      using waits_on_step[of ts fs i now] by blast
    have "rowcount ?q ?ts = rowcount (\<lambda>i t. \<not> ?p i t \<and> ?q i t) ts"
      by (simp add: cancel_ids_def rowcount_update_where) (rule arg_cong[where f = "\<lambda>p. rowcount p ts"], auto)
    moreover have "update_where ?q (cancel_row now) ?ts =
        update_where (\<lambda>i t. ?p i t \<or> ?q i t) (cancel_row now) ts"
      by (subst (2) cancel_ids_def) (auto simp: update_where_def)
    ultimately show ?thesis
      using IH by (simp add: split rowcount_disjoint[of ?p, symmetric])
  qed (rule stop)
qed

lemma cancel_descendants_eq:
  "cancel_descendants tid now ts =
    (rowcount (\<lambda>i t. waiting t \<and> waits_on ts {tid} i) ts,
     update_where (\<lambda>i t. waiting t \<and> waits_on ts {tid} i) (cancel_row now) ts)"
  by (simp add: cancel_descendants_def cancel_loop_eq)

text \<open>Cancelling behind several tasks, one after the other, cancels the closure of them all.\<close>

definition cancel_behind :: "instant \<Rightarrow> int set \<Rightarrow> task table \<Rightarrow> task table" where
  "cancel_behind now S ts = update_where (\<lambda>i t. waiting t \<and> waits_on ts S i) (cancel_row now) ts"

lemma waits_on_mono: "waits_on ts S i \<Longrightarrow> S \<subseteq> T \<Longrightarrow> waits_on ts T i"
  by (induction rule: waits_on.induct) (blast intro: waits_on.intros)+

lemma cancel_behind_waiting_row:
  "(i, t) \<in> set (cancel_behind now S ts) \<Longrightarrow> waiting t \<Longrightarrow> (i, t) \<in> set ts \<and> \<not> waits_on ts S i"
  by (auto simp: cancel_behind_def update_where_def split: if_splits)

lemma cancel_behind_other_row:
  "(i, t) \<in> set ts \<Longrightarrow> \<not> waits_on ts S i \<Longrightarrow> (i, t) \<in> set (cancel_behind now S ts)"
  by (force simp: cancel_behind_def update_where_def)

lemma waits_on_insert:
  "waits_on ts (insert k S) i \<longleftrightarrow> waits_on ts S i \<or> waits_on (cancel_behind now S ts) {k} i"
proof
  assume "waits_on ts (insert k S) i"
  then show "waits_on ts S i \<or> waits_on (cancel_behind now S ts) {k} i"
  proof (induction rule: waits_on.induct)
    case (direct i t d)
    then show ?case
      using cancel_behind_other_row waits_on.direct by (metis insertE singletonI)
  next
    case (behind j i t)
    then show ?case using cancel_behind_other_row waits_on.behind by metis
  qed
next
  have "waits_on ts (insert k S) i" if "waits_on (cancel_behind now S ts) {k} i"
    using that
  proof (induction rule: waits_on.induct)
    case (direct i t d)
    then show ?case using cancel_behind_waiting_row by (blast intro: waits_on.direct)
  next
    case (behind j i t)
    then show ?case using cancel_behind_waiting_row by (blast intro: waits_on.behind)
  qed
  then show "waits_on ts S i \<or> waits_on (cancel_behind now S ts) {k} i \<Longrightarrow> waits_on ts (insert k S) i"
    using waits_on_mono[of ts S i "insert k S"] by blast
qed

lemma cancel_behind_empty: "cancel_behind now {} ts = ts"
proof -
  have "\<not> waits_on ts {} i" for i using waits_on_empty by blast
  then show ?thesis by (simp add: cancel_behind_def update_where_def)
qed

lemma cancel_descendants_behind: "snd (cancel_descendants k now ts) = cancel_behind now {k} ts"
  by (simp add: cancel_descendants_eq cancel_behind_def)

lemma cancel_behind_insert:
  "cancel_behind now {k} (cancel_behind now S ts) = cancel_behind now (insert k S) ts"
proof -
  have "cancel_behind now {k} (cancel_behind now S ts) = update_where (\<lambda>i t. waiting t \<and>
      (waits_on ts S i \<or> waits_on (cancel_behind now S ts) {k} i)) (cancel_row now) ts"
    by (subst cancel_behind_def, subst (2) cancel_behind_def) (auto simp: update_where_def)
  then show ?thesis by (simp only: waits_on_insert[of ts k S _ now] cancel_behind_def)
qed

lemma fold_cancel_behind:
  "fold (\<lambda>k us. snd (cancel_descendants k now us)) ks (cancel_behind now S ts) =
   cancel_behind now (S \<union> set ks) ts"
  by (induction ks arbitrary: S) (simp_all add: cancel_descendants_behind cancel_behind_insert)

lemma fold_cancel_descendants:
  "fold (\<lambda>k us. snd (cancel_descendants k now us)) ks ts = cancel_behind now (set ks) ts"
  using fold_cancel_behind[of now ks "{}" ts] by (simp add: cancel_behind_empty)

section \<open>What an operation can do to one row\<close>

text \<open>
  All operations but a claim and a pipeline insert update the row they address and then cancel
  waiting rows; \<open>cancels_only\<close> is the second part, for any number of cancellations.
\<close>

definition cancels_only :: "task \<Rightarrow> task \<Rightarrow> bool" where
  "cancels_only t u \<longleftrightarrow> u = t \<or> (waiting t \<and> (\<exists>now. u = cancel_row now t))"

lemma cancels_only_refl [simp]: "cancels_only t t"
  by (simp add: cancels_only_def)

lemma cancels_only_trans: "cancels_only t u \<Longrightarrow> cancels_only u v \<Longrightarrow> cancels_only t v"
  by (auto simp: cancels_only_def)

lemma ids_cancel_descendants [simp, table_simps]: "ids (snd (cancel_descendants tid now ts)) = ids ts"
  by (simp add: cancel_descendants_eq)

lemma wf_cancel_descendants [simp, table_intros]:
  "wf_table (snd (cancel_descendants tid now ts)) = wf_table ts"
  by (simp add: cancel_descendants_eq)

lemma cancel_descendants_row:
  "tget ts i = Some t \<Longrightarrow> \<exists>u. tget (snd (cancel_descendants tid now ts)) i = Some u \<and> cancels_only t u"
  by (auto simp: cancel_descendants_eq cancels_only_def)

lemma cancel_descendants_row_back:
  "tget (snd (cancel_descendants tid now ts)) i = Some u \<Longrightarrow> \<exists>t. tget ts i = Some t \<and> cancels_only t u"
  by (auto simp: cancel_descendants_eq cancels_only_def)

lemma cancel_descendants_not_waiting:
  "tget ts i = Some t \<Longrightarrow> \<not> waiting t \<Longrightarrow> tget (snd (cancel_descendants tid now ts)) i = Some t"
  by (simp add: cancel_descendants_eq)

lemma all_rows_cancel_descendants [table_intros]:
  "all_rows q ts \<Longrightarrow> (\<And>i t now. q i t \<Longrightarrow> waiting t \<Longrightarrow> q i (cancel_row now t))
   \<Longrightarrow> all_rows q (snd (cancel_descendants tid now ts))"
  by (auto simp: cancel_descendants_eq intro: all_rows_update_where)

section \<open>Claims\<close>

lemma find_tget:
  assumes "wf_table ts"
  shows "List.find (\<lambda>(i, t). i = c \<and> q t) ts =
    (case tget ts c of None \<Rightarrow> None | Some t \<Rightarrow> if q t then Some (c, t) else None)"
proof (cases "\<exists>t. tget ts c = Some t \<and> q t")
  case True
  then obtain t where t: "tget ts c = Some t" "q t" by blast
  then have "(c, t) \<in> set ts" by (simp add: tget_in_set)
  then obtain x where x: "List.find (\<lambda>(i, t). i = c \<and> q t) ts = Some x"
    using t by (cases "List.find (\<lambda>(i, t). i = c \<and> q t) ts") (auto simp: find_None_iff)
  then have "x \<in> set ts" "fst x = c"
    by (auto simp: find_Some_iff) (metis nth_mem)
  then have "x = (c, t)"
    using t assms by (metis prod.collapse tget_eqI option.inject)
  with x t show ?thesis by simp
next
  case False
  then have "List.find (\<lambda>(i, t). i = c \<and> q t) ts = None"
    using assms by (auto simp: find_None_iff tget_iff)
  with False show ?thesis by (auto split: option.splits)
qed

lemma find_owned:
  assumes "wf_table ts"
  shows "List.find (\<lambda>(i, t). owned tid w i t) ts =
    (case tget ts tid of None \<Rightarrow> None | Some t \<Rightarrow> if owned tid w tid t then Some (tid, t) else None)"
  using find_tget[OF assms, of tid "\<lambda>t. tk_status t = TS_Running \<and> tk_worker_id t = Some w"]
  by (simp add: owned_def cong: option.case_cong)

lemma claim_candidate_Some:
  assumes "wf_table ts" "claim_candidate ts wc k now = Some c"
  obtains t where "tget ts c = Some t" "candidate_where ts wc k now c t"
    "\<And>j u. tget ts j = Some u \<Longrightarrow> candidate_where ts wc k now j u \<Longrightarrow> claim_key (c, t) \<le> claim_key (j, u)"
proof -
  let ?sel = "select_where (candidate_where ts wc k now) ts"
  let ?s = "sort_key claim_key ?sel"
  obtain t rest where s: "?s = (c, t) # rest"
    using assms(2) by (auto simp: claim_candidate_def split: list.splits)
  have "sorted (map claim_key ?s)" by simp
  then have min: "claim_key (c, t) \<le> claim_key x" if "x \<in> set ?sel" for x
  proof -
    have "set ?sel = insert (c, t) (set rest)" using s set_sort[of claim_key ?sel] by simp
    with that \<open>sorted (map claim_key ?s)\<close> s show ?thesis by auto
  qed
  have "(c, t) \<in> set ?sel" using s set_sort[of claim_key ?sel] by (metis list.set_intros(1))
  then show ?thesis
    using that min assms(1) by (metis select_where_iff)
qed

lemma claim_candidate_None:
  "wf_table ts \<Longrightarrow> claim_candidate ts wc k now = None \<longleftrightarrow>
     (\<forall>i t. tget ts i = Some t \<longrightarrow> \<not> candidate_where ts wc k now i t)"
proof -
  assume wf: "wf_table ts"
  let ?sel = "select_where (candidate_where ts wc k now) ts"
  have "claim_candidate ts wc k now = None \<longleftrightarrow> sort_key claim_key ?sel = []"
    by (auto simp: claim_candidate_def split: list.splits)
  also have "\<dots> \<longleftrightarrow> set ?sel = {}"
    by (metis set_empty2 set_sort)
  also have "\<dots> \<longleftrightarrow> (\<forall>i t. tget ts i = Some t \<longrightarrow> \<not> candidate_where ts wc k now i t)"
    using select_where_iff[OF wf, of _ _ "candidate_where ts wc k now"]
    by (metis equals0D equals0I prod.collapse)
  finally show ?thesis .
qed

lemma candidate_claimable: "candidate_where ts wc k now i t \<Longrightarrow> claimable t"
  by (simp add: candidate_where_def)

lemma claimable_eq_waiting: "claimable t \<longleftrightarrow> waiting t"
  by (simp add: claimable_def waiting_def claimable_statuses_def waiting_statuses_def)

lemma waiting_not_running: "waiting t \<Longrightarrow> tk_status t \<noteq> TS_Running"
  by (auto simp: waiting_def waiting_statuses_def)

definition bad_concurrency :: "int option \<Rightarrow> bool" where
  "bad_concurrency k \<longleftrightarrow> (case k of None \<Rightarrow> False | Some n \<Rightarrow> n < 1)"

text \<open>A claim is one of three: refused arguments, nothing to do, or one row moved to running.\<close>

lemma claim_next_cases:
  assumes "wf_table ts"
  obtains
    (refused) "bad_concurrency k" "claim_next wc w now k ts = (Inl ValueError, ts)"
  | (idle) "\<not> bad_concurrency k" "claim_candidate ts wc k now = None"
      "claim_next wc w now k ts = (Inr None, ts)"
  | (claimed) c t where "\<not> bad_concurrency k" "claim_candidate ts wc k now = Some c"
      "tget ts c = Some t" "candidate_where ts wc k now c t"
      "claim_next wc w now k ts = (Inr (Some c), set_row c (claim_row w now) ts)"
proof (cases "bad_concurrency k")
  case True
  then show ?thesis by (intro refused) (auto simp: claim_next_def bad_concurrency_def)
next
  case ok: False
  show ?thesis
  proof (cases "claim_candidate ts wc k now")
    case None
    with ok show ?thesis by (intro idle) (auto simp: claim_next_def bad_concurrency_def split: option.splits)
  next
    case (Some c)
    with assms obtain t where t: "tget ts c = Some t" "candidate_where ts wc k now c t"
      by (blast elim: claim_candidate_Some)
    have "update_where (\<lambda>i t. i = c \<and> claimable t) (claim_row w now) ts = set_row c (claim_row w now) ts"
      using t assms candidate_claimable[OF t(2)] by (auto simp: set_row_def update_where_def tget_iff)
    moreover have "List.find (\<lambda>(i, t). i = c \<and> claimable t) ts = Some (c, t)"
      using find_tget[OF assms, of c claimable] t candidate_claimable[OF t(2)] by simp
    ultimately have "claim_next wc w now k ts = (Inr (Some c), set_row c (claim_row w now) ts)"
      using ok Some by (auto simp: claim_next_def bad_concurrency_def split: option.splits)
    with ok Some t show ?thesis by (intro claimed) auto
  qed
qed

section \<open>Settling operations\<close>

lemma finish_task_eq: "finish_task tid w st msg now ts =
    (0 < rowcount (owned tid w) ts, update_where (owned tid w) (finish_row st msg now) ts)"
  by (fact finish_task_def)

lemma rowcount_owned_iff:
  "wf_table ts \<Longrightarrow> 0 < rowcount (owned tid w) ts \<longleftrightarrow> (\<exists>t. tget ts tid = Some t \<and> owned tid w tid t)"
  by (auto simp: rowcount_pos_iff owned_def)

lemma returning_status_owned:
  "wf_table ts \<Longrightarrow> returning_status (owned tid w) f ts =
    (case tget ts tid of None \<Rightarrow> None
       | Some t \<Rightarrow> if owned tid w tid t then Some (tk_status (f t)) else None)"
  by (simp add: returning_status_def find_owned split: option.splits)

lemma update_owned_eq:
  "wf_table ts \<Longrightarrow> tget ts tid = Some t \<Longrightarrow> owned tid w tid t \<Longrightarrow>
   update_where (owned tid w) f ts = set_row tid f ts"
  by (auto simp: set_row_def update_where_def owned_def tget_iff)

lemma update_not_owned:
  "wf_table ts \<Longrightarrow> \<nexists>t. tget ts tid = Some t \<and> owned tid w tid t \<Longrightarrow> update_where (owned tid w) f ts = ts"
  by (rule rowcount_zero_unchanged) (metis gr0I rowcount_owned_iff)

end
