(* ===== verification/Task_Lifecycle.thy ===== *)
theory Task_Lifecycle
  imports Task_Queue
begin

text \<open>
  The queue as a whole: its operations as data, one step of the table per operation, and what any
  sequence of them keeps. Every operation acts on one row at a time (\<open>op_effect\<close>) and then cancels
  waiting rows, so the invariants, the status graph and the ownership rule are proved row by row.
\<close>

section \<open>The operations as steps\<close>

datatype task_op =
    Enqueue task_type string int "json option" worker_class int "int option" instant
  | Claim worker_class string instant "int option"
  | Heartbeat int string instant
  | Write_result int string "(string \<times> json) list"
  | Succeed int string instant
  | Unavailable int string "string option" instant
  | Fail int string "string option" instant
  | Cancelled int string instant
  | Fail_retry int string rat "string option" instant
  | Block int string rat "string option" instant
  | Release int string instant
  | Request_cancel int instant
  | Request_cancel_run int instant
  | Retry int instant
  | Cancel_descendants int instant
  | Recover instant instant
  | Progress int "(string \<times> json) list" "string option"

fun exec_op :: "(json \<Rightarrow> json \<Rightarrow> json) \<Rightarrow> task_op \<Rightarrow> task table \<Rightarrow> task table" where
  "exec_op jp (Enqueue ty rty rid payload wc ma run_id now) ts =
     snd (enqueue ty rty rid payload wc ma run_id now ts)"
| "exec_op jp (Claim wc w now k) ts = snd (claim_next wc w now k ts)"
| "exec_op jp (Heartbeat tid w now) ts = snd (heartbeat tid w now ts)"
| "exec_op jp (Write_result tid w vals) ts = snd (write_result_payload tid w vals ts)"
| "exec_op jp (Succeed tid w now) ts = snd (mark_succeeded tid w now ts)"
| "exec_op jp (Unavailable tid w msg now) ts = snd (mark_unavailable tid w msg now ts)"
| "exec_op jp (Fail tid w msg now) ts = snd (mark_failed tid w msg now ts)"
| "exec_op jp (Cancelled tid w now) ts = snd (mark_cancelled tid w now ts)"
| "exec_op jp (Fail_retry tid w d msg now) ts = snd (mark_failed_for_retry tid w d msg now ts)"
| "exec_op jp (Block tid w d reason now) ts = snd (mark_blocked tid w d reason now ts)"
| "exec_op jp (Release tid w now) ts = snd (release_for_shutdown tid w now ts)"
| "exec_op jp (Request_cancel tid now) ts = snd (request_cancel tid now ts)"
| "exec_op jp (Request_cancel_run rid now) ts = snd (request_cancel_run rid now ts)"
| "exec_op jp (Retry tid now) ts = snd (retry tid now ts)"
| "exec_op jp (Cancel_descendants tid now) ts = snd (cancel_descendants tid now ts)"
| "exec_op jp (Recover sb now) ts = snd (recover_stale sb now ts)"
| "exec_op jp (Progress tid p w) ts = snd (write_progress jp tid p w ts)"

definition exec_ops :: "(json \<Rightarrow> json \<Rightarrow> json) \<Rightarrow> task_op list \<Rightarrow> task table \<Rightarrow> task table" where
  "exec_ops jp ops ts = fold (exec_op jp) ops ts"

text \<open>The worker an operation acts for; operator and application operations act for none.\<close>

fun op_worker :: "task_op \<Rightarrow> string option" where
  "op_worker (Claim wc w now k) = Some w"
| "op_worker (Heartbeat tid w now) = Some w"
| "op_worker (Write_result tid w vals) = Some w"
| "op_worker (Succeed tid w now) = Some w"
| "op_worker (Unavailable tid w msg now) = Some w"
| "op_worker (Fail tid w msg now) = Some w"
| "op_worker (Cancelled tid w now) = Some w"
| "op_worker (Fail_retry tid w d msg now) = Some w"
| "op_worker (Block tid w d reason now) = Some w"
| "op_worker (Release tid w now) = Some w"
| "op_worker (Progress tid p w) = w"
| "op_worker _ = None"

text \<open>What the callers guarantee: at least one attempt, and downloads on network workers.\<close>

fun op_ok :: "task_op \<Rightarrow> bool" where
  "op_ok (Enqueue ty rty rid payload wc ma run_id now) \<longleftrightarrow>
     1 \<le> ma \<and> (ty = TT_Download \<longrightarrow> wc = WC_Network)"
| "op_ok _ \<longleftrightarrow> True"

section \<open>The effect on one row\<close>

definition attempts_exhausted :: "task \<Rightarrow> bool" where
  "attempts_exhausted t \<longleftrightarrow> tk_max_attempts t \<le> tk_attempts t + 1"

definition recovered_row :: "instant \<Rightarrow> task \<Rightarrow> task" where
  "recovered_row now t =
     recover_row (if attempts_exhausted t then TS_Unavailable else TS_Pending)
       (tk_attempts t + 1) (attempts_exhausted t) now t"

fun op_effect :: "(json \<Rightarrow> json \<Rightarrow> json) \<Rightarrow> task_op \<Rightarrow> int \<Rightarrow> task \<Rightarrow> task \<Rightarrow> bool" where
  "op_effect jp (Enqueue ty rty rid payload wc ma run_id now) i t u \<longleftrightarrow> False"
| "op_effect jp (Claim wc w now k) i t u \<longleftrightarrow> waiting t \<and> \<not> tk_cancel_requested t \<and> u = claim_row w now t"
| "op_effect jp (Heartbeat tid w now) i t u \<longleftrightarrow> owned tid w i t \<and> u = t\<lparr>tk_heartbeat_at := Some now\<rparr>"
| "op_effect jp (Write_result tid w vals) i t u \<longleftrightarrow>
     owned tid w i t \<and> (\<exists>d. u = t\<lparr>tk_payload_json := d\<rparr>)"
| "op_effect jp (Succeed tid w now) i t u \<longleftrightarrow> owned tid w i t \<and> u = finish_row TS_Succeeded None now t"
| "op_effect jp (Unavailable tid w msg now) i t u \<longleftrightarrow> owned tid w i t \<and> u = finish_row TS_Unavailable msg now t"
| "op_effect jp (Fail tid w msg now) i t u \<longleftrightarrow> owned tid w i t \<and> u = finish_row TS_Failed msg now t"
| "op_effect jp (Cancelled tid w now) i t u \<longleftrightarrow> owned tid w i t \<and> u = finish_row TS_Cancelled None now t"
| "op_effect jp (Fail_retry tid w d msg now) i t u \<longleftrightarrow> owned tid w i t \<and> u = retry_row d msg now t"
| "op_effect jp (Block tid w d reason now) i t u \<longleftrightarrow> owned tid w i t \<and> u = block_row d reason now t"
| "op_effect jp (Release tid w now) i t u \<longleftrightarrow> owned tid w i t \<and> u = release_row now t"
| "op_effect jp (Request_cancel tid now) i t u \<longleftrightarrow>
     (tk_status t = TS_Running \<or> waiting t) \<and> u = request_cancel_row now t"
| "op_effect jp (Request_cancel_run rid now) i t u \<longleftrightarrow>
     (waiting t \<and> u = t\<lparr>tk_status := TS_Cancelled, tk_finished_at := Some now,
        tk_cancel_requested := False, tk_worker_id := None, tk_started_at := None,
        tk_heartbeat_at := None\<rparr>) \<or>
     (tk_status t = TS_Running \<and> u = t\<lparr>tk_cancel_requested := True\<rparr>)"
| "op_effect jp (Retry tid now) i t u \<longleftrightarrow> i = tid \<and> tk_status t \<noteq> TS_Running \<and>
     u = t\<lparr>tk_status := TS_Pending, tk_attempts := 0,
             tk_available_at := Some now, tk_blocked_until := None, tk_blocked_reason := None,
             tk_cancel_requested := False, tk_finished_at := None, tk_error_message := None,
             tk_worker_id := None, tk_started_at := None, tk_heartbeat_at := None\<rparr>"
| "op_effect jp (Cancel_descendants tid now) i t u \<longleftrightarrow> False"
| "op_effect jp (Recover sb now) i t u \<longleftrightarrow> tk_status t = TS_Running \<and> stale_condition sb t \<and>
     u = recovered_row now t"
| "op_effect jp (Progress tid p w) i t u \<longleftrightarrow> i = tid \<and>
     (case w of None \<Rightarrow> True | Some w' \<Rightarrow> owned tid w' i t) \<and> (\<exists>d. u = t\<lparr>tk_payload_json := d\<rparr>)"

definition row_change :: "(json \<Rightarrow> json \<Rightarrow> json) \<Rightarrow> task_op \<Rightarrow> int \<Rightarrow> task \<Rightarrow> task \<Rightarrow> bool" where
  "row_change jp op i t v \<longleftrightarrow> (\<exists>u. (u = t \<or> op_effect jp op i t u) \<and> cancels_only u v)"

lemma row_changeI1: "op_effect jp op i t v \<Longrightarrow> row_change jp op i t v"
  by (auto simp: row_change_def)

lemma row_change_refl [simp]: "row_change jp op i t t"
  by (auto simp: row_change_def)

lemma row_change_cancel: "row_change jp op i t u \<Longrightarrow> cancels_only u v \<Longrightarrow> row_change jp op i t v"
  unfolding row_change_def using cancels_only_trans by blast

text \<open>The two shapes of an operation's result: an update, or an update and then cancellations.\<close>

lemma update_where_row_change:
  assumes "tget ts i = Some t" "p i t \<Longrightarrow> op_effect jp op i t (f t)"
  shows "\<exists>v. tget (update_where p f ts) i = Some v \<and> row_change jp op i t v"
  using assms by (auto intro: row_changeI1)

lemma cancel_row_change:
  assumes "\<exists>v. tget us i = Some v \<and> row_change jp op i t v"
  shows "\<exists>v. tget (snd (cancel_descendants tid now us)) i = Some v \<and> row_change jp op i t v"
  using assms cancel_descendants_row row_change_cancel by blast

section \<open>Stale tasks\<close>

definition stale :: "instant \<Rightarrow> task \<Rightarrow> bool" where
  "stale sb t \<longleftrightarrow> tk_status t = TS_Running \<and> stale_condition sb t"

lemma recover_loop_eq:
  assumes "wf_table ts" "distinct (map fst cs)" "\<And>i t. (i, t) \<in> set cs \<Longrightarrow> tget ts i = Some t \<and> stale sb t"
  shows "recover_loop sb now cs (rs, ks, ts) =
    (rs @ map fst cs, ks @ map fst (filter (\<lambda>(i, t). attempts_exhausted t) cs),
     update_where (\<lambda>i _. i \<in> set (map fst cs)) (recovered_row now) ts)"
  using assms
proof (induction cs arbitrary: rs ks ts)
  case Nil
  then show ?case by (simp add: update_where_def)
next
  case (Cons c cs)
  obtain i t where c: "c = (i, t)" by (cases c)
  let ?p = "\<lambda>j u. j = i \<and> tk_status u = TS_Running \<and> stale_condition sb u"
  let ?f = "recover_row (if tk_max_attempts t \<le> tk_attempts t + 1 then TS_Unavailable else TS_Pending)
    (tk_attempts t + 1) (tk_max_attempts t \<le> tk_attempts t + 1) now"
  have t: "tget ts i = Some t" "stale sb t" using Cons.prems(3) c by auto
  then have row: "0 < rowcount ?p ts"
    using Cons.prems(1) by (auto simp: rowcount_pos_iff stale_def)
  have upd: "update_where ?p ?f ts = set_row i (recovered_row now) ts"
    using t Cons.prems(1)
    by (auto simp: update_where_def set_row_def recovered_row_def attempts_exhausted_def stale_def tget_iff)
  have i: "i \<notin> set (map fst cs)" using Cons.prems(2) c by auto
  then have "recover_loop sb now cs (rs @ [i], if attempts_exhausted t then ks @ [i] else ks,
        set_row i (recovered_row now) ts) =
      ((rs @ [i]) @ map fst cs,
       (if attempts_exhausted t then ks @ [i] else ks) @ map fst (filter (\<lambda>(i, t). attempts_exhausted t) cs),
       update_where (\<lambda>i _. i \<in> set (map fst cs)) (recovered_row now) (set_row i (recovered_row now) ts))"
    using Cons.prems by (intro Cons.IH) (force simp: c)+
  moreover have "update_where (\<lambda>i _. i \<in> set (map fst cs)) (recovered_row now) (set_row i (recovered_row now) ts) =
      update_where (\<lambda>j _. j \<in> set (map fst (c # cs))) (recovered_row now) ts"
    using i by (auto simp: update_where_def set_row_def c)
  ultimately show ?case
    using row upd by (auto simp: c Let_def attempts_exhausted_def)
qed

lemma recover_stale_eq:
  assumes "wf_table ts"
  shows "recover_stale sb now ts =
    (map fst (select_where (\<lambda>_. stale sb) ts),
     fold (\<lambda>i us. snd (cancel_descendants i now us))
       (map fst (select_where (\<lambda>_ t. stale sb t \<and> attempts_exhausted t) ts))
       (update_where (\<lambda>_. stale sb) (recovered_row now) ts))"
proof -
  let ?cs = "select_where (\<lambda>_. stale sb) ts"
  have cs: "select_where (\<lambda>_ t. tk_status t = TS_Running \<and> stale_condition sb t) ts = ?cs"
    by (simp add: stale_def[abs_def])
  have "distinct (map fst ?cs)"
    using assms by (simp add: wf_table_def ids_def select_where_def distinct_map_filter)
  moreover have "update_where (\<lambda>i _. i \<in> set (map fst ?cs)) (recovered_row now) ts =
      update_where (\<lambda>_. stale sb) (recovered_row now) ts"
    using assms by (force simp: update_where_def select_where_def tget_iff)
  moreover have "filter (\<lambda>(i, t). attempts_exhausted t) ?cs =
      select_where (\<lambda>_ t. stale sb t \<and> attempts_exhausted t) ts"
    by (simp add: select_where_def case_prod_unfold conj_commute)
  ultimately show ?thesis
    using recover_loop_eq[OF assms, of ?cs sb now "[]" "[]"] assms
    by (simp add: recover_stale_def cs select_where_iff)
qed

lemma fold_cancel_ids [simp]:
  "ids (fold (\<lambda>i us. snd (cancel_descendants i now us)) is ts) = ids ts"
  by (induction "is" arbitrary: ts) auto

lemma fold_cancel_row:
  "tget ts i = Some t \<Longrightarrow>
   \<exists>v. tget (fold (\<lambda>i us. snd (cancel_descendants i now us)) is ts) i = Some v \<and> cancels_only t v"
proof (induction "is" arbitrary: ts t)
  case (Cons a "is")
  obtain u where "tget (snd (cancel_descendants a now ts)) i = Some u" "cancels_only t u"
    using cancel_descendants_row[OF Cons.prems] by blast
  then show ?case using Cons.IH[of "snd (cancel_descendants a now ts)" u] cancels_only_trans by auto
qed simp

section \<open>Every operation, one row at a time\<close>

lemma finish_and_cancel_row_change:
  assumes "tget ts i = Some t" "owned tid w i t \<Longrightarrow> op_effect jp op i t (finish_row st msg now t)"
  shows "\<exists>v. tget (snd (finish_and_cancel tid w st msg now ts)) i = Some v \<and> row_change jp op i t v"
  using update_where_row_change[where p = "owned tid w" and f = "finish_row st msg now", OF assms] cancel_row_change
  by (auto simp: finish_and_cancel_def finish_task_def)

lemma claim_row_change:
  assumes "wf_table ts" "tget ts i = Some t"
  shows "\<exists>v. tget (snd (claim_next wc w now k ts)) i = Some v \<and> row_change jp (Claim wc w now k) i t v"
  using assms(1)
proof (cases rule: claim_next_cases[where wc = wc and w = w and now = now and k = k])
  case (claimed c u)
  have "row_change jp (Claim wc w now k) c u (claim_row w now u)"
    using claimed(4) by (intro row_changeI1) (simp add: candidate_where_def claimable_eq_waiting)
  with claimed assms show ?thesis by auto
qed (use assms in auto)

lemma exec_op_row:
  assumes "wf_table ts" "tget ts i = Some t"
  shows "\<exists>v. tget (exec_op jp op ts) i = Some v \<and> row_change jp op i t v"
proof (cases op)
  case (Enqueue ty rty rid payload wc ma run_id now)
  have "i \<noteq> fresh_id ts" using assms(2) tget_fresh[of ts] by auto
  with assms(2) show ?thesis by (auto simp: Enqueue enqueue_def tget_insert_row)
next
  case (Claim wc w now k)
  then show ?thesis using claim_row_change[OF assms] by simp
next
  case (Write_result tid w vals)
  then show ?thesis
    using assms(2) by (auto simp: write_result_payload_def Let_def split: option.splits
        intro!: row_changeI1)
next
  case (Recover sb now)
  let ?us = "update_where (\<lambda>_. stale sb) (recovered_row now) ts"
  obtain u where u: "tget ?us i = Some u" "row_change jp op i t u"
    using update_where_row_change[OF assms(2), of "\<lambda>_. stale sb" jp op "recovered_row now"]
    by (auto simp: Recover stale_def)
  let ?ks = "map fst (select_where (\<lambda>_ t. stale sb t \<and> attempts_exhausted t) ts)"
  obtain v where v: "tget (fold (\<lambda>i us. snd (cancel_descendants i now us)) ?ks ?us) i = Some v"
      "cancels_only u v"
    using fold_cancel_row[OF u(1)] by blast
  moreover have "exec_op jp op ts = fold (\<lambda>i us. snd (cancel_descendants i now us)) ?ks ?us"
    by (simp add: Recover recover_stale_eq[OF assms(1)])
  ultimately show ?thesis
    using row_change_cancel[OF u(2) v(2)] by metis
next
  case (Request_cancel_run rid now)
  show ?thesis using assms(2)
    by (auto simp: Request_cancel_run request_cancel_run_def Let_def row_change_def
        dest: waiting_not_running)
next
  case (Fail_retry tid w d msg now)
  then show ?thesis
    using update_where_row_change[OF assms(2), of "owned tid w" jp op "retry_row d msg now"] cancel_row_change
    by (auto simp: mark_failed_for_retry_def Let_def)
next
  case (Block tid w d msg now)
  then show ?thesis
    using update_where_row_change[OF assms(2), of "owned tid w" jp op "block_row d msg now"] cancel_row_change
    by (auto simp: mark_blocked_def Let_def)
next
  case (Request_cancel tid now)
  let ?p = "\<lambda>i t. i = tid \<and> (tk_status t = TS_Running \<or> waiting t)"
  show ?thesis
    using update_where_row_change[OF assms(2), of ?p jp op "request_cancel_row now"] cancel_row_change
    by (auto simp: Request_cancel request_cancel_def Let_def)
next
  case (Progress tid p w)
  then show ?thesis
    using assms(2) by (auto simp: write_progress_def Let_def owned_def split: option.splits
        intro!: row_changeI1)
next
  case (Retry tid now)
  then show ?thesis using assms(2) by (auto simp: retry_def Let_def intro!: row_changeI1)
next
  case (Cancel_descendants tid now)
  then show ?thesis using cancel_row_change[of ts i jp op t tid now] assms(2) by auto
qed (use assms(2) finish_and_cancel_row_change[OF assms(2)] update_where_row_change[OF assms(2)] in
     \<open>simp_all add: heartbeat_def mark_succeeded_def finish_task_def release_for_shutdown_def retry_def
        mark_unavailable_def mark_failed_def mark_cancelled_def Let_def\<close>)

lemma exec_op_rows_back:
  assumes "wf_table ts" "tget (exec_op jp op ts) i = Some v"
  shows "(\<exists>t. tget ts i = Some t \<and> row_change jp op i t v) \<or>
    (\<exists>ty rty rid payload wc ma run_id now. op = Enqueue ty rty rid payload wc ma run_id now \<and>
       v = (new_task ty rty rid payload wc ma run_id now)\<lparr>tk_status := TS_Queued\<rparr>)"
proof (cases "tget ts i")
  case (Some t)
  with exec_op_row[OF assms(1) Some, of jp op] assms(2) show ?thesis by auto
next
  case None
  show ?thesis
  proof (cases "\<exists>ty rty rid payload wc ma run_id now. op = Enqueue ty rty rid payload wc ma run_id now")
    case True
    with None assms(2) show ?thesis by (auto simp: enqueue_def tget_insert_row split: if_splits)
  next
    case False
    then have "ids (exec_op jp op ts) = ids ts"
      by (cases op) (simp_all add: heartbeat_def mark_succeeded_def finish_task_def
          release_for_shutdown_def retry_def mark_unavailable_def mark_failed_def mark_cancelled_def
          Let_def finish_and_cancel_def write_result_payload_def mark_failed_for_retry_def
          mark_blocked_def request_cancel_def request_cancel_run_def recover_stale_eq[OF assms(1)]
          write_progress_def claim_next_def split: option.splits)
    with None assms(2) show ?thesis by (metis option.distinct(1) tget_None_iff)
  qed
qed

lemma wf_exec_op [table_intros]:
  assumes "wf_table ts" shows "wf_table (exec_op jp op ts)"
proof (cases "\<exists>ty rty rid payload wc ma run_id now. op = Enqueue ty rty rid payload wc ma run_id now")
  case True
  with assms show ?thesis by (auto simp: enqueue_def)
next
  case False
  with assms show ?thesis
    by (cases op) (simp_all add: heartbeat_def mark_succeeded_def finish_task_def
          release_for_shutdown_def retry_def mark_unavailable_def mark_failed_def mark_cancelled_def
          Let_def finish_and_cancel_def write_result_payload_def mark_failed_for_retry_def
          mark_blocked_def request_cancel_def request_cancel_run_def recover_stale_eq
          write_progress_def claim_next_def wf_table_def split: option.splits)
qed

end
