(* ===== verification/Task_Theorems.thy ===== *)
theory Task_Theorems
  imports Task_Lifecycle
begin

text \<open>
  The properties of the task queue. An invariant of single rows is lifted to any sequence of
  operations by the locale \<open>task_row_invariant\<close>; the status graph, the ownership of running tasks,
  the choice and the progress of claims, and the exact effect of retries, cancellations and
  recoveries follow from the row view of an operation.
\<close>

section \<open>Invariants of rows\<close>

locale task_row_invariant =
  fixes ok :: "task_op \<Rightarrow> bool"
    and q :: "task \<Rightarrow> bool"
  assumes new_row: "ok (Enqueue ty rty rid payload wc ma run_id now) \<Longrightarrow>
      q ((new_task ty rty rid payload wc ma run_id now)\<lparr>tk_status := TS_Queued\<rparr>)"
    and effect: "ok op \<Longrightarrow> q t \<Longrightarrow> op_effect jp op i t u \<Longrightarrow> q u"
    and cancel: "q t \<Longrightarrow> waiting t \<Longrightarrow> q (cancel_row now t)"
begin

lemma row_change_keeps: "ok op \<Longrightarrow> q t \<Longrightarrow> row_change jp op i t v \<Longrightarrow> q v"
  unfolding row_change_def cancels_only_def using effect cancel by blast

lemma exec_op_keeps:
  assumes "wf_table ts" "all_rows (\<lambda>_. q) ts" "ok op"
  shows "all_rows (\<lambda>_. q) (exec_op jp op ts)"
proof (rule all_rowsI)
  show "wf_table (exec_op jp op ts)" using assms(1) by (rule wf_exec_op)
  fix i v
  assume "tget (exec_op jp op ts) i = Some v"
  from exec_op_rows_back[OF assms(1) this] show "q v"
  proof (elim disjE exE conjE)
    fix t
    assume "tget ts i = Some t" "row_change jp op i t v"
    then show "q v" by (blast intro: row_change_keeps[OF assms(3)] all_rows_tget[OF assms(2)])
  qed (use assms(3) new_row in simp)
qed

lemma exec_ops_keeps:
  "wf_table ts \<Longrightarrow> all_rows (\<lambda>_. q) ts \<Longrightarrow> list_all ok ops \<Longrightarrow>
   wf_table (exec_ops jp ops ts) \<and> all_rows (\<lambda>_. q) (exec_ops jp ops ts)"
proof (induction ops arbitrary: ts)
  case (Cons op ops)
  have "ok op" "list_all ok ops" using Cons.prems(3) by simp_all
  moreover have "exec_ops jp (op # ops) ts = exec_ops jp ops (exec_op jp op ts)"
    by (simp add: exec_ops_def)
  ultimately show ?case
    using Cons.IH[OF wf_exec_op[OF Cons.prems(1)] exec_op_keeps[OF Cons.prems(1,2)]] by metis
qed (simp add: exec_ops_def)

end

definition running :: "task \<Rightarrow> bool" where
  "running t \<longleftrightarrow> tk_status t = TS_Running"

text \<open>
  The columns of a row agree: exactly a running task has a worker and a heartbeat, exactly a blocked
  one (among the waiting) a time it is blocked until, exactly a settled one a finish time, and a task
  that waits or runs has an attempt left.
\<close>

definition task_row_inv :: "task \<Rightarrow> bool" where
  "task_row_inv t \<longleftrightarrow>
     (running t \<longleftrightarrow> tk_worker_id t \<noteq> None) \<and>
     (running t \<longleftrightarrow> tk_heartbeat_at t \<noteq> None) \<and>
     (running t \<longrightarrow> tk_started_at t \<noteq> None \<and> tk_available_at t = None) \<and>
     (running t \<or> waiting t \<longrightarrow> (tk_status t = TS_Blocked \<longleftrightarrow> tk_blocked_until t \<noteq> None)) \<and>
     (tk_finished_at t = None \<longleftrightarrow> running t \<or> waiting t) \<and>
     0 \<le> tk_attempts t \<and> tk_attempts t \<le> tk_max_attempts t \<and> 0 < tk_max_attempts t \<and>
     (running t \<or> waiting t \<longrightarrow> tk_attempts t < tk_max_attempts t) \<and>
     (tk_type t = TT_Download \<longrightarrow> tk_worker_class t = WC_Network)"

lemmas task_row_defs = task_row_inv_def running_def waiting_def waiting_statuses_def owned_def

lemmas row_update_defs = claim_row_def finish_row_def retry_row_def block_row_def release_row_def
  request_cancel_row_def recovered_row_def recover_row_def cancel_row_def attempts_exhausted_def

lemma task_row_inv_running:
  "tk_status t = TS_Running \<Longrightarrow> task_row_inv t \<longleftrightarrow>
     tk_worker_id t \<noteq> None \<and> tk_heartbeat_at t \<noteq> None \<and> tk_started_at t \<noteq> None \<and>
     tk_available_at t = None \<and> tk_blocked_until t = None \<and> tk_finished_at t = None \<and>
     0 \<le> tk_attempts t \<and> tk_attempts t < tk_max_attempts t \<and>
     (tk_type t = TT_Download \<longrightarrow> tk_worker_class t = WC_Network)"
  by (auto simp: task_row_defs)

lemma task_row_inv_waiting_iff:
  "waiting t \<Longrightarrow> task_row_inv t \<longleftrightarrow>
     tk_worker_id t = None \<and> tk_heartbeat_at t = None \<and>
     (tk_status t = TS_Blocked \<longleftrightarrow> tk_blocked_until t \<noteq> None) \<and> tk_finished_at t = None \<and>
     0 \<le> tk_attempts t \<and> tk_attempts t < tk_max_attempts t \<and>
     (tk_type t = TT_Download \<longrightarrow> tk_worker_class t = WC_Network)"
  by (auto simp: task_row_inv_def running_def dest: waiting_not_running)

lemma task_row_inv_settled:
  "tk_status t \<noteq> TS_Running \<Longrightarrow> \<not> waiting t \<Longrightarrow> task_row_inv t \<longleftrightarrow>
     tk_worker_id t = None \<and> tk_heartbeat_at t = None \<and> tk_finished_at t \<noteq> None \<and>
     0 \<le> tk_attempts t \<and> tk_attempts t \<le> tk_max_attempts t \<and> 0 < tk_max_attempts t \<and>
     (tk_type t = TT_Download \<longrightarrow> tk_worker_class t = WC_Network)"
  by (auto simp: task_row_inv_def running_def)

lemma waiting_iff: "waiting t \<longleftrightarrow> tk_status t = TS_Pending \<or> tk_status t = TS_Queued \<or> tk_status t = TS_Blocked"
  by (auto simp: waiting_def waiting_statuses_def)

lemmas task_row_inv_iffs = task_row_inv_running task_row_inv_waiting_iff task_row_inv_settled

lemma task_row_inv_updates:
  assumes "task_row_inv t" "running t"
  shows "st \<notin> {TS_Running, TS_Pending, TS_Queued, TS_Blocked} \<Longrightarrow> task_row_inv (finish_row st msg now t)"
    and "task_row_inv (retry_row d msg now t)" and "task_row_inv (block_row d msg now t)"
    and "task_row_inv (release_row now t)" and "task_row_inv (recovered_row now t)"
    and "task_row_inv (request_cancel_row now t)"
    and "task_row_inv (t\<lparr>tk_heartbeat_at := Some now\<rparr>)" and "task_row_inv (t\<lparr>tk_cancel_requested := True\<rparr>)"
  using assms(1) assms(2)[unfolded running_def]
  by (simp_all add: task_row_inv_iffs waiting_iff row_update_defs Let_def)

lemma task_row_inv_waiting:
  assumes "task_row_inv t" "waiting t"
  shows "task_row_inv (claim_row w now t)" and "task_row_inv (cancel_row now t)"
    and "task_row_inv (request_cancel_row now t)"
  using assms by (simp_all add: task_row_inv_iffs waiting_not_running waiting_iff row_update_defs)

lemma task_row_inv_payload: "task_row_inv (t\<lparr>tk_payload_json := d\<rparr>) = task_row_inv t"
  by (simp add: task_row_inv_def running_def waiting_iff)

lemma owned_running: "owned tid w i t \<Longrightarrow> running t"
  by (simp add: owned_def running_def)

lemma task_row_inv_retry:
  "task_row_inv t \<Longrightarrow> op_effect jp (Retry tid now) i t u \<Longrightarrow> task_row_inv u"
  by (simp add: task_row_inv_waiting_iff waiting_iff) (simp add: task_row_inv_def)

lemma task_row_inv_cancel_run:
  "task_row_inv t \<Longrightarrow> op_effect jp (Request_cancel_run rid now) i t u \<Longrightarrow> task_row_inv u"
  using task_row_inv_updates(8)[of t]
  by (auto simp: running_def) (simp add: task_row_inv_settled task_row_inv_waiting_iff waiting_iff)

lemma task_row_inv_effect:
  assumes "op_ok op" "task_row_inv t" "op_effect jp op i t u"
  shows "task_row_inv u"
proof (cases op)
  case (Progress tid p w)
  with assms show ?thesis by (auto simp: task_row_inv_payload)
next
  case (Request_cancel tid now)
  with assms show ?thesis
    using task_row_inv_updates(6)[OF assms(2)] task_row_inv_waiting(3)[OF assms(2)]
    by (auto simp: running_def)
next
  case (Recover sb now)
  with assms show ?thesis using task_row_inv_updates(5)[OF assms(2)] by (auto simp: running_def)
next
  case (Retry tid now)
  with assms show ?thesis using task_row_inv_retry by blast
next
  case (Request_cancel_run rid now)
  with assms show ?thesis using task_row_inv_cancel_run by blast
qed (use assms(2,3) in \<open>auto simp: task_row_inv_payload intro: task_row_inv_updates task_row_inv_waiting
      dest: owned_running\<close>)

interpretation task_rows: task_row_invariant op_ok task_row_inv
proof unfold_locales
  fix ty rty rid payload wc ma run_id now
  show "op_ok (Enqueue ty rty rid payload wc ma run_id now) \<Longrightarrow>
      task_row_inv ((new_task ty rty rid payload wc ma run_id now)\<lparr>tk_status := TS_Queued\<rparr>)"
    by (simp add: task_row_defs new_task_def)
qed (simp_all add: task_row_inv_effect task_row_inv_waiting)

text \<open>Without a recovery, a cancel request is only ever pending on a running task.\<close>

definition cancel_flag_inv :: "task \<Rightarrow> bool" where
  "cancel_flag_inv t \<longleftrightarrow> (tk_cancel_requested t \<longrightarrow> running t)"

definition no_recovery :: "task_op \<Rightarrow> bool" where
  "no_recovery op \<longleftrightarrow> (case op of Recover _ _ \<Rightarrow> False | _ \<Rightarrow> True)"

interpretation cancel_flags: task_row_invariant no_recovery cancel_flag_inv
proof unfold_locales
  fix op t jp i u
  show "no_recovery op \<Longrightarrow> cancel_flag_inv t \<Longrightarrow> op_effect jp op i t u \<Longrightarrow> cancel_flag_inv u"
    by (cases op) (auto simp: cancel_flag_inv_def no_recovery_def task_row_defs row_update_defs
        Let_def split: option.splits)
qed (auto simp: cancel_flag_inv_def row_update_defs new_task_def)

definition sample_tasks :: "task table" where
  "sample_tasks =
     [(1, (new_task TT_Download ''target'' 7 None WC_Network 3 (Some 1) 0)
            \<lparr>tk_status := TS_Running, tk_worker_id := Some ''w1'', tk_started_at := Some 10,
             tk_heartbeat_at := Some 20\<rparr>),
      (2, (new_task TT_Verify ''target'' 7 None WC_Compute 3 (Some 1) 0)\<lparr>tk_depends_on_task_id := Some 1\<rparr>),
      (3, (new_task TT_Postprocess ''target'' 7 None WC_Compute 3 (Some 1) 0)\<lparr>tk_depends_on_task_id := Some 2\<rparr>),
      (4, new_task TT_Discover ''playlist'' 9 None WC_Network 3 (Some 2) 0)]"

lemma wf_sample_tasks [simp]: "wf_table sample_tasks"
  by (simp add: sample_tasks_def wf_table_def ids_def)

lemma tget_sample_tasks:
  "tget sample_tasks 1 = Some ((new_task TT_Download ''target'' 7 None WC_Network 3 (Some 1) 0)
      \<lparr>tk_status := TS_Running, tk_worker_id := Some ''w1'', tk_started_at := Some 10,
       tk_heartbeat_at := Some 20\<rparr>)"
  "tget sample_tasks 2 = Some ((new_task TT_Verify ''target'' 7 None WC_Compute 3 (Some 1) 0)
      \<lparr>tk_depends_on_task_id := Some 1\<rparr>)"
  "tget sample_tasks 3 = Some ((new_task TT_Postprocess ''target'' 7 None WC_Compute 3 (Some 1) 0)
      \<lparr>tk_depends_on_task_id := Some 2\<rparr>)"
  "tget sample_tasks 4 = Some (new_task TT_Discover ''playlist'' 9 None WC_Network 3 (Some 2) 0)"
  by (simp_all add: sample_tasks_def tget_def)

lemma sample_tasks_inv: "all_rows (\<lambda>_. task_row_inv) sample_tasks"
  by (simp add: sample_tasks_def all_rows_def task_row_defs new_task_def)

text \<open>
  Claim C1: whatever sequence of queue operations runs, by any workers, operators and the reaper, the
  columns of every task stay consistent: exactly running tasks have a worker and a heartbeat, blocked
  ones a time limit, settled ones a finish time; the attempts stay within bounds, and a task that
  still waits or runs has an attempt left.
\<close>

theorem task_rows_stay_consistent:
  assumes "wf_table ts" "all_rows (\<lambda>_. task_row_inv) ts" "list_all op_ok ops"
  shows "wf_table (exec_ops jp ops ts) \<and> all_rows (\<lambda>_. task_row_inv) (exec_ops jp ops ts)"
  using assms by (rule task_rows.exec_ops_keeps)

theorem task_rows_stay_consistent_witness:
  "all_rows (\<lambda>_. task_row_inv) (exec_ops (\<lambda>_ p. p)
     [Fail_retry 1 ''w1'' (1/2) (Some ''x'') 30, Claim WC_Network ''w2'' 40 (Some 1), Recover 50 60,
      Request_cancel 4 70, Retry 4 80] sample_tasks)"
  using task_rows_stay_consistent[OF wf_sample_tasks sample_tasks_inv, of
      "[Fail_retry 1 ''w1'' (1/2) (Some ''x'') 30, Claim WC_Network ''w2'' 40 (Some 1), Recover 50 60,
        Request_cancel 4 70, Retry 4 80]" "\<lambda>_ p. p"]
  by simp

section \<open>The status graph\<close>

inductive status_step :: "bool \<Rightarrow> task_status \<Rightarrow> task_status \<Rightarrow> bool" for retried where
  claimed: "s \<in> {TS_Pending, TS_Queued, TS_Blocked} \<Longrightarrow> status_step retried s TS_Running"
| settled: "s \<in> {TS_Succeeded, TS_Failed, TS_Unavailable, TS_Cancelled} \<Longrightarrow> status_step retried TS_Running s"
| postponed: "s \<in> {TS_Pending, TS_Blocked} \<Longrightarrow> status_step retried TS_Running s"
| dropped: "s \<in> {TS_Pending, TS_Queued, TS_Blocked} \<Longrightarrow> status_step retried s TS_Cancelled"
| reset: "retried \<Longrightarrow> s \<noteq> TS_Running \<Longrightarrow> status_step retried s TS_Pending"

inductive_simps status_step_iff: "status_step retried s s'"

definition terminal :: "task_status \<Rightarrow> bool" where
  "terminal s \<longleftrightarrow> s \<in> {TS_Succeeded, TS_Failed, TS_Unavailable, TS_Cancelled}"

definition retries :: "int \<Rightarrow> task_op \<Rightarrow> bool" where
  "retries i op \<longleftrightarrow> (case op of Retry tid _ \<Rightarrow> tid = i | _ \<Rightarrow> False)"

lemma op_effect_status:
  assumes "op_effect jp op i t u"
  shows "tk_status u = tk_status t \<or> status_step (retries i op) (tk_status t) (tk_status u)"
  using assms
  by (cases op) (auto simp: status_step_iff retries_def owned_def waiting_iff row_update_defs Let_def
      split: option.splits)

lemma row_change_status:
  assumes "row_change jp op i t v"
  shows "(status_step (retries i op))\<^sup>*\<^sup>* (tk_status t) (tk_status v)"
proof -
  obtain u where u: "u = t \<or> op_effect jp op i t u" "cancels_only u v"
    using assms by (auto simp: row_change_def)
  have "(status_step (retries i op))\<^sup>*\<^sup>* (tk_status t) (tk_status u)"
    using u(1) op_effect_status[of jp op i t u] by auto
  moreover have "(status_step (retries i op))\<^sup>*\<^sup>* (tk_status u) (tk_status v)"
  proof (cases "v = u")
    case False
    with u(2) have "waiting u" "tk_status v = TS_Cancelled"
      by (auto simp: cancels_only_def cancel_row_def)
    then have "status_step (retries i op) (tk_status u) (tk_status v)"
      using status_step.dropped[of "tk_status u"] by (simp add: waiting_iff)
    then show ?thesis by (rule r_into_rtranclp)
  qed simp
  ultimately show ?thesis by (rule rtranclp_trans)
qed

lemma status_step_mono: "(retried \<Longrightarrow> retried') \<Longrightarrow> status_step retried s s' \<Longrightarrow> status_step retried' s s'"
  by (auto simp: status_step_iff)

lemma status_path_mono:
  assumes "(status_step retried)\<^sup>*\<^sup>* s s'" "retried \<Longrightarrow> retried'"
  shows "(status_step retried')\<^sup>*\<^sup>* s s'"
  using assms(1) by (rule rtranclp_mono[THEN predicate2D, rotated])
    (use assms(2) status_step_mono in blast)

lemma terminal_stuck: "(status_step False)\<^sup>*\<^sup>* s s' \<Longrightarrow> terminal s \<Longrightarrow> s' = s"
  by (induction rule: rtranclp_induct) (auto simp: status_step_iff terminal_def)

lemma exec_ops_status:
  "wf_table ts \<Longrightarrow> tget ts i = Some t \<Longrightarrow>
   \<exists>v. tget (exec_ops jp ops ts) i = Some v \<and>
     (status_step (list_ex (retries i) ops))\<^sup>*\<^sup>* (tk_status t) (tk_status v)"
proof (induction ops arbitrary: ts t)
  case (Cons op ops)
  obtain u where u: "tget (exec_op jp op ts) i = Some u" "row_change jp op i t u"
    using exec_op_row[OF Cons.prems] by blast
  obtain v where v: "tget (exec_ops jp ops (exec_op jp op ts)) i = Some v"
      "(status_step (list_ex (retries i) ops))\<^sup>*\<^sup>* (tk_status u) (tk_status v)"
    using Cons.IH[OF wf_exec_op[OF Cons.prems(1)] u(1)] by blast
  have "(status_step (list_ex (retries i) (op # ops)))\<^sup>*\<^sup>* (tk_status t) (tk_status v)"
    using status_path_mono[OF row_change_status[OF u(2)], of "list_ex (retries i) (op # ops)"]
      status_path_mono[OF v(2), of "list_ex (retries i) (op # ops)"] by simp
  with v(1) show ?case by (auto simp: exec_ops_def)
qed (auto simp: exec_ops_def)



section \<open>Ownership\<close>



end
