(* ===== verification/Claim_Theorems.thy ===== *)
theory Claim_Theorems
  imports Task_Theorems
begin

text \<open>
  What claiming, failing, recovering and cancelling do exactly: the choice a claim makes and that
  every eligible task is claimed in the end, the bound on concurrent downloads, the retry budget,
  the closure a cancellation reaches, and what the reaper does to stale tasks.
\<close>

section \<open>Claims\<close>


lemma sample_claim:
  "claim_next WC_Network ''w2'' 40 (Some 1) sample_tasks =
    (Inr (Some 4), set_row 4 (claim_row ''w2'' 40) sample_tasks)"
  by (simp add: claim_next_def claim_candidate_def sample_tasks_def select_where_def candidate_where_def
      claimable_def claimable_statuses_def new_task_def time_eligible_def dependency_succeeded_def
      item_slot_available_def running_download_count_def rowcount_def set_row_def update_where_def)


subsection \<open>Every eligible task is claimed\<close>

fun claims :: "worker_class \<Rightarrow> string \<Rightarrow> instant \<Rightarrow> nat \<Rightarrow> task table \<Rightarrow> task table" where
  "claims wc w now 0 ts = ts"
| "claims wc w now (Suc n) ts = claims wc w now n (snd (claim_next wc w now None ts))"

lemma time_comes:
  assumes "task_row_inv t" "waiting t"
  obtains T where "\<And>now. T \<le> now \<Longrightarrow> time_eligible now t"
proof (rule that)
  fix now
  assume T: "max (case tk_available_at t of None \<Rightarrow> 0 | Some a \<Rightarrow> a)
                 (case tk_blocked_until t of None \<Rightarrow> 0 | Some b \<Rightarrow> b) \<le> now"
  have "tk_status t = TS_Blocked \<longleftrightarrow> tk_blocked_until t \<noteq> None"
    using assms by (simp add: task_row_inv_waiting_iff)
  with T show "time_eligible now t"
    by (auto simp: time_eligible_def at_or_before_def split: option.splits)
qed

lemma dependency_succeeded_iff:
  "wf_table ts \<Longrightarrow> dependency_succeeded ts t \<longleftrightarrow> (case tk_depends_on_task_id t of
     None \<Rightarrow> True | Some d \<Rightarrow> \<exists>u. tget ts d = Some u \<and> tk_status u = TS_Succeeded)"
  by (auto simp: dependency_succeeded_def list_ex_iff tget_iff split: option.splits)

lemma candidate_None_iff:
  "candidate_where ts wc None now i t \<longleftrightarrow> waiting t \<and> tk_worker_class t = wc \<and>
     \<not> tk_cancel_requested t \<and> time_eligible now t \<and> dependency_succeeded ts t"
  by (simp add: candidate_where_def claimable_eq_waiting item_slot_available_def)

lemma claim_keeps_candidate:
  assumes "wf_table ts" "tget ts i = Some t" "candidate_where ts wc None now i t"
    "tget ts c = Some u" "waiting u" "c \<noteq> i"
  shows "candidate_where (set_row c (claim_row w now) ts) wc None now i t"
proof -
  have "dependency_succeeded (set_row c (claim_row w now) ts) t"
    using assms by (auto simp: candidate_None_iff dependency_succeeded_iff waiting_iff split: option.splits)
  with assms(3) show ?thesis by (simp add: candidate_None_iff)
qed

lemma claim_decreases:
  assumes "wf_table ts" "tget ts c = Some u" "waiting u"
  shows "waiting_count (set_row c (claim_row w now) ts) < waiting_count ts"
proof -
  let ?us = "set_row c (claim_row w now) ts"
  let ?A = "{i. \<exists>t. tget ts i = Some t \<and> waiting t}"
  have [simp]: "\<not> waiting (claim_row w now u)" by (simp add: claim_row_def waiting_iff)
  have "{i. \<exists>t. tget ?us i = Some t \<and> waiting t} = ?A - {c}"
    using assms(2) by auto
  moreover have "c \<in> ?A" using assms by auto
  then have "card (?A - {c}) < card ?A"
    by (rule card_Diff1_less[OF finite_selected])
  ultimately show ?thesis using assms(1) by (simp add: waiting_count_def rowcount_card)
qed

lemma candidate_gets_claimed:
  "wf_table ts \<Longrightarrow> tget ts i = Some t \<Longrightarrow> candidate_where ts wc None now i t \<Longrightarrow>
   \<exists>n \<le> waiting_count ts. tget (claims wc w now n ts) i = Some (claim_row w now t)"
proof (induction "waiting_count ts" arbitrary: ts rule: less_induct)
  case less
  note wf = less.prems(1)
  show ?case using wf
  proof (cases rule: claim_next_cases[where wc = wc and w = w and now = now and k = None])
    case refused
    then show ?thesis by (simp add: bad_concurrency_def)
  next
    case idle
    with less.prems claim_candidate_None[OF wf] show ?thesis by auto
  next
    case (claimed c u)
    let ?us = "set_row c (claim_row w now) ts"
    have u: "waiting u" using claimed(4) by (simp add: candidate_None_iff)
    have dec: "waiting_count ?us < waiting_count ts"
      using claim_decreases[OF wf claimed(3) u] .
    have step: "claims wc w now (Suc n) ts = claims wc w now n ?us" for n
      using claimed(5) by simp
    show ?thesis
    proof (cases "c = i")
      case True
      then have "tget (claims wc w now (Suc 0) ts) i = Some (claim_row w now t)"
        using less.prems(2) step[of 0] by simp
      with dec show ?thesis by (intro exI[of _ "Suc 0"]) auto
    next
      case False
      have "tget ?us i = Some t" using False less.prems(2) by simp
      then obtain n where "n \<le> waiting_count ?us" "tget (claims wc w now n ?us) i = Some (claim_row w now t)"
        using less.hyps[OF dec] claim_keeps_candidate[OF less.prems claimed(3) u False] wf by auto
      with dec step show ?thesis by (intro exI[of _ "Suc n"]) auto
    qed
  qed
qed



subsection \<open>The download limit\<close>

definition running_download :: "int \<Rightarrow> task \<Rightarrow> bool" where
  "running_download i t \<longleftrightarrow> tk_type t = TT_Download \<and> tk_status t = TS_Running"

lemma running_download_count_def2: "running_download_count ts = rowcount running_download ts"
  by (simp add: running_download_count_def running_download_def[abs_def])

text \<open>Network workers pass a limit of at most \<open>n\<close>; compute workers may pass anything.\<close>

definition claims_within :: "int \<Rightarrow> task_op \<Rightarrow> bool" where
  "claims_within n op \<longleftrightarrow> op_ok op \<and> (case op of
     Claim wc w now k \<Rightarrow> wc = WC_Network \<longrightarrow> (case k of None \<Rightarrow> False | Some m \<Rightarrow> m \<le> n) | _ \<Rightarrow> True)"

lemma op_effect_download:
  "op_effect jp op i t u \<Longrightarrow> running_download i u \<Longrightarrow> running_download i t \<or> (\<exists>wc w now k. op = Claim wc w now k)"
  by (cases op) (auto simp: running_download_def row_update_defs owned_def waiting_iff Let_def
      split: option.splits if_splits)

lemma row_change_download:
  "row_change jp op i t v \<Longrightarrow> running_download i v \<Longrightarrow> \<nexists>wc w now k. op = Claim wc w now k
   \<Longrightarrow> running_download i t"
  using op_effect_download[of jp op i t]
  by (auto simp: row_change_def cancels_only_def) (auto simp: running_download_def cancel_row_def)

lemma downloads_not_claim:
  assumes "wf_table ts" "\<nexists>wc w now k. op = Claim wc w now k"
  shows "running_download_count (exec_op jp op ts) \<le> running_download_count ts"
  unfolding running_download_count_def2
proof (rule rowcount_mono_rows)
  fix i v
  assume v: "tget (exec_op jp op ts) i = Some v" "running_download i v"
  show "\<exists>t. tget ts i = Some t \<and> running_download i t"
    using exec_op_rows_back[OF assms(1) v(1)] v(2) assms(2) row_change_download
    by (auto simp: running_download_def new_task_def)
qed (use assms wf_exec_op in auto)

lemma downloads_claim:
  assumes "wf_table ts" "all_rows (\<lambda>_. task_row_inv) ts" "claims_within n (Claim wc w now k)"
    "int (running_download_count ts) \<le> n"
  shows "int (running_download_count (snd (claim_next wc w now k ts))) \<le> n"
  using assms(1)
proof (cases rule: claim_next_cases[where wc = wc and w = w and now = now and k = k])
  case (claimed c t)
  let ?us = "set_row c (claim_row w now) ts"
  let ?A = "\<lambda>ts. {i. \<exists>t. tget ts i = Some t \<and> running_download i t}"
  have cand: "tk_worker_class t = wc" "item_slot_available ts wc k t"
    using claimed(4) by (auto simp: candidate_where_def)
  have A: "?A ?us \<subseteq> ?A ts \<union> (if tk_type t = TT_Download then {c} else {})"
    using claimed(3) by (auto simp: running_download_def claim_row_def split: if_splits)
  have card: "running_download_count us = card (?A us)" if "wf_table us" for us
    using that by (simp add: running_download_count_def2 rowcount_card)
  show ?thesis
  proof (cases "tk_type t = TT_Download")
    case True
    then have "wc = WC_Network"
      using all_rows_tget[OF assms(2) claimed(3)] cand(1) by (simp add: task_row_inv_def)
    then have "int (running_download_count ts) < n"
      using assms(3) cand(2) True by (auto simp: claims_within_def item_slot_available_def split: option.splits)
    moreover have "card (?A ?us) \<le> card (?A ts \<union> {c})"
      using A True by (intro card_mono) (auto simp: finite_selected)
    moreover have "card (?A ts \<union> {c}) \<le> card (?A ts) + 1"
      using card_Un_le[of "?A ts" "{c}"] by simp
    ultimately show ?thesis using claimed(5) assms(1) by (simp add: card)
  next
    case False
    then have "card (?A ?us) \<le> card (?A ts)"
      using A by (intro card_mono) (auto simp: finite_selected)
    then show ?thesis using claimed(5) assms(1,4) by (simp add: card)
  qed
qed (use assms(4) in auto)

lemma downloads_step:
  assumes "wf_table ts" "all_rows (\<lambda>_. task_row_inv) ts" "claims_within n op"
    "int (running_download_count ts) \<le> n"
  shows "int (running_download_count (exec_op jp op ts)) \<le> n"
proof (cases "\<exists>wc w now k. op = Claim wc w now k")
  case True
  then show ?thesis using downloads_claim[OF assms(1,2)] assms(3,4) by auto
next
  case False
  then show ?thesis using downloads_not_claim[OF assms(1) False, of jp] assms(4) by simp
qed

text \<open>
  Claim C25: if the network workers claim with an item concurrency of at most \<open>n\<close>, then at no moment
  more than \<open>n\<close> downloads run, whatever the workers, the operators and the reaper do in between.
\<close>

theorem downloads_stay_bounded:
  assumes "wf_table ts" "all_rows (\<lambda>_. task_row_inv) ts" "list_all (claims_within n) ops"
    "int (running_download_count ts) \<le> n"
  shows "int (running_download_count (exec_ops jp ops ts)) \<le> n"
  using assms
proof (induction ops arbitrary: ts)
  case (Cons op ops)
  have op: "claims_within n op" "op_ok op" using Cons.prems(3) by (simp_all add: claims_within_def)
  have "all_rows (\<lambda>_. task_row_inv) (exec_op jp op ts)"
    using task_rows.exec_op_keeps[OF Cons.prems(1,2) op(2)] .
  then have "int (running_download_count (exec_ops jp ops (exec_op jp op ts))) \<le> n"
    using Cons.prems(3) downloads_step[OF Cons.prems(1,2) op(1) Cons.prems(4)]
    by (intro Cons.IH[OF wf_exec_op[OF Cons.prems(1)]]) simp_all
  then show ?case by (simp add: exec_ops_def)
qed (simp add: exec_ops_def)

theorem downloads_stay_bounded_witness:
  "int (running_download_count (exec_ops (\<lambda>_ p. p)
     [Enqueue TT_Download ''target'' 8 None WC_Network 3 None 30, Claim WC_Network ''w2'' 40 (Some 1)]
     sample_tasks)) \<le> 1"
proof -
  have "int (running_download_count sample_tasks) \<le> 1"
    by (simp add: running_download_count_def rowcount_def select_where_def sample_tasks_def new_task_def)
  then show ?thesis
    by (intro downloads_stay_bounded[OF wf_sample_tasks sample_tasks_inv])
      (simp_all add: claims_within_def)
qed

section \<open>Failing, recovering, cancelling\<close>

text \<open>
  Claim C26: cancelling behind a task cancels exactly the waiting tasks that depend on it, directly or
  through other waiting tasks, and returns their number; the loop ends on every table.
\<close>

theorem cancel_descendants_exact:
  "cancel_descendants tid now ts =
    (rowcount (\<lambda>i t. waiting t \<and> waits_on ts {tid} i) ts,
     map (\<lambda>(i, t). (i, if waiting t \<and> waits_on ts {tid} i then cancel_row now t else t)) ts)"
  by (simp add: cancel_descendants_eq update_where_def)

lemma mark_failed_for_retry_owned:
  assumes "wf_table ts" "tget ts tid = Some t" "owned tid w tid t"
  shows "mark_failed_for_retry tid w d msg now ts =
    (Some (tk_status (retry_row d msg now t)),
     if tk_status (retry_row d msg now t) = TS_Pending then set_row tid (retry_row d msg now) ts
     else cancel_behind now {tid} (set_row tid (retry_row d msg now) ts))"
proof -
  have "tk_status (retry_row d msg now t) \<in> {TS_Pending, TS_Unavailable, TS_Cancelled}"
    by (simp add: retry_row_def Let_def)
  then show ?thesis using assms
    by (auto simp: mark_failed_for_retry_def Let_def returning_status_owned update_owned_eq
        cancel_descendants_behind)
qed

lemma mark_failed_for_retry_not_owned:
  "wf_table ts \<Longrightarrow> \<nexists>t. tget ts tid = Some t \<and> owned tid w tid t \<Longrightarrow>
   mark_failed_for_retry tid w d msg now ts = (None, ts)"
  by (auto simp: mark_failed_for_retry_def Let_def returning_status_owned update_not_owned
      split: option.splits)

definition retry_outcome :: "task \<Rightarrow> task_status" where
  "retry_outcome t = (if tk_cancel_requested t then TS_Cancelled
     else if attempts_exhausted t then TS_Unavailable else TS_Pending)"

text \<open>
  Claim C27: recording a failure settles the task the worker owns as cancelled when a cancel was
  requested (no attempt is spent), as unavailable when the attempts are used up, and otherwise makes
  it pending again with one attempt more, available after the delay; in the first two cases everything
  waiting behind it is cancelled, in the third no other task changes. A worker that does not own the
  task changes nothing.
\<close>

theorem mark_failed_for_retry_spec:
  assumes "wf_table ts"
  shows "mark_failed_for_retry tid w d msg now ts =
    (case tget ts tid of None \<Rightarrow> (None, ts)
     | Some t \<Rightarrow>
        if \<not> (tk_status t = TS_Running \<and> tk_worker_id t = Some w) then (None, ts)
        else let us = set_row tid (\<lambda>t. t\<lparr>tk_status := retry_outcome t,
               tk_attempts := (if tk_cancel_requested t then tk_attempts t else tk_attempts t + 1),
               tk_available_at := (if retry_outcome t = TS_Pending then Some (now + timedelta_sec d) else None),
               tk_finished_at := (if retry_outcome t = TS_Pending then None else Some now),
               tk_error_message := msg, tk_worker_id := None, tk_started_at := None,
               tk_heartbeat_at := None, tk_cancel_requested := False\<rparr>) ts
             in (Some (retry_outcome t),
                 if retry_outcome t = TS_Pending then us else cancel_behind now {tid} us))"
proof -
  have row: "retry_row d msg now = (\<lambda>t. t\<lparr>tk_status := retry_outcome t,
               tk_attempts := (if tk_cancel_requested t then tk_attempts t else tk_attempts t + 1),
               tk_available_at := (if retry_outcome t = TS_Pending then Some (now + timedelta_sec d) else None),
               tk_finished_at := (if retry_outcome t = TS_Pending then None else Some now),
               tk_error_message := msg, tk_worker_id := None, tk_started_at := None,
               tk_heartbeat_at := None, tk_cancel_requested := False\<rparr>)"
    by (rule ext) (simp add: retry_row_def Let_def retry_outcome_def attempts_exhausted_def)
  have st: "tk_status (retry_row d msg now t) = retry_outcome t" for t
    by (simp add: row)
  show ?thesis
  proof (cases "\<exists>t. tget ts tid = Some t \<and> owned tid w tid t")
    case True
    then obtain t where t: "tget ts tid = Some t" "owned tid w tid t" by blast
    show ?thesis
      using mark_failed_for_retry_owned[OF assms t, of d msg now, unfolded st] t
      by (simp add: owned_def row)
  next
    case False
    with mark_failed_for_retry_not_owned[OF assms, of tid w d msg now] show ?thesis
      by (auto simp: owned_def split: option.splits)
  qed
qed

theorem mark_failed_for_retry_spec_witness:
  "fst (mark_failed_for_retry 1 ''w1'' (1/2) None 30 sample_tasks) = Some TS_Pending"
  using mark_failed_for_retry_spec[OF wf_sample_tasks, of 1 "''w1''" "1/2" None 30]
  by (simp add: tget_sample_tasks retry_outcome_def attempts_exhausted_def new_task_def)

subsection \<open>The retry budget\<close>

text \<open>One run of a task that fails: claimed, then recorded as failed, at any times.\<close>

definition failing_run :: "string \<Rightarrow> rat \<Rightarrow> string option \<Rightarrow> instant \<Rightarrow> task \<Rightarrow> task" where
  "failing_run w d msg now t = retry_row d msg now (claim_row w now t)"

lemma failing_run_simps [simp]:
  "tk_max_attempts (failing_run w d msg now t) = tk_max_attempts t"
  "tk_cancel_requested (failing_run w d msg now t) = False"
  "\<not> tk_cancel_requested t \<Longrightarrow> tk_attempts (failing_run w d msg now t) = tk_attempts t + 1"
  "\<not> tk_cancel_requested t \<Longrightarrow> tk_status (failing_run w d msg now t) =
     (if tk_max_attempts t \<le> tk_attempts t + 1 then TS_Unavailable else TS_Pending)"
  by (simp_all add: failing_run_def retry_row_def claim_row_def Let_def)

lemma failing_runs_attempts:
  "\<not> tk_cancel_requested t \<Longrightarrow>
   (let u = (failing_run w d msg now ^^ n) t
    in tk_attempts u = tk_attempts t + int n \<and> tk_max_attempts u = tk_max_attempts t \<and>
       \<not> tk_cancel_requested u)"
  by (induction n) (simp_all add: Let_def)

text \<open>
  A task that fails every time it runs goes back to pending while attempts remain and is given
  up as unavailable exactly when \<open>max_attempts\<close> runs have failed, never before and never later.
\<close>

theorem retry_budget:
  assumes "\<not> tk_cancel_requested t" "0 < n"
  shows "tk_status ((failing_run w d msg now ^^ n) t) =
    (if tk_max_attempts t \<le> tk_attempts t + int n then TS_Unavailable else TS_Pending)"
proof -
  obtain m where n: "n = Suc m" using assms(2) by (cases n) auto
  let ?u = "(failing_run w d msg now ^^ m) t"
  have "tk_attempts ?u = tk_attempts t + int m" "tk_max_attempts ?u = tk_max_attempts t"
    "\<not> tk_cancel_requested ?u"
    using failing_runs_attempts[OF assms(1), of m w d msg now] by (simp_all add: Let_def)
  then show ?thesis by (simp add: n add.assoc)
qed

theorem retry_budget_witness:
  "tk_status ((failing_run ''w'' 1 None 5 ^^ 2) (new_task TT_Noop ''x'' 1 None WC_Compute 3 None 0)) = TS_Pending \<and>
   tk_status ((failing_run ''w'' 1 None 5 ^^ 3) (new_task TT_Noop ''x'' 1 None WC_Compute 3 None 0)) = TS_Unavailable"
  using retry_budget[of "new_task TT_Noop ''x'' 1 None WC_Compute 3 None 0" 2 "''w''" 1 None 5]
    retry_budget[of "new_task TT_Noop ''x'' 1 None WC_Compute 3 None 0" 3 "''w''" 1 None 5]
  by (simp add: new_task_def)

subsection \<open>Stale tasks\<close>

text \<open>
  The reaper recovers exactly the running tasks whose heartbeat (or start, without one) is
  older than the limit: each loses its worker and spends an attempt, and becomes pending, or
  unavailable when no attempt is left; exactly what waits behind the latter is cancelled.
\<close>

theorem recover_stale_spec:
  assumes "wf_table ts"
  shows "recover_stale sb now ts =
    (map fst (filter (\<lambda>(_, t). stale sb t) ts),
     cancel_behind now {i. \<exists>t. tget ts i = Some t \<and> stale sb t \<and> attempts_exhausted t}
       (map (\<lambda>(i, t). (i, if stale sb t then recovered_row now t else t)) ts))"
proof -
  have "set (map fst (select_where (\<lambda>_ t. stale sb t \<and> attempts_exhausted t) ts)) =
      {i. \<exists>t. tget ts i = Some t \<and> stale sb t \<and> attempts_exhausted t}"
    by (simp add: Domain_fst[symmetric] Domain_iff select_where_iff[OF assms] set_eq_iff)
  then show ?thesis
    by (simp add: recover_stale_eq[OF assms] fold_cancel_descendants select_where_def update_where_def)
qed

theorem recover_stale_spec_witness:
  "fst (recover_stale 50 60 sample_tasks) = [1]"
  using recover_stale_spec[OF wf_sample_tasks, of 50 60]
  by (simp add: sample_tasks_def stale_def stale_condition_def before_def new_task_def)

text \<open>The rows no worker and no reaper can change: waiting with a pending cancel request.\<close>

definition worker_op :: "task_op \<Rightarrow> bool" where
  "worker_op op \<longleftrightarrow> op_worker op \<noteq> None \<or> (case op of Recover _ _ \<Rightarrow> True | _ \<Rightarrow> False)"

lemma worker_op_stuck:
  assumes "worker_op op" "waiting t" "tk_cancel_requested t" "row_change jp op i t v"
  shows "v = t \<or> tk_status v = TS_Cancelled"
proof -
  have "\<not> op_effect jp op i t u" for u
    using assms(1-3) by (cases op) (auto simp: worker_op_def owned_def waiting_iff split: option.splits)
  with assms(4) show ?thesis by (auto simp: row_change_def cancels_only_def cancel_row_def)
qed

lemma no_retry_worker_op: "list_all worker_op ops \<Longrightarrow> \<not> list_ex (retries i) ops"
  by (induction ops) (auto simp: worker_op_def retries_def split: task_op.splits)

lemma worker_ops_stuck:
  "wf_table ts \<Longrightarrow> tget ts i = Some t \<Longrightarrow> waiting t \<Longrightarrow> tk_cancel_requested t \<Longrightarrow>
   list_all worker_op ops \<Longrightarrow>
   \<exists>v. tget (exec_ops jp ops ts) i = Some v \<and> (v = t \<or> tk_status v = TS_Cancelled)"
proof (induction ops arbitrary: ts)
  case (Cons op ops)
  let ?us = "exec_op jp op ts"
  have wf: "wf_table ?us" using Cons.prems(1) by (rule wf_exec_op)
  have ops: "worker_op op" "list_all worker_op ops" using Cons.prems(5) by simp_all
  have eq: "exec_ops jp (op # ops) ts = exec_ops jp ops ?us" by (simp add: exec_ops_def)
  obtain u where u: "tget ?us i = Some u" "u = t \<or> tk_status u = TS_Cancelled"
    using exec_op_row[OF Cons.prems(1,2)] worker_op_stuck[OF ops(1) Cons.prems(3,4)] by blast
  show ?case
  proof (cases "u = t")
    case True
    then show ?thesis using Cons.IH[OF wf _ Cons.prems(3,4) ops(2)] u(1) eq by simp
  next
    case False
    then have c: "tk_status u = TS_Cancelled" using u(2) by simp
    obtain v where "tget (exec_ops jp ops ?us) i = Some v"
      "terminal (tk_status u) \<and> \<not> list_ex (retries i) ops \<longrightarrow> tk_status v = tk_status u"
      using exec_ops_status[OF wf u(1), of jp ops] terminal_stuck by fastforce
    then show ?thesis using c no_retry_worker_op[OF ops(2)] eq by (auto simp: terminal_def)
  qed
qed (simp add: exec_ops_def)

text \<open>
  Claim C28: a running task with a cancel request that becomes stale while attempts remain is put back
  to pending, but \<open>recover_stale\<close> leaves the request set, so no worker ever claims the task again and
  no reaper touches it: it stays waiting until an operator acts, unless a task it depends on settles
  badly and cancels it.
\<close>

theorem stale_cancel_never_settles:
  assumes "wf_table ts" "tget ts i = Some t" "stale sb t" "tk_cancel_requested t"
    "\<not> attempts_exhausted t" "list_all worker_op ops"
  shows "\<exists>v. tget (exec_ops jp ops (snd (recover_stale sb now ts))) i = Some v \<and>
    (tk_status v = TS_Pending \<and> tk_cancel_requested v \<or> tk_status v = TS_Cancelled)"
proof -
  let ?us = "snd (recover_stale sb now ts)"
  let ?K = "{i. \<exists>t. tget ts i = Some t \<and> stale sb t \<and> attempts_exhausted t}"
  let ?ms = "update_where (\<lambda>_. stale sb) (recovered_row now) ts"
  have eq: "?us = cancel_behind now ?K ?ms"
    using recover_stale_spec[OF assms(1), of sb now] by (simp add: update_where_def)
  have wf: "wf_table ?us" using assms(1) by (simp add: eq cancel_behind_def)
  have r: "tk_status (recovered_row now t) = TS_Pending" "tk_cancel_requested (recovered_row now t)"
    using assms(4,5) by (simp_all add: recovered_row_def recover_row_def)
  have "tget ?us i = Some (recovered_row now t) \<or> tget ?us i = Some (cancel_row now (recovered_row now t))"
    using assms(2,3) by (simp add: eq cancel_behind_def)
  then show ?thesis
  proof
    assume u: "tget ?us i = Some (recovered_row now t)"
    have "waiting (recovered_row now t)" using r(1) by (simp add: waiting_iff)
    from worker_ops_stuck[OF wf u this r(2) assms(6), of jp] r show ?thesis by auto
  next
    assume u: "tget ?us i = Some (cancel_row now (recovered_row now t))"
    obtain v where "tget (exec_ops jp ops ?us) i = Some v"
      "tk_status v = tk_status (cancel_row now (recovered_row now t))"
      using exec_ops_status[OF wf u, of jp ops] terminal_stuck no_retry_worker_op[OF assms(6), of i]
      by (fastforce simp: terminal_def cancel_row_def)
    then show ?thesis by (simp add: cancel_row_def)
  qed
qed

theorem stale_cancel_never_settles_witness:
  "\<exists>v. tget (exec_ops (\<lambda>_ p. p) [Claim WC_Network ''w2'' 70 None, Recover 90 100]
      (snd (recover_stale 50 60 (snd (request_cancel 1 30 sample_tasks))))) 1 = Some v \<and>
    (tk_status v = TS_Pending \<and> tk_cancel_requested v \<or> tk_status v = TS_Cancelled)"
proof -
  let ?ts = "snd (request_cancel 1 30 sample_tasks)"
  let ?t = "request_cancel_row 30 (the (tget sample_tasks 1))"
  have "exec_op (\<lambda>_ p. p) (Request_cancel 1 30) sample_tasks = ?ts" by simp
  then have "wf_table ?ts" using wf_exec_op[OF wf_sample_tasks] by metis
  moreover have "tget ?ts 1 = Some ?t"
    by (simp add: request_cancel_def Let_def returning_status_def sample_tasks_def tget_def
        update_where_def new_task_def request_cancel_row_def)
  moreover have "stale 50 ?t" "tk_cancel_requested ?t" "\<not> attempts_exhausted ?t"
    by (simp_all add: tget_sample_tasks request_cancel_row_def stale_def stale_condition_def before_def
        attempts_exhausted_def new_task_def)
  ultimately show ?thesis
    by (intro stale_cancel_never_settles) (simp_all add: worker_op_def)
qed

end
