(* ===== verification/Target_State.thy ===== *)
theory Target_State
  imports Models
begin

text \<open>
  The state of a Target and of an Item: the compare-and-set statements of
  \<open>TargetRepository\<close> and \<open>ItemRepository\<close>, the transition table and the operations of
  \<open>src/sluicery/core/target_state.py\<close> on top of them. What the operations rely on is the locale
  \<open>cas_store\<close>, interpreted on both tables.
\<close>

section \<open>Compare and set\<close>

definition target_cas_where :: "int \<Rightarrow> target_status set \<Rightarrow> int \<Rightarrow> target \<Rightarrow> bool" where
  "target_cas_where tid expected i t \<longleftrightarrow> i = tid \<and> tg_status t \<in> expected"

text \<open>
  The values of the statement: the optional arguments, the retry count when asked for, and then the
  caller's extra values, given as a function on the row. \<open>updated_at\<close> follows every update.
\<close>

definition target_cas_row :: "target_status \<Rightarrow> string option \<Rightarrow> string option \<Rightarrow> bool
    \<Rightarrow> (target \<Rightarrow> target) \<Rightarrow> instant \<Rightarrow> target \<Rightarrow> target" where
  "target_cas_row st err blocked_reason increment_retry extra now t =
     extra (t\<lparr>tg_status := st, tg_last_error := err, tg_blocked_reason := blocked_reason,
       tg_last_attempt_at := Some now,
       tg_retry_count := (if increment_retry then tg_retry_count t + 1 else tg_retry_count t),
       tg_updated_at := now\<rparr>)"

definition compare_and_set_status :: "int \<Rightarrow> target_status set \<Rightarrow> target_status \<Rightarrow> string option
    \<Rightarrow> string option \<Rightarrow> bool \<Rightarrow> (target \<Rightarrow> target) \<Rightarrow> instant \<Rightarrow> target table \<Rightarrow> bool \<times> target table" where
  "compare_and_set_status tid expected st err blocked_reason increment_retry extra now tgs =
     (0 < rowcount (target_cas_where tid expected) tgs,
      update_where (target_cas_where tid expected)
        (target_cas_row st err blocked_reason increment_retry extra now) tgs)"

definition membership_row :: "item_membership \<Rightarrow> instant \<Rightarrow> item \<Rightarrow> item" where
  "membership_row m changed_at it =
     (if m = IM_Delisted
      then it\<lparr>it_membership := m, it_delisted_at := Some changed_at, it_updated_at := changed_at\<rparr>
      else it\<lparr>it_membership := m, it_delisted_at := None, it_last_seen_at := changed_at,
              it_updated_at := changed_at\<rparr>)"

definition compare_and_set_membership :: "int \<Rightarrow> item_membership set \<Rightarrow> item_membership \<Rightarrow> instant
    \<Rightarrow> item table \<Rightarrow> bool \<times> item table" where
  "compare_and_set_membership item_id expected m changed_at its =
     (let p = (\<lambda>i it. i = item_id \<and> it_membership it \<in> expected)
      in (0 < rowcount p its, update_where p (membership_row m changed_at) its))"

lemma it_membership_row [simp]: "it_membership (membership_row m now it) = m"
  by (simp add: membership_row_def)

text \<open>
  The contract of such a statement, for any table with a status column: it succeeds exactly when
  the row is there with an expected status, and then writes that row and no other.
\<close>

locale cas_store =
  fixes status_of :: "'t \<Rightarrow> int \<Rightarrow> 's option"
    and cas :: "int \<Rightarrow> 's set \<Rightarrow> 's \<Rightarrow> 't \<Rightarrow> bool \<times> 't"
    and invar :: "'t \<Rightarrow> bool"
  assumes cas_result: "invar t \<Longrightarrow> fst (cas i E n t) \<longleftrightarrow> (\<exists>s. status_of t i = Some s \<and> s \<in> E)"
    and cas_writes: "invar t \<Longrightarrow> fst (cas i E n t) \<Longrightarrow> status_of (snd (cas i E n t)) i = Some n"
    and cas_frame: "invar t \<Longrightarrow> j \<noteq> i \<Longrightarrow> status_of (snd (cas i E n t)) j = status_of t j"
    and cas_failed: "invar t \<Longrightarrow> \<not> fst (cas i E n t) \<Longrightarrow> snd (cas i E n t) = t"
    and cas_invar: "invar t \<Longrightarrow> invar (snd (cas i E n t))"
begin

text \<open>A status read earlier guards the write: it goes through exactly when nobody changed it.\<close>

lemma cas_read_guard:
  "invar t \<Longrightarrow> fst (cas i {s} n t) \<longleftrightarrow> status_of t i = Some s"
  by (auto simp: cas_result)

text \<open>Of two writers that both read \<open>s\<close>, the second loses, and the first one's value stays.\<close>

lemma cas_race:
  assumes "invar t" "fst (cas i {s} n t)" "n \<noteq> s"
  shows "\<not> fst (cas i {s} m (snd (cas i {s} n t)))"
    and "status_of (snd (cas i {s} m (snd (cas i {s} n t)))) i = Some n"
proof -
  let ?t = "snd (cas i {s} n t)"
  have inv: "invar ?t" and n: "status_of ?t i = Some n"
    using assms by (simp_all add: cas_invar cas_writes)
  then show lost: "\<not> fst (cas i {s} m ?t)"
    using assms(3) by (simp add: cas_result)
  show "status_of (snd (cas i {s} m ?t)) i = Some n"
    using cas_failed[OF inv lost] n by simp
qed

lemma cas_status:
  "invar t \<Longrightarrow> status_of (snd (cas i E n t)) j =
    (if j = i \<and> (\<exists>s. status_of t i = Some s \<and> s \<in> E) then Some n else status_of t j)"
  using cas_result cas_writes cas_frame cas_failed by metis

end

definition target_status_of :: "target table \<Rightarrow> int \<Rightarrow> target_status option" where
  "target_status_of tgs i = map_option tg_status (tget tgs i)"

definition item_membership_of :: "item table \<Rightarrow> int \<Rightarrow> item_membership option" where
  "item_membership_of its i = map_option it_membership (tget its i)"

definition status_kept :: "(target \<Rightarrow> target) \<Rightarrow> bool" where
  "status_kept extra \<longleftrightarrow> (\<forall>t. tg_status (extra t) = tg_status t)"

lemma status_kept_id [simp]: "status_kept id" "status_kept (\<lambda>t. t)"
  by (simp_all add: status_kept_def)

lemma compare_and_set_status_fst:
  "wf_table tgs \<Longrightarrow> fst (compare_and_set_status tid E st err br inc extra now tgs) \<longleftrightarrow>
     (\<exists>s. target_status_of tgs tid = Some s \<and> s \<in> E)"
  by (auto simp: compare_and_set_status_def target_cas_where_def target_status_of_def rowcount_pos_iff)

lemma compare_and_set_status_failed:
  "\<not> fst (compare_and_set_status tid E st err br inc extra now tgs) \<Longrightarrow>
   snd (compare_and_set_status tid E st err br inc extra now tgs) = tgs"
  by (simp add: compare_and_set_status_def rowcount_zero_unchanged)

lemma compare_and_set_status_snd:
  "wf_table tgs \<Longrightarrow> tget tgs tid = Some t \<Longrightarrow> tg_status t \<in> E \<Longrightarrow>
   snd (compare_and_set_status tid E st err br inc extra now tgs) =
     set_row tid (target_cas_row st err br inc extra now) tgs"
  by (auto simp: compare_and_set_status_def target_cas_where_def set_row_def update_where_def tget_iff)

lemma wf_compare_and_set_status [simp, table_intros]:
  "wf_table (snd (compare_and_set_status tid E st err br inc extra now tgs)) = wf_table tgs"
  by (simp add: compare_and_set_status_def)

lemma target_cas_row_status: "status_kept extra \<Longrightarrow>
  tg_status (target_cas_row st err br inc extra now t) = st"
  by (simp add: target_cas_row_def status_kept_def)

interpretation target_cas: cas_store target_status_of
    "\<lambda>i E n t. compare_and_set_status i E n err br inc id now t" wf_table
  for err br inc now
proof unfold_locales
  fix t i E n
  assume wf: "wf_table (t :: target table)"
  let ?r = "compare_and_set_status i E n err br inc id now t"
  show "fst ?r \<longleftrightarrow> (\<exists>s. target_status_of t i = Some s \<and> s \<in> E)"
    using wf by (simp add: compare_and_set_status_fst)
  show "fst ?r \<Longrightarrow> target_status_of (snd ?r) i = Some n"
    using wf by (auto simp: compare_and_set_status_fst target_status_of_def compare_and_set_status_snd
        target_cas_row_status)
  show "j \<noteq> i \<Longrightarrow> target_status_of (snd ?r) j = target_status_of t j" for j
    by (simp add: compare_and_set_status_def target_status_of_def target_cas_where_def
        option.map_comp comp_def)
  show "\<not> fst ?r \<Longrightarrow> snd ?r = t" by (rule compare_and_set_status_failed)
  show "wf_table (snd ?r)" using wf by simp
qed

interpretation item_cas: cas_store item_membership_of
    "\<lambda>i E n t. compare_and_set_membership i E n now t" wf_table
  for now
proof unfold_locales
  fix t i E n
  assume wf: "wf_table (t :: item table)"
  let ?r = "compare_and_set_membership i E n now t"
  show *: "fst ?r \<longleftrightarrow> (\<exists>s. item_membership_of t i = Some s \<and> s \<in> E)"
    using wf by (auto simp: compare_and_set_membership_def item_membership_of_def rowcount_pos_iff)
  then show "fst ?r \<Longrightarrow> item_membership_of (snd ?r) i = Some n"
    by (auto simp: compare_and_set_membership_def item_membership_of_def Let_def)
  show "j \<noteq> i \<Longrightarrow> item_membership_of (snd ?r) j = item_membership_of t j" for j
    by (simp add: compare_and_set_membership_def item_membership_of_def Let_def option.map_comp comp_def)
  show "\<not> fst ?r \<Longrightarrow> snd ?r = t"
    by (simp add: compare_and_set_membership_def Let_def rowcount_zero_unchanged)
  show "wf_table (snd ?r)" using wf by (simp add: compare_and_set_membership_def Let_def)
qed

section \<open>The transition table\<close>

fun normal_transitions :: "target_status \<Rightarrow> target_status set" where
  "normal_transitions TG_Pending = {TG_Queued}"
| "normal_transitions TG_Queued = {TG_Downloading}"
| "normal_transitions TG_Downloading = {TG_Processing}"
| "normal_transitions TG_Processing = {TG_Downloaded}"
| "normal_transitions TG_Failed = {TG_Pending}"
| "normal_transitions TG_Blocked = {TG_Pending}"
| "normal_transitions TG_Downloaded = {TG_Missing}"
| "normal_transitions TG_Unavailable = {}"
| "normal_transitions TG_Missing = {TG_Pending}"
| "normal_transitions TG_Ignored = {}"

definition any_transitions :: "target_status set" where
  "any_transitions = {TG_Failed, TG_Unavailable, TG_Blocked, TG_Ignored}"

definition allowed :: "target_status \<Rightarrow> target_status set" where
  "allowed s = normal_transitions s \<union> any_transitions"

text \<open>
  \<open>seen\<close> is the table the session read the current status from; the update runs on \<open>tgs\<close>, which
  other processes may have changed since. A conflict rolls the session back.
\<close>

definition transition_target :: "target table \<Rightarrow> int \<Rightarrow> target_status \<Rightarrow> string option
    \<Rightarrow> string option \<Rightarrow> bool \<Rightarrow> (target \<Rightarrow> target) \<Rightarrow> instant \<Rightarrow> target table
    \<Rightarrow> (exn + bool) \<times> target table" where
  "transition_target seen tid st err blocked_reason increment_retry extra now tgs =
     (case tget seen tid of
        None \<Rightarrow> (Inl LookupError, tgs)
      | Some target \<Rightarrow>
          (let current = tg_status target
           in if st \<notin> allowed current then (Inl InvalidStateTransition, tgs)
              else (case compare_and_set_status tid {current} st err blocked_reason
                           increment_retry extra now tgs of
                      (changed, tgs') \<Rightarrow>
                        if \<not> changed then (Inl StateTransitionConflict, tgs)
                        else (Inr True, tgs'))))"

text \<open>The call as most callers make it: nothing in between, only a new status.\<close>

definition move_target :: "int \<Rightarrow> target_status \<Rightarrow> instant \<Rightarrow> target table \<Rightarrow> (exn + bool) \<times> target table" where
  "move_target tid st now tgs = transition_target tgs tid st None None False id now tgs"

definition advance_order :: "target_status list" where
  "advance_order = [TG_Pending, TG_Queued, TG_Downloading, TG_Processing, TG_Downloaded]"

fun index_of :: "'a \<Rightarrow> 'a list \<Rightarrow> nat option" where
  "index_of x [] = None"
| "index_of x (y # ys) = (if x = y then Some 0 else map_option Suc (index_of x ys))"

text \<open>A loop of transitions stops at the first exception; what was committed before stays.\<close>

fun move_along :: "int \<Rightarrow> target_status list \<Rightarrow> instant \<Rightarrow> target table \<Rightarrow> (exn + bool) \<times> target table" where
  "move_along tid [] now tgs = (Inr True, tgs)"
| "move_along tid (s # ss) now tgs =
     (case move_target tid s now tgs of
        (Inl e, tgs') \<Rightarrow> (Inl e, tgs')
      | (Inr _, tgs') \<Rightarrow> move_along tid ss now tgs')"

definition advance_from :: "int \<Rightarrow> target_status \<Rightarrow> target_status \<Rightarrow> instant \<Rightarrow> target table
    \<Rightarrow> (exn + bool) \<times> target table" where
  "advance_from tid current st now tgs =
     (case index_of current advance_order of
        None \<Rightarrow> (Inl InvalidStateTransition, tgs)
      | Some current_index \<Rightarrow>
          (case index_of st advance_order of
             None \<Rightarrow> (Inl InvalidStateTransition, tgs)
           | Some destination_index \<Rightarrow>
               if destination_index < current_index then (Inl InvalidStateTransition, tgs)
               else move_along tid
                      (drop (current_index + 1) (take (destination_index + 1) advance_order)) now tgs))"

definition advance_target :: "int \<Rightarrow> target_status \<Rightarrow> instant \<Rightarrow> target table
    \<Rightarrow> (exn + bool) \<times> target table" where
  "advance_target tid st now tgs =
     (case tget tgs tid of
        None \<Rightarrow> (Inl LookupError, tgs)
      | Some target \<Rightarrow>
          (let current = tg_status target
           in if current = st then (Inr False, tgs)
              else if st \<notin> set advance_order then (Inl InvalidStateTransition, tgs)
              else if current \<in> {TG_Failed, TG_Blocked}
              then (case move_target tid TG_Pending now tgs of
                      (Inl e, tgs') \<Rightarrow> (Inl e, tgs')
                    | (Inr _, tgs') \<Rightarrow> advance_from tid TG_Pending st now tgs')
              else advance_from tid current st now tgs))"

definition transition_item :: "item table \<Rightarrow> int \<Rightarrow> item_membership \<Rightarrow> instant \<Rightarrow> item table
    \<Rightarrow> (exn + bool) \<times> item table" where
  "transition_item seen item_id m now its =
     (case tget seen item_id of
        None \<Rightarrow> (Inl LookupError, its)
      | Some it \<Rightarrow>
          (let current = it_membership it
           in if current = m then (Inl InvalidStateTransition, its)
              else (case compare_and_set_membership item_id {current} m now its of
                      (changed, its') \<Rightarrow>
                        if \<not> changed then (Inl StateTransitionConflict, its) else (Inr True, its'))))"

section \<open>Reflecting a settled task on its target\<close>

definition active_target_statuses :: "target_status set" where
  "active_target_statuses = {TG_Pending, TG_Queued, TG_Downloading, TG_Processing, TG_Blocked}"

definition msg_not_retryable :: string where "msg_not_retryable = ''task became not retryable''"
definition msg_cancelled :: string where "msg_cancelled = ''task was cancelled''"

text \<open>\<open>error or default\<close>: an empty message counts as none.\<close>

definition or_default :: "string option \<Rightarrow> string \<Rightarrow> string option" where
  "or_default err d = (case err of None \<Rightarrow> Some d | Some s \<Rightarrow> if s = [] then Some d else Some s)"

definition sync_target_after_task :: "task \<Rightarrow> task_status \<Rightarrow> string option \<Rightarrow> bool \<Rightarrow> instant
    \<Rightarrow> target table \<Rightarrow> bool \<times> target table" where
  "sync_target_after_task tsk st err failed_attempt now tgs =
     (let tid = tk_target_ref_id tsk
      in if tk_target_ref_type tsk \<noteq> ''target'' then (False, tgs)
         else if st = TS_Unavailable then
           (let first = (if failed_attempt
                then compare_and_set_status tid {TG_Failed} TG_Unavailable
                       (or_default err msg_not_retryable) None False id now tgs
                else (False, tgs))
            in if fst first then (True, snd first)
               else compare_and_set_status tid active_target_statuses TG_Unavailable
                      (or_default err msg_not_retryable) None failed_attempt id now (snd first))
         else if st = TS_Cancelled then
           compare_and_set_status tid active_target_statuses TG_Failed
             (or_default err msg_cancelled) None False id now tgs
         else if st = TS_Blocked then
           compare_and_set_status tid (active_target_statuses - {TG_Blocked}) TG_Blocked
             err err False id now tgs
         else if st = TS_Pending \<and> failed_attempt then
           compare_and_set_status tid (active_target_statuses - {TG_Blocked}) TG_Failed
             err None True id now tgs
         else (False, tgs))"

end
