(* ===== verification/Target_Theorems.thy ===== *)
theory Target_Theorems
  imports Target_State "HOL-Library.Sublist"
begin

text \<open>
  The correctness of the Target transitions: an update is guarded by the status it was decided on,
  the transition table lets a Target become downloaded along one route only, advancing reaches
  exactly the stage asked for, and a settled Task is reflected on its Target once.
\<close>

section \<open>Transitions\<close>

lemma allowed_simps [simp]:
  "allowed TG_Pending = {TG_Queued, TG_Failed, TG_Unavailable, TG_Blocked, TG_Ignored}"
  "allowed TG_Queued = {TG_Downloading, TG_Failed, TG_Unavailable, TG_Blocked, TG_Ignored}"
  "allowed TG_Downloading = {TG_Processing, TG_Failed, TG_Unavailable, TG_Blocked, TG_Ignored}"
  "allowed TG_Processing = {TG_Downloaded, TG_Failed, TG_Unavailable, TG_Blocked, TG_Ignored}"
  "allowed TG_Failed = {TG_Pending, TG_Failed, TG_Unavailable, TG_Blocked, TG_Ignored}"
  "allowed TG_Blocked = {TG_Pending, TG_Failed, TG_Unavailable, TG_Blocked, TG_Ignored}"
  "allowed TG_Downloaded = {TG_Missing, TG_Failed, TG_Unavailable, TG_Blocked, TG_Ignored}"
  "allowed TG_Unavailable = {TG_Failed, TG_Unavailable, TG_Blocked, TG_Ignored}"
  "allowed TG_Missing = {TG_Pending, TG_Failed, TG_Unavailable, TG_Blocked, TG_Ignored}"
  "allowed TG_Ignored = {TG_Failed, TG_Unavailable, TG_Blocked, TG_Ignored}"
  by (auto simp: allowed_def any_transitions_def)

lemma compare_and_set_status_frame:
  "j \<noteq> tid \<Longrightarrow> tget (snd (compare_and_set_status tid E st err br inc extra now tgs)) j = tget tgs j"
  by (cases "tget tgs j") (simp_all add: compare_and_set_status_def target_cas_where_def)

lemma transition_target_missing:
  "tget seen tid = None \<Longrightarrow>
   transition_target seen tid st err br inc extra now tgs = (Inl LookupError, tgs)"
  by (simp add: transition_target_def)

lemma transition_target_invalid:
  "tget seen tid = Some t \<Longrightarrow> st \<notin> allowed (tg_status t) \<Longrightarrow>
   transition_target seen tid st err br inc extra now tgs = (Inl InvalidStateTransition, tgs)"
  by (simp add: transition_target_def)

lemma transition_target_conflict:
  assumes "wf_table tgs" "tget seen tid = Some t" "st \<in> allowed (tg_status t)"
    "target_status_of tgs tid \<noteq> Some (tg_status t)"
  shows "transition_target seen tid st err br inc extra now tgs = (Inl StateTransitionConflict, tgs)"
proof -
  have "\<not> fst (compare_and_set_status tid {tg_status t} st err br inc extra now tgs)"
    using assms by (simp add: compare_and_set_status_fst)
  then show ?thesis using assms
    by (simp add: transition_target_def case_prod_beta)
qed

lemma transition_target_ok:
  assumes "wf_table tgs" "tget seen tid = Some s" "st \<in> allowed (tg_status s)"
    "tget tgs tid = Some t" "tg_status t = tg_status s"
  shows "transition_target seen tid st err br inc extra now tgs =
    (Inr True, set_row tid (target_cas_row st err br inc extra now) tgs)"
proof -
  let ?c = "compare_and_set_status tid {tg_status s} st err br inc extra now tgs"
  have "fst ?c" using assms by (simp add: compare_and_set_status_fst target_status_of_def)
  moreover have "snd ?c = set_row tid (target_cas_row st err br inc extra now) tgs"
    using assms by (intro compare_and_set_status_snd[OF assms(1,4)]) simp
  ultimately show ?thesis using assms(2,3)
    by (simp add: transition_target_def case_prod_beta)
qed

lemma wf_transition_target [table_intros]:
  "wf_table tgs \<Longrightarrow> wf_table (snd (transition_target seen tid st err br inc extra now tgs))"
  by (auto simp: transition_target_def case_prod_beta Let_def split: option.splits)

text \<open>
  Claim C29: a transition decided on a status read earlier is applied only if the row still has that
  status and the table of \<open>_TARGET_NORMAL_TRANSITIONS\<close> and \<open>_TARGET_ANY_TRANSITIONS\<close> allows the
  step; otherwise the exception says why and nothing is written. No other row is ever touched,
  whatever the interleaved writes were.
\<close>

theorem transition_target_guarded:
  assumes "wf_table tgs" "status_kept extra"
    "transition_target seen tid st err br inc extra now tgs = (r, tgs')"
  shows "r = (case target_status_of seen tid of
         None \<Rightarrow> Inl LookupError
       | Some s \<Rightarrow> if st \<notin> allowed s then Inl InvalidStateTransition
                   else if target_status_of tgs tid \<noteq> Some s then Inl StateTransitionConflict
                   else Inr True) \<and>
    (isl r \<longrightarrow> tgs' = tgs) \<and>
    (\<not> isl r \<longrightarrow> target_status_of tgs' tid = Some st) \<and>
    (\<forall>j. j \<noteq> tid \<longrightarrow> tget tgs' j = tget tgs j)"
proof -
  consider (missing) "tget seen tid = None"
    | (invalid) s where "tget seen tid = Some s" "st \<notin> allowed (tg_status s)"
    | (conflict) s where "tget seen tid = Some s" "st \<in> allowed (tg_status s)"
        "target_status_of tgs tid \<noteq> Some (tg_status s)"
    | (ok) s t where "tget seen tid = Some s" "st \<in> allowed (tg_status s)"
        "tget tgs tid = Some t" "tg_status t = tg_status s"
    by (auto simp: target_status_of_def)
  then show ?thesis
  proof cases
    case missing
    with assms(3) show ?thesis by (auto simp: transition_target_missing target_status_of_def)
  next
    case (invalid s)
    with assms(3) show ?thesis by (auto simp: transition_target_invalid target_status_of_def)
  next
    case (conflict s)
    with assms(3) transition_target_conflict[OF assms(1) conflict] show ?thesis
      by (auto simp: target_status_of_def)
  next
    case (ok s t)
    with assms(2,3) transition_target_ok[OF assms(1) ok] show ?thesis
      by (auto simp: target_status_of_def target_cas_row_status)
  qed
qed

definition sample_targets :: "target table" where
  "sample_targets = [(1, new_target 10 20 0), (2, (new_target 11 20 0)\<lparr>tg_status := TG_Failed\<rparr>)]"

lemma sample_targets_simps [simp]:
  "wf_table sample_targets"
  "tget sample_targets 1 = Some (new_target 10 20 0)"
  "tget sample_targets 2 = Some ((new_target 11 20 0)\<lparr>tg_status := TG_Failed\<rparr>)"
  by (simp_all add: sample_targets_def wf_table_def ids_def tget_def)

theorem transition_target_guarded_witness:
  "fst (transition_target sample_targets 1 TG_Queued None None False id 5
      (set_row 1 (\<lambda>t. t\<lparr>tg_status := TG_Ignored\<rparr>) sample_targets)) = Inl StateTransitionConflict"
proof -
  let ?tgs = "set_row 1 (\<lambda>t. t\<lparr>tg_status := TG_Ignored\<rparr>) sample_targets"
  have "wf_table ?tgs" by simp
  from transition_target_guarded[OF this status_kept_id(1) surjective_pairing,
      of sample_targets 1 TG_Queued None None False 5]
  show ?thesis by (simp add: target_status_of_def new_target_def)
qed

section \<open>The route to downloaded\<close>

fun allowed_path :: "target_status list \<Rightarrow> bool" where
  "allowed_path (s # s' # p) \<longleftrightarrow> s' \<in> allowed s \<and> allowed_path (s' # p)"
| "allowed_path _ \<longleftrightarrow> True"

lemma allowed_path_snoc:
  "allowed_path (p @ [s, s']) \<longleftrightarrow> allowed_path (p @ [s]) \<and> s' \<in> allowed s"
  by (induction p rule: allowed_path.induct) auto

lemma allowed_into:
  "TG_Downloaded \<in> allowed s \<longleftrightarrow> s = TG_Processing"
  "TG_Processing \<in> allowed s \<longleftrightarrow> s = TG_Downloading"
  "TG_Downloading \<in> allowed s \<longleftrightarrow> s = TG_Queued"
  "TG_Queued \<in> allowed s \<longleftrightarrow> s = TG_Pending"
  by (cases s; simp)+

lemma allowed_path_last_step:
  assumes "allowed_path (q @ [s'])" "q \<noteq> []"
  obtains p s where "q = p @ [s]" "s' \<in> allowed s" "allowed_path (p @ [s])"
proof -
  from assms(2) obtain p s where q: "q = p @ [s]" by (meson rev_exhaust)
  with assms(1) show ?thesis using that allowed_path_snoc[of p s s'] by simp
qed

text \<open>
  Along allowed transitions a Target that starts pending becomes downloaded only by passing,
  immediately before, through pending, queued, downloading and processing in this order: no failure,
  block or operator action leads to downloaded past the pipeline.
\<close>

theorem downloaded_only_through_pipeline:
  assumes "allowed_path (TG_Pending # p @ [TG_Downloaded])"
  shows "suffix [TG_Pending, TG_Queued, TG_Downloading, TG_Processing, TG_Downloaded]
           (TG_Pending # p @ [TG_Downloaded])"
proof -
  obtain p4 s4 where 4: "TG_Pending # p = p4 @ [s4]" "TG_Downloaded \<in> allowed s4" "allowed_path (p4 @ [s4])"
    using allowed_path_last_step[of "TG_Pending # p" TG_Downloaded] assms by auto
  have s4: "s4 = TG_Processing" using 4(2) by (simp only: allowed_into)
  then have "p4 \<noteq> []" using 4(1) by (cases p4) auto
  then obtain p3 s3 where 3: "p4 = p3 @ [s3]" "TG_Processing \<in> allowed s3" "allowed_path (p3 @ [s3])"
    using allowed_path_last_step[of p4 TG_Processing] 4(3) s4 by auto
  have s3: "s3 = TG_Downloading" using 3(2) by (simp only: allowed_into)
  then have "p3 \<noteq> []" using 3(1) 4(1) by (cases p3) auto
  then obtain p2 s2 where 2: "p3 = p2 @ [s2]" "TG_Downloading \<in> allowed s2" "allowed_path (p2 @ [s2])"
    using allowed_path_last_step[of p3 TG_Downloading] 3(3) s3 by auto
  have s2: "s2 = TG_Queued" using 2(2) by (simp only: allowed_into)
  then have "p2 \<noteq> []" using 2(1) 3(1) 4(1) by (cases p2) auto
  then obtain p1 s1 where 1: "p2 = p1 @ [s1]" "TG_Queued \<in> allowed s1" "allowed_path (p1 @ [s1])"
    using allowed_path_last_step[of p2 TG_Queued] 2(3) s2 by auto
  have s1: "s1 = TG_Pending" using 1(2) by (simp only: allowed_into)
  have "TG_Pending # p @ [TG_Downloaded] =
      p1 @ [TG_Pending, TG_Queued, TG_Downloading, TG_Processing, TG_Downloaded]"
    using 1 2 3 4 s1 s2 s3 s4 by (metis (no_types, lifting) append.assoc append_Cons append_Nil)
  then show ?thesis by (simp add: suffix_def)
qed

theorem downloaded_only_through_pipeline_witness:
  "suffix [TG_Pending, TG_Queued, TG_Downloading, TG_Processing, TG_Downloaded]
     (TG_Pending # [TG_Queued, TG_Failed, TG_Pending, TG_Queued, TG_Downloading, TG_Processing]
        @ [TG_Downloaded])"
  by (rule downloaded_only_through_pipeline) simp

section \<open>Advancing\<close>

lemma move_target_ok:
  "wf_table tgs \<Longrightarrow> tget tgs tid = Some t \<Longrightarrow> st \<in> allowed (tg_status t) \<Longrightarrow>
   move_target tid st now tgs = (Inr True, set_row tid (target_cas_row st None None False id now) tgs)"
  by (simp add: move_target_def transition_target_ok)

lemma move_target_invalid:
  "tget tgs tid = Some t \<Longrightarrow> st \<notin> allowed (tg_status t) \<Longrightarrow>
   move_target tid st now tgs = (Inl InvalidStateTransition, tgs)"
  by (simp add: move_target_def transition_target_invalid)

text \<open>What a plain move leaves of a row: its keys and its retry count.\<close>

definition moved_row :: "target_status \<Rightarrow> target \<Rightarrow> target \<Rightarrow> bool" where
  "moved_row st t u \<longleftrightarrow> tg_status u = st \<and> tg_item_id u = tg_item_id t \<and>
     tg_playlist_profile_id u = tg_playlist_profile_id t \<and> tg_retry_count u = tg_retry_count t"

lemma moved_row_trans: "moved_row s t u \<Longrightarrow> moved_row s' u v \<Longrightarrow> moved_row s' t v"
  by (simp add: moved_row_def)

lemma moved_row_cas: "moved_row st t (target_cas_row st None None False id now t)"
  by (simp add: moved_row_def target_cas_row_def)

lemma move_along_ok:
  assumes "wf_table tgs" "tget tgs tid = Some t" "allowed_path (tg_status t # ss)"
  shows "\<exists>tgs' u. move_along tid ss now tgs = (Inr True, tgs') \<and> wf_table tgs' \<and>
    tget tgs' tid = Some u \<and> moved_row (last (tg_status t # ss)) t u \<and>
    (\<forall>j. j \<noteq> tid \<longrightarrow> tget tgs' j = tget tgs j)"
  using assms
proof (induction ss arbitrary: tgs t)
  case Nil
  then show ?case by (auto simp: moved_row_def)
next
  case (Cons s ss)
  let ?tgs = "set_row tid (target_cas_row s None None False id now) tgs"
  let ?t = "target_cas_row s None None False id now t"
  have t: "wf_table ?tgs" "tget ?tgs tid = Some ?t" "tg_status ?t = s"
    using Cons.prems by (simp_all add: target_cas_row_def)
  with Cons.IH[of ?tgs ?t] Cons.prems
  obtain tgs' u where "move_along tid ss now ?tgs = (Inr True, tgs')" "wf_table tgs'"
    "tget tgs' tid = Some u" "moved_row (last (s # ss)) ?t u" "\<forall>j. j \<noteq> tid \<longrightarrow> tget tgs' j = tget ?tgs j"
    by auto
  then show ?case using Cons.prems move_target_ok[of tgs tid t s now]
      moved_row_trans[OF moved_row_cas[of s t now]]
    by auto
qed

lemma advance_order_index:
  "index_of s advance_order = (case s of TG_Pending \<Rightarrow> Some 0 | TG_Queued \<Rightarrow> Some 1
     | TG_Downloading \<Rightarrow> Some 2 | TG_Processing \<Rightarrow> Some 3 | TG_Downloaded \<Rightarrow> Some 4 | _ \<Rightarrow> None)"
  by (cases s) (simp_all add: advance_order_def)

definition advance_rank :: "target_status \<Rightarrow> nat option" where
  "advance_rank s = (if s \<in> {TG_Failed, TG_Blocked} then Some 0 else index_of s advance_order)"

text \<open>Where an advance to \<open>st\<close> is possible from, and what the route is.\<close>

definition advanceable :: "target_status \<Rightarrow> target_status \<Rightarrow> bool" where
  "advanceable s st \<longleftrightarrow> (case (advance_rank s, index_of st advance_order) of
     (Some m, Some n) \<Rightarrow> m \<le> n | _ \<Rightarrow> False)"

lemma advance_from_ok:
  assumes "wf_table tgs" "tget tgs tid = Some t" "tg_status t = s"
    "index_of s advance_order = Some m" "index_of st advance_order = Some n" "m \<le> n"
  shows "\<exists>tgs' u. advance_from tid s st now tgs = (Inr True, tgs') \<and> wf_table tgs' \<and>
    tget tgs' tid = Some u \<and> moved_row st t u \<and> (\<forall>j. j \<noteq> tid \<longrightarrow> tget tgs' j = tget tgs j)"
proof -
  let ?ss = "drop (m + 1) (take (n + 1) advance_order)"
  have "allowed_path (s # ?ss) \<and> last (s # ?ss) = st"
    using assms(4-6)
    by (cases s; cases st) (auto simp: advance_order_def numeral_eq_Suc)
  moreover have "advance_from tid s st now tgs = move_along tid ?ss now tgs"
    using assms(4-6) by (simp add: advance_from_def)
  ultimately show ?thesis
    using move_along_ok[OF assms(1,2), of ?ss now] assms(3) by metis
qed

lemma advance_from_bad:
  assumes "\<not> (\<exists>m n. index_of s advance_order = Some m \<and> index_of st advance_order = Some n \<and> m \<le> n)"
  shows "advance_from tid s st now tgs = (Inl InvalidStateTransition, tgs)"
  using assms by (auto simp: advance_from_def split: option.splits)

lemma mem_advance_order: "st \<in> set advance_order \<longleftrightarrow> (\<exists>n. index_of st advance_order = Some n)"
  by (cases st) (simp_all add: advance_order_def)

lemma advance_target_same:
  "wf_table tgs \<Longrightarrow> tget tgs tid = Some t \<Longrightarrow> tg_status t = st \<Longrightarrow>
   advance_target tid st now tgs = (Inr False, tgs)"
  by (simp add: advance_target_def)

lemma advance_target_forward:
  assumes "wf_table tgs" "tget tgs tid = Some t" and ne: "tg_status t \<noteq> st"
    and adv: "advanceable (tg_status t) st"
  shows "\<exists>tgs' u. advance_target tid st now tgs = (Inr True, tgs') \<and> tget tgs' tid = Some u \<and>
        moved_row st t u \<and> (\<forall>j. j \<noteq> tid \<longrightarrow> tget tgs' j = tget tgs j)"
proof -
  from adv obtain m n where mn: "advance_rank (tg_status t) = Some m" "index_of st advance_order = Some n" "m \<le> n"
    by (auto simp: advanceable_def split: option.splits)
  then have mem: "st \<in> set advance_order" by (simp add: mem_advance_order)
  show "\<exists>tgs' u. advance_target tid st now tgs = (Inr True, tgs') \<and> tget tgs' tid = Some u \<and>
        moved_row st t u \<and> (\<forall>j. j \<noteq> tid \<longrightarrow> tget tgs' j = tget tgs j)"
  proof (cases "tg_status t \<in> {TG_Failed, TG_Blocked}")
    case True
    let ?f = "target_cas_row TG_Pending None None False id now"
    let ?tgs = "set_row tid ?f tgs"
    have move: "move_target tid TG_Pending now tgs = (Inr True, ?tgs)"
      using assms True by (intro move_target_ok) auto
    have "\<exists>tgs' u. advance_from tid TG_Pending st now ?tgs = (Inr True, tgs') \<and> wf_table tgs' \<and>
        tget tgs' tid = Some u \<and> moved_row st (?f t) u \<and> (\<forall>j. j \<noteq> tid \<longrightarrow> tget tgs' j = tget ?tgs j)"
      using assms mn(2) by (intro advance_from_ok[where m = 0 and n = n])
        (simp_all add: advance_order_def target_cas_row_def)
    with moved_row_trans[OF moved_row_cas[of TG_Pending t now]] show ?thesis
      using assms ne True mem move by (auto simp: advance_target_def)
  next
    case False
    then have "index_of (tg_status t) advance_order = Some m" using mn(1) by (simp add: advance_rank_def)
    with advance_from_ok[OF assms(1,2) refl this mn(2,3), of now] show ?thesis
      using assms ne False mem by (auto simp: advance_target_def)
  qed
qed

lemma advance_target_refused:
  assumes "wf_table tgs" "tget tgs tid = Some t" and ne: "tg_status t \<noteq> st"
    and adv: "\<not> advanceable (tg_status t) st"
  shows "advance_target tid st now tgs = (Inl InvalidStateTransition, tgs)"
proof (cases "st \<in> set advance_order")
    case True
    then have "tg_status t \<notin> {TG_Failed, TG_Blocked}"
      using adv by (auto simp: advanceable_def advance_rank_def mem_advance_order)
    moreover have "advance_from tid (tg_status t) st now tgs = (Inl InvalidStateTransition, tgs)"
      using adv calculation by (intro advance_from_bad) (auto simp: advanceable_def advance_rank_def)
    ultimately show ?thesis using assms ne True by (simp add: advance_target_def)
  qed (use assms ne in \<open>simp add: advance_target_def\<close>)

text \<open>
  \<open>advance_target\<close> is a no-op on a Target that already is at the stage, reaches exactly the
  stage asked for from every earlier stage and from failed and blocked (keeping the retry count and
  every other row), and refuses everything else, going backwards in particular, without a write.
\<close>

theorem advance_target_spec:
  assumes "wf_table tgs" "tget tgs tid = Some t"
  shows "if tg_status t = st then advance_target tid st now tgs = (Inr False, tgs)
    else if advanceable (tg_status t) st then
      \<exists>tgs' u. advance_target tid st now tgs = (Inr True, tgs') \<and> tget tgs' tid = Some u \<and>
        moved_row st t u \<and> (\<forall>j. j \<noteq> tid \<longrightarrow> tget tgs' j = tget tgs j)
    else advance_target tid st now tgs = (Inl InvalidStateTransition, tgs)"
  using advance_target_same[OF assms] advance_target_forward[OF assms] advance_target_refused[OF assms]
  by auto

theorem advance_target_spec_witness:
  "\<exists>tgs' u. advance_target 2 TG_Processing 7 sample_targets = (Inr True, tgs') \<and>
     tget tgs' 2 = Some u \<and> tg_status u = TG_Processing \<and> tget tgs' 1 = tget sample_targets 1"
  using advance_target_spec[OF sample_targets_simps(1,3), of TG_Processing 7]
  by (auto simp: new_target_def moved_row_def advanceable_def advance_rank_def advance_order_def)

end
