(* ===== verification/Text.thy ===== *)
theory Text
  imports Prelude
begin

text \<open>
  The string operations of Python the code uses, on lists of characters: searching, splitting and
  joining, stripping and case folding, decimal numbers, and the parts of a POSIX path. A character
  is one of 256 code points; white space and case are Python's on this range, with ASCII case only.
\<close>

section \<open>Searching, splitting, joining\<close>

definition starts_with :: "string \<Rightarrow> string \<Rightarrow> bool" where
  "starts_with p s \<longleftrightarrow> take (length p) s = p"

definition ends_with :: "string \<Rightarrow> string \<Rightarrow> bool" where
  "ends_with p s \<longleftrightarrow> starts_with (rev p) (rev s)"

fun contains :: "string \<Rightarrow> string \<Rightarrow> bool" where
  "contains p [] \<longleftrightarrow> p = []"
| "contains p (c # s) \<longleftrightarrow> starts_with p (c # s) \<or> contains p s"

fun split_on :: "'a \<Rightarrow> 'a list \<Rightarrow> 'a list list" where
  "split_on c [] = [[]]"
| "split_on c (x # xs) =
     (if x = c then [] # split_on c xs
      else (case split_on c xs of [] \<Rightarrow> [[x]] | y # ys \<Rightarrow> (x # y) # ys))"

fun join :: "'a list \<Rightarrow> 'a list list \<Rightarrow> 'a list" where
  "join sep [] = []"
| "join sep [x] = x"
| "join sep (x # y # ys) = x @ sep @ join sep (y # ys)"

definition replace_char :: "'a \<Rightarrow> 'a \<Rightarrow> 'a list \<Rightarrow> 'a list" where
  "replace_char a b s = map (\<lambda>c. if c = a then b else c) s"

text \<open>\<open>s.partition(c)\<close>: what is before the first \<open>c\<close>, whether there is one, what is after it.\<close>

fun partition_at :: "'a \<Rightarrow> 'a list \<Rightarrow> 'a list \<times> bool \<times> 'a list" where
  "partition_at c [] = ([], False, [])"
| "partition_at c (x # xs) =
     (if x = c then ([], True, xs)
      else (case partition_at c xs of (a, found, b) \<Rightarrow> (x # a, found, b)))"

text \<open>\<open>s.rpartition(c)\<close>, on the last \<open>c\<close>; without one the whole string is the third component.\<close>

definition rpartition_at :: "'a \<Rightarrow> 'a list \<Rightarrow> 'a list \<times> bool \<times> 'a list" where
  "rpartition_at c s = (case partition_at c (rev s) of (a, found, b) \<Rightarrow> (rev b, found, rev a))"

section \<open>White space and case\<close>

definition code :: "char \<Rightarrow> nat" where
  "code c = of_char c"

definition is_space :: "char \<Rightarrow> bool" where
  "is_space c \<longleftrightarrow> code c \<in> {9, 10, 11, 12, 13, 28, 29, 30, 31, 32, 133, 160}"

definition lstrip_where :: "('a \<Rightarrow> bool) \<Rightarrow> 'a list \<Rightarrow> 'a list" where
  "lstrip_where p s = dropWhile p s"

definition rstrip_where :: "('a \<Rightarrow> bool) \<Rightarrow> 'a list \<Rightarrow> 'a list" where
  "rstrip_where p s = rev (dropWhile p (rev s))"

definition strip :: "string \<Rightarrow> string" where
  "strip s = rstrip_where is_space (lstrip_where is_space s)"

definition lower_char :: "char \<Rightarrow> char" where
  "lower_char c = (if 65 \<le> code c \<and> code c \<le> 90 then char_of (code c + 32) else c)"

definition lower :: "string \<Rightarrow> string" where
  "lower s = map lower_char s"

definition is_digit :: "char \<Rightarrow> bool" where
  "is_digit c \<longleftrightarrow> 48 \<le> code c \<and> code c \<le> 57"

definition is_alpha :: "char \<Rightarrow> bool" where
  "is_alpha c \<longleftrightarrow> 65 \<le> code c \<and> code c \<le> 90 \<or> 97 \<le> code c \<and> code c \<le> 122"

section \<open>Numbers\<close>

definition digit :: "nat \<Rightarrow> char" where
  "digit n = char_of (48 + n)"

fun nat_str :: "nat \<Rightarrow> string" where
  "nat_str n = (if n < 10 then [digit n] else nat_str (n div 10) @ [digit (n mod 10)])"

declare nat_str.simps [simp del]

definition int_str :: "int \<Rightarrow> string" where
  "int_str i = (if i < 0 then CHR ''-'' # nat_str (nat (- i)) else nat_str (nat i))"

definition digits_value :: "string \<Rightarrow> nat" where
  "digits_value s = foldl (\<lambda>n c. 10 * n + (code c - 48)) 0 s"

text \<open>
  \<open>int(s)\<close>: surrounding white space, a sign, and digits which single underscores may separate.
\<close>

fun int_digits :: "string \<Rightarrow> string option" where
  "int_digits [] = None"
| "int_digits [c] = (if is_digit c then Some [c] else None)"
| "int_digits (c # d # s) =
     (if \<not> is_digit c then None
      else if d = CHR ''_'' then map_option (Cons c) (int_digits s)
      else map_option (Cons c) (int_digits (d # s)))"

definition py_int :: "string \<Rightarrow> int option" where
  "py_int s = (case strip s of
       [] \<Rightarrow> None
     | c # r \<Rightarrow>
         if c = CHR ''-'' then map_option (\<lambda>d. - int (digits_value d)) (int_digits r)
         else if c = CHR ''+'' then map_option (\<lambda>d. int (digits_value d)) (int_digits r)
         else map_option (\<lambda>d. int (digits_value d)) (int_digits (c # r)))"

text \<open>
  \<open>float(s)\<close>: white space around it, a sign, digits with a decimal point and an exponent. \<open>None\<close> is
  \<open>ValueError\<close>, \<open>Some None\<close> a value that is not finite, which a number too large for a double also is.
\<close>

definition float_digits :: "string \<Rightarrow> string option" where
  "float_digits s = (if s = [] then Some [] else int_digits s)"

definition double_bound :: rat where
  "double_bound = 2 ^ 1024 - 2 ^ 970"

definition power10 :: "int \<Rightarrow> rat" where
  "power10 k = (if 0 \<le> k then 10 ^ nat k else 1 / 10 ^ nat (- k))"

definition split_sign :: "string \<Rightarrow> bool \<times> string" where
  "split_sign s = (case s of [] \<Rightarrow> (False, [])
     | c # r \<Rightarrow> if c = CHR ''-'' then (True, r) else if c = CHR ''+'' then (False, r) else (False, c # r))"

definition py_float :: "string \<Rightarrow> rat option option" where
  "py_float s =
     (case split_sign (strip s) of (neg, t) \<Rightarrow>
        if lower t \<in> {''inf'', ''infinity'', ''nan''} then Some None
        else case partition_at (CHR ''e'') (lower t) of (m, has_exp, ex) \<Rightarrow>
          case partition_at (CHR ''.'') m of (ip, _, fp) \<Rightarrow>
            case split_sign ex of (eneg, ed) \<Rightarrow>
              case (float_digits ip, float_digits fp, if has_exp then int_digits ed else Some ''0'') of
                (Some i, Some f, Some e) \<Rightarrow>
                  if i = [] \<and> f = [] then None
                  else (let k = (if eneg then - int (digits_value e) else int (digits_value e));
                            v = of_nat (digits_value (i @ f)) * power10 (k - int (length f))
                        in if double_bound \<le> v then Some None else Some (Some (if neg then - v else v)))
              | _ \<Rightarrow> None)"

section \<open>POSIX paths\<close>

text \<open>\<open>PurePosixPath(s)\<close>: absolute or not, and the parts without empty ones and single dots.\<close>

definition path_is_absolute :: "string \<Rightarrow> bool" where
  "path_is_absolute s \<longleftrightarrow> starts_with ''/'' s"

definition path_parts :: "string \<Rightarrow> string list" where
  "path_parts s = filter (\<lambda>p. p \<noteq> [] \<and> p \<noteq> ''.'') (split_on (CHR ''/'') s)"

section \<open>Facts\<close>

lemma starts_with_iff: "starts_with p s \<longleftrightarrow> (\<exists>r. s = p @ r)"
  by (metis append_eq_conv_conj append_take_drop_id starts_with_def)

lemma ends_with_iff: "ends_with p s \<longleftrightarrow> (\<exists>r. s = r @ p)"
  unfolding ends_with_def starts_with_iff by (metis rev_append rev_rev_ident)

lemma contains_iff: "contains p s \<longleftrightarrow> (\<exists>a b. s = a @ p @ b)"
proof (induction s)
  case IH: (Cons c s)
  show ?case
  proof
    assume "contains p (c # s)"
    with IH consider r where "c # s = p @ r" | a b where "s = a @ p @ b"
      by (auto simp: starts_with_iff)
    then show "\<exists>a b. c # s = a @ p @ b"
    proof cases
      case (1 r)
      then have "c # s = [] @ p @ r" by simp
      then show ?thesis by blast
    next
      case (2 a b)
      then have "c # s = (c # a) @ p @ b" by simp
      then show ?thesis by blast
    qed
  next
    assume "\<exists>a b. c # s = a @ p @ b"
    then obtain a b where ab: "c # s = a @ p @ b" by blast
    show "contains p (c # s)"
    proof (cases a)
      case Nil
      with ab have "starts_with p (c # s)" by (simp add: starts_with_iff)
      then show ?thesis by simp
    next
      case (Cons x a')
      with ab have "s = a' @ p @ b" by simp
      then show ?thesis using IH by auto
    qed
  qed
qed auto

lemma split_on_not_Nil [simp]: "split_on c s \<noteq> []"
  by (induction s) (auto split: list.splits)

lemma split_on_no_sep: "p \<in> set (split_on c s) \<Longrightarrow> c \<notin> set p"
  by (induction s arbitrary: p) (auto split: list.splits if_splits)

lemma split_on_append:
  "c \<notin> set x \<Longrightarrow> split_on c (x @ c # s) = x # split_on c s"
  by (induction x) auto

lemma split_on_single: "c \<notin> set x \<Longrightarrow> split_on c x = [x]"
  by (induction x) auto

lemma split_on_join:
  "xs \<noteq> [] \<Longrightarrow> (\<And>x. x \<in> set xs \<Longrightarrow> c \<notin> set x) \<Longrightarrow> split_on c (join [c] xs) = xs"
  by (induction "[c]" xs rule: join.induct) (simp_all add: split_on_single split_on_append)

lemma join_split_on: "join [c] (split_on c s) = s"
proof (induction s)
  case (Cons x s)
  obtain y ys where "split_on c s = y # ys" by (cases "split_on c s") auto
  with Cons show ?case by (cases ys) auto
qed simp

lemma join_Nil_iff: "join [c] xs = [] \<longleftrightarrow> xs = [] \<or> xs = [[]]"
  by (cases "([c], xs)" rule: join.cases) auto

lemma path_parts_join:
  "(\<And>p. p \<in> set ps \<Longrightarrow> p \<noteq> [] \<and> p \<noteq> ''.'' \<and> CHR ''/'' \<notin> set p) \<Longrightarrow> path_parts (join ''/'' ps) = ps"
proof (cases "ps = []")
  case False
  assume "\<And>p. p \<in> set ps \<Longrightarrow> p \<noteq> [] \<and> p \<noteq> ''.'' \<and> CHR ''/'' \<notin> set p"
  then show ?thesis
    using split_on_join[OF False, of "CHR ''/''"] by (simp add: path_parts_def)
qed (simp add: path_parts_def)

lemma path_parts_mem:
  "p \<in> set (path_parts s) \<Longrightarrow> p \<noteq> [] \<and> p \<noteq> ''.'' \<and> CHR ''/'' \<notin> set p"
  by (auto simp: path_parts_def dest: split_on_no_sep)

lemma code_digit: "n < 10 \<Longrightarrow> code (digit n) = 48 + n"
  by (simp add: code_def digit_def)

lemma digit_simps:
  "digit 0 = CHR ''0''"
  "digit (Suc 0) = CHR ''1''"
  "digit 2 = CHR ''2''"
  "digit 3 = CHR ''3''"
  "digit 4 = CHR ''4''"
  "digit 5 = CHR ''5''"
  "digit 6 = CHR ''6''"
  "digit 7 = CHR ''7''"
  "digit 8 = CHR ''8''"
  "digit 9 = CHR ''9''"
  by (simp_all add: digit_def char_of_def bit_Suc_0_iff)

lemma digits_value_snoc: "digits_value (s @ [c]) = 10 * digits_value s + (code c - 48)"
  by (simp add: digits_value_def)

lemma digits_value_nat_str [simp]: "digits_value (nat_str n) = n"
proof (induction n rule: nat_str.induct)
  case (1 n)
  show ?case
  proof (cases "n < 10")
    case True
    then show ?thesis by (simp add: nat_str.simps[of n] digits_value_def code_digit)
  next
    case False
    with 1 have "digits_value (nat_str (n div 10)) = n div 10" by simp
    then show ?thesis
      using False by (simp add: nat_str.simps[of n] digits_value_snoc code_digit)
  qed
qed

lemma nat_str_inject: "nat_str m = nat_str n \<longleftrightarrow> m = n"
  by (metis digits_value_nat_str)

lemma nat_str_digits: "c \<in> set (nat_str n) \<Longrightarrow> is_digit c"
proof (induction n rule: nat_str.induct)
  case (1 n)
  have d: "is_digit (digit k)" if "k < 10" for k
    using that by (simp add: is_digit_def code_digit)
  show ?case
  proof (cases "n < 10")
    case True
    with 1(2) d show ?thesis by (simp add: nat_str.simps[of n])
  next
    case False
    with 1 d[of "n mod 10"] show ?thesis by (auto simp: nat_str.simps[of n])
  qed
qed

lemma int_str_inject: "int_str i = int_str j \<longleftrightarrow> i = j"
proof
  have nd: "nat_str n \<noteq> CHR ''-'' # s" for n s
  proof
    assume "nat_str n = CHR ''-'' # s"
    then have "is_digit (CHR ''-'')" using nat_str_digits[of "CHR ''-''" n] by simp
    then show False by (simp add: is_digit_def code_def)
  qed
  then have nd': "CHR ''-'' # s \<noteq> nat_str n" for n s by metis
  assume "int_str i = int_str j"
  then show "i = j" by (auto simp: int_str_def nat_str_inject nd nd' split: if_splits)
qed simp

end
