(* ===== verification/Repositories.thy ===== *)
theory Repositories
  imports Target_State Text
begin

text \<open>
  The repositories of playlists, assignments, items, targets, artifacts and runs
  (\<open>src/sluicery/db/repositories/\<close>): their selections with the code's joins and orders, and their
  statements. A method takes and returns the tables it reads and writes.
\<close>

section \<open>Playlists and assignments\<close>

definition list_enabled_playlists :: "playlist table \<Rightarrow> playlist table" where
  "list_enabled_playlists ps = select_where (\<lambda>_ p. pl_enabled p) ps"

definition runnable :: "playlist \<Rightarrow> bool" where
  "runnable p \<longleftrightarrow> pl_enabled p \<and> \<not> pl_paused p"

definition list_runnable :: "playlist table \<Rightarrow> playlist table" where
  "list_runnable ps = sort_key fst (select_where (\<lambda>_ p. runnable p) ps)"

definition resolve_runnable :: "string \<Rightarrow> playlist table \<Rightarrow> exn + int" where
  "resolve_runnable identifier ps =
     (let by_id = (case py_int identifier of
            None \<Rightarrow> None
          | Some i \<Rightarrow> (case tget ps i of
                None \<Rightarrow> None | Some p \<Rightarrow> if runnable p then Some i else None))
      in case by_id of
           Some i \<Rightarrow> Inr i
         | None \<Rightarrow>
             (case select_where (\<lambda>_ p. pl_name p = identifier \<and> runnable p) ps of
                [] \<Rightarrow> Inl LookupError
              | [(i, _)] \<Rightarrow> Inr i
              | _ \<Rightarrow> Inl ValueError))"

definition get_with_profiles :: "int \<Rightarrow> playlist table \<Rightarrow> playlist_profile table
    \<Rightarrow> (playlist \<times> playlist_profile table) option" where
  "get_with_profiles pid ps pps =
     (case tget ps pid of None \<Rightarrow> None
      | Some p \<Rightarrow> Some (p, select_where (\<lambda>_ a. pp_playlist_id a = pid) pps))"

definition set_last_discover_at :: "int \<Rightarrow> instant \<Rightarrow> instant \<Rightarrow> playlist table \<Rightarrow> bool \<times> playlist table" where
  "set_last_discover_at pid seen now ps =
     (0 < rowcount (\<lambda>i _. i = pid) ps,
      update_where (\<lambda>i _. i = pid) (\<lambda>p. p\<lparr>pl_last_discover_at := Some seen, pl_updated_at := now\<rparr>) ps)"

definition set_last_download_at :: "int \<Rightarrow> instant \<Rightarrow> instant \<Rightarrow> playlist table \<Rightarrow> bool \<times> playlist table" where
  "set_last_download_at pid seen now ps =
     (0 < rowcount (\<lambda>i _. i = pid) ps,
      update_where (\<lambda>i _. i = pid) (\<lambda>p. p\<lparr>pl_last_download_at := Some seen, pl_updated_at := now\<rparr>) ps)"

definition list_enabled_for_playlist :: "int \<Rightarrow> playlist_profile table \<Rightarrow> playlist_profile table" where
  "list_enabled_for_playlist pid pps =
     sort_key (\<lambda>(i, a). (pp_sort_order a, i))
       (select_where (\<lambda>_ a. pp_playlist_id a = pid \<and> pp_enabled a) pps)"

definition list_enabled_storages :: "storage table \<Rightarrow> storage table" where
  "list_enabled_storages ss = select_where (\<lambda>_ s. st_enabled s) ss"

section \<open>Items\<close>

text \<open>The values of one discovered entry, as \<open>parse_discover_entries\<close> builds them.\<close>

record entry =
  en_source_id :: string
  en_source_url :: string
  en_title :: "string option"
  en_uploader :: "string option"
  en_duration :: "int option"
  en_upload_date :: "string option"
  en_playlist_index :: "int option"
  en_metadata :: json

definition get_by_source_id :: "int \<Rightarrow> string \<Rightarrow> item table \<Rightarrow> (int \<times> item) option" where
  "get_by_source_id pid sid its =
     List.find (\<lambda>(_, it). it_playlist_id it = pid \<and> it_source_id it = sid) its"

text \<open>\<open>Item(playlist_id=\<dots>, **data)\<close> with \<open>last_seen_at\<close> among the data.\<close>

definition new_item :: "int \<Rightarrow> entry \<Rightarrow> instant \<Rightarrow> instant \<Rightarrow> item" where
  "new_item pid e seen now =
     \<lparr>it_playlist_id = pid, it_source_id = en_source_id e, it_source_url = en_source_url e,
      it_title = en_title e, it_uploader = en_uploader e, it_duration = en_duration e,
      it_upload_date = en_upload_date e, it_playlist_index = en_playlist_index e,
      it_membership = IM_Active, it_metadata_json = Some (en_metadata e),
      it_first_seen_at = now, it_last_seen_at = seen, it_delisted_at = None,
      it_created_at = now, it_updated_at = now\<rparr>"

text \<open>
  Assigning attributes one by one; the row is written, with its \<open>updated_at\<close>, only if one changed.
\<close>

definition refresh_item :: "entry \<Rightarrow> instant \<Rightarrow> instant \<Rightarrow> item \<Rightarrow> item" where
  "refresh_item e seen now it =
     (let it' = it\<lparr>it_source_id := en_source_id e, it_source_url := en_source_url e,
            it_title := en_title e, it_uploader := en_uploader e, it_duration := en_duration e,
            it_upload_date := en_upload_date e, it_playlist_index := en_playlist_index e,
            it_metadata_json := Some (en_metadata e), it_last_seen_at := seen\<rparr>
      in if it' = it then it else it'\<lparr>it_updated_at := now\<rparr>)"

definition upsert_one :: "int \<Rightarrow> instant \<Rightarrow> instant \<Rightarrow> entry \<Rightarrow> item table \<Rightarrow> int \<times> item table" where
  "upsert_one pid seen now e its =
     (case get_by_source_id pid (en_source_id e) its of
        None \<Rightarrow> (fresh_id its, insert_row (new_item pid e seen now) its)
      | Some (i, _) \<Rightarrow> (i, set_row i (refresh_item e seen now) its))"

fun upsert_many :: "int \<Rightarrow> instant \<Rightarrow> instant \<Rightarrow> entry list \<Rightarrow> item table \<Rightarrow> int list \<times> item table" where
  "upsert_many pid seen now [] its = ([], its)"
| "upsert_many pid seen now (e # es) its =
     (case upsert_one pid seen now e its of
        (i, its') \<Rightarrow> (case upsert_many pid seen now es its' of (is, its'') \<Rightarrow> (i # is, its'')))"

definition list_items_for_playlist :: "int \<Rightarrow> item table \<Rightarrow> item table" where
  "list_items_for_playlist pid its = select_where (\<lambda>_ it. it_playlist_id it = pid) its"

definition list_by_membership :: "int \<Rightarrow> item_membership \<Rightarrow> item table \<Rightarrow> item table" where
  "list_by_membership pid m its =
     select_where (\<lambda>_ it. it_playlist_id it = pid \<and> it_membership it = m) its"

section \<open>Targets\<close>

definition list_by_status :: "target_status \<Rightarrow> target table \<Rightarrow> target table" where
  "list_by_status st tgs = select_where (\<lambda>_ t. tg_status t = st) tgs"

text \<open>An inner join on a foreign key: the row it names, if there is one.\<close>

definition item_of :: "item table \<Rightarrow> target \<Rightarrow> item option" where
  "item_of its t = tget its (tg_item_id t)"

definition count_by_status :: "int \<Rightarrow> item table \<Rightarrow> target table \<Rightarrow> target_status \<Rightarrow> nat" where
  "count_by_status pid its tgs st =
     rowcount (\<lambda>_ t. tg_status t = st \<and>
       (case item_of its t of None \<Rightarrow> False | Some it \<Rightarrow> it_playlist_id it = pid)) tgs"

definition has_target :: "target table \<Rightarrow> int \<times> int \<Rightarrow> bool" where
  "has_target tgs = (\<lambda>(i, a). list_ex (\<lambda>(_, t). tg_item_id t = i \<and> tg_playlist_profile_id t = a) tgs)"

definition missing_pairs :: "int list \<Rightarrow> int list \<Rightarrow> target table \<Rightarrow> (int \<times> int) list" where
  "missing_pairs item_ids assignment_ids tgs =
     filter (\<lambda>p. \<not> has_target tgs p) (List.product item_ids assignment_ids)"

definition create_missing_for_items :: "int list \<Rightarrow> int list \<Rightarrow> instant \<Rightarrow> target table \<Rightarrow> target table" where
  "create_missing_for_items item_ids assignment_ids now tgs =
     (if item_ids = [] \<or> assignment_ids = [] then tgs
      else fold (\<lambda>(i, a). insert_row (new_target i a now)) (missing_pairs item_ids assignment_ids tgs) tgs)"

definition list_targets_for_playlist :: "int \<Rightarrow> item table \<Rightarrow> playlist_profile table
    \<Rightarrow> target table \<Rightarrow> target table" where
  "list_targets_for_playlist pid its pps tgs =
     select_where (\<lambda>_ t.
       (case item_of its t of None \<Rightarrow> False | Some it \<Rightarrow> it_playlist_id it = pid) \<and>
       (case tget pps (tg_playlist_profile_id t) of None \<Rightarrow> False | Some a \<Rightarrow> pp_playlist_id a = pid)) tgs"

text \<open>One row of the candidate query: the Target, its Item, assignment and Storage.\<close>

record candidate =
  cd_target_id :: int
  cd_target :: target
  cd_item :: item
  cd_assignment :: playlist_profile
  cd_storage_id :: int
  cd_storage :: storage

definition candidate_of :: "item table \<Rightarrow> playlist_profile table \<Rightarrow> storage table
    \<Rightarrow> int \<times> target \<Rightarrow> candidate option" where
  "candidate_of its pps sts = (\<lambda>(i, t).
     case item_of its t of None \<Rightarrow> None
     | Some it \<Rightarrow>
        (case tget pps (tg_playlist_profile_id t) of None \<Rightarrow> None
         | Some a \<Rightarrow>
            (case tget sts (pp_storage_id a) of None \<Rightarrow> None
             | Some s \<Rightarrow> Some \<lparr>cd_target_id = i, cd_target = t, cd_item = it, cd_assignment = a,
                              cd_storage_id = pp_storage_id a, cd_storage = s\<rparr>)))"

definition download_candidate :: "int \<Rightarrow> int \<Rightarrow> candidate \<Rightarrow> bool" where
  "download_candidate pid retry_limit c \<longleftrightarrow>
     it_playlist_id (cd_item c) = pid \<and> it_membership (cd_item c) = IM_Active \<and>
     pp_playlist_id (cd_assignment c) = pid \<and> pp_enabled (cd_assignment c) \<and>
     (tg_status (cd_target c) = TG_Pending \<or>
      (tg_status (cd_target c) = TG_Failed \<and> tg_retry_count (cd_target c) < retry_limit) \<or>
      tg_status (cd_target c) = TG_Blocked)"

text \<open>The order: items without an index last, then the index, the assignment and the id.\<close>

definition candidate_key :: "candidate \<Rightarrow> bool \<times> int option \<times> int \<times> int" where
  "candidate_key c = (it_playlist_index (cd_item c) = None, it_playlist_index (cd_item c),
     pp_sort_order (cd_assignment c), cd_target_id c)"

definition list_download_candidates :: "int \<Rightarrow> int \<Rightarrow> db \<Rightarrow> candidate list" where
  "list_download_candidates pid retry_limit d =
     sort_key candidate_key
       (filter (download_candidate pid retry_limit)
         (List.map_filter (candidate_of (db_items d) (db_assignments d) (db_storages d)) (db_targets d)))"

section \<open>Artifacts\<close>

text \<open>
  SQLite's \<open>LIKE\<close>: \<open>%\<close> stands for any text, \<open>_\<close> for any character, letters compare without case.
\<close>

fun sql_like :: "string \<Rightarrow> string \<Rightarrow> bool" where
  "sql_like [] s \<longleftrightarrow> s = []"
| "sql_like (p # ps) [] \<longleftrightarrow> p = CHR ''%'' \<and> sql_like ps []"
| "sql_like (p # ps) (c # s) \<longleftrightarrow>
     (if p = CHR ''%'' then sql_like ps (c # s) \<or> sql_like (p # ps) s
      else (p = CHR ''_'' \<or> lower_char p = lower_char c) \<and> sql_like ps s)"

definition find_by_source_id :: "int \<Rightarrow> string \<Rightarrow> artifact table \<Rightarrow> (int \<times> artifact) option" where
  "find_by_source_id storage_id source_id ars =
     List.find (\<lambda>(_, a). ar_storage_id a = storage_id \<and>
       sql_like (''%['' @ source_id @ '']%'') (ar_relative_path a)) ars"

definition artifact_key :: "artifact \<Rightarrow> int \<times> artifact_role \<times> int \<times> string" where
  "artifact_key a = (ar_target_id a, ar_role a, ar_storage_id a, ar_relative_path a)"

definition artifact_with_key :: "int \<times> artifact_role \<times> int \<times> string \<Rightarrow> artifact table \<Rightarrow> (int \<times> artifact) option" where
  "artifact_with_key k ars = List.find (\<lambda>(_, b). artifact_key b = k) ars"

definition create_source_if_missing :: "artifact \<Rightarrow> artifact table \<Rightarrow> (exn + int) \<times> artifact table" where
  "create_source_if_missing a ars =
     (let ars' = (if artifact_with_key (artifact_key a) ars = None then insert_row a ars else ars)
      in (case artifact_with_key (artifact_key a) ars' of
            None \<Rightarrow> Inl AssertionError | Some (i, _) \<Rightarrow> Inr i, ars'))"

section \<open>Runs\<close>

definition list_recent :: "nat \<Rightarrow> run table \<Rightarrow> run table" where
  "list_recent limit rs = take limit (sort_key (\<lambda>(_, r). - rn_started_at r) rs)"

definition start_run :: "run_trigger \<Rightarrow> string \<Rightarrow> int \<Rightarrow> instant \<Rightarrow> run table \<Rightarrow> int \<times> run table" where
  "start_run trig kind pid now rs = (fresh_id rs, insert_row (new_run trig kind pid now) rs)"

definition finish_run :: "int \<Rightarrow> run_status \<Rightarrow> json \<Rightarrow> instant \<Rightarrow> run table \<Rightarrow> bool \<times> run table" where
  "finish_run run_id st stats now rs =
     (let p = (\<lambda>i r. i = run_id \<and> (st \<noteq> RS_Cancelled \<longrightarrow> rn_status r \<noteq> RS_Cancelled))
      in (0 < rowcount p rs,
          update_where p (\<lambda>r. r\<lparr>rn_status := st, rn_stats_json := Some stats,
                                rn_finished_at := Some now\<rparr>) rs))"

section \<open>Facts\<close>

lemma wf_create_missing [table_intros]:
  "wf_table tgs \<Longrightarrow> wf_table (create_missing_for_items is as now tgs)"
proof -
  have "wf_table t \<Longrightarrow> wf_table (fold (\<lambda>(i, a). insert_row (new_target i a now)) ps t)" for ps t
    by (induction ps arbitrary: t) (auto intro: wf_insert_row)
  then show "wf_table tgs \<Longrightarrow> wf_table (create_missing_for_items is as now tgs)"
    by (simp add: create_missing_for_items_def)
qed

lemma has_target_insert:
  "has_target (insert_row (new_target i a now) tgs) p \<longleftrightarrow> p = (i, a) \<or> has_target tgs p"
  by (cases p) (auto simp: has_target_def insert_row_def new_target_def)

end
