(* ===== verification/Pipeline.thy ===== *)
theory Pipeline
  imports Claim_Theorems Target_Theorems Repositories
begin

text \<open>
  The five-step pipeline of a Target (\<open>src/sluicery/tasks/pipeline.py\<close>), the result and the back-off
  of a task (\<open>src/sluicery/tasks/queue.py\<close>). The id a fresh \<open>uuid4\<close> would give is an argument.
\<close>

section \<open>Results and back-off\<close>

datatype task_outcome = TO_Succeeded | TO_Failed | TO_Unavailable | TO_Blocked | TO_Cancelled

record task_result =
  tr_outcome :: task_outcome
  tr_message :: "string option"
  tr_payload_update :: "(string \<times> json) list option"
  tr_reason_code :: "string option"

text \<open>\<open>random_fraction\<close> is what \<open>random.random()\<close> gives when the caller passes none.\<close>

definition retry_delay_sec :: "int \<Rightarrow> rat \<Rightarrow> rat \<Rightarrow> rat \<Rightarrow> exn + rat" where
  "retry_delay_sec attempt base_sec max_sec random_fraction =
     (if attempt < 1 then Inl ValueError
      else (let exponential = min max_sec (base_sec * 2 ^ nat (attempt - 1));
                jitter_room = max 0 (min (exponential / 10) (max_sec - exponential))
            in Inr (exponential + jitter_room * random_fraction)))"

section \<open>Enqueueing\<close>

definition pipeline_steps :: "(task_type \<times> worker_class) list" where
  "pipeline_steps =
     [(TT_Download, WC_Network), (TT_Verify, WC_Compute), (TT_Postprocess, WC_Compute),
      (TT_Publish, WC_Network), (TT_Index, WC_Network)]"

definition pipeline_payload :: "string \<Rightarrow> int \<Rightarrow> json" where
  "pipeline_payload work_id tid = JObj [(''work_id'', JStr work_id), (''target_id'', JInt tid)]"

definition resolve_work_id :: "string option \<Rightarrow> int \<Rightarrow> string \<Rightarrow> string" where
  "resolve_work_id work_id tid uuid_hex =
     (case work_id of Some (c # w) \<Rightarrow> c # w
      | _ \<Rightarrow> ''target-'' @ int_str tid @ ''-'' @ uuid_hex)"

text \<open>The loop of \<open>enqueue_pipeline\<close>: each task depends on the one inserted before it.\<close>

fun enqueue_steps :: "(task_type \<times> worker_class) list \<Rightarrow> int \<Rightarrow> json \<Rightarrow> int option \<Rightarrow> int \<Rightarrow> instant
    \<Rightarrow> int option \<Rightarrow> task table \<Rightarrow> int list \<times> task table" where
  "enqueue_steps [] tid payload run_id max_attempts now dependency ts = ([], ts)"
| "enqueue_steps ((ty, wc) # steps) tid payload run_id max_attempts now dependency ts =
     (let row = (new_task ty ''target'' tid (Some payload) wc max_attempts run_id now)
                  \<lparr>tk_status := TS_Queued, tk_depends_on_task_id := dependency\<rparr>;
          i = fresh_id ts
      in case enqueue_steps steps tid payload run_id max_attempts now (Some i) (insert_row row ts) of
           (is, ts') \<Rightarrow> (i # is, ts'))"

definition enqueue_pipeline :: "int \<Rightarrow> int option \<Rightarrow> string option \<Rightarrow> string \<Rightarrow> int \<Rightarrow> instant
    \<Rightarrow> task table \<Rightarrow> (string \<times> int list) \<times> task table" where
  "enqueue_pipeline tid run_id work_id uuid_hex max_attempts now ts =
     (let w = resolve_work_id work_id tid uuid_hex
      in case enqueue_steps pipeline_steps tid (pipeline_payload w tid) run_id max_attempts now None ts of
           (is, ts') \<Rightarrow> ((w, is), ts'))"

text \<open>
  The queued transition of the Target and the five tasks are committed together; a Target that is not
  pending any more gives \<open>None\<close>, other exceptions are the caller's.
\<close>

definition enqueue_target_pipeline :: "int \<Rightarrow> int option \<Rightarrow> string option \<Rightarrow> string \<Rightarrow> int \<Rightarrow> instant
    \<Rightarrow> db \<Rightarrow> (exn + (string \<times> int list) option) \<times> db" where
  "enqueue_target_pipeline tid run_id work_id uuid_hex max_attempts now d =
     (case transition_target (db_targets d) tid TG_Queued None None False id now (db_targets d) of
        (Inl e, _) \<Rightarrow>
          (if e = InvalidStateTransition \<or> e = StateTransitionConflict then Inr None else Inl e, d)
      | (Inr _, tgs) \<Rightarrow>
          (case enqueue_pipeline tid run_id work_id uuid_hex max_attempts now (db_tasks d) of
             (chain, ts) \<Rightarrow> (Inr (Some chain), d\<lparr>db_targets := tgs, db_tasks := ts\<rparr>)))"

definition dependency_payload :: "int \<Rightarrow> task table \<Rightarrow> exn + (string \<times> json) list" where
  "dependency_payload task_id ts =
     (case tget ts task_id of
        None \<Rightarrow> Inl LookupError
      | Some tsk \<Rightarrow>
          (case tk_depends_on_task_id tsk of
             None \<Rightarrow> Inr []
           | Some d \<Rightarrow>
               (case tget ts d of
                  None \<Rightarrow> Inl LookupError
                | Some dep \<Rightarrow>
                    if tk_status dep \<noteq> TS_Succeeded then Inl RuntimeError
                    else Inr (opt_json (tk_payload_json dep)))))"

definition execution_task_id :: "(string \<times> json) list \<Rightarrow> exn + int" where
  "execution_task_id payload =
     (case jget payload ''_execution'' of
        JObj execution \<Rightarrow>
          (case jget execution ''task_id'' of
             JInt i \<Rightarrow> Inr i
           | JBool b \<Rightarrow> Inr (if b then 1 else 0)
           | _ \<Rightarrow> Inl ValueError)
      | _ \<Rightarrow> Inl ValueError)"

section \<open>Back-off\<close>

lemma backoff_mono:
  fixes e e' m f :: rat
  assumes "0 \<le> e" "e \<le> e'" "e' \<le> m" "0 \<le> f" "f \<le> 1"
  shows "e + max 0 (min (e / 10) (m - e)) * f \<le> e' + max 0 (min (e' / 10) (m - e')) * f"
proof -
  have "max 0 (min (e / 10) (m - e)) \<le> (e' - e) + max 0 (min (e' / 10) (m - e'))"
    using assms by (simp add: max_def min_def)
  then have "max 0 (min (e / 10) (m - e)) * f \<le> ((e' - e) + max 0 (min (e' / 10) (m - e'))) * f"
    using assms by (intro mult_right_mono)
  moreover have "(e' - e) * f \<le> (e' - e) * 1" using assms by (intro mult_left_mono) auto
  ultimately show ?thesis by (simp add: algebra_simps)
qed

text \<open>
  The delay before a retry lies between the exponential value, \<open>base * 2^(attempt-1)\<close> cut
  at the maximum, and that value plus ten percent, never exceeds the maximum, and does not decrease
  from one attempt to the next.
\<close>

theorem retry_delay_bounds:
  assumes "1 \<le> attempt" "0 \<le> base" "0 \<le> m" "0 \<le> f" "f \<le> 1"
  shows "\<exists>d d'. retry_delay_sec attempt base m f = Inr d \<and> retry_delay_sec (attempt + 1) base m f = Inr d' \<and>
    min m (base * 2 ^ nat (attempt - 1)) \<le> d \<and> d \<le> min m (11 / 10 * min m (base * 2 ^ nat (attempt - 1))) \<and>
    d \<le> d'"
proof -
  let ?e = "\<lambda>n. min m (base * 2 ^ n)" and ?n = "nat (attempt - 1)"
  have n: "nat (attempt + 1 - 1) = Suc ?n" using assms(1) by simp
  have e: "0 \<le> ?e ?n" "?e ?n \<le> ?e (Suc ?n)" "?e (Suc ?n) \<le> m"
    using assms by (auto simp: min_le_iff_disj mult_left_mono)
  have "max 0 (min (?e ?n / 10) (m - ?e ?n)) * f \<le> max 0 (min (?e ?n / 10) (m - ?e ?n)) * 1"
    using assms by (intro mult_left_mono) auto
  moreover have "?e ?n + max 0 (min (?e ?n / 10) (m - ?e ?n)) \<le> min m (11 / 10 * ?e ?n)"
    using e by (simp add: max_def min_def split: if_splits)
  ultimately have "?e ?n + max 0 (min (?e ?n / 10) (m - ?e ?n)) * f \<le> min m (11 / 10 * ?e ?n)"
    by linarith
  moreover have "0 \<le> max 0 (min (?e ?n / 10) (m - ?e ?n)) * f" using assms by simp
  then have "?e ?n \<le> ?e ?n + max 0 (min (?e ?n / 10) (m - ?e ?n)) * f" by linarith
  moreover have "retry_delay_sec attempt base m f = Inr (?e ?n + max 0 (min (?e ?n / 10) (m - ?e ?n)) * f)"
    using assms(1) by (simp add: retry_delay_sec_def Let_def)
  moreover have "retry_delay_sec (attempt + 1) base m f =
      Inr (?e (Suc ?n) + max 0 (min (?e (Suc ?n) / 10) (m - ?e (Suc ?n))) * f)"
    using assms(1) by (simp only: retry_delay_sec_def Let_def n) simp
  ultimately show ?thesis
    using backoff_mono[OF e assms(4,5)] by blast
qed

theorem retry_delay_bounds_witness:
  "\<exists>d. retry_delay_sec 3 30 100 (1 / 2) = Inr d \<and> 100 \<le> d \<and> d \<le> 100"
  using retry_delay_bounds[of 3 30 100 "1 / 2"] by auto

section \<open>The chain\<close>

text \<open>The rows a chain of steps consists of, starting at id \<open>i\<close> behind \<open>dependency\<close>.\<close>

fun chain_rows :: "(task_type \<times> worker_class) list \<Rightarrow> int \<Rightarrow> json \<Rightarrow> int option \<Rightarrow> int \<Rightarrow> instant
    \<Rightarrow> int option \<Rightarrow> int \<Rightarrow> task table" where
  "chain_rows [] tid payload run_id ma now dep i = []"
| "chain_rows ((ty, wc) # steps) tid payload run_id ma now dep i =
     (i, (new_task ty ''target'' tid (Some payload) wc ma run_id now)
           \<lparr>tk_status := TS_Queued, tk_depends_on_task_id := dep\<rparr>)
       # chain_rows steps tid payload run_id ma now (Some i) (i + 1)"

lemma fresh_id_insert: "fresh_id (insert_row r ts) = fresh_id ts + 1"
proof -
  have foldr_max: "foldr max xs z = max z (foldr max xs (0::int))" if "0 \<le> z" for xs z
    using that by (induction xs) auto
  have "0 \<le> foldr max (ids ts) (0::int)" by (induction "ids ts") (simp, metis foldr_max max.cobounded1 order_refl)
  then show ?thesis
    using foldr_max[of "fresh_id ts" "ids ts"] fresh_id_pos[of ts]
    by (simp add: fresh_id_def)
qed

lemma enqueue_steps_eq:
  "enqueue_steps steps tid payload run_id ma now dep ts =
    (map fst (chain_rows steps tid payload run_id ma now dep (fresh_id ts)),
     ts @ chain_rows steps tid payload run_id ma now dep (fresh_id ts))"
proof (induction steps arbitrary: dep ts)
  case (Cons s steps)
  obtain ty wc where s: "s = (ty, wc)" by (cases s)
  let ?r = "(new_task ty ''target'' tid (Some payload) wc ma run_id now)
      \<lparr>tk_status := TS_Queued, tk_depends_on_task_id := dep\<rparr>"
  show ?case
    using Cons.IH[of "Some (fresh_id ts)" "insert_row ?r ts"]
    by (simp add: s Let_def fresh_id_insert) (simp add: insert_row_def)
qed simp

text \<open>
  Claim C30: enqueueing the pipeline of a Target either changes nothing (the Target is missing, or no
  longer pending) or moves exactly this Target to queued and appends exactly the five steps of the
  pipeline, queued, under consecutive new ids, each depending on the one before it.
\<close>

theorem enqueue_target_pipeline_spec:
  assumes "wf_table (db_targets d)"
  shows "enqueue_target_pipeline tid run_id work_id uuid ma now d =
    (case target_status_of (db_targets d) tid of
       None \<Rightarrow> (Inl LookupError, d)
     | Some s \<Rightarrow>
        if s \<noteq> TG_Pending then (Inr None, d)
        else let w = resolve_work_id work_id tid uuid;
                 i = fresh_id (db_tasks d);
                 row = \<lambda>ty wc dep. (new_task ty ''target'' tid (Some (pipeline_payload w tid)) wc ma run_id now)
                   \<lparr>tk_status := TS_Queued, tk_depends_on_task_id := dep\<rparr>
             in (Inr (Some (w, [i, i + 1, i + 2, i + 3, i + 4])),
                 d\<lparr>db_targets := set_row tid (target_cas_row TG_Queued None None False id now) (db_targets d),
                   db_tasks := db_tasks d @
                     [(i, row TT_Download WC_Network None),
                      (i + 1, row TT_Verify WC_Compute (Some i)),
                      (i + 2, row TT_Postprocess WC_Compute (Some (i + 1))),
                      (i + 3, row TT_Publish WC_Network (Some (i + 2))),
                      (i + 4, row TT_Index WC_Network (Some (i + 3)))]\<rparr>))"
proof (cases "tget (db_targets d) tid")
  case None
  then show ?thesis
    by (simp add: enqueue_target_pipeline_def transition_target_missing target_status_of_def)
next
  case (Some t)
  show ?thesis
  proof (cases "tg_status t = TG_Pending")
    case True
    then have "TG_Queued \<in> allowed (tg_status t)" by simp
    from transition_target_ok[OF assms Some this Some refl] True Some show ?thesis
      by (simp add: enqueue_target_pipeline_def target_status_of_def enqueue_pipeline_def Let_def
          pipeline_steps_def enqueue_steps_eq)
  next
    case False
    then have "TG_Queued \<notin> allowed (tg_status t)" by (simp add: allowed_into)
    from transition_target_invalid[OF Some this] False Some show ?thesis
      by (simp add: enqueue_target_pipeline_def target_status_of_def)
  qed
qed

theorem enqueue_target_pipeline_spec_witness:
  "fst (enqueue_target_pipeline 1 (Some 3) None ''ab'' 5 9 (empty_db\<lparr>db_targets := sample_targets\<rparr>)) =
    Inr (Some (''target-1-ab'', [1, 2, 3, 4, 5]))"
proof -
  have wf: "wf_table (db_targets (empty_db\<lparr>db_targets := sample_targets\<rparr>))" by simp
  have "int_str 1 = ''1''" by (simp add: int_str_def nat_str.simps[of "Suc 0"] digit_simps)
  with enqueue_target_pipeline_spec[OF wf, of 1 "Some 3" None "''ab''" 5 9] show ?thesis
    by (simp add: target_status_of_def new_target_def Let_def resolve_work_id_def fresh_id_def ids_def
        empty_db_def)
qed

section \<open>The order of execution\<close>

definition started :: "task \<Rightarrow> bool" where
  "started t \<longleftrightarrow> tk_status t = TS_Running \<or> tk_status t = TS_Succeeded"

definition deps_respected :: "task table \<Rightarrow> bool" where
  "deps_respected ts \<longleftrightarrow> (\<forall>i t d. tget ts i = Some t \<and> started t \<and> tk_depends_on_task_id t = Some d
     \<longrightarrow> (\<exists>u. tget ts d = Some u \<and> tk_status u = TS_Succeeded))"

definition no_retry :: "task_op \<Rightarrow> bool" where
  "no_retry op \<longleftrightarrow> (case op of Retry _ _ \<Rightarrow> False | _ \<Rightarrow> True)"

lemma op_effect_depends: "op_effect jp op i t u \<Longrightarrow> tk_depends_on_task_id u = tk_depends_on_task_id t"
  by (cases op) (auto simp: row_update_defs Let_def)

lemma row_change_depends: "row_change jp op i t v \<Longrightarrow> tk_depends_on_task_id v = tk_depends_on_task_id t"
  by (auto simp: row_change_def cancels_only_def cancel_row_def dest: op_effect_depends)

lemma op_effect_started:
  "op_effect jp op i t u \<Longrightarrow> started u \<Longrightarrow> started t \<or> (\<exists>wc w now k. op = Claim wc w now k)"
  by (cases op) (auto simp: started_def row_update_defs owned_def waiting_iff Let_def
      split: option.splits if_splits)

lemma row_change_started:
  assumes "row_change jp op i t v" "started v" "\<nexists>wc w now k. op = Claim wc w now k"
  shows "started t"
proof -
  obtain u where u: "u = t \<or> op_effect jp op i t u" "cancels_only u v"
    using assms(1) by (auto simp: row_change_def)
  then have "started u" using assms(2) by (auto simp: cancels_only_def started_def cancel_row_def)
  with u(1) op_effect_started[of jp op i t u] assms(3) show ?thesis by blast
qed

lemma succeeded_stays:
  assumes "wf_table ts" "tget ts d = Some u" "tk_status u = TS_Succeeded" "no_retry op"
  shows "\<exists>v. tget (exec_op jp op ts) d = Some v \<and> tk_status v = TS_Succeeded"
proof -
  obtain v where v: "tget (exec_op jp op ts) d = Some v" "row_change jp op d u v"
    using exec_op_row[OF assms(1,2)] by blast
  have "\<not> retries d op" using assms(4) by (simp add: retries_def no_retry_def split: task_op.splits)
  then have "(status_step False)\<^sup>*\<^sup>* (tk_status u) (tk_status v)"
    using row_change_status[OF v(2)] by simp
  with v(1) assms(3) terminal_stuck show ?thesis by (fastforce simp: terminal_def)
qed

lemma deps_respected_succ:
  assumes "wf_table ts" "no_retry op" "\<exists>u. tget ts d = Some u \<and> tk_status u = TS_Succeeded"
  shows "\<exists>u. tget (exec_op jp op ts) d = Some u \<and> tk_status u = TS_Succeeded"
  using succeeded_stays[OF assms(1) _ _ assms(2)] assms(3) by blast

lemma deps_respected_claim:
  assumes "wf_table ts" "deps_respected ts"
  shows "deps_respected (snd (claim_next wc w now k ts))"
  using assms(1)
proof (cases rule: claim_next_cases[where wc = wc and w = w and now = now and k = k])
  case (claimed c t)
  have nc: "tk_status t \<noteq> TS_Succeeded"
    using claimed(4) by (auto simp: candidate_where_def claimable_eq_waiting waiting_iff)
  have dep: "\<exists>u. tget ts d = Some u \<and> tk_status u = TS_Succeeded" if "tk_depends_on_task_id t = Some d" for d
    using claimed(4) that assms(1) by (auto simp: candidate_where_def dependency_succeeded_iff)
  have keep: "\<exists>u. tget (set_row c (claim_row w now) ts) d = Some u \<and> tk_status u = TS_Succeeded"
    if "\<exists>u. tget ts d = Some u \<and> tk_status u = TS_Succeeded" for d
    using that nc claimed(3) by auto
  have "deps_respected (set_row c (claim_row w now) ts)"
    unfolding deps_respected_def
  proof (intro allI impI, elim conjE)
    fix i v d
    assume v: "tget (set_row c (claim_row w now) ts) i = Some v" "started v" "tk_depends_on_task_id v = Some d"
    show "\<exists>u. tget (set_row c (claim_row w now) ts) d = Some u \<and> tk_status u = TS_Succeeded"
    proof (cases "i = c")
      case True
      then have "tk_depends_on_task_id t = Some d" using v claimed(3) by (auto simp: claim_row_def)
      then show ?thesis using dep keep by blast
    next
      case False
      then have "tget ts i = Some v" using v(1) by simp
      then show ?thesis using v(2,3) assms(2) keep unfolding deps_respected_def by blast
    qed
  qed
  with claimed(5) show ?thesis by simp
qed (use assms in auto)

lemma deps_respected_step:
  assumes "wf_table ts" "deps_respected ts" "no_retry op"
  shows "deps_respected (exec_op jp op ts)"
proof (cases "\<exists>wc w now k. op = Claim wc w now k")
  case True
  with deps_respected_claim[OF assms(1,2)] show ?thesis by auto
next
  case False
  show ?thesis
    unfolding deps_respected_def
  proof (intro allI impI, elim conjE)
    fix i v d
    assume v: "tget (exec_op jp op ts) i = Some v" "started v" "tk_depends_on_task_id v = Some d"
    from exec_op_rows_back[OF assms(1) v(1)]
    have "\<exists>t. tget ts i = Some t \<and> started t \<and> tk_depends_on_task_id t = Some d"
      using v(2,3) row_change_started[OF _ _ False] row_change_depends
      by (auto simp: new_task_def)
    then show "\<exists>u. tget (exec_op jp op ts) d = Some u \<and> tk_status u = TS_Succeeded"
      using deps_respected_succ[OF assms(1,3)] assms(2) unfolding deps_respected_def by blast
  qed
qed

lemma deps_respected_ops:
  "wf_table ts \<Longrightarrow> deps_respected ts \<Longrightarrow> list_all no_retry ops \<Longrightarrow> deps_respected (exec_ops jp ops ts)"
proof (induction ops arbitrary: ts)
  case (Cons op ops)
  have "no_retry op" "list_all no_retry ops" using Cons.prems(3) by simp_all
  moreover have "exec_ops jp (op # ops) ts = exec_ops jp ops (exec_op jp op ts)"
    by (simp add: exec_ops_def)
  ultimately show ?case
    using Cons.IH[OF wf_exec_op[OF Cons.prems(1)] deps_respected_step[OF Cons.prems(1,2)]] by metis
qed (simp add: exec_ops_def)

lemma exec_ops_depends:
  "wf_table ts \<Longrightarrow> tget ts i = Some t \<Longrightarrow>
   \<exists>v. tget (exec_ops jp ops ts) i = Some v \<and> tk_depends_on_task_id v = tk_depends_on_task_id t"
proof (induction ops arbitrary: ts t)
  case (Cons op ops)
  obtain u where u: "tget (exec_op jp op ts) i = Some u" "row_change jp op i t u"
    using exec_op_row[OF Cons.prems] by blast
  with Cons.IH[OF wf_exec_op[OF Cons.prems(1)] u(1)] row_change_depends[OF u(2)] show ?case
    by (simp add: exec_ops_def)
qed (simp add: exec_ops_def)

lemma tget_append_fresh:
  "tget ts i = None \<Longrightarrow> tget (ts @ us) i = tget us i"
  by (simp add: tget_def map_add_def split: option.splits)

lemma wf_chain:
  assumes "wf_table ts"
  shows "wf_table (ts @ chain_rows steps tid payload run_id ma now dep (fresh_id ts))"
proof -
  have "wf_table ts \<Longrightarrow> wf_table (snd (enqueue_steps steps tid payload run_id ma now dep ts))" for ts dep
  proof (induction steps arbitrary: dep ts)
    case (Cons s steps)
    then show ?case
      by (cases s) (simp add: Let_def case_prod_beta wf_insert_row)
  qed simp
  from this[OF assms, of dep] show ?thesis by (simp add: enqueue_steps_eq)
qed

text \<open>
  Claim C31: after a pipeline has been enqueued, whatever the workers, the reaper and the operators do
  short of retrying a task, no step of the pipeline runs or succeeds before the step in front of it
  has succeeded: verification waits for the download, publication for the post-processing, and so on.
\<close>

theorem pipeline_runs_in_order:
  assumes "wf_table ts" "deps_respected ts"
    "enqueue_pipeline tid run_id work_id uuid ma now ts = ((w, steps), us)"
    "list_all no_retry ops" "Suc k < length steps"
    "tget (exec_ops jp ops us) (steps ! Suc k) = Some t" "started t"
  shows "\<exists>u. tget (exec_ops jp ops us) (steps ! k) = Some u \<and> tk_status u = TS_Succeeded"
proof -
  let ?i = "fresh_id ts"
  let ?rows = "chain_rows pipeline_steps tid (pipeline_payload w tid) run_id ma now None ?i"
  have us: "us = ts @ ?rows" and steps: "steps = map fst ?rows"
    using assms(3) by (auto simp: enqueue_pipeline_def Let_def enqueue_steps_eq)
  have wf: "wf_table us" using wf_chain[OF assms(1)] by (simp add: us)
  have none: "tget ts (?i + n) = None" if "0 \<le> n" for n
    using that fresh_id_above[of "?i + n" ts] by (auto simp: tget_None_iff)
  have new: "tget us (?i + n) = tget ?rows (?i + n)" if "0 \<le> n" for n
    using tget_append_fresh[OF none[OF that]] by (simp add: us)
  have k: "k < 4" using assms(5) by (simp add: steps pipeline_steps_def)
  have ids: "steps = [?i, ?i + 1, ?i + 2, ?i + 3, ?i + 4]" by (simp add: steps pipeline_steps_def)
  have dep: "\<exists>r. tget us (steps ! Suc k) = Some r \<and> tk_depends_on_task_id r = Some (steps ! k)"
    using k new[of 1] new[of 2] new[of 3] new[of 4]
    by (auto simp: ids pipeline_steps_def tget_def less_Suc_eq numeral_eq_Suc)
  have "deps_respected us"
    unfolding deps_respected_def
  proof (intro allI impI, elim conjE)
    fix i r d
    assume r: "tget us i = Some r" "started r" "tk_depends_on_task_id r = Some d"
    have "tget ?rows i = Some r \<Longrightarrow> \<not> started r"
      by (auto simp: pipeline_steps_def tget_def started_def split: if_splits)
    with r have "tget ts i = Some r"
      by (auto simp: us tget_def map_add_def split: option.splits)
    with r(2,3) assms(2) obtain u where "tget ts d = Some u" "tk_status u = TS_Succeeded"
      unfolding deps_respected_def by blast
    moreover have "tget us d = tget ts d"
    proof -
      have "(d, u) \<in> set us" using \<open>tget ts d = Some u\<close> tget_in_set[of ts d u] by (simp add: us)
      then show ?thesis using tget_eqI[OF wf] \<open>tget ts d = Some u\<close> by simp
    qed
    ultimately show "\<exists>u. tget us d = Some u \<and> tk_status u = TS_Succeeded" by simp
  qed
  then have "deps_respected (exec_ops jp ops us)" using deps_respected_ops[OF wf _ assms(4)] by blast
  moreover obtain r where "tget us (steps ! Suc k) = Some r" "tk_depends_on_task_id r = Some (steps ! k)"
    using dep by blast
  then have "tk_depends_on_task_id t = Some (steps ! k)"
    using exec_ops_depends[OF wf, of "steps ! Suc k" r jp ops] assms(6) by auto
  ultimately show ?thesis using assms(6,7) unfolding deps_respected_def by blast
qed

lemma sample_pipeline:
  "enqueue_pipeline 7 None (Some ''w'') '''' 3 0 [] = ((''w'', [1, 2, 3, 4, 5]),
     chain_rows pipeline_steps 7 (pipeline_payload ''w'' 7) None 3 0 None 1)"
  by (simp add: enqueue_pipeline_def resolve_work_id_def enqueue_steps_eq fresh_id_def ids_def
      pipeline_steps_def Let_def)

lemma sample_pipeline_run:
  "\<exists>t. tget (exec_ops (\<lambda>_ p. p) [Claim WC_Network ''a'' 10 None, Succeed 1 ''a'' 20,
       Claim WC_Compute ''b'' 30 None]
     (chain_rows pipeline_steps 7 (pipeline_payload ''w'' 7) None 3 0 None 1)) 2 = Some t \<and> started t"
  by (simp add: exec_ops_def pipeline_steps_def new_task_def claim_next_def claim_candidate_def
      select_where_def candidate_where_def claimable_def claimable_statuses_def time_eligible_def
      dependency_succeeded_def item_slot_available_def update_where_def claim_row_def
      mark_succeeded_def finish_task_def finish_row_def owned_def tget_def started_def)

theorem pipeline_runs_in_order_witness:
  "\<exists>u. tget (exec_ops (\<lambda>_ p. p) [Claim WC_Network ''a'' 10 None, Succeed 1 ''a'' 20,
       Claim WC_Compute ''b'' 30 None]
     (chain_rows pipeline_steps 7 (pipeline_payload ''w'' 7) None 3 0 None 1)) 1 = Some u \<and>
     tk_status u = TS_Succeeded"
proof -
  obtain t where t: "tget (exec_ops (\<lambda>_ p. p) [Claim WC_Network ''a'' 10 None, Succeed 1 ''a'' 20,
       Claim WC_Compute ''b'' 30 None]
     (chain_rows pipeline_steps 7 (pipeline_payload ''w'' 7) None 3 0 None 1)) 2 = Some t" "started t"
    using sample_pipeline_run by blast
  have "deps_respected []" by (simp add: deps_respected_def tget_def)
  from pipeline_runs_in_order[OF wf_Nil this sample_pipeline, of _ 0] t show ?thesis
    by (simp add: no_retry_def)
qed

end
