(* ===== verification/Storage_Base.thy ===== *)
theory Storage_Base
  imports Text
begin

text \<open>
  What every storage adapter shares: the path boundary and the capacity thresholds of
  \<open>src/sluicery/storage/base.py\<close>, the results of connection tests and publications, and the
  classification of error output of \<open>src/sluicery/storage/errors.py\<close>. A pattern is an alternation
  of plain texts matched without regard to case, which is a list of texts here.
\<close>

section \<open>Error output\<close>

datatype storage_classification =
    SC_Ok | SC_Failed | SC_Unreachable | SC_Auth_failed | SC_No_space | SC_Permission_denied

primrec storage_classification_value :: "storage_classification \<Rightarrow> string" where
  "storage_classification_value SC_Ok = ''ok''"
| "storage_classification_value SC_Failed = ''failed''"
| "storage_classification_value SC_Unreachable = ''unreachable''"
| "storage_classification_value SC_Auth_failed = ''auth_failed''"
| "storage_classification_value SC_No_space = ''no_space''"
| "storage_classification_value SC_Permission_denied = ''permission_denied''"

definition error_rules :: "(string list \<times> storage_classification \<times> string) list" where
  "error_rules =
    [([''NT_STATUS_LOGON_FAILURE'', ''LOGON_FAILURE'', ''user name or password is incorrect'',
       ''authentication failed'', ''invalid credentials'', ''authorization failed'',
       ''attempted logon is invalid'', ''bad username or authentication information''],
      SC_Auth_failed, ''authentication_failed''),
     ([''no space left on device'', ''disk full'', ''quota exceeded'', ''not enough space''],
      SC_No_space, ''no_space''),
     ([''NT_STATUS_ACCESS_DENIED'', ''permission denied'', ''access denied'',
       ''operation not permitted'', ''read-only file system''],
      SC_Permission_denied, ''permission_denied''),
     ([''connection refused'', ''no route to host'', ''network is unreachable'', ''network is down'',
       ''host is down'', ''i/o timeout'', ''connection timed out'',
       ''temporary failure in name resolution'', ''no such host'', ''failed to resolve'',
       ''failed to connect'', ''dial tcp'', ''connection reset by peer''],
      SC_Unreachable, ''unreachable'')]"

text \<open>\<open>pattern.search\<close> under \<open>re.I\<close> of an alternation of literals.\<close>

definition search_ci :: "string list \<Rightarrow> string \<Rightarrow> bool" where
  "search_ci alternatives s \<longleftrightarrow> list_ex (\<lambda>a. contains (lower a) (lower s)) alternatives"

definition classify_stderr :: "string \<Rightarrow> storage_classification \<times> string" where
  "classify_stderr stderr =
     (case List.find (\<lambda>(pattern, _, _). search_ci pattern stderr) error_rules of
        Some (_, classification, reason_code) \<Rightarrow> (classification, reason_code)
      | None \<Rightarrow> (SC_Failed, ''unknown_error''))"

definition classify :: "int \<Rightarrow> string \<Rightarrow> storage_classification \<times> string" where
  "classify returncode stderr =
     (if returncode = 0 then (SC_Ok, ''ok'') else classify_stderr stderr)"

section \<open>Results of adapters\<close>

datatype connection_stage = CS_Connectivity | CS_Authentication | CS_Listing | CS_Write
datatype stage_status = SS_Success | SS_Failed | SS_Not_applicable | SS_Skipped

primrec connection_stage_value :: "connection_stage \<Rightarrow> string" where
  "connection_stage_value CS_Connectivity = ''connectivity''"
| "connection_stage_value CS_Authentication = ''authentication''"
| "connection_stage_value CS_Listing = ''listing''"
| "connection_stage_value CS_Write = ''write''"

record connection_stage_result =
  sr_stage :: connection_stage
  sr_status :: stage_status
  sr_classification :: storage_classification
  sr_reason_code :: string

record connection_test_result =
  ct_stages :: "connection_stage_result list"
  ct_cleanup_warning :: "string option"

definition connection_ok :: "connection_test_result \<Rightarrow> bool" where
  "connection_ok r \<longleftrightarrow>
     list_all (\<lambda>s. sr_status s = SS_Success \<or> sr_status s = SS_Not_applicable) (ct_stages r) \<and>
     ct_cleanup_warning r = None"

record publish_result =
  pr_success :: bool
  pr_dest_rel :: string
  pr_size :: "int option"
  pr_classification :: storage_classification
  pr_reason_code :: string
  pr_checksum_sha256 :: "string option"
  pr_temporary_rel :: "string option"

record remote_file =
  rf_relative_path :: string
  rf_size :: "int option"
  rf_modified_at :: "string option"
  rf_hashes :: "(string \<times> string) list"
  rf_file_id :: "string option"

section \<open>Capacity\<close>

datatype capacity_state = CP_Available | CP_Warning | CP_Blocked | CP_Unknown

record capacity_result =
  cp_state :: capacity_state
  cp_free_bytes :: "int option"

definition should_block :: "capacity_result \<Rightarrow> bool" where
  "should_block r \<longleftrightarrow> cp_state r = CP_Blocked"

definition evaluate_capacity :: "int option \<Rightarrow> int \<Rightarrow> int \<Rightarrow> exn + capacity_result" where
  "evaluate_capacity free_bytes warn_bytes stop_bytes =
     (if warn_bytes < stop_bytes \<or> stop_bytes < 0 then Inl ValueError
      else (case free_bytes of
          None \<Rightarrow> Inr \<lparr>cp_state = CP_Unknown, cp_free_bytes = None\<rparr>
        | Some free \<Rightarrow>
            if free < stop_bytes then Inr \<lparr>cp_state = CP_Blocked, cp_free_bytes = free_bytes\<rparr>
            else if free < warn_bytes then Inr \<lparr>cp_state = CP_Warning, cp_free_bytes = free_bytes\<rparr>
            else Inr \<lparr>cp_state = CP_Available, cp_free_bytes = free_bytes\<rparr>))"

section \<open>The path boundary\<close>

definition validate_relative_path :: "string \<Rightarrow> bool \<Rightarrow> exn + string" where
  "validate_relative_path rel allow_empty =
     (if CHR 0x00 \<in> set rel then Inl StoragePathError
      else
        (let normalized = replace_char (CHR 0x5C) (CHR ''/'') rel
         in if normalized = [] \<or> normalized = ''.'' then
              (if allow_empty then Inr [] else Inl StoragePathError)
            else if path_is_absolute normalized \<or> ''..'' \<in> set (path_parts normalized)
            then Inl StoragePathError
            else
              (let parts = path_parts normalized
               in if parts = [] then (if allow_empty then Inr [] else Inl StoragePathError)
                  else Inr (join ''/'' parts))))"

text \<open>What a path that stays under the storage root looks like.\<close>

definition safe_relative :: "string \<Rightarrow> bool" where
  "safe_relative p \<longleftrightarrow> (\<exists>parts. parts \<noteq> [] \<and> p = join ''/'' parts \<and>
     (\<forall>q \<in> set parts. q \<noteq> [] \<and> q \<noteq> ''.'' \<and> q \<noteq> ''..'' \<and>
        CHR ''/'' \<notin> set q \<and> CHR 0x5C \<notin> set q \<and> CHR 0x00 \<notin> set q))"

lemma set_split_on: "p \<in> set (split_on c s) \<Longrightarrow> set p \<subseteq> set s"
proof (induction s arbitrary: p)
  case (Cons x s)
  obtain y ys where eq: "split_on c s = y # ys" by (cases "split_on c s") auto
  have "set y \<subseteq> set s" "q \<in> set ys \<Longrightarrow> set q \<subseteq> set s" for q using Cons.IH eq by auto
  with Cons.prems eq show ?case by (auto split: if_splits)
qed simp

lemma set_path_parts: "p \<in> set (path_parts s) \<Longrightarrow> set p \<subseteq> set s"
  by (auto simp: path_parts_def dest: set_split_on)

lemma set_join: "set (join sep xs) \<subseteq> set sep \<union> (\<Union>x \<in> set xs. set x)"
  by (induction sep xs rule: join.induct) auto

lemma set_replace_char: "a \<noteq> b \<Longrightarrow> a \<notin> set (replace_char a b s)"
  by (auto simp: replace_char_def)

lemma set_replace_char_other: "c \<in> set (replace_char a b s) \<Longrightarrow> c = b \<or> c \<in> set s"
  by (auto simp: replace_char_def split: if_splits)

lemma replace_char_id: "a \<notin> set s \<Longrightarrow> replace_char a b s = s"
  by (auto simp: replace_char_def intro!: map_idI)

lemma validate_safe:
  assumes "validate_relative_path rel e = Inr p" "p \<noteq> []"
  shows "safe_relative p"
proof -
  let ?n = "replace_char (CHR 0x5C) (CHR ''/'') rel"
  from assms have nul: "CHR 0x00 \<notin> set rel" and parts: "path_parts ?n \<noteq> []" "''..'' \<notin> set (path_parts ?n)"
    and p: "p = join ''/'' (path_parts ?n)"
    by (auto simp: validate_relative_path_def Let_def split: if_splits)
  have n: "CHR 0x5C \<notin> set ?n" "CHR 0x00 \<notin> set ?n"
    using set_replace_char[of "CHR 0x5C" "CHR ''/''" rel] set_replace_char_other[of "CHR 0x00" "CHR 0x5C" "CHR ''/''" rel] nul
    by auto
  then have "\<forall>q \<in> set (path_parts ?n). q \<noteq> [] \<and> q \<noteq> ''.'' \<and> q \<noteq> ''..'' \<and>
        CHR ''/'' \<notin> set q \<and> CHR 0x5C \<notin> set q \<and> CHR 0x00 \<notin> set q"
    using path_parts_mem[of _ ?n] set_path_parts[of _ ?n] parts(2) by blast
  with parts(1) p show ?thesis unfolding safe_relative_def by blast
qed

lemma validate_idem:
  assumes "safe_relative p"
  shows "validate_relative_path p e = Inr p"
proof -
  obtain parts where ps: "parts \<noteq> []" "p = join ''/'' parts"
    "\<And>q. q \<in> set parts \<Longrightarrow> q \<noteq> [] \<and> q \<noteq> ''.'' \<and> q \<noteq> ''..'' \<and>
        CHR ''/'' \<notin> set q \<and> CHR 0x5C \<notin> set q \<and> CHR 0x00 \<notin> set q"
    using assms unfolding safe_relative_def by blast
  have parts: "path_parts p = parts" using ps(2,3) path_parts_join[of parts] by simp
  have "CHR 0x5C \<notin> set p" "CHR 0x00 \<notin> set p"
    using set_join[of "''/''" parts] ps(2,3) by auto
  moreover have "p \<noteq> []" "p \<noteq> ''.''"
    using parts ps(1) by (auto simp: path_parts_def)
  moreover have "\<not> path_is_absolute p"
  proof -
    obtain q qs where q: "parts = q # qs" using ps(1) by (cases parts) auto
    then obtain c r where c: "q = c # r" "c \<noteq> CHR ''/''" using ps(3)[of q] by (cases q) auto
    then have "\<exists>r'. p = c # r'" using q ps(2) by (cases qs) auto
    with c(2) show ?thesis by (auto simp: path_is_absolute_def starts_with_def)
  qed
  moreover have "''..'' \<notin> set parts" using ps(3) by blast
  ultimately show ?thesis
    using parts ps(1,2) by (simp add: validate_relative_path_def Let_def replace_char_id)
qed

text \<open>
  Claim C34: a path that passes the storage boundary never leaves the storage root: it is empty only
  where that is allowed, and otherwise a sequence of components without an absolute prefix, a parent
  reference, a backslash or a NUL; validating it again gives the same path.
\<close>

theorem validate_relative_path_safe:
  assumes "validate_relative_path rel e = Inr p"
  shows "(p = [] \<and> e \<or> safe_relative p) \<and> validate_relative_path p e = Inr p"
proof (cases "p = []")
  case True
  have "join ''/'' (path_parts n) \<noteq> []" if "path_parts n \<noteq> []" for n
    using that join_Nil_iff[of "CHR ''/''" "path_parts n"] path_parts_mem[of "[]" n] by auto
  with assms True have e
    by (auto simp: validate_relative_path_def Let_def split: if_splits)
  with True show ?thesis by (simp add: validate_relative_path_def replace_char_def)
next
  case False
  with assms validate_safe validate_idem show ?thesis by blast
qed

theorem validate_relative_path_safe_witness:
  "validate_relative_path ''a//./b'' False = Inr ''a/b'' \<and> safe_relative ''a/b''"
proof -
  have v: "validate_relative_path ''a//./b'' False = Inr ''a/b''"
    by (simp add: validate_relative_path_def Let_def replace_char_def path_parts_def
        path_is_absolute_def starts_with_def)
  from validate_relative_path_safe[OF v] v show ?thesis by simp
qed

end
