(* ===== verification/Sync.thy ===== *)
theory Sync
  imports Pipeline Storage_Base
begin

text \<open>
  The two-phase synchronisation of a playlist, \<open>src/sluicery/core/sync.py\<close>: parsing the entries
  discovery lists, applying the difference to items and Targets, and the download phase that checks
  each storage once and enqueues pipelines up to a limit, inside Runs that only one operation per
  playlist may hold. Parameters: the JSON parser, the validity of an authority with brackets (an
  IP address, checked by Python's \<open>ipaddress\<close>), the storage adapters and the ids \<open>uuid4\<close> gives. A database error is not modelled.
\<close>

record sync_settings =
  ss_max_targets_per_run :: int
  ss_max_attempts :: int
  ss_free_space_warn_bytes :: int
  ss_free_space_stop_bytes :: int

record sync_stats =
  sy_new_items :: nat
  sy_delisted_items :: nat
  sy_targets_queued :: nat
  sy_targets_remaining :: nat
  sy_downloaded :: nat
  sy_failed :: nat
  sy_blocked :: nat
  sy_empty_result :: bool

definition no_stats :: sync_stats where
  "no_stats = \<lparr>sy_new_items = 0, sy_delisted_items = 0, sy_targets_queued = 0,
     sy_targets_remaining = 0, sy_downloaded = 0, sy_failed = 0, sy_blocked = 0,
     sy_empty_result = False\<rparr>"

definition stats_dict :: "sync_stats \<Rightarrow> json" where
  "stats_dict s = JObj
     [(''new_items'', JInt (int (sy_new_items s))),
      (''delisted_items'', JInt (int (sy_delisted_items s))),
      (''targets_queued'', JInt (int (sy_targets_queued s))),
      (''targets_remaining'', JInt (int (sy_targets_remaining s))),
      (''downloaded'', JInt (int (sy_downloaded s))),
      (''failed'', JInt (int (sy_failed s))),
      (''blocked'', JInt (int (sy_blocked s))),
      (''empty_result'', JBool (sy_empty_result s))]"

section \<open>Is a synchronisation running?\<close>

definition active_task_statuses :: "task_status list" where
  "active_task_statuses = [TS_Pending, TS_Queued, TS_Running, TS_Blocked]"

definition active_task :: "task \<Rightarrow> bool" where
  "active_task t \<longleftrightarrow> tk_status t \<in> set active_task_statuses"

definition task_of_playlist :: "db \<Rightarrow> int \<Rightarrow> task \<Rightarrow> bool" where
  "task_of_playlist d pid t \<longleftrightarrow>
     (tk_target_ref_type t = ''playlist'' \<and> tk_target_ref_id t = pid) \<or>
     (tk_target_ref_type t = ''target'' \<and>
      (case tget (db_targets d) (tk_target_ref_id t) of None \<Rightarrow> False
       | Some tg \<Rightarrow> (case item_of (db_items d) tg of None \<Rightarrow> False
                    | Some it \<Rightarrow> it_playlist_id it = pid)))"

definition playlist_sync_is_active :: "db \<Rightarrow> int \<Rightarrow> bool" where
  "playlist_sync_is_active d pid \<longleftrightarrow>
     list_ex (\<lambda>(_, t). active_task t \<and> task_of_playlist d pid t) (db_tasks d) \<or>
     list_ex (\<lambda>(_, r). rn_playlist_id r = Some pid \<and> rn_status r = RS_Running) (db_runs d)"

text \<open>\<open>unsaved\<close>: the session holds new, changed or deleted objects in an open transaction.\<close>

definition lock_and_validate_playlist_operation_start :: "bool \<Rightarrow> int \<Rightarrow> db \<Rightarrow> exn option" where
  "lock_and_validate_playlist_operation_start unsaved pid d =
     (if unsaved then Some RuntimeError
      else if playlist_sync_is_active d pid then Some SyncAlreadyRunningError
      else None)"

section \<open>Parsing entries\<close>

definition json_text :: "json \<Rightarrow> string option" where
  "json_text v = (case v of JStr s \<Rightarrow> if s \<noteq> [] \<and> s \<noteq> ''NA'' then Some s else None | _ \<Rightarrow> None)"

definition json_integer :: "json \<Rightarrow> int option" where
  "json_integer v = (case v of JInt i \<Rightarrow> Some i | JFloat x \<Rightarrow> Some (py_round x) | _ \<Rightarrow> None)"

text \<open>
  \<open>urlsplit\<close>, as far as \<open>scheme\<close> and \<open>hostname\<close> go: control characters and spaces in front and
  tabs and line breaks anywhere are dropped, a scheme is a letter and then letters, digits, \<open>+-.\<close>,
  the authority ends at the first of \<open>/?#\<close>, and an unbalanced or invalid bracket raises
  \<open>ValueError\<close> (\<open>None\<close>).
\<close>

definition url_clean :: "string \<Rightarrow> string" where
  "url_clean s = filter (\<lambda>c. code c \<notin> {9, 10, 13})
     (lstrip_where (\<lambda>c. code c \<le> 32) s)"

definition scheme_char :: "char \<Rightarrow> bool" where
  "scheme_char c \<longleftrightarrow> is_alpha c \<or> is_digit c \<or> c \<in> {CHR ''+'', CHR ''-'', CHR ''.''}"

definition url_scheme :: "string \<Rightarrow> string \<times> string" where
  "url_scheme url =
     (case partition_at (CHR '':'') url of (pre, found, post) \<Rightarrow>
        if found \<and> pre \<noteq> [] \<and> is_alpha (hd pre) \<and> list_all scheme_char pre
        then (lower pre, post) else ([], url))"

definition url_netloc :: "string \<Rightarrow> string" where
  "url_netloc rest =
     (if starts_with ''//'' rest
      then takeWhile (\<lambda>c. c \<notin> {CHR ''/'', CHR ''?'', CHR ''#''}) (drop 2 rest) else [])"

definition netloc_hostname :: "string \<Rightarrow> string option" where
  "netloc_hostname netloc =
     (let hostinfo = snd (snd (rpartition_at (CHR ''@'') netloc));
          br = partition_at (CHR ''['') hostinfo;
          name = (if fst (snd br) then fst (partition_at (CHR '']'') (snd (snd br)))
                  else fst (partition_at (CHR '':'') hostinfo))
      in if name = [] then None else Some (lower name))"

definition urlsplit :: "(string \<Rightarrow> bool) \<Rightarrow> string \<Rightarrow> (string \<times> string option) option" where
  "urlsplit brackets_ok url =
     (case url_scheme (url_clean url) of (scheme, rest) \<Rightarrow>
        let netloc = url_netloc rest;
            opening = (CHR ''['' \<in> set netloc); closing = (CHR '']'' \<in> set netloc)
        in if opening \<noteq> closing then None
           else if opening \<and> \<not> brackets_ok netloc then None
           else Some (scheme, netloc_hostname netloc))"

definition http_url :: "(string \<Rightarrow> bool) \<Rightarrow> string \<Rightarrow> bool" where
  "http_url brackets_ok v = (case urlsplit brackets_ok v of
       None \<Rightarrow> False
     | Some (scheme, hostname) \<Rightarrow> lower scheme \<in> {''http'', ''https''} \<and> hostname \<noteq> None)"

fun first_url :: "(string \<Rightarrow> bool) \<Rightarrow> (string \<times> json) list \<Rightarrow> string list \<Rightarrow> string option" where
  "first_url brackets_ok raw [] = None"
| "first_url brackets_ok raw (key # keys) =
     (case json_text (jget raw key) of
        None \<Rightarrow> first_url brackets_ok raw keys
      | Some v \<Rightarrow> if http_url brackets_ok v then Some v else first_url brackets_ok raw keys)"

definition source_url :: "(string \<Rightarrow> bool) \<Rightarrow> (string \<times> json) list \<Rightarrow> string option" where
  "source_url brackets_ok raw = first_url brackets_ok raw [''webpage_url'', ''original_url'', ''url'']"

definition parse_entry :: "(string \<Rightarrow> bool) \<Rightarrow> json option \<Rightarrow> entry option" where
  "parse_entry brackets_ok parsed =
     (case parsed of
        Some (JObj raw) \<Rightarrow>
          (case (json_text (jget raw ''id''), source_url brackets_ok raw) of
             (Some sid, Some url) \<Rightarrow> Some
               \<lparr>en_source_id = sid, en_source_url = url,
                en_title = json_text (jget raw ''title''),
                en_uploader = json_text (jget raw ''uploader''),
                en_duration = json_integer (jget raw ''duration''),
                en_upload_date = json_text (jget raw ''upload_date''),
                en_playlist_index = json_integer (jget raw ''playlist_index''),
                en_metadata = JObj raw\<rparr>
           | _ \<Rightarrow> None)
      | _ \<Rightarrow> None)"

text \<open>A dictionary keyed by the source id: the last entry wins, the first fixes the position.\<close>

definition by_source_id :: "entry list \<Rightarrow> (string \<times> entry) list" where
  "by_source_id es = fold (\<lambda>e d. AList.update (en_source_id e) e d) es []"

definition parse_discover_entries :: "(string \<Rightarrow> json option) \<Rightarrow> (string \<Rightarrow> bool) \<Rightarrow> string list \<Rightarrow> entry list" where
  "parse_discover_entries json_loads brackets_ok lines =
     map snd (by_source_id (List.map_filter (\<lambda>l. parse_entry brackets_ok (json_loads l)) lines))"

section \<open>Applying a discovery\<close>

fun transition_items :: "int list \<Rightarrow> item_membership \<Rightarrow> instant \<Rightarrow> item table \<Rightarrow> (exn + bool) \<times> item table" where
  "transition_items [] m now its = (Inr True, its)"
| "transition_items (i # is) m now its =
     (case transition_item its i m now its of
        (Inl e, its') \<Rightarrow> (Inl e, its')
      | (Inr _, its') \<Rightarrow> transition_items is m now its')"

text \<open>The values computed from the listing before anything is written.\<close>

definition discovered_entries :: "entry list \<Rightarrow> (string \<times> entry) list" where
  "discovered_entries entries = by_source_id (filter (\<lambda>e. en_source_id e \<noteq> []) entries)"

definition to_delist :: "int \<Rightarrow> string set \<Rightarrow> item table \<Rightarrow> int list" where
  "to_delist pid found its =
     map fst (filter (\<lambda>(_, it). it_membership it = IM_Active \<and> it_source_id it \<notin> found)
       (list_items_for_playlist pid its))"

definition to_reactivate :: "int \<Rightarrow> string set \<Rightarrow> item table \<Rightarrow> int list" where
  "to_reactivate pid found its =
     map fst (filter (\<lambda>(_, it). it_membership it = IM_Delisted \<and> it_source_id it \<in> found)
       (list_items_for_playlist pid its))"

definition new_source_ids :: "int \<Rightarrow> (string \<times> entry) list \<Rightarrow> item table \<Rightarrow> string list" where
  "new_source_ids pid found its =
     filter (\<lambda>s. s \<notin> set (map (\<lambda>(_, it). it_source_id it) (list_items_for_playlist pid its)))
       (map fst found)"

text \<open>
  \<open>now\<close> is the clock for row time stamps, \<open>observed_at\<close> the time of the discovery. An exception
  leaves the caller to roll back, so the database is the one before.
\<close>

definition apply_discovery :: "int \<Rightarrow> entry list \<Rightarrow> bool \<Rightarrow> instant \<Rightarrow> instant \<Rightarrow> db \<Rightarrow> (exn + sync_stats) \<times> db" where
  "apply_discovery pid entries dry_run observed_at now d =
     (let discovered = discovered_entries entries
      in if discovered = [] then (Inr (no_stats\<lparr>sy_empty_result := True\<rparr>), d)
         else
           (let its = db_items d;
                found = set (map fst discovered);
                new_ids = new_source_ids pid discovered its;
                delisted = to_delist pid found its;
                reappeared = to_reactivate pid found its;
                profiles = map fst (list_enabled_for_playlist pid (db_assignments d));
                stats = no_stats\<lparr>sy_new_items := length new_ids, sy_delisted_items := length delisted\<rparr>
            in if dry_run then (Inr stats, d)
               else
                 (case upsert_many pid observed_at now (map snd discovered) its of (upserted, its1) \<Rightarrow>
                    (case transition_items delisted IM_Delisted observed_at its1 of
                       (Inl e, _) \<Rightarrow> (Inl e, d)
                     | (Inr _, its2) \<Rightarrow>
                        (case transition_items reappeared IM_Active observed_at its2 of
                           (Inl e, _) \<Rightarrow> (Inl e, d)
                         | (Inr _, its3) \<Rightarrow>
                            (let new_item_ids = filter (\<lambda>i. case tget its3 i of None \<Rightarrow> False
                                     | Some it \<Rightarrow> it_source_id it \<in> set new_ids) upserted;
                                 tgs = create_missing_for_items new_item_ids profiles now (db_targets d)
                             in case set_last_discover_at pid observed_at now (db_playlists d) of
                                  (False, _) \<Rightarrow> (Inl LookupError, d)
                                | (True, pls) \<Rightarrow>
                                    (Inr stats, d\<lparr>db_items := its3, db_targets := tgs,
                                       db_playlists := pls\<rparr>)))))))"

section \<open>The download phase\<close>

text \<open>An adapter, as far as the check goes: its connection test and its free space.\<close>

record adapter_probe =
  ap_test_connection :: "exn + connection_test_result"
  ap_free_space :: "exn + int option"

type_synonym adapter_factory = "int \<Rightarrow> storage \<Rightarrow> exn + adapter_probe"

definition msg_storage_disabled :: string where "msg_storage_disabled = ''storage is disabled''"
definition msg_cleanup_failed :: string where "msg_cleanup_failed = ''storage check cleanup failed''"
definition msg_low_space :: string where "msg_low_space = ''storage free space below stop threshold''"

definition msg_check_failed :: "connection_stage_result \<Rightarrow> string" where
  "msg_check_failed s = ''storage check failed: '' @ connection_stage_value (sr_stage s) @ ''/'' @ sr_reason_code s"

definition msg_check_raised :: "exn \<Rightarrow> string" where
  "msg_check_raised e = ''storage check cannot run: '' @ exn_name e"

definition check_storage :: "adapter_factory \<Rightarrow> sync_settings \<Rightarrow> int \<Rightarrow> storage \<Rightarrow> bool \<times> string option" where
  "check_storage factory cfg sid s =
     (if \<not> st_enabled s then (False, Some msg_storage_disabled)
      else
        (case factory sid s of
           Inl e \<Rightarrow> (False, Some (msg_check_raised e))
         | Inr adapter \<Rightarrow>
            (case ap_test_connection adapter of
               Inl e \<Rightarrow> (False, Some (msg_check_raised e))
             | Inr connection \<Rightarrow>
                if \<not> connection_ok connection then
                  (case List.find (\<lambda>r. sr_status r = SS_Failed) (ct_stages connection) of
                     Some failure \<Rightarrow> (False, Some (msg_check_failed failure))
                   | None \<Rightarrow> (False, Some msg_cleanup_failed))
                else
                  (case ap_free_space adapter of
                     Inl e \<Rightarrow> (False, Some (msg_check_raised e))
                   | Inr free \<Rightarrow>
                      (case evaluate_capacity free (ss_free_space_warn_bytes cfg) (ss_free_space_stop_bytes cfg) of
                         Inl e \<Rightarrow> (False, Some (msg_check_raised e))
                       | Inr capacity \<Rightarrow>
                          if should_block capacity then (False, Some msg_low_space) else (True, None))))))"

text \<open>
  The first loop: storages are checked once, Targets on an unusable one become blocked, the others
  go back to pending if they had failed or been blocked. The state is the cache of checks, the
  eligible ids and the Targets.
\<close>

type_synonym storage_checks = "(int \<times> (bool \<times> string option)) list"

fun check_candidates :: "(int \<Rightarrow> storage \<Rightarrow> bool \<times> string option) \<Rightarrow> instant \<Rightarrow> candidate list
    \<Rightarrow> storage_checks \<Rightarrow> int list \<Rightarrow> target table \<Rightarrow> (exn + int list) \<times> target table" where
  "check_candidates check now [] checks eligible tgs = (Inr eligible, tgs)"
| "check_candidates check now (c # cs) checks eligible tgs =
     (let sid = cd_storage_id c;
          result = (case map_of checks sid of None \<Rightarrow> check sid (cd_storage c) | Some r \<Rightarrow> r);
          checks' = AList.update sid result checks;
          tid = cd_target_id c
      in if \<not> fst result then
           (case transition_target tgs tid TG_Blocked (snd result) (snd result) False id now tgs of
              (Inl e, tgs') \<Rightarrow> (Inl e, tgs')
            | (Inr _, tgs') \<Rightarrow> check_candidates check now cs checks' eligible tgs')
         else if tg_status (cd_target c) \<in> {TG_Failed, TG_Blocked} then
           (case transition_target tgs tid TG_Pending None None False id now tgs of
              (Inl e, tgs') \<Rightarrow> (Inl e, tgs')
            | (Inr _, tgs') \<Rightarrow> check_candidates check now cs checks' (eligible @ [tid]) tgs')
         else check_candidates check now cs checks' (eligible @ [tid]) tgs)"

text \<open>The second loop: pipelines until the limit, the rest is counted as remaining.\<close>

fun queue_eligible :: "int \<Rightarrow> int option \<Rightarrow> int \<Rightarrow> (int \<Rightarrow> string) \<Rightarrow> instant \<Rightarrow> int list \<Rightarrow> nat \<Rightarrow> nat
    \<Rightarrow> db \<Rightarrow> (exn + nat \<times> nat) \<times> db" where
  "queue_eligible limit run_id retry_limit uuid now [] queued remaining d = (Inr (queued, remaining), d)"
| "queue_eligible limit run_id retry_limit uuid now (tid # tids) queued remaining d =
     (if limit \<le> int queued
      then queue_eligible limit run_id retry_limit uuid now tids queued (remaining + 1) d
      else
        (case enqueue_target_pipeline tid run_id None (uuid tid) retry_limit now d of
           (Inl e, d') \<Rightarrow> (Inl e, d')
         | (Inr chain, d') \<Rightarrow>
             queue_eligible limit run_id retry_limit uuid now tids
               (if chain \<noteq> None then queued + 1 else queued) remaining d'))"

definition queue_download_phase :: "adapter_factory \<Rightarrow> sync_settings \<Rightarrow> (int \<Rightarrow> string) \<Rightarrow> int
    \<Rightarrow> int option \<Rightarrow> int option \<Rightarrow> int option \<Rightarrow> instant \<Rightarrow> db \<Rightarrow> (exn + sync_stats) \<times> db" where
  "queue_download_phase factory cfg uuid pid run_id max_targets max_attempts now d =
     (case tget (db_playlists d) pid of
        None \<Rightarrow> (Inl LookupError, d)
      | Some playlist \<Rightarrow>
          if \<not> pl_enabled playlist \<or> pl_paused playlist then (Inl ValueError, d)
          else
            (let target_limit = (case max_targets of None \<Rightarrow> ss_max_targets_per_run cfg | Some n \<Rightarrow> n);
                 retry_limit = (case max_attempts of None \<Rightarrow> ss_max_attempts cfg | Some n \<Rightarrow> n)
             in if target_limit < 1 \<or> retry_limit < 1 then (Inl ValueError, d)
                else
                  (case check_candidates (check_storage factory cfg) now
                          (list_download_candidates pid retry_limit d) [] [] (db_targets d) of
                     (Inl e, tgs) \<Rightarrow> (Inl e, d\<lparr>db_targets := tgs\<rparr>)
                   | (Inr eligible, tgs) \<Rightarrow>
                      (case queue_eligible target_limit run_id retry_limit uuid now eligible 0 0
                              (d\<lparr>db_targets := tgs\<rparr>) of
                         (Inl e, d') \<Rightarrow> (Inl e, d')
                       | (Inr (queued, remaining), d') \<Rightarrow>
                          (let d'' = d'\<lparr>db_playlists := snd (set_last_download_at pid now now (db_playlists d'))\<rparr>;
                               count = count_by_status pid (db_items d'') (db_targets d'')
                           in (Inr (no_stats\<lparr>sy_targets_queued := queued, sy_targets_remaining := remaining,
                                 sy_downloaded := count TG_Downloaded, sy_failed := count TG_Failed,
                                 sy_blocked := count TG_Blocked\<rparr>), d''))))))"

section \<open>Runs\<close>

definition discover_payload :: "int \<Rightarrow> bool \<Rightarrow> json" where
  "discover_payload pid dry_run = JObj [(''playlist_id'', JInt pid), (''dry_run'', JBool dry_run)]"

definition run_started_event :: "int \<Rightarrow> int \<Rightarrow> string \<Rightarrow> run_trigger \<Rightarrow> event" where
  "run_started_event run_id pid kind trig = Event ''run_started''
     [(''run_id'', JInt run_id), (''playlist_id'', JInt pid), (''kind'', JStr kind),
      (''trigger'', JStr (run_trigger_value trig))]"

definition enqueue_discover_run :: "bool \<Rightarrow> sync_settings \<Rightarrow> int \<Rightarrow> bool \<Rightarrow> run_trigger \<Rightarrow> int option
    \<Rightarrow> instant \<Rightarrow> db \<Rightarrow> (exn + int \<times> int) \<times> db \<times> event list" where
  "enqueue_discover_run unsaved cfg pid dry_run trig max_attempts now d =
     (case lock_and_validate_playlist_operation_start unsaved pid d of
        Some e \<Rightarrow> (Inl e, d, [])
      | None \<Rightarrow>
         (case tget (db_playlists d) pid of
            None \<Rightarrow> (Inl LookupError, d, [])
          | Some playlist \<Rightarrow>
             if \<not> pl_enabled playlist \<or> pl_paused playlist then (Inl ValueError, d, [])
             else
               (let attempts = (case max_attempts of None \<Rightarrow> ss_max_attempts cfg | Some n \<Rightarrow> n)
                in if attempts < 1 then (Inl ValueError, d, [])
                   else
                     (case start_run trig ''discover'' pid now (db_runs d) of (run_id, runs) \<Rightarrow>
                        (case enqueue TT_Discover ''playlist'' pid (Some (discover_payload pid dry_run))
                                WC_Network attempts (Some run_id) now (db_tasks d) of (task_id, tasks) \<Rightarrow>
                           (Inr (run_id, task_id), d\<lparr>db_runs := runs, db_tasks := tasks\<rparr>,
                            [run_started_event run_id pid ''discover'' trig]))))))"

definition run_failed_event :: "int \<Rightarrow> int \<Rightarrow> event" where
  "run_failed_event run_id pid = Event ''run_failed''
     [(''run_id'', JInt run_id), (''playlist_id'', JInt pid), (''kind'', JStr ''download''),
      (''reason_code'', JStr ''download_enqueue_failed'')]"

definition run_result_event :: "int \<Rightarrow> int \<Rightarrow> run_status \<Rightarrow> event" where
  "run_result_event run_id pid status =
     Event (if status = RS_Failed then ''run_failed'' else ''run_finished'')
       [(''run_id'', JInt run_id), (''playlist_id'', JInt pid), (''kind'', JStr ''download''),
        (''status'', JStr (run_status_value status)),
        (''reason_code'', if status = RS_Failed then JStr ''storage_preflight_failed'' else JNull)]"

text \<open>The status the Run has after the statement that finishes it, read back for the event.\<close>

definition run_status_of :: "int \<Rightarrow> db \<Rightarrow> run_status" where
  "run_status_of run_id d = (case tget (db_runs d) run_id of None \<Rightarrow> RS_Failed | Some r \<Rightarrow> rn_status r)"

definition finish_run_in :: "int \<Rightarrow> run_status \<Rightarrow> sync_stats \<Rightarrow> instant \<Rightarrow> db \<Rightarrow> db" where
  "finish_run_in run_id st stats now d =
     d\<lparr>db_runs := snd (finish_run run_id st (stats_dict stats) now (db_runs d))\<rparr>"

definition execute_download_run :: "bool \<Rightarrow> adapter_factory \<Rightarrow> sync_settings \<Rightarrow> (int \<Rightarrow> string) \<Rightarrow> int
    \<Rightarrow> run_trigger \<Rightarrow> int option \<Rightarrow> int option \<Rightarrow> instant \<Rightarrow> db \<Rightarrow> (exn + int) \<times> db \<times> event list" where
  "execute_download_run unsaved factory cfg uuid pid trig max_targets max_attempts now d =
     (case lock_and_validate_playlist_operation_start unsaved pid d of
        Some e \<Rightarrow> (Inl e, d, [])
      | None \<Rightarrow>
         (case tget (db_playlists d) pid of
            None \<Rightarrow> (Inl LookupError, d, [])
          | Some playlist \<Rightarrow>
             if \<not> pl_enabled playlist \<or> pl_paused playlist then (Inl ValueError, d, [])
             else
               (case start_run trig ''download'' pid now (db_runs d) of (run_id, runs) \<Rightarrow>
                  (let started = run_started_event run_id pid ''download'' trig
                   in case queue_download_phase factory cfg uuid pid (Some run_id) max_targets max_attempts
                             now (d\<lparr>db_runs := runs\<rparr>) of
                        (Inl e, d') \<Rightarrow>
                          (Inl e, finish_run_in run_id RS_Failed no_stats now d',
                           [started, run_failed_event run_id pid])
                      | (Inr stats, d') \<Rightarrow>
                          (let status = (if sy_targets_queued stats = 0 \<and> 0 < sy_blocked stats
                                         then RS_Failed else RS_Succeeded);
                               d'' = finish_run_in run_id status stats now d'
                           in (Inr run_id, d'', [started, run_result_event run_id pid (run_status_of run_id d'')]))))))"

end
