(* ===== verification/Options_Guard.thy ===== *)
theory Options_Guard
  imports Sync
begin

text \<open>
  The guard of free-form yt-dlp options, the first half of \<open>src/sluicery/core/options.py\<close>: source
  URLs, the tokens \<open>shlex.split\<close> makes of a text, the managed options among them with their
  aliases, and the reserved options that are refused or need a flag. A warning is a value with the
  label and the option of its message. The validity of a bracketed host is a parameter, as in Sync.
\<close>

section \<open>Source URLs\<close>

text \<open>\<open>SplitResult.port\<close>: \<open>False\<close> where the property raises \<open>ValueError\<close>.\<close>

definition netloc_port :: "string \<Rightarrow> string" where
  "netloc_port netloc =
     (let hostinfo = snd (snd (rpartition_at (CHR ''@'') netloc));
          br = partition_at (CHR ''['') hostinfo
      in if fst (snd br)
         then snd (snd (partition_at (CHR '':'') (snd (snd (partition_at (CHR '']'') (snd (snd br)))))))
         else snd (snd (partition_at (CHR '':'') hostinfo)))"

definition port_ok :: "string \<Rightarrow> bool" where
  "port_ok port \<longleftrightarrow> port = [] \<or> (list_all is_digit port \<and> digits_value port \<le> 65535)"

definition validate_source_url :: "(string \<Rightarrow> bool) \<Rightarrow> string \<Rightarrow> exn + string" where
  "validate_source_url brackets_ok v =
     (case urlsplit brackets_ok v of
        None \<Rightarrow> Inl OptionValidationError
      | Some (scheme, hostname) \<Rightarrow>
          let netloc = url_netloc (snd (url_scheme (url_clean v)))
          in if \<not> port_ok (netloc_port netloc) then Inl OptionValidationError
             else if lower scheme \<notin> {''http'', ''https''} \<or> netloc = [] \<or> hostname = None
                     \<or> list_ex is_space v
             then Inl OptionValidationError else Inr v)"

section \<open>Tokens\<close>

text \<open>
  \<open>shlex.split(value)\<close>: POSIX mode, split at blanks, tabs and line breaks, no comments. The states
  are those of \<open>shlex.read_token\<close>: between tokens, in a word, in quotes, after a backslash (with the
  state to return to). The end of the text inside quotes or after a backslash raises \<open>ValueError\<close>.
\<close>

datatype shlex_state = SX_Blank | SX_Word | SX_Quote char | SX_Escape "char option"

definition shlex_space :: "char \<Rightarrow> bool" where
  "shlex_space c \<longleftrightarrow> code c \<in> {9, 10, 13, 32}"

definition shlex_quote :: "char \<Rightarrow> bool" where
  "shlex_quote c \<longleftrightarrow> c = CHR 0x27 \<or> c = CHR 0x22"

definition backslash :: char where
  "backslash = CHR 0x5C"

fun shlex_run :: "shlex_state \<Rightarrow> string \<Rightarrow> bool \<Rightarrow> string \<Rightarrow> exn + string list" where
  "shlex_run SX_Blank token quoted [] = Inr []"
| "shlex_run SX_Word token quoted [] = Inr [token]"
| "shlex_run (SX_Quote q) token quoted [] = Inl ValueError"
| "shlex_run (SX_Escape back) token quoted [] = Inl ValueError"
| "shlex_run SX_Blank token quoted (c # s) =
     (if shlex_space c then shlex_run SX_Blank [] False s
      else if c = backslash then shlex_run (SX_Escape None) [] False s
      else if shlex_quote c then shlex_run (SX_Quote c) [] True s
      else shlex_run SX_Word [c] False s)"
| "shlex_run SX_Word token quoted (c # s) =
     (if shlex_space c then
        (if token \<noteq> [] \<or> quoted
         then map_sum id (Cons token) (shlex_run SX_Blank [] False s)
         else shlex_run SX_Blank [] False s)
      else if shlex_quote c then shlex_run (SX_Quote c) token True s
      else if c = backslash then shlex_run (SX_Escape None) token quoted s
      else shlex_run SX_Word (token @ [c]) quoted s)"
| "shlex_run (SX_Quote q) token quoted (c # s) =
     (if c = q then shlex_run SX_Word token True s
      else if c = backslash \<and> q = CHR 0x22 then shlex_run (SX_Escape (Some q)) token True s
      else shlex_run (SX_Quote q) (token @ [c]) True s)"
| "shlex_run (SX_Escape None) token quoted (c # s) = shlex_run SX_Word (token @ [c]) quoted s"
| "shlex_run (SX_Escape (Some q)) token quoted (c # s) =
     shlex_run (SX_Quote q)
       (token @ (if c \<noteq> backslash \<and> c \<noteq> q then [backslash, c] else [c])) quoted s"

definition shlex_split :: "string \<Rightarrow> exn + string list" where
  "shlex_split v = shlex_run SX_Blank [] False v"

section \<open>Managed options\<close>

definition option_aliases :: "(string \<times> string) list" where
  "option_aliases =
     [(''--paths'', ''--paths''), (''-P'', ''--paths''),
      (''--output'', ''--output''), (''-o'', ''--output''),
      (''--print'', ''--print''), (''-O'', ''--print''),
      (''--print-to-file'', ''--print-to-file''),
      (''--progress-template'', ''--progress-template''),
      (''--download-archive'', ''--download-archive''),
      (''--load-info-json'', ''--load-info-json''),
      (''--dump-json'', ''--dump-json''), (''-j'', ''--dump-json''),
      (''--dump-single-json'', ''--dump-single-json''),
      (''--exec'', ''--exec''), (''--exec-before-download'', ''--exec-before-download''),
      (''--quiet'', ''--quiet''), (''-q'', ''--quiet''),
      (''--no-progress'', ''--no-progress''),
      (''--simulate'', ''--simulate''), (''-s'', ''--simulate''),
      (''--restrict-filenames'', ''--restrict-filenames''),
      (''--no-windows-filenames'', ''--no-windows-filenames''),
      (''--no-newline'', ''--no-newline''),
      (''--cookies'', ''--cookies''), (''--cookies-from-browser'', ''--cookies-from-browser'')]"

definition reserved_options :: "string list" where
  "reserved_options =
     [''--paths'', ''--output'', ''--print'', ''--print-to-file'', ''--progress-template'',
      ''--download-archive'', ''--load-info-json'', ''--dump-json'', ''--dump-single-json'',
      ''--exec'', ''--exec-before-download'', ''--cookies'', ''--cookies-from-browser'']"

definition exec_options :: "string list" where
  "exec_options = [''--exec'', ''--exec-before-download'']"

definition warning_options :: "string list" where
  "warning_options = [''--quiet'', ''--no-progress'', ''--simulate'', ''--restrict-filenames'',
     ''--no-windows-filenames'', ''--no-newline'']"

definition short_value_aliases :: "(string \<times> string) list" where
  "short_value_aliases = [(''-P'', ''--paths''), (''-o'', ''--output''), (''-O'', ''--print'')]"

record parsed_option =
  po_canonical :: string
  po_token :: string
  po_index :: nat
  po_value :: "string option"

fun short_option :: "(string \<times> string) list \<Rightarrow> string \<Rightarrow> (string \<times> string) option" where
  "short_option [] token = None"
| "short_option ((short, canonical) # rest) token =
     (if starts_with short token \<and> length short < length token
      then Some (canonical, drop (length short) token) else short_option rest token)"

definition managed_option :: "string \<Rightarrow> (string \<times> string option) option" where
  "managed_option token =
     (case partition_at (CHR ''='') token of (option_token, separator, inline_value) \<Rightarrow>
        case map_of option_aliases option_token of
          Some canonical \<Rightarrow> Some (canonical, if separator then Some inline_value else None)
        | None \<Rightarrow> map_option (apsnd Some) (short_option short_value_aliases token))"

fun managed_from :: "nat \<Rightarrow> string list \<Rightarrow> parsed_option list" where
  "managed_from index [] = []"
| "managed_from index (token # tokens) =
     (case managed_option token of
        None \<Rightarrow> managed_from (Suc index) tokens
      | Some (canonical, v) \<Rightarrow>
          \<lparr>po_canonical = canonical, po_token = token, po_index = index,
           po_value = (if v = None \<and> tokens \<noteq> [] then Some (hd tokens) else v)\<rparr>
          # managed_from (Suc index) tokens)"

definition parse_managed_options :: "string list \<Rightarrow> parsed_option list" where
  "parse_managed_options tokens = managed_from 0 tokens"

definition guard_raw_exec_args :: "string list \<Rightarrow> exn + string list" where
  "guard_raw_exec_args tokens =
     (if list_ex (\<lambda>p. po_canonical p \<in> set reserved_options) (parse_managed_options tokens)
      then Inl OptionValidationError else Inr tokens)"

section \<open>The guard\<close>

datatype command_kind = CK_Discover | CK_Download

datatype warning =
    WarnExec string string
  | WarnReserved string string
  | WarnOption string string
  | WarnProtocol string command_kind
  | WarnLayout string

record guarded_tokens =
  gt_tokens :: "string list"
  gt_warnings :: "warning list"
  gt_reserved_overrides :: "string list"

record guard_flags =
  gf_source_label :: string
  gf_expert_mode :: bool
  gf_env_allow_exec :: bool
  gf_profile_allow_exec :: bool
  gf_command_kind :: command_kind

definition add_new :: "'a \<Rightarrow> 'a list \<Rightarrow> 'a list" where
  "add_new x xs = (if x \<in> set xs then xs else xs @ [x])"

definition option_warning :: "guard_flags \<Rightarrow> string \<Rightarrow> warning list \<Rightarrow> warning list" where
  "option_warning fl opt ws =
     (if opt \<in> set warning_options \<and> \<not> (opt = ''--simulate'' \<and> gf_command_kind fl = CK_Discover)
      then add_new (WarnOption (gf_source_label fl) opt) ws else ws)"

fun guard_loop :: "guard_flags \<Rightarrow> parsed_option list \<Rightarrow> warning list \<Rightarrow> string list
    \<Rightarrow> exn + (warning list \<times> string list)" where
  "guard_loop fl [] ws overridden = Inr (ws, overridden)"
| "guard_loop fl (p # ps) ws overridden =
     (let opt = po_canonical p
      in if opt = ''--cookies-from-browser'' then Inl OptionValidationError
         else if opt = ''--cookies'' then Inl OptionValidationError
         else if opt = ''--output'' then Inl OptionValidationError
         else if opt = ''--download-archive'' then Inl OptionValidationError
         else if opt \<in> set exec_options then
           (if \<not> (gf_env_allow_exec fl \<and> gf_profile_allow_exec fl) then Inl OptionValidationError
            else guard_loop fl ps (add_new (WarnExec (gf_source_label fl) opt) ws)
                   (add_new opt overridden))
         else if opt \<in> set reserved_options then
           (if \<not> gf_expert_mode fl then Inl OptionValidationError
            else guard_loop fl ps
                   (option_warning fl opt (add_new (WarnReserved (gf_source_label fl) opt) ws))
                   (add_new opt overridden))
         else guard_loop fl ps (option_warning fl opt ws) overridden)"

definition no_tokens :: guarded_tokens where
  "no_tokens = \<lparr>gt_tokens = [], gt_warnings = [], gt_reserved_overrides = []\<rparr>"

definition guard_freeform :: "string option \<Rightarrow> guard_flags \<Rightarrow> exn + guarded_tokens" where
  "guard_freeform v fl =
     (case v of
        None \<Rightarrow> Inr no_tokens
      | Some text \<Rightarrow>
          if strip text = [] then Inr no_tokens
          else (case shlex_split text of
                  Inl e \<Rightarrow> Inl OptionValidationError
                | Inr tokens \<Rightarrow>
                    (case guard_loop fl (parse_managed_options tokens) [] [] of
                       Inl e \<Rightarrow> Inl e
                     | Inr (ws, overridden) \<Rightarrow>
                         Inr \<lparr>gt_tokens = tokens, gt_warnings = ws,
                              gt_reserved_overrides = overridden\<rparr>)))"

section \<open>What the guard lets through\<close>

definition never_options :: "string list" where
  "never_options = [''--cookies-from-browser'', ''--cookies'', ''--output'', ''--download-archive'']"

definition permitted :: "guard_flags \<Rightarrow> string \<Rightarrow> bool" where
  "permitted fl opt \<longleftrightarrow> opt \<notin> set never_options \<and>
     (opt \<in> set exec_options \<longrightarrow> gf_env_allow_exec fl \<and> gf_profile_allow_exec fl) \<and>
     (opt \<in> set reserved_options - set exec_options \<longrightarrow> gf_expert_mode fl)"

definition managed_names :: "string list \<Rightarrow> string list" where
  "managed_names tokens = map po_canonical (parse_managed_options tokens)"

lemma set_add_new [simp]: "set (add_new x xs) = insert x (set xs)"
  by (auto simp: add_new_def)

lemma distinct_add_new [simp]: "distinct (add_new x xs) \<longleftrightarrow> distinct xs"
  by (auto simp: add_new_def)

lemma never_reserved: "opt \<in> set never_options \<Longrightarrow> opt \<in> set reserved_options \<and> opt \<notin> set exec_options"
  by (auto simp: never_options_def reserved_options_def exec_options_def)

lemma exec_reserved: "opt \<in> set exec_options \<Longrightarrow> opt \<in> set reserved_options \<and> opt \<notin> set never_options"
  by (auto simp: never_options_def reserved_options_def exec_options_def)

lemma guard_loop_Cons:
  "guard_loop fl (p # ps) ws ov =
     (if \<not> permitted fl (po_canonical p) then Inl OptionValidationError
      else guard_loop fl ps
        (if po_canonical p \<in> set exec_options then add_new (WarnExec (gf_source_label fl) (po_canonical p)) ws
         else option_warning fl (po_canonical p)
           (if po_canonical p \<in> set reserved_options
            then add_new (WarnReserved (gf_source_label fl) (po_canonical p)) ws else ws))
        (if po_canonical p \<in> set reserved_options then add_new (po_canonical p) ov else ov))"
proof -
  define opt where "opt = po_canonical p"
  have never: "opt = ''--cookies-from-browser'' \<or> opt = ''--cookies'' \<or>
      opt = ''--output'' \<or> opt = ''--download-archive'' \<longleftrightarrow> opt \<in> set never_options"
    by (simp add: never_options_def)
  have chain: "(if a then x else if b then x else if c then x else if d then x else y) =
      (if a \<or> b \<or> c \<or> d then x else y)" for a b c d and x y :: "exn + (warning list \<times> string list)"
    by simp
  show ?thesis
    unfolding guard_loop.simps Let_def permitted_def opt_def[symmetric] chain never
    using never_reserved[of opt] exec_reserved[of opt]
    by (cases "opt \<in> set never_options"; cases "opt \<in> set exec_options";
        cases "opt \<in> set reserved_options"; cases "gf_expert_mode fl") simp_all
qed

lemma guard_loop_fails:
  "\<not> list_all (permitted fl) (map po_canonical ps) \<Longrightarrow>
   guard_loop fl ps ws ov = Inl OptionValidationError"
  by (induction ps arbitrary: ws ov) (auto simp: guard_loop_Cons simp del: guard_loop.simps(2))

lemma guard_loop_succeeds:
  "list_all (permitted fl) (map po_canonical ps) \<Longrightarrow>
   \<exists>ws' ov'. guard_loop fl ps ws ov = Inr (ws', ov') \<and>
     set ov' = set ov \<union> (set (map po_canonical ps) \<inter> set reserved_options) \<and>
     (distinct ov \<longrightarrow> distinct ov')"
proof (induction ps arbitrary: ws ov)
  case (Cons p ps)
  let ?ov = "if po_canonical p \<in> set reserved_options then add_new (po_canonical p) ov else ov"
  have "list_all (permitted fl) (map po_canonical ps)" "permitted fl (po_canonical p)"
    using Cons.prems by simp_all
  with Cons.IH[of _ ?ov] obtain ws' ov' where
    "guard_loop fl (p # ps) ws ov = Inr (ws', ov')"
    "set ov' = set ?ov \<union> (set (map po_canonical ps) \<inter> set reserved_options)"
    "distinct ?ov \<longrightarrow> distinct ov'"
    unfolding guard_loop_Cons by (metis (no_types, lifting))
  then show ?case by (intro exI conjI) (assumption, auto)
qed simp

text \<open>
  Claim C36: the guard accepts a text exactly if it is blank, or shlex can split it and every managed
  option in it is permitted: the cookie, output and archive options never, the exec options only with
  both exec flags, the other reserved ones only in expert mode. It hands over exactly the tokens of
  the text and reports exactly the reserved options in it; a refusal is an OptionValidationError.
\<close>

theorem guard_freeform_spec:
  "case guard_freeform v fl of
     Inl e \<Rightarrow> e = OptionValidationError \<and> v \<noteq> None \<and> strip (the v) \<noteq> [] \<and>
       (case shlex_split (the v) of Inl _ \<Rightarrow> True
        | Inr tokens \<Rightarrow> \<exists>opt \<in> set (managed_names tokens). \<not> permitted fl opt)
   | Inr g \<Rightarrow>
       if v = None \<or> strip (the v) = [] then g = no_tokens
       else shlex_split (the v) = Inr (gt_tokens g) \<and>
         list_all (permitted fl) (managed_names (gt_tokens g)) \<and>
         distinct (gt_reserved_overrides g) \<and>
         set (gt_reserved_overrides g) = set (managed_names (gt_tokens g)) \<inter> set reserved_options"
proof (cases "v = None \<or> strip (the v) = []")
  case True
  then show ?thesis by (auto simp: guard_freeform_def split: option.splits)
next
  case False
  then obtain s where v: "v = Some s" "strip s \<noteq> []" by auto
  show ?thesis
  proof (cases "shlex_split s")
    case (Inl e)
    with v show ?thesis by (simp add: guard_freeform_def)
  next
    case (Inr tokens)
    let ?ps = "parse_managed_options tokens"
    show ?thesis
    proof (cases "list_all (permitted fl) (managed_names tokens)")
      case True
      then obtain ws ov where g: "guard_loop fl ?ps [] [] = Inr (ws, ov)"
        "set ov = set (managed_names tokens) \<inter> set reserved_options" "distinct ov"
        using guard_loop_succeeds[of fl ?ps "[]" "[]"] by (auto simp: managed_names_def)
      then show ?thesis using v Inr True by (simp add: guard_freeform_def)
    next
      case False
      then have "guard_freeform v fl = Inl OptionValidationError"
        using v Inr guard_loop_fails[of fl ?ps "[]" "[]"]
        by (simp add: guard_freeform_def managed_names_def)
      with v Inr False show ?thesis by (auto simp: list_all_iff)
    qed
  qed
qed

end
