(* ===== verification/Settings.thy ===== *)
theory Settings
  imports Options_Guard
begin

text \<open>
  The operational settings, \<open>src/sluicery/core/settings.py\<close> with
  \<open>src/sluicery/db/repositories/setting.py\<close>, and the parser of the download window from
  \<open>src/sluicery/scheduler/__init__.py\<close> that validates one of them. A stored value is the JSON value
  its text encodes. Parameters (\<open>settings_env\<close>): the JSON parser, \<open>str\<close> of a float, a list or a
  dictionary, the cron parser of APScheduler and the validity of a bracketed host.
\<close>

section \<open>The download window\<close>

record download_window =
  dw_start_minute :: nat
  dw_end_minute :: nat

definition window_contains :: "download_window \<Rightarrow> nat \<Rightarrow> nat \<Rightarrow> bool" where
  "window_contains w hour minute =
     (let current = hour * 60 + minute
      in if dw_start_minute w = dw_end_minute w then True
         else if dw_start_minute w < dw_end_minute w
         then dw_start_minute w \<le> current \<and> current < dw_end_minute w
         else dw_start_minute w \<le> current \<or> current < dw_end_minute w)"

definition parse_download_window :: "string option \<Rightarrow> exn + download_window option" where
  "parse_download_window v =
     (if v = None \<or> strip (the v) = [] then Inr None
      else case strip (the v) of
        [a, b, c, d, e, f, g, h, i, j, k] \<Rightarrow>
          if list_all is_digit [a, b, d, e, g, h, j, k] \<and> c = CHR '':'' \<and> f = CHR ''-'' \<and> i = CHR '':''
          then (let start_hour = digits_value [a, b]; start_minute = digits_value [d, e];
                    end_hour = digits_value [g, h]; end_minute = digits_value [j, k]
                in if 23 < start_hour \<or> 23 < end_hour \<or> 59 < start_minute \<or> 59 < end_minute
                   then Inl ValueError
                   else Inr (Some \<lparr>dw_start_minute = start_hour * 60 + start_minute,
                                   dw_end_minute = end_hour * 60 + end_minute\<rparr>))
          else Inl ValueError
      | _ \<Rightarrow> Inl ValueError)"

section \<open>Declared settings\<close>

datatype setting_type = ST_Int | ST_Str | ST_Bool | ST_Float | ST_List

record setting_spec =
  sp_type :: setting_type
  sp_default :: json

definition code_defaults :: "(string \<times> setting_spec) list" where
  "code_defaults =
     [(''auth.session_max_age_sec'', \<lparr>sp_type = ST_Int, sp_default = JInt 2592000\<rparr>),
      (''auth.max_login_attempts'', \<lparr>sp_type = ST_Int, sp_default = JInt 5\<rparr>),
      (''auth.lockout_sec'', \<lparr>sp_type = ST_Int, sp_default = JInt 900\<rparr>),
      (''staging.warn_pct'', \<lparr>sp_type = ST_Int, sp_default = JInt 80\<rparr>),
      (''staging.stop_pct'', \<lparr>sp_type = ST_Int, sp_default = JInt 90\<rparr>),
      (''log.retention_days'', \<lparr>sp_type = ST_Int, sp_default = JInt 30\<rparr>),
      (''schedule.discover_cron'', \<lparr>sp_type = ST_Str, sp_default = JStr ''0 */6 * * *''\<rparr>),
      (''schedule.download_cron'', \<lparr>sp_type = ST_Str, sp_default = JStr ''0 */6 * * *''\<rparr>),
      (''schedule.integrity_cron'', \<lparr>sp_type = ST_Str, sp_default = JStr ''0 3 * * *''\<rparr>),
      (''integrity.rescan_timeout_sec'', \<lparr>sp_type = ST_Int, sp_default = JInt 600\<rparr>),
      (''integrity.max_candidates_per_source_id'', \<lparr>sp_type = ST_Int, sp_default = JInt 5\<rparr>),
      (''format.probe_min_interval_sec'', \<lparr>sp_type = ST_Int, sp_default = JInt 10\<rparr>),
      (''retention.max_delete_per_run'', \<lparr>sp_type = ST_Int, sp_default = JInt 20\<rparr>),
      (''retention.dryrun_ttl_sec'', \<lparr>sp_type = ST_Int, sp_default = JInt 300\<rparr>),
      (''schedule.jitter_minutes'', \<lparr>sp_type = ST_Int, sp_default = JInt 5\<rparr>),
      (''schedule.download_window'', \<lparr>sp_type = ST_Str, sp_default = JNull\<rparr>),
      (''ytdlp.update_cron'', \<lparr>sp_type = ST_Str, sp_default = JStr ''0 4 * * 0''\<rparr>),
      (''ytdlp.smoketest_url'', \<lparr>sp_type = ST_Str, sp_default = JStr ''https://download.blender.org/peach/trailer/trailer_1080p.mov''\<rparr>),
      (''download.item_concurrency'', \<lparr>sp_type = ST_Int, sp_default = JInt 1\<rparr>),
      (''download.concurrent_fragments'', \<lparr>sp_type = ST_Int, sp_default = JInt 3\<rparr>),
      (''download.sleep_requests'', \<lparr>sp_type = ST_Float, sp_default = JFloat (3 / 2)\<rparr>),
      (''download.sleep_interval'', \<lparr>sp_type = ST_Int, sp_default = JInt 3\<rparr>),
      (''download.max_sleep_interval'', \<lparr>sp_type = ST_Int, sp_default = JInt 12\<rparr>),
      (''download.limit_rate'', \<lparr>sp_type = ST_Str, sp_default = JStr ''8M''\<rparr>),
      (''download.retries'', \<lparr>sp_type = ST_Int, sp_default = JInt 5\<rparr>),
      (''download.fragment_retries'', \<lparr>sp_type = ST_Int, sp_default = JInt 10\<rparr>),
      (''download.trim_filenames'', \<lparr>sp_type = ST_Int, sp_default = JInt 180\<rparr>),
      (''defaults.video.format_selector'', \<lparr>sp_type = ST_Str, sp_default = JStr ''bv*[height<=1080]+ba/b[height<=1080]/b''\<rparr>),
      (''defaults.video.container'', \<lparr>sp_type = ST_Str, sp_default = JStr ''mkv''\<rparr>),
      (''defaults.video.audio_extract'', \<lparr>sp_type = ST_Bool, sp_default = JBool False\<rparr>),
      (''defaults.video.embed_metadata'', \<lparr>sp_type = ST_Bool, sp_default = JBool True\<rparr>),
      (''defaults.video.embed_thumbnail'', \<lparr>sp_type = ST_Bool, sp_default = JBool True\<rparr>),
      (''defaults.video.embed_chapters'', \<lparr>sp_type = ST_Bool, sp_default = JBool True\<rparr>),
      (''defaults.video.subtitle_langs'', \<lparr>sp_type = ST_Str, sp_default = JStr ''ja,en''\<rparr>),
      (''defaults.video.subtitle_auto'', \<lparr>sp_type = ST_Bool, sp_default = JBool False\<rparr>),
      (''defaults.video.subtitle_embed'', \<lparr>sp_type = ST_Bool, sp_default = JBool True\<rparr>),
      (''defaults.music.format_selector'', \<lparr>sp_type = ST_Str, sp_default = JStr ''bestaudio/best''\<rparr>),
      (''defaults.music.audio_extract'', \<lparr>sp_type = ST_Bool, sp_default = JBool True\<rparr>),
      (''defaults.music.audio_format'', \<lparr>sp_type = ST_Str, sp_default = JStr ''opus''\<rparr>),
      (''defaults.music.audio_quality'', \<lparr>sp_type = ST_Str, sp_default = JStr ''0''\<rparr>),
      (''defaults.music.embed_metadata'', \<lparr>sp_type = ST_Bool, sp_default = JBool True\<rparr>),
      (''defaults.music.embed_thumbnail'', \<lparr>sp_type = ST_Bool, sp_default = JBool True\<rparr>),
      (''defaults.music.parse_metadata'', \<lparr>sp_type = ST_List, sp_default = JArr [JStr ''playlist_index:%(track_number)s'', JStr ''playlist_title:%(album)s'', JStr ''uploader:%(artist)s'', JStr ''upload_date:%(release_date)s'']\<rparr>),
      (''retry.max_attempts'', \<lparr>sp_type = ST_Int, sp_default = JInt 5\<rparr>),
      (''ytdlp.auto_install'', \<lparr>sp_type = ST_Bool, sp_default = JBool True\<rparr>),
      (''ytdlp.keep_versions'', \<lparr>sp_type = ST_Int, sp_default = JInt 3\<rparr>),
      (''ytdlp.idle_timeout_sec'', \<lparr>sp_type = ST_Int, sp_default = JInt 300\<rparr>),
      (''ytdlp.absolute_timeout_sec'', \<lparr>sp_type = ST_Int, sp_default = JInt 21600\<rparr>),
      (''ytdlp.discover_timeout_sec'', \<lparr>sp_type = ST_Int, sp_default = JInt 300\<rparr>),
      (''ytdlp.term_grace_sec'', \<lparr>sp_type = ST_Int, sp_default = JInt 10\<rparr>),
      (''ytdlp.stderr_tail_kb'', \<lparr>sp_type = ST_Int, sp_default = JInt 64\<rparr>),
      (''storage.free_space_warn_bytes'', \<lparr>sp_type = ST_Int, sp_default = JInt 10737418240\<rparr>),
      (''storage.free_space_stop_bytes'', \<lparr>sp_type = ST_Int, sp_default = JInt 2147483648\<rparr>),
      (''storage.idle_timeout_sec'', \<lparr>sp_type = ST_Int, sp_default = JInt 300\<rparr>),
      (''storage.absolute_timeout_sec'', \<lparr>sp_type = ST_Int, sp_default = JInt 21600\<rparr>),
      (''storage.test_timeout_sec'', \<lparr>sp_type = ST_Int, sp_default = JInt 30\<rparr>),
      (''storage.rclone_retries'', \<lparr>sp_type = ST_Int, sp_default = JInt 1\<rparr>),
      (''pipeline.verify_timeout_sec'', \<lparr>sp_type = ST_Int, sp_default = JInt 60\<rparr>),
      (''sync.max_targets_per_run'', \<lparr>sp_type = ST_Int, sp_default = JInt 50\<rparr>),
      (''sync.delete_staging_after_index'', \<lparr>sp_type = ST_Bool, sp_default = JBool True\<rparr>),
      (''worker.poll_interval_sec'', \<lparr>sp_type = ST_Float, sp_default = JInt 3\<rparr>),
      (''worker.poll_jitter_sec'', \<lparr>sp_type = ST_Float, sp_default = JInt 1\<rparr>),
      (''worker.heartbeat_interval_sec'', \<lparr>sp_type = ST_Float, sp_default = JInt 30\<rparr>),
      (''worker.stale_threshold_sec'', \<lparr>sp_type = ST_Float, sp_default = JInt 180\<rparr>),
      (''worker.retry_base_sec'', \<lparr>sp_type = ST_Float, sp_default = JInt 60\<rparr>),
      (''worker.retry_max_sec'', \<lparr>sp_type = ST_Float, sp_default = JInt 3600\<rparr>),
      (''worker.max_attempts'', \<lparr>sp_type = ST_Int, sp_default = JInt 5\<rparr>),
      (''worker.blocked_retry_sec'', \<lparr>sp_type = ST_Float, sp_default = JInt 300\<rparr>),
      (''worker.blocked_retry_403_sec'', \<lparr>sp_type = ST_Float, sp_default = JInt 3600\<rparr>),
      (''worker.progress_write_interval_sec'', \<lparr>sp_type = ST_Float, sp_default = JInt 2\<rparr>),
      (''worker.progress_write_percent_step'', \<lparr>sp_type = ST_Float, sp_default = JInt 5\<rparr>),
      (''worker.shutdown_grace_sec'', \<lparr>sp_type = ST_Float, sp_default = JInt 20\<rparr>),
      (''worker.enable_test_tasks'', \<lparr>sp_type = ST_Bool, sp_default = JBool False\<rparr>)]"

record settings_env =
  se_json_loads :: "string \<Rightarrow> json option"
  se_repr :: "json \<Rightarrow> string"
  se_cron :: "string option \<Rightarrow> exn option"
  se_brackets_ok :: "string \<Rightarrow> bool"

section \<open>The setting table\<close>

record setting =
  sg_value_json :: json
  sg_updated_at :: instant

type_synonym setting_table = "(string \<times> setting) list"

definition store_override :: "setting_table \<Rightarrow> string \<Rightarrow> json \<Rightarrow> instant \<Rightarrow> setting_table" where
  "store_override t key v now = AList.update key \<lparr>sg_value_json = v, sg_updated_at = now\<rparr> t"

definition delete_override :: "setting_table \<Rightarrow> string \<Rightarrow> setting_table" where
  "delete_override t key = AList.delete key t"

section \<open>Conversion and validation\<close>

definition trunc_rat :: "rat \<Rightarrow> int" where
  "trunc_rat x = (if 0 \<le> x then \<lfloor>x\<rfloor> else \<lceil>x\<rceil>)"

definition cast_bool :: "json \<Rightarrow> exn + json" where
  "cast_bool raw = (case raw of
       JBool b \<Rightarrow> Inr raw
     | JStr s \<Rightarrow>
         if lower (strip s) \<in> {''1'', ''true'', ''yes'', ''on''} then Inr (JBool True)
         else if lower (strip s) \<in> {''0'', ''false'', ''no'', ''off''} then Inr (JBool False)
         else Inl ValueError
     | _ \<Rightarrow> Inl ValueError)"

definition is_json_str :: "json \<Rightarrow> bool" where
  "is_json_str v = (case v of JStr _ \<Rightarrow> True | _ \<Rightarrow> False)"

definition cast_list :: "settings_env \<Rightarrow> json \<Rightarrow> exn + json" where
  "cast_list env raw =
     (case (case raw of JStr s \<Rightarrow> se_json_loads env s | _ \<Rightarrow> Some raw) of
        Some (JArr vs) \<Rightarrow> if list_all is_json_str vs then Inr (JArr vs) else Inl ValueError
      | _ \<Rightarrow> Inl ValueError)"

definition cast_int :: "json \<Rightarrow> exn + json" where
  "cast_int raw = (case raw of
       JInt i \<Rightarrow> Inr (JInt i)
     | JBool b \<Rightarrow> Inr (JInt (if b then 1 else 0))
     | JFloat x \<Rightarrow> Inr (JInt (trunc_rat x))
     | JStr s \<Rightarrow> (case py_int s of None \<Rightarrow> Inl ValueError | Some i \<Rightarrow> Inr (JInt i))
     | _ \<Rightarrow> Inl TypeError)"

definition cast_float :: "json \<Rightarrow> exn + json" where
  "cast_float raw = (case raw of
       JFloat x \<Rightarrow> Inr (JFloat x)
     | JInt i \<Rightarrow> if double_bound \<le> \<bar>of_int i\<bar> then Inl OverflowError else Inr (JFloat (of_int i))
     | JBool b \<Rightarrow> Inr (JFloat (if b then 1 else 0))
     | JStr s \<Rightarrow> (case py_float s of Some (Some x) \<Rightarrow> Inr (JFloat x) | _ \<Rightarrow> Inl ValueError)
     | _ \<Rightarrow> Inl TypeError)"

definition py_str :: "settings_env \<Rightarrow> json \<Rightarrow> string" where
  "py_str env v = (case v of
       JStr s \<Rightarrow> s
     | JInt i \<Rightarrow> int_str i
     | JBool b \<Rightarrow> if b then ''True'' else ''False''
     | JNull \<Rightarrow> ''None''
     | _ \<Rightarrow> se_repr env v)"

definition cast :: "settings_env \<Rightarrow> setting_type \<Rightarrow> json \<Rightarrow> exn + json" where
  "cast env ty raw =
     (if raw = JNull then Inr JNull
      else case ty of
        ST_Bool \<Rightarrow> cast_bool raw
      | ST_List \<Rightarrow> cast_list env raw
      | ST_Int \<Rightarrow> cast_int raw
      | ST_Float \<Rightarrow> cast_float raw
      | ST_Str \<Rightarrow> Inr (JStr (py_str env raw)))"

definition get_setting :: "settings_env \<Rightarrow> setting_table \<Rightarrow> string \<Rightarrow> exn + json" where
  "get_setting env t key =
     (case map_of code_defaults key of
        None \<Rightarrow> Inl KeyError
      | Some spec \<Rightarrow>
          (case map_of t key of
             None \<Rightarrow> Inr (sp_default spec)
           | Some row \<Rightarrow> cast env (sp_type spec) (sg_value_json row)))"

definition is_overridden :: "setting_table \<Rightarrow> string \<Rightarrow> exn + bool" where
  "is_overridden t key =
     (if map_of code_defaults key = None then Inl KeyError else Inr (map_of t key \<noteq> None))"

definition json_str :: "json \<Rightarrow> string option" where
  "json_str v = (case v of JStr s \<Rightarrow> Some s | _ \<Rightarrow> None)"

definition cron_keys :: "string list" where
  "cron_keys = [''schedule.discover_cron'', ''schedule.download_cron'',
     ''schedule.integrity_cron'', ''ytdlp.update_cron'']"

definition positive_keys :: "string list" where
  "positive_keys = [''integrity.rescan_timeout_sec'', ''integrity.max_candidates_per_source_id'',
     ''format.probe_min_interval_sec'', ''retention.max_delete_per_run'',
     ''retention.dryrun_ttl_sec'', ''download.item_concurrency'', ''log.retention_days'']"

text \<open>Comparing \<open>None\<close> with a number raises \<open>TypeError\<close>, a method of \<open>None\<close> \<open>AttributeError\<close>.\<close>

definition check_minimum :: "int \<Rightarrow> json \<Rightarrow> exn option" where
  "check_minimum low v = (case v of JInt i \<Rightarrow> if i < low then Some ValueError else None | _ \<Rightarrow> Some TypeError)"

definition check_cron :: "settings_env \<Rightarrow> string \<Rightarrow> json \<Rightarrow> exn option" where
  "check_cron env key v =
     (if key = ''ytdlp.update_cron'' \<and> json_str v = None then Some AttributeError
      else if key = ''ytdlp.update_cron'' \<and> strip (the (json_str v)) = [] then None
      else (case se_cron env (json_str v) of
              None \<Rightarrow> None | Some e \<Rightarrow> Some (if is_value_error e then ValueError else e)))"

definition check_url :: "settings_env \<Rightarrow> json \<Rightarrow> exn option" where
  "check_url env v =
     (case json_str v of
        None \<Rightarrow> Some OptionValidationError
      | Some s \<Rightarrow> (case validate_source_url (se_brackets_ok env) s of Inl e \<Rightarrow> Some e | Inr _ \<Rightarrow> None))"

definition check_window :: "json \<Rightarrow> exn option" where
  "check_window v = (case parse_download_window (json_str v) of Inl e \<Rightarrow> Some e | Inr _ \<Rightarrow> None)"

definition check_override :: "settings_env \<Rightarrow> string \<Rightarrow> json \<Rightarrow> exn option" where
  "check_override env key v =
     (if key = ''ytdlp.smoketest_url'' then check_url env v
      else if key \<in> set cron_keys then check_cron env key v
      else if key = ''schedule.download_window'' then check_window v
      else if key = ''schedule.jitter_minutes'' then check_minimum 0 v
      else if key \<in> set positive_keys then check_minimum 1 v
      else None)"

definition validate_override :: "settings_env \<Rightarrow> string \<Rightarrow> json \<Rightarrow> exn + json" where
  "validate_override env key v =
     (case map_of code_defaults key of
        None \<Rightarrow> Inl KeyError
      | Some spec \<Rightarrow>
          (case cast env (sp_type spec) v of
             Inl e \<Rightarrow> Inl e
           | Inr casted \<Rightarrow>
               (case check_override env key casted of Some e \<Rightarrow> Inl e | None \<Rightarrow> Inr casted)))"

definition set_override :: "settings_env \<Rightarrow> setting_table \<Rightarrow> string \<Rightarrow> json \<Rightarrow> instant \<Rightarrow> exn + setting_table" where
  "set_override env t key v now =
     (case validate_override env key v of
        Inl e \<Rightarrow> Inl e | Inr casted \<Rightarrow> Inr (store_override t key casted now))"

definition unset_override :: "setting_table \<Rightarrow> string \<Rightarrow> exn + setting_table" where
  "unset_override t key =
     (if map_of code_defaults key = None then Inl KeyError else Inr (delete_override t key))"

record setting_list_entry =
  sl_key :: string
  sl_value :: json
  sl_is_override :: bool

definition list_all_settings :: "settings_env \<Rightarrow> setting_table \<Rightarrow> exn + setting_list_entry list" where
  "list_all_settings env t =
     map_results (\<lambda>key.
       case get_setting env t key of
         Inl e \<Rightarrow> Inl e
       | Inr v \<Rightarrow> (case is_overridden t key of
            Inl e \<Rightarrow> Inl e
          | Inr b \<Rightarrow> Inr \<lparr>sl_key = key, sl_value = v, sl_is_override = b\<rparr>))
       (map fst code_defaults)"

section \<open>Accessors\<close>

definition auth_session_max_age_sec :: "settings_env \<Rightarrow> setting_table \<Rightarrow> exn + json" where
  "auth_session_max_age_sec env t = get_setting env t ''auth.session_max_age_sec''"

definition auth_max_login_attempts :: "settings_env \<Rightarrow> setting_table \<Rightarrow> exn + json" where
  "auth_max_login_attempts env t = get_setting env t ''auth.max_login_attempts''"

definition auth_lockout_sec :: "settings_env \<Rightarrow> setting_table \<Rightarrow> exn + json" where
  "auth_lockout_sec env t = get_setting env t ''auth.lockout_sec''"

definition staging_warn_pct :: "settings_env \<Rightarrow> setting_table \<Rightarrow> exn + json" where
  "staging_warn_pct env t = get_setting env t ''staging.warn_pct''"

definition staging_stop_pct :: "settings_env \<Rightarrow> setting_table \<Rightarrow> exn + json" where
  "staging_stop_pct env t = get_setting env t ''staging.stop_pct''"

definition log_retention_days :: "settings_env \<Rightarrow> setting_table \<Rightarrow> exn + json" where
  "log_retention_days env t = get_setting env t ''log.retention_days''"

definition schedule_discover_cron :: "settings_env \<Rightarrow> setting_table \<Rightarrow> exn + json" where
  "schedule_discover_cron env t = get_setting env t ''schedule.discover_cron''"

definition schedule_download_cron :: "settings_env \<Rightarrow> setting_table \<Rightarrow> exn + json" where
  "schedule_download_cron env t = get_setting env t ''schedule.download_cron''"

definition schedule_integrity_cron :: "settings_env \<Rightarrow> setting_table \<Rightarrow> exn + json" where
  "schedule_integrity_cron env t = get_setting env t ''schedule.integrity_cron''"

definition integrity_rescan_timeout_sec :: "settings_env \<Rightarrow> setting_table \<Rightarrow> exn + json" where
  "integrity_rescan_timeout_sec env t = get_setting env t ''integrity.rescan_timeout_sec''"

definition integrity_max_candidates_per_source_id :: "settings_env \<Rightarrow> setting_table \<Rightarrow> exn + json" where
  "integrity_max_candidates_per_source_id env t = get_setting env t ''integrity.max_candidates_per_source_id''"

definition format_probe_min_interval_sec :: "settings_env \<Rightarrow> setting_table \<Rightarrow> exn + json" where
  "format_probe_min_interval_sec env t = get_setting env t ''format.probe_min_interval_sec''"

definition retention_max_delete_per_run :: "settings_env \<Rightarrow> setting_table \<Rightarrow> exn + json" where
  "retention_max_delete_per_run env t = get_setting env t ''retention.max_delete_per_run''"

definition retention_dryrun_ttl_sec :: "settings_env \<Rightarrow> setting_table \<Rightarrow> exn + json" where
  "retention_dryrun_ttl_sec env t = get_setting env t ''retention.dryrun_ttl_sec''"

definition schedule_jitter_minutes :: "settings_env \<Rightarrow> setting_table \<Rightarrow> exn + json" where
  "schedule_jitter_minutes env t = get_setting env t ''schedule.jitter_minutes''"

definition schedule_download_window :: "settings_env \<Rightarrow> setting_table \<Rightarrow> exn + json" where
  "schedule_download_window env t = get_setting env t ''schedule.download_window''"

definition ytdlp_update_cron :: "settings_env \<Rightarrow> setting_table \<Rightarrow> exn + json" where
  "ytdlp_update_cron env t = get_setting env t ''ytdlp.update_cron''"

definition ytdlp_smoketest_url :: "settings_env \<Rightarrow> setting_table \<Rightarrow> exn + json" where
  "ytdlp_smoketest_url env t = get_setting env t ''ytdlp.smoketest_url''"

definition download_item_concurrency :: "settings_env \<Rightarrow> setting_table \<Rightarrow> exn + json" where
  "download_item_concurrency env t = get_setting env t ''download.item_concurrency''"

definition download_concurrent_fragments :: "settings_env \<Rightarrow> setting_table \<Rightarrow> exn + json" where
  "download_concurrent_fragments env t = get_setting env t ''download.concurrent_fragments''"

definition download_sleep_requests :: "settings_env \<Rightarrow> setting_table \<Rightarrow> exn + json" where
  "download_sleep_requests env t = get_setting env t ''download.sleep_requests''"

definition download_sleep_interval :: "settings_env \<Rightarrow> setting_table \<Rightarrow> exn + json" where
  "download_sleep_interval env t = get_setting env t ''download.sleep_interval''"

definition download_max_sleep_interval :: "settings_env \<Rightarrow> setting_table \<Rightarrow> exn + json" where
  "download_max_sleep_interval env t = get_setting env t ''download.max_sleep_interval''"

definition download_limit_rate :: "settings_env \<Rightarrow> setting_table \<Rightarrow> exn + json" where
  "download_limit_rate env t = get_setting env t ''download.limit_rate''"

definition download_retries :: "settings_env \<Rightarrow> setting_table \<Rightarrow> exn + json" where
  "download_retries env t = get_setting env t ''download.retries''"

definition download_fragment_retries :: "settings_env \<Rightarrow> setting_table \<Rightarrow> exn + json" where
  "download_fragment_retries env t = get_setting env t ''download.fragment_retries''"

definition retry_max_attempts :: "settings_env \<Rightarrow> setting_table \<Rightarrow> exn + json" where
  "retry_max_attempts env t = get_setting env t ''retry.max_attempts''"

definition ytdlp_auto_install :: "settings_env \<Rightarrow> setting_table \<Rightarrow> exn + json" where
  "ytdlp_auto_install env t = get_setting env t ''ytdlp.auto_install''"

definition ytdlp_keep_versions :: "settings_env \<Rightarrow> setting_table \<Rightarrow> exn + json" where
  "ytdlp_keep_versions env t = get_setting env t ''ytdlp.keep_versions''"

definition ytdlp_idle_timeout_sec :: "settings_env \<Rightarrow> setting_table \<Rightarrow> exn + json" where
  "ytdlp_idle_timeout_sec env t = get_setting env t ''ytdlp.idle_timeout_sec''"

definition ytdlp_absolute_timeout_sec :: "settings_env \<Rightarrow> setting_table \<Rightarrow> exn + json" where
  "ytdlp_absolute_timeout_sec env t = get_setting env t ''ytdlp.absolute_timeout_sec''"

definition ytdlp_discover_timeout_sec :: "settings_env \<Rightarrow> setting_table \<Rightarrow> exn + json" where
  "ytdlp_discover_timeout_sec env t = get_setting env t ''ytdlp.discover_timeout_sec''"

definition ytdlp_term_grace_sec :: "settings_env \<Rightarrow> setting_table \<Rightarrow> exn + json" where
  "ytdlp_term_grace_sec env t = get_setting env t ''ytdlp.term_grace_sec''"

definition ytdlp_stderr_tail_kb :: "settings_env \<Rightarrow> setting_table \<Rightarrow> exn + json" where
  "ytdlp_stderr_tail_kb env t = get_setting env t ''ytdlp.stderr_tail_kb''"

definition storage_free_space_warn_bytes :: "settings_env \<Rightarrow> setting_table \<Rightarrow> exn + json" where
  "storage_free_space_warn_bytes env t = get_setting env t ''storage.free_space_warn_bytes''"

definition storage_free_space_stop_bytes :: "settings_env \<Rightarrow> setting_table \<Rightarrow> exn + json" where
  "storage_free_space_stop_bytes env t = get_setting env t ''storage.free_space_stop_bytes''"

definition storage_idle_timeout_sec :: "settings_env \<Rightarrow> setting_table \<Rightarrow> exn + json" where
  "storage_idle_timeout_sec env t = get_setting env t ''storage.idle_timeout_sec''"

definition storage_absolute_timeout_sec :: "settings_env \<Rightarrow> setting_table \<Rightarrow> exn + json" where
  "storage_absolute_timeout_sec env t = get_setting env t ''storage.absolute_timeout_sec''"

definition storage_test_timeout_sec :: "settings_env \<Rightarrow> setting_table \<Rightarrow> exn + json" where
  "storage_test_timeout_sec env t = get_setting env t ''storage.test_timeout_sec''"

definition storage_rclone_retries :: "settings_env \<Rightarrow> setting_table \<Rightarrow> exn + json" where
  "storage_rclone_retries env t = get_setting env t ''storage.rclone_retries''"

definition pipeline_verify_timeout_sec :: "settings_env \<Rightarrow> setting_table \<Rightarrow> exn + json" where
  "pipeline_verify_timeout_sec env t = get_setting env t ''pipeline.verify_timeout_sec''"

definition sync_max_targets_per_run :: "settings_env \<Rightarrow> setting_table \<Rightarrow> exn + json" where
  "sync_max_targets_per_run env t = get_setting env t ''sync.max_targets_per_run''"

definition sync_delete_staging_after_index :: "settings_env \<Rightarrow> setting_table \<Rightarrow> exn + json" where
  "sync_delete_staging_after_index env t = get_setting env t ''sync.delete_staging_after_index''"

definition worker_poll_interval_sec :: "settings_env \<Rightarrow> setting_table \<Rightarrow> exn + json" where
  "worker_poll_interval_sec env t = get_setting env t ''worker.poll_interval_sec''"

definition worker_poll_jitter_sec :: "settings_env \<Rightarrow> setting_table \<Rightarrow> exn + json" where
  "worker_poll_jitter_sec env t = get_setting env t ''worker.poll_jitter_sec''"

definition worker_heartbeat_interval_sec :: "settings_env \<Rightarrow> setting_table \<Rightarrow> exn + json" where
  "worker_heartbeat_interval_sec env t = get_setting env t ''worker.heartbeat_interval_sec''"

definition worker_stale_threshold_sec :: "settings_env \<Rightarrow> setting_table \<Rightarrow> exn + json" where
  "worker_stale_threshold_sec env t = get_setting env t ''worker.stale_threshold_sec''"

definition worker_retry_base_sec :: "settings_env \<Rightarrow> setting_table \<Rightarrow> exn + json" where
  "worker_retry_base_sec env t = get_setting env t ''worker.retry_base_sec''"

definition worker_retry_max_sec :: "settings_env \<Rightarrow> setting_table \<Rightarrow> exn + json" where
  "worker_retry_max_sec env t = get_setting env t ''worker.retry_max_sec''"

definition worker_max_attempts :: "settings_env \<Rightarrow> setting_table \<Rightarrow> exn + json" where
  "worker_max_attempts env t = get_setting env t ''worker.max_attempts''"

definition worker_blocked_retry_sec :: "settings_env \<Rightarrow> setting_table \<Rightarrow> exn + json" where
  "worker_blocked_retry_sec env t = get_setting env t ''worker.blocked_retry_sec''"

definition worker_blocked_retry_403_sec :: "settings_env \<Rightarrow> setting_table \<Rightarrow> exn + json" where
  "worker_blocked_retry_403_sec env t = get_setting env t ''worker.blocked_retry_403_sec''"

definition worker_progress_write_interval_sec :: "settings_env \<Rightarrow> setting_table \<Rightarrow> exn + json" where
  "worker_progress_write_interval_sec env t = get_setting env t ''worker.progress_write_interval_sec''"

definition worker_progress_write_percent_step :: "settings_env \<Rightarrow> setting_table \<Rightarrow> exn + json" where
  "worker_progress_write_percent_step env t = get_setting env t ''worker.progress_write_percent_step''"

definition worker_shutdown_grace_sec :: "settings_env \<Rightarrow> setting_table \<Rightarrow> exn + json" where
  "worker_shutdown_grace_sec env t = get_setting env t ''worker.shutdown_grace_sec''"

definition worker_enable_test_tasks :: "settings_env \<Rightarrow> setting_table \<Rightarrow> exn + json" where
  "worker_enable_test_tasks env t = get_setting env t ''worker.enable_test_tasks''"

end
