(* ===== verification/Naming.thy ===== *)
theory Naming
  imports Storage_Base
begin

text \<open>
  Directory names from user input, \<open>src/sluicery/core/naming.py\<close>, and the layouts that turn a
  playlist, a profile and a template into an output path, \<open>src/sluicery/layout/\<close>. On the code
  points modelled NFC normalisation is the identity. The values of replacement fields other than
  the four documented ones (conversions, format specifications, other attributes) are a parameter.
\<close>

section \<open>Components\<close>

definition windows_reserved_names :: "string list" where
  "windows_reserved_names = [''CON'', ''PRN'', ''AUX'', ''NUL'',
     ''COM1'', ''COM2'', ''COM3'', ''COM4'', ''COM5'', ''COM6'', ''COM7'', ''COM8'', ''COM9'',
     ''LPT1'', ''LPT2'', ''LPT3'', ''LPT4'', ''LPT5'', ''LPT6'', ''LPT7'', ''LPT8'', ''LPT9'']"

definition forbidden_char :: "char \<Rightarrow> bool" where
  "forbidden_char c \<longleftrightarrow> c \<in> {CHR 0x5C, CHR ''/'', CHR '':'', CHR ''*'', CHR ''?'', CHR 0x22,
     CHR ''<'', CHR ''>'', CHR ''|''}"

definition control_char :: "char \<Rightarrow> bool" where
  "control_char c \<longleftrightarrow> code c \<le> 31 \<or> code c = 127"

definition space_or_dot :: "char \<Rightarrow> bool" where
  "space_or_dot c \<longleftrightarrow> c = CHR '' '' \<or> c = CHR ''.''"

definition upper_char :: "char \<Rightarrow> char" where
  "upper_char c = (if 97 \<le> code c \<and> code c \<le> 122 then char_of (code c - 32) else c)"

definition reserved_stem :: "string \<Rightarrow> bool" where
  "reserved_stem s \<longleftrightarrow> map upper_char (fst (partition_at (CHR ''.'') s)) \<in> set windows_reserved_names"

definition sanitize_component :: "string \<Rightarrow> exn + string" where
  "sanitize_component v =
     (let without_controls = filter (\<lambda>c. \<not> control_char c) v;
          replaced = map (\<lambda>c. if forbidden_char c then CHR ''_'' else c) without_controls;
          n = rstrip_where space_or_dot replaced
      in if n = [] \<or> n = ''.'' \<or> n = ''..'' then Inl NamingValidationError
         else if reserved_stem n then Inr (CHR ''_'' # n) else Inr n)"

section \<open>Relative paths\<close>

definition is_slash :: "char \<Rightarrow> bool" where
  "is_slash c \<longleftrightarrow> c = CHR ''/'' \<or> c = CHR 0x5C"

fun windows_drive :: "string \<Rightarrow> bool" where
  "windows_drive (c # d # _) \<longleftrightarrow> is_alpha c \<and> d = CHR '':''"
| "windows_drive _ \<longleftrightarrow> False"

text \<open>
  \<open>PureWindowsPath(s).is_absolute()\<close>: a drive with a root, or a UNC share. After two slashes come
  the server, a slash and the share; a further slash is the root, and without one the share must
  not be empty and the server neither empty nor one of \<open>?\<close> and \<open>.\<close>.
\<close>

definition windows_is_absolute :: "string \<Rightarrow> bool" where
  "windows_is_absolute s \<longleftrightarrow>
     (windows_drive s \<and> 3 \<le> length s \<and> is_slash (s ! 2)) \<or>
     (2 \<le> length s \<and> is_slash (s ! 0) \<and> is_slash (s ! 1) \<and>
      (case split_on (CHR ''/'') (replace_char (CHR 0x5C) (CHR ''/'') (drop 2 s)) of
         [server, share] \<Rightarrow> share \<noteq> [] \<and> server \<notin> {[], ''?'', ''.'', ''?.''}
       | server # share # rest # _ \<Rightarrow> True
       | _ \<Rightarrow> False))"

definition name_parts :: "string \<Rightarrow> string list" where
  "name_parts v = split_on (CHR ''/'') (replace_char (CHR 0x5C) (CHR ''/'') v)"

definition validate_relative_name :: "string \<Rightarrow> exn option" where
  "validate_relative_name v =
     (if v = [] \<or> path_is_absolute v \<or> windows_is_absolute v \<or> windows_drive v
      then Some NamingValidationError
      else if list_ex (\<lambda>p. p \<in> {[], ''.'', ''..''}) (name_parts v) then Some NamingValidationError
      else None)"

definition sanitize_relative_path :: "string \<Rightarrow> exn + string" where
  "sanitize_relative_path v =
     (case validate_relative_name v of
        Some e \<Rightarrow> Inl e
      | None \<Rightarrow> (case map_results sanitize_component (name_parts v) of
                  Inl e \<Rightarrow> Inl e | Inr ps \<Rightarrow> Inr (join ''/'' ps)))"

section \<open>Layouts\<close>

record layout_context =
  lc_playlist_name :: string
  lc_playlist_folder_name :: string
  lc_profile_name :: string
  lc_profile_kind :: string
  lc_subpath :: string
  lc_custom_output_template :: "string option"

record resolved_layout =
  rl_subpath :: string
  rl_output_template :: string
  rl_warnings :: "string list"

definition relative_output_template :: "resolved_layout \<Rightarrow> string" where
  "relative_output_template l = rl_subpath l @ ''/'' @ rl_output_template l"

definition video_template :: string where
  "video_template = ''%(upload_date>%Y-%m-%d&{} |)s%(title).120B [%(id)s].%(ext)s''"

definition music_template :: string where
  "music_template = ''%(playlist_index|0)03d %(track,title).120B [%(id)s].%(ext)s''"

definition required_suffix :: string where
  "required_suffix = ''[%(id)s].%(ext)s''"

definition flat_output_template :: "layout_context \<Rightarrow> string" where
  "flat_output_template ctx = (if lc_profile_kind ctx = ''music'' then music_template else video_template)"

definition flat_valid :: "layout_context \<Rightarrow> bool" where
  "flat_valid ctx \<longleftrightarrow> lc_profile_kind ctx \<in> {''video'', ''music''}"

definition custom_output_template :: "layout_context \<Rightarrow> string" where
  "custom_output_template ctx = (case lc_custom_output_template ctx of None \<Rightarrow> [] | Some t \<Rightarrow> t)"

definition custom_valid :: "layout_context \<Rightarrow> bool" where
  "custom_valid ctx \<longleftrightarrow>
     (case lc_custom_output_template ctx of
        None \<Rightarrow> False
      | Some t \<Rightarrow> t \<noteq> [] \<and> \<not> (path_is_absolute t \<or> windows_is_absolute t) \<and>
          ''..'' \<notin> set (name_parts t) \<and>
          ends_with required_suffix (replace_char (CHR 0x5C) (CHR ''/'') t))"

definition msg_custom_separator :: string where
  "msg_custom_separator = ''separators in output_template are relative to --paths home''"

definition custom_warnings :: "layout_context \<Rightarrow> string list" where
  "custom_warnings ctx =
     (if list_ex is_slash (custom_output_template ctx) then [msg_custom_separator] else [])"

subsection \<open>The subpath template\<close>

text \<open>
  \<open>str.format\<close>'s reading of a template: doubled braces are literal, a single closing brace and a
  field without its closing brace raise \<open>ValueError\<close>, and a field ends at the matching brace.
\<close>

datatype piece = Literal char | Field string

fun field_text :: "nat \<Rightarrow> string \<Rightarrow> (string \<times> string) option" where
  "field_text n [] = None"
| "field_text n (c # s) =
     (if c = CHR ''}'' then
        (case n of 0 \<Rightarrow> Some ([], s)
         | Suc m \<Rightarrow> map_option (\<lambda>(f, r). (c # f, r)) (field_text m s))
      else if c = CHR ''{'' then map_option (\<lambda>(f, r). (c # f, r)) (field_text (Suc n) s)
      else map_option (\<lambda>(f, r). (c # f, r)) (field_text n s))"

lemma field_text_shorter: "field_text n s = Some (f, r) \<Longrightarrow> length r < length s"
  by (induction n s arbitrary: f r rule: field_text.induct) (fastforce split: if_splits nat.splits)+

function format_pieces :: "string \<Rightarrow> piece list option" where
  "format_pieces [] = Some []"
| "format_pieces (c # s) =
     (if c = CHR ''{'' then
        (if s \<noteq> [] \<and> hd s = CHR ''{'' then map_option (Cons (Literal c)) (format_pieces (tl s))
         else (case field_text 0 s of
                 None \<Rightarrow> None
               | Some (f, r) \<Rightarrow> map_option (Cons (Field f)) (format_pieces r)))
      else if c = CHR ''}'' then
        (if s \<noteq> [] \<and> hd s = CHR ''}'' then map_option (Cons (Literal c)) (format_pieces (tl s)) else None)
      else map_option (Cons (Literal c)) (format_pieces s))"
  by pat_completeness auto
termination
  by (relation "measure length") (auto dest: field_text_shorter)

definition field_value :: "(string \<Rightarrow> exn + string) \<Rightarrow> layout_context \<Rightarrow> string \<Rightarrow> string \<Rightarrow> exn + string" where
  "field_value other_field ctx folder_name f =
     (if f = ''playlist.name'' then Inr (lc_playlist_name ctx)
      else if f = ''playlist.folder_name'' then Inr folder_name
      else if f = ''profile.name'' then Inr (lc_profile_name ctx)
      else if f = ''profile.kind'' then Inr (lc_profile_kind ctx)
      else other_field f)"

definition expand_template :: "(string \<Rightarrow> exn + string) \<Rightarrow> layout_context \<Rightarrow> string \<Rightarrow> string \<Rightarrow> exn + string" where
  "expand_template other_field ctx folder_name template =
     (case format_pieces template of
        None \<Rightarrow> Inl ValueError
      | Some ps \<Rightarrow>
          (case map_results (\<lambda>p. case p of Literal c \<Rightarrow> Inr [c] | Field f \<Rightarrow> field_value other_field ctx folder_name f) ps of
             Inl e \<Rightarrow> Inl e | Inr parts \<Rightarrow> Inr (concat parts)))"

definition resolve_subpath :: "(string \<Rightarrow> exn + string) \<Rightarrow> string \<Rightarrow> layout_context \<Rightarrow> exn + string" where
  "resolve_subpath other_field template ctx =
     (case sanitize_component (lc_playlist_folder_name ctx) of
        Inl e \<Rightarrow> Inl e
      | Inr folder_name \<Rightarrow>
          (case expand_template other_field ctx folder_name template of
             Inl e \<Rightarrow> Inl (if e = AttributeError \<or> e = KeyError \<or> is_value_error e
                          then LayoutValidationError else e)
           | Inr expanded \<Rightarrow>
               (case sanitize_relative_path expanded of
                  Inl e \<Rightarrow> Inl (if is_value_error e then LayoutValidationError else e)
                | Inr p \<Rightarrow> Inr p)))"

definition resolve_layout :: "(string \<Rightarrow> exn + string) \<Rightarrow> string \<Rightarrow> layout_context \<Rightarrow> exn + resolved_layout" where
  "resolve_layout other_field strategy_name ctx =
     (if strategy_name \<notin> {''flat'', ''custom''} then Inl LayoutValidationError
      else if \<not> (if strategy_name = ''flat'' then flat_valid ctx else custom_valid ctx)
      then Inl LayoutValidationError
      else (case resolve_subpath other_field (lc_subpath ctx) ctx of
              Inl e \<Rightarrow> Inl e
            | Inr subpath \<Rightarrow> Inr
                \<lparr>rl_subpath = subpath,
                 rl_output_template = (if strategy_name = ''flat'' then flat_output_template ctx
                                       else custom_output_template ctx),
                 rl_warnings = (if strategy_name = ''custom'' then custom_warnings ctx else [])\<rparr>))"

section \<open>Sanitised names\<close>

definition clean_component :: "string \<Rightarrow> bool" where
  "clean_component n \<longleftrightarrow> n \<noteq> [] \<and> list_all (\<lambda>c. \<not> forbidden_char c \<and> \<not> control_char c) n \<and>
     \<not> space_or_dot (last n) \<and> \<not> reserved_stem n"

lemma rstrip_where_suffix: "\<exists>r. s = rstrip_where p s @ r \<and> list_all p r"
proof -
  have "rev s = takeWhile p (rev s) @ dropWhile p (rev s)" by simp
  then have "s = rev (dropWhile p (rev s)) @ rev (takeWhile p (rev s))"
    by (metis rev_append rev_rev_ident)
  moreover have "list_all p (rev (takeWhile p (rev s)))"
    by (auto simp: list_all_iff dest: set_takeWhileD)
  ultimately show ?thesis unfolding rstrip_where_def by blast
qed

lemma rstrip_where_last: "rstrip_where p s \<noteq> [] \<Longrightarrow> \<not> p (last (rstrip_where p s))"
  by (simp add: rstrip_where_def last_rev hd_dropWhile)

lemma rstrip_where_set: "set (rstrip_where p s) \<subseteq> set s"
  by (auto simp: rstrip_where_def dest: set_dropWhileD)

lemma rstrip_where_list_all: "list_all q s \<Longrightarrow> list_all q (rstrip_where p s)"
  using rstrip_where_set[of p s] unfolding list_all_iff by blast

lemma rstrip_where_id: "s \<noteq> [] \<Longrightarrow> \<not> p (last s) \<Longrightarrow> rstrip_where p s = s"
  by (cases s rule: rev_cases) (simp_all add: rstrip_where_def)

lemma reserved_stem_underscore: "\<not> reserved_stem (CHR ''_'' # n)"
  by (simp add: reserved_stem_def windows_reserved_names_def upper_char_def code_def split: prod.splits)

lemma sanitize_component_clean:
  assumes "sanitize_component v = Inr n"
  shows "clean_component n"
proof -
  let ?r = "map (\<lambda>c. if forbidden_char c then CHR ''_'' else c) (filter (\<lambda>c. \<not> control_char c) v)"
  let ?n = "rstrip_where space_or_dot ?r"
  have u: "\<not> forbidden_char (CHR ''_'')" "\<not> control_char (CHR ''_'')"
    by (simp_all add: forbidden_char_def control_char_def code_def)
  have r: "list_all (\<lambda>c. \<not> forbidden_char c \<and> \<not> control_char c) ?r"
    unfolding list_all_iff
  proof (rule ballI)
    fix c assume "c \<in> set ?r"
    then obtain x where "\<not> control_char x" "c = (if forbidden_char x then CHR ''_'' else x)"
      unfolding set_map set_filter by blast
    with u show "\<not> forbidden_char c \<and> \<not> control_char c" by (cases "forbidden_char x") simp_all
  qed
  have ok: "list_all (\<lambda>c. \<not> forbidden_char c \<and> \<not> control_char c) ?n"
    by (rule rstrip_where_list_all[OF r])
  have ne: "?n \<noteq> []" using assms by (auto simp: sanitize_component_def Let_def)
  have n: "n = (if reserved_stem ?n then CHR ''_'' # ?n else ?n)"
    using assms by (auto simp: sanitize_component_def Let_def split: if_splits)
  show ?thesis
    using ok ne u rstrip_where_last[OF ne] reserved_stem_underscore[of ?n]
    by (simp add: clean_component_def n)
qed

lemma clean_not_empty: "clean_component n \<Longrightarrow> n \<noteq> []"
  by (simp add: clean_component_def)

lemma clean_not_dots: "clean_component n \<Longrightarrow> n \<noteq> ''.'' \<and> n \<noteq> ''..''"
  by (auto simp: clean_component_def space_or_dot_def)

lemma sanitize_component_id:
  assumes "clean_component n"
  shows "sanitize_component n = Inr n"
proof -
  have "filter (\<lambda>c. \<not> control_char c) n = n"
    using assms by (auto simp: clean_component_def list_all_iff filter_id_conv)
  moreover have "map (\<lambda>c. if forbidden_char c then CHR ''_'' else c) n = n"
    using assms by (auto simp: clean_component_def list_all_iff intro!: map_idI)
  moreover have "rstrip_where space_or_dot n = n"
    using assms by (auto simp: clean_component_def intro: rstrip_where_id)
  ultimately show ?thesis
    using assms clean_not_dots[OF assms] by (simp add: sanitize_component_def Let_def clean_component_def)
qed

lemma clean_no_slash:
  assumes "clean_component n"
  shows "CHR ''/'' \<notin> set n" "CHR 0x5C \<notin> set n" "CHR 0x00 \<notin> set n" "CHR '':'' \<notin> set n"
proof -
  have ok: "c \<in> set n \<Longrightarrow> \<not> forbidden_char c \<and> \<not> control_char c" for c
    using assms unfolding clean_component_def list_all_iff by blast
  have bad: "forbidden_char (CHR ''/'')" "forbidden_char (CHR 0x5C)" "control_char (CHR 0x00)"
    "forbidden_char (CHR '':'')"
    by (simp_all add: forbidden_char_def control_char_def code_def)
  show "CHR ''/'' \<notin> set n" "CHR 0x5C \<notin> set n" "CHR 0x00 \<notin> set n" "CHR '':'' \<notin> set n"
    using ok bad by blast+
qed

lemma clean_parts_safe:
  assumes "list_all clean_component ps" "ps \<noteq> []"
  shows "safe_relative (join ''/'' ps)" "name_parts (join ''/'' ps) = ps"
proof -
  have c: "\<And>q. q \<in> set ps \<Longrightarrow> clean_component q" using assms(1) by (simp add: list_all_iff)
  have "\<forall>q \<in> set ps. q \<noteq> [] \<and> q \<noteq> ''.'' \<and> q \<noteq> ''..'' \<and>
      CHR ''/'' \<notin> set q \<and> CHR 0x5C \<notin> set q \<and> CHR 0x00 \<notin> set q"
    using c clean_not_dots clean_no_slash clean_not_empty by blast
  then show "safe_relative (join ''/'' ps)"
    using assms(2) unfolding safe_relative_def by blast
  have "CHR 0x5C \<notin> set (join ''/'' ps)"
    using set_join[of "''/''" ps] c clean_no_slash(2) by auto
  then show "name_parts (join ''/'' ps) = ps"
    using split_on_join[OF assms(2), of "CHR ''/''"] c clean_no_slash(1)
    by (simp add: name_parts_def replace_char_id)
qed

lemma clean_parts_relative:
  assumes "list_all clean_component ps" "ps \<noteq> []"
  shows "validate_relative_name (join ''/'' ps) = None"
proof -
  let ?p = "join ''/'' ps"
  have np: "name_parts ?p = ps" using clean_parts_safe(2)[OF assms] .
  have c: "\<And>q. q \<in> set ps \<Longrightarrow> clean_component q" using assms(1) by (simp add: list_all_iff)
  obtain q qs where q: "ps = q # qs" using assms(2) by (cases ps) auto
  then obtain x r where x: "q = x # r" using c[of q] by (cases q) (auto simp: clean_component_def)
  have p: "\<exists>r'. ?p = x # r'" using q x by (cases qs) auto
  have "\<not> is_slash x" "x \<noteq> CHR '':''"
    using clean_no_slash[OF c[of q]] q x by (auto simp: is_slash_def)
  then have abs: "\<not> path_is_absolute ?p" "?p \<noteq> []"
    using p by (auto simp: path_is_absolute_def starts_with_def is_slash_def)
  have colon: "CHR '':'' \<notin> set ?p"
    using set_join[of "''/''" ps] c clean_no_slash(4) by auto
  have drive: "\<not> windows_drive ?p"
    using colon by (cases "?p" rule: windows_drive.cases) auto
  have "\<not> windows_is_absolute ?p"
    using drive p \<open>\<not> is_slash x\<close> by (auto simp: windows_is_absolute_def)
  moreover have "\<not> list_ex (\<lambda>p. p \<in> {[], ''.'', ''..''}) ps"
    using c clean_not_dots clean_not_empty unfolding list_ex_iff by blast
  ultimately show ?thesis using abs drive by (simp add: validate_relative_name_def np)
qed

lemma sanitize_relative_path_parts:
  assumes "sanitize_relative_path v = Inr p"
  obtains ps where "p = join ''/'' ps" "ps \<noteq> []" "list_all clean_component ps"
proof -
  obtain ps where ps: "map_results sanitize_component (name_parts v) = Inr ps" "p = join ''/'' ps"
    using assms by (auto simp: sanitize_relative_path_def split: option.splits sum.splits)
  then have l: "list_all2 (\<lambda>x y. sanitize_component x = Inr y) (name_parts v) ps"
    by (simp add: map_results_Inr)
  then have "length ps = length (name_parts v)" by (simp add: list_all2_lengthD)
  then have "ps \<noteq> []" by (auto simp: name_parts_def)
  moreover have "list_all clean_component ps"
    using l sanitize_component_clean by (induction rule: list_all2_induct) auto
  ultimately show ?thesis using that ps(2) by blast
qed

lemma sanitize_relative_path_id:
  assumes "list_all clean_component ps" "ps \<noteq> []"
  shows "sanitize_relative_path (join ''/'' ps) = Inr (join ''/'' ps)"
proof -
  have "list_all2 (\<lambda>x y. sanitize_component x = Inr y) ps ps"
    using assms(1) sanitize_component_id by (induction ps) auto
  then show ?thesis
    using clean_parts_relative[OF assms] clean_parts_safe(2)[OF assms]
    by (simp add: sanitize_relative_path_def map_results_Inr[symmetric])
qed

text \<open>
  A sanitised subpath consists of components that are allowed on POSIX, Windows and SMB (no
  forbidden or control character, no trailing space or dot, no reserved device name, no dots), so it
  stays below any root and passes the storage boundary unchanged; sanitising it again changes nothing.
\<close>

theorem sanitize_relative_path_safe:
  assumes "sanitize_relative_path v = Inr p"
  shows "(\<exists>ps. p = join ''/'' ps \<and> ps \<noteq> [] \<and> list_all clean_component ps) \<and>
    sanitize_relative_path p = Inr p \<and> validate_relative_path p e = Inr p"
proof -
  obtain ps where ps: "p = join ''/'' ps" "ps \<noteq> []" "list_all clean_component ps"
    using sanitize_relative_path_parts[OF assms] by blast
  with sanitize_relative_path_id[OF ps(3,2)] validate_idem[OF clean_parts_safe(1)[OF ps(3,2)]]
  show ?thesis by blast
qed

theorem sanitize_relative_path_safe_witness:
  "sanitize_relative_path ''a b:/NUL.x'' = Inr ''a b_/_NUL.x'' \<and>
   validate_relative_path ''a b_/_NUL.x'' False = Inr ''a b_/_NUL.x''"
proof -
  have r: "sanitize_relative_path ''a b:/NUL.x'' = Inr ''a b_/_NUL.x''"
    by code_simp
  from sanitize_relative_path_safe[OF r] r show ?thesis by blast
qed

section \<open>Layouts keep the source id\<close>

lemma resolve_subpath_clean:
  assumes "resolve_subpath other_field template ctx = Inr p"
  shows "\<exists>ps. p = join ''/'' ps \<and> ps \<noteq> [] \<and> list_all clean_component ps"
proof -
  obtain v where v: "sanitize_relative_path v = Inr p"
    using assms by (simp add: resolve_subpath_def split: sum.splits if_splits)
  show ?thesis by (rule sanitize_relative_path_parts[OF v]) blast
qed

lemma ends_with_append: "ends_with q t \<Longrightarrow> ends_with q (s @ t)"
  by (auto simp: ends_with_iff)

lemma ends_with_replaced:
  assumes "ends_with q (replace_char a b t)" "b \<notin> set q"
  shows "ends_with q t"
proof -
  obtain r where r: "replace_char a b t = r @ q" using assms(1) by (auto simp: ends_with_iff)
  then have q: "q = drop (length r) (replace_char a b t)" by simp
  then have q': "q = replace_char a b (drop (length r) t)" by (simp add: replace_char_def drop_map)
  have "a \<notin> set (drop (length r) t)"
    using assms(2) q' by (auto simp: replace_char_def image_iff)
  then have "q = drop (length r) t" using q' by (simp add: replace_char_id)
  then show ?thesis unfolding ends_with_iff by (metis append_take_drop_id)
qed

lemma required_suffix_no_slash: "CHR ''/'' \<notin> set required_suffix"
  by (simp add: required_suffix_def)

lemma flat_templates:
  "ends_with required_suffix video_template" "ends_with required_suffix music_template"
  "''..'' \<notin> set (name_parts video_template)" "''..'' \<notin> set (name_parts music_template)"
  by code_simp+

lemma name_parts_append:
  "name_parts (p @ ''/'' @ t) = name_parts p @ name_parts t"
proof -
  have "split_on c (x @ c # y) = split_on c x @ split_on c y" for c and x y :: string
    by (induction x) (auto split: list.splits)
  then show ?thesis by (simp add: name_parts_def replace_char_def)
qed

lemma resolve_layout_path:
  assumes "resolve_layout other_field strategy ctx = Inr l"
  shows "\<not> path_is_absolute (relative_output_template l) \<and>
    ''..'' \<notin> set (name_parts (relative_output_template l)) \<and>
    ends_with required_suffix (relative_output_template l) \<and>
    sanitize_relative_path (rl_subpath l) = Inr (rl_subpath l)"
proof -
  obtain p where p: "resolve_subpath other_field (lc_subpath ctx) ctx = Inr p" "rl_subpath l = p"
    using assms by (auto simp: resolve_layout_def split: sum.splits if_splits)
  obtain ps where ps: "p = join ''/'' ps" "ps \<noteq> []" "list_all clean_component ps"
    using resolve_subpath_clean[OF p(1)] by blast
  have t: "ends_with required_suffix (rl_output_template l) \<and> ''..'' \<notin> set (name_parts (rl_output_template l))"
  proof (cases "strategy = ''flat''")
    case True
    then show ?thesis
      using assms flat_templates
      by (auto simp: resolve_layout_def flat_output_template_def split: sum.splits if_splits)
  next
    case False
    then have "custom_valid ctx" "rl_output_template l = custom_output_template ctx"
      using assms by (auto simp: resolve_layout_def split: sum.splits if_splits)
    then show ?thesis
      using ends_with_replaced[OF _ required_suffix_no_slash]
      by (auto simp: custom_valid_def custom_output_template_def split: option.splits)
  qed
  have "\<not> path_is_absolute p" "p \<noteq> []"
    using clean_parts_relative[OF ps(3,2)] ps(1) by (auto simp: validate_relative_name_def split: if_splits)
  then have "\<not> path_is_absolute (relative_output_template l)"
    by (cases p) (auto simp: relative_output_template_def path_is_absolute_def starts_with_def p(2))
  moreover have "''..'' \<notin> set (name_parts p)"
    using clean_parts_safe(2)[OF ps(3,2)] ps clean_not_dots by (auto simp: list_all_iff)
  then have "''..'' \<notin> set (name_parts (relative_output_template l))"
    using t by (simp add: relative_output_template_def p(2) name_parts_append[simplified])
  moreover have "ends_with required_suffix (relative_output_template l)"
    using t ends_with_append[of required_suffix "rl_output_template l" "p @ ''/''"]
    by (simp add: relative_output_template_def p(2))
  moreover have "sanitize_relative_path p = Inr p"
    using sanitize_relative_path_id[OF ps(3,2)] ps(1) by simp
  ultimately show ?thesis by (simp add: p(2))
qed


definition sample_context :: layout_context where
  "sample_context = \<lparr>lc_playlist_name = ''Mix'', lc_playlist_folder_name = ''Mix.'', lc_profile_name = ''p'',
     lc_profile_kind = ''music'', lc_subpath = ''{profile.kind}/{playlist.folder_name}'',
     lc_custom_output_template = None\<rparr>"


end
