(* ===== verification/Options.thy ===== *)
theory Options
  imports Settings Naming "HOL-Library.List_Lexorder" "HOL-Library.Char_ord"
begin

text \<open>
  The composition of yt-dlp commands, the second half of \<open>src/sluicery/core/options.py\<close>: structured
  fields resolved over the layers L2 (global), L3 (kind), L4 (profile) and L6 (one-off override),
  guarded free texts of the layers L4 to L6, and the application's own arguments (L1), for the
  discover, format-probe and download commands. Labels in Japanese are ASCII stand-ins.
\<close>

section \<open>Rendering\<close>

definition py_bool :: "json \<Rightarrow> bool" where
  "py_bool v = (case v of
       JNull \<Rightarrow> False | JBool b \<Rightarrow> b | JInt i \<Rightarrow> i \<noteq> 0 | JFloat x \<Rightarrow> x \<noteq> 0
     | JStr s \<Rightarrow> s \<noteq> [] | JArr vs \<Rightarrow> vs \<noteq> [] | JObj d \<Rightarrow> d \<noteq> [])"

text \<open>Iterating over a value: the elements of a list, the characters of a text, the keys of a dictionary.\<close>

definition py_iter :: "json \<Rightarrow> exn + json list" where
  "py_iter v = (case v of
       JArr vs \<Rightarrow> Inr vs
     | JStr s \<Rightarrow> Inr (map (\<lambda>c. JStr [c]) s)
     | JObj d \<Rightarrow> Inr (map (JStr \<circ> fst) d)
     | _ \<Rightarrow> Inl TypeError)"

definition value_arg :: "string \<Rightarrow> settings_env \<Rightarrow> json \<Rightarrow> exn + string list" where
  "value_arg opt env v = Inr [opt, py_str env v]"

definition bool_arg :: "string \<Rightarrow> string \<Rightarrow> settings_env \<Rightarrow> json \<Rightarrow> exn + string list" where
  "bool_arg enabled disabled env v = Inr [if py_bool v then enabled else disabled]"

definition audio_extract_args :: "settings_env \<Rightarrow> json \<Rightarrow> exn + string list" where
  "audio_extract_args env v = Inr (if py_bool v then [''--extract-audio''] else [])"

definition container_args :: "settings_env \<Rightarrow> json \<Rightarrow> exn + string list" where
  "container_args env v = Inr [''--merge-output-format'', py_str env v, ''--remux-video'', py_str env v]"

definition subtitle_lang_args :: "settings_env \<Rightarrow> json \<Rightarrow> exn + string list" where
  "subtitle_lang_args env v =
     (if strip (py_str env v) = [] then Inr [''--no-write-subs'']
      else Inr [''--write-subs'', ''--sub-langs'', py_str env v])"

definition parse_metadata_args :: "settings_env \<Rightarrow> json \<Rightarrow> exn + string list" where
  "parse_metadata_args env v =
     map_sum id (\<lambda>vs. concat (map (\<lambda>x. [''--parse-metadata'', py_str env x]) vs)) (py_iter v)"

definition field_to_args :: "(string \<times> (settings_env \<Rightarrow> json \<Rightarrow> exn + string list)) list" where
  "field_to_args =
     [(''format_selector'', value_arg ''--format''),
      (''container'', container_args),
      (''audio_extract'', audio_extract_args),
      (''audio_format'', value_arg ''--audio-format''),
      (''audio_quality'', value_arg ''--audio-quality''),
      (''embed_metadata'', bool_arg ''--embed-metadata'' ''--no-embed-metadata''),
      (''embed_thumbnail'', bool_arg ''--embed-thumbnail'' ''--no-embed-thumbnail''),
      (''embed_chapters'', bool_arg ''--embed-chapters'' ''--no-embed-chapters''),
      (''subtitle_langs'', subtitle_lang_args),
      (''subtitle_auto'', bool_arg ''--write-auto-subs'' ''--no-write-auto-subs''),
      (''subtitle_embed'', bool_arg ''--embed-subs'' ''--no-embed-subs''),
      (''concurrent_fragments'', value_arg ''--concurrent-fragments''),
      (''parse_metadata'', parse_metadata_args)]"

definition field_order :: "string list" where
  "field_order = map fst field_to_args"

definition profile_fields :: "string list" where
  "profile_fields = filter (\<lambda>f. f \<noteq> ''parse_metadata'') field_order"

section \<open>The command under construction\<close>

record argument_origin =
  ao_arguments :: "string list"
  ao_layer :: string
  ao_source :: string
  ao_field :: "string option"

record command_accumulator =
  ac_args :: "string list"
  ac_origins :: "argument_origin list"

definition empty_command :: command_accumulator where
  "empty_command = \<lparr>ac_args = [], ac_origins = []\<rparr>"

definition add_args :: "string list \<Rightarrow> string \<Rightarrow> string \<Rightarrow> string option
    \<Rightarrow> command_accumulator \<Rightarrow> command_accumulator" where
  "add_args arguments layer src field_name acc =
     (if arguments = [] then acc
      else acc\<lparr>ac_args := ac_args acc @ arguments,
               ac_origins := ac_origins acc @
                 [\<lparr>ao_arguments = arguments, ao_layer = layer, ao_source = src, ao_field = field_name\<rparr>]\<rparr>)"

record timeout_spec =
  to_idle_sec :: json
  to_absolute_sec :: json
  to_term_grace_sec :: json

record built_command =
  bc_args :: "string list"
  bc_origins :: "argument_origin list"
  bc_warnings :: "warning list"
  bc_resolved_output_path :: "string option"
  bc_timeout :: timeout_spec

record option_overrides =
  oo_structured :: "(string \<times> json) list"
  oo_ytdlp_args :: "string option"

definition no_overrides :: option_overrides where
  "no_overrides = \<lparr>oo_structured = [], oo_ytdlp_args = None\<rparr>"

definition src_global :: string where "src_global = ''global default''"
definition src_kind :: string where "src_kind = ''kind default ''"
definition src_override :: string where "src_override = ''one-off override''"
definition src_app :: string where "src_app = ''application argument''"
definition src_filename :: string where "src_filename = ''filename default''"
definition src_probe :: string where "src_probe = ''format probe''"
definition src_probe_url :: string where "src_probe_url = ''probe url''"
definition src_no_profile :: string where "src_no_profile = ''no profile''"
definition src_no_playlist :: string where "src_no_playlist = ''no playlist''"

definition rate_options :: "(string \<times> string) list" where
  "rate_options =
     [(''download.sleep_requests'', ''--sleep-requests''),
      (''download.sleep_interval'', ''--sleep-interval''),
      (''download.max_sleep_interval'', ''--max-sleep-interval''),
      (''download.limit_rate'', ''--limit-rate''),
      (''download.retries'', ''--retries''),
      (''download.fragment_retries'', ''--fragment-retries'')]"

fun common_rate_from :: "settings_env \<Rightarrow> setting_table \<Rightarrow> (string \<times> string) list
    \<Rightarrow> command_accumulator \<Rightarrow> exn + command_accumulator" where
  "common_rate_from env t [] acc = Inr acc"
| "common_rate_from env t ((key, opt) # rest) acc =
     (case get_setting env t key of
        Inl e \<Rightarrow> Inl e
      | Inr v \<Rightarrow> common_rate_from env t rest
                  (add_args [opt, py_str env v] ''L2'' src_global (Some key) acc))"

definition common_rate_args :: "settings_env \<Rightarrow> setting_table \<Rightarrow> command_accumulator
    \<Rightarrow> exn + command_accumulator" where
  "common_rate_args env t acc = common_rate_from env t rate_options acc"

section \<open>Structured fields\<close>

record resolved_field =
  rf_value :: json
  rf_layer :: string
  rf_source :: string
  rf_field :: string

type_synonym resolved_fields = "(string \<times> resolved_field) list"

definition kind_key :: "string \<Rightarrow> string \<Rightarrow> string" where
  "kind_key kind f = ''defaults.'' @ kind @ ''.'' @ f"

definition kind_values :: "settings_env \<Rightarrow> setting_table \<Rightarrow> string \<Rightarrow> exn + (string \<times> json) list" where
  "kind_values env t kind =
     map_results (\<lambda>f. map_sum id (Pair f) (get_setting env t (kind_key kind f)))
       (filter (\<lambda>f. map_of code_defaults (kind_key kind f) \<noteq> None) field_order)"

definition opt_str :: "string option \<Rightarrow> json" where
  "opt_str v = (case v of None \<Rightarrow> JNull | Some s \<Rightarrow> JStr s)"

definition opt_bool :: "bool option \<Rightarrow> json" where
  "opt_bool v = (case v of None \<Rightarrow> JNull | Some b \<Rightarrow> JBool b)"

definition opt_int :: "int option \<Rightarrow> json" where
  "opt_int v = (case v of None \<Rightarrow> JNull | Some i \<Rightarrow> JInt i)"

definition profile_values :: "profile \<Rightarrow> (string \<times> json) list" where
  "profile_values p =
     [(''format_selector'', opt_str (pf_format_selector p)),
      (''container'', opt_str (pf_container p)),
      (''audio_extract'', opt_bool (pf_audio_extract p)),
      (''audio_format'', opt_str (pf_audio_format p)),
      (''audio_quality'', opt_str (pf_audio_quality p)),
      (''embed_metadata'', opt_bool (pf_embed_metadata p)),
      (''embed_thumbnail'', opt_bool (pf_embed_thumbnail p)),
      (''embed_chapters'', opt_bool (pf_embed_chapters p)),
      (''subtitle_langs'', opt_str (pf_subtitle_langs p)),
      (''subtitle_auto'', opt_bool (pf_subtitle_auto p)),
      (''subtitle_embed'', opt_bool (pf_subtitle_embed p)),
      (''concurrent_fragments'', opt_int (pf_concurrent_fragments p))]"

text \<open>One layer: every value that is not \<open>None\<close> replaces what the layers before gave.\<close>

definition put_layer :: "string \<Rightarrow> string \<Rightarrow> (string \<Rightarrow> string) \<Rightarrow> (string \<times> json) list
    \<Rightarrow> resolved_fields \<Rightarrow> resolved_fields" where
  "put_layer layer src label vs r =
     fold (\<lambda>(f, v) acc. if v = JNull then acc
             else AList.update f \<lparr>rf_value = v, rf_layer = layer, rf_source = src, rf_field = label f\<rparr> acc) vs r"

definition resolve_structured_fields :: "settings_env \<Rightarrow> setting_table \<Rightarrow> string \<Rightarrow> profile option
    \<Rightarrow> option_overrides \<Rightarrow> exn + resolved_fields" where
  "resolve_structured_fields env t kind prof overrides =
     (case get_setting env t ''download.concurrent_fragments'' of
        Inl e \<Rightarrow> Inl e
      | Inr fragments \<Rightarrow>
          (case kind_values env t kind of
             Inl e \<Rightarrow> Inl e
           | Inr kinds \<Rightarrow>
               let l2 = put_layer ''L2'' src_global (\<lambda>f. ''download.'' @ f)
                          [(''concurrent_fragments'', fragments)] [];
                   l3 = put_layer ''L3'' (src_kind @ kind) (kind_key kind) kinds l2;
                   l4 = (case prof of None \<Rightarrow> l3
                         | Some p \<Rightarrow> put_layer ''L4'' (''Profile '' @ pf_name p) (\<lambda>f. f) (profile_values p) l3)
               in if list_ex (\<lambda>(f, _). f \<notin> set field_order) (oo_structured overrides)
                  then Inl OptionValidationError
                  else Inr (put_layer ''L6'' src_override (\<lambda>f. f) (oo_structured overrides) l4)))"

fun render_from :: "settings_env \<Rightarrow> (string \<times> (settings_env \<Rightarrow> json \<Rightarrow> exn + string list)) list
    \<Rightarrow> resolved_fields \<Rightarrow> command_accumulator \<Rightarrow> exn + command_accumulator" where
  "render_from env [] r acc = Inr acc"
| "render_from env ((f, render) # rest) r acc =
     (case map_of r f of
        None \<Rightarrow> render_from env rest r acc
      | Some x \<Rightarrow>
          (case render env (rf_value x) of
             Inl e \<Rightarrow> Inl e
           | Inr args \<Rightarrow> render_from env rest r
                          (add_args args (rf_layer x) (rf_source x) (Some (rf_field x)) acc)))"

definition render_structured :: "settings_env \<Rightarrow> resolved_fields \<Rightarrow> command_accumulator
    \<Rightarrow> exn + command_accumulator" where
  "render_structured env r acc = render_from env field_to_args r acc"

section \<open>Free texts\<close>

definition layer_flags :: "profile option \<Rightarrow> bool \<Rightarrow> command_kind \<Rightarrow> string \<Rightarrow> guard_flags" where
  "layer_flags prof env_allow_exec kind src =
     \<lparr>gf_source_label = src,
      gf_expert_mode = (case prof of None \<Rightarrow> False | Some p \<Rightarrow> pf_expert_mode p),
      gf_env_allow_exec = env_allow_exec,
      gf_profile_allow_exec = (case prof of None \<Rightarrow> False | Some p \<Rightarrow> pf_allow_exec p),
      gf_command_kind = kind\<rparr>"

type_synonym free_layer = "string \<times> string \<times> string option"

fun guard_layers :: "free_layer list \<Rightarrow> profile option \<Rightarrow> bool \<Rightarrow> command_kind
    \<Rightarrow> exn + ((string \<times> string \<times> guarded_tokens) list \<times> warning list \<times> string list)" where
  "guard_layers [] prof env_allow_exec kind = Inr ([], [], [])"
| "guard_layers ((layer, src, v) # rest) prof env_allow_exec kind =
     (case guard_freeform v (layer_flags prof env_allow_exec kind src) of
        Inl e \<Rightarrow> Inl e
      | Inr g \<Rightarrow>
          (case guard_layers rest prof env_allow_exec kind of
             Inl e \<Rightarrow> Inl e
           | Inr (gs, ws, overridden) \<Rightarrow>
               Inr ((layer, src, g) # gs, gt_warnings g @ ws, gt_reserved_overrides g @ overridden)))"

definition add_guarded_layers :: "(string \<times> string \<times> guarded_tokens) list \<Rightarrow> command_accumulator
    \<Rightarrow> command_accumulator" where
  "add_guarded_layers gs acc =
     fold (\<lambda>(layer, src, g). add_args (gt_tokens g) layer src (Some ''ytdlp_args'')) gs acc"

definition timeout_of :: "settings_env \<Rightarrow> setting_table \<Rightarrow> command_kind \<Rightarrow> exn + timeout_spec" where
  "timeout_of env t kind =
     (case get_setting env t ''ytdlp.term_grace_sec'' of
        Inl e \<Rightarrow> Inl e
      | Inr grace \<Rightarrow>
          if kind = CK_Discover then
            (case get_setting env t ''ytdlp.discover_timeout_sec'' of
               Inl e \<Rightarrow> Inl e
             | Inr d \<Rightarrow> Inr \<lparr>to_idle_sec = d, to_absolute_sec = d, to_term_grace_sec = grace\<rparr>)
          else
            (case get_setting env t ''ytdlp.idle_timeout_sec'' of
               Inl e \<Rightarrow> Inl e
             | Inr idle \<Rightarrow>
                 (case get_setting env t ''ytdlp.absolute_timeout_sec'' of
                    Inl e \<Rightarrow> Inl e
                  | Inr absolute \<Rightarrow>
                      Inr \<lparr>to_idle_sec = idle, to_absolute_sec = absolute, to_term_grace_sec = grace\<rparr>)))"

definition reserved_warnings :: "string list \<Rightarrow> command_kind \<Rightarrow> warning list" where
  "reserved_warnings overridden kind = map (\<lambda>opt. WarnProtocol opt kind) (sorted_list_of_set (set overridden))"

definition dedup :: "'a list \<Rightarrow> 'a list" where
  "dedup xs = fold add_new xs []"

definition finish_command :: "command_accumulator \<Rightarrow> warning list \<Rightarrow> string option \<Rightarrow> exn + timeout_spec
    \<Rightarrow> exn + built_command" where
  "finish_command acc ws output_path timeout =
     map_sum id (\<lambda>to. \<lparr>bc_args = ac_args acc, bc_origins = ac_origins acc, bc_warnings = dedup ws,
                       bc_resolved_output_path = output_path, bc_timeout = to\<rparr>) timeout"

section \<open>The three commands\<close>

definition print_prefix :: string where "print_prefix = ''SLUICERY_PRINT ''"
definition progress_prefix :: string where "progress_prefix = ''SLUICERY_PROGRESS ''"
definition result_prefix :: string where "result_prefix = ''SLUICERY_RESULT ''"

definition build_discover_args :: "settings_env \<Rightarrow> setting_table \<Rightarrow> playlist \<Rightarrow> profile option
    \<Rightarrow> option_overrides \<Rightarrow> bool \<Rightarrow> exn + built_command" where
  "build_discover_args env t pl prof overrides env_allow_exec =
     (case common_rate_args env t empty_command of
        Inl e \<Rightarrow> Inl e
      | Inr acc \<Rightarrow>
          (case guard_layers [(''L5'', ''Playlist '' @ pl_name pl, pl_ytdlp_args pl),
                              (''L6'', src_override, oo_ytdlp_args overrides)]
                  prof env_allow_exec CK_Discover of
             Inl e \<Rightarrow> Inl e
           | Inr (gs, ws, overridden) \<Rightarrow>
               let acc1 = add_guarded_layers gs acc;
                   acc2 = add_args [''--flat-playlist''] ''L1'' src_app None acc1;
                   acc3 = add_args [''--simulate''] ''L1'' src_app None acc2;
                   acc4 = (if ''--print'' \<notin> set overridden
                           then add_args [''--print'', print_prefix @ ''%()j''] ''L1'' src_app None acc3 else acc3)
               in (case validate_source_url (se_brackets_ok env) (pl_url pl) of
                     Inl e \<Rightarrow> Inl e
                   | Inr url \<Rightarrow>
                       finish_command
                         (add_args [''--'', url] ''L1'' (''Playlist '' @ pl_name pl) (Some ''url'') acc4)
                         (ws @ reserved_warnings overridden CK_Discover) None
                         (timeout_of env t CK_Discover))))"

definition build_format_probe_args :: "settings_env \<Rightarrow> setting_table \<Rightarrow> profile \<Rightarrow> string \<Rightarrow> bool
    \<Rightarrow> exn + built_command" where
  "build_format_probe_args env t prof url env_allow_exec =
     (case validate_source_url (se_brackets_ok env) url of
        Inl e \<Rightarrow> Inl e
      | Inr url \<Rightarrow>
     (case common_rate_args env t empty_command of
        Inl e \<Rightarrow> Inl e
      | Inr acc \<Rightarrow>
     (case resolve_structured_fields env t (profile_kind_value (pf_kind prof)) (Some prof) no_overrides of
        Inl e \<Rightarrow> Inl e
      | Inr r \<Rightarrow>
     (case render_structured env r acc of
        Inl e \<Rightarrow> Inl e
      | Inr acc1 \<Rightarrow>
     (case guard_layers [(''L4'', ''Profile '' @ pf_name prof, pf_ytdlp_args prof)]
             (Some prof) env_allow_exec CK_Download of
        Inl e \<Rightarrow> Inl e
      | Inr (gs, ws, overridden) \<Rightarrow>
          if overridden \<noteq> [] then Inl OptionValidationError
          else finish_command
            (add_args [''--'', url] ''L1'' src_probe_url (Some ''source_url'')
              (add_args [''--print'', print_prefix @ ''%()j''] ''L1'' src_probe None
                (add_args [''--ignore-config'', ''--simulate'', ''--no-playlist''] ''L1'' src_probe None
                  (add_guarded_layers gs acc1))))
            ws None (timeout_of env t CK_Discover))))))"

text \<open>\<open>Path\<close> texts: \<open>str(Path(s))\<close> and \<open>Path(a) / b\<close>. Two leading slashes are kept, as POSIX has it.\<close>

definition path_text :: "string \<Rightarrow> string" where
  "path_text s =
     (let root = (if starts_with ''//'' s \<and> \<not> starts_with ''///'' s then ''//''
                  else if starts_with ''/'' s then ''/'' else []);
          rel = join ''/'' (path_parts s)
      in if root = [] \<and> rel = [] then ''.'' else root @ rel)"

definition path_div :: "string \<Rightarrow> string \<Rightarrow> string" where
  "path_div a b = (if path_is_absolute b \<or> path_text a = ''.'' then path_text b
                   else path_text (a @ ''/'' @ b))"

record download_request =
  dq_target_id :: "int option"
  dq_source_url :: string
  dq_staging_dir :: string
  dq_work_id :: string
  dq_playlist :: "playlist option"
  dq_profile :: "profile option"
  dq_subpath :: "string option"
  dq_kind :: "string option"
  dq_overrides :: option_overrides
  dq_env_allow_exec :: bool

definition selected_kind :: "download_request \<Rightarrow> string" where
  "selected_kind q =
     (case dq_kind q of
        Some k \<Rightarrow> if k \<noteq> [] then k
                  else (case dq_profile q of None \<Rightarrow> ''video'' | Some p \<Rightarrow> profile_kind_value (pf_kind p))
      | None \<Rightarrow> (case dq_profile q of None \<Rightarrow> ''video'' | Some p \<Rightarrow> profile_kind_value (pf_kind p)))"

definition strategy_name :: "download_request \<Rightarrow> string" where
  "strategy_name q = (case dq_profile q of None \<Rightarrow> ''flat'' | Some p \<Rightarrow> layout_strategy_value (pf_layout_strategy p))"

definition request_layout :: "(string \<Rightarrow> exn + string) \<Rightarrow> download_request \<Rightarrow> exn + resolved_layout" where
  "request_layout other_field q =
     resolve_layout other_field (strategy_name q)
       \<lparr>lc_playlist_name = (case dq_playlist q of None \<Rightarrow> ''fetch'' | Some p \<Rightarrow> pl_name p),
        lc_playlist_folder_name = (case dq_playlist q of None \<Rightarrow> ''fetch'' | Some p \<Rightarrow> pl_folder_name p),
        lc_profile_name = (case dq_profile q of None \<Rightarrow> selected_kind q | Some p \<Rightarrow> pf_name p),
        lc_profile_kind = selected_kind q,
        lc_subpath = (case dq_subpath q of None \<Rightarrow> ''{playlist.folder_name}'' | Some s \<Rightarrow> s),
        lc_custom_output_template = (case dq_profile q of None \<Rightarrow> None | Some p \<Rightarrow> pf_output_template p)\<rparr>"

definition request_layers :: "download_request \<Rightarrow> free_layer list" where
  "request_layers q =
     [(case dq_profile q of
         Some p \<Rightarrow> (''L4'', ''Profile '' @ pf_name p, pf_ytdlp_args p)
       | None \<Rightarrow> (''L4'', src_no_profile, None)),
      (case dq_playlist q of
         Some p \<Rightarrow> (''L5'', ''Playlist '' @ pl_name p, pl_ytdlp_args p)
       | None \<Rightarrow> (''L5'', src_no_playlist, None)),
      (''L6'', src_override, oo_ytdlp_args (dq_overrides q))]"

text \<open>The file name policy in front of the free texts; the trim length is read for the flat layout only.\<close>

definition add_filename_policy :: "settings_env \<Rightarrow> setting_table \<Rightarrow> string \<Rightarrow> command_accumulator
    \<Rightarrow> exn + command_accumulator" where
  "add_filename_policy env t strategy acc =
     (let acc1 = add_args [''--windows-filenames''] ''L2'' src_filename None acc
      in if strategy = ''flat'' then
           (case get_setting env t ''download.trim_filenames'' of
              Inl e \<Rightarrow> Inl e
            | Inr v \<Rightarrow> Inr (add_args [''--trim-filenames'', py_str env v] ''L2'' src_filename
                             (Some ''download.trim_filenames'') acc1))
         else Inr acc1)"

text \<open>The application's own arguments behind the free texts.\<close>

definition add_output_args :: "string \<Rightarrow> string \<Rightarrow> string \<Rightarrow> string list \<Rightarrow> command_accumulator
    \<Rightarrow> command_accumulator" where
  "add_output_args work_root relative_output strategy overridden acc =
     (let acc1 = (if ''--paths'' \<notin> set overridden
                  then add_args [''--paths'', ''temp:'' @ path_div work_root ''.tmp''] ''L1'' src_app None
                         (add_args [''--paths'', ''home:'' @ path_text work_root] ''L1'' src_app None acc)
                  else acc);
          acc2 = add_args [''--output'', relative_output] ''L1'' (''layout '' @ strategy)
                   (Some ''output_template'') acc1;
          acc3 = add_args [''--continue'', ''--newline'', ''--progress''] ''L1'' src_app None acc2;
          acc4 = (if ''--progress-template'' \<notin> set overridden
                  then add_args [''--progress-template'', ''download:'' @ progress_prefix @ ''%(progress)j'']
                         ''L1'' src_app None acc3
                  else acc3)
      in if ''--print'' \<notin> set overridden
         then add_args [''--print'', ''after_move:'' @ result_prefix @ ''{\"file_path\": %(filepath)j, \"format_id\": %(format_id)j}'']
                ''L1'' src_app None
                (add_args [''--print'', ''after_move:'' @ print_prefix @ ''%(filepath)s''] ''L1'' src_app None acc4)
         else acc4)"

definition build_download_args :: "settings_env \<Rightarrow> setting_table \<Rightarrow> (string \<Rightarrow> exn + string)
    \<Rightarrow> download_request \<Rightarrow> exn + built_command" where
  "build_download_args env t other_field q =
     (case validate_source_url (se_brackets_ok env) (dq_source_url q) of
        Inl e \<Rightarrow> Inl e
      | Inr url \<Rightarrow>
     if selected_kind q \<notin> {''video'', ''music'', ''other''} then Inl OptionValidationError else
     (case request_layout other_field q of
        Inl e \<Rightarrow> Inl e
      | Inr layout \<Rightarrow>
     (case common_rate_args env t empty_command of
        Inl e \<Rightarrow> Inl e
      | Inr acc \<Rightarrow>
     (case resolve_structured_fields env t (selected_kind q) (dq_profile q) (dq_overrides q) of
        Inl e \<Rightarrow> Inl e
      | Inr r \<Rightarrow>
     (case render_structured env r acc of
        Inl e \<Rightarrow> Inl e
      | Inr acc1 \<Rightarrow>
     (case add_filename_policy env t (strategy_name q) acc1 of
        Inl e \<Rightarrow> Inl e
      | Inr acc2 \<Rightarrow>
     (case guard_layers (request_layers q) (dq_profile q) (dq_env_allow_exec q) CK_Download of
        Inl e \<Rightarrow> Inl e
      | Inr (gs, ws, overridden) \<Rightarrow>
          let work_root = path_div (dq_staging_dir q) (dq_work_id q);
              relative_output = relative_output_template layout;
              acc3 = add_output_args work_root relative_output (strategy_name q) overridden
                       (add_guarded_layers gs acc2);
              source_label = (case dq_target_id q of
                                None \<Rightarrow> ''source_url''
                              | Some i \<Rightarrow> if i \<noteq> 0 then ''Target '' @ int_str i else ''source_url'')
          in finish_command
               (add_args [''--'', url] ''L1'' source_label (Some ''source_url'') acc3)
               (ws @ map WarnLayout (rl_warnings layout) @ reserved_warnings overridden CK_Download)
               (Some (path_div work_root relative_output))
               (timeout_of env t CK_Download))))))))"

end
