(* ===== verification/Settings_Theorems.thy ===== *)
theory Settings_Theorems
  imports Settings
begin

text \<open>
  What a reader of a setting may rely on, whatever overrides were stored and removed before: a value
  of the declared type that passed the validation, and the round trip of a stored override.
\<close>

section \<open>Conversions\<close>

fun has_type :: "setting_type \<Rightarrow> json \<Rightarrow> bool" where
  "has_type ST_Int (JInt _) \<longleftrightarrow> True"
| "has_type ST_Str (JStr _) \<longleftrightarrow> True"
| "has_type ST_Bool (JBool _) \<longleftrightarrow> True"
| "has_type ST_Float (JFloat _) \<longleftrightarrow> True"
| "has_type ST_List (JArr vs) \<longleftrightarrow> list_all is_json_str vs"
| "has_type _ _ \<longleftrightarrow> False"

text \<open>A declared \<open>float\<close> may have an integral default, as the numeric tower of the annotations allows.\<close>

definition admissible :: "setting_type \<Rightarrow> json \<Rightarrow> bool" where
  "admissible ty v \<longleftrightarrow> v = JNull \<or> has_type ty v \<or> (ty = ST_Float \<and> has_type ST_Int v)"

lemma cast_bool_Inr: "cast_bool v = Inr w \<Longrightarrow> \<exists>b. w = JBool b"
  by (auto simp: cast_bool_def split: json.splits if_splits)

lemma cast_list_Inr: "cast_list env v = Inr w \<Longrightarrow> \<exists>vs. w = JArr vs \<and> list_all is_json_str vs"
  unfolding cast_list_def by (auto split: option.splits json.splits if_splits)

lemma cast_int_Inr: "cast_int v = Inr w \<Longrightarrow> \<exists>i. w = JInt i"
  by (auto simp: cast_int_def split: json.splits option.splits)

lemma cast_float_Inr: "cast_float v = Inr w \<Longrightarrow> \<exists>x. w = JFloat x"
  by (auto simp: cast_float_def split: json.splits option.splits if_splits)

lemma cast_typed: "has_type ty w \<Longrightarrow> cast env ty w = Inr w"
  by (cases "(ty, w)" rule: has_type.cases)
     (simp_all add: cast_def cast_bool_def cast_list_def cast_int_def cast_float_def py_str_def)

lemma cast_result:
  assumes "cast env ty v = Inr w"
  shows "w = JNull \<or> has_type ty w" "cast env ty w = Inr w"
proof -
  show t: "w = JNull \<or> has_type ty w"
    using assms cast_bool_Inr[of v w] cast_list_Inr[of env v w] cast_int_Inr[of v w] cast_float_Inr[of v w]
    by (cases ty) (auto simp: cast_def split: if_splits)
  have "cast env ty JNull = Inr JNull" by (simp add: cast_def)
  with t cast_typed[of ty w env] show "cast env ty w = Inr w" by blast
qed

lemma validate_overrideD:
  assumes "validate_override env key v = Inr w"
  obtains spec where "map_of code_defaults key = Some spec" "cast env (sp_type spec) w = Inr w"
    "w = JNull \<or> has_type (sp_type spec) w" "check_override env key w = None"
  using assms cast_result
  by (auto simp: validate_override_def split: option.splits sum.splits)

lemma validate_override_idem:
  assumes "validate_override env key v = Inr w"
  shows "validate_override env key w = Inr w"
  by (rule validate_overrideD[OF assms]) (simp add: validate_override_def)

section \<open>Stored overrides\<close>

lemma map_of_store [simp]:
  "map_of (store_override t key v now) = (map_of t)(key \<mapsto> \<lparr>sg_value_json = v, sg_updated_at = now\<rparr>)"
  by (simp add: store_override_def update_conv')

lemma map_of_delete_override [simp]: "map_of (delete_override t key) = (map_of t)(key := None)"
  by (simp add: delete_override_def delete_conv')

definition stored_ok :: "settings_env \<Rightarrow> setting_table \<Rightarrow> bool" where
  "stored_ok env t \<longleftrightarrow> (\<forall>key row. map_of t key = Some row \<longrightarrow>
     validate_override env key (sg_value_json row) = Inr (sg_value_json row))"

lemma stored_ok_Nil: "stored_ok env []"
  by (simp add: stored_ok_def)

lemma stored_ok_set:
  assumes "stored_ok env t" "set_override env t key v now = Inr t'"
  shows "stored_ok env t'"
proof -
  obtain w where w: "validate_override env key v = Inr w" "t' = store_override t key w now"
    using assms(2) by (auto simp: set_override_def split: sum.splits)
  with assms(1) validate_override_idem[OF w(1)] show ?thesis
    by (auto simp: stored_ok_def)
qed

lemma stored_ok_unset:
  assumes "stored_ok env t" "unset_override t key = Inr t'"
  shows "stored_ok env t'"
  using assms by (auto simp: stored_ok_def unset_override_def split: if_splits)

datatype setting_op = Op_Set string json instant | Op_Unset string

definition apply_setting_op :: "settings_env \<Rightarrow> setting_op \<Rightarrow> setting_table \<Rightarrow> setting_table" where
  "apply_setting_op env op t =
     (case (case op of Op_Set key v now \<Rightarrow> set_override env t key v now
                     | Op_Unset key \<Rightarrow> unset_override t key) of
        Inl _ \<Rightarrow> t | Inr t' \<Rightarrow> t')"

definition run_settings :: "settings_env \<Rightarrow> setting_op list \<Rightarrow> setting_table" where
  "run_settings env ops = fold (apply_setting_op env) ops []"

lemma stored_ok_apply:
  assumes ok: "stored_ok env t"
  shows "stored_ok env (apply_setting_op env op t)"
proof (cases op)
  case (Op_Set key v now)
  then show ?thesis using ok stored_ok_set[OF ok, of key v now]
    by (cases "set_override env t key v now") (simp_all add: apply_setting_op_def)
next
  case (Op_Unset key)
  then show ?thesis using ok stored_ok_unset[OF ok, of key]
    by (cases "unset_override t key") (simp_all add: apply_setting_op_def)
qed

lemma stored_ok_fold: "stored_ok env t \<Longrightarrow> stored_ok env (fold (apply_setting_op env) ops t)"
  by (induction ops arbitrary: t) (simp_all add: stored_ok_apply)

lemma stored_ok_run: "stored_ok env (run_settings env ops)"
  unfolding run_settings_def using stored_ok_fold[OF stored_ok_Nil] .

section \<open>Reading\<close>

lemma code_defaults_distinct: "distinct (map fst code_defaults)"
  by code_simp

lemma code_defaults_typed:
  "list_all (\<lambda>(key, spec). admissible (sp_type spec) (sp_default spec) \<and>
     (if key \<in> set positive_keys then check_minimum 1 (sp_default spec) = None else True) \<and>
     (if key = ''schedule.download_window'' then check_window (sp_default spec) = None else True)) code_defaults"
  unfolding code_defaults_def admissible_def by code_simp

lemma get_setting_stored:
  assumes "stored_ok env t" "map_of code_defaults key = Some spec"
  shows "\<exists>v. get_setting env t key = Inr v \<and>
     (v = sp_default spec \<or>
      ((v = JNull \<or> has_type (sp_type spec) v) \<and> check_override env key v = None))"
proof (cases "map_of t key")
  case None
  then show ?thesis using assms(2) by (simp add: get_setting_def)
next
  case (Some row)
  with assms(1) have v: "validate_override env key (sg_value_json row) = Inr (sg_value_json row)"
    by (simp add: stored_ok_def)
  show ?thesis
    by (rule validate_overrideD[OF v]) (use assms(2) Some in \<open>simp add: get_setting_def\<close>)
qed

lemma positive_key_check:
  "key \<in> set positive_keys \<Longrightarrow> check_override env key v = check_minimum 1 v"
  by (auto simp: positive_keys_def check_override_def cron_keys_def)

lemma check_minimum_None: "check_minimum low v = None \<longleftrightarrow> (\<exists>i. v = JInt i \<and> low \<le> i)"
  by (auto simp: check_minimum_def split: json.splits)


text \<open>
  An accepted override is read back exactly as the validation converted it, may be stored
  again unchanged, touches no other key, and unsetting it brings the default back.
\<close>

theorem set_override_roundtrip:
  assumes "set_override env t key v now = Inr t'"
  shows "get_setting env t' key = validate_override env key v \<and>
    is_overridden t' key = Inr True \<and>
    (\<exists>w. get_setting env t' key = Inr w \<and> set_override env t key w now = Inr t') \<and>
    (\<forall>k. k \<noteq> key \<longrightarrow> get_setting env t' k = get_setting env t k) \<and>
    unset_override t' key = Inr (delete_override t key) \<and>
    get_setting env (delete_override t key) key = Inr (sp_default (the (map_of code_defaults key)))"
proof -
  obtain w where w: "validate_override env key v = Inr w" "t' = store_override t key w now"
    using assms by (auto simp: set_override_def split: sum.splits)
  obtain spec where spec: "map_of code_defaults key = Some spec" "cast env (sp_type spec) w = Inr w"
    by (rule validate_overrideD[OF w(1)])
  have "get_setting env t' key = Inr w" using spec w(2) by (simp add: get_setting_def)
  moreover have "set_override env t key w now = Inr t'"
    using validate_override_idem[OF w(1)] w(2) by (simp add: set_override_def)
  moreover have "delete_override t' key = delete_override t key"
    by (simp add: w(2) store_override_def delete_override_def delete_update_same)
  moreover have "\<forall>k. k \<noteq> key \<longrightarrow> get_setting env t' k = get_setting env t k"
  proof (intro allI impI)
    fix k assume "k \<noteq> key"
    then have "map_of t' k = map_of t k" by (simp add: w(2))
    then show "get_setting env t' k = get_setting env t k" by (simp only: get_setting_def)
  qed
  moreover have "is_overridden t' key = Inr True" using spec w by (simp add: is_overridden_def)
  moreover have "unset_override t' key = Inr (delete_override t' key)"
    using spec by (simp add: unset_override_def)
  moreover have "get_setting env (delete_override t key) key = Inr (sp_default (the (map_of code_defaults key)))"
    using spec by (simp add: get_setting_def)
  ultimately show ?thesis using w(1) by metis
qed

definition sample_settings_env :: settings_env where
  "sample_settings_env = \<lparr>se_json_loads = (\<lambda>_. None), se_repr = (\<lambda>_. ''1.5''),
     se_cron = (\<lambda>_. None), se_brackets_ok = (\<lambda>_. False)\<rparr>"

theorem set_override_roundtrip_witness:
  "get_setting sample_settings_env
     (store_override [] ''download.retries'' (JInt 7) 0) ''download.retries'' = Inr (JInt 7)"
proof -
  have v: "validate_override sample_settings_env ''download.retries'' (JStr '' 7'') = Inr (JInt 7)"
    by code_simp
  then have s: "set_override sample_settings_env [] ''download.retries'' (JStr '' 7'') 0 =
      Inr (store_override [] ''download.retries'' (JInt 7) 0)"
    by (simp add: set_override_def)
  from set_override_roundtrip[OF s] v show ?thesis by simp
qed

end
