(* ===== verification/Options_Theorems.thy ===== *)
theory Options_Theorems
  imports Options Settings_Theorems
begin

text \<open>
  The composed commands: which layer decides a structured field, that the arguments are exactly the
  recorded origins, and that the free texts in a command contain no option their profile may not use.
\<close>

section \<open>Precedence of the layers\<close>

definition layered :: "string \<Rightarrow> string \<Rightarrow> (string \<Rightarrow> string) \<Rightarrow> string \<Rightarrow> json \<Rightarrow> resolved_field option
    \<Rightarrow> resolved_field option" where
  "layered layer src label f v below =
     (if v = JNull then below
      else Some \<lparr>rf_value = v, rf_layer = layer, rf_source = src, rf_field = label f\<rparr>)"

lemma put_layer_lookup:
  "distinct (map fst vs) \<Longrightarrow>
   map_of (put_layer layer src label vs r) f = layered layer src label f (jget vs f) (map_of r f)"
proof (induction vs arbitrary: r)
  case Nil
  then show ?case by (simp add: put_layer_def layered_def jget_def)
next
  case (Cons x vs)
  obtain g v where x: "x = (g, v)" by (cases x)
  let ?r = "if v = JNull then r
    else AList.update g \<lparr>rf_value = v, rf_layer = layer, rf_source = src, rf_field = label g\<rparr> r"
  have put: "put_layer layer src label (x # vs) r = put_layer layer src label vs ?r"
    by (simp add: put_layer_def x)
  have g: "g \<notin> set (map fst vs)" "distinct (map fst vs)" using Cons.prems x by auto
  then have none: "map_of vs g = None" by (simp add: map_of_eq_None_iff)
  show ?case
  proof (cases "f = g")
    case True
    with none show ?thesis
      unfolding put Cons.IH[OF g(2)] by (simp add: layered_def jget_def x update_conv')
  next
    case False
    then show ?thesis
      unfolding put Cons.IH[OF g(2)] by (simp add: layered_def jget_def x update_conv')
  qed
qed

definition setting_value :: "settings_env \<Rightarrow> setting_table \<Rightarrow> string \<Rightarrow> json" where
  "setting_value env t key = (case get_setting env t key of Inl _ \<Rightarrow> JNull | Inr v \<Rightarrow> v)"

definition effective_field :: "settings_env \<Rightarrow> setting_table \<Rightarrow> string \<Rightarrow> profile option
    \<Rightarrow> option_overrides \<Rightarrow> string \<Rightarrow> resolved_field option" where
  "effective_field env t kind prof overrides f =
     layered ''L6'' src_override (\<lambda>f. f) f (jget (oo_structured overrides) f)
      (layered ''L4'' (case prof of None \<Rightarrow> [] | Some p \<Rightarrow> ''Profile '' @ pf_name p) (\<lambda>f. f) f
         (case prof of None \<Rightarrow> JNull | Some p \<Rightarrow> jget (profile_values p) f)
        (layered ''L3'' (src_kind @ kind) (kind_key kind) f
           (if f \<in> set field_order then setting_value env t (kind_key kind f) else JNull)
          (layered ''L2'' src_global (\<lambda>f. ''download.'' @ f) f
             (if f = ''concurrent_fragments'' then setting_value env t (''download.'' @ f) else JNull)
             None)))"

lemma field_order_distinct: "distinct field_order"
  by (simp add: field_order_def field_to_args_def)

lemma profile_values_distinct: "distinct (map fst (profile_values p))"
  by (simp add: profile_values_def)

lemma named_values:
  "list_all2 (\<lambda>f y. fst y = f \<and> g f = Inr (snd y)) fs vs \<Longrightarrow>
   map fst vs = fs \<and> (distinct fs \<longrightarrow> (\<forall>f \<in> set fs. g f = Inr (jget vs f)))"
proof (induction rule: list_all2_induct)
  case (Cons f fs y vs)
  then show ?case by (cases y) (auto simp: jget_def)
qed simp

lemma map_results_values:
  assumes "map_results (\<lambda>f. map_sum id (Pair f) (g f)) fs = Inr vs" "distinct fs"
  shows "map fst vs = fs" "\<forall>f \<in> set fs. g f = Inr (jget vs f)"
proof -
  have "map_sum id (Pair f) (g f) = Inr y \<longleftrightarrow> fst y = f \<and> g f = Inr (snd y)" for f y
    by (cases "g f"; cases y) auto
  then have "list_all2 (\<lambda>f y. fst y = f \<and> g f = Inr (snd y)) fs vs"
    using assms(1) unfolding map_results_Inr by simp
  from named_values[OF this] assms(2) show "map fst vs = fs" "\<forall>f \<in> set fs. g f = Inr (jget vs f)"
    by blast+
qed

lemma kind_values_lookup:
  assumes "kind_values env t kind = Inr vs"
  shows "distinct (map fst vs)"
    "jget vs f = (if f \<in> set field_order then setting_value env t (kind_key kind f) else JNull)"
proof -
  let ?fs = "filter (\<lambda>f. map_of code_defaults (kind_key kind f) \<noteq> None) field_order"
  have d: "distinct ?fs" using field_order_distinct by simp
  have m: "map fst vs = ?fs" "\<forall>f \<in> set ?fs. get_setting env t (kind_key kind f) = Inr (jget vs f)"
    using map_results_values[OF assms[unfolded kind_values_def] d] by blast+
  show "distinct (map fst vs)" using m d by simp
  have none: "f \<notin> set ?fs \<Longrightarrow> jget vs f = JNull"
    using m(1) by (metis jget_def map_of_eq_None_iff list.set_map option.simps(4))
  have undeclared: "map_of code_defaults k = None \<Longrightarrow> setting_value env t k = JNull" for k
    by (simp add: setting_value_def get_setting_def)
  show "jget vs f = (if f \<in> set field_order then setting_value env t (kind_key kind f) else JNull)"
  proof (cases "f \<in> set ?fs")
    case True
    then show ?thesis using m(2) by (simp add: setting_value_def)
  next
    case False
    then show ?thesis using none undeclared[of "kind_key kind f"] by auto
  qed
qed

lemma resolve_cases:
  assumes "distinct (map fst (oo_structured overrides))"
  shows "case resolve_structured_fields env t kind prof overrides of
      Inr r \<Rightarrow> (\<forall>f. map_of r f = effective_field env t kind prof overrides f) \<and>
        set (map fst (oo_structured overrides)) \<subseteq> set field_order
    | Inl e \<Rightarrow> (e = OptionValidationError \<and> \<not> set (map fst (oo_structured overrides)) \<subseteq> set field_order)
        \<or> get_setting env t ''download.concurrent_fragments'' = Inl e
        \<or> kind_values env t kind = Inl e"
proof (cases "get_setting env t ''download.concurrent_fragments''")
  case (Inl e)
  then show ?thesis by (simp add: resolve_structured_fields_def)
next
  case fr: (Inr fragments)
  show ?thesis
  proof (cases "kind_values env t kind")
    case (Inl e)
    with fr show ?thesis by (simp add: resolve_structured_fields_def)
  next
    case kv: (Inr kinds)
    have unknown: "list_ex (\<lambda>(f, _). f \<notin> set field_order) (oo_structured overrides) \<longleftrightarrow>
        \<not> set (map fst (oo_structured overrides)) \<subseteq> set field_order"
      by (force simp: list_ex_iff)
    show ?thesis
    proof (cases "set (map fst (oo_structured overrides)) \<subseteq> set field_order")
      case False
      with fr kv unknown show ?thesis by (simp add: resolve_structured_fields_def Let_def)
    next
      case True
      define l2 where "l2 = put_layer ''L2'' src_global (\<lambda>f. ''download.'' @ f)
        [(''concurrent_fragments'', fragments)] []"
      define l3 where "l3 = put_layer ''L3'' (src_kind @ kind) (kind_key kind) kinds l2"
      define l4 where "l4 = (case prof of None \<Rightarrow> l3
        | Some p \<Rightarrow> put_layer ''L4'' (''Profile '' @ pf_name p) (\<lambda>f. f) (profile_values p) l3)"
      have r: "resolve_structured_fields env t kind prof overrides =
          Inr (put_layer ''L6'' src_override (\<lambda>f. f) (oo_structured overrides) l4)"
        using fr kv unknown True unfolding l2_def l3_def l4_def
        by (cases prof) (simp_all add: resolve_structured_fields_def Let_def)
      have v2: "setting_value env t ''download.concurrent_fragments'' = fragments"
        using fr by (simp add: setting_value_def)
      have k2: "map_of l2 f = layered ''L2'' src_global (\<lambda>f. ''download.'' @ f) f
          (if f = ''concurrent_fragments'' then setting_value env t (''download.'' @ f) else JNull) None" for f
        unfolding l2_def using v2 by (subst put_layer_lookup) (simp_all add: jget_def layered_def)
      have k3: "map_of l3 f = layered ''L3'' (src_kind @ kind) (kind_key kind) f
          (if f \<in> set field_order then setting_value env t (kind_key kind f) else JNull) (map_of l2 f)" for f
        unfolding l3_def put_layer_lookup[OF kind_values_lookup(1)[OF kv]] kind_values_lookup(2)[OF kv] ..
      have k4: "map_of l4 f = layered ''L4'' (case prof of None \<Rightarrow> [] | Some p \<Rightarrow> ''Profile '' @ pf_name p)
          (\<lambda>f. f) f (case prof of None \<Rightarrow> JNull | Some p \<Rightarrow> jget (profile_values p) f) (map_of l3 f)" for f
        unfolding l4_def
        by (cases prof) (simp_all add: layered_def[of _ _ _ _ JNull] put_layer_lookup[OF profile_values_distinct])
      have "map_of (put_layer ''L6'' src_override (\<lambda>f. f) (oo_structured overrides) l4) f =
          effective_field env t kind prof overrides f" for f
        unfolding effective_field_def put_layer_lookup[OF assms] k4 k3 k2 ..
      with r True show ?thesis by simp
    qed
  qed
qed

lemma resolve_lookup:
  assumes "distinct (map fst (oo_structured overrides))"
    "resolve_structured_fields env t kind prof overrides = Inr r"
  shows "map_of r f = effective_field env t kind prof overrides f"
  using resolve_cases[OF assms(1), of env t kind prof] assms(2) by simp

text \<open>
  For every field the resolution gives the value of the highest layer that sets one, in the
  order one-off override, profile, kind default, global default, recorded with that layer and source;
  a field no layer sets is absent. It fails only on an unknown override or an unreadable setting.
\<close>

theorem resolve_structured_fields_spec:
  assumes "distinct (map fst (oo_structured overrides))"
  shows "case resolve_structured_fields env t kind prof overrides of
      Inr r \<Rightarrow> (\<forall>f. map_of r f = effective_field env t kind prof overrides f) \<and>
        set (map fst (oo_structured overrides)) \<subseteq> set field_order
    | Inl e \<Rightarrow> (e = OptionValidationError \<and> \<not> set (map fst (oo_structured overrides)) \<subseteq> set field_order)
        \<or> get_setting env t ''download.concurrent_fragments'' = Inl e
        \<or> kind_values env t kind = Inl e"
  by (rule resolve_cases[OF assms])

theorem resolve_structured_fields_spec_witness:
  "effective_field sample_settings_env [] ''music'' None
     \<lparr>oo_structured = [(''audio_format'', JStr ''mp3'')], oo_ytdlp_args = None\<rparr> ''audio_format'' =
     Some \<lparr>rf_value = JStr ''mp3'', rf_layer = ''L6'', rf_source = src_override, rf_field = ''audio_format''\<rparr> \<and>
   (\<exists>r. resolve_structured_fields sample_settings_env [] ''music'' None
     \<lparr>oo_structured = [(''audio_format'', JStr ''mp3'')], oo_ytdlp_args = None\<rparr> = Inr r \<and>
     map_of r ''audio_quality'' = Some \<lparr>rf_value = JStr ''0'', rf_layer = ''L3'',
       rf_source = src_kind @ ''music'', rf_field = ''defaults.music.audio_quality''\<rparr>)"
proof -
  let ?o = "\<lparr>oo_structured = [(''audio_format'', JStr ''mp3'')], oo_ytdlp_args = None\<rparr>"
  have d: "distinct (map fst (oo_structured ?o))" by simp
  have ok: "isl (resolve_structured_fields sample_settings_env [] ''music'' None ?o) = False" by code_simp
  then obtain r where r: "resolve_structured_fields sample_settings_env [] ''music'' None ?o = Inr r"
    by (cases "resolve_structured_fields sample_settings_env [] ''music'' None ?o") auto
  have e: "effective_field sample_settings_env [] ''music'' None ?o ''audio_format'' =
     Some \<lparr>rf_value = JStr ''mp3'', rf_layer = ''L6'', rf_source = src_override, rf_field = ''audio_format''\<rparr>"
    by (simp add: effective_field_def layered_def jget_def)
  have q: "effective_field sample_settings_env [] ''music'' None ?o ''audio_quality'' =
     Some \<lparr>rf_value = JStr ''0'', rf_layer = ''L3'', rf_source = src_kind @ ''music'',
       rf_field = ''defaults.music.audio_quality''\<rparr>"
    by code_simp
  from resolve_structured_fields_spec[OF d, of sample_settings_env "[]" "''music''" None] r e q
  show ?thesis by simp
qed

section \<open>What a command is made of\<close>

definition free_ok :: "profile option \<Rightarrow> bool \<Rightarrow> command_kind \<Rightarrow> argument_origin \<Rightarrow> bool" where
  "free_ok prof e kind r \<longleftrightarrow>
     (if ao_field r = Some ''ytdlp_args''
      then list_all (permitted (layer_flags prof e kind (ao_source r))) (managed_names (ao_arguments r))
      else True)"

definition origins_ok :: "profile option \<Rightarrow> bool \<Rightarrow> command_kind \<Rightarrow> command_accumulator \<Rightarrow> bool" where
  "origins_ok prof e kind acc \<longleftrightarrow>
     ac_args acc = concat (map ao_arguments (ac_origins acc)) \<and>
     list_all (free_ok prof e kind) (ac_origins acc)"

lemma origins_ok_empty: "origins_ok prof e kind empty_command"
  by (simp add: origins_ok_def empty_command_def)

lemma origins_ok_add:
  assumes "origins_ok prof e kind acc"
    "field_name = Some ''ytdlp_args'' \<Longrightarrow>
      list_all (permitted (layer_flags prof e kind src)) (managed_names arguments)"
  shows "origins_ok prof e kind (add_args arguments layer src field_name acc)"
  using assms by (simp add: origins_ok_def add_args_def free_ok_def)

lemma origins_kept: "r \<in> set (ac_origins acc) \<Longrightarrow> r \<in> set (ac_origins (add_args a l s f acc))"
  by (simp add: add_args_def)

lemma common_rate_from_ok:
  "common_rate_from env t opts acc = Inr acc' \<Longrightarrow> list_all (\<lambda>(key, _). key \<noteq> ''ytdlp_args'') opts \<Longrightarrow>
   origins_ok prof e kind acc \<Longrightarrow> origins_ok prof e kind acc'"
proof (induction env t opts acc rule: common_rate_from.induct)
  case (2 env t key opt rest acc)
  then obtain v where v: "get_setting env t key = Inr v"
    "common_rate_from env t rest (add_args [opt, py_str env v] ''L2'' src_global (Some key) acc) = Inr acc'"
    by (auto split: sum.splits)
  have "origins_ok prof e kind (add_args [opt, py_str env v] ''L2'' src_global (Some key) acc)"
    using "2.prems"(2) by (intro origins_ok_add "2.prems"(3)) simp
  with 2(1)[OF v(1) v(2)] "2.prems"(2) show ?case by simp
qed simp

lemma common_rate_args_ok:
  "common_rate_args env t acc = Inr acc' \<Longrightarrow> origins_ok prof e kind acc \<Longrightarrow> origins_ok prof e kind acc'"
  unfolding common_rate_args_def
  by (erule common_rate_from_ok) (simp_all add: rate_options_def)

lemma effective_field_label:
  assumes "effective_field env t kind prof overrides f = Some x" "f \<in> set field_order"
  shows "rf_field x \<noteq> ''ytdlp_args''"
proof -
  have "f \<noteq> ''ytdlp_args''" using assms(2) by (auto simp: field_order_def field_to_args_def)
  moreover have "kind_key kind f \<noteq> ''ytdlp_args''" "''download.'' @ f \<noteq> ''ytdlp_args''"
    by (simp_all add: kind_key_def)
  moreover have "rf_field x \<in> {f, kind_key kind f, ''download.'' @ f}"
    using assms(1) by (auto simp: effective_field_def layered_def split: if_splits)
  ultimately show ?thesis by (metis empty_iff insert_iff)
qed

lemma render_from_ok:
  "render_from env fs r acc = Inr acc' \<Longrightarrow>
   (\<And>f x. f \<in> set (map fst fs) \<Longrightarrow> map_of r f = Some x \<Longrightarrow> rf_field x \<noteq> ''ytdlp_args'') \<Longrightarrow>
   origins_ok prof e kind acc \<Longrightarrow> origins_ok prof e kind acc'"
proof (induction env fs r acc rule: render_from.induct)
  case (2 env f render rest r acc)
  have rest: "\<And>g x. g \<in> set (map fst rest) \<Longrightarrow> map_of r g = Some x \<Longrightarrow> rf_field x \<noteq> ''ytdlp_args''"
    by (rule "2.prems"(2)) simp_all
  show ?case
  proof (cases "map_of r f")
    case None
    then show ?thesis using 2(1)[OF None] "2.prems"(1,3) rest by simp
  next
    case (Some x)
    then obtain args where args: "render env (rf_value x) = Inr args"
      "render_from env rest r (add_args args (rf_layer x) (rf_source x) (Some (rf_field x)) acc) = Inr acc'"
      using "2.prems"(1) by (auto split: sum.splits)
    have "rf_field x \<noteq> ''ytdlp_args''" using "2.prems"(2)[of f x] Some by simp
    then have "origins_ok prof e kind (add_args args (rf_layer x) (rf_source x) (Some (rf_field x)) acc)"
      by (intro origins_ok_add "2.prems"(3)) simp
    with 2(2)[OF Some args(1) args(2)] rest show ?thesis by blast
  qed
qed simp

lemma render_structured_ok:
  assumes "distinct (map fst (oo_structured overrides))"
    "resolve_structured_fields env t kind' prof' overrides = Inr r"
    "render_structured env r acc = Inr acc'" "origins_ok prof e kind acc"
  shows "origins_ok prof e kind acc'"
proof (rule render_from_ok[OF assms(3)[unfolded render_structured_def] _ assms(4)])
  fix f x assume f: "f \<in> set (map fst field_to_args)" "map_of r f = Some x"
  have "map_of r f = effective_field env t kind' prof' overrides f"
    using resolve_lookup[OF assms(1,2)] .
  with f show "rf_field x \<noteq> ''ytdlp_args''"
    using effective_field_label[of env t kind' prof' overrides f x] by (simp add: field_order_def)
qed

lemma guard_result:
  assumes "guard_freeform v fl = Inr g"
  shows "list_all (permitted fl) (managed_names (gt_tokens g)) \<and>
    set (gt_reserved_overrides g) = set (managed_names (gt_tokens g)) \<inter> set reserved_options"
proof (cases "v = None \<or> strip (the v) = []")
  case True
  then have "g = no_tokens" using assms by (cases v) (simp_all add: guard_freeform_def)
  then show ?thesis by (simp add: no_tokens_def managed_names_def parse_managed_options_def)
next
  case False
  then obtain s tokens ws ov where s: "shlex_split s = Inr tokens" "gt_tokens g = tokens"
    "guard_loop fl (parse_managed_options tokens) [] [] = Inr (ws, ov)" "gt_reserved_overrides g = ov"
    using assms by (auto simp: guard_freeform_def split: sum.splits option.splits)
  then have "list_all (permitted fl) (managed_names tokens)"
    using guard_loop_fails[of fl "parse_managed_options tokens" "[]" "[]"]
    by (auto simp: managed_names_def)
  with s guard_loop_succeeds[of fl "parse_managed_options tokens" "[]" "[]"] show ?thesis
    by (auto simp: managed_names_def)
qed

lemmas guard_accepted = guard_result[THEN conjunct1]
lemmas guard_reported = guard_result[THEN conjunct2]

lemma guard_layers_ok:
  "guard_layers ls prof e kind = Inr (gs, ws, ov) \<Longrightarrow>
   list_all (\<lambda>(layer, src, g). list_all (permitted (layer_flags prof e kind src)) (managed_names (gt_tokens g))) gs"
proof (induction ls prof e kind arbitrary: gs ws ov rule: guard_layers.induct)
  case (2 layer src v rest prof e kind)
  then obtain g gs' ws' ov' where g: "guard_freeform v (layer_flags prof e kind src) = Inr g"
    "guard_layers rest prof e kind = Inr (gs', ws', ov')" "gs = (layer, src, g) # gs'"
    by (auto split: sum.splits)
  with 2(1)[OF g(1) g(2)] guard_accepted[OF g(1)] show ?case by simp
qed simp

lemma add_guarded_layers_ok:
  assumes "guard_layers ls prof e kind = Inr (gs, ws, ov)" "origins_ok prof e kind acc"
  shows "origins_ok prof e kind (add_guarded_layers gs acc)"
proof -
  have "list_all (\<lambda>(layer, src, g). list_all (permitted (layer_flags prof e kind src))
      (managed_names (gt_tokens g))) gs \<Longrightarrow> origins_ok prof e kind acc \<Longrightarrow>
      origins_ok prof e kind (fold (\<lambda>(layer, src, g). add_args (gt_tokens g) layer src (Some ''ytdlp_args'')) gs acc)"
    for acc
    by (induction gs arbitrary: acc) (auto intro: origins_ok_add)
  then show ?thesis using guard_layers_ok[OF assms(1)] assms(2) by (simp add: add_guarded_layers_def)
qed

lemma validate_source_url_same: "validate_source_url b v = Inr url \<Longrightarrow> url = v"
  by (auto simp: validate_source_url_def Let_def split: option.splits if_splits)

lemma finish_commandD:
  assumes "finish_command (add_args [''--'', url] l s f acc) ws p timeout = Inr cmd"
    "origins_ok prof e kind acc" "f \<noteq> Some ''ytdlp_args''"
  shows "bc_args cmd = concat (map ao_arguments (bc_origins cmd))"
    "list_all (free_ok prof e kind) (bc_origins cmd)"
    "bc_args cmd = ac_args acc @ [''--'', url]" "bc_resolved_output_path cmd = p"
    "set (ac_origins acc) \<subseteq> set (bc_origins cmd)"
proof -
  have "origins_ok prof e kind (add_args [''--'', url] l s f acc)"
    using assms(2,3) by (intro origins_ok_add) simp_all
  moreover obtain to where "cmd = \<lparr>bc_args = ac_args (add_args [''--'', url] l s f acc),
      bc_origins = ac_origins (add_args [''--'', url] l s f acc), bc_warnings = dedup ws,
      bc_resolved_output_path = p, bc_timeout = to\<rparr>"
    using assms(1) by (cases timeout) (auto simp: finish_command_def)
  ultimately show "bc_args cmd = concat (map ao_arguments (bc_origins cmd))"
    "list_all (free_ok prof e kind) (bc_origins cmd)"
    "bc_args cmd = ac_args acc @ [''--'', url]" "bc_resolved_output_path cmd = p"
    "set (ac_origins acc) \<subseteq> set (bc_origins cmd)"
    by (auto simp: origins_ok_def add_args_def)
qed

lemma common_start_ok:
  assumes "common_rate_args env t empty_command = Inr acc"
    "resolve_structured_fields env t k p overrides = Inr r"
    "render_structured env r acc = Inr acc1" "distinct (map fst (oo_structured overrides))"
  shows "origins_ok prof e kind acc1"
  using render_structured_ok[OF assms(4,2,3) common_rate_args_ok[OF assms(1) origins_ok_empty]] .

lemma add_filename_policy_ok:
  assumes "add_filename_policy env t strategy acc = Inr acc'" "origins_ok prof e kind acc"
  shows "origins_ok prof e kind acc'"
proof -
  have "origins_ok prof e kind (add_args [''--windows-filenames''] ''L2'' src_filename None acc)"
    by (intro origins_ok_add assms(2)) simp
  then show ?thesis
    using assms(1) by (auto simp: add_filename_policy_def Let_def split: if_splits sum.splits
        intro!: origins_ok_add)
qed

lemma add_output_args_ok:
  assumes "origins_ok prof e kind acc"
  shows "origins_ok prof e kind (add_output_args work_root out strategy ov acc)"
  unfolding add_output_args_def Let_def
  by (auto intro!: origins_ok_add assms)

definition has_output :: "string \<Rightarrow> command_accumulator \<Rightarrow> bool" where
  "has_output out acc \<longleftrightarrow>
     (\<exists>r \<in> set (ac_origins acc). ao_layer r = ''L1'' \<and> ao_arguments r = [''--output'', out])"

lemma has_output_here: "has_output out (add_args [''--output'', out] ''L1'' s f acc)"
  by (simp add: has_output_def add_args_def)

lemma has_output_add: "has_output out acc \<Longrightarrow> has_output out (add_args a l s f acc)"
  unfolding has_output_def using origins_kept by blast

lemma has_output_if: "has_output out x \<Longrightarrow> has_output out y \<Longrightarrow> has_output out (if c then x else y)"
  by simp

lemma add_output_args_output: "has_output out (add_output_args work_root out strategy ov acc)"
  unfolding add_output_args_def Let_def
  by (intro has_output_if has_output_add has_output_here)


definition sample_request :: download_request where
  "sample_request = \<lparr>dq_target_id = Some 7, dq_source_url = ''https://a.b/v'', dq_staging_dir = ''/s'',
     dq_work_id = ''w'', dq_playlist = None, dq_profile = None, dq_subpath = None, dq_kind = None,
     dq_overrides = \<lparr>oo_structured = [], oo_ytdlp_args = Some ''--geo-bypass''\<rparr>, dq_env_allow_exec = False\<rparr>"


lemma guard_layers_reserved:
  "guard_layers ls prof e kind = Inr (gs, ws, []) \<Longrightarrow>
   list_all (\<lambda>(layer, src, g). set (managed_names (gt_tokens g)) \<inter> set reserved_options = {}) gs"
proof (induction ls prof e kind arbitrary: gs ws rule: guard_layers.induct)
  case (2 layer src v rest prof e kind)
  then obtain g gs' ws' where g: "guard_freeform v (layer_flags prof e kind src) = Inr g"
    "guard_layers rest prof e kind = Inr (gs', ws', [])" "gs = (layer, src, g) # gs'"
    "gt_reserved_overrides g = []"
    by (auto split: sum.splits)
  have "set (managed_names (gt_tokens g)) \<inter> set reserved_options = {}"
    using guard_reported[OF g(1)] g(4) by simp
  with 2(1)[OF g(1) g(2)] g(3) show ?case by simp
qed simp

definition no_reserved :: "argument_origin \<Rightarrow> bool" where
  "no_reserved r \<longleftrightarrow> (if ao_field r = Some ''ytdlp_args''
     then set (managed_names (ao_arguments r)) \<inter> set reserved_options = {} else True)"

lemma free_ok_strict: "free_ok None False kind r \<Longrightarrow> no_reserved r"
  by (auto simp: free_ok_def no_reserved_def permitted_def layer_flags_def list_all_iff split: if_splits)

lemma guarded_no_reserved:
  "list_all (\<lambda>(layer, src, g). set (managed_names (gt_tokens g)) \<inter> set reserved_options = {}) gs \<Longrightarrow>
   list_all no_reserved (ac_origins acc) \<Longrightarrow> list_all no_reserved (ac_origins (add_guarded_layers gs acc))"
proof (induction gs arbitrary: acc)
  case (Cons x gs)
  obtain layer src g where x: "x = (layer, src, g)" by (cases x)
  let ?acc = "add_args (gt_tokens g) layer src (Some ''ytdlp_args'') acc"
  have "no_reserved \<lparr>ao_arguments = gt_tokens g, ao_layer = layer, ao_source = src,
      ao_field = Some ''ytdlp_args''\<rparr>"
    using Cons.prems(1) x by (simp add: no_reserved_def)
  then have "list_all no_reserved (ac_origins ?acc)"
    using Cons.prems(2) by (simp add: add_args_def)
  with Cons show ?case by (simp add: x add_guarded_layers_def)
qed (simp add: add_guarded_layers_def)

text \<open>
  The command of a format probe consists of exactly its recorded origins, ends in \<open>--\<close> and
  the validated URL, simulates, ignores other configuration and single-item only, and no free text in
  it contains a reserved option, whatever expert mode and the exec flags allow elsewhere.
\<close>

theorem build_format_probe_args_safe:
  assumes "build_format_probe_args env t prof url env_allow_exec = Inr cmd"
  shows "bc_args cmd = concat (map ao_arguments (bc_origins cmd)) \<and>
    (\<exists>before. bc_args cmd = before @ [''--ignore-config'', ''--simulate'', ''--no-playlist'',
       ''--print'', print_prefix @ ''%()j'', ''--'', url]) \<and>
    validate_source_url (se_brackets_ok env) url = Inr url \<and>
    list_all no_reserved (bc_origins cmd) \<and> bc_resolved_output_path cmd = None"
proof -
  obtain u acc r acc1 gs ws where
    url: "validate_source_url (se_brackets_ok env) url = Inr u" and
    acc: "common_rate_args env t empty_command = Inr acc" and
    r: "resolve_structured_fields env t (profile_kind_value (pf_kind prof)) (Some prof) no_overrides = Inr r" and
    acc1: "render_structured env r acc = Inr acc1" and
    gs: "guard_layers [(''L4'', ''Profile '' @ pf_name prof, pf_ytdlp_args prof)]
       (Some prof) env_allow_exec CK_Download = Inr (gs, ws, [])" and
    fin: "finish_command
       (add_args [''--'', u] ''L1'' src_probe_url (Some ''source_url'')
         (add_args [''--print'', print_prefix @ ''%()j''] ''L1'' src_probe None
           (add_args [''--ignore-config'', ''--simulate'', ''--no-playlist''] ''L1'' src_probe None
             (add_guarded_layers gs acc1)))) ws None (timeout_of env t CK_Discover) = Inr cmd"
    using assms unfolding build_format_probe_args_def
    by (auto split: sum.splits if_splits)
  let ?acc2 = "add_args [''--ignore-config'', ''--simulate'', ''--no-playlist''] ''L1'' src_probe None
      (add_guarded_layers gs acc1)"
  let ?acc3 = "add_args [''--print'', print_prefix @ ''%()j''] ''L1'' src_probe None ?acc2"
  have d: "distinct (map fst (oo_structured no_overrides))" by (simp add: no_overrides_def)
  have start: "origins_ok (Some prof) env_allow_exec CK_Download acc1"
    by (rule common_start_ok[OF acc r acc1 d])
  have ok: "origins_ok (Some prof) env_allow_exec CK_Download ?acc3"
    by (intro origins_ok_add add_guarded_layers_ok[OF gs start]) simp_all
  have ne: "Some ''source_url'' \<noteq> Some ''ytdlp_args''" by simp
  note cmd = finish_commandD[OF fin ok ne]
  have u: "u = url" using validate_source_url_same[OF url] .
  have "bc_args cmd = ac_args (add_guarded_layers gs acc1) @ [''--ignore-config'', ''--simulate'', ''--no-playlist'',
       ''--print'', print_prefix @ ''%()j'', ''--'', url]"
    unfolding cmd(3) u by (simp add: add_args_def)
  moreover have "list_all (free_ok None False CK_Download) (ac_origins acc1)"
    using common_start_ok[OF acc r acc1 d] unfolding origins_ok_def by blast
  then have "list_all no_reserved (ac_origins acc1)"
    using free_ok_strict unfolding list_all_iff by blast
  then have "list_all no_reserved (ac_origins (add_guarded_layers gs acc1))"
    by (rule guarded_no_reserved[OF guard_layers_reserved[OF gs]])
  then have "list_all no_reserved (bc_origins cmd)"
    using fin by (cases "timeout_of env t CK_Discover")
       (auto simp: finish_command_def add_args_def no_reserved_def)
  ultimately show ?thesis using url u cmd(1,4) by blast
qed

definition sample_profile :: profile where
  "sample_profile = \<lparr>pf_name = ''p'', pf_description = None, pf_kind = PK_Music,
     pf_ytdlp_args = Some ''--geo-bypass'', pf_format_selector = None, pf_output_template = None,
     pf_layout_strategy = LS_Flat, pf_audio_extract = None, pf_audio_format = None,
     pf_audio_quality = None, pf_container = None, pf_embed_metadata = None,
     pf_embed_thumbnail = None, pf_embed_chapters = None, pf_subtitle_langs = None,
     pf_subtitle_auto = None, pf_subtitle_embed = None, pf_expert_mode = True, pf_allow_exec = True,
     pf_concurrent_fragments = Some 2, pf_postprocess_chain_json = None, pf_created_at = 0, pf_updated_at = 0\<rparr>"

theorem build_format_probe_args_safe_witness:
  "\<exists>cmd. build_format_probe_args sample_settings_env [] sample_profile ''http://a.b/v'' True = Inr cmd \<and>
     list_all no_reserved (bc_origins cmd)"
proof -
  have ok: "isl (build_format_probe_args sample_settings_env [] sample_profile ''http://a.b/v'' True) = False"
    by code_simp
  then obtain cmd where cmd:
    "build_format_probe_args sample_settings_env [] sample_profile ''http://a.b/v'' True = Inr cmd"
    by (cases "build_format_probe_args sample_settings_env [] sample_profile ''http://a.b/v'' True") auto
  from build_format_probe_args_safe[OF cmd] cmd show ?thesis by blast
qed

section \<open>Options the guard does not recognise\<close>

text \<open>
  The guard compares whole option names: short flags written together, which the option parser of
  yt-dlp (Python's \<open>optparse\<close>) reads as \<open>-q -o out.mp4\<close>, pass without any flag.
\<close>

lemma guard_misses_clustered_flags:
  "guard_freeform (Some ''-qo out.mp4'') (layer_flags None False CK_Download src) =
     Inr \<lparr>gt_tokens = [''-qo'', ''out.mp4''], gt_warnings = [], gt_reserved_overrides = []\<rparr>"
  by code_simp

end
