(* ===== verification/Discovery_Theorems.thy ===== *)
theory Discovery_Theorems
  imports Sync
begin

text \<open>
  What a discovery does to the items and Targets of a playlist: the step-wise effect of the upserts
  and of the membership transitions, and the theorem that afterwards the items are exactly the union
  of the known and the listed ones, active when listed, with Targets for the new ones.
\<close>

section \<open>Keys of items\<close>

definition present :: "item table \<Rightarrow> int \<Rightarrow> string \<Rightarrow> bool" where
  "present its pid s \<longleftrightarrow> (\<exists>i it. tget its i = Some it \<and> it_playlist_id it = pid \<and> it_source_id it = s)"

definition unique_sources :: "item table \<Rightarrow> bool" where
  "unique_sources its \<longleftrightarrow> (\<forall>i j a b. tget its i = Some a \<and> tget its j = Some b \<and>
     it_playlist_id a = it_playlist_id b \<and> it_source_id a = it_source_id b \<longrightarrow> i = j)"

text \<open>What an update of an item keeps: its key, and its membership where nothing else is said.\<close>

definition same_key :: "item \<Rightarrow> item \<Rightarrow> bool" where
  "same_key a b \<longleftrightarrow> it_playlist_id b = it_playlist_id a \<and> it_source_id b = it_source_id a"

lemma same_key_refl [simp]: "same_key a a" by (simp add: same_key_def)

lemma refresh_item_keeps:
  "it_source_id it = en_source_id e \<Longrightarrow>
   same_key it (refresh_item e seen now it) \<and> it_membership (refresh_item e seen now it) = it_membership it"
  by (simp add: refresh_item_def Let_def same_key_def)

lemma unique_sources_keys:
  assumes "unique_sources its" "\<And>i b. tget its' i = Some b \<Longrightarrow> \<exists>a. tget its i = Some a \<and> same_key a b"
  shows "unique_sources its'"
  unfolding unique_sources_def
proof (intro allI impI, elim conjE)
  fix i j a b
  assume "tget its' i = Some a" "tget its' j = Some b"
    and eq: "it_playlist_id a = it_playlist_id b" "it_source_id a = it_source_id b"
  then obtain a' b' where "tget its i = Some a'" "same_key a' a" "tget its j = Some b'" "same_key b' b"
    using assms(2) by meson
  with eq assms(1) show "i = j" unfolding unique_sources_def same_key_def by metis
qed

section \<open>Upserts\<close>

lemma get_by_source_id_iff:
  assumes "wf_table its" "get_by_source_id pid s its = Some (i, it)"
  shows "tget its i = Some it \<and> it_playlist_id it = pid \<and> it_source_id it = s"
proof -
  have "(i, it) \<in> set its \<and> it_playlist_id it = pid \<and> it_source_id it = s"
    using assms(2) by (auto simp: get_by_source_id_def find_Some_iff) (metis nth_mem)
  with assms(1) show ?thesis by (simp add: tget_iff)
qed

lemma get_by_source_id_None:
  "wf_table its \<Longrightarrow> get_by_source_id pid s its = None \<longleftrightarrow> \<not> present its pid s"
  by (auto simp: get_by_source_id_def find_None_iff present_def tget_iff)

text \<open>The relation between the items before and after some upserts into playlist \<open>pid\<close>.\<close>

definition upserted :: "int \<Rightarrow> string set \<Rightarrow> item table \<Rightarrow> item table \<Rightarrow> bool" where
  "upserted pid S its its' \<longleftrightarrow>
     (\<forall>i a. tget its i = Some a \<longrightarrow> (\<exists>b. tget its' i = Some b \<and> same_key a b \<and>
        it_membership b = it_membership a \<and> (it_playlist_id a \<noteq> pid \<longrightarrow> b = a))) \<and>
     (\<forall>i b. tget its' i = Some b \<and> tget its i = None \<longrightarrow> it_playlist_id b = pid \<and>
        it_membership b = IM_Active \<and> it_source_id b \<in> S \<and> \<not> present its pid (it_source_id b)) \<and>
     (\<forall>s \<in> S. present its' pid s)"

lemma upsertedD:
  assumes "upserted pid S its its'"
  shows "tget its i = Some a \<Longrightarrow> \<exists>b. tget its' i = Some b \<and> same_key a b \<and>
      it_membership b = it_membership a \<and> (it_playlist_id a \<noteq> pid \<longrightarrow> b = a)"
    and "tget its' i = Some b \<Longrightarrow> tget its i = None \<Longrightarrow> it_playlist_id b = pid \<and>
      it_membership b = IM_Active \<and> it_source_id b \<in> S \<and> \<not> present its pid (it_source_id b)"
    and "s \<in> S \<Longrightarrow> present its' pid s"
  using assms unfolding upserted_def by blast+

lemma upsertedI:
  assumes "\<And>i a. tget its i = Some a \<Longrightarrow> \<exists>b. tget its' i = Some b \<and> same_key a b \<and>
      it_membership b = it_membership a \<and> (it_playlist_id a \<noteq> pid \<longrightarrow> b = a)"
    and "\<And>i b. tget its' i = Some b \<Longrightarrow> tget its i = None \<Longrightarrow> it_playlist_id b = pid \<and>
      it_membership b = IM_Active \<and> it_source_id b \<in> S \<and> \<not> present its pid (it_source_id b)"
    and "\<And>s. s \<in> S \<Longrightarrow> present its' pid s"
  shows "upserted pid S its its'"
  using assms unfolding upserted_def by blast

lemma upserted_present: "upserted pid S its its' \<Longrightarrow> present its q s \<Longrightarrow> present its' q s"
  unfolding present_def by (metis same_key_def upsertedD(1))

lemma upserted_trans:
  assumes "upserted pid S its us" "upserted pid T us vs"
  shows "upserted pid (S \<union> T) its vs"
proof (rule upsertedI)
  fix i a
  assume "tget its i = Some a"
  with upsertedD(1)[OF assms(1)] obtain b where b: "tget us i = Some b" "same_key a b"
    "it_membership b = it_membership a" "it_playlist_id a \<noteq> pid \<longrightarrow> b = a" by blast
  with upsertedD(1)[OF assms(2) b(1)] show "\<exists>c. tget vs i = Some c \<and> same_key a c \<and>
      it_membership c = it_membership a \<and> (it_playlist_id a \<noteq> pid \<longrightarrow> c = a)"
    unfolding same_key_def by metis
next
  fix i c
  assume c: "tget vs i = Some c" "tget its i = None"
  show "it_playlist_id c = pid \<and> it_membership c = IM_Active \<and> it_source_id c \<in> S \<union> T \<and>
      \<not> present its pid (it_source_id c)"
  proof (cases "tget us i")
    case None
    with c upsertedD(2)[OF assms(2)] upserted_present[OF assms(1)] show ?thesis by blast
  next
    case (Some b)
    from upsertedD(2)[OF assms(1) Some c(2)] upsertedD(1)[OF assms(2) Some] c(1)
    show ?thesis unfolding same_key_def by auto
  qed
next
  fix s
  assume "s \<in> S \<union> T"
  with upsertedD(3)[OF assms(1)] upsertedD(3)[OF assms(2)] upserted_present[OF assms(2)]
  show "present vs pid s" by blast
qed

lemma upsert_one_ok:
  assumes "wf_table its" "unique_sources its" "upsert_one pid seen now e its = (i, its')"
  shows "wf_table its' \<and> unique_sources its' \<and> upserted pid {en_source_id e} its its' \<and>
    (\<exists>b. tget its' i = Some b \<and> it_playlist_id b = pid \<and> it_source_id b = en_source_id e)"
proof (cases "get_by_source_id pid (en_source_id e) its")
  case None
  let ?n = "new_item pid e seen now"
  have new: "\<not> present its pid (en_source_id e)" using None get_by_source_id_None[OF assms(1)] by blast
  have r: "i = fresh_id its" "its' = insert_row ?n its" using None assms(3) by (auto simp: upsert_one_def)
  have n: "it_playlist_id ?n = pid" "it_source_id ?n = en_source_id e" "it_membership ?n = IM_Active"
    by (simp_all add: new_item_def)
  have "unique_sources its'"
    unfolding unique_sources_def
  proof (intro allI impI, elim conjE)
    fix j k a b
    assume "tget its' j = Some a" "tget its' k = Some b" "it_playlist_id a = it_playlist_id b"
      "it_source_id a = it_source_id b"
    with new n assms(2) show "j = k"
      by (auto simp: r tget_insert_row present_def unique_sources_def split: if_splits)
  qed
  moreover have "upserted pid {en_source_id e} its its'"
    using new n tget_fresh[of its]
    by (auto simp: upserted_def r tget_insert_row present_def split: if_splits)
  ultimately show ?thesis using assms(1) n by (auto simp: r tget_insert_row)
next
  case (Some x)
  obtain j a where x: "x = (j, a)" by (cases x)
  have a: "tget its j = Some a" "it_playlist_id a = pid" "it_source_id a = en_source_id e"
    using get_by_source_id_iff[OF assms(1), of pid "en_source_id e" j a] Some x by auto
  let ?f = "refresh_item e seen now"
  have r: "i = j" "its' = set_row j ?f its" using Some x assms(3) by (auto simp: upsert_one_def)
  have f: "same_key a (?f a)" "it_membership (?f a) = it_membership a"
    using refresh_item_keeps[OF a(3)] by auto
  have "unique_sources its'"
    using assms(2) by (rule unique_sources_keys) (use a f in \<open>auto simp: r split: if_splits\<close>)
  moreover have "upserted pid {en_source_id e} its its'"
  proof (rule upsertedI)
    fix i b
    assume "tget its i = Some b"
    then show "\<exists>c. tget its' i = Some c \<and> same_key b c \<and> it_membership c = it_membership b \<and>
        (it_playlist_id b \<noteq> pid \<longrightarrow> c = b)"
      using a f by (auto simp: r)
  qed (use a f in \<open>auto simp: r present_def same_key_def split: if_splits\<close>)
  ultimately show ?thesis using assms(1) a f by (auto simp: r same_key_def)
qed

lemma upsert_many_ok:
  "wf_table its \<Longrightarrow> unique_sources its \<Longrightarrow> upsert_many pid seen now es its = (is, its') \<Longrightarrow>
   wf_table its' \<and> unique_sources its' \<and> upserted pid (en_source_id ` set es) its its' \<and>
   (\<forall>i. i \<in> set is \<longleftrightarrow> (\<exists>b. tget its' i = Some b \<and> it_playlist_id b = pid \<and>
      it_source_id b \<in> en_source_id ` set es))"
proof (induction es arbitrary: its "is")
  case Nil
  then show ?case by (auto simp: upserted_def)
next
  case (Cons e es)
  obtain i us where one: "upsert_one pid seen now e its = (i, us)" by (cases "upsert_one pid seen now e its")
  obtain js where many: "upsert_many pid seen now es us = (js, its')" "is = i # js"
    using Cons.prems(3) one by (auto split: prod.splits)
  note 1 = upsert_one_ok[OF Cons.prems(1,2) one]
  then have 2: "wf_table its' \<and> unique_sources its' \<and> upserted pid (en_source_id ` set es) us its' \<and>
    (\<forall>i. i \<in> set js \<longleftrightarrow> (\<exists>b. tget its' i = Some b \<and> it_playlist_id b = pid \<and>
      it_source_id b \<in> en_source_id ` set es))"
    using Cons.IH[OF _ _ many(1)] by blast
  have up: "upserted pid (en_source_id ` set (e # es)) its its'"
    using upserted_trans[of pid "{en_source_id e}" its us "en_source_id ` set es" its'] 1 2 by simp
  obtain b where b: "tget us i = Some b" "it_playlist_id b = pid" "it_source_id b = en_source_id e"
    using 1 by blast
  then obtain c where c: "tget its' i = Some c" "it_playlist_id c = pid" "it_source_id c = en_source_id e"
    using 2 upsertedD(1)[of pid _ us its' i b] unfolding same_key_def by metis
  have uniq: "k = i" if "tget its' k = Some d" "it_playlist_id d = pid" "it_source_id d = en_source_id e" for k d
    using 2 that c unfolding unique_sources_def by metis
  have "k \<in> set is \<longleftrightarrow> (\<exists>d. tget its' k = Some d \<and> it_playlist_id d = pid \<and>
      it_source_id d \<in> en_source_id ` set (e # es))" for k
  proof
    assume "k \<in> set is"
    then have "k = i \<or> k \<in> set js" by (simp add: many(2))
    then show "\<exists>d. tget its' k = Some d \<and> it_playlist_id d = pid \<and> it_source_id d \<in> en_source_id ` set (e # es)"
      using 2 c by auto
  next
    assume "\<exists>d. tget its' k = Some d \<and> it_playlist_id d = pid \<and> it_source_id d \<in> en_source_id ` set (e # es)"
    then obtain d where d: "tget its' k = Some d" "it_playlist_id d = pid"
      "it_source_id d = en_source_id e \<or> it_source_id d \<in> en_source_id ` set es" by auto
    then have "k = i \<or> k \<in> set js" using uniq 2 by blast
    then show "k \<in> set is" by (auto simp: many(2))
  qed
  with 2 up show ?case by blast
qed

section \<open>Membership transitions\<close>

lemma transition_item_ok:
  assumes "wf_table its" "tget its i = Some it" "it_membership it \<noteq> m"
  shows "transition_item its i m now its = (Inr True, set_row i (membership_row m now) its)"
proof -
  have "0 < rowcount (\<lambda>j r. j = i \<and> it_membership r \<in> {it_membership it}) its"
    using assms by (auto simp: rowcount_pos_iff)
  moreover have "update_where (\<lambda>j r. j = i \<and> it_membership r \<in> {it_membership it}) (membership_row m now) its
      = set_row i (membership_row m now) its"
    using assms by (auto simp: set_row_def update_where_def tget_iff)
  ultimately show ?thesis
    using assms(2,3) by (simp add: transition_item_def compare_and_set_membership_def Let_def)
qed

lemma transition_items_ok:
  "wf_table its \<Longrightarrow> distinct is \<Longrightarrow> (\<And>i. i \<in> set is \<Longrightarrow> \<exists>it. tget its i = Some it \<and> it_membership it \<noteq> m) \<Longrightarrow>
   transition_items is m now its = (Inr True, update_where (\<lambda>i _. i \<in> set is) (membership_row m now) its)"
proof (induction "is" arbitrary: its)
  case Nil
  then show ?case by (simp add: update_where_def)
next
  case (Cons i "is")
  let ?f = "membership_row m now"
  obtain it where it: "tget its i = Some it" "it_membership it \<noteq> m" using Cons.prems(3) by auto
  have "transition_items is m now (set_row i ?f its) =
      (Inr True, update_where (\<lambda>i _. i \<in> set is) ?f (set_row i ?f its))"
    using Cons.prems by (intro Cons.IH) auto
  moreover have "update_where (\<lambda>i _. i \<in> set is) ?f (set_row i ?f its) =
      update_where (\<lambda>j _. j \<in> set (i # is)) ?f its"
    using Cons.prems(2) by (auto simp: update_where_def set_row_def)
  ultimately show ?case using transition_item_ok[OF Cons.prems(1) it] by simp
qed

section \<open>Targets for new items\<close>

definition pairs_inserted :: "instant \<Rightarrow> (int \<times> int) list \<Rightarrow> target table \<Rightarrow> target table" where
  "pairs_inserted now ps tgs = fold (\<lambda>(i, a). insert_row (new_target i a now)) ps tgs"

lemma pairs_inserted_simps [simp]:
  "pairs_inserted now [] tgs = tgs"
  "pairs_inserted now ((i, a) # ps) tgs = pairs_inserted now ps (insert_row (new_target i a now) tgs)"
  by (simp_all add: pairs_inserted_def)

lemma pairs_inserted_old:
  "tget tgs j = Some t \<Longrightarrow> tget (pairs_inserted now ps tgs) j = Some t"
proof (induction ps arbitrary: tgs)
  case (Cons p ps)
  have "j \<noteq> fresh_id tgs" using Cons.prems by auto
  with Cons show ?case by (cases p) (simp add: tget_insert_row)
qed simp

lemma pairs_inserted_has:
  "has_target (pairs_inserted now ps tgs) p \<longleftrightarrow> has_target tgs p \<or> p \<in> set ps"
proof (induction ps arbitrary: tgs)
  case (Cons q ps)
  obtain i a where "q = (i, a)" by (cases q)
  then show ?case by (simp add: Cons.IH has_target_insert) blast
qed simp

lemma pairs_inserted_new:
  "tget (pairs_inserted now ps tgs) j = Some t \<Longrightarrow> tget tgs j = None \<Longrightarrow> tg_status t = TG_Pending"
proof (induction ps arbitrary: tgs)
  case (Cons p ps)
  let ?us = "insert_row (new_target (fst p) (snd p) now) tgs"
  have eq: "pairs_inserted now (p # ps) tgs = pairs_inserted now ps ?us"
    by (cases p) simp
  show ?case
  proof (cases "tget ?us j")
    case None
    with Cons.IH Cons.prems(1) eq show ?thesis by simp
  next
    case (Some u)
    then have "tget (pairs_inserted now ps ?us) j = Some u" by (rule pairs_inserted_old)
    with Some Cons.prems eq show ?thesis by (auto simp: tget_insert_row new_target_def split: if_splits)
  qed
qed simp

lemma create_missing_eq:
  "create_missing_for_items is as now tgs = pairs_inserted now (missing_pairs is as tgs) tgs"
proof -
  have "List.product xs ([] :: int list) = []" for xs :: "int list" by (induction xs) simp_all
  then show ?thesis
    by (simp add: create_missing_for_items_def pairs_inserted_def missing_pairs_def)
qed

lemma create_missing_has:
  "has_target (create_missing_for_items is as now tgs) (i, a) \<longleftrightarrow>
     has_target tgs (i, a) \<or> i \<in> set is \<and> a \<in> set as"
  by (auto simp: create_missing_eq pairs_inserted_has missing_pairs_def)

section \<open>A discovery\<close>

lemma discovered_found:
  "set (map fst (by_source_id es)) = en_source_id ` set es"
  "distinct (map fst (by_source_id es))"
  "\<And>s e. (s, e) \<in> set (by_source_id es) \<Longrightarrow> en_source_id e = s \<and> e \<in> set es"
proof -
  let ?upd = "\<lambda>es d. fold (\<lambda>e d. AList.update (en_source_id e) e d) es (d :: (string \<times> entry) list)"
  have keys: "set (map fst (?upd es d)) = en_source_id ` set es \<union> set (map fst d)" for es d
    by (induction es arbitrary: d) (auto simp: update_keys simp del: set_map)
  have dist: "distinct (map fst d) \<Longrightarrow> distinct (map fst (?upd es d))" for es d
    by (induction es arbitrary: d) (simp_all add: distinct_update)
  have vals: "(\<forall>(s, e) \<in> set d. en_source_id e = s \<and> e \<in> A) \<Longrightarrow> set es \<subseteq> A \<Longrightarrow>
      \<forall>(s, e) \<in> set (?upd es d). en_source_id e = s \<and> e \<in> A" for es d A
  proof (induction es arbitrary: d)
    case (Cons e es)
    have "set (AList.update (en_source_id e) e d) \<subseteq> insert (en_source_id e, e) (set d)"
      by (induction d) auto
    then have "\<forall>(s, e') \<in> set (AList.update (en_source_id e) e d). en_source_id e' = s \<and> e' \<in> A"
      using Cons.prems by auto
    with Cons.IH[of "AList.update (en_source_id e) e d"] Cons.prems(2) show ?case by simp
  qed simp
  show "set (map fst (by_source_id es)) = en_source_id ` set es"
    using keys[of es "[]"] by (simp add: by_source_id_def)
  show "distinct (map fst (by_source_id es))"
    using dist[of "[]" es] by (simp add: by_source_id_def)
  show "\<And>s e. (s, e) \<in> set (by_source_id es) \<Longrightarrow> en_source_id e = s \<and> e \<in> set es"
    using vals[of "[]" "set es" es] unfolding by_source_id_def by auto
qed

lemma discovered_sources:
  "en_source_id ` set (map snd (discovered_entries es)) = set (map fst (discovered_entries es))"
  "distinct (map fst (discovered_entries es))"
proof -
  let ?d = "discovered_entries es"
  have "\<And>s e. (s, e) \<in> set ?d \<Longrightarrow> en_source_id e = s"
    using discovered_found(3) unfolding discovered_entries_def by blast
  then show "en_source_id ` set (map snd ?d) = set (map fst ?d)" by force
  show "distinct (map fst ?d)" using discovered_found(2) unfolding discovered_entries_def by blast
qed

lemma ids_filter_rows:
  assumes "wf_table t"
  shows "distinct (map fst (filter q (select_where p t)))"
    and "i \<in> set (map fst (filter (\<lambda>(_, r). q' r) (select_where p t))) \<longleftrightarrow>
      (\<exists>r. tget t i = Some r \<and> p i r \<and> q' r)"
proof -
  have "distinct (map fst (filter q' (filter p' t)))" for p' q'
    using assms by (simp add: wf_table_def ids_def distinct_map_filter)
  then show "distinct (map fst (filter q (select_where p t)))" by (simp add: select_where_def)
  show "i \<in> set (map fst (filter (\<lambda>(_, r). q' r) (select_where p t))) \<longleftrightarrow>
      (\<exists>r. tget t i = Some r \<and> p i r \<and> q' r)"
    using select_where_iff[OF assms, of i _ p] by force
qed

text \<open>What a discovery of the sources \<open>found\<close> makes of the items of playlist \<open>pid\<close>.\<close>

definition discovery_items :: "int \<Rightarrow> string set \<Rightarrow> item table \<Rightarrow> item table \<Rightarrow> bool" where
  "discovery_items pid found its its' \<longleftrightarrow>
     wf_table its' \<and> unique_sources its' \<and>
     (\<forall>s. present its' pid s \<longleftrightarrow> present its pid s \<or> s \<in> found) \<and>
     (\<forall>i it. tget its' i = Some it \<and> it_playlist_id it = pid \<longrightarrow>
        (it_membership it = IM_Active \<longleftrightarrow> it_source_id it \<in> found)) \<and>
     (\<forall>i a. tget its i = Some a \<longrightarrow> (\<exists>b. tget its' i = Some b \<and> same_key a b \<and>
        (it_playlist_id a \<noteq> pid \<longrightarrow> b = a)))"

text \<open>The membership a known row ends up with, after both transition loops.\<close>

lemma membership_rows_key [simp]: "same_key a (membership_row m now b) = same_key a b"
  "it_source_id (membership_row m now b) = it_source_id b"
  "it_playlist_id (membership_row m now b) = it_playlist_id b"
  by (simp_all add: same_key_def membership_row_def)

lemma item_membership_not: "m \<noteq> IM_Active \<longleftrightarrow> m = IM_Delisted"
  by (cases m) auto

lemma discovery_transitions:
  assumes wf: "wf_table its" "wf_table its1" "unique_sources its1"
    and up: "upserted pid found its its1"
  shows "\<exists>its2 its3. transition_items (to_delist pid found its) IM_Delisted seen its1 = (Inr True, its2) \<and>
     transition_items (to_reactivate pid found its) IM_Active seen its2 = (Inr True, its3) \<and>
     discovery_items pid found its its3 \<and>
     (\<forall>i it. tget its3 i = Some it \<longrightarrow> (\<exists>a. tget its1 i = Some a \<and> same_key a it)) \<and>
     ids its3 = ids its1"
proof -
  let ?D = "set (to_delist pid found its)" and ?R = "set (to_reactivate pid found its)"
  let ?its2 = "update_where (\<lambda>i _. i \<in> ?D) (membership_row IM_Delisted seen) its1"
  let ?its3 = "update_where (\<lambda>i _. i \<in> ?R) (membership_row IM_Active seen) ?its2"
  have D: "i \<in> ?D \<longleftrightarrow> (\<exists>it. tget its i = Some it \<and> it_playlist_id it = pid \<and>
      it_membership it = IM_Active \<and> it_source_id it \<notin> found)" for i
    unfolding to_delist_def list_items_for_playlist_def by (subst ids_filter_rows(2)[OF wf(1)]) blast
  have R: "i \<in> ?R \<longleftrightarrow> (\<exists>it. tget its i = Some it \<and> it_playlist_id it = pid \<and>
      it_membership it = IM_Delisted \<and> it_source_id it \<in> found)" for i
    unfolding to_reactivate_def list_items_for_playlist_def by (subst ids_filter_rows(2)[OF wf(1)]) blast
  have t2: "transition_items (to_delist pid found its) IM_Delisted seen its1 = (Inr True, ?its2)"
  proof (rule transition_items_ok[OF wf(2)])
    show "distinct (to_delist pid found its)"
      unfolding to_delist_def list_items_for_playlist_def by (rule ids_filter_rows(1)[OF wf(1)])
    fix i assume "i \<in> ?D"
    then show "\<exists>it. tget its1 i = Some it \<and> it_membership it \<noteq> IM_Delisted"
      using upsertedD(1)[OF up, of i] by (auto simp: D)
  qed
  have t3: "transition_items (to_reactivate pid found its) IM_Active seen ?its2 = (Inr True, ?its3)"
  proof (rule transition_items_ok)
    show "wf_table ?its2" using wf(2) by simp
    show "distinct (to_reactivate pid found its)"
      unfolding to_reactivate_def list_items_for_playlist_def by (rule ids_filter_rows(1)[OF wf(1)])
    fix i assume "i \<in> ?R"
    then obtain it where it: "tget its i = Some it" "it_membership it = IM_Delisted" by (auto simp: R)
    then obtain b where b: "tget its1 i = Some b" "it_membership b = IM_Delisted"
      using upsertedD(1)[OF up] by metis
    have "i \<notin> ?D" using it by (auto simp: D)
    with b show "\<exists>it. tget ?its2 i = Some it \<and> it_membership it \<noteq> IM_Active" by auto
  qed
  have key: "tget ?its3 i = Some it \<Longrightarrow> \<exists>a. tget its1 i = Some a \<and> same_key a it" for i it
    by (auto split: if_splits)
  have row: "tget ?its3 i = Some (if i \<in> ?R then membership_row IM_Active seen b
      else if i \<in> ?D then membership_row IM_Delisted seen b else b)" if "tget its1 i = Some b" for i b
    using that D[of i] R[of i] by auto
  have pres: "present ?its3 pid s \<longleftrightarrow> present its pid s \<or> s \<in> found" for s
  proof
    assume "present ?its3 pid s"
    then obtain i it a where i: "tget ?its3 i = Some it" "it_playlist_id it = pid" "it_source_id it = s"
      "tget its1 i = Some a" "same_key a it" using key unfolding present_def by blast
    show "present its pid s \<or> s \<in> found"
    proof (cases "tget its i")
      case None
      with upsertedD(2)[OF up i(4)] i(3,5) show ?thesis by (simp add: same_key_def)
    next
      case (Some c)
      with upsertedD(1)[OF up Some] i show ?thesis unfolding present_def same_key_def by auto
    qed
  next
    assume "present its pid s \<or> s \<in> found"
    then have "present its1 pid s" using upserted_present[OF up] upsertedD(3)[OF up] by blast
    then obtain i b where b: "tget its1 i = Some b" "it_playlist_id b = pid" "it_source_id b = s"
      unfolding present_def by blast
    obtain r where r: "tget ?its3 i = Some r" using row[OF b(1)] by blast
    with key[OF r] b have "it_playlist_id r = pid" "it_source_id r = s" by (auto simp: same_key_def)
    with r show "present ?its3 pid s" unfolding present_def by blast
  qed
  have memb: "it_membership it = IM_Active \<longleftrightarrow> it_source_id it \<in> found"
    if it: "tget ?its3 i = Some it" "it_playlist_id it = pid" for i it
  proof -
    obtain b where b: "tget its1 i = Some b" "same_key b it" using key[OF it(1)] by blast
    note eq = row[OF b(1)]
    show ?thesis
    proof (cases "tget its i")
      case None
      then have "i \<notin> ?R" "i \<notin> ?D" by (auto simp: D R)
      with None upsertedD(2)[OF up b(1)] eq it(1) show ?thesis by auto
    next
      case (Some c)
      with upsertedD(1)[OF up Some] b it(2)
      have c: "it_membership b = it_membership c" "it_source_id it = it_source_id c" "it_playlist_id c = pid"
        by (auto simp: same_key_def)
      with Some eq it(1) show ?thesis
        using D[of i] R[of i] item_membership_not[of "it_membership c"] by (auto split: if_splits)
    qed
  qed
  have old: "\<exists>b. tget ?its3 i = Some b \<and> same_key a b \<and> (it_playlist_id a \<noteq> pid \<longrightarrow> b = a)"
    if a: "tget its i = Some a" for i a
  proof -
    obtain b where b: "tget its1 i = Some b" "same_key a b" "it_playlist_id a \<noteq> pid \<longrightarrow> b = a"
      using upsertedD(1)[OF up a] by blast
    have "it_playlist_id a \<noteq> pid \<Longrightarrow> i \<notin> ?D \<and> i \<notin> ?R" using a by (auto simp: D R)
    with b row[OF b(1)] show ?thesis by auto
  qed
  have "discovery_items pid found its ?its3"
    unfolding discovery_items_def
    using wf(2) unique_sources_keys[OF wf(3) key] pres memb old by (intro conjI) (simp, blast+)
  with t2 t3 key show ?thesis by (intro exI[of _ ?its2] exI[of _ ?its3]) simp
qed

definition enabled_assignment :: "int \<Rightarrow> playlist_profile table \<Rightarrow> int \<Rightarrow> bool" where
  "enabled_assignment pid pps a \<longleftrightarrow>
     (\<exists>x. (a, x) \<in> set pps \<and> pp_playlist_id x = pid \<and> pp_enabled x)"

lemma enabled_assignment_mem:
  "a \<in> set (map fst (list_enabled_for_playlist pid pps)) \<longleftrightarrow> enabled_assignment pid pps a"
  by (force simp: list_enabled_for_playlist_def enabled_assignment_def select_where_def)

lemma new_sources_set:
  assumes "wf_table its"
  shows "set (new_source_ids pid found its) = {s \<in> set (map fst found). \<not> present its pid s}"
proof -
  have "set (map (\<lambda>(_, it). it_source_id it) (list_items_for_playlist pid its)) = {s. present its pid s}"
    by (force simp: list_items_for_playlist_def select_where_iff[OF assms] present_def)
  then show ?thesis by (auto simp: new_source_ids_def)
qed

lemma new_sources_card:
  assumes "wf_table its" "distinct (map fst found)"
  shows "length (new_source_ids pid found its) = card {s \<in> set (map fst found). \<not> present its pid s}"
proof -
  have "distinct (new_source_ids pid found its)" using assms(2) by (simp add: new_source_ids_def)
  then show ?thesis using new_sources_set[OF assms(1), of pid found] distinct_card by metis
qed

lemma delisted_card:
  assumes "wf_table its"
  shows "length (to_delist pid found its) = card {i. \<exists>it. tget its i = Some it \<and>
    it_playlist_id it = pid \<and> it_membership it = IM_Active \<and> it_source_id it \<notin> found}"
proof -
  have "distinct (to_delist pid found its)"
    unfolding to_delist_def list_items_for_playlist_def by (rule ids_filter_rows(1)[OF assms])
  moreover have "set (to_delist pid found its) = {i. \<exists>it. tget its i = Some it \<and>
      it_playlist_id it = pid \<and> it_membership it = IM_Active \<and> it_source_id it \<notin> found}"
    unfolding to_delist_def list_items_for_playlist_def
    by (rule set_eqI) (simp only: ids_filter_rows(2)[OF assms] mem_Collect_eq conj_assoc)
  ultimately show ?thesis by (metis distinct_card)
qed

lemma new_item_ids_set:
  assumes wf: "wf_table its" "wf_table its1" and up: "upserted pid S its its1"
    and ids: "\<And>i. i \<in> set is \<longleftrightarrow> (\<exists>b. tget its1 i = Some b \<and> it_playlist_id b = pid \<and> it_source_id b \<in> S)"
    and keys: "\<And>i it. tget its3 i = Some it \<Longrightarrow> \<exists>a. tget its1 i = Some a \<and> same_key a it"
      "ids its3 = ids its1"
    and N: "N = {s \<in> S. \<not> present its pid s}"
  shows "i \<in> set (filter (\<lambda>i. case tget its3 i of None \<Rightarrow> False | Some it \<Rightarrow> it_source_id it \<in> N) is) \<longleftrightarrow>
    tget its i = None \<and> tget its3 i \<noteq> None"
proof -
  have some: "tget its3 j \<noteq> None \<longleftrightarrow> tget its1 j \<noteq> None" for j
    by (simp add: tget_None_iff keys(2))
  show ?thesis
  proof
    assume "i \<in> set (filter (\<lambda>i. case tget its3 i of None \<Rightarrow> False | Some it \<Rightarrow> it_source_id it \<in> N) is)"
    then obtain it where it: "i \<in> set is" "tget its3 i = Some it" "it_source_id it \<in> N"
      by (auto split: option.splits)
    then obtain a where a: "tget its1 i = Some a" "same_key a it" "it_playlist_id a = pid"
      using keys(1) ids by fastforce
    have "\<not> present its pid (it_source_id a)" using it(3) a(2) N by (simp add: same_key_def)
    then have "tget its i = None"
      using upsertedD(1)[OF up] a unfolding present_def same_key_def
      by (metis option.exhaust option.inject)
    with it(2) show "tget its i = None \<and> tget its3 i \<noteq> None" by simp
  next
    assume i: "tget its i = None \<and> tget its3 i \<noteq> None"
    then obtain it a where it: "tget its3 i = Some it" "tget its1 i = Some a" "same_key a it"
      using keys(1) by blast
    with upsertedD(2)[OF up it(2)] i ids N
    show "i \<in> set (filter (\<lambda>i. case tget its3 i of None \<Rightarrow> False | Some it \<Rightarrow> it_source_id it \<in> N) is)"
      by (auto simp: same_key_def)
  qed
qed

text \<open>
  Claim C32: a discovery with at least one entry succeeds on an existing playlist; afterwards its items
  are the known and the listed ones without duplicates, active exactly when listed, items of other
  playlists and existing Targets are untouched, every new item has a Target for each enabled
  assignment (and no other Target appears), nothing else but the playlist's time stamp changes, and
  the statistics count the new and the delisted items.
\<close>

theorem apply_discovery_spec:
  fixes d pid entries
  defines "found \<equiv> set (map fst (discovered_entries entries))"
  assumes "wf_table (db_items d)" "unique_sources (db_items d)" "wf_table (db_playlists d)"
    "tget (db_playlists d) pid \<noteq> None" "found \<noteq> {}"
  shows "\<exists>stats its tgs pls. apply_discovery pid entries False seen now d =
      (Inr stats, d\<lparr>db_items := its, db_targets := tgs, db_playlists := pls\<rparr>) \<and>
    discovery_items pid found (db_items d) its \<and>
    (\<forall>j t. tget (db_targets d) j = Some t \<longrightarrow> tget tgs j = Some t) \<and>
    (\<forall>i a. has_target tgs (i, a) \<longleftrightarrow> has_target (db_targets d) (i, a) \<or>
       tget (db_items d) i = None \<and> tget its i \<noteq> None \<and> enabled_assignment pid (db_assignments d) a) \<and>
    sy_new_items stats = card {s \<in> found. \<not> present (db_items d) pid s} \<and>
    sy_delisted_items stats = card {i. \<exists>it. tget (db_items d) i = Some it \<and> it_playlist_id it = pid \<and>
       it_membership it = IM_Active \<and> it_source_id it \<notin> found}"
proof -
  let ?its = "db_items d" and ?disc = "discovered_entries entries"
  obtain "is" its1 where up: "upsert_many pid seen now (map snd ?disc) ?its = (is, its1)"
    by (cases "upsert_many pid seen now (map snd ?disc) ?its")
  have S: "en_source_id ` set (map snd ?disc) = found"
    using discovered_sources(1) found_def by simp
  note up1 = upsert_many_ok[OF assms(2,3) up, unfolded S]
  then have wf1: "wf_table its1" "unique_sources its1" "upserted pid found ?its its1" by blast+
  obtain its2 its3 where tr: "transition_items (to_delist pid found ?its) IM_Delisted seen its1 = (Inr True, its2)"
     "transition_items (to_reactivate pid found ?its) IM_Active seen its2 = (Inr True, its3)"
     "discovery_items pid found ?its its3"
     "\<And>i it. tget its3 i = Some it \<Longrightarrow> \<exists>a. tget its1 i = Some a \<and> same_key a it" "ids its3 = ids its1"
    using discovery_transitions[OF assms(2) wf1] by blast
  let ?N = "new_source_ids pid ?disc ?its"
  let ?new = "filter (\<lambda>i. case tget its3 i of None \<Rightarrow> False | Some it \<Rightarrow> it_source_id it \<in> set ?N) is"
  let ?profiles = "map fst (list_enabled_for_playlist pid (db_assignments d))"
  let ?tgs = "create_missing_for_items ?new ?profiles now (db_targets d)"
  let ?stats = "no_stats\<lparr>sy_new_items := length ?N,
     sy_delisted_items := length (to_delist pid found ?its)\<rparr>"
  obtain pls where pls: "set_last_discover_at pid seen now (db_playlists d) = (True, pls)"
    using assms(4,5) by (auto simp: set_last_discover_at_def rowcount_pos_iff)
  have "?disc \<noteq> []" using assms(6) found_def by auto
  then have eq: "apply_discovery pid entries False seen now d =
      (Inr ?stats, d\<lparr>db_items := its3, db_targets := ?tgs, db_playlists := pls\<rparr>)"
    using up tr(1,2) pls by (simp add: apply_discovery_def Let_def found_def)
  have ids_is: "i \<in> set is \<longleftrightarrow> (\<exists>b. tget its1 i = Some b \<and> it_playlist_id b = pid \<and> it_source_id b \<in> found)" for i
    using up1 by blast
  have N: "set ?N = {s \<in> found. \<not> present ?its pid s}"
    using new_sources_set[OF assms(2)] by (simp add: found_def)
  note new = new_item_ids_set[OF assms(2) wf1(1,3) ids_is tr(4,5) N]
  have "has_target ?tgs (i, a) \<longleftrightarrow> has_target (db_targets d) (i, a) \<or>
       tget ?its i = None \<and> tget its3 i \<noteq> None \<and> enabled_assignment pid (db_assignments d) a" for i a
    by (simp only: create_missing_has new enabled_assignment_mem conj_assoc)
  moreover have "\<forall>j t. tget (db_targets d) j = Some t \<longrightarrow> tget ?tgs j = Some t"
    by (simp add: create_missing_eq pairs_inserted_old)
  moreover have "sy_new_items ?stats = card {s \<in> found. \<not> present ?its pid s}"
    using new_sources_card[OF assms(2) discovered_sources(2)] by (simp add: found_def)
  moreover have "sy_delisted_items ?stats = card {i. \<exists>it. tget ?its i = Some it \<and> it_playlist_id it = pid \<and>
       it_membership it = IM_Active \<and> it_source_id it \<notin> found}"
    using delisted_card[OF assms(2), of pid found] by simp
  ultimately show ?thesis using eq tr(3) by blast
qed

definition sample_playlist :: playlist where
  "sample_playlist = \<lparr>pl_name = ''p'', pl_folder_name = ''p'', pl_url = ''https://x/p'', pl_enabled = True,
     pl_kind_hint = KH_Video, pl_paused = False, pl_ytdlp_args = None, pl_discover_cron = None,
     pl_download_cron = None, pl_retention_policy_json = None, pl_missing_policy = MP_Leave,
     pl_dedup_hardlink = False, pl_cookie_enabled = False, pl_cookies = None,
     pl_last_discover_at = None, pl_last_download_at = None, pl_created_at = 0, pl_updated_at = 0\<rparr>"

definition sample_entry :: "string \<Rightarrow> entry" where
  "sample_entry s = \<lparr>en_source_id = s, en_source_url = ''https://x/'' @ s, en_title = None,
     en_uploader = None, en_duration = None, en_upload_date = None, en_playlist_index = None,
     en_metadata = JObj []\<rparr>"

definition sample_db :: db where
  "sample_db = empty_db\<lparr>db_playlists := [(1, sample_playlist)],
     db_items := [(1, new_item 1 (sample_entry ''a'') 0 0), (2, new_item 1 (sample_entry ''b'') 0 0)]\<rparr>"

lemma sample_db_items: "wf_table (db_items sample_db)" "unique_sources (db_items sample_db)"
  by (auto simp: sample_db_def wf_table_def ids_def unique_sources_def tget_def new_item_def
      sample_entry_def split: if_splits)

theorem apply_discovery_spec_witness:
  "\<exists>stats d'. apply_discovery 1 [sample_entry ''b'', sample_entry ''c''] False 5 5 sample_db = (Inr stats, d') \<and>
     sy_new_items stats = 1"
proof -
  have f: "discovered_entries [sample_entry ''b'', sample_entry ''c''] =
      [(''b'', sample_entry ''b''), (''c'', sample_entry ''c'')]"
    by (simp add: discovered_entries_def by_source_id_def sample_entry_def)
  have p: "present (db_items sample_db) 1 s \<longleftrightarrow> s = ''a'' \<or> s = ''b''" for s
    by (auto simp: present_def sample_db_def tget_def new_item_def sample_entry_def)
      (rule exI[of _ 1], simp)
  have "{s \<in> {''b'', ''c''}. \<not> present (db_items sample_db) 1 s} = {''c''}" by (auto simp: p)
  moreover have "wf_table (db_playlists sample_db)" "tget (db_playlists sample_db) 1 \<noteq> None"
    by (simp_all add: sample_db_def wf_table_def ids_def tget_def)
  ultimately show ?thesis
    using apply_discovery_spec[OF sample_db_items, of 1 "[sample_entry ''b'', sample_entry ''c'']" 5 5]
    by (fastforce simp: f)
qed

end
