(* ===== verification/Sync_Theorems.thy ===== *)
theory Sync_Theorems
  imports Discovery_Theorems
begin

text \<open>
  The download phase and the Runs around it: which candidates are queued, sent back to pending or
  blocked, that a Run is always settled, and that two operations never run on one playlist.
\<close>

section \<open>Candidates\<close>

lemma candidate_of_Some:
  "candidate_of its pps sts (i, t) = Some c \<Longrightarrow> cd_target_id c = i \<and> cd_target c = t \<and>
     tget sts (cd_storage_id c) = Some (cd_storage c)"
  by (auto simp: candidate_of_def split: option.splits)

lemma map_filter_candidates_ids:
  "map cd_target_id (List.map_filter (candidate_of its pps sts) tgs) =
   map fst (filter (\<lambda>x. candidate_of its pps sts x \<noteq> None) tgs)"
proof (induction tgs)
  case (Cons x tgs)
  then show ?case
    by (cases x) (auto simp: map_filter_simps dest: candidate_of_Some split: option.splits)
qed (simp add: map_filter_simps)

lemma candidates_distinct:
  assumes "wf_table (db_targets d)"
  shows "distinct (map cd_target_id (list_download_candidates pid r d))"
proof -
  let ?cs = "List.map_filter (candidate_of (db_items d) (db_assignments d) (db_storages d)) (db_targets d)"
  have "distinct (map cd_target_id ?cs)"
    using assms by (simp add: map_filter_candidates_ids wf_table_def ids_def distinct_map_filter)
  then have "distinct (map cd_target_id (filter (download_candidate pid r) ?cs))"
    by (rule distinct_map_filter)
  then show ?thesis
    by (simp add: list_download_candidates_def distinct_map)
qed

lemma candidates_rows:
  assumes "wf_table (db_targets d)" "c \<in> set (list_download_candidates pid r d)"
  shows "tget (db_targets d) (cd_target_id c) = Some (cd_target c) \<and>
    tget (db_storages d) (cd_storage_id c) = Some (cd_storage c) \<and>
    tg_status (cd_target c) \<in> {TG_Pending, TG_Failed, TG_Blocked}"
proof -
  obtain x where x: "x \<in> set (db_targets d)"
    "candidate_of (db_items d) (db_assignments d) (db_storages d) x = Some c" "download_candidate pid r c"
    using assms(2) by (auto simp: list_download_candidates_def List.map_filter_def split: option.splits)
  obtain i t where "x = (i, t)" by (cases x)
  with x candidate_of_Some assms(1) show ?thesis
    by (fastforce simp: tget_iff download_candidate_def)
qed

section \<open>The two loops\<close>

definition usable :: "(int \<Rightarrow> storage \<Rightarrow> bool \<times> string option) \<Rightarrow> candidate \<Rightarrow> bool" where
  "usable check c \<longleftrightarrow> fst (check (cd_storage_id c) (cd_storage c))"

text \<open>The statuses the first loop leaves, as a function of the id.\<close>

definition checked_status :: "(int \<Rightarrow> storage \<Rightarrow> bool \<times> string option) \<Rightarrow> candidate list \<Rightarrow> target table
    \<Rightarrow> int \<Rightarrow> target_status option" where
  "checked_status check cs tgs i =
     (case List.find (\<lambda>c. cd_target_id c = i) cs of
        None \<Rightarrow> target_status_of tgs i
      | Some c \<Rightarrow> Some (if usable check c then TG_Pending else TG_Blocked))"

lemma target_status_of_set_row:
  "tget tgs i = Some t \<Longrightarrow>
   target_status_of (set_row i (target_cas_row st e br inc id now) tgs) j =
     (if j = i then Some st else target_status_of tgs j)"
  by (simp add: target_status_of_def target_cas_row_status)

lemma find_None_ids: "List.find (\<lambda>c. cd_target_id c = i) cs = None \<longleftrightarrow> i \<notin> set (map cd_target_id cs)"
  by (auto simp: find_None_iff)

lemma checked_status_step:
  assumes "cd_target_id c \<notin> set (map cd_target_id cs)"
    "\<And>j. target_status_of tgs' j = (if j = cd_target_id c
        then Some (if usable check c then TG_Pending else TG_Blocked) else target_status_of tgs j)"
  shows "checked_status check cs tgs' = checked_status check (c # cs) tgs"
proof
  fix i
  show "checked_status check cs tgs' i = checked_status check (c # cs) tgs i"
    using assms find_None_ids[of "cd_target_id c" cs]
    by (auto simp: checked_status_def split: option.splits)
qed

lemma check_candidates_ok:
  assumes "wf_table tgs" "distinct (map cd_target_id cs)"
    "\<And>c. c \<in> set cs \<Longrightarrow> tget tgs (cd_target_id c) = Some (cd_target c) \<and> tget sts (cd_storage_id c) = Some (cd_storage c) \<and>
       tg_status (cd_target c) \<in> {TG_Pending, TG_Failed, TG_Blocked}"
    "\<And>sid r s. map_of checks sid = Some r \<Longrightarrow> tget sts sid = Some s \<Longrightarrow> r = check sid s"
  shows "\<exists>tgs'. check_candidates check now cs checks el tgs =
      (Inr (el @ map cd_target_id (filter (usable check) cs)), tgs') \<and> wf_table tgs' \<and>
      target_status_of tgs' = checked_status check cs tgs"
  using assms
proof (induction cs arbitrary: checks el tgs)
  case Nil
  then show ?case by (auto simp: checked_status_def)
next
  case (Cons c cs)
  let ?sid = "cd_storage_id c" and ?tid = "cd_target_id c" and ?t = "cd_target c"
  have c: "tget tgs ?tid = Some ?t" "tget sts ?sid = Some (cd_storage c)"
    "tg_status ?t \<in> {TG_Pending, TG_Failed, TG_Blocked}" using Cons.prems(3)[of c] by auto
  let ?r = "check ?sid (cd_storage c)"
  have r: "(case map_of checks ?sid of None \<Rightarrow> ?r | Some r \<Rightarrow> r) = ?r"
    using Cons.prems(4)[OF _ c(2)] by (auto split: option.split)
  let ?ch = "AList.update ?sid ?r checks"
  have ch: "map_of ?ch sid = Some r \<Longrightarrow> tget sts sid = Some s \<Longrightarrow> r = check sid s" for sid r s
    using Cons.prems(4) c(2) by (auto simp: update_conv' split: if_splits)
  have dist: "distinct (map cd_target_id cs)" "?tid \<notin> set (map cd_target_id cs)" using Cons.prems(2) by auto
  have rest: "\<And>c'. c' \<in> set cs \<Longrightarrow> tget us (cd_target_id c') = Some (cd_target c') \<and>
      tget sts (cd_storage_id c') = Some (cd_storage c') \<and> tg_status (cd_target c') \<in> {TG_Pending, TG_Failed, TG_Blocked}"
    if "\<And>j. j \<noteq> ?tid \<Longrightarrow> tget us j = tget tgs j" for us
  proof -
    fix c'
    assume c': "c' \<in> set cs"
    then have "cd_target_id c' \<noteq> ?tid" using dist(2) by (metis image_eqI list.set_map)
    with that Cons.prems(3)[of c'] c' show "tget us (cd_target_id c') = Some (cd_target c') \<and>
      tget sts (cd_storage_id c') = Some (cd_storage c') \<and> tg_status (cd_target c') \<in> {TG_Pending, TG_Failed, TG_Blocked}"
      by simp
  qed
  let ?upd = "\<lambda>st e b. set_row ?tid (target_cas_row st e b False id now) tgs"
  have move: "transition_target tgs ?tid st e b False id now tgs = (Inr True, ?upd st e b)"
    if "st \<in> allowed (tg_status ?t)" for st e b
    using transition_target_ok[OF Cons.prems(1) c(1) that c(1) refl] .
  have upd: "wf_table (?upd st e b)" "\<And>j. j \<noteq> ?tid \<Longrightarrow> tget (?upd st e b) j = tget tgs j" for st e b
    using Cons.prems(1) by simp_all
  show ?case
  proof (cases "fst ?r")
    case False
    then have un: "\<not> usable check c" by (simp add: usable_def)
    let ?us = "?upd TG_Blocked (snd ?r) (snd ?r)"
    have "TG_Blocked \<in> allowed (tg_status ?t)" using c(3) by auto
    then have "check_candidates check now (c # cs) checks el tgs = check_candidates check now cs ?ch el ?us"
      using False move by (simp add: r Let_def)
    moreover have "checked_status check cs ?us = checked_status check (c # cs) tgs"
      using un by (intro checked_status_step[OF dist(2)]) (simp add: target_status_of_set_row[OF c(1)])
    moreover have "\<exists>tgs'. check_candidates check now cs ?ch el ?us =
        (Inr (el @ map cd_target_id (filter (usable check) cs)), tgs') \<and> wf_table tgs' \<and>
        target_status_of tgs' = checked_status check cs ?us"
      by (rule Cons.IH[OF upd(1) dist(1) rest[OF upd(2)] ch])
    ultimately show ?thesis using un by (simp del: check_candidates.simps)
  next
    case True
    then have us: "usable check c" by (simp add: usable_def)
    show ?thesis
    proof (cases "tg_status ?t \<in> {TG_Failed, TG_Blocked}")
      case f: True
      let ?us = "?upd TG_Pending None None"
      have "TG_Pending \<in> allowed (tg_status ?t)" using f by auto
      then have "check_candidates check now (c # cs) checks el tgs = check_candidates check now cs ?ch (el @ [?tid]) ?us"
        using True f move by (auto simp: r Let_def)
      moreover have "checked_status check cs ?us = checked_status check (c # cs) tgs"
        using us by (intro checked_status_step[OF dist(2)]) (simp add: target_status_of_set_row[OF c(1)])
      moreover have "\<exists>tgs'. check_candidates check now cs ?ch (el @ [?tid]) ?us =
          (Inr ((el @ [?tid]) @ map cd_target_id (filter (usable check) cs)), tgs') \<and> wf_table tgs' \<and>
          target_status_of tgs' = checked_status check cs ?us"
        by (rule Cons.IH[OF upd(1) dist(1) rest[OF upd(2)] ch])
      ultimately show ?thesis using us by (simp del: check_candidates.simps)
    next
      case f: False
      then have p: "tg_status ?t = TG_Pending" using c(3) by auto
      have "check_candidates check now (c # cs) checks el tgs = check_candidates check now cs ?ch (el @ [?tid]) tgs"
        using True f by (auto simp: r Let_def)
      moreover have "checked_status check cs tgs = checked_status check (c # cs) tgs"
        using us p c(1) by (intro checked_status_step[OF dist(2)]) (simp add: target_status_of_def)
      moreover have "\<exists>tgs'. check_candidates check now cs ?ch (el @ [?tid]) tgs =
          (Inr ((el @ [?tid]) @ map cd_target_id (filter (usable check) cs)), tgs') \<and> wf_table tgs' \<and>
          target_status_of tgs' = checked_status check cs tgs"
        by (rule Cons.IH[OF Cons.prems(1) dist(1) rest[OF refl] ch])
      ultimately show ?thesis using us by (simp del: check_candidates.simps)
    qed
  qed
qed

lemma queue_eligible_ok:
  assumes "wf_table (db_targets d)" "distinct tids"
    "\<And>i. i \<in> set tids \<Longrightarrow> target_status_of (db_targets d) i = Some TG_Pending"
    "0 \<le> limit"
  shows "\<exists>d'. queue_eligible limit run_id rl uuid now tids q r d =
      (Inr (q + min (nat limit - q) (length tids), r + (length tids - min (nat limit - q) (length tids))), d') \<and>
    wf_table (db_targets d') \<and>
    (\<forall>i. target_status_of (db_targets d') i = (if i \<in> set (take (nat limit - q) tids) then Some TG_Queued
       else target_status_of (db_targets d) i)) \<and>
    length (db_tasks d') = length (db_tasks d) + 5 * min (nat limit - q) (length tids) \<and>
    take (length (db_tasks d)) (db_tasks d') = db_tasks d \<and>
    d' = d\<lparr>db_targets := db_targets d', db_tasks := db_tasks d'\<rparr>"
  using assms
proof (induction tids arbitrary: q r d)
  case Nil
  then show ?case by simp
next
  case (Cons i tids)
  show ?case
  proof (cases "limit \<le> int q")
    case True
    then have z: "nat limit - q = 0" by simp
    show ?thesis using Cons.IH[of d q "r + 1"] Cons.prems True by (auto simp: z)
  next
    case False
    then have s: "nat limit - q = Suc (nat limit - (q + 1))" by simp
    have i: "target_status_of (db_targets d) i = Some TG_Pending" using Cons.prems(3) by simp
    obtain w "is" rows where e: "enqueue_target_pipeline i run_id None (uuid i) rl now d =
        (Inr (Some (w, is)), d\<lparr>db_targets := set_row i (target_cas_row TG_Queued None None False id now) (db_targets d),
           db_tasks := db_tasks d @ rows\<rparr>)" "length rows = 5"
      using enqueue_target_pipeline_spec[OF Cons.prems(1), of i run_id None "uuid i" rl now] i
      by (simp add: Let_def)
    let ?d = "d\<lparr>db_targets := set_row i (target_cas_row TG_Queued None None False id now) (db_targets d),
           db_tasks := db_tasks d @ rows\<rparr>"
    obtain t where t: "tget (db_targets d) i = Some t" using i by (auto simp: target_status_of_def)
    have st: "target_status_of (db_targets ?d) j = (if j = i then Some TG_Queued else target_status_of (db_targets d) j)" for j
      using target_status_of_set_row[OF t] by simp
    have "\<exists>d'. queue_eligible limit run_id rl uuid now tids (q + 1) r ?d =
      (Inr (q + 1 + min (nat limit - (q + 1)) (length tids),
            r + (length tids - min (nat limit - (q + 1)) (length tids))), d') \<and>
      wf_table (db_targets d') \<and>
      (\<forall>j. target_status_of (db_targets d') j = (if j \<in> set (take (nat limit - (q + 1)) tids) then Some TG_Queued
         else target_status_of (db_targets ?d) j)) \<and>
      length (db_tasks d') = length (db_tasks ?d) + 5 * min (nat limit - (q + 1)) (length tids) \<and>
      take (length (db_tasks ?d)) (db_tasks d') = db_tasks ?d \<and>
      d' = ?d\<lparr>db_targets := db_targets d', db_tasks := db_tasks d'\<rparr>"
      using Cons.prems st by (intro Cons.IH) auto
    then obtain d' where d': "queue_eligible limit run_id rl uuid now tids (q + 1) r ?d =
      (Inr (q + 1 + min (nat limit - (q + 1)) (length tids),
            r + (length tids - min (nat limit - (q + 1)) (length tids))), d')"
      "wf_table (db_targets d')"
      "\<And>j. target_status_of (db_targets d') j = (if j \<in> set (take (nat limit - (q + 1)) tids) then Some TG_Queued
         else target_status_of (db_targets ?d) j)"
      "length (db_tasks d') = length (db_tasks ?d) + 5 * min (nat limit - (q + 1)) (length tids)"
      "take (length (db_tasks ?d)) (db_tasks d') = db_tasks ?d"
      "d' = ?d\<lparr>db_targets := db_targets d', db_tasks := db_tasks d'\<rparr>" by blast
    have len: "take (length (db_tasks d)) (db_tasks d') = db_tasks d"
      using arg_cong[OF d'(5), of "take (length (db_tasks d))"] by (simp add: min_def)
    show ?thesis
    proof (intro exI[of _ d'] conjI)
      show "queue_eligible limit run_id rl uuid now (i # tids) q r d =
        (Inr (q + min (nat limit - q) (length (i # tids)),
              r + (length (i # tids) - min (nat limit - q) (length (i # tids)))), d')"
        using False d'(1) e(1) by (simp add: s)
      show "\<forall>j. target_status_of (db_targets d') j = (if j \<in> set (take (nat limit - q) (i # tids))
          then Some TG_Queued else target_status_of (db_targets d) j)"
        using d'(3) st by (auto simp: s)
      show "length (db_tasks d') = length (db_tasks d) + 5 * min (nat limit - q) (length (i # tids))"
        using d'(4) e(2) by (simp add: s)
      show "d' = d\<lparr>db_targets := db_targets d', db_tasks := db_tasks d'\<rparr>"
        using d'(6) by (cases d'; cases d) simp
    qed (use d' len in auto)
  qed
qed

section \<open>The download phase\<close>

text \<open>
  On a runnable playlist the download phase always succeeds. Of the candidates (pending
  Targets, failed ones with retries left, blocked ones), those on an unusable storage end up blocked;
  of the others, in queue order, as many as the limit allows are queued, each with the five tasks of a
  pipeline appended, and the rest end up pending and is counted as remaining. The status of every
  other Target and all existing tasks stay as they were.
\<close>

theorem queue_download_phase_spec:
  fixes d cfg factory pid max_targets max_attempts
  defines "limit \<equiv> (case max_targets of None \<Rightarrow> ss_max_targets_per_run cfg | Some n \<Rightarrow> n)"
    and "rl \<equiv> (case max_attempts of None \<Rightarrow> ss_max_attempts cfg | Some n \<Rightarrow> n)"
  defines "cs \<equiv> list_download_candidates pid rl d"
  defines "us \<equiv> map cd_target_id (filter (usable (check_storage factory cfg)) cs)"
  assumes "wf_table (db_targets d)" "tget (db_playlists d) pid = Some p" "runnable p" "1 \<le> limit" "1 \<le> rl"
  shows "\<exists>stats d'. queue_download_phase factory cfg uuid pid run_id max_targets max_attempts now d = (Inr stats, d') \<and>
    sy_targets_queued stats = min (nat limit) (length us) \<and>
    sy_targets_remaining stats = length us - min (nat limit) (length us) \<and>
    (\<forall>i. target_status_of (db_targets d') i =
       (if i \<in> set (take (nat limit) us) then Some TG_Queued
        else if i \<in> set us then Some TG_Pending
        else if i \<in> set (map cd_target_id cs) then Some TG_Blocked
        else target_status_of (db_targets d) i)) \<and>
    length (db_tasks d') = length (db_tasks d) + 5 * min (nat limit) (length us) \<and>
    take (length (db_tasks d)) (db_tasks d') = db_tasks d"
proof -
  let ?check = "check_storage factory cfg"
  have dist: "distinct (map cd_target_id cs)" using candidates_distinct[OF assms(5)] by (simp add: cs_def)
  have "\<exists>tgs. check_candidates ?check now cs [] [] (db_targets d) =
      (Inr ([] @ map cd_target_id (filter (usable ?check) cs)), tgs) \<and> wf_table tgs \<and>
      target_status_of tgs = checked_status ?check cs (db_targets d)"
    by (rule check_candidates_ok[where sts = "db_storages d", OF assms(5) dist])
      (use candidates_rows[OF assms(5), of _ pid rl] in \<open>auto simp: cs_def\<close>)
  then obtain tgs where tgs: "check_candidates ?check now cs [] [] (db_targets d) = (Inr us, tgs)"
    "wf_table tgs" "target_status_of tgs = checked_status ?check cs (db_targets d)"
    by (auto simp: us_def)
  have st: "target_status_of tgs i = (if i \<in> set us then Some TG_Pending
      else if i \<in> set (map cd_target_id cs) then Some TG_Blocked else target_status_of (db_targets d) i)" for i
  proof (cases "List.find (\<lambda>c. cd_target_id c = i) cs")
    case None
    then have "i \<notin> set (map cd_target_id cs)" by (simp only: find_None_ids not_False_eq_True)
    moreover then have "i \<notin> set us" by (auto simp: us_def)
    ultimately show ?thesis using None by (simp add: tgs(3) checked_status_def)
  next
    case (Some c)
    then have c: "c \<in> set cs" "cd_target_id c = i" by (auto simp: find_Some_iff)
    have "i \<in> set us \<longleftrightarrow> usable ?check c"
      using c dist by (auto simp: us_def distinct_map inj_on_def)
    with c Some show ?thesis by (auto simp: tgs(3) checked_status_def)
  qed
  have "distinct us" using dist by (simp add: us_def distinct_map_filter)
  moreover have "\<And>i. i \<in> set us \<Longrightarrow> target_status_of (db_targets (d\<lparr>db_targets := tgs\<rparr>)) i = Some TG_Pending"
    by (simp add: st)
  ultimately obtain d1 where d1: "queue_eligible limit run_id rl uuid now us 0 0 (d\<lparr>db_targets := tgs\<rparr>) =
      (Inr (min (nat limit) (length us), length us - min (nat limit) (length us)), d1)"
    "\<And>i. target_status_of (db_targets d1) i = (if i \<in> set (take (nat limit) us) then Some TG_Queued
       else target_status_of tgs i)"
    "length (db_tasks d1) = length (db_tasks d) + 5 * min (nat limit) (length us)"
    "take (length (db_tasks d)) (db_tasks d1) = db_tasks d"
    using queue_eligible_ok[of "d\<lparr>db_targets := tgs\<rparr>" us limit run_id rl uuid now 0 0] tgs(2) assms(8) by auto
  let ?d2 = "d1\<lparr>db_playlists := snd (set_last_download_at pid now now (db_playlists d1))\<rparr>"
  let ?count = "count_by_status pid (db_items ?d2) (db_targets ?d2)"
  let ?stats = "no_stats\<lparr>sy_targets_queued := min (nat limit) (length us),
      sy_targets_remaining := length us - min (nat limit) (length us),
      sy_downloaded := ?count TG_Downloaded, sy_failed := ?count TG_Failed,
      sy_blocked := ?count TG_Blocked\<rparr>"
  have "queue_download_phase factory cfg uuid pid run_id max_targets max_attempts now d = (Inr ?stats, ?d2)"
    using assms(6-9) tgs(1) d1(1)
    by (simp add: queue_download_phase_def Let_def runnable_def limit_def[symmetric] rl_def[symmetric]
        cs_def[symmetric])
  moreover have "\<forall>i. target_status_of (db_targets ?d2) i =
       (if i \<in> set (take (nat limit) us) then Some TG_Queued
        else if i \<in> set us then Some TG_Pending
        else if i \<in> set (map cd_target_id cs) then Some TG_Blocked
        else target_status_of (db_targets d) i)"
    using d1(2) st by simp
  ultimately show ?thesis
    using d1(3,4) by (intro exI[of _ ?stats] exI[of _ ?d2]) simp
qed

section \<open>Runs\<close>

text \<open>
  Once a discovery has been enqueued for a playlist, every further attempt to start a
  discovery or a download for it is refused with \<open>SyncAlreadyRunningError\<close> and changes nothing,
  whatever happens to the tasks, until its Run is finished.
\<close>

theorem sync_is_exclusive:
  assumes "enqueue_discover_run unsaved cfg pid dry_run trig max_attempts now d = (Inr (run_id, task_id), d', evs)"
    "e = d'\<lparr>db_tasks := exec_ops jp ops (db_tasks d')\<rparr>"
  shows "playlist_sync_is_active d pid = False \<and>
    enqueue_discover_run False cfg' pid dry_run' trig' ma' now' e = (Inl SyncAlreadyRunningError, e, []) \<and>
    execute_download_run False factory cfg' uuid pid trig' mt ma' now' e = (Inl SyncAlreadyRunningError, e, [])"
proof -
  have na: "\<not> unsaved" "\<not> playlist_sync_is_active d pid"
    using assms(1) by (auto simp: enqueue_discover_run_def lock_and_validate_playlist_operation_start_def
        split: if_splits)
  then have "db_runs d' = insert_row (new_run trig ''discover'' pid now) (db_runs d)"
    using assms(1) by (auto simp: enqueue_discover_run_def lock_and_validate_playlist_operation_start_def
        start_run_def Let_def split: option.splits if_splits prod.splits)
  then have "playlist_sync_is_active e pid"
    by (simp add: playlist_sync_is_active_def assms(2) insert_row_def new_run_def)
  then show ?thesis
    using na(2) by (simp add: enqueue_discover_run_def execute_download_run_def
        lock_and_validate_playlist_operation_start_def)
qed

lemma queue_eligible_runs:
  "db_runs (snd (queue_eligible limit run_id rl uuid now tids q r d)) = db_runs d"
proof (induction tids arbitrary: q r d)
  case (Cons i tids)
  have "db_runs (snd (enqueue_target_pipeline i run_id None (uuid i) rl now d)) = db_runs d"
    by (simp add: enqueue_target_pipeline_def split: prod.splits sum.splits)
  then show ?case using Cons.IH by (auto split: prod.splits sum.splits)
qed simp

lemma queue_download_phase_runs:
  "db_runs (snd (queue_download_phase factory cfg uuid pid run_id mt ma now d)) = db_runs d"
proof -
  have q: "queue_eligible limit run_id rl uuid now tids q r (d\<lparr>db_targets := tgs\<rparr>) = (x, d') \<Longrightarrow>
      db_runs d' = db_runs d" for limit rl tids q r tgs x d'
    using queue_eligible_runs[of limit run_id rl uuid now tids q r "d\<lparr>db_targets := tgs\<rparr>"] by simp
  show ?thesis
    by (auto simp: queue_download_phase_def Let_def dest: q split: option.splits prod.splits sum.splits)
qed

definition event_type :: "event \<Rightarrow> string" where
  "event_type e = (case e of Event ty _ \<Rightarrow> ty)"

text \<open>
  Claim C33: a download run either is refused before it starts (nothing written, no event), or leaves its
  Run settled as succeeded or failed with a finish time, whatever the storages do and whether an
  exception escapes or not; the events are one \<open>run_started\<close> and then \<open>run_failed\<close> exactly if the
  Run failed, else \<open>run_finished\<close>; no other Run changes.
\<close>

theorem download_run_always_settles:
  "case execute_download_run unsaved factory cfg uuid pid trig mt ma now d of (r, d', evs) \<Rightarrow>
     (isl r \<and> d' = d \<and> evs = []) \<or>
     (\<exists>rn. tget (db_runs d') (fresh_id (db_runs d)) = Some rn \<and>
        rn_status rn \<in> {RS_Succeeded, RS_Failed} \<and> rn_finished_at rn = Some now \<and>
        map event_type evs = [''run_started'', if rn_status rn = RS_Failed then ''run_failed'' else ''run_finished''] \<and>
        (isl r \<longrightarrow> rn_status rn = RS_Failed) \<and>
        (\<forall>j. j \<noteq> fresh_id (db_runs d) \<longrightarrow> tget (db_runs d') j = tget (db_runs d) j))"
proof -
  let ?i = "fresh_id (db_runs d)" and ?rs = "insert_row (new_run trig ''download'' pid now) (db_runs d)"
  have fin: "tget (db_runs (finish_run_in ?i st stats now d')) j =
      (if j = ?i then Some ((new_run trig ''download'' pid now)\<lparr>rn_status := st,
         rn_stats_json := Some (stats_dict stats), rn_finished_at := Some now\<rparr>) else tget (db_runs d) j)"
    if "db_runs d' = ?rs" for d' st stats j
    using that by (auto simp: finish_run_in_def finish_run_def Let_def tget_insert_row new_run_def option.map_ident)
  have runs: "db_runs d' = ?rs" if "queue_download_phase factory cfg uuid pid (Some ?i) mt ma now
      (d\<lparr>db_runs := ?rs\<rparr>) = (x, d')" for x d'
    using queue_download_phase_runs[of factory cfg uuid pid "Some ?i" mt ma now "d\<lparr>db_runs := ?rs\<rparr>"] that
    by simp
  have st: "run_status_of ?i (finish_run_in ?i st stats now d') = st" if "db_runs d' = ?rs" for d' st stats
    using fin[OF that] by (simp add: run_status_of_def)
  show ?thesis
  proof (cases "queue_download_phase factory cfg uuid pid (Some ?i) mt ma now (d\<lparr>db_runs := ?rs\<rparr>)")
    case (Pair x d')
    note r = runs[OF Pair]
    show ?thesis
      using Pair fin[OF r] st[OF r]
      by (auto simp: execute_download_run_def start_run_def Let_def run_started_event_def
          run_failed_event_def run_result_event_def event_type_def split: option.splits sum.splits)
        (rule exI, (intro conjI)?, auto)+
  qed
qed

section \<open>Concrete runs\<close>

definition sample_storage :: storage where
  "sample_storage = \<lparr>st_name = ''s'', st_kind = SK_Local, st_enabled = True, st_config_json = None,
     st_credentials = None, st_last_check_at = None, st_last_check_result_json = None,
     st_created_at = 0, st_updated_at = 0\<rparr>"

definition sample_assignment :: playlist_profile where
  "sample_assignment = \<lparr>pp_playlist_id = 1, pp_profile_id = 1, pp_storage_id = 1, pp_subpath = [],
     pp_enabled = True, pp_sort_order = 0, pp_created_at = 0, pp_updated_at = 0\<rparr>"

definition ready_db :: db where
  "ready_db = sample_db\<lparr>db_storages := [(1, sample_storage)], db_assignments := [(1, sample_assignment)],
     db_targets := [(1, new_target 1 1 0), (2, (new_target 2 1 0)\<lparr>tg_status := TG_Blocked\<rparr>)]\<rparr>"

definition sample_settings :: sync_settings where
  "sample_settings = \<lparr>ss_max_targets_per_run = 1, ss_max_attempts = 3, ss_free_space_warn_bytes = 20,
     ss_free_space_stop_bytes = 10\<rparr>"

definition good_factory :: adapter_factory where
  "good_factory sid s = Inr \<lparr>ap_test_connection = Inr \<lparr>ct_stages = [], ct_cleanup_warning = None\<rparr>,
     ap_free_space = Inr (Some 100)\<rparr>"

definition ready_candidate :: "int \<Rightarrow> target \<Rightarrow> string \<Rightarrow> candidate" where
  "ready_candidate i t s = \<lparr>cd_target_id = i, cd_target = t, cd_item = new_item 1 (sample_entry s) 0 0,
       cd_assignment = sample_assignment, cd_storage_id = 1, cd_storage = sample_storage\<rparr>"

lemma ready_rows:
  "candidate_of (db_items ready_db) (db_assignments ready_db) (db_storages ready_db) (1, new_target 1 1 0) =
     Some (ready_candidate 1 (new_target 1 1 0) ''a'')"
  "candidate_of (db_items ready_db) (db_assignments ready_db) (db_storages ready_db)
       (2, (new_target 2 1 0)\<lparr>tg_status := TG_Blocked\<rparr>) =
     Some (ready_candidate 2 ((new_target 2 1 0)\<lparr>tg_status := TG_Blocked\<rparr>) ''b'')"
  by (simp_all add: ready_db_def sample_db_def candidate_of_def item_of_def new_target_def
        tget_def sample_assignment_def ready_candidate_def)

lemma ready_candidates:
  "map cd_target_id (filter (usable (check_storage good_factory sample_settings))
     (list_download_candidates 1 3 ready_db)) = [1, 2]"
proof -
  have "db_targets ready_db = [(1, new_target 1 1 0), (2, (new_target 2 1 0)\<lparr>tg_status := TG_Blocked\<rparr>)]"
    by (simp add: ready_db_def)
  then have "list_download_candidates 1 3 ready_db =
     [ready_candidate 1 (new_target 1 1 0) ''a'',
      ready_candidate 2 ((new_target 2 1 0)\<lparr>tg_status := TG_Blocked\<rparr>) ''b'']"
    by (simp add: list_download_candidates_def map_filter_simps ready_rows)
      (simp add: ready_candidate_def download_candidate_def new_item_def sample_entry_def
        sample_assignment_def new_target_def candidate_key_def)
  then show ?thesis
    by (simp add: usable_def check_storage_def sample_storage_def good_factory_def connection_ok_def
        evaluate_capacity_def sample_settings_def should_block_def ready_candidate_def)
qed

theorem queue_download_phase_spec_witness:
  "\<exists>stats d'. queue_download_phase good_factory sample_settings (\<lambda>_. ''u'') 1 None None None 9 ready_db = (Inr stats, d') \<and>
     sy_targets_queued stats = 1 \<and> sy_targets_remaining stats = 1 \<and>
     target_status_of (db_targets d') 1 = Some TG_Queued \<and> target_status_of (db_targets d') 2 = Some TG_Pending"
proof -
  have a: "wf_table (db_targets ready_db)" "tget (db_playlists ready_db) 1 = Some sample_playlist"
    "runnable sample_playlist"
    by (simp_all add: ready_db_def wf_table_def ids_def sample_db_def tget_def runnable_def sample_playlist_def)
  have limits: "ss_max_targets_per_run sample_settings = 1" "ss_max_attempts sample_settings = 3"
    by (simp_all add: sample_settings_def)
  have cs: "map cd_target_id (filter (usable (check_storage good_factory sample_settings))
      (list_download_candidates 1 (case None of None \<Rightarrow> ss_max_attempts sample_settings | Some n \<Rightarrow> n) ready_db)) = [1, 2]"
    by (simp add: limits ready_candidates)
  have "1 \<le> (case None of None \<Rightarrow> ss_max_targets_per_run sample_settings | Some n \<Rightarrow> n)"
    "1 \<le> (case None of None \<Rightarrow> ss_max_attempts sample_settings | Some n \<Rightarrow> n)"
    by (simp_all add: limits)
  from queue_download_phase_spec[OF a this, of good_factory "\<lambda>_. ''u''" None 9, unfolded cs]
  obtain stats d' where r: "queue_download_phase good_factory sample_settings (\<lambda>_. ''u'') 1 None None None 9 ready_db = (Inr stats, d')"
    "sy_targets_queued stats = 1" "sy_targets_remaining stats = 1"
    "target_status_of (db_targets d') 1 = Some TG_Queued" "target_status_of (db_targets d') 2 = Some TG_Pending"
    by (auto simp: limits)
  then show ?thesis by blast
qed

theorem sync_is_exclusive_witness:
  "\<exists>ids d' evs. enqueue_discover_run False sample_settings 1 False RT_Manual None 5 sample_db = (Inr ids, d', evs) \<and>
     enqueue_discover_run False sample_settings 1 True RT_Api None 6 d' = (Inl SyncAlreadyRunningError, d', [])"
proof -
  obtain rid tid d' evs where r: "enqueue_discover_run False sample_settings 1 False RT_Manual None 5 sample_db =
      (Inr (rid, tid), d', evs)"
    by (simp add: enqueue_discover_run_def lock_and_validate_playlist_operation_start_def
        playlist_sync_is_active_def sample_db_def empty_db_def tget_def sample_playlist_def Let_def
        sample_settings_def start_run_def enqueue_def)
  have "d' = d'\<lparr>db_tasks := exec_ops (\<lambda>_ p. p) [] (db_tasks d')\<rparr>" by (simp add: exec_ops_def)
  from sync_is_exclusive[OF r this] r show ?thesis by blast
qed

theorem download_run_always_settles_witness:
  "\<exists>rn. tget (db_runs (fst (snd (execute_download_run False good_factory sample_settings (\<lambda>_. ''u'') 1
       RT_Manual None None 9 ready_db)))) 1 = Some rn \<and> rn_status rn \<in> {RS_Succeeded, RS_Failed}"
proof -
  have "snd (snd (execute_download_run False good_factory sample_settings (\<lambda>_. ''u'') 1
       RT_Manual None None 9 ready_db)) \<noteq> []"
    by (simp add: execute_download_run_def lock_and_validate_playlist_operation_start_def
        playlist_sync_is_active_def ready_db_def sample_db_def empty_db_def tget_def sample_playlist_def
        start_run_def Let_def split: sum.split prod.split)
  moreover have "fresh_id (db_runs ready_db) = 1"
    by (simp add: ready_db_def sample_db_def empty_db_def fresh_id_def ids_def)
  ultimately show ?thesis
    using download_run_always_settles[where unsaved = False and factory = good_factory and cfg = sample_settings
        and uuid = "\<lambda>_. ''u''" and pid = 1 and trig = RT_Manual and mt = None and ma = None and now = 9
        and d = ready_db]
    by (auto split: prod.splits)
qed

end
