(* ===== verification/Worker.thy ===== *)
theory Worker
  imports Sync_Theorems Settings_Theorems
begin

text \<open>
  The worker, \<open>src/sluicery/tasks/worker.py\<close> with \<open>src/sluicery/tasks/progress.py\<close>: its configuration,
  the throttled progress, the execution of one claimed task by its handler, the settling of the task
  and of its Target, and the reaper of stale tasks. A handler is a function on the database; what its
  threads do meanwhile is summarised in the arguments: whether the worker was shut down, whether the
  heartbeat saw a cancel request, when progress was reported. The text of an unexpected exception is
  its name. SQLite's \<open>json_patch\<close> and \<open>random\<close> are parameters.
\<close>

section \<open>Configuration\<close>

record worker_config =
  wk_poll_interval_sec :: rat
  wk_poll_jitter_sec :: rat
  wk_heartbeat_interval_sec :: rat
  wk_stale_threshold_sec :: rat
  wk_retry_base_sec :: rat
  wk_retry_max_sec :: rat
  wk_max_attempts :: rat
  wk_blocked_retry_sec :: rat
  wk_blocked_retry_403_sec :: rat
  wk_progress_write_interval_sec :: rat
  wk_progress_write_percent_step :: rat
  wk_shutdown_grace_sec :: rat
  wk_item_concurrency :: rat
  wk_log_retention_days :: rat
  wk_enable_test_tasks :: bool

definition worker_config_ok :: "worker_config \<Rightarrow> bool" where
  "worker_config_ok c \<longleftrightarrow>
     list_all (\<lambda>x. 0 < x)
       [wk_poll_interval_sec c, wk_heartbeat_interval_sec c, wk_stale_threshold_sec c,
        wk_retry_base_sec c, wk_retry_max_sec c, wk_blocked_retry_sec c, wk_blocked_retry_403_sec c,
        wk_progress_write_interval_sec c, wk_progress_write_percent_step c, wk_shutdown_grace_sec c] \<and>
     \<not> wk_poll_jitter_sec c < 0 \<and> \<not> wk_max_attempts c < 1 \<and> \<not> wk_item_concurrency c < 1 \<and>
     \<not> wk_log_retention_days c < 1 \<and> \<not> wk_stale_threshold_sec c < wk_heartbeat_interval_sec c * 3"

definition make_worker_config :: "worker_config \<Rightarrow> exn + worker_config" where
  "make_worker_config c = (if worker_config_ok c then Inr c else Inl ValueError)"

text \<open>Comparing a value that is not a number raises \<open>TypeError\<close>.\<close>

definition json_number :: "json \<Rightarrow> exn + rat" where
  "json_number v = (case v of
       JInt i \<Rightarrow> Inr (of_int i) | JFloat x \<Rightarrow> Inr x | JBool b \<Rightarrow> Inr (if b then 1 else 0)
     | _ \<Rightarrow> Inl TypeError)"

definition worker_number_keys :: "(settings_env \<Rightarrow> setting_table \<Rightarrow> exn + json) list" where
  "worker_number_keys =
     [worker_poll_interval_sec, worker_poll_jitter_sec, worker_heartbeat_interval_sec,
      worker_stale_threshold_sec, worker_retry_base_sec, worker_retry_max_sec, worker_max_attempts,
      worker_blocked_retry_sec, worker_blocked_retry_403_sec, worker_progress_write_interval_sec,
      worker_progress_write_percent_step, worker_shutdown_grace_sec, download_item_concurrency,
      log_retention_days]"

definition json_true :: "json \<Rightarrow> bool" where
  "json_true v \<longleftrightarrow> v = JBool True"

definition worker_config_from_session :: "settings_env \<Rightarrow> setting_table \<Rightarrow> exn + worker_config" where
  "worker_config_from_session env t =
     (case map_results (\<lambda>key. key env t) worker_number_keys of
        Inl e \<Rightarrow> Inl e
      | Inr vs \<Rightarrow>
          (case worker_enable_test_tasks env t of
             Inl e \<Rightarrow> Inl e
           | Inr tests \<Rightarrow>
               (case map_results json_number vs of
                  Inl e \<Rightarrow> Inl e
                | Inr [poll, jitter, hb, stl, base, mx, att, bl, bl403, pint, pstep, grace, conc, logd] \<Rightarrow>
                    make_worker_config
                      \<lparr>wk_poll_interval_sec = poll, wk_poll_jitter_sec = jitter,
                       wk_heartbeat_interval_sec = hb, wk_stale_threshold_sec = stl,
                       wk_retry_base_sec = base, wk_retry_max_sec = mx, wk_max_attempts = att,
                       wk_blocked_retry_sec = bl, wk_blocked_retry_403_sec = bl403,
                       wk_progress_write_interval_sec = pint, wk_progress_write_percent_step = pstep,
                       wk_shutdown_grace_sec = grace, wk_item_concurrency = conc,
                       wk_log_retention_days = logd, wk_enable_test_tasks = json_true tests\<rparr>
                | Inr _ \<Rightarrow> Inl TypeError)))"

section \<open>Progress\<close>

record progress_throttler =
  pt_interval_sec :: rat
  pt_percent_step :: rat
  pt_last_write_at :: "rat option"
  pt_last_percent :: "rat option"

definition new_throttler :: "rat \<Rightarrow> rat \<Rightarrow> progress_throttler" where
  "new_throttler interval_sec percent_step =
     \<lparr>pt_interval_sec = interval_sec, pt_percent_step = percent_step,
      pt_last_write_at = None, pt_last_percent = None\<rparr>"

definition should_write :: "rat \<Rightarrow> rat option \<Rightarrow> bool \<Rightarrow> progress_throttler \<Rightarrow> bool \<times> progress_throttler" where
  "should_write now percent final th =
     (let elapsed = (case pt_last_write_at th of None \<Rightarrow> True | Some l \<Rightarrow> pt_interval_sec th \<le> now - l);
          advanced = (case percent of None \<Rightarrow> False
                      | Some p \<Rightarrow> (case pt_last_percent th of None \<Rightarrow> True
                                   | Some l \<Rightarrow> pt_percent_step th \<le> p - l))
      in if \<not> (final \<or> elapsed \<or> advanced) then (False, th)
         else (True, th\<lparr>pt_last_write_at := Some now,
                        pt_last_percent := (if percent \<noteq> None then percent else pt_last_percent th)\<rparr>))"

type_synonym progress = "(string \<times> json) list"

definition progress_percent :: "progress \<Rightarrow> rat option" where
  "progress_percent p = (case jget p ''percent'' of
       JInt i \<Rightarrow> Some (of_int i) | JFloat x \<Rightarrow> Some x | JBool b \<Rightarrow> Some (if b then 1 else 0) | _ \<Rightarrow> None)"

text \<open>One \<open>emit\<close> at an instant of the monotonic clock; the write goes to the task row.\<close>

definition emit_progress :: "(json \<Rightarrow> json \<Rightarrow> json) \<Rightarrow> int \<Rightarrow> string \<Rightarrow> bool \<Rightarrow> rat \<times> progress
    \<Rightarrow> progress_throttler \<times> task table \<Rightarrow> progress_throttler \<times> task table" where
  "emit_progress json_patch tid w final p st =
     (case should_write (fst p) (progress_percent (snd p)) final (fst st) of
        (False, th) \<Rightarrow> (th, snd st)
      | (True, th) \<Rightarrow> (th, snd (write_progress json_patch tid (snd p) (Some w) (snd st))))"

section \<open>Settling a task\<close>

type_synonym handler = "(string \<times> json) list \<Rightarrow> db
    \<Rightarrow> (exn + task_result) \<times> (rat \<times> progress) list \<times> event list \<times> db"

definition execution_payload :: "int \<Rightarrow> task \<Rightarrow> (string \<times> json) list" where
  "execution_payload tid t =
     AList.update ''_execution''
       (JObj [(''task_id'', JInt tid),
              (''depends_on_task_id'', case tk_depends_on_task_id t of None \<Rightarrow> JNull | Some i \<Rightarrow> JInt i),
              (''target_ref_id'', JInt (tk_target_ref_id t)),
              (''run_id'', case tk_run_id t of None \<Rightarrow> JNull | Some i \<Rightarrow> JInt i)])
       (opt_json (tk_payload_json t))"

definition target_failed_event :: "int \<Rightarrow> int \<Rightarrow> string \<Rightarrow> event" where
  "target_failed_event target_id tid reason = Event ''target_failed''
     [(''target_id'', JInt target_id), (''task_id'', JInt tid), (''reason_code'', JStr reason)]"

text \<open>The updates of the task row: the new tables, and the status to reflect on the Target.\<close>

definition settle_task :: "worker_config \<Rightarrow> string \<Rightarrow> int \<Rightarrow> task \<Rightarrow> task_result \<Rightarrow> instant \<Rightarrow> rat
    \<Rightarrow> task table \<Rightarrow> exn + task_status option \<times> task table" where
  "settle_task cfg w tid t result now random_fraction ts =
     (case tr_outcome result of
        TO_Succeeded \<Rightarrow> Inr (None, snd (mark_succeeded tid w now ts))
      | TO_Cancelled \<Rightarrow>
          (case mark_cancelled tid w now ts of
             (changed, ts') \<Rightarrow> Inr (if changed then Some TS_Cancelled else None, ts'))
      | TO_Unavailable \<Rightarrow>
          (case mark_unavailable tid w (tr_message result) now ts of
             (changed, ts') \<Rightarrow> Inr (if changed then Some TS_Unavailable else None, ts'))
      | TO_Blocked \<Rightarrow>
          (let retry_after_sec =
                 (if tr_reason_code result \<in> {Some ''http_403'', Some ''bot_check''}
                  then wk_blocked_retry_403_sec cfg else wk_blocked_retry_sec cfg)
           in case mark_blocked tid w retry_after_sec (tr_message result) now ts of
                (changed, ts') \<Rightarrow>
                  Inr (if changed then map_option tk_status (tget ts' tid) else None, ts'))
      | TO_Failed \<Rightarrow>
          (case retry_delay_sec (tk_attempts t + 1) (wk_retry_base_sec cfg) (wk_retry_max_sec cfg)
                  random_fraction of
             Inl e \<Rightarrow> Inl e
           | Inr delay \<Rightarrow> Inr (mark_failed_for_retry tid w delay (tr_message result) now ts)))"

definition apply_result :: "worker_config \<Rightarrow> string \<Rightarrow> int \<Rightarrow> task \<Rightarrow> task_result \<Rightarrow> instant \<Rightarrow> rat
    \<Rightarrow> db \<Rightarrow> exn option \<times> event list \<times> db" where
  "apply_result cfg w tid t result now random_fraction d =
     (let ts0 = (case tr_payload_update result of
            None \<Rightarrow> db_tasks d
          | Some u \<Rightarrow> if u = [] then db_tasks d else snd (write_result_payload tid w u (db_tasks d)))
      in case settle_task cfg w tid t result now random_fraction ts0 of
           Inl e \<Rightarrow> (Some e, [], d\<lparr>db_tasks := ts0\<rparr>)
         | Inr (final_status, ts') \<Rightarrow>
             (let tgs' = (case final_status of None \<Rightarrow> db_targets d
                  | Some st \<Rightarrow> snd (sync_target_after_task t st (tr_message result)
                                     (tr_outcome result = TO_Failed) now (db_targets d)));
                  evs = (case final_status of
                      None \<Rightarrow> []
                    | Some st \<Rightarrow>
                        if st \<in> {TS_Failed, TS_Unavailable} \<and> tk_target_ref_type t = ''target''
                        then [target_failed_event (tk_target_ref_id t) tid
                                (case tr_reason_code result of
                                   Some (c # r) \<Rightarrow> c # r | _ \<Rightarrow> task_status_value st)]
                        else [])
              in (None, evs, d\<lparr>db_tasks := ts', db_targets := tgs'\<rparr>)))"

definition finish_unavailable :: "string \<Rightarrow> int \<Rightarrow> string \<Rightarrow> instant \<Rightarrow> db \<Rightarrow> event list \<times> db" where
  "finish_unavailable w tid message now d =
     (case tget (db_tasks d) tid of
        None \<Rightarrow> ([], d)
      | Some t \<Rightarrow>
          (case mark_unavailable tid w (Some message) now (db_tasks d) of
             (False, _) \<Rightarrow> ([], d)
           | (True, ts') \<Rightarrow>
               (if tk_target_ref_type t = ''target''
                then [target_failed_event (tk_target_ref_id t) tid ''handler_unavailable''] else [],
                d\<lparr>db_tasks := ts',
                  db_targets := snd (sync_target_after_task t TS_Unavailable (Some message) False now
                                      (db_targets d))\<rparr>)))"

section \<open>Executing a task\<close>

definition msg_no_handler :: string where "msg_no_handler = ''no handler is registered for the task type''"

text \<open>
  What happens around the handler: \<open>ex_shutdown\<close> and \<open>ex_cancel_seen\<close> are the two events at its end,
  \<open>ex_log\<close> the aggregated log if any was written, with the excerpt kept in the row.
\<close>

record execution =
  ex_shutdown :: bool
  ex_cancel_seen :: bool
  ex_final_time :: rat
  ex_log :: "(string \<times> string) option"
  ex_now :: instant
  ex_random :: rat

definition persist_handler_logs :: "int \<Rightarrow> task \<Rightarrow> (string \<times> string) option \<Rightarrow> db \<Rightarrow> db" where
  "persist_handler_logs tid t logged d =
     (case (tk_run_id t, logged) of
        (Some run_id, Some (path, excerpt)) \<Rightarrow>
          d\<lparr>db_tasks := set_row tid (\<lambda>t. t\<lparr>tk_log_excerpt := Some excerpt\<rparr>) (db_tasks d),
            db_runs := set_row run_id (\<lambda>r. r\<lparr>rn_log_path := Some path\<rparr>) (db_runs d)\<rparr>
      | _ \<Rightarrow> d)"

definition failed_result :: "exn \<Rightarrow> task_result" where
  "failed_result e = \<lparr>tr_outcome = TO_Failed, tr_message = Some (exn_name e),
     tr_payload_update = None, tr_reason_code = None\<rparr>"

definition cancelled_result :: task_result where
  "cancelled_result = \<lparr>tr_outcome = TO_Cancelled, tr_message = None,
     tr_payload_update = None, tr_reason_code = None\<rparr>"

fun task_outcome_value :: "task_outcome \<Rightarrow> string" where
  "task_outcome_value TO_Succeeded = ''succeeded''"
| "task_outcome_value TO_Failed = ''failed''"
| "task_outcome_value TO_Unavailable = ''unavailable''"
| "task_outcome_value TO_Blocked = ''blocked''"
| "task_outcome_value TO_Cancelled = ''cancelled''"

definition final_progress :: "task_outcome \<Rightarrow> progress" where
  "final_progress oc = [(''status'', JStr (task_outcome_value oc)),
     (''percent'', if oc = TO_Succeeded then JFloat 100 else JNull)]"

definition execute_task :: "(json \<Rightarrow> json \<Rightarrow> json) \<Rightarrow> worker_config \<Rightarrow> string \<Rightarrow> (task_type \<Rightarrow> handler option)
    \<Rightarrow> execution \<Rightarrow> int \<Rightarrow> task \<Rightarrow> db \<Rightarrow> exn option \<times> event list \<times> db" where
  "execute_task json_patch cfg w handlers ex tid t d =
     (case handlers (tk_type t) of
        None \<Rightarrow> (case finish_unavailable w tid msg_no_handler (ex_now ex) d of (evs, d') \<Rightarrow> (None, evs, d'))
      | Some run \<Rightarrow>
          (case run (execution_payload tid t) d of (outcome, reports, evs, d1) \<Rightarrow>
             (case fold (emit_progress json_patch tid w False) reports
                     (new_throttler (wk_progress_write_interval_sec cfg) (wk_progress_write_percent_step cfg),
                      db_tasks d1) of (th, ts1) \<Rightarrow>
                if ex_shutdown ex then
                  (None, evs, d1\<lparr>db_tasks := snd (release_for_shutdown tid w (ex_now ex) ts1)\<rparr>)
                else
                  (let result = (if ex_cancel_seen ex then cancelled_result
                                 else (case outcome of Inl e \<Rightarrow> failed_result e | Inr r \<Rightarrow> r));
                       ts2 = snd (emit_progress json_patch tid w True
                                   (ex_final_time ex, final_progress (tr_outcome result)) (th, ts1));
                       d2 = persist_handler_logs tid t (ex_log ex) (d1\<lparr>db_tasks := ts2\<rparr>)
                   in case apply_result cfg w tid t result (ex_now ex) (ex_random ex) d2 of
                        (err, evs', d3) \<Rightarrow> (err, evs @ evs', d3)))))"

text \<open>\<open>run_once\<close>: claim the next task and execute it; \<open>False\<close> when there is none or the worker stops.\<close>

definition run_once :: "(json \<Rightarrow> json \<Rightarrow> json) \<Rightarrow> worker_config \<Rightarrow> worker_class \<Rightarrow> string
    \<Rightarrow> (task_type \<Rightarrow> handler option) \<Rightarrow> execution \<Rightarrow> bool \<Rightarrow> instant \<Rightarrow> db
    \<Rightarrow> (exn + bool) \<times> event list \<times> db" where
  "run_once json_patch cfg wc w handlers ex stopping now d =
     (if stopping then (Inr False, [], d)
      else (case claim_next wc w now (Some \<lfloor>wk_item_concurrency cfg\<rfloor>) (db_tasks d) of
              (Inl e, ts) \<Rightarrow> (Inl e, [], d\<lparr>db_tasks := ts\<rparr>)
            | (Inr None, ts) \<Rightarrow> (Inr False, [], d\<lparr>db_tasks := ts\<rparr>)
            | (Inr (Some tid), ts) \<Rightarrow>
                (case tget ts tid of
                   None \<Rightarrow> (Inr False, [], d\<lparr>db_tasks := ts\<rparr>)
                 | Some t \<Rightarrow>
                     (case execute_task json_patch cfg w handlers ex tid t (d\<lparr>db_tasks := ts\<rparr>) of
                        (None, evs, d') \<Rightarrow> (Inr True, evs, d')
                      | (Some e, evs, d') \<Rightarrow> (Inl e, evs, d')))))"

section \<open>Reaping stale tasks\<close>

definition msg_stale_exhausted :: string where
  "msg_stale_exhausted = ''stale task reached its retry limit''"

definition stale_stats :: "json option \<Rightarrow> json" where
  "stale_stats stats =
     JObj (dict_merge (opt_json stats) [(''empty_result'', JBool True), (''stale_recovered'', JBool True)])"

definition run_event :: "string \<Rightarrow> int \<Rightarrow> int option \<Rightarrow> string \<Rightarrow> string \<Rightarrow> event" where
  "run_event name run_id pid kind reason = Event name
     [(''run_id'', JInt run_id), (''playlist_id'', case pid of None \<Rightarrow> JNull | Some i \<Rightarrow> JInt i),
      (''kind'', JStr kind), (''reason_code'', JStr reason)]"

text \<open>One recovered task: the Target of a task given up, and the Run of a discovery given up.\<close>

definition reap_task :: "instant \<Rightarrow> int \<Rightarrow> event list \<times> event list \<times> db \<Rightarrow> event list \<times> event list \<times> db" where
  "reap_task now tid st =
     (case st of (target_failures, run_failures, d) \<Rightarrow>
        case tget (db_tasks d) tid of
          None \<Rightarrow> st
        | Some t \<Rightarrow>
            if tk_status t \<noteq> TS_Unavailable then st
            else
              (let d1 = d\<lparr>db_targets := snd (sync_target_after_task t TS_Unavailable
                            (or_default (tk_error_message t) msg_stale_exhausted) False now (db_targets d))\<rparr>;
                   tf = (if tk_target_ref_type t = ''target''
                         then target_failures @ [target_failed_event (tk_target_ref_id t) tid ''stale_retry_exhausted'']
                         else target_failures)
               in case (if tk_type t = TT_Discover then tk_run_id t else None) of
                    None \<Rightarrow> (tf, run_failures, d1)
                  | Some run_id \<Rightarrow>
                      (case tget (db_runs d1) run_id of
                         None \<Rightarrow> (tf, run_failures, d1)
                       | Some r \<Rightarrow>
                           if rn_status r \<noteq> RS_Running then (tf, run_failures, d1)
                           else (tf, run_failures @ [run_event ''run_failed'' run_id (rn_playlist_id r) (rn_kind r)
                                                     ''stale_task_recovered''],
                                 d1\<lparr>db_runs := snd (finish_run run_id RS_Failed (stale_stats (rn_stats_json r))
                                               now (db_runs d1))\<rparr>))))"

definition reaper_run_once :: "worker_config \<Rightarrow> instant \<Rightarrow> db \<Rightarrow> int list \<times> event list \<times> db" where
  "reaper_run_once cfg now d =
     (let stale_before = now - timedelta_sec (wk_stale_threshold_sec cfg)
      in case recover_stale stale_before now (db_tasks d) of
           (recovered, ts) \<Rightarrow>
             (case fold (reap_task now) recovered ([], [], d\<lparr>db_tasks := ts\<rparr>) of
                (target_failures, run_failures, d') \<Rightarrow>
                  (recovered, target_failures @ run_failures, d')))"

end
