(* ===== verification/Worker_Theorems.thy ===== *)
theory Worker_Theorems
  imports Worker
begin

text \<open>
  What a worker leaves behind: the task it ran is settled as its result says, its Target follows and
  is never stranded, a worker that lost the task changes nothing, and the reaper does the same for
  the tasks it gives up.
\<close>

section \<open>Targets follow their tasks\<close>

definition settled_target :: "task_status \<Rightarrow> bool \<Rightarrow> target_status \<Rightarrow> target_status" where
  "settled_target st failed s =
     (if st = TS_Unavailable then
        (if s \<in> active_target_statuses \<or> failed \<and> s = TG_Failed then TG_Unavailable else s)
      else if st = TS_Cancelled then (if s \<in> active_target_statuses then TG_Failed else s)
      else if st = TS_Blocked then (if s \<in> active_target_statuses then TG_Blocked else s)
      else if st = TS_Pending \<and> failed then
        (if s \<in> active_target_statuses - {TG_Blocked} then TG_Failed else s)
      else s)"

definition follow_target :: "task \<Rightarrow> task_status \<Rightarrow> bool \<Rightarrow> target table \<Rightarrow> int \<Rightarrow> target_status option" where
  "follow_target t st failed tgs i =
     (if tk_target_ref_type t = ''target'' \<and> i = tk_target_ref_id t
      then map_option (settled_target st failed) (target_status_of tgs i) else target_status_of tgs i)"

lemma wf_sync_target [simp, table_intros]:
  "wf_table (snd (sync_target_after_task t st err failed now tgs)) = wf_table tgs"
  by (simp add: sync_target_after_task_def Let_def)

lemma cas_target_status:
  assumes "wf_table tgs"
  shows "target_status_of (snd (compare_and_set_status tid E n err br inc id now tgs)) i =
    (if i = tid then map_option (\<lambda>s. if s \<in> E then n else s) (target_status_of tgs i)
     else target_status_of tgs i)"
  using target_cas.cas_status[OF assms, of tid E n err br inc now i]
  by (cases "target_status_of tgs i") auto

lemma cas_target_done:
  "wf_table tgs \<Longrightarrow> fst (compare_and_set_status tid E n err br inc id now tgs) \<longleftrightarrow>
     (\<exists>s. target_status_of tgs tid = Some s \<and> s \<in> E)"
  using target_cas.cas_result .

lemma sync_target_status:
  assumes wf: "wf_table tgs"
  shows "target_status_of (snd (sync_target_after_task t st err failed now tgs)) i =
    follow_target t st failed tgs i"
proof (cases "tk_target_ref_type t = ''target''")
  case False
  then show ?thesis by (simp add: sync_target_after_task_def follow_target_def)
next
  case True
  let ?tid = "tk_target_ref_id t"
  consider "st = TS_Unavailable" "failed" | "st = TS_Unavailable" "\<not> failed" | "st = TS_Cancelled"
    | "st = TS_Blocked" | "st = TS_Pending" "failed"
    | "st \<notin> {TS_Unavailable, TS_Cancelled, TS_Blocked}" "\<not> (st = TS_Pending \<and> failed)" by blast
  then show ?thesis
  proof cases
    case 1
    let ?first = "compare_and_set_status ?tid {TG_Failed} TG_Unavailable (or_default err msg_not_retryable)
        None False id now tgs"
    have wf1: "wf_table (snd ?first)" using wf by simp
    show ?thesis
    proof (cases "target_status_of tgs ?tid = Some TG_Failed")
      case f: True
      then have "fst ?first" using cas_target_done[OF wf] by blast
      then have "snd (sync_target_after_task t st err failed now tgs) = snd ?first"
        using 1 True by (simp add: sync_target_after_task_def Let_def)
      then show ?thesis using f True 1
        by (simp add: cas_target_status[OF wf] follow_target_def settled_target_def)
    next
      case f: False
      then have no: "\<not> fst ?first" using cas_target_done[OF wf] by auto
      then have same: "snd ?first = tgs" by (rule compare_and_set_status_failed)
      then have "snd (sync_target_after_task t st err failed now tgs) =
          snd (compare_and_set_status ?tid active_target_statuses TG_Unavailable
                 (or_default err msg_not_retryable) None failed id now tgs)"
        using 1 True no by (simp add: sync_target_after_task_def Let_def)
      then show ?thesis using f True 1
        by (cases "target_status_of tgs i")
           (auto simp: cas_target_status[OF wf] follow_target_def settled_target_def)
    qed
  next
    case 2
    then have "snd (sync_target_after_task t st err failed now tgs) = snd (compare_and_set_status ?tid active_target_statuses TG_Unavailable (or_default err msg_not_retryable) None False id now tgs)"
      using True by (simp add: sync_target_after_task_def Let_def)
    then show ?thesis using True 2
      by (cases "i = ?tid"; cases "target_status_of tgs i") (simp_all add: cas_target_status[OF wf] follow_target_def settled_target_def)
  next
    case 3
    then have "snd (sync_target_after_task t st err failed now tgs) = snd (compare_and_set_status ?tid active_target_statuses TG_Failed (or_default err msg_cancelled) None False id now tgs)"
      using True by (simp add: sync_target_after_task_def Let_def)
    then show ?thesis using True 3
      by (cases "i = ?tid"; cases "target_status_of tgs i") (simp_all add: cas_target_status[OF wf] follow_target_def settled_target_def)
  next
    case 4
    then have "snd (sync_target_after_task t st err failed now tgs) = snd (compare_and_set_status ?tid (active_target_statuses - {TG_Blocked}) TG_Blocked err err False id now tgs)"
      using True by (simp add: sync_target_after_task_def Let_def)
    then show ?thesis using True 4
      by (cases "i = ?tid"; cases "target_status_of tgs i") (simp_all add: cas_target_status[OF wf] follow_target_def settled_target_def active_target_statuses_def)
  next
    case 5
    then have "snd (sync_target_after_task t st err failed now tgs) = snd (compare_and_set_status ?tid (active_target_statuses - {TG_Blocked}) TG_Failed err None True id now tgs)"
      using True by (simp add: sync_target_after_task_def Let_def)
    then show ?thesis using True 5
      by (cases "i = ?tid"; cases "target_status_of tgs i") (simp_all add: cas_target_status[OF wf] follow_target_def settled_target_def)
  next
    case 6
    then have "snd (sync_target_after_task t st err failed now tgs) = tgs"
      using True by (auto simp: sync_target_after_task_def Let_def)
    then show ?thesis using True 6
      by (cases "i = ?tid"; cases "target_status_of tgs i") (auto simp: follow_target_def settled_target_def)
  qed
qed

lemma settled_target_inactive:
  "st \<in> {TS_Unavailable, TS_Cancelled} \<Longrightarrow> settled_target st failed s \<notin> active_target_statuses"
  by (auto simp: settled_target_def active_target_statuses_def)

section \<open>Settling\<close>

definition settled_status :: "task_outcome \<Rightarrow> task \<Rightarrow> task_status" where
  "settled_status oc r = (case oc of
       TO_Succeeded \<Rightarrow> TS_Succeeded
     | TO_Cancelled \<Rightarrow> TS_Cancelled
     | TO_Unavailable \<Rightarrow> TS_Unavailable
     | TO_Blocked \<Rightarrow> if tk_cancel_requested r then TS_Cancelled else TS_Blocked
     | TO_Failed \<Rightarrow> retry_outcome r)"

lemma cancel_keeps_settled:
  assumes "wf_table ts" "tget ts tid = Some r" "\<not> waiting (f r)"
  shows "tget (snd (cancel_descendants k now (set_row tid f ts))) tid = Some (f r)"
  using cancel_descendants_not_waiting[of "set_row tid f ts" tid "f r" k now] assms by simp

lemma finish_and_cancel_owned:
  assumes "wf_table ts" "tget ts tid = Some r" "owned tid w tid r" "\<not> waiting (finish_row st msg now r)"
  shows "fst (finish_and_cancel tid w st msg now ts)"
    "tget (snd (finish_and_cancel tid w st msg now ts)) tid = Some (finish_row st msg now r)"
proof -
  have "0 < rowcount (owned tid w) ts" using assms rowcount_owned_iff by blast
  then show "fst (finish_and_cancel tid w st msg now ts)"
    "tget (snd (finish_and_cancel tid w st msg now ts)) tid = Some (finish_row st msg now r)"
    using cancel_keeps_settled[of ts tid r "finish_row st msg now" tid now] assms update_owned_eq[OF assms(1-3)]
    by (simp_all add: finish_and_cancel_def finish_task_def)
qed

lemma finish_and_cancel_not_owned:
  assumes "wf_table ts" "\<nexists>r. tget ts tid = Some r \<and> owned tid w tid r"
  shows "finish_and_cancel tid w st msg now ts = (False, ts)"
proof -
  have "rowcount (owned tid w) ts = 0" using assms rowcount_owned_iff by blast
  then show ?thesis using update_not_owned[OF assms]
    by (simp add: finish_and_cancel_def finish_task_def)
qed

lemma mark_blocked_owned:
  assumes "wf_table ts" "tget ts tid = Some r" "owned tid w tid r"
  shows "fst (mark_blocked tid w d msg now ts)"
    "tget (snd (mark_blocked tid w d msg now ts)) tid = Some (block_row d msg now r)"
proof -
  have st: "returning_status (owned tid w) (block_row d msg now) ts = Some (tk_status (block_row d msg now r))"
    using assms by (simp add: returning_status_owned)
  then show "fst (mark_blocked tid w d msg now ts)" by (simp add: mark_blocked_def Let_def)
  show "tget (snd (mark_blocked tid w d msg now ts)) tid = Some (block_row d msg now r)"
  proof (cases "tk_status (block_row d msg now r) = TS_Cancelled")
    case True
    then have "\<not> waiting (block_row d msg now r)" by (simp add: waiting_def waiting_statuses_def)
    then show ?thesis
      using True st cancel_keeps_settled[of ts tid r "block_row d msg now" tid now] assms
      by (simp add: mark_blocked_def Let_def update_owned_eq)
  next
    case False
    then show ?thesis using st assms by (simp add: mark_blocked_def Let_def update_owned_eq)
  qed
qed

lemma mark_blocked_not_owned:
  assumes "wf_table ts" "\<nexists>r. tget ts tid = Some r \<and> owned tid w tid r"
  shows "mark_blocked tid w d msg now ts = (False, ts)"
proof -
  have "returning_status (owned tid w) (block_row d msg now) ts = None"
    using assms by (auto simp: returning_status_owned split: option.splits)
  then show ?thesis using update_not_owned[OF assms] by (simp add: mark_blocked_def Let_def)
qed

lemma mark_failed_row:
  assumes "wf_table ts" "tget ts tid = Some r" "owned tid w tid r"
  shows "fst (mark_failed_for_retry tid w d msg now ts) = Some (retry_outcome r)"
    "tget (snd (mark_failed_for_retry tid w d msg now ts)) tid = Some (retry_row d msg now r)"
    "tk_status (retry_row d msg now r) = retry_outcome r"
proof -
  show st: "tk_status (retry_row d msg now r) = retry_outcome r"
    by (simp add: retry_row_def Let_def retry_outcome_def attempts_exhausted_def)
  then show "fst (mark_failed_for_retry tid w d msg now ts) = Some (retry_outcome r)"
    using mark_failed_for_retry_owned[OF assms] by simp
  show "tget (snd (mark_failed_for_retry tid w d msg now ts)) tid = Some (retry_row d msg now r)"
  proof (cases "retry_outcome r = TS_Pending")
    case True
    then show ?thesis using mark_failed_for_retry_owned[OF assms] st assms(2) by simp
  next
    case False
    then have "\<not> waiting (retry_row d msg now r)"
      using st by (auto simp: waiting_def waiting_statuses_def retry_outcome_def split: if_splits)
    then show ?thesis
      using mark_failed_for_retry_owned[OF assms] st False
        cancel_keeps_settled[of ts tid r "retry_row d msg now" tid now] assms
      by (simp add: cancel_descendants_behind)
  qed
qed

lemma retry_delay_ok: "0 \<le> tk_attempts t \<Longrightarrow> \<exists>d. retry_delay_sec (tk_attempts t + 1) b m f = Inr d"
  by (simp add: retry_delay_sec_def Let_def)

lemma settle_task_owned:
  assumes "wf_table ts" "tget ts tid = Some r" "owned tid w tid r" "0 \<le> tk_attempts t"
  shows "\<exists>ts' r'. settle_task cfg w tid t result now f ts =
      Inr (if tr_outcome result = TO_Succeeded then None else Some (settled_status (tr_outcome result) r), ts') \<and>
    tget ts' tid = Some r' \<and> tk_status r' = settled_status (tr_outcome result) r"
proof (cases "tr_outcome result")
  case TO_Succeeded
  then show ?thesis
    using assms by (simp add: settle_task_def mark_succeeded_def finish_task_def update_owned_eq
        settled_status_def finish_row_def)
next
  case TO_Cancelled
  have "\<not> waiting (finish_row TS_Cancelled None now r)"
    by (simp add: waiting_def waiting_statuses_def finish_row_def)
  note f = finish_and_cancel_owned[OF assms(1-3) this]
  obtain ch ts' where m: "finish_and_cancel tid w TS_Cancelled None now ts = (ch, ts')"
    by (cases "finish_and_cancel tid w TS_Cancelled None now ts")
  with f have "ch" "tget ts' tid = Some (finish_row TS_Cancelled None now r)" by simp_all
  with TO_Cancelled m show ?thesis
    by (simp add: settle_task_def mark_cancelled_def settled_status_def finish_row_def)
next
  case TO_Unavailable
  have "\<not> waiting (finish_row TS_Unavailable (tr_message result) now r)"
    by (simp add: waiting_def waiting_statuses_def finish_row_def)
  note f = finish_and_cancel_owned[OF assms(1-3) this]
  obtain ch ts' where m: "finish_and_cancel tid w TS_Unavailable (tr_message result) now ts = (ch, ts')"
    by (cases "finish_and_cancel tid w TS_Unavailable (tr_message result) now ts")
  with f have "ch" "tget ts' tid = Some (finish_row TS_Unavailable (tr_message result) now r)" by simp_all
  with TO_Unavailable m show ?thesis
    by (simp add: settle_task_def mark_unavailable_def settled_status_def finish_row_def)
next
  case TO_Blocked
  let ?d = "if tr_reason_code result \<in> {Some ''http_403'', Some ''bot_check''}
    then wk_blocked_retry_403_sec cfg else wk_blocked_retry_sec cfg"
  have st: "tk_status (block_row ?d (tr_message result) now r) = settled_status TO_Blocked r"
    by (simp add: block_row_def Let_def settled_status_def)
  obtain ch ts' where m: "mark_blocked tid w ?d (tr_message result) now ts = (ch, ts')"
    by (cases "mark_blocked tid w ?d (tr_message result) now ts")
  then have "ch" "tget ts' tid = Some (block_row ?d (tr_message result) now r)"
    using mark_blocked_owned[OF assms(1-3), of ?d "tr_message result" now] by simp_all
  with TO_Blocked m st show ?thesis unfolding settle_task_def Let_def by auto
next
  case TO_Failed
  obtain d where d: "retry_delay_sec (tk_attempts t + 1) (wk_retry_base_sec cfg) (wk_retry_max_sec cfg) f = Inr d"
    using retry_delay_ok[OF assms(4)] by blast
  obtain st ts' where m: "mark_failed_for_retry tid w d (tr_message result) now ts = (st, ts')"
    by (cases "mark_failed_for_retry tid w d (tr_message result) now ts")
  with mark_failed_row[OF assms(1-3), of d "tr_message result" now] TO_Failed d show ?thesis
    by (simp add: settle_task_def settled_status_def)
qed

lemma settle_task_not_owned:
  assumes "wf_table ts" "\<nexists>r. tget ts tid = Some r \<and> owned tid w tid r" "0 \<le> tk_attempts t"
  shows "settle_task cfg w tid t result now f ts = Inr (None, ts)"
proof -
  obtain d where "retry_delay_sec (tk_attempts t + 1) (wk_retry_base_sec cfg) (wk_retry_max_sec cfg) f = Inr d"
    using retry_delay_ok[OF assms(3)] by blast
  then show ?thesis
    using finish_and_cancel_not_owned[OF assms(1,2)] mark_blocked_not_owned[OF assms(1,2)]
      mark_failed_for_retry_not_owned[OF assms(1,2)] update_not_owned[OF assms(1,2)]
    by (simp add: settle_task_def mark_succeeded_def mark_cancelled_def mark_unavailable_def finish_task_def
        Let_def split: task_outcome.split)
qed

lemma write_result_row:
  assumes "wf_table ts" "tget ts tid = Some r" "owned tid w tid r"
  shows "\<exists>p. tget (snd (write_result_payload tid w u ts)) tid = Some (r\<lparr>tk_payload_json := p\<rparr>)"
    "wf_table (snd (write_result_payload tid w u ts))"
  using assms by (auto simp: write_result_payload_def find_owned Let_def)

lemma write_result_not_owned:
  assumes "wf_table ts" "\<nexists>r. tget ts tid = Some r \<and> owned tid w tid r"
  shows "snd (write_result_payload tid w u ts) = ts"
  using assms by (auto simp: write_result_payload_def find_owned split: option.splits)

lemma settled_status_payload: "settled_status oc (r\<lparr>tk_payload_json := p\<rparr>) = settled_status oc r"
  by (cases oc) (simp_all add: settled_status_def retry_outcome_def attempts_exhausted_def)

text \<open>Settling an owned task, with both tables written out.\<close>

definition followed_targets :: "task \<Rightarrow> task_result \<Rightarrow> task_status \<Rightarrow> instant \<Rightarrow> target table \<Rightarrow> target table" where
  "followed_targets t result st now tgs =
     (if tr_outcome result = TO_Succeeded then tgs
      else snd (sync_target_after_task t st (tr_message result) (tr_outcome result = TO_Failed) now tgs))"

lemma apply_result_owned:
  assumes "wf_table (db_tasks d)" "0 \<le> tk_attempts t"
    and r: "tget (db_tasks d) tid = Some r" "owned tid w tid r"
    and st: "st = settled_status (tr_outcome result) r"
  shows "\<exists>ts' r' evs. tget ts' tid = Some r' \<and> tk_status r' = st \<and>
    length evs = (if st = TS_Unavailable \<and> tk_target_ref_type t = ''target'' then 1 else 0) \<and>
    apply_result cfg w tid t result now f d =
      (None, evs, d\<lparr>db_tasks := ts', db_targets := followed_targets t result st now (db_targets d)\<rparr>)"
proof -
  let ?ts0 = "case tr_payload_update result of None \<Rightarrow> db_tasks d
    | Some u \<Rightarrow> if u = [] then db_tasks d else snd (write_result_payload tid w u (db_tasks d))"
  obtain p where p: "tget ?ts0 tid = Some (r\<lparr>tk_payload_json := p\<rparr>)" and wf0: "wf_table ?ts0"
  proof (cases "tr_payload_update result = None \<or> tr_payload_update result = Some []")
    case True
    then show ?thesis using that[of "tk_payload_json r"] r assms(1) by auto
  next
    case False
    then obtain u where u: "tr_payload_update result = Some u" "u \<noteq> []" by auto
    from write_result_row[OF assms(1) r, of u] obtain q where
      q: "tget (snd (write_result_payload tid w u (db_tasks d))) tid = Some (r\<lparr>tk_payload_json := q\<rparr>)" by blast
    show ?thesis using that[of q] u q write_result_row(2)[OF assms(1) r, of u] by simp
  qed
  have own: "owned tid w tid (r\<lparr>tk_payload_json := p\<rparr>)" using r(2) by (simp add: owned_def)
  obtain ts' r' where s: "settle_task cfg w tid t result now f ?ts0 =
      Inr (if tr_outcome result = TO_Succeeded then None else Some st, ts')"
    "tget ts' tid = Some r'" "tk_status r' = st"
    using settle_task_owned[OF wf0 p own assms(2)] unfolding settled_status_payload st by blast
  show ?thesis
  proof (cases "tr_outcome result = TO_Succeeded")
    case True
    then have "st = TS_Succeeded" by (simp add: st settled_status_def)
    with True s show ?thesis by (intro exI[of _ ts'] exI[of _ r']) (simp add: apply_result_def followed_targets_def)
  next
    case False
    have n: "st \<noteq> TS_Failed" using False
      by (auto simp: st settled_status_def retry_outcome_def split: task_outcome.splits if_splits)
    with False s show ?thesis by (intro exI[of _ ts'] exI[of _ r']) (simp add: apply_result_def followed_targets_def)
  qed
qed

text \<open>
  A worker that still owns the task it ran settles it in one step as the result says
  (succeeded, cancelled, unavailable, blocked, or by the retry rule), moves the Target of the task
  along and no other, and never leaves a Target active behind a task that is given up or cancelled. A
  worker that lost the task changes nothing and reports nothing.
\<close>

theorem apply_result_spec:
  assumes "wf_table (db_tasks d)" "wf_table (db_targets d)" "0 \<le> tk_attempts t"
  shows "case apply_result cfg w tid t result now f d of (err, evs, d') \<Rightarrow> err = None \<and>
    (case tget (db_tasks d) tid of
       Some r \<Rightarrow>
         if tk_status r = TS_Running \<and> tk_worker_id r = Some w then
           (let st = settled_status (tr_outcome result) r;
                moved = (\<lambda>i. if st = TS_Succeeded then target_status_of (db_targets d) i
                             else follow_target t st (tr_outcome result = TO_Failed) (db_targets d) i)
            in (\<exists>r'. tget (db_tasks d') tid = Some r' \<and> tk_status r' = st) \<and>
               target_status_of (db_targets d') = moved \<and>
               (if st \<in> {TS_Unavailable, TS_Cancelled} \<and> tk_target_ref_type t = ''target''
                then moved (tk_target_ref_id t) \<notin> Some ` active_target_statuses else True) \<and>
               length evs = (if st = TS_Unavailable \<and> tk_target_ref_type t = ''target'' then 1 else 0))
         else d' = d \<and> evs = []
     | None \<Rightarrow> d' = d \<and> evs = [])"
proof -
  show ?thesis
  proof (cases "\<exists>r. tget (db_tasks d) tid = Some r \<and> owned tid w tid r")
    case False
    then have "(case tr_payload_update result of None \<Rightarrow> db_tasks d
      | Some u \<Rightarrow> if u = [] then db_tasks d else snd (write_result_payload tid w u (db_tasks d))) = db_tasks d"
      using write_result_not_owned[OF assms(1)] by (auto split: option.splits)
    then have "apply_result cfg w tid t result now f d = (None, [], d)"
      using settle_task_not_owned[OF assms(1) False assms(3)] by (simp add: apply_result_def)
    with False show ?thesis by (auto simp: owned_def split: option.splits)
  next
    case True
    then obtain r where r: "tget (db_tasks d) tid = Some r" "owned tid w tid r" by blast
    let ?st = "settled_status (tr_outcome result) r"
    let ?failed = "tr_outcome result = TO_Failed"
    obtain ts' r' evs where a: "tget ts' tid = Some r'" "tk_status r' = ?st"
      "length evs = (if ?st = TS_Unavailable \<and> tk_target_ref_type t = ''target'' then 1 else 0)"
      "apply_result cfg w tid t result now f d =
        (None, evs, d\<lparr>db_tasks := ts', db_targets := followed_targets t result ?st now (db_targets d)\<rparr>)"
      using apply_result_owned[OF assms(1,3) r refl] by blast
    have ok: "tk_status r = TS_Running \<and> tk_worker_id r = Some w" using r(2) by (simp add: owned_def)
    have s: "?st = TS_Succeeded \<longleftrightarrow> tr_outcome result = TO_Succeeded"
      by (auto simp: settled_status_def retry_outcome_def split: task_outcome.splits)
    have tg: "target_status_of (followed_targets t result ?st now (db_targets d)) =
        (\<lambda>i. if ?st = TS_Succeeded then target_status_of (db_targets d) i
             else follow_target t ?st ?failed (db_targets d) i)"
      using sync_target_status[OF assms(2)] by (simp add: fun_eq_iff followed_targets_def s)
    have "?st \<in> {TS_Unavailable, TS_Cancelled} \<Longrightarrow> tk_target_ref_type t = ''target'' \<Longrightarrow>
        follow_target t ?st ?failed (db_targets d) (tk_target_ref_id t) \<notin> Some ` active_target_statuses"
      using settled_target_inactive[of ?st] by (auto simp: follow_target_def)
    with a r(1) ok tg show ?thesis by auto
  qed
qed

definition worker_task :: task where
  "worker_task = (new_task TT_Download ''target'' 5 None WC_Network 3 None 0)
     \<lparr>tk_status := TS_Running, tk_worker_id := Some ''w'', tk_attempts := 2\<rparr>"

definition worker_db :: db where
  "worker_db = empty_db\<lparr>db_tasks := [(1, worker_task)],
     db_targets := [(5, (new_target 1 1 0)\<lparr>tg_status := TG_Downloading\<rparr>)]\<rparr>"

definition sample_worker_config :: worker_config where
  "sample_worker_config = \<lparr>wk_poll_interval_sec = 3, wk_poll_jitter_sec = 1, wk_heartbeat_interval_sec = 30,
     wk_stale_threshold_sec = 180, wk_retry_base_sec = 60, wk_retry_max_sec = 3600, wk_max_attempts = 5,
     wk_blocked_retry_sec = 300, wk_blocked_retry_403_sec = 3600, wk_progress_write_interval_sec = 2,
     wk_progress_write_percent_step = 5, wk_shutdown_grace_sec = 20, wk_item_concurrency = 1,
     wk_log_retention_days = 30, wk_enable_test_tasks = False\<rparr>"

theorem apply_result_spec_witness:
  "case apply_result sample_worker_config ''w'' 1 worker_task (failed_result OSError) 7 0 worker_db of
     (err, evs, d') \<Rightarrow> err = None \<and> target_status_of (db_targets d') 5 = Some TG_Unavailable \<and> length evs = 1"
proof -
  have wf: "wf_table (db_tasks worker_db)" "wf_table (db_targets worker_db)" "0 \<le> tk_attempts worker_task"
    by (simp_all add: worker_db_def empty_db_def worker_task_def wf_table_def ids_def)
  have r: "tget (db_tasks worker_db) 1 = Some worker_task" "tk_status worker_task = TS_Running"
    "tk_worker_id worker_task = Some ''w''" "tk_target_ref_type worker_task = ''target''"
    "tk_target_ref_id worker_task = 5" "settled_status TO_Failed worker_task = TS_Unavailable"
    "target_status_of (db_targets worker_db) 5 = Some TG_Downloading"
    "tr_outcome (failed_result OSError) = TO_Failed"
    by (simp_all add: worker_db_def empty_db_def worker_task_def tget_def new_task_def settled_status_def
        retry_outcome_def attempts_exhausted_def target_status_of_def failed_result_def)
  from apply_result_spec[OF wf, where tid = 1 and cfg = sample_worker_config and w = "''w''"
      and result = "failed_result OSError" and now = 7 and f = 0] show ?thesis
    by (auto simp: r Let_def follow_target_def settled_target_def active_target_statuses_def)
qed

section \<open>The reaper\<close>

definition reaped :: "db \<Rightarrow> int \<Rightarrow> bool" where
  "reaped d tid \<longleftrightarrow>
     (case tget (db_tasks d) tid of
        None \<Rightarrow> True
      | Some t \<Rightarrow>
          if tk_status t \<noteq> TS_Unavailable then True
          else (if tk_target_ref_type t = ''target''
                then target_status_of (db_targets d) (tk_target_ref_id t) \<notin> Some ` active_target_statuses
                else True) \<and>
            (case (if tk_type t = TT_Discover then tk_run_id t else None) of
               None \<Rightarrow> True
             | Some run_id \<Rightarrow> (case tget (db_runs d) run_id of None \<Rightarrow> True | Some r \<Rightarrow> rn_status r \<noteq> RS_Running)))"

definition no_reopening :: "db \<Rightarrow> db \<Rightarrow> bool" where
  "no_reopening d d' \<longleftrightarrow> db_tasks d' = db_tasks d \<and>
     (\<forall>i. target_status_of (db_targets d) i \<notin> Some ` active_target_statuses \<longrightarrow>
        target_status_of (db_targets d') i \<notin> Some ` active_target_statuses) \<and>
     (\<forall>i r. tget (db_runs d') i = Some r \<longrightarrow> rn_status r = RS_Running \<longrightarrow>
        tget (db_runs d) i = Some r)"

lemma no_reopening_refl [simp]: "no_reopening d d"
  by (simp add: no_reopening_def)

lemma no_reopening_trans: "no_reopening d d' \<Longrightarrow> no_reopening d' d'' \<Longrightarrow> no_reopening d d''"
  unfolding no_reopening_def by metis

lemma reaped_mono: "no_reopening d d' \<Longrightarrow> reaped d tid \<Longrightarrow> reaped d' tid"
  unfolding no_reopening_def reaped_def
  by (auto split: option.splits if_splits)

lemma sync_unavailable_inactive:
  assumes "wf_table tgs"
  shows "target_status_of tgs i \<notin> Some ` active_target_statuses \<Longrightarrow>
      target_status_of (snd (sync_target_after_task t TS_Unavailable err False now tgs)) i \<notin> Some ` active_target_statuses"
    "tk_target_ref_type t = ''target'' \<Longrightarrow>
      target_status_of (snd (sync_target_after_task t TS_Unavailable err False now tgs)) (tk_target_ref_id t)
        \<notin> Some ` active_target_statuses"
proof -
  have i: "TG_Unavailable \<notin> active_target_statuses" by (simp add: active_target_statuses_def)
  show "target_status_of tgs i \<notin> Some ` active_target_statuses \<Longrightarrow>
      target_status_of (snd (sync_target_after_task t TS_Unavailable err False now tgs)) i \<notin> Some ` active_target_statuses"
    unfolding sync_target_status[OF assms] follow_target_def using i
    by (cases "target_status_of tgs i") (auto simp: settled_target_def split: if_splits)
  show "tk_target_ref_type t = ''target'' \<Longrightarrow>
      target_status_of (snd (sync_target_after_task t TS_Unavailable err False now tgs)) (tk_target_ref_id t)
        \<notin> Some ` active_target_statuses"
    unfolding sync_target_status[OF assms] follow_target_def using i
    by (cases "target_status_of tgs (tk_target_ref_id t)") (auto simp: settled_target_def split: if_splits)
qed

lemma finish_failed_run:
  "wf_table rs \<Longrightarrow> tget (snd (finish_run i RS_Failed st now rs)) j = Some r \<Longrightarrow> rn_status r = RS_Running \<Longrightarrow>
   tget rs j = Some r \<and> j \<noteq> i"
  by (cases "tget rs j") (auto simp: finish_run_def Let_def split: if_splits)

definition state_db :: "event list \<times> event list \<times> db \<Rightarrow> db" where
  "state_db st = snd (snd st)"

definition db_tables_ok :: "db \<Rightarrow> bool" where
  "db_tables_ok d \<longleftrightarrow> wf_table (db_tasks d) \<and> wf_table (db_targets d) \<and> wf_table (db_runs d)"

lemma reap_task_step:
  assumes wf: "db_tables_ok (state_db st)"
  shows "no_reopening (state_db st) (state_db (reap_task now tid st)) \<and>
    reaped (state_db (reap_task now tid st)) tid \<and> db_tables_ok (state_db (reap_task now tid st))"
proof -
  obtain tf rf d where st: "st = (tf, rf, d)" by (cases st)
  have wft: "wf_table (db_targets d)" and wfr: "wf_table (db_runs d)" and wfk: "wf_table (db_tasks d)"
    using wf st by (simp_all add: state_db_def db_tables_ok_def)
  consider "tget (db_tasks d) tid = None"
    | t where "tget (db_tasks d) tid = Some t" "tk_status t \<noteq> TS_Unavailable"
    | t where "tget (db_tasks d) tid = Some t" "tk_status t = TS_Unavailable" by fastforce
  then show ?thesis
  proof cases
    case 1
    then show ?thesis using wf st by (simp add: reap_task_def state_db_def reaped_def)
  next
    case 2
    then show ?thesis using wf st by (simp add: reap_task_def state_db_def reaped_def)
  next
    case (3 t)
    let ?tgs = "snd (sync_target_after_task t TS_Unavailable (or_default (tk_error_message t) msg_stale_exhausted)
        False now (db_targets d))"
    let ?d1 = "d\<lparr>db_targets := ?tgs\<rparr>"
    let ?rid = "if tk_type t = TT_Discover then tk_run_id t else None"
    have keep: "no_reopening d (?d1\<lparr>db_runs := rs\<rparr>)"
      if "\<And>i r. tget rs i = Some r \<Longrightarrow> rn_status r = RS_Running \<Longrightarrow> tget (db_runs d) i = Some r" for rs
      using that sync_unavailable_inactive(1)[OF wft] by (simp add: no_reopening_def)
    have tg: "tk_target_ref_type t = ''target'' \<Longrightarrow>
        target_status_of ?tgs (tk_target_ref_id t) \<notin> Some ` active_target_statuses"
      using sync_unavailable_inactive(2)[OF wft] .
    consider "?rid = None" | i where "?rid = Some i" "tget (db_runs d) i = None"
      | i r where "?rid = Some i" "tget (db_runs d) i = Some r" "rn_status r \<noteq> RS_Running"
      | i r where "?rid = Some i" "tget (db_runs d) i = Some r" "rn_status r = RS_Running" by fastforce
    then show ?thesis
    proof cases
      case 1
      then have "state_db (reap_task now tid st) = ?d1" using st 3
        by (simp add: reap_task_def state_db_def Let_def)
      then show ?thesis using keep[of "db_runs d"] st 1 3 wft wfr wfk tg
        by (simp add: reaped_def state_db_def db_tables_ok_def)
    next
      case (2 i)
      then have "state_db (reap_task now tid st) = ?d1" using st 3
        by (simp add: reap_task_def state_db_def Let_def)
      then show ?thesis using keep[of "db_runs d"] st 2 3 wft wfr wfk tg
        by (simp add: reaped_def state_db_def db_tables_ok_def)
    next
      case c: (3 i r)
      then have "state_db (reap_task now tid st) = ?d1" using st 3
        by (simp add: reap_task_def state_db_def Let_def)
      then show ?thesis using keep[of "db_runs d"] st c 3 wft wfr wfk tg
        by (simp add: reaped_def state_db_def db_tables_ok_def)
    next
      case c: (4 i r)
      let ?rs = "snd (finish_run i RS_Failed (stale_stats (rn_stats_json r)) now (db_runs d))"
      have s: "state_db (reap_task now tid st) = ?d1\<lparr>db_runs := ?rs\<rparr>" using st 3 c
        by (simp add: reap_task_def state_db_def Let_def)
      have "wf_table ?rs" using wfr by (simp add: finish_run_def Let_def)
      moreover have "case tget ?rs i of None \<Rightarrow> True | Some r \<Rightarrow> rn_status r \<noteq> RS_Running"
        using finish_failed_run[OF wfr, of i "stale_stats (rn_stats_json r)" now i]
        by (auto split: option.splits)
      ultimately show ?thesis
        unfolding s using keep[of ?rs] finish_failed_run[OF wfr] st c 3 wft wfk tg
        by (simp add: reaped_def state_db_def db_tables_ok_def)
    qed
  qed
qed

lemma reap_all:
  "db_tables_ok (state_db st) \<Longrightarrow>
   no_reopening (state_db st) (state_db (fold (reap_task now) tids st)) \<and>
   list_all (reaped (state_db (fold (reap_task now) tids st))) tids"
proof (induction tids arbitrary: st)
  case (Cons tid tids)
  let ?st = "reap_task now tid st"
  from reap_task_step[OF Cons.prems, of now tid] Cons.IH[of ?st]
  have "no_reopening (state_db ?st) (state_db (fold (reap_task now) tids ?st))"
    "list_all (reaped (state_db (fold (reap_task now) tids ?st))) tids"
    "no_reopening (state_db st) (state_db ?st)" "reaped (state_db ?st) tid" by blast+
  then show ?case using no_reopening_trans reaped_mono by simp
qed simp

text \<open>
  The reaper touches only the tasks \<open>recover_stale\<close> recovers, and afterwards every task it
  gave up has no active Target and, if it was a discovery, no running Run left, so the playlist is not
  blocked by the dead worker; it never makes an inactive Target or a finished Run active again.
\<close>

theorem reaper_leaves_nothing_open:
  assumes "db_tables_ok d"
  shows "case reaper_run_once cfg now d of (recovered, evs, d') \<Rightarrow>
    (recovered, db_tasks d') = recover_stale (now - timedelta_sec (wk_stale_threshold_sec cfg)) now (db_tasks d) \<and>
    list_all (reaped d') recovered \<and>
    no_reopening (d\<lparr>db_tasks := db_tasks d'\<rparr>) d'"
proof -
  obtain recovered ts where r:
    "recover_stale (now - timedelta_sec (wk_stale_threshold_sec cfg)) now (db_tasks d) = (recovered, ts)"
    by (cases "recover_stale (now - timedelta_sec (wk_stale_threshold_sec cfg)) now (db_tasks d)")
  have wf: "wf_table ts"
    using wf_exec_op[of "db_tasks d" "\<lambda>a b. a" "Recover (now - timedelta_sec (wk_stale_threshold_sec cfg)) now"]
      assms r by (simp add: db_tables_ok_def)
  let ?st = "([], [], d\<lparr>db_tasks := ts\<rparr>) :: event list \<times> event list \<times> db"
  have "db_tables_ok (state_db ?st)" using assms wf by (simp add: state_db_def db_tables_ok_def)
  note all = reap_all[OF this, of now recovered]
  obtain tf rf d' where f: "fold (reap_task now) recovered ?st = (tf, rf, d')"
    by (cases "fold (reap_task now) recovered ?st")
  have "db_tasks d' = ts" using all f by (simp add: state_db_def no_reopening_def)
  then show ?thesis using all f r by (simp add: reaper_run_once_def state_db_def)
qed

definition reaper_db :: db where
  "reaper_db = worker_db\<lparr>db_tasks := [(1, worker_task\<lparr>tk_started_at := Some 0\<rparr>)]\<rparr>"

theorem reaper_leaves_nothing_open_witness:
  "case reaper_run_once sample_worker_config 200000000 reaper_db of (recovered, evs, d') \<Rightarrow>
     recovered = [1] \<and> reaped d' 1"
proof -
  have ok: "db_tables_ok reaper_db"
    by (simp add: db_tables_ok_def reaper_db_def worker_db_def empty_db_def wf_table_def ids_def)
  have "fst (recover_stale (200000000 - timedelta_sec 180) 200000000 (db_tasks reaper_db)) = [1]"
    unfolding reaper_db_def worker_db_def empty_db_def worker_task_def by code_simp
  then have "fst (recover_stale (200000000 - timedelta_sec (wk_stale_threshold_sec sample_worker_config)) 200000000
      (db_tasks reaper_db)) = [1]"
    by (simp add: sample_worker_config_def)
  with reaper_leaves_nothing_open[OF ok, where cfg = sample_worker_config and now = 200000000] show ?thesis
    by (auto split: prod.splits dest: arg_cong[where f = fst])
qed

end
