(* ===== verification/Progress_Theorems.thy ===== *)
theory Progress_Theorems
  imports Worker
begin

text \<open>How many database writes the throttled progress of one task can cause.\<close>

text \<open>The reports that are written, for a sequence of instants and percentages.\<close>

fun written :: "(rat \<times> rat option) list \<Rightarrow> progress_throttler \<Rightarrow> nat" where
  "written [] th = 0"
| "written ((s, percent) # reports) th =
     (case should_write s percent False th of
        (False, th') \<Rightarrow> written reports th' | (True, th') \<Rightarrow> Suc (written reports th'))"

text \<open>Reports come in order of time up to \<open>e\<close>, with percentages that do not decrease up to 100.\<close>

fun reports_ok :: "rat \<Rightarrow> rat \<Rightarrow> rat \<Rightarrow> (rat \<times> rat option) list \<Rightarrow> bool" where
  "reports_ok s p e [] \<longleftrightarrow> True"
| "reports_ok s p e ((s', p') # reports) \<longleftrightarrow>
     s \<le> s' \<and> s' \<le> e \<and> (case p' of None \<Rightarrow> True | Some q \<Rightarrow> p \<le> q \<and> q \<le> 100) \<and>
     reports_ok s' (case p' of None \<Rightarrow> p | Some q \<Rightarrow> q) e reports"

definition time_room :: "rat \<Rightarrow> rat \<Rightarrow> progress_throttler \<Rightarrow> rat" where
  "time_room b e th = (case pt_last_write_at th of
     None \<Rightarrow> 1 + (e - b) / pt_interval_sec th | Some l \<Rightarrow> (e - l) / pt_interval_sec th)"

definition percent_room :: "progress_throttler \<Rightarrow> rat" where
  "percent_room th = (case pt_last_percent th of
     None \<Rightarrow> 1 + 100 / pt_percent_step th | Some l \<Rightarrow> (100 - l) / pt_percent_step th)"

definition throttler_ok :: "rat \<Rightarrow> rat \<Rightarrow> rat \<Rightarrow> progress_throttler \<Rightarrow> bool" where
  "throttler_ok b s p th \<longleftrightarrow> 0 < pt_interval_sec th \<and> 0 < pt_percent_step th \<and> b \<le> s \<and> 0 \<le> p \<and> p \<le> 100 \<and>
     (case pt_last_write_at th of None \<Rightarrow> True | Some l \<Rightarrow> b \<le> l \<and> l \<le> s) \<and>
     (case pt_last_percent th of None \<Rightarrow> True | Some l \<Rightarrow> 0 \<le> l \<and> l \<le> p)"

text \<open>Room used between two readings \<open>l\<close> and \<open>m\<close> of a quantity measured in steps of \<open>i\<close>.\<close>

lemma room_used:
  fixes i :: rat
  assumes "0 < i" "l \<le> m"
  shows "(e - m) / i \<le> (e - l) / i" "i \<le> m - l \<Longrightarrow> (e - m) / i + 1 \<le> (e - l) / i"
proof -
  have eq: "(e - l) / i = (e - m) / i + (m - l) / i" by (simp add: add_divide_distrib[symmetric])
  have "0 \<le> (m - l) / i" using assms by simp
  with eq show "(e - m) / i \<le> (e - l) / i" by linarith
  assume "i \<le> m - l"
  then have "1 \<le> (m - l) / i" using assms(1) by (simp add: le_divide_eq)
  with eq show "(e - m) / i + 1 \<le> (e - l) / i" by linarith
qed

lemma time_room_step:
  assumes "throttler_ok b s p th" "s \<le> s'" "s' \<le> e"
  shows "time_room b e (th\<lparr>pt_last_write_at := Some s', pt_last_percent := x\<rparr>) \<le> time_room b e th"
    "(case pt_last_write_at th of None \<Rightarrow> True | Some l \<Rightarrow> pt_interval_sec th \<le> s' - l) \<Longrightarrow>
     time_room b e (th\<lparr>pt_last_write_at := Some s', pt_last_percent := x\<rparr>) + 1 \<le> time_room b e th"
proof -
  have b: "b \<le> s'" "0 < pt_interval_sec th"
    and l: "\<And>l. pt_last_write_at th = Some l \<Longrightarrow> l \<le> s'"
    using assms by (auto simp: throttler_ok_def)
  show "time_room b e (th\<lparr>pt_last_write_at := Some s', pt_last_percent := x\<rparr>) \<le> time_room b e th"
    using room_used(1)[OF b(2) b(1), of e] room_used(1)[OF b(2) l, of _ e]
    by (cases "pt_last_write_at th") (simp_all add: time_room_def)
  show "(case pt_last_write_at th of None \<Rightarrow> True | Some l \<Rightarrow> pt_interval_sec th \<le> s' - l) \<Longrightarrow>
     time_room b e (th\<lparr>pt_last_write_at := Some s', pt_last_percent := x\<rparr>) + 1 \<le> time_room b e th"
    using room_used(1)[OF b(2) b(1), of e] room_used(2)[OF b(2) l, of _ e]
    by (cases "pt_last_write_at th") (simp_all add: time_room_def)
qed

lemma percent_room_step:
  assumes "throttler_ok b s p th" "case p' of None \<Rightarrow> True | Some q \<Rightarrow> p \<le> q \<and> q \<le> 100"
  shows "percent_room (th\<lparr>pt_last_write_at := y, pt_last_percent :=
      (if p' \<noteq> None then p' else pt_last_percent th)\<rparr>) \<le> percent_room th"
    "(case p' of None \<Rightarrow> False | Some q \<Rightarrow>
        (case pt_last_percent th of None \<Rightarrow> True | Some l \<Rightarrow> pt_percent_step th \<le> q - l)) \<Longrightarrow>
     percent_room (th\<lparr>pt_last_write_at := y, pt_last_percent :=
      (if p' \<noteq> None then p' else pt_last_percent th)\<rparr>) + 1 \<le> percent_room th"
proof -
  have i: "0 < pt_percent_step th" using assms(1) by (simp add: throttler_ok_def)
  show "percent_room (th\<lparr>pt_last_write_at := y, pt_last_percent :=
      (if p' \<noteq> None then p' else pt_last_percent th)\<rparr>) \<le> percent_room th"
    using assms i room_used(1)[OF i, of 0 _ 100] room_used(1)[OF i, of _ _ 100]
    by (auto simp: percent_room_def throttler_ok_def split: option.splits) fastforce+
  show "(case p' of None \<Rightarrow> False | Some q \<Rightarrow>
        (case pt_last_percent th of None \<Rightarrow> True | Some l \<Rightarrow> pt_percent_step th \<le> q - l)) \<Longrightarrow>
     percent_room (th\<lparr>pt_last_write_at := y, pt_last_percent :=
      (if p' \<noteq> None then p' else pt_last_percent th)\<rparr>) + 1 \<le> percent_room th"
    using assms i room_used(1)[OF i, of 0 _ 100] room_used(2)[OF i, of _ _ 100]
    by (auto simp: percent_room_def throttler_ok_def split: option.splits)
qed

lemma throttler_step:
  assumes ok: "throttler_ok b s p th" and r: "s \<le> s'" "s' \<le> e"
    "case p' of None \<Rightarrow> True | Some q \<Rightarrow> p \<le> q \<and> q \<le> 100"
    and w: "should_write s' p' False th = (wr, th')"
  shows "throttler_ok b s' (case p' of None \<Rightarrow> p | Some q \<Rightarrow> q) th'"
    "time_room b e th' + percent_room th' + (if wr then 1 else 0) \<le> time_room b e th + percent_room th"
proof -
  have th': "th' = (if wr then th\<lparr>pt_last_write_at := Some s',
      pt_last_percent := (if p' \<noteq> None then p' else pt_last_percent th)\<rparr> else th)"
    and wr: "wr \<longleftrightarrow>
      (case pt_last_write_at th of None \<Rightarrow> True | Some l \<Rightarrow> pt_interval_sec th \<le> s' - l) \<or>
      (case p' of None \<Rightarrow> False | Some q \<Rightarrow>
        (case pt_last_percent th of None \<Rightarrow> True | Some l \<Rightarrow> pt_percent_step th \<le> q - l))"
    using w by (simp_all add: should_write_def Let_def split: if_splits)
  show "throttler_ok b s' (case p' of None \<Rightarrow> p | Some q \<Rightarrow> q) th'"
    using ok r th' by (auto simp: throttler_ok_def split: option.splits)
  show "time_room b e th' + percent_room th' + (if wr then 1 else 0) \<le> time_room b e th + percent_room th"
  proof (cases wr)
    case True
    note t = time_room_step[OF ok r(1,2), of "if p' \<noteq> None then p' else pt_last_percent th"]
    note q = percent_room_step[OF ok r(3), of "Some s'"]
    from True wr consider
      "case pt_last_write_at th of None \<Rightarrow> True | Some l \<Rightarrow> pt_interval_sec th \<le> s' - l"
      | "case p' of None \<Rightarrow> False | Some q \<Rightarrow>
        (case pt_last_percent th of None \<Rightarrow> True | Some l \<Rightarrow> pt_percent_step th \<le> q - l)" by blast
    then show ?thesis
    proof cases
      case 1
      with t(2) q(1) True th' show ?thesis by simp
    next
      case 2
      with t(1) q(2) True th' show ?thesis by simp
    qed
  qed (simp add: th')
qed

lemma written_le:
  "throttler_ok b s p th \<Longrightarrow> reports_ok s p e reports \<Longrightarrow> s \<le> e \<Longrightarrow>
   of_nat (written reports th) \<le> time_room b e th + percent_room th"
proof (induction reports th arbitrary: s p rule: written.induct)
  case (1 th)
  have "0 \<le> time_room b e th" "0 \<le> percent_room th"
    using "1.prems" by (auto simp: throttler_ok_def time_room_def percent_room_def split: option.splits)
  then show ?case by simp
next
  case (2 s' p' reports th)
  obtain wr th' where w: "should_write s' p' False th = (wr, th')"
    by (cases "should_write s' p' False th")
  have r: "s \<le> s'" "s' \<le> e" "case p' of None \<Rightarrow> True | Some q \<Rightarrow> p \<le> q \<and> q \<le> 100"
    "reports_ok s' (case p' of None \<Rightarrow> p | Some q \<Rightarrow> q) e reports" using "2.prems"(2) by auto
  note st = throttler_step[OF "2.prems"(1) r(1-3) w]
  have "of_nat (written reports th') \<le> time_room b e th' + percent_room th'"
    using 2(1)[OF w[symmetric] _ st(1) r(4) r(2)] 2(2)[OF w[symmetric] _ st(1) r(4) r(2)]
    by (cases wr) auto
  then show ?case using st(2) by (cases wr) (simp_all add: w)
qed

text \<open>
  However many reports a handler makes between \<open>b\<close> and \<open>e\<close>, in order of time and with a
  progress that does not go back, the throttle writes at most two of them, one per interval and one
  per percent step.
\<close>

theorem progress_writes_bounded:
  assumes "0 < i" "0 < step" "b \<le> e" "reports_ok b 0 e reports"
  shows "of_nat (written reports (new_throttler i step)) \<le> 2 + (e - b) / i + 100 / step"
proof -
  have "throttler_ok b b 0 (new_throttler i step)"
    using assms by (simp add: throttler_ok_def new_throttler_def)
  from written_le[OF this assms(4,3)] show ?thesis
    by (simp add: time_room_def percent_room_def new_throttler_def)
qed

theorem progress_writes_bounded_witness:
  "of_nat (written [(0, Some 0), (1, Some 2), (1, Some 9), (4, None)] (new_throttler 2 5)) \<le>
     (2 :: rat) + (4 - 0) / 2 + 100 / 5"
  using progress_writes_bounded[of 2 5 0 4 "[(0, Some 0), (1, Some 2), (1, Some 9), (4, None)]"] by simp

end
