(* ===== verification/Scheduler.thy ===== *)
theory Scheduler
  imports Sync_Theorems Settings_Theorems "HOL-Library.List_Lexorder" "HOL-Library.Char_ord"
begin

text \<open>
  The scheduler of the web process, \<open>src/sluicery/scheduler/__init__.py\<close>: which jobs are registered,
  what a job does when it fires, and the recovery of Runs left behind by a crash. The job store of
  APScheduler is the map from job ids to jobs; its cron parser is the parameter of the settings. The
  random phase of a new trigger is an argument.
\<close>

section \<open>Triggers and jobs\<close>

definition job_prefix :: string where "job_prefix = ''sluicery:playlist:''"
definition integrity_job_id :: string where "integrity_job_id = ''sluicery:maintenance:integrity''"
definition ytdlp_update_job_id :: string where
  "ytdlp_update_job_id = ''sluicery:maintenance:ytdlp-update''"
definition misfire_grace_sec :: int where "misfire_grace_sec = 24 * 60 * 60"
definition taskless_download_recovery_sec :: int where "taskless_download_recovery_sec = 24 * 60 * 60"

record cron_trigger =
  ct_algorithm_version :: int
  ct_expression :: string
  ct_timezone :: string
  ct_jitter_seconds :: int
  ct_offset_seconds :: rat

text \<open>The arguments of a job: a playlist and a kind, or none for a maintenance job.\<close>

record scheduled_job =
  sj_trigger :: "cron_trigger option"
  sj_args :: "(int \<times> string) option"
  sj_coalesce :: bool
  sj_max_instances :: int
  sj_misfire_grace_time :: int

type_synonym job_store = "string \<Rightarrow> scheduled_job option"

text \<open>\<open>offset\<close> gives the random phase within the jitter; without jitter it is zero.\<close>

definition from_expression :: "settings_env \<Rightarrow> (int \<Rightarrow> rat) \<Rightarrow> string option \<Rightarrow> string \<Rightarrow> int
    \<Rightarrow> exn + cron_trigger" where
  "from_expression env offset expression timezone jitter_minutes =
     (case se_cron env expression of
        Some e \<Rightarrow> Inl e
      | None \<Rightarrow> Inr
          \<lparr>ct_algorithm_version = 2,
           ct_expression = (case expression of None \<Rightarrow> [] | Some s \<Rightarrow> s),
           ct_timezone = timezone, ct_jitter_seconds = jitter_minutes * 60,
           ct_offset_seconds = (if jitter_minutes * 60 \<noteq> 0 then offset (jitter_minutes * 60) else 0)\<rparr>)"

definition validate_cron_expression :: "settings_env \<Rightarrow> string \<Rightarrow> string \<Rightarrow> exn option" where
  "validate_cron_expression env expression timezone =
     (case from_expression env (\<lambda>_. 0) (Some expression) timezone 0 of Inl e \<Rightarrow> Some e | Inr _ \<Rightarrow> None)"

definition playlist_job_id :: "int \<Rightarrow> string \<Rightarrow> exn + string" where
  "playlist_job_id pid kind =
     (if kind \<notin> {''discover'', ''download''} then Inl ValueError
      else Inr (job_prefix @ int_str pid @ '':'' @ kind))"

definition new_job :: "cron_trigger \<Rightarrow> (int \<times> string) option \<Rightarrow> scheduled_job" where
  "new_job trig args = \<lparr>sj_trigger = Some trig, sj_args = args, sj_coalesce = True,
     sj_max_instances = 1, sj_misfire_grace_time = misfire_grace_sec\<rparr>"

definition job_matches :: "scheduled_job option \<Rightarrow> cron_trigger \<Rightarrow> (int \<times> string) option \<Rightarrow> bool" where
  "job_matches job trig args =
     (case job of
        None \<Rightarrow> False
      | Some j \<Rightarrow>
          (case sj_trigger j of
             None \<Rightarrow> False
           | Some existing \<Rightarrow>
               ct_algorithm_version existing = ct_algorithm_version trig \<and>
               ct_expression existing = ct_expression trig \<and>
               ct_timezone existing = ct_timezone trig \<and>
               ct_jitter_seconds existing = ct_jitter_seconds trig \<and>
               sj_args j = args \<and> sj_coalesce j \<and> sj_max_instances j = 1 \<and>
               sj_misfire_grace_time j = misfire_grace_sec))"

definition register :: "string \<Rightarrow> cron_trigger \<Rightarrow> (int \<times> string) option \<Rightarrow> job_store \<Rightarrow> job_store" where
  "register job_id trig args jobs =
     (if job_matches (jobs job_id) trig args then jobs else jobs(job_id \<mapsto> new_job trig args))"

text \<open>The loop over the runnable playlists and the two kinds; a cron the parser refuses is skipped.\<close>

fun place_jobs :: "settings_env \<Rightarrow> (string \<Rightarrow> int \<Rightarrow> rat) \<Rightarrow> string \<Rightarrow> int
    \<Rightarrow> (int \<times> string \<times> string option) list \<Rightarrow> job_store \<times> string list
    \<Rightarrow> exn + job_store \<times> string list" where
  "place_jobs env offset timezone jitter [] st = Inr st"
| "place_jobs env offset timezone jitter ((pid, kind, expression) # rest) (jobs, desired) =
     (case playlist_job_id pid kind of
        Inl e \<Rightarrow> Inl e
      | Inr job_id \<Rightarrow>
          (case from_expression env (offset job_id) expression timezone jitter of
             Inl e \<Rightarrow> if is_value_error e then place_jobs env offset timezone jitter rest (jobs, desired)
                      else Inl e
           | Inr trig \<Rightarrow>
               place_jobs env offset timezone jitter rest
                 (register job_id trig (Some (pid, kind)) jobs, desired @ [job_id])))"

definition remove_undesired :: "string list \<Rightarrow> job_store \<Rightarrow> job_store" where
  "remove_undesired desired jobs =
     (\<lambda>job_id. if starts_with job_prefix job_id \<and> job_id \<notin> set desired then None else jobs job_id)"

definition place_maintenance :: "settings_env \<Rightarrow> (string \<Rightarrow> int \<Rightarrow> rat) \<Rightarrow> string \<Rightarrow> int \<Rightarrow> string
    \<Rightarrow> string option \<Rightarrow> job_store \<Rightarrow> exn + job_store" where
  "place_maintenance env offset timezone jitter job_id expression jobs =
     (case from_expression env (offset job_id) expression timezone jitter of
        Inl e \<Rightarrow> if is_value_error e then Inr (jobs(job_id := None)) else Inl e
      | Inr trig \<Rightarrow> Inr (register job_id trig None jobs))"

definition or_cron :: "string option \<Rightarrow> string option \<Rightarrow> string option" where
  "or_cron own fallback = (case own of Some (c # s) \<Rightarrow> Some (c # s) | _ \<Rightarrow> fallback)"

definition wanted_jobs :: "playlist table \<Rightarrow> string option \<Rightarrow> string option
    \<Rightarrow> (int \<times> string \<times> string option) list" where
  "wanted_jobs pls discover_default download_default =
     concat (map (\<lambda>(pid, pl).
       [(pid, ''discover'', or_cron (pl_discover_cron pl) discover_default),
        (pid, ''download'', or_cron (pl_download_cron pl) download_default)]) (list_runnable pls))"

text \<open>What \<open>reconcile\<close> reads from the settings first.\<close>

record schedule_settings =
  sh_jitter :: int
  sh_discover_cron :: "string option"
  sh_download_cron :: "string option"
  sh_integrity_cron :: "string option"
  sh_ytdlp_update_cron :: "string option"

definition read_schedule :: "settings_env \<Rightarrow> setting_table \<Rightarrow> exn + schedule_settings" where
  "read_schedule env t =
     (case schedule_jitter_minutes env t of
        Inl e \<Rightarrow> Inl e
      | Inr v \<Rightarrow>
     (case check_minimum 0 v of
        Some e \<Rightarrow> Inl e
      | None \<Rightarrow>
     (case schedule_discover_cron env t of
        Inl e \<Rightarrow> Inl e
      | Inr discover \<Rightarrow>
     (case schedule_download_cron env t of
        Inl e \<Rightarrow> Inl e
      | Inr download \<Rightarrow>
     (case schedule_integrity_cron env t of
        Inl e \<Rightarrow> Inl e
      | Inr integrity \<Rightarrow>
     (case ytdlp_update_cron env t of
        Inl e \<Rightarrow> Inl e
      | Inr update \<Rightarrow>
          Inr \<lparr>sh_jitter = (case v of JInt i \<Rightarrow> i | _ \<Rightarrow> 0),
               sh_discover_cron = json_str discover, sh_download_cron = json_str download,
               sh_integrity_cron = json_str integrity, sh_ytdlp_update_cron = json_str update\<rparr>))))))"

definition reconcile :: "settings_env \<Rightarrow> (string \<Rightarrow> int \<Rightarrow> rat) \<Rightarrow> string \<Rightarrow> bool \<Rightarrow> setting_table
    \<Rightarrow> playlist table \<Rightarrow> job_store \<Rightarrow> exn option \<times> job_store" where
  "reconcile env offset timezone is_started t pls jobs =
     (if \<not> is_started then (None, jobs)
      else (case read_schedule env t of
        Inl e \<Rightarrow> (Some e, jobs)
      | Inr sh \<Rightarrow>
     (case place_jobs env offset timezone (sh_jitter sh)
             (wanted_jobs pls (sh_discover_cron sh) (sh_download_cron sh)) (jobs, []) of
        Inl e \<Rightarrow> (Some e, jobs)
      | Inr (jobs1, desired) \<Rightarrow>
     (let jobs2 = remove_undesired desired jobs1
      in case place_maintenance env offset timezone (sh_jitter sh) integrity_job_id
                (sh_integrity_cron sh) jobs2 of
           Inl e \<Rightarrow> (Some e, jobs2)
         | Inr jobs3 \<Rightarrow>
             (case sh_ytdlp_update_cron sh of
                None \<Rightarrow> (Some AttributeError, jobs3)
              | Some update \<Rightarrow>
                  if strip update = [] then (None, jobs3(ytdlp_update_job_id := None))
                  else (case place_maintenance env offset timezone (sh_jitter sh) ytdlp_update_job_id
                               (Some update) jobs3 of
                          Inl e \<Rightarrow> (Some e, jobs3)
                        | Inr jobs4 \<Rightarrow> (None, jobs4)))))))"

section \<open>Recovering orphan Runs\<close>

definition tasks_of_run :: "int \<Rightarrow> task table \<Rightarrow> task list" where
  "tasks_of_run run_id ts = map snd (select_where (\<lambda>_ t. tk_run_id t = Some run_id) ts)"

definition orphan :: "instant \<Rightarrow> task table \<Rightarrow> int \<Rightarrow> run \<Rightarrow> bool" where
  "orphan taskless_before ts run_id r \<longleftrightarrow>
     \<not> list_ex active_task (tasks_of_run run_id ts) \<and>
     \<not> (tasks_of_run run_id ts = [] \<and> rn_kind r = ''download'' \<and> taskless_before \<le> rn_started_at r)"

definition orphan_status :: "task list \<Rightarrow> run_status" where
  "orphan_status tasks =
     (if tasks \<noteq> [] \<and> list_all (\<lambda>t. tk_status t = TS_Succeeded) tasks then RS_Succeeded
      else if tasks \<noteq> [] \<and> list_ex (\<lambda>t. tk_status t = TS_Cancelled) tasks then RS_Cancelled
      else RS_Failed)"

definition orphan_stats :: "run \<Rightarrow> task list \<Rightarrow> json" where
  "orphan_stats r tasks =
     (let stats = AList.update ''recovered_orphan'' (JBool True) (opt_json (rn_stats_json r))
      in JObj (if orphan_status tasks = RS_Succeeded
               then (case jget (opt_json (tk_payload_json (last tasks))) ''stats'' of
                       JObj u \<Rightarrow> dict_merge stats u | _ \<Rightarrow> stats)
               else stats))"

definition orphan_event :: "int \<Rightarrow> run \<Rightarrow> run_status \<Rightarrow> event" where
  "orphan_event run_id r st =
     Event (if st = RS_Failed then ''run_failed'' else ''run_finished'')
       [(''run_id'', JInt run_id),
        (''playlist_id'', case rn_playlist_id r of None \<Rightarrow> JNull | Some i \<Rightarrow> JInt i),
        (''kind'', JStr (rn_kind r)), (''status'', JStr (run_status_value st)),
        (''reason_code'', if st = RS_Failed then JStr ''orphan_run_recovered'' else JNull)]"

definition recover_orphan :: "instant \<Rightarrow> instant \<Rightarrow> task table \<Rightarrow> int \<times> run
    \<Rightarrow> int list \<times> event list \<times> run table \<Rightarrow> int list \<times> event list \<times> run table" where
  "recover_orphan taskless_before now ts ir st =
     (case (ir, st) of ((run_id, r), (recovered, evs, rs)) \<Rightarrow>
        if \<not> orphan taskless_before ts run_id r then st
        else
          (let tasks = tasks_of_run run_id ts;
               status = orphan_status tasks
           in (recovered @ [run_id], evs @ [orphan_event run_id r status],
               snd (finish_run run_id status (orphan_stats r tasks) now rs))))"

definition recover_orphan_runs :: "rat \<Rightarrow> instant \<Rightarrow> db \<Rightarrow> int list \<times> event list \<times> db" where
  "recover_orphan_runs stale_threshold_sec now d =
     (let stale_before = now - timedelta_sec stale_threshold_sec;
          taskless_before = now - taskless_download_recovery_sec * 1000000;
          running_runs = select_where (\<lambda>_ r. rn_status r = RS_Running \<and> rn_started_at r < stale_before) (db_runs d)
      in case fold (recover_orphan taskless_before now (db_tasks d)) running_runs ([], [], db_runs d) of
           (recovered, evs, rs) \<Rightarrow> (recovered, evs, d\<lparr>db_runs := rs\<rparr>))"

section \<open>Running a job\<close>

definition skipped_stats :: "string \<Rightarrow> json" where
  "skipped_stats reason =
     (case stats_dict no_stats of
        JObj s \<Rightarrow> JObj (dict_merge s [(''skipped'', JBool True), (''skip_reason'', JStr reason)])
      | v \<Rightarrow> v)"

definition record_skipped :: "int \<Rightarrow> string \<Rightarrow> string \<Rightarrow> instant \<Rightarrow> db \<Rightarrow> event list \<times> db" where
  "record_skipped pid kind reason now d =
     (case tget (db_playlists d) pid of
        None \<Rightarrow> ([], d)
      | Some playlist \<Rightarrow>
          if \<not> pl_enabled playlist \<or> pl_paused playlist then ([], d)
          else (case start_run RT_Schedule kind pid now (db_runs d) of (run_id, runs) \<Rightarrow>
                  ([run_started_event run_id pid kind RT_Schedule,
                    Event ''run_finished'' [(''run_id'', JInt run_id), (''playlist_id'', JInt pid),
                      (''kind'', JStr kind), (''status'', JStr (run_status_value RS_Skipped))]],
                   d\<lparr>db_runs := snd (finish_run run_id RS_Skipped (skipped_stats reason) now runs)\<rparr>)))"

text \<open>
  The surroundings of a job: the settings, the storage adapters, fresh ids, and the local time of day.
\<close>

record job_context =
  jc_env :: settings_env
  jc_settings :: setting_table
  jc_factory :: adapter_factory
  jc_sync :: sync_settings
  jc_uuid :: "int \<Rightarrow> string"
  jc_hour :: nat
  jc_minute :: nat

definition settle_job :: "int \<Rightarrow> string \<Rightarrow> instant \<Rightarrow> exn + unit \<Rightarrow> event list \<Rightarrow> db
    \<Rightarrow> exn option \<times> event list \<times> db" where
  "settle_job pid kind now result evs d =
     (case result of
        Inr _ \<Rightarrow> (None, evs, d)
      | Inl e \<Rightarrow>
          if e = SyncAlreadyRunningError then
            (case record_skipped pid kind ''active_sync'' now d of (evs', d') \<Rightarrow> (None, evs @ evs', d'))
          else if is_lookup_error e \<or> is_value_error e then (None, evs, d)
          else (Some e, evs, d))"

definition start_job :: "job_context \<Rightarrow> int \<Rightarrow> string \<Rightarrow> instant \<Rightarrow> db \<Rightarrow> (exn + unit) \<times> event list \<times> db" where
  "start_job jc pid kind now d =
     (if kind = ''discover'' then
        (case enqueue_discover_run False (jc_sync jc) pid False RT_Schedule None now d of
           (r, d', evs) \<Rightarrow> (map_sum id (\<lambda>_. ()) r, evs, d'))
      else if kind = ''download'' then
        (case execute_download_run False (jc_factory jc) (jc_sync jc) (jc_uuid jc) pid RT_Schedule None None now d of
           (r, d', evs) \<Rightarrow> (map_sum id (\<lambda>_. ()) r, evs, d'))
      else (Inl ValueError, [], d))"

definition job_window :: "job_context \<Rightarrow> string \<Rightarrow> exn + download_window option" where
  "job_window jc kind =
     (if kind = ''download'' then
        (case schedule_download_window (jc_env jc) (jc_settings jc) of
           Inl e \<Rightarrow> Inl e | Inr v \<Rightarrow> parse_download_window (json_str v))
      else Inr None)"

definition execute_job :: "job_context \<Rightarrow> int \<Rightarrow> string \<Rightarrow> instant \<Rightarrow> db \<Rightarrow> exn option \<times> event list \<times> db" where
  "execute_job jc pid kind now d =
     (case tget (db_playlists d) pid of
        None \<Rightarrow> (None, [], d)
      | Some playlist \<Rightarrow>
          if \<not> pl_enabled playlist \<or> pl_paused playlist then (None, [], d)
          else
            (case job_window jc kind of
               Inl e \<Rightarrow> settle_job pid kind now (Inl e) [] d
             | Inr window \<Rightarrow>
                 if kind = ''download'' \<and>
                    (case window of None \<Rightarrow> False | Some w \<Rightarrow> \<not> window_contains w (jc_hour jc) (jc_minute jc))
                 then (case record_skipped pid kind ''outside_download_window'' now d of (evs, d') \<Rightarrow> (None, evs, d'))
                 else (case start_job jc pid kind now d of
                         (result, evs, d') \<Rightarrow> settle_job pid kind now result evs d')))"

section \<open>Next runs\<close>

record next_run =
  nr_playlist_id :: int
  nr_kind :: string
  nr_scheduled_at :: instant

text \<open>The managed jobs with their next fire time, in the order of time, playlist and kind.\<close>

definition next_runs :: "int option \<Rightarrow> (scheduled_job \<times> instant option) list \<Rightarrow> next_run list" where
  "next_runs playlist_id jobs =
     sort_key (\<lambda>r. (nr_scheduled_at r, nr_playlist_id r, nr_kind r))
       (List.map_filter (\<lambda>(j, fire).
          case (fire, sj_args j) of
            (Some s, Some (pid, kind)) \<Rightarrow>
              if playlist_id \<noteq> None \<and> playlist_id \<noteq> Some pid then None
              else Some \<lparr>nr_playlist_id = pid, nr_kind = kind, nr_scheduled_at = s\<rparr>
          | _ \<Rightarrow> None) jobs)"

end
