(* ===== verification/Scheduler_Theorems.thy ===== *)
theory Scheduler_Theorems
  imports Scheduler
begin

text \<open>
  What the scheduler guarantees: reconciling brings the job store to what the database asks for and is
  stable afterwards; the recovery of orphan Runs closes exactly the Runs nothing works on any more; a
  job that fires at the wrong moment leaves the playlist alone.
\<close>

section \<open>Job ids\<close>

lemma playlist_job_id_Inr:
  "playlist_job_id pid kind = Inr j \<longleftrightarrow>
     (kind = ''discover'' \<or> kind = ''download'') \<and> j = job_prefix @ int_str pid @ '':'' @ kind"
  by (auto simp: playlist_job_id_def)

lemma playlist_job_id_inject:
  assumes "playlist_job_id p k = Inr j" "playlist_job_id p' k' = Inr j"
  shows "p = p' \<and> k = k'"
proof -
  have e: "int_str p @ '':'' @ k = int_str p' @ '':'' @ k'"
    using assms by (simp add: playlist_job_id_Inr)
  have "last k = last k'"
    using arg_cong[OF e, of last] assms by (auto simp: playlist_job_id_Inr)
  then have k: "k = k'" using assms unfolding playlist_job_id_Inr by auto
  with e show ?thesis by (simp add: int_str_inject)
qed

lemma playlist_job_id_prefix: "playlist_job_id pid kind = Inr j \<Longrightarrow> starts_with job_prefix j"
  by (auto simp: playlist_job_id_Inr starts_with_iff)

lemma maintenance_ids:
  "\<not> starts_with job_prefix integrity_job_id" "\<not> starts_with job_prefix ytdlp_update_job_id"
  "integrity_job_id \<noteq> ytdlp_update_job_id"
  by (simp_all add: job_prefix_def integrity_job_id_def ytdlp_update_job_id_def starts_with_def)

section \<open>Triggers\<close>

text \<open>Two triggers that differ in their random phase only.\<close>

definition same_schedule :: "cron_trigger \<Rightarrow> cron_trigger \<Rightarrow> bool" where
  "same_schedule a b \<longleftrightarrow> ct_algorithm_version a = ct_algorithm_version b \<and>
     ct_expression a = ct_expression b \<and> ct_timezone a = ct_timezone b \<and>
     ct_jitter_seconds a = ct_jitter_seconds b"

lemma from_expression_cases:
  "(\<exists>e. se_cron env x = Some e \<and> from_expression env off x tz j = Inl e
        \<and> from_expression env off' x tz j = Inl e) \<or>
   (\<exists>a b. se_cron env x = None \<and> from_expression env off x tz j = Inr a
        \<and> from_expression env off' x tz j = Inr b \<and> same_schedule a b)"
  by (cases "se_cron env x") (simp_all add: from_expression_def same_schedule_def)

lemma job_matches_same:
  "same_schedule a b \<Longrightarrow> job_matches job a args = job_matches job b args"
  by (auto simp: job_matches_def same_schedule_def split: option.splits)

lemma job_matches_new: "same_schedule a b \<Longrightarrow> job_matches (Some (new_job a args)) b args"
  by (auto simp: job_matches_def same_schedule_def new_job_def)

text \<open>What registering leaves under an id.\<close>

definition placed :: "cron_trigger \<Rightarrow> (int \<times> string) option \<Rightarrow> scheduled_job option
    \<Rightarrow> scheduled_job option" where
  "placed trig args job = (if job_matches job trig args then job else Some (new_job trig args))"

lemma register_at: "register i trig args jobs x = (if x = i then placed trig args (jobs i) else jobs x)"
  by (simp add: register_def placed_def)

lemma placed_stable: "same_schedule a b \<Longrightarrow> placed b args (placed a args job) = placed a args job"
  by (simp add: placed_def job_matches_same job_matches_new)

lemma placed_matches: "same_schedule a b \<Longrightarrow> job_matches (placed a args job) b args"
  by (simp add: placed_def job_matches_same job_matches_new)

section \<open>Playlist jobs\<close>

definition job_entry :: "settings_env \<Rightarrow> (string \<Rightarrow> int \<Rightarrow> rat) \<Rightarrow> string \<Rightarrow> int
    \<Rightarrow> int \<times> string \<times> string option \<Rightarrow> (string \<times> cron_trigger \<times> int \<times> string) option" where
  "job_entry env offset tz jitter e =
     (case e of (pid, kind, x) \<Rightarrow>
        case playlist_job_id pid kind of
          Inl _ \<Rightarrow> None
        | Inr i \<Rightarrow> (case from_expression env (offset i) x tz jitter of
                      Inl _ \<Rightarrow> None | Inr trig \<Rightarrow> Some (i, trig, pid, kind)))"

definition job_entries :: "settings_env \<Rightarrow> (string \<Rightarrow> int \<Rightarrow> rat) \<Rightarrow> string \<Rightarrow> int
    \<Rightarrow> (int \<times> string \<times> string option) list \<Rightarrow> (string \<times> cron_trigger \<times> int \<times> string) list" where
  "job_entries env offset tz jitter es = List.map_filter (job_entry env offset tz jitter) es"

definition entry_ok :: "settings_env \<Rightarrow> int \<times> string \<times> string option \<Rightarrow> bool" where
  "entry_ok env e \<longleftrightarrow> (case e of (pid, kind, x) \<Rightarrow>
     kind \<in> {''discover'', ''download''} \<and>
     (case se_cron env x of None \<Rightarrow> True | Some er \<Rightarrow> is_value_error er))"

abbreviation entry_key :: "int \<times> string \<times> string option \<Rightarrow> int \<times> string" where
  "entry_key e \<equiv> (fst e, fst (snd e))"

lemma job_entries_Cons:
  "job_entries env off tz j (e # es) =
     (case job_entry env off tz j e of None \<Rightarrow> job_entries env off tz j es
      | Some y \<Rightarrow> y # job_entries env off tz j es)"
  by (simp add: job_entries_def List.map_filter_simps split: option.split)

lemma job_entry_Some:
  "job_entry env off tz j (pid, kind, x) = Some y \<longleftrightarrow>
     (\<exists>i trig. playlist_job_id pid kind = Inr i \<and> from_expression env (off i) x tz j = Inr trig \<and>
       y = (i, trig, pid, kind))"
  by (auto simp: job_entry_def split: sum.splits)

lemma job_entries_mem:
  "(i, trig, pid, kind) \<in> set (job_entries env off tz j es) \<longleftrightarrow>
     (\<exists>x. (pid, kind, x) \<in> set es \<and> playlist_job_id pid kind = Inr i \<and>
       from_expression env (off i) x tz j = Inr trig)"
proof (induction es)
  case (Cons e es)
  obtain p k x where e: "e = (p, k, x)" by (cases e)
  show ?case
    by (cases "job_entry env off tz j e")
       (auto simp: job_entries_Cons Cons.IH e job_entry_Some job_entry_def split: sum.splits)
qed (simp add: job_entries_def List.map_filter_simps)

lemma place_jobs_ok:
  "(\<exists>r. place_jobs env off tz j es (jobs, desired) = Inr r) \<longleftrightarrow> list_all (entry_ok env) es"
proof (induction es arbitrary: jobs desired)
  case (Cons e es)
  obtain p k x where e: "e = (p, k, x)" by (cases e)
  show ?case
  proof (cases "playlist_job_id p k")
    case (Inl er)
    then have "k \<notin> {''discover'', ''download''}" by (simp add: playlist_job_id_def split: if_splits)
    then show ?thesis by (simp add: e Inl entry_ok_def)
  next
    case (Inr i)
    then have k: "k \<in> {''discover'', ''download''}" by (auto simp: playlist_job_id_Inr)
    show ?thesis
    proof (cases "se_cron env x")
      case None
      then obtain trig where "from_expression env (off i) x tz j = Inr trig"
        by (simp add: from_expression_def)
      with k None Cons.IH show ?thesis by (simp add: e Inr entry_ok_def)
    next
      case (Some er)
      then have "from_expression env (off i) x tz j = Inl er" by (simp add: from_expression_def)
      with k Some Cons.IH show ?thesis by (simp add: e Inr entry_ok_def)
    qed
  qed
qed simp

lemma place_jobs_at:
  assumes "place_jobs env off tz j es (jobs, desired) = Inr (jobs', desired')"
    "distinct (map entry_key es)"
  shows "jobs' i = (case map_of (job_entries env off tz j es) i of
           None \<Rightarrow> jobs i | Some (trig, a) \<Rightarrow> placed trig (Some a) (jobs i))
       \<and> desired' = desired @ map fst (job_entries env off tz j es)"
  using assms
proof (induction es arbitrary: jobs desired)
  case (Cons e es)
  obtain p k x where e: "e = (p, k, x)" by (cases e)
  obtain i0 where i0: "playlist_job_id p k = Inr i0"
    using Cons.prems(1) by (auto simp: e split: sum.splits)
  have d: "distinct (map entry_key es)" using Cons.prems(2) by simp
  show ?case
  proof (cases "from_expression env (off i0) x tz j")
    case (Inl er)
    with Cons.prems(1) i0 have "place_jobs env off tz j es (jobs, desired) = Inr (jobs', desired')"
      by (simp add: e split: if_splits)
    from Cons.IH[OF this d] Inl i0 show ?thesis
      by (simp add: e job_entries_Cons job_entry_def)
  next
    case (Inr trig)
    have fresh: "i0 \<notin> set (map fst (job_entries env off tz j es))"
    proof
      assume "i0 \<in> set (map fst (job_entries env off tz j es))"
      then obtain tr p' k' where "(i0, tr, p', k') \<in> set (job_entries env off tz j es)" by auto
      then obtain x' where x': "(p', k', x') \<in> set es" "playlist_job_id p' k' = Inr i0"
        by (auto simp: job_entries_mem)
      have "p' = p \<and> k' = k" by (rule playlist_job_id_inject[OF x'(2) i0])
      with x'(1) have "(p, k) \<in> set (map entry_key es)" by force
      with Cons.prems(2) show False by (simp add: e)
    qed
    from Cons.prems(1) i0 Inr
    have "place_jobs env off tz j es (register i0 trig (Some (p, k)) jobs, desired @ [i0]) =
        Inr (jobs', desired')" by (simp add: e)
    from Cons.IH[OF this d] Inr i0 fresh show ?thesis
      by (auto simp: e job_entries_Cons job_entry_def register_at map_of_eq_None_iff[symmetric]
          split: option.split)
  qed
qed (simp add: job_entries_def List.map_filter_simps)

text \<open>The entries under two random phases are the same up to the phase.\<close>

lemma job_entries_two:
  "rel_option (\<lambda>(a, x) (b, y). same_schedule a b \<and> x = y)
     (map_of (job_entries env off tz j es) i) (map_of (job_entries env off' tz j es) i)"
proof (induction es)
  case (Cons e es)
  obtain p k x where e: "e = (p, k, x)" by (cases e)
  show ?case
  proof (cases "playlist_job_id p k")
    case (Inr i0)
    from from_expression_cases[of env x "off i0" tz j "off' i0"] Cons.IH show ?thesis
      by (auto simp: e job_entries_Cons job_entry_def Inr)
  qed (use Cons.IH in \<open>simp add: e job_entries_Cons job_entry_def\<close>)
qed (simp add: job_entries_def List.map_filter_simps)

lemma job_entries_prefix:
  "map_of (job_entries env off tz j es) i = Some y \<Longrightarrow> starts_with job_prefix i"
proof -
  assume "map_of (job_entries env off tz j es) i = Some y"
  then have "(i, y) \<in> set (job_entries env off tz j es)" by (rule map_of_SomeD)
  then show ?thesis by (cases y) (auto simp: job_entries_mem intro: playlist_job_id_prefix)
qed

lemma list_runnable_mem:
  "wf_table pls \<Longrightarrow> (pid, pl) \<in> set (list_runnable pls) \<longleftrightarrow> tget pls pid = Some pl \<and> runnable pl"
  by (simp add: list_runnable_def select_where_iff)

lemma list_runnable_distinct: "wf_table pls \<Longrightarrow> distinct (map fst (list_runnable pls))"
proof -
  assume "wf_table pls"
  then have "distinct (map fst (select_where (\<lambda>_ p. runnable p) pls))"
    by (simp add: wf_table_def ids_def select_where_def distinct_map_filter)
  then have "distinct (map fst (sort_key fst (select_where (\<lambda>_ p. runnable p) pls)))"
    by (simp add: distinct_map)
  then show ?thesis by (simp add: list_runnable_def)
qed

lemma wanted_jobs_distinct:
  assumes "wf_table pls"
  shows "distinct (map entry_key (wanted_jobs pls dd dl))"
proof -
  have "distinct (map entry_key (concat (map (\<lambda>(pid, pl).
       [(pid, ''discover'', or_cron (pl_discover_cron pl) dd),
        (pid, ''download'', or_cron (pl_download_cron pl) dl)]) xs)))"
    if "distinct (map fst xs)" for xs
    using that by (induction xs) force+
  with list_runnable_distinct[OF assms] show ?thesis by (simp add: wanted_jobs_def)
qed

text \<open>The cron of a playlist for a kind of job, from the playlist itself or the default.\<close>

definition playlist_cron :: "schedule_settings \<Rightarrow> string \<Rightarrow> playlist \<Rightarrow> string option" where
  "playlist_cron sh kind pl =
     (if kind = ''discover'' then or_cron (pl_discover_cron pl) (sh_discover_cron sh)
      else or_cron (pl_download_cron pl) (sh_download_cron sh))"

lemma wanted_jobs_mem:
  assumes "wf_table pls"
  shows "(pid, kind, x) \<in> set (wanted_jobs pls (sh_discover_cron sh) (sh_download_cron sh)) \<longleftrightarrow>
     kind \<in> {''discover'', ''download''} \<and>
     (\<exists>pl. tget pls pid = Some pl \<and> runnable pl \<and> x = playlist_cron sh kind pl)"
  unfolding wanted_jobs_def playlist_cron_def using list_runnable_mem[OF assms]
  by fastforce

lemma place_maintenance_at:
  assumes "place_maintenance env off tz j i x jobs = Inr jobs'"
  shows "jobs' k = (if k \<noteq> i then jobs k
           else case from_expression env (off i) x tz j of
                  Inl _ \<Rightarrow> None | Inr trig \<Rightarrow> placed trig None (jobs i))"
  using assms by (auto simp: place_maintenance_def register_at split: sum.splits if_splits)

lemma place_maintenance_ok:
  "(\<exists>r. place_maintenance env off tz j i x jobs = Inr r) \<longleftrightarrow>
     (case se_cron env x of None \<Rightarrow> True | Some e \<Rightarrow> is_value_error e)"
  by (auto simp: place_maintenance_def from_expression_def split: option.splits)

section \<open>Reconciling\<close>

text \<open>The job store a successful \<open>reconcile\<close> leaves, id by id.\<close>

definition placed_opt :: "(exn + cron_trigger) \<Rightarrow> scheduled_job option \<Rightarrow> scheduled_job option" where
  "placed_opt r job = (case r of Inl _ \<Rightarrow> None | Inr trig \<Rightarrow> placed trig None job)"

definition reconciled :: "settings_env \<Rightarrow> (string \<Rightarrow> int \<Rightarrow> rat) \<Rightarrow> string \<Rightarrow> schedule_settings
    \<Rightarrow> playlist table \<Rightarrow> string \<Rightarrow> job_store \<Rightarrow> job_store" where
  "reconciled env off tz sh pls update jobs = (\<lambda>i.
     if i = integrity_job_id
     then placed_opt (from_expression env (off i) (sh_integrity_cron sh) tz (sh_jitter sh)) (jobs i)
     else if i = ytdlp_update_job_id
     then (if strip update = [] then None
           else placed_opt (from_expression env (off i) (Some update) tz (sh_jitter sh)) (jobs i))
     else if starts_with job_prefix i
     then (case map_of (job_entries env off tz (sh_jitter sh)
                  (wanted_jobs pls (sh_discover_cron sh) (sh_download_cron sh))) i of
             None \<Rightarrow> None | Some (trig, a) \<Rightarrow> placed trig (Some a) (jobs i))
     else jobs i)"

definition cron_tolerated :: "settings_env \<Rightarrow> string option \<Rightarrow> bool" where
  "cron_tolerated env x \<longleftrightarrow> (case se_cron env x of None \<Rightarrow> True | Some e \<Rightarrow> is_value_error e)"

lemma maintenance_result:
  "place_maintenance env off tz j i x jobs =
     (if cron_tolerated env x
      then Inr (jobs(i := placed_opt (from_expression env (off i) x tz j) (jobs i)))
      else Inl (the (se_cron env x)))"
  by (auto simp: cron_tolerated_def place_maintenance_def placed_opt_def from_expression_def
      fun_eq_iff register_at split: option.splits)

lemma place_jobs_result:
  assumes "distinct (map entry_key es)" "list_all (entry_ok env) es"
  obtains jobs' where
    "place_jobs env off tz j es (jobs, []) = Inr (jobs', map fst (job_entries env off tz j es))"
    "\<And>i. jobs' i = (case map_of (job_entries env off tz j es) i of
           None \<Rightarrow> jobs i | Some (trig, a) \<Rightarrow> placed trig (Some a) (jobs i))"
proof -
  obtain jobs' desired' where p: "place_jobs env off tz j es (jobs, []) = Inr (jobs', desired')"
    using place_jobs_ok[of env off tz j es jobs "[]"] assms(2) by auto
  with place_jobs_at[OF p assms(1)] show ?thesis by (intro that[of jobs']) auto
qed

lemma remove_undesired_at:
  assumes "\<And>i. jobs1 i = (case map_of es i of
      None \<Rightarrow> jobs i | Some (trig, a) \<Rightarrow> placed trig (Some a) (jobs i))"
    "\<And>i y. map_of es i = Some y \<Longrightarrow> starts_with job_prefix i"
  shows "remove_undesired (map fst es) jobs1 = (\<lambda>i. if starts_with job_prefix i
           then (case map_of es i of None \<Rightarrow> None | Some (trig, a) \<Rightarrow> placed trig (Some a) (jobs i))
           else jobs i)"
proof
  fix i
  show "remove_undesired (map fst es) jobs1 i = (if starts_with job_prefix i
           then (case map_of es i of None \<Rightarrow> None | Some (trig, a) \<Rightarrow> placed trig (Some a) (jobs i))
           else jobs i)"
  proof (cases "map_of es i")
    case None
    then have "i \<notin> set (map fst es)" by (simp add: map_of_eq_None_iff)
    with None assms(1)[of i] show ?thesis by (simp add: remove_undesired_def)
  next
    case (Some y)
    then have "i \<in> set (map fst es)" by (metis domI dom_map_of_conv_image_fst image_set)
    with Some assms(1)[of i] assms(2)[OF Some] show ?thesis by (simp add: remove_undesired_def)
  qed
qed

text \<open>When \<open>reconcile\<close> succeeds, and what it leaves: neither depends on the random phases.\<close>

definition reconcile_fine :: "settings_env \<Rightarrow> schedule_settings \<Rightarrow> playlist table \<Rightarrow> string \<Rightarrow> bool" where
  "reconcile_fine env sh pls update \<longleftrightarrow>
     list_all (entry_ok env) (wanted_jobs pls (sh_discover_cron sh) (sh_download_cron sh)) \<and>
     cron_tolerated env (sh_integrity_cron sh) \<and> sh_ytdlp_update_cron sh = Some update \<and>
     (strip update = [] \<or> cron_tolerated env (Some update))"

lemma reconcile_result:
  assumes "wf_table pls" "read_schedule env t = Inr sh"
  shows "reconcile env off tz True t pls jobs = (None, jobs') \<longleftrightarrow>
     (\<exists>update. reconcile_fine env sh pls update \<and> jobs' = reconciled env off tz sh pls update jobs)"
proof (cases "list_all (entry_ok env) (wanted_jobs pls (sh_discover_cron sh) (sh_download_cron sh))")
  case True
  let ?es = "wanted_jobs pls (sh_discover_cron sh) (sh_download_cron sh)"
  let ?js = "job_entries env off tz (sh_jitter sh) ?es"
  obtain jobs1 where p: "place_jobs env off tz (sh_jitter sh) ?es (jobs, []) = Inr (jobs1, map fst ?js)"
    and at1: "\<And>i. jobs1 i = (case map_of ?js i of
           None \<Rightarrow> jobs i | Some (trig, a) \<Rightarrow> placed trig (Some a) (jobs i))"
    using place_jobs_result[OF wanted_jobs_distinct[OF assms(1)] True, of off tz "sh_jitter sh" jobs]
    by blast
  define jobs2 where "jobs2 = remove_undesired (map fst ?js) jobs1"
  have at2: "jobs2 = (\<lambda>i. if starts_with job_prefix i
           then (case map_of ?js i of None \<Rightarrow> None | Some (trig, a) \<Rightarrow> placed trig (Some a) (jobs i))
           else jobs i)"
    unfolding jobs2_def by (rule remove_undesired_at[OF at1 job_entries_prefix])
  have r: "reconcile env off tz True t pls jobs =
      (if cron_tolerated env (sh_integrity_cron sh) then
         (let jobs3 = jobs2(integrity_job_id := placed_opt (from_expression env (off integrity_job_id)
                 (sh_integrity_cron sh) tz (sh_jitter sh)) (jobs2 integrity_job_id))
          in case sh_ytdlp_update_cron sh of None \<Rightarrow> (Some AttributeError, jobs3)
             | Some update \<Rightarrow>
                 if strip update = [] then (None, jobs3(ytdlp_update_job_id := None))
                 else if cron_tolerated env (Some update)
                 then (None, jobs3(ytdlp_update_job_id := placed_opt (from_expression env
                        (off ytdlp_update_job_id) (Some update) tz (sh_jitter sh)) (jobs3 ytdlp_update_job_id)))
                 else (Some (the (se_cron env (Some update))), jobs3))
       else (Some (the (se_cron env (sh_integrity_cron sh))), jobs2))"
    unfolding reconcile_def
    by (simp add: assms(2) p jobs2_def[symmetric] maintenance_result Let_def split: option.split)
  have e: "(jobs2(integrity_job_id := a (jobs2 integrity_job_id)))(ytdlp_update_job_id :=
         b ((jobs2(integrity_job_id := a (jobs2 integrity_job_id))) ytdlp_update_job_id)) =
      (\<lambda>i. if i = integrity_job_id then a (jobs i) else if i = ytdlp_update_job_id then b (jobs i)
           else if starts_with job_prefix i
           then (case map_of ?js i of None \<Rightarrow> None | Some (trig, a) \<Rightarrow> placed trig (Some a) (jobs i))
           else jobs i)" for a b
    unfolding at2 using maintenance_ids by (auto simp: fun_eq_iff)
  show ?thesis
  proof (cases "sh_ytdlp_update_cron sh")
    case None
    then show ?thesis by (simp add: r reconcile_fine_def Let_def)
  next
    case (Some update)
    let ?a = "placed_opt (from_expression env (off integrity_job_id) (sh_integrity_cron sh) tz (sh_jitter sh))"
    let ?b = "placed_opt (from_expression env (off ytdlp_update_job_id) (Some update) tz (sh_jitter sh))"
    have rec: "reconciled env off tz sh pls update jobs = (jobs2(integrity_job_id :=
        ?a (jobs2 integrity_job_id)))(ytdlp_update_job_id := (if strip update = [] then (\<lambda>_. None) else ?b)
          ((jobs2(integrity_job_id := ?a (jobs2 integrity_job_id))) ytdlp_update_job_id))"
      unfolding e[of ?a "if strip update = [] then (\<lambda>_. None) else ?b"]
      by (auto simp: reconciled_def fun_eq_iff)
    show ?thesis
      by (auto simp: r reconcile_fine_def True Some Let_def rec simp del: fun_upd_apply)
  qed
next
  case False
  then obtain e where "place_jobs env off tz (sh_jitter sh)
      (wanted_jobs pls (sh_discover_cron sh) (sh_download_cron sh)) (jobs, []) = Inl e"
    using place_jobs_ok[of env off tz "sh_jitter sh"] by (meson sum.exhaust)
  then show ?thesis using False by (simp add: reconcile_def assms(2) reconcile_fine_def)
qed

definition scheduled_as :: "settings_env \<Rightarrow> string \<Rightarrow> int \<Rightarrow> string option \<Rightarrow> (int \<times> string) option
    \<Rightarrow> scheduled_job option \<Rightarrow> bool" where
  "scheduled_as env tz jitter x args job \<longleftrightarrow>
     (case from_expression env (\<lambda>_. 0) x tz jitter of
        Inl _ \<Rightarrow> job = None | Inr trig \<Rightarrow> job_matches job trig args)"

lemma placed_opt_scheduled:
  "scheduled_as env tz j x None (placed_opt (from_expression env off x tz j) job)"
  using from_expression_cases[of env x off tz j "\<lambda>_. 0"]
  by (auto simp: scheduled_as_def placed_opt_def intro: placed_matches)

lemma placed_opt_stable:
  "placed_opt (from_expression env off' x tz j) (placed_opt (from_expression env off x tz j) job) =
     placed_opt (from_expression env off x tz j) job"
  using from_expression_cases[of env x off tz j off'] by (auto simp: placed_opt_def placed_stable)

lemma reconciled_stable:
  "reconciled env off' tz sh pls update (reconciled env off tz sh pls update jobs) =
     reconciled env off tz sh pls update jobs"
proof
  fix i
  let ?m = "\<lambda>off. map_of (job_entries env off tz (sh_jitter sh)
                  (wanted_jobs pls (sh_discover_cron sh) (sh_download_cron sh))) i"
  have two: "rel_option (\<lambda>(a, x) (b, y). same_schedule a b \<and> x = y) (?m off) (?m off')"
    by (rule job_entries_two)
  have keep: "(case ?m off' of None \<Rightarrow> None
        | Some (trig, a) \<Rightarrow> placed trig (Some a) (case ?m off of None \<Rightarrow> None
            | Some (trig, a) \<Rightarrow> placed trig (Some a) (jobs i))) =
      (case ?m off of None \<Rightarrow> None | Some (trig, a) \<Rightarrow> placed trig (Some a) (jobs i))"
    using two by (cases "?m off"; cases "?m off'") (auto simp: placed_stable)
  show "reconciled env off' tz sh pls update (reconciled env off tz sh pls update jobs) i =
      reconciled env off tz sh pls update jobs i"
    using keep placed_opt_stable maintenance_ids by (simp add: reconciled_def)
qed

lemma job_entries_at:
  assumes "wf_table pls" "playlist_job_id pid kind = Inr i"
    "map_of (job_entries env off tz j (wanted_jobs pls (sh_discover_cron sh) (sh_download_cron sh))) i = m"
  shows "case tget pls pid of
      None \<Rightarrow> m = None
    | Some pl \<Rightarrow>
        if runnable pl
        then (case from_expression env (off i) (playlist_cron sh kind pl) tz j of
                Inl _ \<Rightarrow> m = None | Inr trig \<Rightarrow> m = Some (trig, pid, kind))
        else m = None"
proof -
  let ?es = "wanted_jobs pls (sh_discover_cron sh) (sh_download_cron sh)"
  let ?js = "job_entries env off tz j ?es"
  have kind: "kind \<in> {''discover'', ''download''}" using assms(2) by (simp add: playlist_job_id_Inr)
  have mem: "(i, trig, pid', kind') \<in> set ?js \<longleftrightarrow> pid' = pid \<and> kind' = kind \<and>
      (\<exists>pl. tget pls pid = Some pl \<and> runnable pl \<and>
        from_expression env (off i) (playlist_cron sh kind pl) tz j = Inr trig)" for trig pid' kind'
    unfolding job_entries_mem wanted_jobs_mem[OF assms(1)]
    using playlist_job_id_inject[OF _ assms(2), of pid' kind'] assms(2) kind by blast
  have in_js: "y = (trig, pid, kind) \<and> (\<exists>pl. tget pls pid = Some pl \<and> runnable pl \<and>
        from_expression env (off i) (playlist_cron sh kind pl) tz j = Inr trig)"
    if "m = Some y" "fst y = trig" for y trig
    using map_of_SomeD[OF assms(3)[unfolded that(1)]] that(2) mem by (cases y) auto
  show ?thesis
  proof (cases m)
    case None
    then have "\<not> (i, trig, pid, kind) \<in> set ?js" for trig
      using assms(3) by (auto simp: map_of_eq_None_iff image_iff)
    with None show ?thesis unfolding mem by (auto split: option.split sum.split)
  next
    case (Some y)
    with in_js[OF Some refl] show ?thesis by (auto split: option.split)
  qed
qed

text \<open>
  Claim C39: after \<open>reconcile\<close> has run without an error, exactly the runnable playlists with a valid cron
  have their discover and download jobs, with the cron, time zone, jitter and options asked for; no
  other managed job is left, the integrity job is as configured, foreign jobs are untouched, and
  running it again changes nothing, whatever random phases it draws.
\<close>

theorem reconcile_converges:
  assumes "wf_table pls" "read_schedule env t = Inr sh"
    "reconcile env off tz True t pls jobs = (None, jobs')"
  shows "reconcile env off' tz True t pls jobs' = (None, jobs') \<and>
    (\<forall>pid kind i. playlist_job_id pid kind = Inr i \<longrightarrow>
       (case tget pls pid of
          None \<Rightarrow> jobs' i = None
        | Some pl \<Rightarrow>
            if runnable pl
            then scheduled_as env tz (sh_jitter sh) (playlist_cron sh kind pl) (Some (pid, kind)) (jobs' i)
            else jobs' i = None)) \<and>
    (\<forall>i. starts_with job_prefix i \<and> jobs' i \<noteq> None \<longrightarrow> (\<exists>pid kind. playlist_job_id pid kind = Inr i)) \<and>
    scheduled_as env tz (sh_jitter sh) (sh_integrity_cron sh) None (jobs' integrity_job_id) \<and>
    (\<forall>i. \<not> starts_with job_prefix i \<and> i \<notin> {integrity_job_id, ytdlp_update_job_id} \<longrightarrow> jobs' i = jobs i)"
proof -
  obtain update where fine: "reconcile_fine env sh pls update"
    and j: "jobs' = reconciled env off tz sh pls update jobs"
    using reconcile_result[OF assms(1,2)] assms(3) by blast
  have again: "reconcile env off' tz True t pls jobs' = (None, jobs')"
    using reconcile_result[OF assms(1,2), of off' tz jobs' jobs'] fine reconciled_stable j by metis
  let ?m = "map_of (job_entries env off tz (sh_jitter sh)
                  (wanted_jobs pls (sh_discover_cron sh) (sh_download_cron sh)))"
  have at_prefix: "jobs' i = (case ?m i of None \<Rightarrow> None | Some (trig, a) \<Rightarrow> placed trig (Some a) (jobs i))"
    if "starts_with job_prefix i" for i
    using that maintenance_ids by (auto simp: j reconciled_def)
  have exact: "case tget pls pid of None \<Rightarrow> jobs' i = None
      | Some pl \<Rightarrow> if runnable pl
          then scheduled_as env tz (sh_jitter sh) (playlist_cron sh kind pl) (Some (pid, kind)) (jobs' i)
          else jobs' i = None" if i: "playlist_job_id pid kind = Inr i" for pid kind i
  proof (cases "tget pls pid")
    case None
    with job_entries_at[OF assms(1) i refl, of env off tz "sh_jitter sh" sh]
      at_prefix[OF playlist_job_id_prefix[OF i]] show ?thesis by simp
  next
    case (Some pl)
    from from_expression_cases[of env "playlist_cron sh kind pl" "off i" tz "sh_jitter sh" "\<lambda>_. 0"]
      job_entries_at[OF assms(1) i refl, of env off tz "sh_jitter sh" sh]
      at_prefix[OF playlist_job_id_prefix[OF i]] Some
    show ?thesis by (auto simp: scheduled_as_def intro: placed_matches)
  qed
  have form: "\<exists>pid kind. playlist_job_id pid kind = Inr i"
    if pre: "starts_with job_prefix i" and ne: "jobs' i \<noteq> None" for i
  proof -
    obtain trig pid kind where "?m i = Some (trig, pid, kind)"
      using ne at_prefix[OF pre] by (cases "?m i") auto
    then show ?thesis using map_of_SomeD by (fastforce simp: job_entries_mem)
  qed
  show ?thesis
    using again exact form placed_opt_scheduled by (auto simp: j reconciled_def)
qed

definition schedule_env :: settings_env where
  "schedule_env = \<lparr>se_json_loads = (\<lambda>_. None), se_repr = (\<lambda>_. []), se_cron = (\<lambda>_. None),
     se_brackets_ok = (\<lambda>_. True)\<rparr>"

definition sample_schedule :: schedule_settings where
  "sample_schedule = \<lparr>sh_jitter = 5, sh_discover_cron = Some ''0 */6 * * *'',
     sh_download_cron = Some ''0 */6 * * *'', sh_integrity_cron = Some ''0 3 * * *'',
     sh_ytdlp_update_cron = Some ''0 4 * * 0''\<rparr>"

lemma read_sample_schedule: "read_schedule schedule_env [] = Inr sample_schedule"
  by code_simp

definition sample_playlists :: "playlist table" where
  "sample_playlists = [(1, sample_playlist), (2, sample_playlist\<lparr>pl_paused := True\<rparr>)]"

lemma wf_sample_playlists: "wf_table sample_playlists"
  by (simp add: wf_table_def ids_def sample_playlists_def)

lemma sample_reconciles:
  "\<exists>jobs. reconcile schedule_env off ''UTC'' True [] sample_playlists Map.empty = (None, jobs)"
proof -
  have valid: "se_cron schedule_env x = None" for x by (simp add: schedule_env_def)
  have "entry_ok schedule_env e" if "e \<in> set (wanted_jobs sample_playlists
      (sh_discover_cron sample_schedule) (sh_download_cron sample_schedule))" for e
  proof -
    obtain pid kind x where e: "e = (pid, kind, x)" by (cases e)
    from that have "kind \<in> {''discover'', ''download''}"
      unfolding e wanted_jobs_mem[OF wf_sample_playlists] by (rule conjunct1)
    then show ?thesis by (simp only: e entry_ok_def valid split_conv option.case simp_thms)
  qed
  then have "list_all (entry_ok schedule_env) (wanted_jobs sample_playlists
      (sh_discover_cron sample_schedule) (sh_download_cron sample_schedule))"
    unfolding list_all_iff by (rule ballI)
  moreover have "cron_tolerated schedule_env x" for x by (simp only: cron_tolerated_def valid option.case)
  moreover have "sh_ytdlp_update_cron sample_schedule = Some ''0 4 * * 0''"
    by (simp only: sample_schedule_def schedule_settings.simps)
  ultimately have "reconcile_fine schedule_env sample_schedule sample_playlists ''0 4 * * 0''"
    by (simp only: reconcile_fine_def simp_thms)
  then show ?thesis
    using reconcile_result[OF wf_sample_playlists read_sample_schedule] by blast
qed

theorem reconcile_converges_witness:
  "\<exists>jobs. reconcile schedule_env (\<lambda>_ _. 7) ''UTC'' True [] sample_playlists Map.empty = (None, jobs) \<and>
     reconcile schedule_env (\<lambda>_ _. - 3) ''UTC'' True [] sample_playlists jobs = (None, jobs) \<and>
     jobs ''sluicery:playlist:2:download'' = None \<and> jobs ''sluicery:playlist:1:download'' \<noteq> None"
proof -
  let ?off = "\<lambda>_ _. 7 :: rat"
  obtain jobs where r: "reconcile schedule_env ?off ''UTC'' True [] sample_playlists Map.empty = (None, jobs)"
    using sample_reconciles by blast
  note c = reconcile_converges[OF wf_sample_playlists read_sample_schedule r, of "\<lambda>_ _. - 3"]
  have i: "playlist_job_id 1 ''download'' = Inr ''sluicery:playlist:1:download''"
    "playlist_job_id 2 ''download'' = Inr ''sluicery:playlist:2:download''"
    by code_simp+
  have p: "tget sample_playlists 1 = Some sample_playlist"
    "tget sample_playlists 2 = Some (sample_playlist\<lparr>pl_paused := True\<rparr>)"
    "runnable sample_playlist" "\<not> runnable (sample_playlist\<lparr>pl_paused := True\<rparr>)"
    by (simp_all add: sample_playlists_def tget_def runnable_def sample_playlist_def)
  note ex = c[THEN conjunct2, THEN conjunct1, rule_format]
  have "jobs ''sluicery:playlist:2:download'' = None"
    using ex[OF i(2)] by (simp only: p option.case if_False)
  moreover have "scheduled_as schedule_env ''UTC'' (sh_jitter sample_schedule)
      (playlist_cron sample_schedule ''download'' sample_playlist) (Some (1, ''download''))
      (jobs ''sluicery:playlist:1:download'')"
    using ex[OF i(1)] by (simp only: p option.case if_True)
  then have "jobs ''sluicery:playlist:1:download'' \<noteq> None"
    by (cases "jobs ''sluicery:playlist:1:download''")
       (simp_all add: scheduled_as_def schedule_env_def from_expression_def job_matches_def)
  ultimately show ?thesis using r c[THEN conjunct1] by (intro exI[of _ jobs] conjI)
qed

section \<open>Orphan Runs\<close>

definition closed_run :: "task table \<Rightarrow> instant \<Rightarrow> int \<Rightarrow> run \<Rightarrow> run" where
  "closed_run ts now run_id r = (let tasks = tasks_of_run run_id ts in
     r\<lparr>rn_status := orphan_status tasks, rn_stats_json := Some (orphan_stats r tasks),
       rn_finished_at := Some now\<rparr>)"

definition close_ids :: "task table \<Rightarrow> instant \<Rightarrow> int set \<Rightarrow> run table \<Rightarrow> run table" where
  "close_ids ts now I rs = map (\<lambda>(i, r). (i, if i \<in> I then closed_run ts now i r else r)) rs"

lemma ids_close_ids [simp]: "ids (close_ids ts now I rs) = ids rs"
  by (simp add: close_ids_def ids_def case_prod_beta comp_def)

lemma close_ids_empty [simp]: "close_ids ts now {} rs = rs"
  by (simp add: close_ids_def)

lemma close_ids_insert:
  assumes "i \<notin> I"
  shows "close_ids ts now I (close_ids ts now {i} rs) = close_ids ts now (insert i I) rs"
  using assms by (auto simp: close_ids_def)

lemma finish_run_closes:
  assumes "wf_table rs" "(i, r) \<in> set rs" "rn_status r = RS_Running"
  shows "snd (finish_run i (orphan_status (tasks_of_run i ts)) (orphan_stats r (tasks_of_run i ts)) now rs) =
    close_ids ts now {i} rs"
proof -
  have "r' = r" if "(i, r') \<in> set rs" for r'
    using that assms(1,2) by (metis option.inject tget_eqI)
  with assms(3) show ?thesis
    by (auto simp: finish_run_def close_ids_def update_where_def closed_run_def Let_def)
qed

lemma mem_close_ids:
  "(j, r) \<in> set rs \<Longrightarrow> j \<notin> I \<Longrightarrow> (j, r) \<in> set (close_ids ts now I rs)"
  by (force simp: close_ids_def)

lemma recover_orphan_skip:
  "\<not> orphan tb ts i r \<Longrightarrow> recover_orphan tb now ts (i, r) (a, b, rs) = (a, b, rs)"
  by (simp add: recover_orphan_def)

lemma recover_orphan_close:
  assumes "orphan tb ts i r" "wf_table rs" "(i, r) \<in> set rs" "rn_status r = RS_Running"
  shows "recover_orphan tb now ts (i, r) (a, b, rs) =
    (a @ [i], b @ [orphan_event i r (orphan_status (tasks_of_run i ts))], close_ids ts now {i} rs)"
  using assms(1) by (simp add: recover_orphan_def Let_def finish_run_closes[OF assms(2-4)])

lemma recover_loop_result:
  assumes "wf_table rs" "distinct (map fst xs)"
    "\<And>i r. (i, r) \<in> set xs \<Longrightarrow> (i, r) \<in> set rs \<and> rn_status r = RS_Running"
  shows "fold (recover_orphan taskless_before now ts) xs (recovered, evs, rs) =
    (let dead = filter (\<lambda>(i, r). orphan taskless_before ts i r) xs in
      (recovered @ map fst dead,
       evs @ map (\<lambda>(i, r). orphan_event i r (orphan_status (tasks_of_run i ts))) dead,
       close_ids ts now (set (map fst dead)) rs))"
  using assms
proof (induction xs arbitrary: recovered evs rs)
  case (Cons x xs)
  obtain i r where x: "x = (i, r)" by (cases x)
  show ?case
  proof (cases "orphan taskless_before ts i r")
    case False
    have "distinct (map fst xs)" using Cons.prems(2) by simp
    moreover have "(j, r') \<in> set rs \<and> rn_status r' = RS_Running" if "(j, r') \<in> set xs" for j r'
      using Cons.prems(3)[of j r'] that by simp
    ultimately show ?thesis
      using Cons.IH[OF Cons.prems(1), of recovered evs] False
      by (simp add: x recover_orphan_skip[OF False])
  next
    case True
    have r: "(i, r) \<in> set rs" "rn_status r = RS_Running" using Cons.prems(3)[of i r] x by auto
    have i: "i \<notin> fst ` set xs" using Cons.prems(2) x by simp
    let ?rs = "close_ids ts now {i} rs"
    have "(j, r') \<in> set ?rs \<and> rn_status r' = RS_Running" if j: "(j, r') \<in> set xs" for j r'
    proof -
      from j i have "j \<noteq> i" by force
      with Cons.prems(3)[of j r'] j x show ?thesis by (auto intro: mem_close_ids)
    qed
    moreover have "wf_table ?rs" using Cons.prems(1) by (simp add: wf_table_def)
    ultimately have ih: "fold (recover_orphan taskless_before now ts) xs (a, b, ?rs) =
      (let dead = filter (\<lambda>(i, r). orphan taskless_before ts i r) xs in
        (a @ map fst dead,
         b @ map (\<lambda>(i, r). orphan_event i r (orphan_status (tasks_of_run i ts))) dead,
         close_ids ts now (set (map fst dead)) ?rs))" for a b
      using Cons.IH Cons.prems(2) by simp
    have ni: "i \<notin> set (map fst (filter (\<lambda>(i, r). orphan taskless_before ts i r) xs))"
      using i by auto
    show ?thesis
      using True close_ids_insert[OF ni]
      by (simp add: x recover_orphan_close[OF True Cons.prems(1) r] ih Let_def)
  qed
qed simp

definition dead_run :: "rat \<Rightarrow> instant \<Rightarrow> task table \<Rightarrow> int \<Rightarrow> run \<Rightarrow> bool" where
  "dead_run threshold now ts i r \<longleftrightarrow> rn_status r = RS_Running \<and>
     rn_started_at r < now - timedelta_sec threshold \<and>
     orphan (now - taskless_download_recovery_sec * 1000000) ts i r"

lemma recover_orphan_runs_result:
  assumes "wf_table (db_runs d)"
  shows "recover_orphan_runs threshold now d =
    (let dead = select_where (dead_run threshold now (db_tasks d)) (db_runs d) in
      (ids dead, map (\<lambda>(i, r). orphan_event i r (orphan_status (tasks_of_run i (db_tasks d)))) dead,
       d\<lparr>db_runs := map (\<lambda>(i, r). (i, if dead_run threshold now (db_tasks d) i r
                        then closed_run (db_tasks d) now i r else r)) (db_runs d)\<rparr>))"
proof -
  let ?run = "\<lambda>_ r. rn_status r = RS_Running \<and> rn_started_at r < now - timedelta_sec threshold"
  let ?xs = "select_where ?run (db_runs d)"
  let ?tb = "now - taskless_download_recovery_sec * 1000000"
  have dist: "distinct (map fst ?xs)"
    using assms by (simp add: wf_table_def ids_def select_where_def distinct_map_filter)
  have mem: "(i, r) \<in> set (db_runs d) \<and> rn_status r = RS_Running" if "(i, r) \<in> set ?xs" for i r
    using that by (auto simp: select_where_def)
  have dead: "filter (\<lambda>(i, r). orphan ?tb (db_tasks d) i r) ?xs =
      select_where (dead_run threshold now (db_tasks d)) (db_runs d)"
    by (auto simp: select_where_def dead_run_def case_prod_beta conj_ac intro!: filter_cong)
  have "close_ids (db_tasks d) now (set (map fst
        (select_where (dead_run threshold now (db_tasks d)) (db_runs d)))) (db_runs d) =
      map (\<lambda>(i, r). (i, if dead_run threshold now (db_tasks d) i r
                        then closed_run (db_tasks d) now i r else r)) (db_runs d)"
    unfolding close_ids_def
  proof (rule map_cong[OF refl])
    fix x assume x: "x \<in> set (db_runs d)"
    obtain i r where xe: "x = (i, r)" by (cases x)
    with x have ir: "(i, r) \<in> set (db_runs d)" by simp
    have "i \<in> set (map fst (select_where (dead_run threshold now (db_tasks d)) (db_runs d))) \<longleftrightarrow>
        dead_run threshold now (db_tasks d) i r"
    proof
      assume "i \<in> set (map fst (select_where (dead_run threshold now (db_tasks d)) (db_runs d)))"
      then obtain r' where "(i, r') \<in> set (db_runs d)" "dead_run threshold now (db_tasks d) i r'"
        by (auto simp: select_where_def)
      moreover from this(1) have "r' = r" using ir assms by (metis option.inject tget_eqI)
      ultimately show "dead_run threshold now (db_tasks d) i r" by simp
    qed (use ir in \<open>force simp: select_where_def\<close>)
    then show "(case x of (i, r) \<Rightarrow> (i, if i \<in> set (map fst
          (select_where (dead_run threshold now (db_tasks d)) (db_runs d)))
          then closed_run (db_tasks d) now i r else r)) =
        (case x of (i, r) \<Rightarrow> (i, if dead_run threshold now (db_tasks d) i r
          then closed_run (db_tasks d) now i r else r))"
      unfolding xe prod.case by (rule arg_cong)
  qed
  then show ?thesis
    using recover_loop_result[OF assms dist mem, of ?tb now "db_tasks d" "[]" "[]"] dead
    by (simp add: recover_orphan_runs_def Let_def ids_def)
qed

text \<open>
  The recovery closes exactly the Runs that started before the threshold, still count as
  running and have no active task left (a download without any task only after a day), and no
  other; it reports each once; the status is succeeded only if every task succeeded; nothing but these
  Runs changes, and a second recovery finds nothing.
\<close>

theorem recover_orphan_runs_spec:
  assumes "wf_table (db_runs d)"
  shows "case recover_orphan_runs threshold now d of (recovered, evs, d') \<Rightarrow>
    (let dead = select_where (dead_run threshold now (db_tasks d)) (db_runs d) in
      recovered = ids dead \<and>
      evs = map (\<lambda>(i, r). orphan_event i r (orphan_status (tasks_of_run i (db_tasks d)))) dead) \<and>
    d'\<lparr>db_runs := db_runs d\<rparr> = d \<and> ids (db_runs d') = ids (db_runs d) \<and>
    (\<forall>i r. tget (db_runs d) i = Some r \<longrightarrow>
       (if dead_run threshold now (db_tasks d) i r
        then (\<exists>r'. tget (db_runs d') i = Some r' \<and> rn_finished_at r' = Some now \<and>
                rn_status r' \<noteq> RS_Running \<and>
                (rn_status r' = RS_Succeeded \<longleftrightarrow> (tasks_of_run i (db_tasks d) \<noteq> [] \<and>
                   list_all (\<lambda>t. tk_status t = TS_Succeeded) (tasks_of_run i (db_tasks d)))))
        else tget (db_runs d') i = Some r)) \<and>
    recover_orphan_runs threshold now d' = ([], [], d')"
proof -
  let ?dead = "dead_run threshold now (db_tasks d)"
  define d' where "d' = d\<lparr>db_runs := map (\<lambda>(i, r). (i, if ?dead i r
                        then closed_run (db_tasks d) now i r else r)) (db_runs d)\<rparr>"
  have ids': "ids (db_runs d') = ids (db_runs d)"
    by (simp add: d'_def ids_def case_prod_beta comp_def)
  have status: "orphan_status tasks \<noteq> RS_Running \<and> (orphan_status tasks = RS_Succeeded \<longleftrightarrow>
      (tasks \<noteq> [] \<and> list_all (\<lambda>t. tk_status t = TS_Succeeded) tasks))" for tasks
    by (simp add: orphan_status_def)
  have rows: "tget (db_runs d') i = map_option (\<lambda>r. if ?dead i r
      then closed_run (db_tasks d) now i r else r) (tget (db_runs d) i)" for i
  proof -
    have "map_of (map (\<lambda>(i, r). (i, f i r)) t) i = map_option (f i) (map_of t i)" for f and t :: "run table"
      by (induction t) auto
    then show ?thesis by (simp add: d'_def tget_def)
  qed
  have closed: "rn_status (closed_run ts now i r) \<noteq> RS_Running" for ts i r
    using status by (simp add: closed_run_def Let_def)
  have none: "select_where (dead_run threshold now (db_tasks d')) (db_runs d') = []"
    using closed by (auto simp: select_where_def filter_empty_conv d'_def dead_run_def split: if_splits)
  have again: "recover_orphan_runs threshold now d' = ([], [], d')"
  proof -
    have "map (\<lambda>(i, r). (i, if dead_run threshold now (db_tasks d') i r
        then closed_run (db_tasks d') now i r else r)) (db_runs d') = db_runs d'"
      using none by (force simp: select_where_def filter_empty_conv intro: map_idI)
    moreover have "wf_table (db_runs d')" using assms ids' by (simp add: wf_table_def)
    ultimately show ?thesis
      using recover_orphan_runs_result[of d' threshold now] none by (simp add: ids_def)
  qed
  show ?thesis
    unfolding recover_orphan_runs_result[OF assms] Let_def d'_def[symmetric] prod.case
    using ids' again rows status by (simp add: closed_run_def Let_def) (simp add: d'_def)
qed

definition orphan_db :: db where
  "orphan_db = sample_db\<lparr>
     db_runs := [(1, new_run RT_Schedule ''discover'' 1 0), (2, new_run RT_Schedule ''download'' 1 0)],
     db_tasks := [(1, new_task TT_Download ''target'' 1 None WC_Network 3 (Some 2) 0)]\<rparr>"

theorem recover_orphan_runs_spec_witness:
  "fst (recover_orphan_runs 60 100000000 orphan_db) = [1] \<and>
   (\<exists>r. tget (db_runs (snd (snd (recover_orphan_runs 60 100000000 orphan_db)))) 1 = Some r \<and>
      rn_status r \<noteq> RS_Running)"
proof -
  have wf: "wf_table (db_runs orphan_db)" by (simp add: orphan_db_def wf_table_def ids_def)
  have runs: "tget (db_runs orphan_db) 1 = Some (new_run RT_Schedule ''discover'' 1 0)"
    by (simp add: orphan_db_def tget_def)
  have dead: "dead_run 60 100000000 (db_tasks orphan_db) 1 (new_run RT_Schedule ''discover'' 1 0)"
    "ids (select_where (dead_run 60 100000000 (db_tasks orphan_db)) (db_runs orphan_db)) = [1]"
    by code_simp+
  note spec = recover_orphan_runs_spec[OF wf, of 60 100000000, unfolded case_prod_beta Let_def]
  have "fst (recover_orphan_runs 60 100000000 orphan_db) = [1]"
    using spec[THEN conjunct1] dead(2) by simp
  moreover have "\<exists>r. tget (db_runs (snd (snd (recover_orphan_runs 60 100000000 orphan_db)))) 1 = Some r \<and>
      rn_status r \<noteq> RS_Running"
    using spec[THEN conjunct2, THEN conjunct2, THEN conjunct2, THEN conjunct1, rule_format, OF runs]
      dead(1) by auto
  ultimately show ?thesis by blast
qed

section \<open>Jobs that fire\<close>

text \<open>The window as a half-open interval on the clock of 1440 minutes; equal ends are the whole day.\<close>

definition in_window :: "download_window \<Rightarrow> int \<Rightarrow> bool" where
  "in_window w minute \<longleftrightarrow> dw_start_minute w = dw_end_minute w \<or>
     (minute - int (dw_start_minute w)) mod 1440
       < (int (dw_end_minute w) - int (dw_start_minute w)) mod 1440"

lemma mod_day: "(a - b) mod 1440 = (if b \<le> a then a - b else a - b + 1440)"
  if "0 \<le> a" "a < 1440" "0 \<le> b" "b < (1440::int)"
proof (cases "b \<le> a")
  case False
  then have "(a - b + 1440) mod 1440 = a - b + 1440" using that by (intro mod_pos_pos_trivial) auto
  with False show ?thesis by simp
qed (use that in \<open>simp add: mod_pos_pos_trivial\<close>)

lemma window_contains_iff:
  assumes "dw_start_minute w < 1440" "dw_end_minute w < 1440" "hour < 24" "minute < 60"
  shows "window_contains w hour minute \<longleftrightarrow> in_window w (int hour * 60 + int minute)"
proof -
  have "(int hour * 60 + int minute - int (dw_start_minute w)) mod 1440 =
      (if int (dw_start_minute w) \<le> int hour * 60 + int minute
       then int hour * 60 + int minute - int (dw_start_minute w)
       else int hour * 60 + int minute - int (dw_start_minute w) + 1440)"
    using assms by (intro mod_day) auto
  moreover have "(int (dw_end_minute w) - int (dw_start_minute w)) mod 1440 =
      (if int (dw_start_minute w) \<le> int (dw_end_minute w)
       then int (dw_end_minute w) - int (dw_start_minute w)
       else int (dw_end_minute w) - int (dw_start_minute w) + 1440)"
    using assms by (intro mod_day) auto
  ultimately show ?thesis
    using assms by (auto simp: window_contains_def in_window_def Let_def)
qed

lemma parse_download_window_bounds:
  assumes "parse_download_window v = Inr (Some w)"
  shows "dw_start_minute w < 1440 \<and> dw_end_minute w < 1440"
proof -
  have "h * 60 + m < 1440" if "\<not> 23 < h" "\<not> 59 < m" for h m :: nat using that by linarith
  then show ?thesis
    using assms by (auto simp: parse_download_window_def Let_def split: if_splits list.splits)
qed

lemma job_window_bounds:
  "job_window jc kind = Inr (Some w) \<Longrightarrow> dw_start_minute w < 1440 \<and> dw_end_minute w < 1440"
  by (auto simp: job_window_def dest: parse_download_window_bounds split: if_splits sum.splits)

definition skipped_run :: "string \<Rightarrow> int \<Rightarrow> string \<Rightarrow> instant \<Rightarrow> run" where
  "skipped_run kind pid reason now = (new_run RT_Schedule kind pid now)
     \<lparr>rn_status := RS_Skipped, rn_stats_json := Some (skipped_stats reason), rn_finished_at := Some now\<rparr>"

lemma finish_new_run:
  assumes "rn_status r \<noteq> RS_Cancelled"
  shows "snd (finish_run (fresh_id rs) st stats now (insert_row r rs)) =
    insert_row (r\<lparr>rn_status := st, rn_stats_json := Some stats, rn_finished_at := Some now\<rparr>) rs"
proof -
  have "update_where (\<lambda>i r. i = fresh_id rs \<and> q r) f rs = rs" for q f
  proof -
    have "(case x of (i, r) \<Rightarrow> (i, if i = fresh_id rs \<and> q r then f r else r)) = x" if "x \<in> set rs" for x
    proof -
      have "fst x \<in> set (ids rs)" using that by (simp add: ids_def)
      with fresh_id_not_in[of rs] show ?thesis by (cases x) auto
    qed
    then show ?thesis by (simp add: update_where_def map_idI)
  qed
  moreover have "update_where p f (rs @ xs) = update_where p f rs @ update_where p f xs" for p f and xs :: "run table"
    by (simp add: update_where_def)
  ultimately show ?thesis
    using assms by (simp add: finish_run_def insert_row_def) (simp add: update_where_def fresh_id_def)
qed

lemma record_skipped_result:
  assumes "tget (db_playlists d) pid = Some pl" "runnable pl"
  shows "record_skipped pid kind reason now d =
    ([run_started_event (fresh_id (db_runs d)) pid kind RT_Schedule,
      Event ''run_finished'' [(''run_id'', JInt (fresh_id (db_runs d))), (''playlist_id'', JInt pid),
        (''kind'', JStr kind), (''status'', JStr (run_status_value RS_Skipped))]],
     d\<lparr>db_runs := insert_row (skipped_run kind pid reason now) (db_runs d)\<rparr>)"
  using assms
  by (simp add: record_skipped_def runnable_def start_run_def finish_new_run skipped_run_def new_run_def)

lemma start_job_active:
  assumes "playlist_sync_is_active d pid" "kind \<in> {''discover'', ''download''}"
  shows "start_job jc pid kind now d = (Inl SyncAlreadyRunningError, [], d)"
  using assms(2)
  by (auto simp: start_job_def enqueue_discover_run_def execute_download_run_def assms(1)
      lock_and_validate_playlist_operation_start_def)

text \<open>
  A job that fires for a playlist that is missing, disabled or paused does nothing at all. For a
  runnable playlist, a download outside the download window (a half-open interval that may pass
  midnight) and any job while a synchronisation is active only add one finished Run marked skipped
  with its reason: no task is enqueued, no Target, item or other Run changes.
\<close>

theorem execute_job_guarded:
  assumes "kind \<in> {''discover'', ''download''}" "job_window jc kind = Inr window"
    "jc_hour jc < 24" "jc_minute jc < 60"
  shows "case tget (db_playlists d) pid of
      None \<Rightarrow> execute_job jc pid kind now d = (None, [], d)
    | Some pl \<Rightarrow>
        if \<not> runnable pl then execute_job jc pid kind now d = (None, [], d)
        else if \<exists>w. window = Some w \<and> \<not> in_window w (int (jc_hour jc) * 60 + int (jc_minute jc))
        then fst (execute_job jc pid kind now d) = None \<and>
          snd (snd (execute_job jc pid kind now d)) = d\<lparr>db_runs :=
            insert_row (skipped_run kind pid ''outside_download_window'' now) (db_runs d)\<rparr>
        else if playlist_sync_is_active d pid
        then fst (execute_job jc pid kind now d) = None \<and>
          snd (snd (execute_job jc pid kind now d)) = d\<lparr>db_runs :=
            insert_row (skipped_run kind pid ''active_sync'' now) (db_runs d)\<rparr>
        else execute_job jc pid kind now d =
          (case start_job jc pid kind now d of (result, evs, d') \<Rightarrow> settle_job pid kind now result evs d')"
proof (cases "tget (db_playlists d) pid")
  case None
  then show ?thesis by (simp add: execute_job_def)
next
  case (Some pl)
  let ?out = "\<exists>w. window = Some w \<and> \<not> in_window w (int (jc_hour jc) * 60 + int (jc_minute jc))"
  have only: "kind = ''download''" if "window = Some w" for w
    using assms(1,2) that by (auto simp: job_window_def)
  have out: "(kind = ''download'' \<and> (case window of None \<Rightarrow> False
      | Some w \<Rightarrow> \<not> window_contains w (jc_hour jc) (jc_minute jc))) \<longleftrightarrow> ?out"
    using only job_window_bounds assms(2-4) window_contains_iff by (cases window) auto
  show ?thesis
  proof (cases "runnable pl")
    case False
    then show ?thesis by (simp add: Some execute_job_def runnable_def)
  next
    case True
    then have run: "\<not> (\<not> pl_enabled pl \<or> pl_paused pl)" by (simp add: runnable_def)
    note job = execute_job_def[of jc pid kind now d, unfolded Some option.case assms(2) sum.case out if_not_P[OF run]]
    show ?thesis
    proof (cases ?out)
      case True
      then show ?thesis
        using \<open>runnable pl\<close> job record_skipped_result[OF Some \<open>runnable pl\<close>] by (simp add: Some)
    next
      case False
      have start: "execute_job jc pid kind now d =
          (case start_job jc pid kind now d of (result, evs, d') \<Rightarrow> settle_job pid kind now result evs d')"
        using job unfolding if_not_P[OF False] .
      then have "playlist_sync_is_active d pid \<longrightarrow> fst (execute_job jc pid kind now d) = None \<and>
          snd (snd (execute_job jc pid kind now d)) = d\<lparr>db_runs :=
            insert_row (skipped_run kind pid ''active_sync'' now) (db_runs d)\<rparr>"
        using record_skipped_result[OF Some \<open>runnable pl\<close>]
          start_job_active[of d pid kind jc now] assms(1) by (simp add: settle_job_def)
      with start \<open>runnable pl\<close> show ?thesis unfolding Some option.case if_not_P[OF False] by simp
    qed
  qed
qed

definition sample_job :: "nat \<Rightarrow> job_context" where
  "sample_job hour = \<lparr>jc_env = schedule_env,
     jc_settings = [(''schedule.download_window'', \<lparr>sg_value_json = JStr ''23:30-05:00'', sg_updated_at = 0\<rparr>)],
     jc_factory = (\<lambda>_ _. Inl OSError),
     jc_sync = \<lparr>ss_max_targets_per_run = 1, ss_max_attempts = 3, ss_free_space_warn_bytes = 0,
       ss_free_space_stop_bytes = 0\<rparr>,
     jc_uuid = (\<lambda>_. ''0''), jc_hour = hour, jc_minute = 15\<rparr>"

theorem execute_job_guarded_witness:
  "snd (snd (execute_job (sample_job 6) 1 ''download'' 9 sample_db)) =
     sample_db\<lparr>db_runs := insert_row (skipped_run ''download'' 1 ''outside_download_window'' 9) (db_runs sample_db)\<rparr>"
proof -
  let ?w = "\<lparr>dw_start_minute = 1410, dw_end_minute = 300\<rparr> :: download_window"
  have w: "job_window (sample_job 6) ''download'' = Inr (Some ?w)" by code_simp
  have "\<not> in_window ?w (6 * 60 + 15)" by (simp add: in_window_def)
  moreover have "jc_hour (sample_job 6) = 6" "jc_minute (sample_job 6) = 15"
    by (simp_all add: sample_job_def)
  moreover have "tget (db_playlists sample_db) 1 = Some sample_playlist" "runnable sample_playlist"
    by (simp_all add: sample_db_def empty_db_def tget_def runnable_def sample_playlist_def)
  ultimately show ?thesis
    using execute_job_guarded[OF _ w, where d = sample_db and pid = 1 and now = 9] by simp
qed

end
