(* ===== verification/Runner.thy ===== *)
theory Runner
  imports Sync
begin

text \<open>
  The text handling of \<open>src/sluicery/runner/base.py\<close> and \<open>runner/ffprobe.py\<close>: command lines, child
  output and stored logs with their secrets replaced by stars, and the result of a process. Starting,
  watching and killing the process is the operating system's; a runner is a function from arguments to
  a \<open>process_result\<close> with the lines of standard output. A percent escape above 127 stands for one
  character. Regular expressions are matchers that give the length of the match at a position.
\<close>

definition stars :: string where
  "stars = ''********''"

definition sensitive_value_flags :: "string list" where
  "sensitive_value_flags =
     [''-u'', ''--username'', ''-p'', ''--password'', ''-2'', ''--twofactor'', ''--video-password'',
      ''--ap-username'', ''--ap-password'', ''--cookies'', ''--cookies-from-browser'', ''--proxy'',
      ''--add-header'', ''--add-headers'', ''--client-certificate'', ''--client-certificate-key'',
      ''--client-certificate-password'', ''--netrc-location'']"

definition sensitive_inline_prefixes :: "string list" where
  "sensitive_inline_prefixes = map (\<lambda>f. f @ ''='') (filter (starts_with ''--'') sensitive_value_flags)"

definition sensitive_short_prefixes :: "string list" where
  "sensitive_short_prefixes = [''-u'', ''-p'', ''-2'']"

definition sensitive_query_fragments :: "string list" where
  "sensitive_query_fragments =
     [''api_key'', ''apikey'', ''auth'', ''credential'', ''key'', ''pass'', ''policy'', ''secret'',
      ''sig'', ''token'', ''user'']"

section \<open>URLs\<close>

definition hex_value :: "char \<Rightarrow> nat option" where
  "hex_value c = (if is_digit c then Some (code c - 48)
     else if 97 \<le> code (lower_char c) \<and> code (lower_char c) \<le> 102 then Some (code (lower_char c) - 87)
     else None)"

fun unquote :: "string \<Rightarrow> string" where
  "unquote (c # a # b # s) =
     (case (c = CHR ''%'', hex_value a, hex_value b) of
        (True, Some h, Some l) \<Rightarrow> char_of (16 * h + l) # unquote s
      | _ \<Rightarrow> c # unquote (a # b # s))"
| "unquote s = s"

definition unquote_plus :: "string \<Rightarrow> string" where
  "unquote_plus s = unquote (replace_char (CHR ''+'') (CHR '' '') s)"

definition mask_parameter :: "string \<Rightarrow> string" where
  "mask_parameter component =
     (case partition_at (CHR ''='') component of (key, separator, _) \<Rightarrow>
        let normalized = replace_char (CHR ''-'') (CHR ''_'') (lower (unquote_plus key))
        in if separator \<and> list_ex (\<lambda>f. contains f normalized) sensitive_query_fragments
           then key @ ''='' @ stars else component)"

definition mask_url_parameters :: "string \<Rightarrow> string" where
  "mask_url_parameters v =
     (if v = [] then [] else join ''&'' (map mask_parameter (split_on (CHR ''&'') v)))"

definition mask_url :: "(string \<Rightarrow> bool) \<Rightarrow> string \<Rightarrow> string" where
  "mask_url brackets_ok v =
     (case urlsplit brackets_ok v of
        None \<Rightarrow> v
      | Some (scheme, _) \<Rightarrow>
          let rest = snd (url_scheme (url_clean v));
              netloc = url_netloc rest
          in if scheme \<notin> {''http'', ''https''} \<or> netloc = [] then v
             else
               (let masked_netloc = (case rpartition_at (CHR ''@'') netloc of (_, userinfo, host) \<Rightarrow>
                      if userinfo then stars @ ''@'' @ host else netloc);
                    tail = drop (2 + length netloc) rest
                in case partition_at (CHR ''#'') tail of (front, _, fragment) \<Rightarrow>
                   case partition_at (CHR ''?'') front of (path, _, query) \<Rightarrow>
                     let q = mask_url_parameters query; f = mask_url_parameters fragment;
                         p = (if path \<noteq> [] \<and> hd path \<noteq> CHR ''/'' then CHR ''/'' # path else path)
                     in scheme @ ''://'' @ masked_netloc @ p @ (if q = [] then [] else ''?'' @ q)
                        @ (if f = [] then [] else ''#'' @ f)))"

section \<open>Command lines\<close>

fun mask_args :: "(string \<Rightarrow> bool) \<Rightarrow> bool \<Rightarrow> string list \<Rightarrow> string list" where
  "mask_args brackets_ok redact_next [] = []"
| "mask_args brackets_ok redact_next (arg # args) =
     (if redact_next then stars # mask_args brackets_ok False args
      else if arg \<in> set sensitive_value_flags then arg # mask_args brackets_ok True args
      else (case List.find (\<lambda>p. starts_with p arg) sensitive_inline_prefixes of
              Some p \<Rightarrow> (p @ stars) # mask_args brackets_ok False args
            | None \<Rightarrow>
                (case List.find (\<lambda>p. starts_with p arg \<and> length p < length arg \<and> \<not> starts_with ''--'' arg)
                        sensitive_short_prefixes of
                   Some p \<Rightarrow> (p @ stars) # mask_args brackets_ok False args
                 | None \<Rightarrow> mask_url brackets_ok arg # mask_args brackets_ok False args)))"

definition mask_command_line :: "(string \<Rightarrow> bool) \<Rightarrow> string list \<Rightarrow> string list" where
  "mask_command_line brackets_ok args = mask_args brackets_ok False args"

section \<open>Substitution\<close>

text \<open>\<open>s.replace(old, new)\<close> for a text that is not empty.\<close>

function replace_all :: "string \<Rightarrow> string \<Rightarrow> string \<Rightarrow> string" where
  "replace_all old new s =
     (if old = [] \<or> s = [] then s
      else if starts_with old s then new @ replace_all old new (drop (length old) s)
      else hd s # replace_all old new (tl s))"
  by pat_completeness auto
termination by (relation "measure (\<lambda>(old, new, s). length s)") auto

declare replace_all.simps [simp del]

text \<open>
  \<open>pattern.sub(repl, s)\<close>: the matcher sees what is in front (the last character) and the rest, and
  gives the length of its match; an empty match does not occur.
\<close>

type_synonym matcher = "char option \<Rightarrow> string \<Rightarrow> nat option"

function sub_matches :: "matcher \<Rightarrow> (string \<Rightarrow> string) \<Rightarrow> char option \<Rightarrow> string \<Rightarrow> string" where
  "sub_matches m repl prev s =
     (if s = [] then []
      else (case m prev s of
              Some (Suc n) \<Rightarrow>
                repl (take (Suc n) s) @ sub_matches m repl (Some (last (take (Suc n) s))) (drop (Suc n) s)
            | _ \<Rightarrow> hd s # sub_matches m repl (Some (hd s)) (tl s)))"
  by pat_completeness auto
termination by (relation "measure (\<lambda>(m, repl, prev, s). length s)") auto

declare sub_matches.simps [simp del]

text \<open>A greedy run of a class of characters after a prefix: at least one.\<close>

definition run_after :: "nat \<Rightarrow> (char \<Rightarrow> bool) \<Rightarrow> string \<Rightarrow> nat option" where
  "run_after n p s = (let k = length (takeWhile p (drop n s)) in if k = 0 then None else Some (n + k))"

definition starts_with_ci :: "string \<Rightarrow> string \<Rightarrow> bool" where
  "starts_with_ci p s \<longleftrightarrow> starts_with p (lower s)"

definition match_url :: matcher where
  "match_url prev s =
     (let n = (if starts_with_ci ''https://'' s then 8 else if starts_with_ci ''http://'' s then 7 else 0)
      in if n = 0 then None
         else run_after n (\<lambda>c. \<not> is_space c \<and> c \<notin> {CHR ''<'', CHR ''>'', CHR 0x27, CHR 0x22}) s)"

definition match_rclone_env :: matcher where
  "match_rclone_env prev s =
     (if starts_with ''RCLONE_CONFIG_'' s
      then run_after 14 (\<lambda>c. (65 \<le> code c \<and> code c \<le> 90) \<or> is_digit c \<or> c = CHR ''_'') s
      else None)"

section \<open>Output and logs\<close>

text \<open>
  The values are replaced longest first. Python orders values of one length as the set gives them;
  here the order of the list stands for it.
\<close>

definition mask_values :: "string list \<Rightarrow> string \<Rightarrow> string" where
  "mask_values sensitive_values text0 =
     fold (\<lambda>v t. replace_all v stars t)
       (sort_key (\<lambda>v. - int (length v)) (remdups (filter (\<lambda>v. v \<noteq> []) sensitive_values))) text0"

definition mask_output_text :: "string list \<Rightarrow> bool \<Rightarrow> bool \<Rightarrow> string \<Rightarrow> string" where
  "mask_output_text sensitive_values mask_rclone_env_names mask_all_urls text0 =
     (let masked = mask_values sensitive_values text0;
          masked1 = (if mask_all_urls then sub_matches match_url (\<lambda>_. stars) None masked else masked)
      in if mask_rclone_env_names then sub_matches match_rclone_env (\<lambda>_. stars) None masked1 else masked1)"

text \<open>The word characters of \<open>re\<close> on this range.\<close>

definition is_word :: "char \<Rightarrow> bool" where
  "is_word c \<longleftrightarrow> is_alpha c \<or> is_digit c \<or> c = CHR ''_'' \<or>
     code c \<in> {170, 178, 179, 181, 185, 186, 188, 189, 190} \<or>
     (192 \<le> code c \<and> code c \<noteq> 215 \<and> code c \<noteq> 247)"

definition assignment_keywords :: "string list" where
  "assignment_keywords =
     [''password'', ''passwd'', ''passphrase'', ''token'', ''secret'', ''apikey'', ''api_key'', ''api-key'',
      ''authorization'', ''cookie'']"

text \<open>The value of an assignment: a quoted text, or a run without white space, commas, semicolons.\<close>

definition quoted_length :: "char \<Rightarrow> string \<Rightarrow> nat option" where
  "quoted_length q s =
     (case s of c # r \<Rightarrow> if c = q \<and> q \<in> set r then Some (length (takeWhile (\<lambda>x. x \<noteq> q) r) + 2) else None
      | [] \<Rightarrow> None)"

definition assigned_length :: "string \<Rightarrow> nat option" where
  "assigned_length s =
     (case quoted_length (CHR 0x22) s of
        Some n \<Rightarrow> Some n
      | None \<Rightarrow> (case quoted_length (CHR 0x27) s of
                   Some n \<Rightarrow> Some n
                 | None \<Rightarrow> run_after 0 (\<lambda>c. \<not> is_space c \<and> c \<noteq> CHR '','' \<and> c \<noteq> CHR '';'') s))"

text \<open>The length of keyword, separator and value, and of what stays in front of the value.\<close>

definition assignment_parts :: "char option \<Rightarrow> string \<Rightarrow> (nat \<times> nat) option" where
  "assignment_parts prev s =
     (if (case prev of None \<Rightarrow> False | Some c \<Rightarrow> is_word c) then None
      else (case List.find (\<lambda>k. starts_with_ci k s \<and>
                   (case drop (length k) s of [] \<Rightarrow> True | c # _ \<Rightarrow> \<not> is_word c)) assignment_keywords of
              None \<Rightarrow> None
            | Some k \<Rightarrow>
                (let n = length k + length (takeWhile is_space (drop (length k) s))
                 in case drop n s of
                      [] \<Rightarrow> None
                    | c # r \<Rightarrow>
                        if c \<noteq> CHR '':'' \<and> c \<noteq> CHR ''='' then None
                        else (let kept = n + 1 + length (takeWhile is_space r)
                              in map_option (\<lambda>l. (kept, kept + l)) (assigned_length (drop kept s))))))"

definition secret_flags :: "string list" where
  "secret_flags = [''--password'', ''--video-password'', ''--cookies'', ''--cookies-from-browser'',
     ''--proxy'', ''--add-header'', ''--add-headers'']"

definition separator_length :: "string \<Rightarrow> nat" where
  "separator_length s = (case s of c # _ \<Rightarrow> if c = CHR ''='' then 1 else length (takeWhile is_space s) | [] \<Rightarrow> 0)"

definition flag_parts :: "char option \<Rightarrow> string \<Rightarrow> (nat \<times> nat) option" where
  "flag_parts prev s =
     (case List.find (\<lambda>f. starts_with_ci f s \<and> 0 < separator_length (drop (length f) s)) secret_flags of
        None \<Rightarrow> None
      | Some f \<Rightarrow>
          (let kept = length f + separator_length (drop (length f) s)
           in map_option (\<lambda>l. (kept, l)) (run_after kept (\<lambda>c. \<not> is_space c) s)))"

definition keep_then_stars :: "(char option \<Rightarrow> string \<Rightarrow> (nat \<times> nat) option) \<Rightarrow> char option \<Rightarrow> string \<Rightarrow> string" where
  "keep_then_stars parts prev matched =
     (case parts prev matched of None \<Rightarrow> stars | Some (kept, _) \<Rightarrow> take kept matched @ stars)"

definition mask_log_text :: "(string \<Rightarrow> bool) \<Rightarrow> string \<Rightarrow> string" where
  "mask_log_text brackets_ok text0 =
     (let masked = sub_matches match_rclone_env (\<lambda>_. stars) None text0;
          masked1 = sub_matches match_url (mask_url brackets_ok) None masked;
          masked2 = sub_matches (\<lambda>prev s. map_option snd (assignment_parts prev s))
                      (keep_then_stars assignment_parts None) None masked1
      in sub_matches (\<lambda>prev s. map_option snd (flag_parts prev s))
           (keep_then_stars flag_parts None) None masked2)"

section \<open>Processes\<close>

record process_result =
  ps_returncode :: int
  ps_stderr_text :: string
  ps_stderr_tail :: string
  ps_terminated_by :: "string option"

text \<open>The last bytes of the error output; every character is one byte of UTF-8 below 128, else two.\<close>

definition utf8_length :: "string \<Rightarrow> nat" where
  "utf8_length s = sum_list (map (\<lambda>c. if code c < 128 then 1 else 2) s)"

fun drop_to_bytes :: "nat \<Rightarrow> string \<Rightarrow> string" where
  "drop_to_bytes n [] = []"
| "drop_to_bytes n (c # s) = (if utf8_length (c # s) \<le> n then c # s else drop_to_bytes n s)"

definition tail_bytes :: "string \<Rightarrow> nat \<Rightarrow> string" where
  "tail_bytes s max_bytes = drop_to_bytes max_bytes s"

text \<open>\<open>FFprobeRunner.probe\<close>: the arguments, and the reading of what came back.\<close>

record probe_result =
  pb_returncode :: int
  pb_metadata :: "(string \<times> json) list option"
  pb_stderr_tail :: string
  pb_terminated_by :: "string option"

definition probe_args :: "string \<Rightarrow> string list" where
  "probe_args file_path = [''-v'', ''error'', ''-show_format'', ''-show_streams'', ''-of'', ''json'', ''--'', file_path]"

definition probe :: "(string \<Rightarrow> json option) \<Rightarrow> (string list \<Rightarrow> string list \<times> process_result) \<Rightarrow> string
    \<Rightarrow> probe_result" where
  "probe json_loads run file_path =
     (case run (probe_args file_path) of (lines, r) \<Rightarrow>
        \<lparr>pb_returncode = ps_returncode r,
         pb_metadata = (if ps_returncode r = 0
            then (case json_loads (join [CHR 0x0A] lines) of Some (JObj d) \<Rightarrow> Some d | _ \<Rightarrow> None)
            else None),
         pb_stderr_tail = ps_stderr_tail r, pb_terminated_by = ps_terminated_by r\<rparr>)"

end
