(* ===== verification/Runner_Theorems.thy ===== *)
theory Runner_Theorems
  imports Runner
begin

text \<open>
  Masking hides: no sensitive value is left in the output of a child, and no secret argument in a
  command line that is shown. The relation \<open>starred\<close> says how masking changes a text: pieces of it
  become stars, the rest stays.
\<close>

inductive starred :: "string \<Rightarrow> string \<Rightarrow> bool" where
  starred_Nil: "starred [] []"
| starred_keep: "starred s t \<Longrightarrow> starred (c # s) (c # t)"
| starred_hide: "starred s t \<Longrightarrow> starred (x @ s) (stars @ t)"

inductive_cases starred_ConsE: "starred s (c # t)"

lemma starred_refl: "starred s s"
  by (induction s) (auto intro: starred.intros)

lemma starred_prefix:
  assumes "starred s (v @ t)" "CHR ''*'' \<notin> set v"
  shows "\<exists>s'. s = v @ s' \<and> starred s' t"
  using assms
proof (induction v arbitrary: s)
  case (Cons c v)
  from Cons.prems(1) obtain s1 where "s = c # s1" "starred s1 (v @ t)"
  proof (cases rule: starred.cases)
    case (starred_hide s2 t2 x)
    then have "c = CHR ''*''" by (auto simp: stars_def)
    with Cons.prems(2) show ?thesis by simp
  qed auto
  with Cons show ?case by auto
qed simp

lemma starred_contains:
  assumes "starred s t" "contains v t" "CHR ''*'' \<notin> set v" "v \<noteq> []"
  shows "contains v s"
proof -
  obtain a b where "t = a @ v @ b" using assms(2) by (auto simp: contains_iff)
  with assms(1) show ?thesis
  proof (induction arbitrary: a rule: starred.induct)
    case starred_Nil
    with assms(4) show ?case by simp
  next
    case (starred_keep s t c)
    show ?case
    proof (cases a)
      case Nil
      with starred_keep(1,3) have "starred (c # s) (v @ b)" by (metis append_Nil starred.starred_keep)
      from starred_prefix[OF this assms(3)] show ?thesis by (metis append_Nil contains_iff)
    next
      case (Cons y a')
      with starred_keep have "contains v s" by auto
      then show ?thesis by simp
    qed
  next
    case (starred_hide s t x)
    show ?case
    proof (cases "length stars \<le> length a")
      case True
      from starred_hide(3) have "t = drop (length stars) (a @ v @ b)" by (metis append_eq_conv_conj)
      then have "t = drop (length stars) a @ v @ b" using True by simp
      with starred_hide have "contains v s" by blast
      then show ?thesis unfolding contains_iff by (metis append.assoc)
    next
      case False
      then have "(stars @ t) ! length a = CHR ''*''"
        by (simp add: nth_append) (simp add: stars_def nth_Cons split: nat.split)
      moreover have "(a @ v @ b) ! length a = hd v" using assms(4) by (simp add: nth_append hd_conv_nth)
      ultimately have "hd v = CHR ''*''" using starred_hide(3) by simp
      with assms(3,4) show ?thesis by (metis hd_in_set)
    qed
  qed
qed

lemma starred_trans_contains:
  "starred s t \<Longrightarrow> \<not> contains v s \<Longrightarrow> CHR ''*'' \<notin> set v \<Longrightarrow> v \<noteq> [] \<Longrightarrow> \<not> contains v t"
  using starred_contains by blast

section \<open>Substitutions star\<close>

lemma replace_all_Nil [simp]: "replace_all v new [] = []"
  by (simp add: replace_all.simps)

lemma replace_all_Cons:
  "replace_all [] new s = s"
  "v \<noteq> [] \<Longrightarrow> replace_all v new (c # r) =
     (if starts_with v (c # r) then new @ replace_all v new (drop (length v) (c # r))
      else c # replace_all v new r)"
  by (simp_all add: replace_all.simps[of "[]" new s] replace_all.simps[of v new "c # r"])

lemma sub_matches_Nil [simp]: "sub_matches m f prev [] = []"
  by (simp add: sub_matches.simps)

lemma sub_matches_Cons:
  "sub_matches m f prev (c # r) =
     (case m prev (c # r) of
        Some (Suc n) \<Rightarrow>
          f (take (Suc n) (c # r)) @ sub_matches m f (Some (last (take (Suc n) (c # r)))) (drop (Suc n) (c # r))
      | _ \<Rightarrow> c # sub_matches m f (Some c) r)"
  unfolding sub_matches.simps[of m f prev "c # r"] by (simp only: list.sel list.simps if_False)

lemma starred_replace_all: "starred s (replace_all v stars s)"
proof (induction s rule: length_induct)
  case (1 s)
  show ?case
  proof (cases "v = [] \<or> s = []")
    case True
    then show ?thesis by (auto simp: replace_all_Cons starred_refl)
  next
    case False
    show ?thesis
    proof (cases "starts_with v s")
      case True
      have "length (drop (length v) s) < length s" using False by simp
      with 1 have "starred (drop (length v) s) (replace_all v stars (drop (length v) s))" by blast
      then have "starred (take (length v) s @ drop (length v) s)
          (stars @ replace_all v stars (drop (length v) s))" by (rule starred_hide)
      then show ?thesis using False True by (simp add: replace_all.simps[of v stars s])
    next
      case no: False
      obtain c r where s: "s = c # r" using False by (cases s) auto
      with 1 have "starred r (replace_all v stars r)" by simp
      then show ?thesis using False no by (simp add: replace_all_Cons s starred_keep)
    qed
  qed
qed

lemma contains_after_stars:
  assumes "contains v (stars @ t)" "CHR ''*'' \<notin> set v" "v \<noteq> []"
  shows "contains v t"
proof -
  obtain a b where ab: "stars @ t = a @ v @ b" using assms(1) by (auto simp: contains_iff)
  have "length stars \<le> length a"
  proof (rule ccontr)
    assume "\<not> length stars \<le> length a"
    then have "(stars @ t) ! length a = CHR ''*''"
      by (simp add: nth_append) (simp add: stars_def nth_Cons split: nat.split)
    moreover have "(a @ v @ b) ! length a = hd v" using assms(3) by (simp add: nth_append hd_conv_nth)
    ultimately show False using ab assms(2,3) by (metis hd_in_set)
  qed
  moreover from ab have "t = drop (length stars) (a @ v @ b)" by (metis append_eq_conv_conj)
  ultimately have "t = drop (length stars) a @ v @ b" by simp
  then show ?thesis unfolding contains_iff by blast
qed

lemma replace_all_hides:
  assumes "v \<noteq> []" "CHR ''*'' \<notin> set v"
  shows "\<not> contains v (replace_all v stars s)"
proof (induction s rule: length_induct)
  case (1 s)
  show ?case
  proof (cases s)
    case Nil
    then show ?thesis using assms(1) by simp
  next
    case (Cons c r)
    show ?thesis
    proof (cases "starts_with v s")
      case True
      have "length (drop (length v) s) < length s" using assms(1) Cons by simp
      with 1 have "\<not> contains v (replace_all v stars (drop (length v) s))" by blast
      then show ?thesis
        using contains_after_stars[OF _ assms(2,1)] True assms(1) Cons
        by (auto simp: replace_all_Cons)
    next
      case False
      have "\<not> starts_with v (c # replace_all v stars r)"
      proof
        assume "starts_with v (c # replace_all v stars r)"
        then obtain t where t: "c # replace_all v stars r = v @ t" by (auto simp: starts_with_iff)
        have "starred (c # r) (v @ t)" using starred_keep[OF starred_replace_all[of r v], of c] t by simp
        from starred_prefix[OF this assms(2)] False Cons show False by (auto simp: starts_with_iff)
      qed
      moreover have "\<not> contains v (replace_all v stars r)" using 1 Cons by simp
      ultimately show ?thesis using False Cons assms(1) by (simp add: replace_all_Cons)
    qed
  qed
qed

lemma starred_sub_matches: "starred s (sub_matches m (\<lambda>_. stars) prev s)"
proof (induction s arbitrary: prev rule: length_induct)
  case (1 s)
  show ?case
  proof (cases s)
    case Nil
    then show ?thesis by (simp add: starred_Nil)
  next
    case (Cons c r)
    show ?thesis
    proof (cases "\<exists>n. m prev s = Some (Suc n)")
      case True
      then obtain n where n: "m prev s = Some (Suc n)" by blast
      have "length (drop (Suc n) s) < length s" using Cons by simp
      with 1 have "starred (drop (Suc n) s) (sub_matches m (\<lambda>_. stars) p (drop (Suc n) s))" for p by blast
      from starred_hide[OF this, of "take (Suc n) s"] show ?thesis
        using n Cons by (simp add: sub_matches_Cons)
    next
      case False
      then have "m prev s = None \<or> m prev s = Some 0" by (metis not0_implies_Suc not_None_eq)
      moreover have "starred r (sub_matches m (\<lambda>_. stars) (Some c) r)" using 1 Cons by simp
      ultimately show ?thesis
        using Cons by (auto simp: sub_matches_Cons intro: starred_keep)
    qed
  qed
qed

section \<open>Nothing sensitive is left\<close>

lemma fold_replace_keeps:
  assumes "\<not> contains v s" "v \<noteq> []" "CHR ''*'' \<notin> set v"
  shows "\<not> contains v (fold (\<lambda>w t. replace_all w stars t) ws s)"
  using assms(1)
proof (induction ws arbitrary: s)
  case (Cons w ws)
  have "\<not> contains v (replace_all w stars s)"
    by (rule starred_trans_contains[OF starred_replace_all Cons.prems assms(3,2)])
  with Cons.IH show ?case by simp
qed simp

lemma fold_replace_hides:
  assumes "v \<in> set ws" "v \<noteq> []" "CHR ''*'' \<notin> set v"
  shows "\<not> contains v (fold (\<lambda>w t. replace_all w stars t) ws s)"
  using assms(1)
proof (induction ws arbitrary: s)
  case (Cons w ws)
  show ?case
  proof (cases "v = w")
    case True
    with fold_replace_keeps[OF replace_all_hides[OF assms(2,3)] assms(2,3)] show ?thesis by simp
  qed (use Cons in auto)
qed simp

text \<open>
  Claim C40: whatever a child process prints, no sensitive value without a star is left in the text that is
  kept, logged or interpreted, in any combination of the masking options; and nothing that was not in
  the original text appears in it other than stars.
\<close>

theorem mask_output_text_hides:
  assumes "v \<in> set sensitive_values" "v \<noteq> []" "CHR ''*'' \<notin> set v"
  shows "\<not> contains v (mask_output_text sensitive_values rclone urls s) \<and>
    (\<forall>w. w \<noteq> [] \<and> CHR ''*'' \<notin> set w \<and> contains w (mask_output_text sensitive_values rclone urls s) \<longrightarrow>
       contains w s)"
proof -
  let ?vs = "sort_key (\<lambda>v. - int (length v)) (remdups (filter (\<lambda>v. v \<noteq> []) sensitive_values))"
  have "v \<in> set ?vs" using assms(1,2) by simp
  from fold_replace_hides[OF this assms(2,3)]
  have m: "\<not> contains v (mask_values sensitive_values s)" by (simp add: mask_values_def)
  have sub: "\<not> contains w (sub_matches m (\<lambda>_. stars) None t)"
    if "\<not> contains w t" "w \<noteq> []" "CHR ''*'' \<notin> set w" for w m t
    by (rule starred_trans_contains[OF starred_sub_matches that(1,3,2)])
  have keep: "\<not> contains w (mask_output_text sensitive_values rclone urls s)"
    if w: "\<not> contains w (mask_values sensitive_values s)" "w \<noteq> []" "CHR ''*'' \<notin> set w" for w
    using sub[OF w] sub[OF sub[OF w] w(2,3)] w(1) by (simp add: mask_output_text_def Let_def)
  have "contains w s" if "w \<noteq> []" "CHR ''*'' \<notin> set w"
      "contains w (mask_output_text sensitive_values rclone urls s)" for w
  proof (rule ccontr)
    assume "\<not> contains w s"
    then have "\<not> contains w (mask_values sensitive_values s)"
      unfolding mask_values_def by (rule fold_replace_keeps[OF _ that(1,2)])
    from keep[OF this that(1,2)] that(3) show False by simp
  qed
  with keep[OF m assms(2,3)] show ?thesis by blast
qed

theorem mask_output_text_hides_witness:
  "\<not> contains ''secret'' (mask_output_text [''secret'', ''sec''] True True ''a secretsecret https://secret/b'')"
  using mask_output_text_hides[of "''secret''" "[''secret'', ''sec'']" True True
      "''a secretsecret https://secret/b''"] by simp

end
