(* ===== verification/Downloader.thy ===== *)
theory Downloader
  imports Runner Options
begin

text \<open>
  What Sluicery reads from yt-dlp and gives to it: \<open>src/sluicery/downloader/errors.py\<close> (the
  classification of error output), \<open>progress.py\<close> (progress lines), \<open>ytdlp.py\<close> (the framing of standard
  output), and the cookies of a playlist in \<open>core/cookies.py\<close>. Parameters: the JSON parser, the process
  itself, the temporary file of a cookie. JSON's non-standard \<open>Infinity\<close> and \<open>NaN\<close> are not values of
  the model; a numeric text may still be infinite.
\<close>

section \<open>Classification of errors\<close>

datatype classification = CL_Ok | CL_Failed | CL_Unavailable | CL_Blocked

primrec classification_value :: "classification \<Rightarrow> string" where
  "classification_value CL_Ok = ''ok''"
| "classification_value CL_Failed = ''failed''"
| "classification_value CL_Unavailable = ''unavailable''"
| "classification_value CL_Blocked = ''blocked''"

text \<open>
  A pattern is an alternation of sequences of texts, optional texts and \<open>.?\<close>, which is any character but
  a line break or none.
\<close>

datatype pattern_item = Lit string | Opt string | OptAny

fun match_items :: "pattern_item list \<Rightarrow> string \<Rightarrow> bool" where
  "match_items [] s \<longleftrightarrow> True"
| "match_items (Lit p # r) s \<longleftrightarrow> starts_with (lower p) s \<and> match_items r (drop (length p) s)"
| "match_items (Opt p # r) s \<longleftrightarrow>
     match_items r s \<or> (starts_with (lower p) s \<and> match_items r (drop (length p) s))"
| "match_items (OptAny # r) s \<longleftrightarrow>
     match_items r s \<or> (s \<noteq> [] \<and> hd s \<noteq> CHR 0x0A \<and> match_items r (tl s))"

fun search_items :: "pattern_item list \<Rightarrow> string \<Rightarrow> bool" where
  "search_items p [] \<longleftrightarrow> match_items p []"
| "search_items p (c # s) \<longleftrightarrow> match_items p (c # s) \<or> search_items p s"

definition download_error_rules :: "(pattern_item list list \<times> classification \<times> string) list" where
  "download_error_rules =
    [([[Lit ''requested format is not available'']], CL_Unavailable, ''format_unavailable''),
     ([[Lit ''video '', Opt ''is '', Lit ''unavailable'']], CL_Unavailable, ''video_unavailable''),
     ([[Lit ''has been removed'']], CL_Unavailable, ''video_removed''),
     ([[Lit ''account associated with this video has been terminated'']], CL_Unavailable, ''account_terminated''),
     ([[Lit ''private video'']], CL_Unavailable, ''private_video''),
     ([[Lit ''members-only''], [Lit ''join this channel to get access'']], CL_Unavailable, ''members_only''),
     ([[Lit ''not available in your country''],
       [Lit ''blocked it '', Opt ''on copyright grounds '', Lit ''in your country'']],
      CL_Unavailable, ''geo_restricted''),
     ([[Lit ''premieres in''], [Lit ''this live event will begin in''], [Lit ''scheduled for'']],
      CL_Unavailable, ''not_yet_available''),
     ([[Lit ''HTTP Error 429''], [Lit ''Too Many Requests'']], CL_Blocked, ''rate_limited''),
     ([[Lit ''Temporary failure in name resolution''], [Lit ''Name or service not known''],
       [Lit ''Failed to resolve''], [Lit ''Connection refused''], [Lit ''Network is unreachable''],
       [Lit ''Network is down'']], CL_Blocked, ''network_unreachable''),
     ([[Lit ''sign in to confirm you'', OptAny, Lit ''re not a bot''],
       [Lit ''confirm you'', OptAny, Lit ''re not a bot'']], CL_Blocked, ''bot_check''),
     ([[Lit ''HTTP Error 403''], [Lit ''403 Forbidden''], [Lit ''HTTP status'', Opt '' code'', Lit '' 403'']],
      CL_Blocked, ''http_403'')]"

definition classify_download_stderr :: "string \<Rightarrow> classification \<times> string" where
  "classify_download_stderr stderr =
     (case List.find (\<lambda>(pattern, _, _). list_ex (\<lambda>p. search_items p (lower stderr)) pattern)
             download_error_rules of
        Some (_, classification, reason) \<Rightarrow> (classification, reason)
      | None \<Rightarrow> (CL_Failed, ''unknown_error''))"

definition classify_download :: "int \<Rightarrow> string \<Rightarrow> classification \<times> string" where
  "classify_download returncode stderr =
     (if returncode = 0 then (CL_Ok, ''ok'') else classify_download_stderr stderr)"

section \<open>Progress lines\<close>

definition max_line_len :: nat where "max_line_len = 1000000"

text \<open>A float that is not finite is \<open>None\<close>.\<close>

type_synonym py_float = "rat option"

record progress_event =
  pv_status :: string
  pv_downloaded_bytes :: "int option"
  pv_total_bytes :: "int option"
  pv_speed :: "py_float option"
  pv_eta :: "int option"
  pv_fragment_index :: "int option"
  pv_fragment_count :: "int option"
  pv_filename :: "string option"
  pv_raw :: "(string \<times> json) list"

definition truncate :: "rat \<Rightarrow> int" where
  "truncate x = (if 0 \<le> x then \<lfloor>x\<rfloor> else \<lceil>x\<rceil>)"

definition is_nan_text :: "string \<Rightarrow> bool" where
  "is_nan_text s \<longleftrightarrow> lower (snd (split_sign (strip s))) = ''nan''"

definition missing_text :: "string \<Rightarrow> bool" where
  "missing_text s \<longleftrightarrow> strip s = [] \<or> lower (strip s) = ''na''"

text \<open>\<open>int(float(s))\<close> raises \<open>ValueError\<close> for what is not a number and \<open>OverflowError\<close> for infinity.\<close>

definition as_int :: "json \<Rightarrow> exn + int option" where
  "as_int v =
     (case v of
        JInt i \<Rightarrow> Inr (Some i)
      | JFloat x \<Rightarrow> Inr (Some (truncate x))
      | JStr s \<Rightarrow>
          if missing_text s then Inr None
          else (case py_float s of
                  None \<Rightarrow> Inr None
                | Some None \<Rightarrow> if is_nan_text s then Inr None else Inl OverflowError
                | Some (Some x) \<Rightarrow> Inr (Some (truncate x)))
      | _ \<Rightarrow> Inr None)"

definition as_float :: "json \<Rightarrow> exn + py_float option" where
  "as_float v =
     (case v of
        JInt i \<Rightarrow> if double_bound \<le> \<bar>of_int i\<bar> then Inl OverflowError else Inr (Some (Some (of_int i)))
      | JFloat x \<Rightarrow> Inr (Some (Some x))
      | JStr s \<Rightarrow> if missing_text s then Inr None else Inr (py_float s)
      | _ \<Rightarrow> Inr None)"

definition as_str :: "json \<Rightarrow> string option" where
  "as_str v = (case v of JStr s \<Rightarrow> Some s | _ \<Rightarrow> None)"

text \<open>Python's truth value.\<close>

fun json_truthy :: "json \<Rightarrow> bool" where
  "json_truthy JNull = False"
| "json_truthy (JBool b) = b"
| "json_truthy (JInt i) = (i \<noteq> 0)"
| "json_truthy (JFloat x) = (x \<noteq> 0)"
| "json_truthy (JStr s) = (s \<noteq> [])"
| "json_truthy (JArr vs) = (vs \<noteq> [])"
| "json_truthy (JObj d) = (d \<noteq> [])"

definition progress_event_of :: "string \<Rightarrow> (string \<times> json) list \<Rightarrow> exn + progress_event" where
  "progress_event_of status payload =
     (let total = (if json_truthy (jget payload ''total_bytes'') then jget payload ''total_bytes''
                   else jget payload ''total_bytes_estimate'')
      in case as_int (jget payload ''downloaded_bytes'') of Inl e \<Rightarrow> Inl e | Inr downloaded \<Rightarrow>
         (case as_int total of Inl e \<Rightarrow> Inl e | Inr total_bytes \<Rightarrow>
         (case as_float (jget payload ''speed'') of Inl e \<Rightarrow> Inl e | Inr speed \<Rightarrow>
         (case as_int (jget payload ''eta'') of Inl e \<Rightarrow> Inl e | Inr eta \<Rightarrow>
         (case as_int (jget payload ''fragment_index'') of Inl e \<Rightarrow> Inl e | Inr index \<Rightarrow>
         (case as_int (jget payload ''fragment_count'') of Inl e \<Rightarrow> Inl e | Inr count \<Rightarrow>
            Inr \<lparr>pv_status = status, pv_downloaded_bytes = downloaded, pv_total_bytes = total_bytes,
                 pv_speed = speed, pv_eta = eta, pv_fragment_index = index, pv_fragment_count = count,
                 pv_filename = as_str (jget payload ''filename''), pv_raw = payload\<rparr>))))))"

definition parse_progress_line :: "(string \<Rightarrow> json option) \<Rightarrow> string \<Rightarrow> exn + progress_event option" where
  "parse_progress_line json_loads line =
     (if max_line_len < length line then Inr None
      else (case json_loads line of
              Some (JObj payload) \<Rightarrow>
                (case jget payload ''status'' of
                   JStr (c # s) \<Rightarrow>
                     (case progress_event_of (c # s) payload of Inl e \<Rightarrow> Inl e | Inr ev \<Rightarrow> Inr (Some ev))
                 | _ \<Rightarrow> Inr None)
            | _ \<Rightarrow> Inr None))"

section \<open>The output of yt-dlp\<close>

record ytdlp_output =
  yo_stdout_lines :: "string list"
  yo_progress_events :: "progress_event list"
  yo_result_metadata :: "(string \<times> json) list list"

definition no_output :: ytdlp_output where
  "no_output = \<lparr>yo_stdout_lines = [], yo_progress_events = [], yo_result_metadata = []\<rparr>"

definition read_line :: "(string \<Rightarrow> json option) \<Rightarrow> string \<Rightarrow> ytdlp_output \<Rightarrow> exn + ytdlp_output" where
  "read_line json_loads line out =
     (if starts_with progress_prefix line then
        (case parse_progress_line json_loads (drop (length progress_prefix) line) of
           Inl e \<Rightarrow> Inl e
         | Inr None \<Rightarrow> Inr out
         | Inr (Some ev) \<Rightarrow> Inr (out\<lparr>yo_progress_events := yo_progress_events out @ [ev]\<rparr>))
      else if starts_with print_prefix line then
        Inr (out\<lparr>yo_stdout_lines := yo_stdout_lines out @ [drop (length print_prefix) line]\<rparr>)
      else if starts_with result_prefix line then
        (case json_loads (drop (length result_prefix) line) of
           Some (JObj d) \<Rightarrow> Inr (out\<lparr>yo_result_metadata := yo_result_metadata out @ [d]\<rparr>)
         | _ \<Rightarrow> Inr out)
      else Inr out)"

text \<open>
  The reader is a thread: an exception ends it, what it has read so far stays, the rest of the lines
  is never interpreted.
\<close>

fun read_stdout :: "(string \<Rightarrow> json option) \<Rightarrow> string list \<Rightarrow> ytdlp_output \<Rightarrow> ytdlp_output" where
  "read_stdout json_loads [] out = out"
| "read_stdout json_loads (line # ls) out =
     (case read_line json_loads line out of
        Inl _ \<Rightarrow> out | Inr out' \<Rightarrow> read_stdout json_loads ls out')"

record run_result =
  rr_returncode :: int
  rr_classification :: classification
  rr_reason_code :: string
  rr_stdout_lines :: "string list"
  rr_progress_events :: "progress_event list"
  rr_stderr_tail :: string
  rr_terminated_by :: "string option"
  rr_result_metadata :: "(string \<times> json) list list"

text \<open>A process gives its lines of output and its result for the arguments and the values to hide.\<close>

type_synonym ytdlp_process = "string list \<Rightarrow> string list \<Rightarrow> string list \<times> process_result"

definition ytdlp_run :: "(string \<Rightarrow> json option) \<Rightarrow> ytdlp_process \<Rightarrow> string list \<Rightarrow> string list \<Rightarrow> run_result" where
  "ytdlp_run json_loads process args sensitive_values =
     (case process args sensitive_values of (lines, r) \<Rightarrow>
        let out = read_stdout json_loads (map (mask_output_text sensitive_values False False) lines) no_output
        in case classify_download (ps_returncode r) (ps_stderr_text r) of (cl, reason) \<Rightarrow>
             \<lparr>rr_returncode = ps_returncode r, rr_classification = cl, rr_reason_code = reason,
              rr_stdout_lines = yo_stdout_lines out, rr_progress_events = yo_progress_events out,
              rr_stderr_tail = ps_stderr_tail r, rr_terminated_by = ps_terminated_by r,
              rr_result_metadata = yo_result_metadata out\<rparr>)"

section \<open>Cookies\<close>

definition max_cookie_bytes :: nat where "max_cookie_bytes = 2 * 1024 * 1024"

text \<open>\<open>str.splitlines\<close> on this range of characters; a pair of CR and LF does not occur in normalised text.\<close>

definition is_line_break :: "char \<Rightarrow> bool" where
  "is_line_break c \<longleftrightarrow> code c \<in> {10, 11, 12, 13, 28, 29, 30, 133}"

fun splitlines_from :: "string \<Rightarrow> string \<Rightarrow> string list" where
  "splitlines_from acc [] = (if acc = [] then [] else [acc])"
| "splitlines_from acc (c # s) =
     (if is_line_break c then acc # splitlines_from [] s else splitlines_from (acc @ [c]) s)"

definition splitlines :: "string \<Rightarrow> string list" where
  "splitlines s = splitlines_from [] s"

text \<open>\<open>s.split(c, n)\<close>: at most \<open>n\<close> splits.\<close>

fun split_max :: "nat \<Rightarrow> char \<Rightarrow> string \<Rightarrow> string list" where
  "split_max 0 c s = [s]"
| "split_max (Suc n) c s =
     (case partition_at c s of (a, found, b) \<Rightarrow> if found then a # split_max n c b else [a])"

definition cookie_comment :: "string \<Rightarrow> bool" where
  "cookie_comment line \<longleftrightarrow> line = [] \<or> (starts_with ''#'' line \<and> \<not> starts_with ''#HttpOnly_'' line)"

definition tab :: char where "tab = CHR 0x09"

definition cookie_row_ok :: "string \<Rightarrow> bool" where
  "cookie_row_ok line =
     (case split_max 6 tab line of
        [domain, include_subdomains, path, secure, expires, name, _] \<Rightarrow>
          domain \<noteq> [] \<and> include_subdomains \<in> {''TRUE'', ''FALSE''} \<and> starts_with ''/'' path \<and>
          secure \<in> {''TRUE'', ''FALSE''} \<and> py_int expires \<noteq> None \<and> name \<noteq> []
      | _ \<Rightarrow> False)"

text \<open>\<open>decoded\<close> is the text of the bytes as UTF-8 without a byte order mark, or none.\<close>

fun normalize_newlines :: "string \<Rightarrow> string" where
  "normalize_newlines [] = []"
| "normalize_newlines (c # s) =
     (if c = CHR 0x0D then CHR 0x0A # (case s of d # r \<Rightarrow>
            if d = CHR 0x0A then normalize_newlines r else normalize_newlines s | [] \<Rightarrow> [])
      else c # normalize_newlines s)"

definition validate_cookie_bytes :: "nat \<Rightarrow> string option \<Rightarrow> string option" where
  "validate_cookie_bytes byte_count decoded =
     (if byte_count = 0 \<or> max_cookie_bytes < byte_count then None
      else (case decoded of
              None \<Rightarrow> None
            | Some content \<Rightarrow>
                if CHR 0x00 \<in> set content then None
                else (let normalized = normalize_newlines content;
                          rows = filter (\<lambda>l. \<not> cookie_comment l) (splitlines normalized)
                      in if \<not> starts_with ''# Netscape HTTP Cookie File'' normalized then None
                         else if \<not> list_all cookie_row_ok rows \<or> rows = [] then None
                         else Some (rstrip_where (\<lambda>c. c = CHR 0x0A) normalized @ [CHR 0x0A]))))"

definition stored_content :: "json option \<Rightarrow> string option" where
  "stored_content v =
     (case v of
        Some (JObj d) \<Rightarrow> (case jget d ''content'' of JStr (c # s) \<Rightarrow> Some (c # s) | _ \<Rightarrow> None)
      | _ \<Rightarrow> None)"

text \<open>The operations on a playlist; a \<open>CookieConfigurationError\<close> is a \<open>ValueError\<close>.\<close>

definition save_playlist_cookie :: "playlist \<Rightarrow> nat \<Rightarrow> string option \<Rightarrow> bool \<Rightarrow> exn + playlist" where
  "save_playlist_cookie pl byte_count decoded enable_confirmed =
     (if \<not> enable_confirmed then Inl ValueError
      else (case validate_cookie_bytes byte_count decoded of
              None \<Rightarrow> Inl ValueError
            | Some content \<Rightarrow> Inr (pl\<lparr>pl_cookies := Some (JObj [(''format'', JStr ''netscape''),
                                            (''content'', JStr content)]), pl_cookie_enabled := True\<rparr>)))"

definition set_playlist_cookie_enabled :: "playlist \<Rightarrow> bool \<Rightarrow> bool \<Rightarrow> exn + playlist" where
  "set_playlist_cookie_enabled pl enabled enable_confirmed =
     (if enabled \<and> (\<not> enable_confirmed \<or> stored_content (pl_cookies pl) = None) then Inl ValueError
      else Inr (pl\<lparr>pl_cookie_enabled := enabled\<rparr>))"

definition clear_playlist_cookie :: "playlist \<Rightarrow> playlist" where
  "clear_playlist_cookie pl = pl\<lparr>pl_cookie_enabled := False, pl_cookies := None\<rparr>"

record materialized_cookie =
  mc_path :: string
  mc_sensitive_values :: "string list"

definition sensitive_values_of :: "string \<Rightarrow> string \<Rightarrow> string list" where
  "sensitive_values_of content path =
     (let rows = filter (\<lambda>l. \<not> cookie_comment l) (splitlines content);
          secrets = List.map_filter (\<lambda>l. let columns = split_max 6 tab l
            in if length columns = 7 \<and> 4 \<le> length (last columns) then Some (last columns) else None) rows
      in sort_key (\<lambda>v. - int (length v)) (remdups ([path, content] @ rows @ secrets)))"

text \<open>\<open>runtime_path\<close> is the temporary file written for the cookie, or none when that fails.\<close>

definition materialize_cookie :: "string option \<Rightarrow> bool \<Rightarrow> json option \<Rightarrow> exn + materialized_cookie option" where
  "materialize_cookie runtime_path enabled stored =
     (if \<not> enabled then Inr None
      else (case (stored_content stored, runtime_path) of
              (Some content, Some path) \<Rightarrow>
                Inr (Some \<lparr>mc_path = path, mc_sensitive_values = sensitive_values_of content path\<rparr>)
            | _ \<Rightarrow> Inl ValueError))"

definition add_cookie_argument :: "string list \<Rightarrow> materialized_cookie option \<Rightarrow> string list" where
  "add_cookie_argument args cookie =
     (case cookie of
        None \<Rightarrow> args
      | Some c \<Rightarrow> takeWhile (\<lambda>a. a \<noteq> ''--'') args @ [''--cookies'', mc_path c]
                  @ dropWhile (\<lambda>a. a \<noteq> ''--'') args)"

end
