(* ===== verification/Storage_Adapter.thy ===== *)
theory Storage_Adapter
  imports Storage_Base
begin

text \<open>
  The protocol of a storage adapter, \<open>StorageAdapter\<close> in \<open>src/sluicery/storage/base.py\<close>, as a record of
  operations on the state of the outside world: a reader gives a value or raises, a writer also gives the
  next state; a listing is an iterator, which gives some entries and may then raise.
\<close>

record 's storage_adapter =
  ad_free_space :: "'s \<Rightarrow> exn + int option"
  ad_exists :: "'s \<Rightarrow> string \<Rightarrow> exn + bool"
  ad_list_recursive :: "'s \<Rightarrow> string \<Rightarrow> remote_file list \<times> exn option"
  ad_inspect_file :: "'s \<Rightarrow> string \<Rightarrow> exn + remote_file"
  ad_publish :: "string \<Rightarrow> string \<Rightarrow> 's \<Rightarrow> (exn + publish_result) \<times> 's"
  ad_hardlink_from :: "int \<Rightarrow> string \<Rightarrow> string \<Rightarrow> remote_file \<Rightarrow> 's \<Rightarrow> (exn + bool) \<times> 's"
  ad_move :: "string \<Rightarrow> string \<Rightarrow> 's \<Rightarrow> (exn + unit) \<times> 's"
  ad_delete_file :: "string \<Rightarrow> remote_file option \<Rightarrow> string option \<Rightarrow> 's \<Rightarrow> (exn + unit) \<times> 's"

text \<open>\<open>PurePosixPath(p).parent\<close> and whether a path lies under another, by their parts.\<close>

definition path_parent :: "string \<Rightarrow> string" where
  "path_parent p =
     (let parts = butlast (path_parts p)
      in if path_is_absolute p then CHR ''/'' # join ''/'' parts
         else if parts = [] then ''.'' else join ''/'' parts)"

definition is_relative_to :: "string \<Rightarrow> string \<Rightarrow> bool" where
  "is_relative_to p base \<longleftrightarrow> path_is_absolute p = path_is_absolute base \<and>
     take (length (path_parts base)) (path_parts p) = path_parts base"

definition relative_to :: "string \<Rightarrow> string \<Rightarrow> string" where
  "relative_to p base =
     (let parts = drop (length (path_parts base)) (path_parts p)
      in if parts = [] then ''.'' else join ''/'' parts)"

end
