(* ===== verification/Handlers.thy ===== *)
theory Handlers
  imports Worker Downloader Storage_Adapter
begin

text \<open>
  The handlers of the pipeline, \<open>src/sluicery/tasks/handlers/\<close>: discover, download, verify, postprocess,
  publish and index. A handler is a function from its payload and the database to its result or the
  exception it lets through, the progress it reports, the events it emits and the new database. What
  it asks of the file system is in \<open>handler_env\<close>: resolved paths, sizes, whether a file can be removed. The
  processes, the date texts of the standard library and the storage adapters are parameters; messages
  are ASCII stand-ins.
\<close>

record handler_env =
  hv_settings_env :: settings_env
  hv_settings :: setting_table
  hv_other_field :: "string \<Rightarrow> exn + string"
  hv_staging_dir :: string
  hv_env_allow_exec :: bool
  hv_process :: ytdlp_process
  hv_probe_process :: "string list \<Rightarrow> string list \<times> process_result"
  hv_cookie_path :: "string option"
  hv_cookie_removed :: bool
  hv_resolve :: "string \<Rightarrow> string option"
  hv_work_root :: "string \<Rightarrow> string"
  hv_is_file :: "string \<Rightarrow> bool"
  hv_size :: "string \<Rightarrow> int option"
  hv_sha256 :: "string \<Rightarrow> exn + string"
  hv_delete_staging :: bool
  hv_unlink :: "string \<Rightarrow> bool"
  hv_isoformat :: "instant \<Rightarrow> string"
  hv_fromisoformat :: "string \<Rightarrow> instant option"

type_synonym handled = "(exn + task_result) \<times> progress list \<times> event list \<times> db"

definition plain_result :: "task_outcome \<Rightarrow> string option \<Rightarrow> task_result" where
  "plain_result oc message = \<lparr>tr_outcome = oc, tr_message = message, tr_payload_update = None,
     tr_reason_code = None\<rparr>"

definition done_result :: "(string \<times> json) list \<Rightarrow> task_result" where
  "done_result payload_update = \<lparr>tr_outcome = TO_Succeeded, tr_message = None,
     tr_payload_update = Some payload_update, tr_reason_code = None\<rparr>"

definition json_int :: "json \<Rightarrow> int option" where
  "json_int v = (case v of JInt i \<Rightarrow> Some i | JBool b \<Rightarrow> Some (if b then 1 else 0) | _ \<Rightarrow> None)"

definition strict_int :: "json \<Rightarrow> int option" where
  "strict_int v = (case v of JInt i \<Rightarrow> Some i | _ \<Rightarrow> None)"

definition opt_str :: "string option \<Rightarrow> json" where
  "opt_str v = (case v of None \<Rightarrow> JNull | Some s \<Rightarrow> JStr s)"

definition opt_int :: "int option \<Rightarrow> json" where
  "opt_int v = (case v of None \<Rightarrow> JNull | Some i \<Rightarrow> JInt i)"

definition error_limit :: nat where "error_limit = 4000"

text \<open>\<open>except (LookupError, ValueError)\<close>\<close>

definition is_lookup_or_value_error :: "exn \<Rightarrow> bool" where
  "is_lookup_or_value_error e \<longleftrightarrow> is_lookup_error e \<or> is_value_error e"

definition msg_bad_payload :: string where "msg_bad_payload = ''invalid payload''"
definition msg_not_found :: string where "msg_not_found = ''not found''"
definition msg_no_transition :: string where "msg_no_transition = ''the Target cannot be advanced''"
definition msg_cookie :: string where "msg_cookie = ''the cookie of the playlist cannot be read''"
definition msg_no_path :: string where "msg_no_path = ''no path of a generated file''"
definition msg_no_file :: string where "msg_no_file = ''the generated file does not exist''"
definition msg_outside :: string where "msg_outside = ''the generated file is outside of the work directory''"

section \<open>Download\<close>

definition target_graph :: "db \<Rightarrow> int \<Rightarrow> (target \<times> item \<times> playlist_profile \<times> profile \<times> playlist) option" where
  "target_graph d target_id =
     (case tget (db_targets d) target_id of None \<Rightarrow> None | Some tg \<Rightarrow>
     (case tget (db_items d) (tg_item_id tg) of None \<Rightarrow> None | Some it \<Rightarrow>
     (case tget (db_assignments d) (tg_playlist_profile_id tg) of None \<Rightarrow> None | Some pp \<Rightarrow>
     (case tget (db_profiles d) (pp_profile_id pp) of None \<Rightarrow> None | Some pf \<Rightarrow>
     (case tget (db_playlists d) (it_playlist_id it) of None \<Rightarrow> None | Some pl \<Rightarrow>
        Some (tg, it, pp, pf, pl))))))"

definition download_failure_of :: "classification \<Rightarrow> (task_outcome \<times> target_status \<times> bool) option" where
  "download_failure_of c =
     (case c of
        CL_Failed \<Rightarrow> Some (TO_Failed, TG_Failed, True)
      | CL_Unavailable \<Rightarrow> Some (TO_Unavailable, TG_Unavailable, False)
      | CL_Blocked \<Rightarrow> Some (TO_Blocked, TG_Blocked, False)
      | CL_Ok \<Rightarrow> None)"

definition download_failure :: "int \<Rightarrow> classification \<Rightarrow> string \<Rightarrow> string option \<Rightarrow> instant \<Rightarrow> db
    \<Rightarrow> (exn + task_result) \<times> db" where
  "download_failure target_id c message reason_code now d =
     (case download_failure_of c of
        None \<Rightarrow> (Inl KeyError, d)
      | Some (oc, st, increment_retry) \<Rightarrow>
          (let error = (if message \<noteq> [] then last_n error_limit message else classification_value c)
           in case transition_target (db_targets d) target_id st (Some error)
                     (if st = TG_Blocked then Some error else None) increment_retry id now (db_targets d) of
                (Inl e, tgs) \<Rightarrow> (Inl e, d\<lparr>db_targets := tgs\<rparr>)
              | (Inr _, tgs) \<Rightarrow>
                  (Inr \<lparr>tr_outcome = oc, tr_message = Some error, tr_payload_update = None,
                        tr_reason_code = reason_code\<rparr>, d\<lparr>db_targets := tgs\<rparr>)))"

definition format_id_of :: "(string \<times> json) list list \<Rightarrow> string \<Rightarrow> string option" where
  "format_id_of metadata resolved =
     (if metadata = [] then None
      else (case (jget (last metadata) ''file_path'', jget (last metadata) ''format_id'') of
              (JStr p, JStr f) \<Rightarrow> if p = resolved then Some f else None
            | _ \<Rightarrow> None))"

definition download_success :: "handler_env \<Rightarrow> int \<Rightarrow> string \<Rightarrow> string list \<Rightarrow> (string \<times> json) list list
    \<Rightarrow> instant \<Rightarrow> db \<Rightarrow> (exn + task_result) \<times> db" where
  "download_success he target_id work_id output_lines metadata now d =
     (let paths = filter (\<lambda>l. strip l \<noteq> []) output_lines
      in if paths = [] then download_failure target_id CL_Failed msg_no_path None now d
         else (case hv_resolve he (last paths) of
                 None \<Rightarrow> download_failure target_id CL_Failed msg_no_file None now d
               | Some resolved \<Rightarrow>
                   if \<not> hv_is_file he resolved \<or> \<not> is_relative_to resolved (hv_work_root he work_id)
                   then download_failure target_id CL_Failed msg_outside None now d
                   else (case hv_size he resolved of
                           None \<Rightarrow> (Inl FileNotFoundError, d)
                         | Some filesize \<Rightarrow>
                             (Inr (done_result [(''file_path'', JStr resolved), (''filesize'', JInt filesize),
                                (''format_id'', opt_str (format_id_of metadata resolved))]), d))))"

text \<open>A speed that is not finite is shown as null.\<close>

definition progress_report :: "progress_event \<Rightarrow> progress" where
  "progress_report ev =
     (let percent = (case (pv_total_bytes ev, pv_downloaded_bytes ev) of
            (Some t, Some n) \<Rightarrow> if t \<noteq> 0 then JFloat (min 100 (of_int n / of_int t * 100)) else JNull
          | _ \<Rightarrow> JNull)
      in [(''status'', JStr (pv_status ev)), (''percent'', percent),
          (''downloaded_bytes'', opt_int (pv_downloaded_bytes ev)),
          (''total_bytes'', opt_int (pv_total_bytes ev)),
          (''speed'', case pv_speed ev of Some (Some x) \<Rightarrow> JFloat x | _ \<Rightarrow> JNull),
          (''eta'', opt_int (pv_eta ev))])"

text \<open>
  Running yt-dlp inside \<open>materialize_cookie\<close>: \<open>None\<close> when the cookie cannot be written or, at the end,
  its file cannot be removed.
\<close>

definition run_with_cookie :: "handler_env \<Rightarrow> playlist \<Rightarrow> string \<Rightarrow> string list \<Rightarrow> run_result option \<times> progress_event list" where
  "run_with_cookie he pl url args =
     (case materialize_cookie (hv_cookie_path he) (pl_cookie_enabled pl) (pl_cookies pl) of
        Inl _ \<Rightarrow> (None, [])
      | Inr cookie \<Rightarrow>
          (let r = ytdlp_run (se_json_loads (hv_settings_env he)) (hv_process he)
                     (add_cookie_argument args cookie)
                     (url # (case cookie of None \<Rightarrow> [] | Some c \<Rightarrow> mc_sensitive_values c))
           in (if cookie \<noteq> None \<and> \<not> hv_cookie_removed he then None else Some r, rr_progress_events r)))"

definition request_of :: "handler_env \<Rightarrow> int \<Rightarrow> string \<Rightarrow> item \<Rightarrow> playlist_profile \<Rightarrow> profile \<Rightarrow> playlist
    \<Rightarrow> download_request" where
  "request_of he target_id work_id it pp pf pl =
     \<lparr>dq_target_id = Some target_id, dq_source_url = it_source_url it, dq_staging_dir = hv_staging_dir he,
      dq_work_id = work_id, dq_playlist = Some pl, dq_profile = Some pf, dq_subpath = Some (pp_subpath pp),
      dq_kind = None, dq_overrides = no_overrides, dq_env_allow_exec = hv_env_allow_exec he\<rparr>"

definition download_finish :: "handler_env \<Rightarrow> int \<Rightarrow> string \<Rightarrow> run_result option \<Rightarrow> instant \<Rightarrow> db
    \<Rightarrow> (exn + task_result) \<times> db" where
  "download_finish he target_id work_id result now d =
     (case result of
        None \<Rightarrow> download_failure target_id CL_Failed msg_cookie (Some ''cookie_configuration'') now d
      | Some r \<Rightarrow>
          if rr_terminated_by r = Some ''cancel'' then (Inr (plain_result TO_Cancelled None), d)
          else if rr_classification r = CL_Ok
          then download_success he target_id work_id (rr_stdout_lines r) (rr_result_metadata r) now d
          else download_failure target_id (rr_classification r) (rr_stderr_tail r)
                 (Some (rr_reason_code r)) now d)"

definition download_run :: "handler_env \<Rightarrow> instant \<Rightarrow> (string \<times> json) list \<Rightarrow> db \<Rightarrow> handled" where
  "download_run he now payload d =
     (case (json_int (jget payload ''target_id''), jget payload ''work_id'') of
        (Some target_id, JStr (c # w)) \<Rightarrow>
          (case target_graph d target_id of
             None \<Rightarrow> (Inr (plain_result TO_Unavailable (Some msg_not_found)), [], [], d)
           | Some (tg, it, pp, pf, pl) \<Rightarrow>
               (case advance_target target_id TG_Downloading now (db_targets d) of
                  (Inl e, tgs) \<Rightarrow>
                    (if is_lookup_or_value_error e
                     then Inr (plain_result TO_Failed (Some msg_no_transition)) else Inl e,
                     [], [], d\<lparr>db_targets := tgs\<rparr>)
                | (Inr _, tgs) \<Rightarrow>
                    (let d1 = d\<lparr>db_targets := tgs\<rparr>
                     in case build_download_args (hv_settings_env he) (hv_settings he) (hv_other_field he)
                               (request_of he target_id (c # w) it pp pf pl) of
                          Inl e \<Rightarrow> (Inl e, [], [], d1)
                        | Inr built \<Rightarrow>
                            (case run_with_cookie he pl (it_source_url it) (bc_args built) of (result, evs) \<Rightarrow>
                               (case download_finish he target_id (c # w) result now d1 of
                                  (r, d2) \<Rightarrow> (r, map progress_report evs, [], d2))))))
      | _ \<Rightarrow> (Inr (plain_result TO_Failed (Some msg_bad_payload)), [], [], d))"

section \<open>Verify\<close>

definition msg_no_transition_verify :: string where
  "msg_no_transition_verify = ''the Target cannot be advanced to processing''"
definition msg_no_download :: string where "msg_no_download = ''no file_path in the result of the download''"
definition msg_empty_file :: string where "msg_empty_file = ''the file is empty or not a regular file''"
definition msg_probe_failed :: string where "msg_probe_failed = ''ffprobe failed''"
definition msg_probe_json :: string where "msg_probe_json = ''the JSON of ffprobe cannot be parsed''"
definition msg_probe_metadata :: string where "msg_probe_metadata = ''the metadata of ffprobe is not valid''"

text \<open>\<open>round(float(value))\<close>: infinity raises \<open>OverflowError\<close>, what is not a number \<open>ValueError\<close>.\<close>

definition float_of :: "json \<Rightarrow> exn + py_float" where
  "float_of v =
     (case v of
        JInt i \<Rightarrow> if double_bound \<le> \<bar>of_int i\<bar> then Inl OverflowError else Inr (Some (of_int i))
      | JFloat x \<Rightarrow> Inr (Some x)
      | JBool b \<Rightarrow> Inr (Some (if b then 1 else 0))
      | JStr s \<Rightarrow> (case py_float s of
            None \<Rightarrow> Inl ValueError
          | Some None \<Rightarrow> if is_nan_text s \<or> fst (split_sign (strip s)) then Inl ValueError else Inl OverflowError
          | Some (Some x) \<Rightarrow> Inr (Some x))
      | _ \<Rightarrow> Inl TypeError)"

definition duration_seconds :: "json \<Rightarrow> exn + int option" where
  "duration_seconds v =
     (if v = JNull \<or> v = JStr ''N/A'' then Inr None
      else (case float_of v of
              Inl e \<Rightarrow> Inl e
            | Inr None \<Rightarrow> Inl ValueError
            | Inr (Some x) \<Rightarrow> if x < 0 then Inl ValueError else Inr (Some (py_round x))))"

definition first_codec :: "string \<Rightarrow> json list \<Rightarrow> string option" where
  "first_codec kind streams =
     (case List.map_filter (\<lambda>v. case v of
           JObj s \<Rightarrow> if jget s ''codec_type'' = JStr kind then as_str (jget s ''codec_name'') else None
         | _ \<Rightarrow> None) streams of
        [] \<Rightarrow> None | c # _ \<Rightarrow> Some c)"

definition extract_metadata :: "(string \<times> json) list \<Rightarrow> exn + (string \<times> json) list" where
  "extract_metadata metadata =
     (case (jget metadata ''format'', jget metadata ''streams'') of
        (JObj format_data, JArr streams) \<Rightarrow>
          (case duration_seconds (jget format_data ''duration'') of
             Inl e \<Rightarrow> Inl e
           | Inr duration \<Rightarrow> Inr
               [(''container'', opt_str (as_str (jget format_data ''format_name''))),
                (''video_codec'', opt_str (first_codec ''video'' streams)),
                (''audio_codec'', opt_str (first_codec ''audio'' streams)),
                (''duration'', opt_int duration)])
      | _ \<Rightarrow> Inl ValueError)"

definition verify_failed :: "int \<Rightarrow> string \<Rightarrow> instant \<Rightarrow> db \<Rightarrow> (exn + task_result) \<times> db" where
  "verify_failed target_id message now d =
     (let error = last_n error_limit message
      in case transition_target (db_targets d) target_id TG_Failed (Some error) None True id now (db_targets d) of
           (Inl e, tgs) \<Rightarrow> (Inl e, d\<lparr>db_targets := tgs\<rparr>)
         | (Inr _, tgs) \<Rightarrow>
             (Inr \<lparr>tr_outcome = TO_Failed, tr_message = Some error,
                   tr_payload_update = Some [(''verify_error'', JStr error)], tr_reason_code = None\<rparr>,
              d\<lparr>db_targets := tgs\<rparr>))"

definition fail_verify :: "int \<Rightarrow> string \<Rightarrow> instant \<Rightarrow> progress list \<Rightarrow> db \<Rightarrow> handled" where
  "fail_verify target_id message now reports d =
     (case verify_failed target_id message now d of (r, d') \<Rightarrow> (r, reports, [], d'))"

definition verify_probe :: "handler_env \<Rightarrow> int \<Rightarrow> (string \<times> json) list \<Rightarrow> int \<Rightarrow> string \<Rightarrow> instant \<Rightarrow> db \<Rightarrow> handled" where
  "verify_probe he target_id previous filesize file_path now d =
     (let probing = [[(''status'', JStr ''probing''), (''percent'', JFloat 0)]];
          r = probe (se_json_loads (hv_settings_env he)) (hv_probe_process he) file_path
      in if pb_terminated_by r = Some ''cancel'' then (Inr (plain_result TO_Cancelled None), probing, [], d)
         else if pb_returncode r \<noteq> 0
         then fail_verify target_id (if pb_stderr_tail r \<noteq> [] then pb_stderr_tail r else msg_probe_failed)
                now probing d
         else (case pb_metadata r of
                 None \<Rightarrow> fail_verify target_id msg_probe_json now probing d
               | Some metadata \<Rightarrow>
                   (case extract_metadata metadata of
                      Inl e \<Rightarrow>
                        if e = TypeError \<or> is_value_error e
                        then fail_verify target_id msg_probe_metadata now probing d
                        else (Inl e, probing, [], d)
                    | Inr media \<Rightarrow>
                        (Inr (done_result (dict_merge (dict_merge previous media)
                           [(''format_id'', opt_str (as_str (jget previous ''format_id''))),
                            (''filesize'', JInt filesize), (''verified_at'', JStr (hv_isoformat he now))])),
                         probing @ [[(''status'', JStr ''verified''), (''percent'', JFloat 100)]], [], d))))"

text \<open>The payload the task in front has left, with the exceptions of the two reads.\<close>

definition previous_payload :: "(string \<times> json) list \<Rightarrow> task table \<Rightarrow> exn + (string \<times> json) list" where
  "previous_payload payload ts =
     (case execution_task_id payload of Inl e \<Rightarrow> Inl e | Inr tid \<Rightarrow> dependency_payload tid ts)"

definition verify_run :: "handler_env \<Rightarrow> instant \<Rightarrow> (string \<times> json) list \<Rightarrow> db \<Rightarrow> handled" where
  "verify_run he now payload d =
     (case json_int (jget payload ''target_id'') of
        None \<Rightarrow> (Inr (plain_result TO_Failed (Some msg_bad_payload)), [], [], d)
      | Some target_id \<Rightarrow>
          (case previous_payload payload (db_tasks d) of
             Inl e \<Rightarrow> (Inl e, [], [], d)
           | Inr previous \<Rightarrow>
               (case advance_target target_id TG_Processing now (db_targets d) of
                  (Inl e, tgs) \<Rightarrow>
                    (if is_lookup_or_value_error e
                     then Inr (plain_result TO_Failed (Some msg_no_transition_verify)) else Inl e,
                     [], [], d\<lparr>db_targets := tgs\<rparr>)
                | (Inr _, tgs) \<Rightarrow>
                    (let d1 = d\<lparr>db_targets := tgs\<rparr>
                     in case jget previous ''file_path'' of
                          JStr file_path \<Rightarrow>
                            (case hv_size he file_path of
                               None \<Rightarrow> fail_verify target_id msg_no_file now [] d1
                             | Some filesize \<Rightarrow>
                                 if \<not> hv_is_file he file_path \<or> filesize \<le> 0
                                 then fail_verify target_id msg_empty_file now [] d1
                                 else verify_probe he target_id previous filesize file_path now d1)
                        | _ \<Rightarrow> fail_verify target_id msg_no_download now [] d1))))"

section \<open>Postprocess\<close>

definition msg_no_chain :: string where "msg_no_chain = ''post-processing is not implemented''"

definition postprocess_run :: "(string \<times> json) list \<Rightarrow> db \<Rightarrow> handled" where
  "postprocess_run payload d =
     (case json_int (jget payload ''target_id'') of
        None \<Rightarrow> (Inr (plain_result TO_Failed (Some msg_bad_payload)), [], [], d)
      | Some target_id \<Rightarrow>
          (case previous_payload payload (db_tasks d) of
             Inl e \<Rightarrow> (Inl e, [], [], d)
           | Inr previous \<Rightarrow>
               (let chain = (case tget (db_targets d) target_id of None \<Rightarrow> None | Some tg \<Rightarrow>
                      (case tget (db_assignments d) (tg_playlist_profile_id tg) of None \<Rightarrow> None | Some pp \<Rightarrow>
                      (case tget (db_profiles d) (pp_profile_id pp) of None \<Rightarrow> None | Some pf \<Rightarrow>
                         pf_postprocess_chain_json pf)))
                in if chain \<notin> {None, Some JNull, Some (JArr []), Some (JObj [])}
                   then (Inr (plain_result TO_Unavailable (Some msg_no_chain)), [], [], d)
                   else (Inr (done_result previous),
                         [[(''status'', JStr ''passthrough''), (''percent'', JFloat 100)]], [], d))))"

section \<open>Index\<close>

definition msg_no_publish :: string where "msg_no_publish = ''the result of publish is incomplete''"

definition source_artifact :: "handler_env \<Rightarrow> int \<Rightarrow> int \<Rightarrow> int \<Rightarrow> string \<Rightarrow> (string \<times> json) list \<Rightarrow> instant \<Rightarrow> artifact" where
  "source_artifact he target_id task_id storage_id relative_path previous now =
     \<lparr>ar_target_id = target_id, ar_role = AR_Source, ar_storage_id = storage_id,
      ar_relative_path = relative_path, ar_absolute_path_cache = None,
      ar_container = as_str (jget previous ''container''),
      ar_format_id = as_str (jget previous ''format_id''),
      ar_video_codec = as_str (jget previous ''video_codec''),
      ar_audio_codec = as_str (jget previous ''audio_codec''),
      ar_filesize = strict_int (jget previous ''filesize''),
      ar_duration = strict_int (jget previous ''duration''), ar_checksum = None,
      ar_produced_by_task_id = Some task_id,
      ar_verified_at = (case jget previous ''verified_at'' of JStr s \<Rightarrow> hv_fromisoformat he s | _ \<Rightarrow> None),
      ar_missing_since = None, ar_manual_link_previous_path = None, ar_manual_linked_at = None,
      ar_created_at = now, ar_updated_at = now\<rparr>"

text \<open>The staged file may be removed only inside the work directory; a failure does not count.\<close>

definition removable :: "handler_env \<Rightarrow> string \<Rightarrow> string \<Rightarrow> bool" where
  "removable he work_id raw_source \<longleftrightarrow>
     (case hv_resolve he raw_source of
        None \<Rightarrow> False
      | Some resolved \<Rightarrow> is_relative_to resolved (hv_work_root he work_id) \<and> hv_is_file he resolved)"

definition staging_deleted :: "handler_env \<Rightarrow> string \<Rightarrow> string \<Rightarrow> bool" where
  "staging_deleted he work_id raw_source \<longleftrightarrow>
     hv_delete_staging he \<and> removable he work_id raw_source \<and>
     hv_unlink he (the (hv_resolve he raw_source))"

definition set_downloaded_at :: "int \<Rightarrow> instant \<Rightarrow> target table \<Rightarrow> target table" where
  "set_downloaded_at target_id now tgs =
     update_where (\<lambda>i tg. i = target_id \<and> tg_downloaded_at tg = None)
       (\<lambda>tg. tg\<lparr>tg_downloaded_at := Some now, tg_updated_at := now\<rparr>) tgs"

definition index_run :: "handler_env \<Rightarrow> instant \<Rightarrow> (string \<times> json) list \<Rightarrow> db \<Rightarrow> handled" where
  "index_run he now payload d =
     (case (json_int (jget payload ''target_id''), jget payload ''work_id'') of
        (Some target_id, JStr work_id) \<Rightarrow>
          (case execution_task_id payload of
             Inl e \<Rightarrow> (Inl e, [], [], d)
           | Inr task_id \<Rightarrow>
          (case dependency_payload task_id (db_tasks d) of
             Inl e \<Rightarrow> (Inl e, [], [], d)
           | Inr previous \<Rightarrow>
               (case (json_int (jget previous ''storage_id''), jget previous ''relative_path'',
                      jget previous ''file_path'') of
                  (Some storage_id, JStr relative_path, JStr raw_source) \<Rightarrow>
                    (case create_source_if_missing
                            (source_artifact he target_id task_id storage_id relative_path previous now)
                            (db_artifacts d) of
                       (Inl e, ars) \<Rightarrow> (Inl e, [], [], d\<lparr>db_artifacts := ars\<rparr>)
                     | (Inr artifact_id, ars) \<Rightarrow>
                         (case advance_target target_id TG_Downloaded now (db_targets d) of
                            (Inl e, tgs) \<Rightarrow>
                              (if is_lookup_or_value_error e
                               then Inr (plain_result TO_Failed (Some msg_no_transition)) else Inl e,
                               [], [], d\<lparr>db_artifacts := ars, db_targets := tgs\<rparr>)
                          | (Inr _, tgs) \<Rightarrow>
                              (let ev = [(''target_id'', JInt target_id), (''artifact_id'', JInt artifact_id),
                                         (''storage_id'', JInt storage_id), (''relative_path'', JStr relative_path)]
                               in (Inr (done_result (dict_merge previous
                                     [(''artifact_id'', JInt artifact_id),
                                      (''staging_deleted'', JBool (staging_deleted he work_id raw_source))])),
                                   [[(''status'', JStr ''indexed''), (''percent'', JFloat 100)]],
                                   [Event ''target_downloaded'' ev, Event ''artifact_published'' ev],
                                   d\<lparr>db_artifacts := ars, db_targets := set_downloaded_at target_id now tgs\<rparr>))))
                | _ \<Rightarrow> (Inr (plain_result TO_Failed (Some msg_no_publish)), [], [], d))))
      | _ \<Rightarrow> (Inr (plain_result TO_Failed (Some msg_bad_payload)), [], [], d))"

end
