(* ===== verification/Publishing.thy ===== *)
theory Publishing
  imports Handlers
begin

text \<open>
  The handlers that work on more than the database: publish, which moves a verified file to its
  storage (\<open>src/sluicery/tasks/handlers/publish.py\<close>), and discover, which lists a playlist
  (\<open>handlers/discover.py\<close>). The state of the storages is the type \<open>'s\<close> of the adapters; the dedup log
  is not kept. The text of a storage error is its reason code.
\<close>

section \<open>Publish\<close>

type_synonym 's adapter_maker = "int \<Rightarrow> storage \<Rightarrow> exn + 's storage_adapter"
type_synonym 's published = "(exn + task_result) \<times> progress list \<times> db \<times> 's"

definition msg_no_storage :: string where "msg_no_storage = ''the storage is disabled or not found''"
definition msg_no_postprocess :: string where "msg_no_postprocess = ''no file_path in the result of postprocess''"
definition msg_publish_outside :: string where "msg_publish_outside = ''the source is outside of the work directory''"
definition msg_no_space :: string where "msg_no_space = ''free space is below the threshold''"
definition msg_size_differs :: string where "msg_size_differs = ''the destination has another size''"
definition msg_publish_failed :: string where "msg_publish_failed = ''publish failed''"
definition msg_not_confirmed :: string where "msg_not_confirmed = ''the destination cannot be confirmed''"

definition publish_failure :: "int \<Rightarrow> storage_classification \<Rightarrow> string \<Rightarrow> instant \<Rightarrow> db
    \<Rightarrow> (exn + task_result) \<times> db" where
  "publish_failure target_id c message now d =
     (let blocked = (c = SC_Unreachable \<or> c = SC_No_space);
          error = last_n error_limit message
      in case transition_target (db_targets d) target_id (if blocked then TG_Blocked else TG_Failed)
                (Some error) (if blocked then Some error else None) (\<not> blocked) id now (db_targets d) of
           (Inl e, tgs) \<Rightarrow> (Inl e, d\<lparr>db_targets := tgs\<rparr>)
         | (Inr _, tgs) \<Rightarrow>
             (Inr (plain_result (if blocked then TO_Blocked else TO_Failed) (Some error)), d\<lparr>db_targets := tgs\<rparr>))"

definition fail_publish :: "int \<Rightarrow> storage_classification \<Rightarrow> string \<Rightarrow> instant \<Rightarrow> progress list \<Rightarrow> db \<Rightarrow> 's
    \<Rightarrow> 's published" where
  "fail_publish target_id c message now reports d w =
     (case publish_failure target_id c message now d of (r, d') \<Rightarrow> (r, reports, d', w))"

definition classification_of_value :: "string \<Rightarrow> storage_classification" where
  "classification_of_value v =
     (case List.find (\<lambda>c. storage_classification_value c = v)
             [SC_Ok, SC_Failed, SC_Unreachable, SC_Auth_failed, SC_No_space, SC_Permission_denied] of
        Some c \<Rightarrow> c | None \<Rightarrow> SC_Failed)"

text \<open>\<open>except StorageOperationError\<close>; every other exception goes on.\<close>

definition publish_exception :: "int \<Rightarrow> exn \<Rightarrow> instant \<Rightarrow> progress list \<Rightarrow> db \<Rightarrow> 's \<Rightarrow> 's published" where
  "publish_exception target_id e now reports d w =
     (case e of
        StorageOperationError c reason \<Rightarrow>
          fail_publish target_id (classification_of_value c) reason now reports d w
      | _ \<Rightarrow> (Inl e, reports, d, w))"

definition publish_graph :: "db \<Rightarrow> int \<Rightarrow> (int \<times> storage \<times> playlist_profile \<times> playlist \<times> item) option" where
  "publish_graph d target_id =
     (case tget (db_targets d) target_id of None \<Rightarrow> None | Some tg \<Rightarrow>
     (case tget (db_assignments d) (tg_playlist_profile_id tg) of None \<Rightarrow> None | Some pp \<Rightarrow>
     (case tget (db_storages d) (pp_storage_id pp) of None \<Rightarrow> None | Some st \<Rightarrow>
     (case tget (db_items d) (tg_item_id tg) of None \<Rightarrow> None | Some it \<Rightarrow>
     (case tget (db_playlists d) (it_playlist_id it) of None \<Rightarrow> None | Some pl \<Rightarrow>
        Some (pp_storage_id pp, st, pp, pl, it))))))"

text \<open>The first artifact of another Target with the same source and profile that is not missing.\<close>

definition dedup_candidate :: "db \<Rightarrow> int \<Rightarrow> item \<Rightarrow> playlist_profile \<Rightarrow> (string \<times> int) option" where
  "dedup_candidate d target_id it pp =
     (case select_where (\<lambda>_ a. ar_missing_since a = None \<and> ar_target_id a \<noteq> target_id \<and>
             (case tget (db_targets d) (ar_target_id a) of None \<Rightarrow> False | Some tg \<Rightarrow>
             (case tget (db_items d) (tg_item_id tg) of None \<Rightarrow> False | Some it' \<Rightarrow>
             (case tget (db_assignments d) (tg_playlist_profile_id tg) of None \<Rightarrow> False | Some pp' \<Rightarrow>
                it_source_id it' = it_source_id it \<and> pp_profile_id pp' = pp_profile_id pp))))
             (sort_key fst (db_artifacts d)) of
        [] \<Rightarrow> None | (_, a) # _ \<Rightarrow> Some (ar_relative_path a, ar_storage_id a))"

record 's publish_job =
  pj_target_id :: int
  pj_previous :: "(string \<times> json) list"
  pj_storage_id :: int
  pj_adapter :: "'s storage_adapter"
  pj_dedup :: "(string \<times> int) option"
  pj_dedup_adapter :: "'s storage_adapter option"
  pj_warn_bytes :: int
  pj_stop_bytes :: int

definition setting_int :: "exn + json \<Rightarrow> exn + int" where
  "setting_int r = (case r of Inl e \<Rightarrow> Inl e
     | Inr v \<Rightarrow> (case json_int v of None \<Rightarrow> Inl TypeError | Some i \<Rightarrow> Inr i))"

definition dedup_adapter :: "'s adapter_maker \<Rightarrow> db \<Rightarrow> int \<Rightarrow> 's storage_adapter \<Rightarrow> (string \<times> int) option
    \<Rightarrow> exn + 's storage_adapter option" where
  "dedup_adapter maker d storage_id adapter duplicate =
     (case duplicate of
        None \<Rightarrow> Inr None
      | Some (_, sid) \<Rightarrow>
          if sid = storage_id then Inr (Some adapter)
          else (case tget (db_storages d) sid of
                  None \<Rightarrow> Inr None
                | Some st \<Rightarrow> if st_enabled st then map_sum id Some (maker sid st) else Inr None))"

text \<open>The adapters and thresholds, read inside the first session.\<close>

definition publish_job_of :: "handler_env \<Rightarrow> 's adapter_maker \<Rightarrow> int \<Rightarrow> (string \<times> json) list \<Rightarrow> db
    \<Rightarrow> int \<times> storage \<times> playlist_profile \<times> playlist \<times> item \<Rightarrow> exn + 's publish_job" where
  "publish_job_of he maker target_id previous d graph =
     (case graph of (storage_id, st, pp, pl, it) \<Rightarrow>
        let duplicate = (if pl_dedup_hardlink pl then dedup_candidate d target_id it pp else None)
        in case maker storage_id st of Inl e \<Rightarrow> Inl e | Inr adapter \<Rightarrow>
           (case dedup_adapter maker d storage_id adapter duplicate of Inl e \<Rightarrow> Inl e | Inr source \<Rightarrow>
           (case setting_int (storage_free_space_warn_bytes (hv_settings_env he) (hv_settings he)) of
              Inl e \<Rightarrow> Inl e | Inr warn_bytes \<Rightarrow>
           (case setting_int (storage_free_space_stop_bytes (hv_settings_env he) (hv_settings he)) of
              Inl e \<Rightarrow> Inl e | Inr stop_bytes \<Rightarrow>
              Inr \<lparr>pj_target_id = target_id, pj_previous = previous, pj_storage_id = storage_id,
                   pj_adapter = adapter, pj_dedup = duplicate, pj_dedup_adapter = source,
                   pj_warn_bytes = warn_bytes, pj_stop_bytes = stop_bytes\<rparr>))))"

definition existing_size :: "'s storage_adapter \<Rightarrow> 's \<Rightarrow> string \<Rightarrow> exn + (int option) option" where
  "existing_size ad w destination =
     (case ad_exists ad w destination of
        Inl e \<Rightarrow> Inl e
      | Inr False \<Rightarrow> Inr None
      | Inr True \<Rightarrow>
          (let parent = path_parent destination; base = (if parent = ''.'' then [] else parent)
           in case ad_list_recursive ad w base of (entries, raised) \<Rightarrow>
                (case List.find (\<lambda>f. rf_relative_path f = destination) entries of
                   Some f \<Rightarrow> Inr (Some (rf_size f))
                 | None \<Rightarrow> Inl (case raised of Some e \<Rightarrow> e
                     | None \<Rightarrow> StorageOperationError ''failed'' ''existing_size_unknown''))))"

definition published_payload :: "'s publish_job \<Rightarrow> string \<Rightarrow> int option \<Rightarrow> bool \<Rightarrow> (string \<times> json) list
    \<Rightarrow> (string \<times> json) list" where
  "published_payload pj relative_path publish_size resumed flags =
     dict_merge (pj_previous pj)
       ([(''storage_id'', JInt (pj_storage_id pj)), (''relative_path'', JStr relative_path),
         (''publish_size'', opt_int publish_size), (''publish_resumed'', JBool resumed)] @ flags)"

definition publishing :: progress where
  "publishing = [(''status'', JStr ''publishing''), (''percent'', JFloat 0)]"
definition published_report :: progress where
  "published_report = [(''status'', JStr ''published''), (''percent'', JFloat 100)]"

text \<open>The attempt to link an identical file: a storage error means no.\<close>

definition try_hardlink :: "'s publish_job \<Rightarrow> string \<Rightarrow> int \<Rightarrow> string \<Rightarrow> 's \<Rightarrow> (exn + bool) \<times> 's" where
  "try_hardlink pj destination source_size sha w =
     (case (pj_dedup pj, pj_dedup_adapter pj) of
        (Some (path, sid), Some source) \<Rightarrow>
          (case ad_inspect_file source w path of
             Inl (StorageOperationError c r) \<Rightarrow> (Inr False, w)
           | Inl e \<Rightarrow> (Inl e, w)
           | Inr existing \<Rightarrow>
               if rf_size existing = Some source_size \<and> map_of (rf_hashes existing) ''sha256'' = Some sha
               then (case ad_hardlink_from (pj_adapter pj) sid path destination existing w of
                       (Inl (StorageOperationError c r), w') \<Rightarrow> (Inr False, w')
                     | (r, w') \<Rightarrow> (r, w'))
               else (Inr False, w))
      | _ \<Rightarrow> (Inr False, w))"

definition publish_copy :: "'s publish_job \<Rightarrow> string \<Rightarrow> string \<Rightarrow> instant \<Rightarrow> db \<Rightarrow> 's \<Rightarrow> 's published" where
  "publish_copy pj resolved destination now d w =
     (case ad_publish (pj_adapter pj) resolved destination w of
        (Inl e, w') \<Rightarrow> publish_exception (pj_target_id pj) e now [publishing] d w'
      | (Inr r, w') \<Rightarrow>
          if \<not> pr_success r
          then fail_publish (pj_target_id pj) (pr_classification r) msg_publish_failed now [publishing] d w'
          else (case ad_exists (pj_adapter pj) w' destination of
                  Inl e \<Rightarrow> (Inl e, [publishing], d, w')
                | Inr False \<Rightarrow> fail_publish (pj_target_id pj) SC_Failed msg_not_confirmed now [publishing] d w'
                | Inr True \<Rightarrow>
                    (Inr (done_result (published_payload pj (pr_dest_rel r) (pr_size r) False [])),
                     [publishing, published_report], d, w')))"

definition publish_new :: "'s publish_job \<Rightarrow> string \<Rightarrow> string \<Rightarrow> int \<Rightarrow> string \<Rightarrow> instant \<Rightarrow> db \<Rightarrow> 's
    \<Rightarrow> 's published" where
  "publish_new pj resolved destination source_size sha now d w =
     (case try_hardlink pj destination source_size sha w of
        (Inl e, w') \<Rightarrow> (Inl e, [publishing], d, w')
      | (Inr True, w') \<Rightarrow>
          (Inr (done_result (published_payload pj destination (Some source_size) False
                  [(''publish_hardlinked'', JBool True)])), [publishing, published_report], d, w')
      | (Inr False, w') \<Rightarrow> publish_copy pj resolved destination now d w')"

text \<open>Everything inside the \<open>try\<close> block: capacity, the source, what is there already, the copy.\<close>

definition publish_transfer :: "handler_env \<Rightarrow> 's publish_job \<Rightarrow> string \<Rightarrow> string \<Rightarrow> instant \<Rightarrow> db \<Rightarrow> 's
    \<Rightarrow> 's published" where
  "publish_transfer he pj resolved destination now d w =
     (let tid = pj_target_id pj
      in case ad_free_space (pj_adapter pj) w of Inl e \<Rightarrow> publish_exception tid e now [] d w | Inr free \<Rightarrow>
         (case evaluate_capacity free (pj_warn_bytes pj) (pj_stop_bytes pj) of
            Inl e \<Rightarrow> publish_exception tid e now [] d w
          | Inr capacity \<Rightarrow>
              if should_block capacity then fail_publish tid SC_No_space msg_no_space now [] d w
              else
                (case hv_size he resolved of
                   None \<Rightarrow> (Inl FileNotFoundError, [], d, w)
                 | Some source_size \<Rightarrow>
                     (case (if pj_dedup pj = None then Inr [] else hv_sha256 he resolved) of
                        Inl e \<Rightarrow> publish_exception tid e now [] d w
                      | Inr sha \<Rightarrow>
                          (case existing_size (pj_adapter pj) w destination of
                             Inl e \<Rightarrow> publish_exception tid e now [] d w
                           | Inr (Some (Some n)) \<Rightarrow>
                               if n \<noteq> source_size
                               then fail_publish tid SC_Failed msg_size_differs now [] d w
                               else (Inr (done_result (published_payload pj destination (Some n) True [])), [], d, w)
                           | Inr _ \<Rightarrow> publish_new pj resolved destination source_size sha now d w)))))"

definition publish_run :: "handler_env \<Rightarrow> 's adapter_maker \<Rightarrow> instant \<Rightarrow> (string \<times> json) list \<Rightarrow> db \<Rightarrow> 's
    \<Rightarrow> 's published" where
  "publish_run he maker now payload d w =
     (case (json_int (jget payload ''target_id''), jget payload ''work_id'') of
        (Some target_id, JStr work_id) \<Rightarrow>
          (case previous_payload payload (db_tasks d) of
             Inl e \<Rightarrow> (Inl e, [], d, w)
           | Inr previous \<Rightarrow>
               (case publish_graph d target_id of
                  None \<Rightarrow> fail_publish target_id SC_Unreachable msg_no_storage now [] d w
                | Some (sid, st, pp, pl, it) \<Rightarrow>
                    if \<not> st_enabled st then fail_publish target_id SC_Unreachable msg_no_storage now [] d w
                    else
                      (case publish_job_of he maker target_id previous d (sid, st, pp, pl, it) of
                         Inl e \<Rightarrow> (Inl e, [], d, w)
                       | Inr pj \<Rightarrow>
                           (case advance_target target_id TG_Processing now (db_targets d) of
                              (Inl e, tgs) \<Rightarrow>
                                (if is_lookup_or_value_error e
                                 then Inr (plain_result TO_Failed (Some msg_no_transition)) else Inl e,
                                 [], d\<lparr>db_targets := tgs\<rparr>, w)
                            | (Inr _, tgs) \<Rightarrow>
                                (let d1 = d\<lparr>db_targets := tgs\<rparr>
                                 in case jget previous ''file_path'' of
                                      JStr raw_path \<Rightarrow>
                                        (case hv_resolve he raw_path of
                                           None \<Rightarrow> fail_publish target_id SC_Failed msg_no_file now [] d1 w
                                         | Some resolved \<Rightarrow>
                                             if \<not> is_relative_to resolved (hv_work_root he work_id)
                                             then fail_publish target_id SC_Failed msg_publish_outside now [] d1 w
                                             else publish_transfer he pj resolved
                                                    (relative_to resolved (hv_work_root he work_id)) now d1 w)
                                    | _ \<Rightarrow> fail_publish target_id SC_Failed msg_no_postprocess now [] d1 w)))))
      | _ \<Rightarrow> (Inr (plain_result TO_Failed (Some msg_bad_payload)), [], d, w))"

section \<open>Discover\<close>

definition discover_run_id :: "(string \<times> json) list \<Rightarrow> int option" where
  "discover_run_id payload =
     (case jget payload ''_execution'' of
        JObj execution \<Rightarrow>
          (case json_int (jget execution ''run_id'') of
             Some i \<Rightarrow> Some i | None \<Rightarrow> json_int (jget payload ''run_id''))
      | _ \<Rightarrow> json_int (jget payload ''run_id''))"

definition finish_discover :: "int option \<Rightarrow> run_status \<Rightarrow> sync_stats \<Rightarrow> instant \<Rightarrow> db \<Rightarrow> event list \<times> db" where
  "finish_discover run_id st stats now d =
     (case run_id of
        None \<Rightarrow> ([], d)
      | Some i \<Rightarrow>
          (case finish_run i st (stats_dict stats) now (db_runs d) of
             (False, runs) \<Rightarrow> ([], d\<lparr>db_runs := runs\<rparr>)
           | (True, runs) \<Rightarrow>
               ([Event (if st = RS_Failed then ''run_failed'' else ''run_finished'')
                   [(''run_id'', JInt i),
                    (''playlist_id'', case tget (db_runs d) i of None \<Rightarrow> JNull
                       | Some r \<Rightarrow> opt_int (rn_playlist_id r)),
                    (''kind'', case tget (db_runs d) i of None \<Rightarrow> JStr ''discover'' | Some r \<Rightarrow> JStr (rn_kind r)),
                    (''status'', JStr (run_status_value st)),
                    (''reason_code'', if st = RS_Failed then JStr ''discover_failed'' else JNull)]],
                d\<lparr>db_runs := runs\<rparr>)))"

definition give_up_discover :: "task_outcome \<Rightarrow> int option \<Rightarrow> string \<Rightarrow> instant \<Rightarrow> progress list \<Rightarrow> db \<Rightarrow> handled" where
  "give_up_discover oc run_id message now reports d =
     (case finish_discover run_id RS_Failed (no_stats\<lparr>sy_empty_result := True\<rparr>) now d of (evs, d') \<Rightarrow>
        (Inr (plain_result oc (Some (last_n error_limit message))), reports, evs, d'))"

definition discovery_events :: "int \<Rightarrow> int \<Rightarrow> bool \<Rightarrow> sync_stats \<Rightarrow> event list" where
  "discovery_events pid run_id dry_run stats =
     (if \<not> dry_run \<and> sy_new_items stats \<noteq> 0
      then [Event ''item_discovered'' [(''playlist_id'', JInt pid), (''count'', JInt (int (sy_new_items stats)))]]
      else []) @
     (if \<not> dry_run \<and> sy_delisted_items stats \<noteq> 0
      then [Event ''item_delisted'' [(''playlist_id'', JInt pid), (''count'', JInt (int (sy_delisted_items stats)))]]
      else []) @
     [Event ''run_finished'' [(''run_id'', JInt run_id), (''playlist_id'', JInt pid),
        (''kind'', JStr ''discover''), (''status'', JStr (run_status_value RS_Succeeded))]]"

definition discovering :: progress where
  "discovering = [(''status'', JStr ''discovering''), (''percent'', JNull)]"

definition apply_listing :: "handler_env \<Rightarrow> int \<Rightarrow> int \<Rightarrow> bool \<Rightarrow> string list \<Rightarrow> instant \<Rightarrow> db \<Rightarrow> handled" where
  "apply_listing he pid run_id dry_run lines now d =
     (let env = hv_settings_env he;
          entries = parse_discover_entries (se_json_loads env) (se_brackets_ok env) lines
      in case apply_discovery pid entries dry_run now now d of
           (Inl e, d1) \<Rightarrow> (Inl e, [discovering], [], d1)
         | (Inr stats, d1) \<Rightarrow>
             (case finish_run run_id RS_Succeeded (stats_dict stats) now (db_runs d1) of
                (False, runs) \<Rightarrow>
                  (Inr (plain_result TO_Failed (Some msg_not_found)), [discovering], [], d1\<lparr>db_runs := runs\<rparr>)
              | (True, runs) \<Rightarrow>
                  (Inr (done_result [(''stats'', stats_dict stats)]),
                   [discovering,
                    [(''status'', JStr (if sy_empty_result stats then ''empty'' else ''discovered'')),
                     (''percent'', JFloat 100), (''new_items'', JInt (int (sy_new_items stats))),
                     (''delisted_items'', JInt (int (sy_delisted_items stats)))]],
                   discovery_events pid run_id dry_run stats, d1\<lparr>db_runs := runs\<rparr>)))"

definition discover_run :: "handler_env \<Rightarrow> instant \<Rightarrow> (string \<times> json) list \<Rightarrow> db \<Rightarrow> handled" where
  "discover_run he now payload d =
     (let dry_value = (case map_of payload ''dry_run'' of None \<Rightarrow> JBool False | Some v \<Rightarrow> v)
      in case (json_int (jget payload ''playlist_id''), dry_value, discover_run_id payload) of
           (Some pid, JBool dry_run, Some run_id) \<Rightarrow>
             (case tget (db_playlists d) pid of
                None \<Rightarrow> give_up_discover TO_Unavailable (Some run_id) msg_not_found now [] d
              | Some pl \<Rightarrow>
                  (case build_discover_args (hv_settings_env he) (hv_settings he) pl None no_overrides
                          (hv_env_allow_exec he) of
                     Inl e \<Rightarrow> (Inl e, [], [], d)
                   | Inr built \<Rightarrow>
                       (case fst (run_with_cookie he pl (pl_url pl) (bc_args built)) of
                          None \<Rightarrow> give_up_discover TO_Failed (Some run_id) msg_cookie now [discovering] d
                        | Some r \<Rightarrow>
                            if rr_terminated_by r = Some ''cancel'' then
                              (case finish_discover (Some run_id) RS_Cancelled no_stats now d of (evs, d') \<Rightarrow>
                                 (Inr (plain_result TO_Cancelled None), [discovering], evs, d'))
                            else if rr_classification r = CL_Ok
                            then apply_listing he pid run_id dry_run (rr_stdout_lines r) now d
                            else
                              (let message = (if rr_stderr_tail r \<noteq> [] then last_n error_limit (rr_stderr_tail r)
                                              else classification_value (rr_classification r))
                               in if rr_classification r = CL_Blocked then
                                    (Inr \<lparr>tr_outcome = TO_Blocked, tr_message = Some message,
                                          tr_payload_update = None, tr_reason_code = Some (rr_reason_code r)\<rparr>,
                                     [discovering], [], d)
                                  else give_up_discover
                                         (if rr_classification r = CL_Unavailable then TO_Unavailable else TO_Failed)
                                         (Some run_id) message now [discovering] d))))
         | _ \<Rightarrow> give_up_discover TO_Failed (discover_run_id payload) msg_bad_payload now [] d)"

end
