(* ===== verification/Handler_Theorems.thy ===== *)
theory Handler_Theorems
  imports Worker_Theorems Options_Theorems Publishing
begin

text \<open>
  What the handlers do to the database together with the worker that runs them: a download attempt moves
  its Target and counts its failure once, the publish handler claims success only for a file it has seen at the
  destination, and the index handler records the file before the Target counts as downloaded.
\<close>

section \<open>The task row while its handler runs\<close>

text \<open>Progress and logs leave a row as it is but for its payload and its excerpt.\<close>

definition same_task :: "task \<Rightarrow> task \<Rightarrow> bool" where
  "same_task t u \<longleftrightarrow> (\<exists>p l. u = t\<lparr>tk_payload_json := p, tk_log_excerpt := l\<rparr>)"

lemma same_task_refl: "same_task t t"
proof -
  have "t = t\<lparr>tk_payload_json := tk_payload_json t, tk_log_excerpt := tk_log_excerpt t\<rparr>" by simp
  then show ?thesis unfolding same_task_def by metis
qed

lemma same_task_payload:
  assumes "same_task t u"
  shows "same_task t (u\<lparr>tk_payload_json := p\<rparr>)"
proof -
  from assms obtain q l where "u = t\<lparr>tk_payload_json := q, tk_log_excerpt := l\<rparr>" by (auto simp: same_task_def)
  then have "u\<lparr>tk_payload_json := p\<rparr> = t\<lparr>tk_payload_json := p, tk_log_excerpt := l\<rparr>" by simp
  then show ?thesis unfolding same_task_def by blast
qed

lemma same_task_excerpt:
  assumes "same_task t u"
  shows "same_task t (u\<lparr>tk_log_excerpt := l\<rparr>)"
proof -
  from assms obtain q m where "u = t\<lparr>tk_payload_json := q, tk_log_excerpt := m\<rparr>" by (auto simp: same_task_def)
  then have "u\<lparr>tk_log_excerpt := l\<rparr> = t\<lparr>tk_payload_json := q, tk_log_excerpt := l\<rparr>" by simp
  then show ?thesis unfolding same_task_def by blast
qed

lemma same_task_settled: "same_task t u \<Longrightarrow> settled_status oc u = settled_status oc t"
  by (cases oc) (auto simp: same_task_def settled_status_def retry_outcome_def attempts_exhausted_def)

lemma same_task_owned: "same_task t u \<Longrightarrow> owned i w i u = owned i w i t"
  by (auto simp: same_task_def owned_def)

definition keeps_task :: "int \<Rightarrow> task \<Rightarrow> task table \<Rightarrow> bool" where
  "keeps_task tid t ts \<longleftrightarrow> wf_table ts \<and> (\<exists>u. tget ts tid = Some u \<and> same_task t u)"

lemma write_progress_keeps:
  assumes "keeps_task tid t ts"
  shows "keeps_task tid t (snd (write_progress jp tid p w ts))"
proof -
  from assms obtain u where u: "wf_table ts" "tget ts tid = Some u" "same_task t u"
    by (auto simp: keeps_task_def)
  then show ?thesis
    by (auto simp: keeps_task_def write_progress_def Let_def intro: same_task_payload)
qed

lemma emit_progress_keeps:
  "keeps_task tid t (snd st) \<Longrightarrow> keeps_task tid t (snd (emit_progress jp tid w final p st))"
  by (auto simp: emit_progress_def write_progress_keeps split: prod.splits bool.splits)

lemma emit_all_keeps:
  "keeps_task tid t (snd st) \<Longrightarrow> keeps_task tid t (snd (fold (emit_progress jp tid w final) ps st))"
  by (induction ps arbitrary: st) (simp_all add: emit_progress_keeps)

lemma persist_logs_keeps:
  "keeps_task tid t (db_tasks d) \<Longrightarrow> keeps_task tid t (db_tasks (persist_handler_logs tid t' logged d))"
  "db_targets (persist_handler_logs tid t' logged d) = db_targets d"
  by (auto simp: persist_handler_logs_def keeps_task_def intro: same_task_excerpt split: option.splits prod.splits)

section \<open>One execution\<close>

text \<open>The handlers of the pipeline as the worker calls them: every report has its instant.\<close>

definition clocked :: "(nat \<Rightarrow> rat) \<Rightarrow> handled \<Rightarrow>
    (exn + task_result) \<times> (rat \<times> progress) list \<times> event list \<times> db" where
  "clocked clock h = (case h of (r, reports, evs, d) \<Rightarrow>
     (r, zip (map clock [0..<length reports]) reports, evs, d))"

definition outcome_of :: "exn + task_result \<Rightarrow> task_result" where
  "outcome_of r = (case r of Inl e \<Rightarrow> failed_result e | Inr res \<Rightarrow> res)"

lemma execute_task_settles:
  assumes wf: "wf_table (db_tasks d)" and t: "tget (db_tasks d) tid = Some t" "owned tid w tid t"
      "0 \<le> tk_attempts t"
    and h: "handlers (tk_type t) = Some (\<lambda>p d. clocked clock (run p d))"
      "run (execution_payload tid t) d = (r, reports, evs, d1)" "db_tasks d1 = db_tasks d"
    and ex: "\<not> ex_shutdown ex" "\<not> ex_cancel_seen ex"
    and st: "st = settled_status (tr_outcome (outcome_of r)) t"
  shows "\<exists>r' evs' d'. execute_task jp cfg w handlers ex tid t d = (None, evs', d') \<and>
    tget (db_tasks d') tid = Some r' \<and> tk_status r' = st \<and>
    db_targets d' = followed_targets t (outcome_of r) st (ex_now ex) (db_targets d1)"
proof -
  let ?th = "new_throttler (wk_progress_write_interval_sec cfg) (wk_progress_write_percent_step cfg)"
  let ?reports = "zip (map clock [0..<length reports]) reports"
  let ?res = "outcome_of r"
  obtain th ts1 where f: "fold (emit_progress jp tid w False) ?reports (?th, db_tasks d1) = (th, ts1)"
    by (cases "fold (emit_progress jp tid w False) ?reports (?th, db_tasks d1)")
  have k0: "keeps_task tid t (db_tasks d1)" using wf t h(3) by (auto simp: keeps_task_def same_task_refl)
  then have k1: "keeps_task tid t ts1" using emit_all_keeps[of tid t "(?th, db_tasks d1)" jp w False ?reports] f
    by simp
  let ?ts2 = "snd (emit_progress jp tid w True (ex_final_time ex, final_progress (tr_outcome ?res)) (th, ts1))"
  let ?d2 = "persist_handler_logs tid t (ex_log ex) (d1\<lparr>db_tasks := ?ts2\<rparr>)"
  have "keeps_task tid t ?ts2" using emit_progress_keeps[of tid t "(th, ts1)"] k1 by simp
  then have "keeps_task tid t (db_tasks ?d2)" using persist_logs_keeps(1)[of tid t "d1\<lparr>db_tasks := ?ts2\<rparr>"] by simp
  then obtain u where u: "wf_table (db_tasks ?d2)" "tget (db_tasks ?d2) tid = Some u" "same_task t u"
    by (auto simp: keeps_task_def)
  have own: "owned tid w tid u" and stu: "st = settled_status (tr_outcome ?res) u"
    using t(2) st same_task_owned[OF u(3)] same_task_settled[OF u(3)] by auto
  obtain ts' r' evs' where a: "tget ts' tid = Some r'" "tk_status r' = st"
    "apply_result cfg w tid t ?res (ex_now ex) (ex_random ex) ?d2 =
      (None, evs', ?d2\<lparr>db_tasks := ts', db_targets := followed_targets t ?res st (ex_now ex) (db_targets ?d2)\<rparr>)"
    using apply_result_owned[OF u(1) t(3) u(2) own stu] by blast
  have dt: "db_targets ?d2 = db_targets d1" by (simp add: persist_logs_keeps(2))
  have "execute_task jp cfg w handlers ex tid t d =
      (None, evs @ evs', ?d2\<lparr>db_tasks := ts', db_targets := followed_targets t ?res st (ex_now ex) (db_targets ?d2)\<rparr>)"
    using h(1,2) ex f a(3)
    by (simp add: execute_task_def clocked_def Let_def outcome_of_def[symmetric])
  with a(1,2) dt show ?thesis by auto
qed

section \<open>A download attempt\<close>

text \<open>Where the handler leaves the Target, and by how much it has counted a failure.\<close>

definition handler_moves :: "target_status \<Rightarrow> exn + task_result \<Rightarrow> target_status \<Rightarrow> int \<Rightarrow> bool" where
  "handler_moves stage r s n \<longleftrightarrow>
     (case r of
        Inl _ \<Rightarrow> s = stage \<and> n = 0
      | Inr res \<Rightarrow>
          (case tr_outcome res of
             TO_Succeeded \<Rightarrow> s = stage \<and> n = 0
           | TO_Cancelled \<Rightarrow> s = stage \<and> n = 0
           | TO_Failed \<Rightarrow> s = TG_Failed \<and> n = 1
           | TO_Unavailable \<Rightarrow> s = TG_Unavailable \<and> n = 0
           | TO_Blocked \<Rightarrow> s = TG_Blocked \<and> n = 0))"

lemma download_failure_target:
  assumes "wf_table (db_targets d)" "tget (db_targets d) target_id = Some g" "tg_status g = TG_Downloading"
    "c \<noteq> CL_Ok" "download_failure target_id c message reason now d = (r, d')"
  shows "db_tasks d' = db_tasks d \<and> wf_table (db_targets d') \<and>
    (\<forall>j. j \<noteq> target_id \<longrightarrow> tget (db_targets d') j = tget (db_targets d) j) \<and>
    (\<exists>g'. tget (db_targets d') target_id = Some g' \<and>
       handler_moves TG_Downloading r (tg_status g') (tg_retry_count g' - tg_retry_count g)) \<and>
    (\<exists>res. r = Inr res \<and> tr_outcome res \<noteq> TO_Succeeded)"
proof -
  obtain oc st inc where f: "download_failure_of c = Some (oc, st, inc)"
    using assms(4) by (cases c) (auto simp: download_failure_of_def)
  have st: "st \<in> allowed TG_Downloading" and oc: "oc \<noteq> TO_Succeeded"
    using f assms(4) by (cases c; simp add: download_failure_of_def; fastforce)+
  have hm: "handler_moves TG_Downloading (Inr \<lparr>tr_outcome = oc, tr_message = m, tr_payload_update = None, tr_reason_code = reason\<rparr>) st
      (if inc then 1 else 0)" for m
    using f by (cases c; simp add: download_failure_of_def handler_moves_def; fastforce)
  define e where "e = (if message \<noteq> [] then last_n error_limit message else classification_value c)"
  have tr: "transition_target (db_targets d) target_id st (Some e) (if st = TG_Blocked then Some e else None) inc id now
      (db_targets d) = (Inr True, set_row target_id
        (target_cas_row st (Some e) (if st = TG_Blocked then Some e else None) inc id now) (db_targets d))"
    using assms(1-3) st by (intro transition_target_ok) auto
  have "r = Inr \<lparr>tr_outcome = oc, tr_message = Some e, tr_payload_update = None, tr_reason_code = reason\<rparr>"
    "d' = d\<lparr>db_targets := set_row target_id
        (target_cas_row st (Some e) (if st = TG_Blocked then Some e else None) inc id now) (db_targets d)\<rparr>"
    using assms(5) unfolding download_failure_def f e_def[symmetric] by (simp_all add: Let_def tr)
  then show ?thesis using assms(1,2) hm[of "Some e"] oc by (cases inc) (simp_all add: target_cas_row_def)
qed

text \<open>What a successful download has seen on disk.\<close>

definition staged_ok :: "handler_env \<Rightarrow> string \<Rightarrow> (string \<times> json) list \<Rightarrow> bool" where
  "staged_ok he work_id u \<longleftrightarrow>
     (case jget u ''file_path'' of
        JStr p \<Rightarrow> hv_is_file he p \<and> is_relative_to p (hv_work_root he work_id) \<and>
                  (case hv_size he p of None \<Rightarrow> False | Some n \<Rightarrow> jget u ''filesize'' = JInt n)
      | _ \<Rightarrow> False)"

definition result_ok :: "handler_env \<Rightarrow> string \<Rightarrow> exn + task_result \<Rightarrow> bool" where
  "result_ok he work_id r \<longleftrightarrow>
     (case r of
        Inl _ \<Rightarrow> True
      | Inr res \<Rightarrow> if tr_outcome res = TO_Succeeded
                   then (case tr_payload_update res of None \<Rightarrow> False | Some u \<Rightarrow> staged_ok he work_id u) else True)"

lemma download_success_target:
  assumes "wf_table (db_targets d)" "tget (db_targets d) target_id = Some g" "tg_status g = TG_Downloading"
    "download_success he target_id work_id lines metadata now d = (r, d')"
  shows "db_tasks d' = db_tasks d \<and> wf_table (db_targets d') \<and>
    (\<forall>j. j \<noteq> target_id \<longrightarrow> tget (db_targets d') j = tget (db_targets d) j) \<and>
    (\<exists>g'. tget (db_targets d') target_id = Some g' \<and>
       handler_moves TG_Downloading r (tg_status g') (tg_retry_count g' - tg_retry_count g)) \<and> result_ok he work_id r"
proof -
  have fail: ?thesis if "download_failure target_id CL_Failed m reason now d = (r, d')" for m reason
    using download_failure_target[OF assms(1-3) _ that] by (auto simp: result_ok_def)
  let ?paths = "filter (\<lambda>l. strip l \<noteq> []) lines"
  show ?thesis
  proof (cases "?paths = []")
    case True
    with assms(4) fail show ?thesis by (simp add: download_success_def)
  next
    case paths: False
    show ?thesis
    proof (cases "hv_resolve he (last ?paths)")
      case None
      with paths assms(4) fail show ?thesis by (simp add: download_success_def)
    next
      case (Some resolved)
      show ?thesis
      proof (cases "hv_is_file he resolved \<and> is_relative_to resolved (hv_work_root he work_id)")
        case False
        with paths Some assms(4) have "download_failure target_id CL_Failed msg_outside None now d = (r, d')"
          by (auto simp: download_success_def Let_def)
        then show ?thesis by (rule fail)
      next
        case on_disk: True
        show ?thesis
        proof (cases "hv_size he resolved")
          case None
          with paths Some on_disk assms show ?thesis
            by (auto simp: download_success_def Let_def result_ok_def handler_moves_def)
        next
          case (Some n)
          let ?u = "[(''file_path'', JStr resolved), (''filesize'', JInt n),
            (''format_id'', opt_str (format_id_of metadata resolved))]"
          have "r = Inr (done_result ?u)" "d' = d"
            using paths Some \<open>hv_resolve he (last ?paths) = Some resolved\<close> on_disk assms(4)
            by (auto simp: download_success_def Let_def)
          moreover have "jget ?u ''file_path'' = JStr resolved" "jget ?u ''filesize'' = JInt n"
            by (simp_all add: jget_def)
          ultimately show ?thesis using assms(1-3) on_disk Some
            by (auto simp: result_ok_def done_result_def staged_ok_def handler_moves_def)
        qed
      qed
    qed
  qed
qed

lemma download_finish_target:
  assumes "wf_table (db_targets d)" "tget (db_targets d) target_id = Some g" "tg_status g = TG_Downloading"
    "download_finish he target_id work_id result now d = (r, d')"
  shows "db_tasks d' = db_tasks d \<and> wf_table (db_targets d') \<and>
    (\<forall>j. j \<noteq> target_id \<longrightarrow> tget (db_targets d') j = tget (db_targets d) j) \<and>
    (\<exists>g'. tget (db_targets d') target_id = Some g' \<and>
       handler_moves TG_Downloading r (tg_status g') (tg_retry_count g' - tg_retry_count g)) \<and> result_ok he work_id r"
proof -
  have fail: ?thesis if "download_failure target_id c m reason now d = (r, d')" "c \<noteq> CL_Ok" for c m reason
    using download_failure_target[OF assms(1-3) that(2,1)] by (auto simp: result_ok_def)
  show ?thesis
  proof (cases result)
    case None
    with assms(4) have "download_failure target_id CL_Failed msg_cookie (Some ''cookie_configuration'') now d = (r, d')"
      by (simp add: download_finish_def)
    then show ?thesis by (rule fail) simp
  next
    case (Some rr)
    consider (cancel) "rr_terminated_by rr = Some ''cancel''"
      | (ok) "rr_terminated_by rr \<noteq> Some ''cancel''" "rr_classification rr = CL_Ok"
      | (bad) "rr_terminated_by rr \<noteq> Some ''cancel''" "rr_classification rr \<noteq> CL_Ok" by blast
    then show ?thesis
    proof cases
      case cancel
      with Some assms have "r = Inr (plain_result TO_Cancelled None)" "d' = d" by (simp_all add: download_finish_def)
      with assms show ?thesis by (simp add: plain_result_def handler_moves_def result_ok_def)
    next
      case ok
      with Some assms(4) show ?thesis
        by (intro download_success_target[OF assms(1-3)]) (simp add: download_finish_def)
    next
      case bad
      with Some assms(4) have "download_failure target_id (rr_classification rr) (rr_stderr_tail rr)
          (Some (rr_reason_code rr)) now d = (r, d')" by (simp add: download_finish_def)
      then show ?thesis by (rule fail) (rule bad)
    qed
  qed
qed

definition startable :: "target_status set" where
  "startable = {TG_Pending, TG_Queued, TG_Downloading, TG_Failed, TG_Blocked}"

lemma wf_move_along: "wf_table tgs \<Longrightarrow> wf_table (snd (move_along tid ss now tgs))"
proof (induction ss arbitrary: tgs)
  case (Cons s ss)
  have "wf_table (snd (move_target tid s now tgs))"
    unfolding move_target_def by (rule wf_transition_target[OF Cons.prems])
  with Cons.IH show ?case by (auto split: prod.splits sum.splits)
qed simp

lemma wf_advance_target:
  assumes "wf_table tgs"
  shows "wf_table (snd (advance_target tid st now tgs))"
proof -
  have f: "wf_table (snd (advance_from tid s st now u))" if "wf_table u" for s u
    using wf_move_along[OF that] that by (auto simp: advance_from_def split: option.splits)
  have "wf_table (snd (move_target tid TG_Pending now tgs))"
    unfolding move_target_def by (rule wf_transition_target[OF assms])
  with f assms show ?thesis
    by (auto simp: advance_target_def Let_def split: option.splits prod.splits sum.splits)
qed

lemma advance_target_any:
  assumes "wf_table tgs" "tget tgs tid = Some g" "tg_status g = st \<or> advanceable (tg_status g) st"
  shows "\<exists>b tgs' u. advance_target tid st now tgs = (Inr b, tgs') \<and> wf_table tgs' \<and> tget tgs' tid = Some u \<and>
    moved_row st g u \<and> (\<forall>j. j \<noteq> tid \<longrightarrow> tget tgs' j = tget tgs j)"
proof (cases "tg_status g = st")
  case True
  then show ?thesis using advance_target_same[OF assms(1,2)] assms by (auto simp: moved_row_def)
next
  case False
  obtain tgs' u where a: "advance_target tid st now tgs = (Inr True, tgs')" "tget tgs' tid = Some u"
    "moved_row st g u" "\<forall>j. j \<noteq> tid \<longrightarrow> tget tgs' j = tget tgs j"
    using advance_target_forward[OF assms(1,2) False] assms(3) False by blast
  then have "wf_table tgs'" using wf_advance_target[OF assms(1), of tid st now] by simp
  with a show ?thesis by blast
qed

lemma download_run_target:
  assumes wf: "wf_table (db_targets d)"
    and p: "json_int (jget payload ''target_id'') = Some target_id" "jget payload ''work_id'' = JStr work_id"
      "work_id \<noteq> []"
    and g: "target_graph d target_id = Some (g, it, pp, pf, pl)" "tg_status g \<in> startable"
    and run: "download_run he now payload d = (r, reports, evs, d')"
  shows "db_tasks d' = db_tasks d \<and> wf_table (db_targets d') \<and>
    (\<forall>j. j \<noteq> target_id \<longrightarrow> tget (db_targets d') j = tget (db_targets d) j) \<and>
    (\<exists>g'. tget (db_targets d') target_id = Some g' \<and>
       handler_moves TG_Downloading r (tg_status g') (tg_retry_count g' - tg_retry_count g)) \<and> result_ok he work_id r"
proof -
  have gt: "tget (db_targets d) target_id = Some g"
    using g(1) by (simp add: target_graph_def split: option.splits)
  have "tg_status g = TG_Downloading \<or> advanceable (tg_status g) TG_Downloading"
    using g(2) by (auto simp: startable_def advanceable_def advance_rank_def advance_order_def)
  from advance_target_any[OF wf gt this, of now] obtain b tgs' u where
    a: "advance_target target_id TG_Downloading now (db_targets d) = (Inr b, tgs')" "wf_table tgs'"
      "tget tgs' target_id = Some u" "moved_row TG_Downloading g u"
      "\<forall>j. j \<noteq> target_id \<longrightarrow> tget tgs' j = tget (db_targets d) j" by blast
  let ?d1 = "d\<lparr>db_targets := tgs'\<rparr>"
  let ?build = "build_download_args (hv_settings_env he) (hv_settings he) (hv_other_field he)
    (request_of he target_id work_id it pp pf pl)"
  obtain c w where w: "work_id = c # w" using p(3) by (cases work_id) auto
  have u: "tg_status u = TG_Downloading" "tg_retry_count u = tg_retry_count g" using a(4) by (simp_all add: moved_row_def)
  show ?thesis
  proof (cases ?build)
    case (Inl e)
    then have "r = Inl e" "d' = ?d1" using run p g(1) a(1) w by (simp_all add: download_run_def Let_def)
    then show ?thesis using a(2,3,5) u by (auto simp: handler_moves_def result_ok_def)
  next
    case (Inr built)
    obtain result pevs where rc: "run_with_cookie he pl (it_source_url it) (bc_args built) = (result, pevs)"
      by (cases "run_with_cookie he pl (it_source_url it) (bc_args built)")
    obtain r' d2 where f: "download_finish he target_id work_id result now ?d1 = (r', d2)"
      by (cases "download_finish he target_id work_id result now ?d1")
    have "r = r'" "d' = d2"
      using run p(1,2) g(1) a(1) Inr rc f unfolding w by (simp_all add: download_run_def Let_def)
    then show ?thesis
      using download_finish_target[of ?d1 target_id u he work_id result now r d'] f a(2,3,5) u by auto
  qed
qed

text \<open>What is left of the Target once the worker has settled the task.\<close>

lemma cas_target_row:
  assumes "wf_table tgs" "tget tgs tid = Some g"
  shows "fst (compare_and_set_status tid E n err br inc id now tgs) \<longleftrightarrow> tg_status g \<in> E"
    "tget (snd (compare_and_set_status tid E n err br inc id now tgs)) tid =
      Some (if tg_status g \<in> E then target_cas_row n err br inc id now g else g)"
proof -
  show f: "fst (compare_and_set_status tid E n err br inc id now tgs) \<longleftrightarrow> tg_status g \<in> E"
    using assms by (simp add: compare_and_set_status_fst target_status_of_def)
  show "tget (snd (compare_and_set_status tid E n err br inc id now tgs)) tid =
      Some (if tg_status g \<in> E then target_cas_row n err br inc id now g else g)"
    using compare_and_set_status_snd[OF assms] compare_and_set_status_failed f assms by (cases "tg_status g \<in> E") auto
qed

definition attempt_end :: "target_status \<Rightarrow> task_outcome \<Rightarrow> task_status \<Rightarrow> target_status \<Rightarrow> int \<Rightarrow> bool" where
  "attempt_end stage oc st s n \<longleftrightarrow>
     (case st of
        TS_Succeeded \<Rightarrow> s = stage \<and> n = 0
      | TS_Pending \<Rightarrow> s = TG_Failed \<and> n = 1
      | TS_Blocked \<Rightarrow> s = TG_Blocked \<and> n = 0
      | TS_Unavailable \<Rightarrow> s = TG_Unavailable \<and> n = (if oc = TO_Failed then 1 else 0)
      | TS_Cancelled \<Rightarrow> s = TG_Failed \<and> (if oc = TO_Failed then n \<in> {0, 1} else n = 0)
      | _ \<Rightarrow> False)"

lemma followed_target_end:
  assumes "wf_table tgs" "tget tgs tid = Some g" "tk_target_ref_type t = ''target''" "tk_target_ref_id t = tid"
    and hm: "handler_moves stage r (tg_status g) n" and st: "st = settled_status (tr_outcome (outcome_of r)) t"
    and stage: "stage \<in> {TG_Downloading, TG_Processing}"
  shows "\<exists>g'. tget (followed_targets t (outcome_of r) st now tgs) tid = Some g' \<and>
    attempt_end stage (tr_outcome (outcome_of r)) st (tg_status g') (n + (tg_retry_count g' - tg_retry_count g))"
proof -
  note rows = cas_target_row[OF assms(1,2)]
  let ?oc = "tr_outcome (outcome_of r)"
  have hm': "tg_status g = (case ?oc of TO_Failed \<Rightarrow> (case r of Inl _ \<Rightarrow> stage | Inr _ \<Rightarrow> TG_Failed)
       | TO_Unavailable \<Rightarrow> TG_Unavailable | TO_Blocked \<Rightarrow> TG_Blocked | _ \<Rightarrow> stage) \<and>
     n = (case r of Inl _ \<Rightarrow> 0 | Inr _ \<Rightarrow> if ?oc = TO_Failed then 1 else 0)"
    using hm by (cases r) (auto simp: handler_moves_def outcome_of_def failed_result_def split: task_outcome.splits)
  show ?thesis
  proof (cases ?oc)
    case TO_Succeeded
    then show ?thesis using hm' st assms(2)
      by (cases r) (auto simp: followed_targets_def attempt_end_def settled_status_def)
  next
    case TO_Cancelled
    then show ?thesis using hm' st assms(3,4) rows stage
      by (cases r) (auto simp: followed_targets_def attempt_end_def settled_status_def sync_target_after_task_def
          active_target_statuses_def target_cas_row_def)
  next
    case TO_Unavailable
    then show ?thesis using hm' st assms(3,4) rows stage assms(2)
      by (cases r) (auto simp: followed_targets_def attempt_end_def settled_status_def sync_target_after_task_def
          active_target_statuses_def target_cas_row_def)
  next
    case TO_Blocked
    then have "st = TS_Cancelled \<or> st = TS_Blocked" using st by (simp add: settled_status_def)
    then show ?thesis using TO_Blocked hm' assms(2-4) rows stage
      by (cases r) (auto simp: followed_targets_def attempt_end_def sync_target_after_task_def
          active_target_statuses_def target_cas_row_def)
  next
    case TO_Failed
    then have "st = TS_Cancelled \<or> st = TS_Unavailable \<or> st = TS_Pending"
      using st by (simp add: settled_status_def retry_outcome_def)
    then show ?thesis
    proof (elim disjE)
      assume "st = TS_Cancelled"
      then show ?thesis using TO_Failed hm' assms(2-4) rows stage
        by (cases r) (auto simp: followed_targets_def attempt_end_def sync_target_after_task_def
            active_target_statuses_def target_cas_row_def)
    next
      assume "st = TS_Unavailable"
      then show ?thesis using TO_Failed hm' assms(2-4) rows stage
          compare_and_set_status_failed[of tid "{TG_Failed}"]
        by (cases r) (auto simp: followed_targets_def attempt_end_def sync_target_after_task_def Let_def
            active_target_statuses_def target_cas_row_def)
    next
      assume "st = TS_Pending"
      then show ?thesis using TO_Failed hm' assms(2-4) rows stage
        by (cases r) (auto simp: followed_targets_def attempt_end_def sync_target_after_task_def
            active_target_statuses_def target_cas_row_def)
    qed
  qed
qed

lemma followed_targets_frame:
  "j \<noteq> tk_target_ref_id t \<Longrightarrow> tget (followed_targets t result st now tgs) j = tget tgs j"
  by (simp add: followed_targets_def sync_target_after_task_def Let_def compare_and_set_status_frame)

text \<open>
  Claim C5: executing a download task counts a failed attempt exactly once. Whatever yt-dlp did, the
  worker settles the task and the Target ends where the task says: downloading after a success, failed with one more
  retry when the task waits for its next attempt, blocked without one, unavailable when it is given up,
  failed after a cancellation. A success means a regular file of the recorded size below the work
  directory. No other Target changes.
\<close>

theorem download_attempt_spec:
  assumes "wf_table (db_tasks d)" "wf_table (db_targets d)"
    and "tget (db_tasks d) tid = Some t" "owned tid w tid t" "0 \<le> tk_attempts t"
    and "handlers (tk_type t) = Some (\<lambda>p d. clocked clock (download_run he now p d))"
    and "tk_target_ref_type t = ''target''" "tk_target_ref_id t = target_id"
    and "json_int (jget (execution_payload tid t) ''target_id'') = Some target_id"
    and "jget (execution_payload tid t) ''work_id'' = JStr work_id" "work_id \<noteq> []"
    and "target_graph d target_id = Some (g, it, pp, pf, pl)" "tg_status g \<in> startable"
    and "\<not> ex_shutdown ex" "\<not> ex_cancel_seen ex"
  shows "\<exists>r t' g' evs d'. fst (download_run he now (execution_payload tid t) d) = r \<and>
    execute_task jp cfg w handlers ex tid t d = (None, evs, d') \<and>
    tget (db_tasks d') tid = Some t' \<and> tk_status t' = settled_status (tr_outcome (outcome_of r)) t \<and>
    tget (db_targets d') target_id = Some g' \<and>
    attempt_end TG_Downloading (tr_outcome (outcome_of r)) (tk_status t') (tg_status g') (tg_retry_count g' - tg_retry_count g) \<and>
    (if tk_status t' = TS_Succeeded then result_ok he work_id r else True) \<and>
    (\<forall>j. j \<noteq> target_id \<longrightarrow> tget (db_targets d') j = tget (db_targets d) j)"
proof -
  obtain r reports evs0 d1 where run: "download_run he now (execution_payload tid t) d = (r, reports, evs0, d1)"
    by (cases "download_run he now (execution_payload tid t) d")
  note h = download_run_target[OF assms(2,9-13) run]
  then obtain u where u: "tget (db_targets d1) target_id = Some u"
    "handler_moves TG_Downloading r (tg_status u) (tg_retry_count u - tg_retry_count g)" by blast
  let ?st = "settled_status (tr_outcome (outcome_of r)) t"
  obtain r' evs' d' where e: "execute_task jp cfg w handlers ex tid t d = (None, evs', d')"
    "tget (db_tasks d') tid = Some r'" "tk_status r' = ?st"
    "db_targets d' = followed_targets t (outcome_of r) ?st (ex_now ex) (db_targets d1)"
    using execute_task_settles[where run = "download_run he now" and st = ?st and handlers = handlers and t = t, OF assms(1,3-6) run conjunct1[OF h] assms(14,15)] by blast
  obtain g' where g': "tget (db_targets d') target_id = Some g'"
    "attempt_end TG_Downloading (tr_outcome (outcome_of r)) ?st (tg_status g')
       (tg_retry_count u - tg_retry_count g + (tg_retry_count g' - tg_retry_count u))"
    using followed_target_end[OF _ u(1) assms(7,8) u(2) refl, of "ex_now ex"] h e(4) by auto
  have "tget (db_targets d') j = tget (db_targets d) j" if "j \<noteq> target_id" for j
    using that h e(4) assms(8) followed_targets_frame[of j t] by auto
  with e g' h run show ?thesis by (intro exI[of _ r] exI[of _ r'] exI[of _ g'] exI[of _ evs'] exI[of _ d']) auto
qed

definition attempt_env :: "ytdlp_process \<Rightarrow> handler_env" where
  "attempt_env process = \<lparr>hv_settings_env = sample_settings_env, hv_settings = [],
     hv_other_field = (\<lambda>_. Inl KeyError), hv_staging_dir = ''/s'', hv_env_allow_exec = False,
     hv_process = process, hv_probe_process = (\<lambda>_. ([], \<lparr>ps_returncode = 1, ps_stderr_text = [],
       ps_stderr_tail = [], ps_terminated_by = None\<rparr>)),
     hv_cookie_path = None, hv_cookie_removed = True, hv_resolve = Some, hv_work_root = (\<lambda>w. ''/s/'' @ w),
     hv_is_file = (\<lambda>_. True), hv_size = (\<lambda>_. Some 9), hv_sha256 = (\<lambda>_. Inr []), hv_delete_staging = False,
     hv_unlink = (\<lambda>_. False), hv_isoformat = (\<lambda>_. []), hv_fromisoformat = (\<lambda>_. None)\<rparr>"

definition attempt_task :: task where
  "attempt_task = (new_task TT_Download ''target'' 1
       (Some (JObj [(''target_id'', JInt 1), (''work_id'', JStr ''w'')])) WC_Network 3 None 0)
     \<lparr>tk_status := TS_Running, tk_worker_id := Some ''w'', tk_attempts := 0\<rparr>"

definition attempt_db :: db where
  "attempt_db = empty_db\<lparr>db_tasks := [(4, attempt_task)], db_targets := [(1, (new_target 1 1 0)\<lparr>tg_status := TG_Queued\<rparr>)],
     db_items := [(1, new_item 1 (sample_entry ''a'') 0 0)], db_playlists := [(1, sample_playlist)],
     db_assignments := [(1, sample_assignment\<lparr>pp_subpath := ''music''\<rparr>)], db_profiles := [(1, (sample_profile\<lparr>pf_ytdlp_args := None\<rparr>))]\<rparr>"

definition failing :: ytdlp_process where
  "failing args hidden = ([], \<lparr>ps_returncode = 1, ps_stderr_text = [], ps_stderr_tail = [], ps_terminated_by = None\<rparr>)"

lemma attempt_built:
  "isl (build_download_args sample_settings_env [] (\<lambda>_. Inl KeyError)
     (request_of (attempt_env failing) 1 ''w'' (new_item 1 (sample_entry ''a'') 0 0)
        (sample_assignment\<lparr>pp_subpath := ''music''\<rparr>) (sample_profile\<lparr>pf_ytdlp_args := None\<rparr>) sample_playlist)) = False"
  by code_simp

lemma attempt_stderr: "classify_download 1 [] = (CL_Failed, ''unknown_error'')"
  by code_simp

definition plain_execution :: execution where
  "plain_execution = \<lparr>ex_shutdown = False, ex_cancel_seen = False, ex_final_time = 9, ex_log = None,
     ex_now = 7, ex_random = 0\<rparr>"

theorem download_attempt_spec_witness:
  "\<exists>evs d' g'. execute_task (\<lambda>a b. a) sample_worker_config ''w''
       (\<lambda>_. Some (\<lambda>p d. clocked of_nat (download_run (attempt_env failing) 7 p d)))
       plain_execution 4 attempt_task attempt_db = (None, evs, d') \<and>
     tget (db_targets d') 1 = Some g' \<and> tg_status g' = TG_Failed \<and> tg_retry_count g' = 1"
proof -
  let ?g = "(new_target 1 1 0)\<lparr>tg_status := TG_Queued\<rparr>"
  have h: "wf_table (db_tasks attempt_db)" "wf_table (db_targets attempt_db)"
    "tget (db_tasks attempt_db) 4 = Some attempt_task" "owned 4 ''w'' 4 attempt_task" "0 \<le> tk_attempts attempt_task"
    "tk_target_ref_type attempt_task = ''target''" "tk_target_ref_id attempt_task = 1"
    "tg_status ?g \<in> startable" "\<not> ex_shutdown plain_execution" "\<not> ex_cancel_seen plain_execution"
    by (simp_all add: attempt_db_def empty_db_def wf_table_def ids_def tget_def attempt_task_def new_task_def
        owned_def startable_def plain_execution_def)
  have p: "json_int (jget (execution_payload 4 attempt_task) ''target_id'') = Some 1"
    "jget (execution_payload 4 attempt_task) ''work_id'' = JStr ''w''" "''w'' \<noteq> []" by code_simp+
  have g: "target_graph attempt_db 1 = Some (?g, new_item 1 (sample_entry ''a'') 0 0,
      sample_assignment\<lparr>pp_subpath := ''music''\<rparr>, (sample_profile\<lparr>pf_ytdlp_args := None\<rparr>), sample_playlist)"
    by (simp add: target_graph_def attempt_db_def empty_db_def tget_def new_target_def new_item_def
        sample_assignment_def)
  have s: "settled_status TO_Failed attempt_task = TS_Pending" "tg_retry_count ?g = 0"
    by (simp_all add: settled_status_def retry_outcome_def attempts_exhausted_def attempt_task_def new_task_def new_target_def)
  obtain cmd where cmd: "build_download_args sample_settings_env [] (\<lambda>_. Inl KeyError)
     (request_of (attempt_env failing) 1 ''w'' (new_item 1 (sample_entry ''a'') 0 0)
        (sample_assignment\<lparr>pp_subpath := ''music''\<rparr>) (sample_profile\<lparr>pf_ytdlp_args := None\<rparr>) sample_playlist) = Inr cmd"
    using attempt_built by (metis isl_def sum.collapse(2))
  have run: "tr_outcome (outcome_of (fst (download_run (attempt_env failing) 7 (execution_payload 4 attempt_task) attempt_db))) = TO_Failed"
  proof -
    have adv: "advance_target 1 TG_Downloading 7 (db_targets attempt_db) =
        (Inr True, [(1, target_cas_row TG_Downloading None None False id 7 ?g)])"
      by (simp add: attempt_db_def advance_target_def tget_def advance_order_def advance_from_def move_target_def
          transition_target_def compare_and_set_status_def target_cas_where_def rowcount_def select_where_def
          update_where_def allowed_def)
    have tr: "transition_target [(1, u)] 1 TG_Failed e b True id 7 [(1, u)] =
        (Inr True, set_row 1 (target_cas_row TG_Failed e b True id 7) [(1, u)])"
      if "tg_status u = TG_Downloading" for u e b
      using that by (intro transition_target_ok[where s = u and t = u]) (simp_all add: wf_table_def ids_def tget_def)
    have down: "tg_status (target_cas_row TG_Downloading None None False id 7 ?g) = TG_Downloading"
      by (simp add: target_cas_row_def)
    have y: "ytdlp_run loads failing args hidden = \<lparr>rr_returncode = 1, rr_classification = CL_Failed,
        rr_reason_code = ''unknown_error'', rr_stdout_lines = [], rr_progress_events = [], rr_stderr_tail = [],
        rr_terminated_by = None, rr_result_metadata = []\<rparr>" for loads args hidden
      by (simp add: ytdlp_run_def failing_def attempt_stderr no_output_def)
    have "run_with_cookie (attempt_env failing) sample_playlist url args = (Some (ytdlp_run (\<lambda>_. None) failing args [url]), [])" for url args
      by (simp add: run_with_cookie_def materialize_cookie_def sample_playlist_def attempt_env_def y add_cookie_argument_def sample_settings_env_def)
    moreover have "hv_settings_env (attempt_env failing) = sample_settings_env" "hv_settings (attempt_env failing) = []"
      "hv_other_field (attempt_env failing) = (\<lambda>_. Inl KeyError)" by (simp_all add: attempt_env_def)
    moreover note p g adv cmd
    ultimately show ?thesis
      by (simp add: download_run_def download_finish_def download_failure_def download_failure_of_def Let_def tr[OF down] y outcome_of_def)
  qed
  from download_attempt_spec[where handlers = "\<lambda>_. Some (\<lambda>p d. clocked of_nat (download_run (attempt_env failing) 7 p d))"
      and t = attempt_task and clock = of_nat and he = "attempt_env failing" and now = 7,
      OF h(1-5) refl h(6,7) p g h(8-10), of "\<lambda>a b. a" sample_worker_config]
  show ?thesis by (auto simp: run s attempt_end_def)
qed

end
