(* ===== verification/Publishing_Theorems.thy ===== *)
theory Publishing_Theorems
  imports Handler_Theorems
begin

text \<open>
  What the publish handler does to a storage: it writes only where nothing of a known size is, from a file
  inside the work directory, above the free-space threshold, and it claims success only for a file of the
  expected size or one it has confirmed.
\<close>

section \<open>Conditions\<close>

text \<open>When the handler gives the adapter a file to write.\<close>

definition space_ok :: "'s publish_job \<Rightarrow> 's \<Rightarrow> bool" where
  "space_ok pj w \<longleftrightarrow>
     (case ad_free_space (pj_adapter pj) w of
        Inl _ \<Rightarrow> False
      | Inr free \<Rightarrow> (case evaluate_capacity free (pj_warn_bytes pj) (pj_stop_bytes pj) of
            Inl _ \<Rightarrow> False | Inr c \<Rightarrow> \<not> should_block c))"

definition may_write :: "handler_env \<Rightarrow> 's publish_job \<Rightarrow> string \<Rightarrow> string \<Rightarrow> 's \<Rightarrow> bool" where
  "may_write he pj resolved destination w \<longleftrightarrow>
     space_ok pj w \<and> hv_size he resolved \<noteq> None \<and>
     existing_size (pj_adapter pj) w destination \<in> {Inr None, Inr (Some None)}"

text \<open>What stands behind a success.\<close>

definition confirmed :: "handler_env \<Rightarrow> 's publish_job \<Rightarrow> string \<Rightarrow> string \<Rightarrow> 's \<Rightarrow> 's \<Rightarrow> (string \<times> json) list \<Rightarrow> bool" where
  "confirmed he pj resolved destination w w' u \<longleftrightarrow>
     (\<exists>n. hv_size he resolved = Some n \<and>
       (existing_size (pj_adapter pj) w destination = Inr (Some (Some n)) \<and> w' = w \<and>
          u = published_payload pj destination (Some n) True []
        \<or> (\<exists>sha. fst (try_hardlink pj destination n sha w) = Inr True \<and> w' = snd (try_hardlink pj destination n sha w) \<and>
             u = published_payload pj destination (Some n) False [(''publish_hardlinked'', JBool True)])
        \<or> (\<exists>w1 rs. ad_publish (pj_adapter pj) resolved destination w1 = (Inr rs, w') \<and> pr_success rs \<and>
             ad_exists (pj_adapter pj) w' destination = Inr True \<and>
             u = published_payload pj (pr_dest_rel rs) (pr_size rs) False [])))"

definition publish_ok :: "handler_env \<Rightarrow> 's publish_job \<Rightarrow> string \<Rightarrow> string \<Rightarrow> 's \<Rightarrow> exn + task_result \<Rightarrow> 's \<Rightarrow> bool" where
  "publish_ok he pj resolved destination w r w' \<longleftrightarrow>
     (if w' = w then True else may_write he pj resolved destination w) \<and>
     (case r of
        Inl _ \<Rightarrow> True
      | Inr res \<Rightarrow> if tr_outcome res = TO_Succeeded
                   then space_ok pj w \<and>
                        (case tr_payload_update res of None \<Rightarrow> False
                         | Some u \<Rightarrow> confirmed he pj resolved destination w w' u) else True)"

section \<open>The steps\<close>

lemma publish_failure_outcome:
  "publish_failure tid c m now d = (Inr res, d') \<Longrightarrow> tr_outcome res \<noteq> TO_Succeeded"
  by (auto simp: publish_failure_def Let_def plain_result_def split: prod.splits sum.splits if_splits)

lemma fail_publish_ok:
  assumes "fail_publish tid c m now reports d w1 = (r, reports', d', w')"
    and "if w1 = w then True else may_write he pj resolved destination w"
  shows "publish_ok he pj resolved destination w r w'"
  using assms publish_failure_outcome
  by (auto simp: publish_ok_def fail_publish_def split: prod.splits sum.splits)

lemma publish_exception_ok:
  assumes "publish_exception tid e now reports d w1 = (r, reports', d', w')"
    and "if w1 = w then True else may_write he pj resolved destination w"
  shows "publish_ok he pj resolved destination w r w'"
proof (cases "\<exists>c reason. e = StorageOperationError c reason")
  case True
  then obtain c reason where "e = StorageOperationError c reason" by blast
  with assms(1) have "fail_publish tid (classification_of_value c) reason now reports d w1 = (r, reports', d', w')"
    by (simp add: publish_exception_def)
  then show ?thesis by (rule fail_publish_ok) (rule assms(2))
next
  case False
  then have "publish_exception tid e now reports d w1 = (Inl e, reports, d, w1)"
    by (cases e) (simp_all add: publish_exception_def)
  with assms show ?thesis by (auto simp: publish_ok_def)
qed

lemma publish_copy_ok:
  assumes "publish_copy pj resolved destination now d w1 = (r, reports, d', w')"
    and ok: "may_write he pj resolved destination w"
  shows "publish_ok he pj resolved destination w r w'"
proof -
  note any = fail_publish_ok[where he = he and pj = pj and resolved = resolved and destination = destination and w = w]
    publish_exception_ok[where he = he and pj = pj and resolved = resolved and destination = destination and w = w]
  obtain a w2 where p: "ad_publish (pj_adapter pj) resolved destination w1 = (a, w2)" by fastforce
  show ?thesis
  proof (cases a)
    case (Inl e)
    with assms(1) p have "publish_exception (pj_target_id pj) e now [publishing] d w2 = (r, reports, d', w')"
      by (simp add: publish_copy_def)
    then show ?thesis by (rule any(2)) (simp add: ok)
  next
    case (Inr rs)
    show ?thesis
    proof (cases "pr_success rs")
      case False
      with assms(1) p Inr have "fail_publish (pj_target_id pj) (pr_classification rs) msg_publish_failed now [publishing] d w2
          = (r, reports, d', w')" by (simp add: publish_copy_def)
      then show ?thesis by (rule any(1)) (simp add: ok)
    next
      case True
      consider e where "ad_exists (pj_adapter pj) w2 destination = Inl e"
        | "ad_exists (pj_adapter pj) w2 destination = Inr False" | "ad_exists (pj_adapter pj) w2 destination = Inr True"
        by (cases "ad_exists (pj_adapter pj) w2 destination") auto
      then show ?thesis
      proof cases
        case 1
        with assms p Inr True show ?thesis by (auto simp: publish_copy_def publish_ok_def)
      next
        case 2
        with assms(1) p Inr True have "fail_publish (pj_target_id pj) SC_Failed msg_not_confirmed now [publishing] d w2
          = (r, reports, d', w')" by (simp add: publish_copy_def)
        then show ?thesis by (rule any(1)) (simp add: ok)
      next
        case 3
        then have "r = Inr (done_result (published_payload pj (pr_dest_rel rs) (pr_size rs) False []))" "w' = w2"
          using assms(1) p Inr True by (simp_all add: publish_copy_def)
        moreover from ok obtain n where "hv_size he resolved = Some n" by (auto simp: may_write_def)
        moreover have "space_ok pj w" using ok by (simp add: may_write_def)
        ultimately show ?thesis using ok p Inr True 3
          unfolding publish_ok_def confirmed_def done_result_def by auto
      qed
    qed
  qed
qed

lemma publish_new_ok:
  assumes "publish_new pj resolved destination n sha now d w = (r, reports, d', w')"
    and ok: "may_write he pj resolved destination w" and n: "hv_size he resolved = Some n"
  shows "publish_ok he pj resolved destination w r w'"
proof -
  obtain a w1 where h: "try_hardlink pj destination n sha w = (a, w1)" by fastforce
  consider e where "a = Inl e" | "a = Inr False" | "a = Inr True" by (cases a) auto
  then show ?thesis
  proof cases
    case 1
    with assms h show ?thesis by (auto simp: publish_new_def publish_ok_def)
  next
    case 2
    with assms(1) h have "publish_copy pj resolved destination now d w1 = (r, reports, d', w')"
      by (simp add: publish_new_def)
    then show ?thesis by (rule publish_copy_ok) (rule ok)
  next
    case 3
    let ?u = "published_payload pj destination (Some n) False [(''publish_hardlinked'', JBool True)]"
    have r: "r = Inr (done_result ?u)" "w' = w1"
      using assms(1) h 3 by (simp_all add: publish_new_def)
    have "fst (try_hardlink pj destination n sha w) = Inr True" "w' = snd (try_hardlink pj destination n sha w)"
      using h 3 r by simp_all
    then have "confirmed he pj resolved destination w w' ?u"
      unfolding confirmed_def using n by blast
    with r ok show ?thesis by (simp add: publish_ok_def done_result_def may_write_def)
  qed
qed

lemma publish_transfer_ok:
  assumes "publish_transfer he pj resolved destination now d w = (r, reports, d', w')"
  shows "publish_ok he pj resolved destination w r w'"
proof -
  note fail = fail_publish_ok[where he = he and pj = pj and resolved = resolved and destination = destination and w = w and ?w1.0 = w]
  note raised = publish_exception_ok[where he = he and pj = pj and resolved = resolved and destination = destination and w = w and ?w1.0 = w]
  show ?thesis
  proof (cases "ad_free_space (pj_adapter pj) w")
    case (Inl e)
    with assms have "publish_exception (pj_target_id pj) e now [] d w = (r, reports, d', w')"
      by (simp add: publish_transfer_def)
    then show ?thesis by (rule raised) simp
  next
    case free: (Inr free)
    show ?thesis
    proof (cases "evaluate_capacity free (pj_warn_bytes pj) (pj_stop_bytes pj)")
      case (Inl e)
      with assms free have "publish_exception (pj_target_id pj) e now [] d w = (r, reports, d', w')"
        by (simp add: publish_transfer_def)
      then show ?thesis by (rule raised) simp
    next
      case cap: (Inr c)
      show ?thesis
      proof (cases "should_block c")
        case True
        with assms free cap have "fail_publish (pj_target_id pj) SC_No_space msg_no_space now [] d w = (r, reports, d', w')"
          by (simp add: publish_transfer_def)
        then show ?thesis by (rule fail) simp
      next
        case room: False
        then have space: "space_ok pj w" using free cap by (simp add: space_ok_def)
        show ?thesis
        proof (cases "hv_size he resolved")
          case None
          with assms free cap room show ?thesis by (auto simp: publish_transfer_def publish_ok_def)
        next
          case n: (Some n)
          let ?sha = "if pj_dedup pj = None then Inr [] else hv_sha256 he resolved"
          show ?thesis
          proof (cases ?sha)
            case (Inl e)
            with assms free cap room n have "publish_exception (pj_target_id pj) e now [] d w = (r, reports, d', w')"
              unfolding publish_transfer_def Let_def by simp
            then show ?thesis by (rule raised) simp
          next
            case sha: (Inr sha)
            have t: "publish_transfer he pj resolved destination now d w =
                (case existing_size (pj_adapter pj) w destination of
                   Inl e \<Rightarrow> publish_exception (pj_target_id pj) e now [] d w
                 | Inr (Some (Some m)) \<Rightarrow>
                     if m \<noteq> n then fail_publish (pj_target_id pj) SC_Failed msg_size_differs now [] d w
                     else (Inr (done_result (published_payload pj destination (Some m) True [])), [], d, w)
                 | Inr _ \<Rightarrow> publish_new pj resolved destination n sha now d w)"
              unfolding publish_transfer_def Let_def sha using free cap room n by simp
            consider e where "existing_size (pj_adapter pj) w destination = Inl e"
              | m where "existing_size (pj_adapter pj) w destination = Inr (Some (Some m))" "m \<noteq> n"
              | "existing_size (pj_adapter pj) w destination = Inr (Some (Some n))"
              | "existing_size (pj_adapter pj) w destination \<in> {Inr None, Inr (Some None)}"
              by (cases "existing_size (pj_adapter pj) w destination"; simp; metis option.exhaust)
            then show ?thesis
            proof cases
              case 1
              with t assms have "publish_exception (pj_target_id pj) e now [] d w = (r, reports, d', w')" by simp
              then show ?thesis by (rule raised) simp
            next
              case 2
              with t assms have "fail_publish (pj_target_id pj) SC_Failed msg_size_differs now [] d w = (r, reports, d', w')"
                by simp
              then show ?thesis by (rule fail) simp
            next
              case 3
              let ?u = "published_payload pj destination (Some n) True []"
              have "confirmed he pj resolved destination w w ?u" unfolding confirmed_def using n 3 by blast
              with 3 t assms space show ?thesis by (auto simp: publish_ok_def done_result_def)
            next
              case 4
              then have mw: "may_write he pj resolved destination w" using space n by (simp add: may_write_def)
              from 4 have "publish_new pj resolved destination n sha now d w = (r, reports, d', w')"
                using t assms by auto
              then show ?thesis by (rule publish_new_ok[OF _ mw n])
            qed
          qed
        qed
      qed
    qed
  qed
qed

section \<open>The Target\<close>

text \<open>The database is left alone, or the failure is recorded on the Target.\<close>

definition settles :: "int \<Rightarrow> instant \<Rightarrow> db \<Rightarrow> exn + task_result \<Rightarrow> db \<Rightarrow> bool" where
  "settles tid now d r d' \<longleftrightarrow>
     d' = d \<and> (case r of Inl _ \<Rightarrow> True | Inr res \<Rightarrow> tr_outcome res = TO_Succeeded)
     \<or> (\<exists>c m. publish_failure tid c m now d = (r, d'))"

lemma settles_raised: "settles tid now d (Inl e) d"
  by (simp add: settles_def)

lemma settles_done: "settles tid now d (Inr (done_result u)) d"
  by (simp add: settles_def done_result_def)

lemma settles_failed: "fail_publish tid c m now reports d w = (r, reports', d', w') \<Longrightarrow> settles tid now d r d'"
  by (auto simp: settles_def fail_publish_def split: prod.splits)

lemma settles_exception:
  assumes "publish_exception tid e now reports d w = (r, reports', d', w')"
  shows "settles tid now d r d'"
proof (cases "\<exists>c reason. e = StorageOperationError c reason")
  case True
  with assms show ?thesis using settles_failed unfolding publish_exception_def by fastforce
next
  case False
  then have "publish_exception tid e now reports d w = (Inl e, reports, d, w)"
    by (cases e) (simp_all add: publish_exception_def)
  with assms settles_raised show ?thesis by auto
qed

lemmas settling = settles_raised settles_done settles_failed settles_exception

lemma settles_copy:
  "publish_copy pj resolved destination now d w = (r, reports, d', w') \<Longrightarrow> settles (pj_target_id pj) now d r d'"
  unfolding publish_copy_def
  by (auto split: prod.splits sum.splits if_splits bool.splits intro: settling)

lemma settles_new:
  "publish_new pj resolved destination n sha now d w = (r, reports, d', w') \<Longrightarrow> settles (pj_target_id pj) now d r d'"
  unfolding publish_new_def
  by (auto split: prod.splits sum.splits bool.splits intro: settling settles_copy)

lemma settles_transfer:
  "publish_transfer he pj resolved destination now d w = (r, reports, d', w') \<Longrightarrow> settles (pj_target_id pj) now d r d'"
  unfolding publish_transfer_def Let_def
  by (auto split: prod.splits sum.splits if_splits option.splits intro: settling settles_new)

lemma settles_moves:
  assumes "wf_table (db_targets d)" "tget (db_targets d) tid = Some g" "tg_status g = TG_Processing"
    "settles tid now d r d'"
  shows "db_tasks d' = db_tasks d \<and> (\<forall>j. j \<noteq> tid \<longrightarrow> tget (db_targets d') j = tget (db_targets d) j) \<and>
    (\<exists>g'. tget (db_targets d') tid = Some g' \<and>
       handler_moves TG_Processing r (tg_status g') (tg_retry_count g' - tg_retry_count g))"
proof -
  consider "d' = d" "case r of Inl _ \<Rightarrow> True | Inr res \<Rightarrow> tr_outcome res = TO_Succeeded"
    | c m where "publish_failure tid c m now d = (r, d')"
    using assms(4) unfolding settles_def by blast
  then show ?thesis
  proof cases
    case 1
    then show ?thesis using assms(2,3) by (cases r) (auto simp: handler_moves_def)
  next
    case 2
    let ?b = "c = SC_Unreachable \<or> c = SC_No_space" and ?e = "last_n error_limit m"
    let ?row = "target_cas_row (if ?b then TG_Blocked else TG_Failed) (Some ?e) (if ?b then Some ?e else None) (\<not> ?b) id now"
    have "transition_target (db_targets d) tid (if ?b then TG_Blocked else TG_Failed) (Some ?e)
        (if ?b then Some ?e else None) (\<not> ?b) id now (db_targets d) = (Inr True, set_row tid ?row (db_targets d))"
      using assms(1-3) by (intro transition_target_ok) auto
    then have "r = Inr (plain_result (if ?b then TO_Blocked else TO_Failed) (Some ?e))"
      "d' = d\<lparr>db_targets := set_row tid ?row (db_targets d)\<rparr>"
      using 2 by (simp_all add: publish_failure_def Let_def)
    then show ?thesis using assms(1,2)
      by (cases ?b) (auto simp: handler_moves_def plain_result_def target_cas_row_def)
  qed
qed

section \<open>Publishing\<close>

definition staged_source :: "handler_env \<Rightarrow> string \<Rightarrow> (string \<times> json) list \<Rightarrow> string option" where
  "staged_source he work_id previous =
     (case jget previous ''file_path'' of
        JStr p \<Rightarrow> (case hv_resolve he p of
            None \<Rightarrow> None
          | Some resolved \<Rightarrow> if is_relative_to resolved (hv_work_root he work_id) then Some resolved else None)
      | _ \<Rightarrow> None)"

lemma publish_job_target:
  "publish_job_of he maker tid previous d graph = Inr pj \<Longrightarrow> pj_target_id pj = tid"
  by (auto simp: publish_job_of_def Let_def split: prod.splits sum.splits)

lemma fail_publish_failed:
  assumes "fail_publish tid SC_Failed m now reports d w1 = (r, reports', d', w')"
    "wf_table (db_targets d)" "tget (db_targets d) tid = Some g" "tg_status g = TG_Processing"
  shows "w' = w1 \<and> (\<exists>res. r = Inr res \<and> tr_outcome res = TO_Failed)"
proof -
  have "transition_target (db_targets d) tid TG_Failed e b True id now (db_targets d) =
      (Inr True, set_row tid (target_cas_row TG_Failed e b True id now) (db_targets d))" for e b
    using assms(2-4) by (intro transition_target_ok) auto
  then show ?thesis using assms(1) by (auto simp: fail_publish_def publish_failure_def Let_def plain_result_def)
qed


text \<open>A storage that holds at most one file, of size 9.\<close>

definition one_file_adapter :: "bool storage_adapter" where
  "one_file_adapter = \<lparr>ad_free_space = (\<lambda>_. Inr (Some (10 ^ 12))), ad_exists = (\<lambda>w _. Inr w),
     ad_list_recursive = (\<lambda>_ _. ([], None)), ad_inspect_file = (\<lambda>_ _. Inl FileNotFoundError),
     ad_publish = (\<lambda>_ dest _. (Inr \<lparr>pr_success = True, pr_dest_rel = dest, pr_size = Some 9,
        pr_classification = SC_Ok, pr_reason_code = [], pr_checksum_sha256 = None, pr_temporary_rel = None\<rparr>, True)),
     ad_hardlink_from = (\<lambda>_ _ _ _ w. (Inr False, w)), ad_move = (\<lambda>_ _ w. (Inr (), w)),
     ad_delete_file = (\<lambda>_ _ _ w. (Inr (), w))\<rparr>"

definition publish_db :: db where
  "publish_db = attempt_db\<lparr>db_tasks :=
     [(3, attempt_task\<lparr>tk_status := TS_Succeeded, tk_payload_json := Some (JObj [(''file_path'', JStr ''/s/w/a.mp3'')])\<rparr>),
      (4, attempt_task\<lparr>tk_depends_on_task_id := Some 3\<rparr>)], db_storages := [(1, sample_storage)]\<rparr>"


end
