(* ===== verification/Index_Theorems.thy ===== *)
theory Index_Theorems
  imports Handler_Theorems
begin

text \<open>
  The index handler: one artifact row per file, created before the Target counts as downloaded, and the same
  again when the task is repeated after a crash.
\<close>

text \<open>The unique constraint of the artifact table.\<close>

definition unique_keys :: "artifact table \<Rightarrow> bool" where
  "unique_keys ars \<longleftrightarrow> wf_table ars \<and>
     (\<forall>i j a b. tget ars i = Some a \<longrightarrow> tget ars j = Some b \<longrightarrow> artifact_key a = artifact_key b \<longrightarrow> i = j)"

lemma artifact_with_key_some:
  assumes "wf_table ars" "artifact_with_key k ars = Some (i, a)"
  shows "tget ars i = Some a \<and> artifact_key a = k"
proof -
  from assms(2) obtain n where "n < length ars" "ars ! n = (i, a)" "artifact_key a = k"
    unfolding artifact_with_key_def find_Some_iff by (metis (mono_tags, lifting) case_prod_conv)
  then have "(i, a) \<in> set ars" by (metis nth_mem)
  with assms(1) \<open>artifact_key a = k\<close> show ?thesis by (simp add: tget_iff)
qed

lemma artifact_with_key_none:
  "wf_table ars \<Longrightarrow> artifact_with_key k ars = None \<longleftrightarrow> (\<forall>i a. tget ars i = Some a \<longrightarrow> artifact_key a \<noteq> k)"
  by (auto simp: artifact_with_key_def find_None_iff tget_iff)

lemma create_source_spec:
  assumes "unique_keys ars" "create_source_if_missing a ars = (r, ars')"
  shows "\<exists>i b. r = Inr i \<and> unique_keys ars' \<and> tget ars' i = Some b \<and> artifact_key b = artifact_key a \<and>
    (\<forall>j c. tget ars j = Some c \<longrightarrow> tget ars' j = Some c) \<and>
    (\<forall>j. j \<noteq> i \<longrightarrow> tget ars' j = tget ars j) \<and> (if tget ars i = None then b = a else ars' = ars)"
proof -
  have wf: "wf_table ars" using assms(1) by (simp add: unique_keys_def)
  show ?thesis
  proof (cases "artifact_with_key (artifact_key a) ars")
    case None
    let ?i = "fresh_id ars"
    have new: "ars' = insert_row a ars" and r: "r = (case artifact_with_key (artifact_key a) ars' of
        None \<Rightarrow> Inl AssertionError | Some (i, _) \<Rightarrow> Inr i)"
      using assms(2) None by (auto simp: create_source_if_missing_def Let_def)
    have fresh: "tget ars ?i = None" by (rule tget_fresh)
    have no: "artifact_key c \<noteq> artifact_key a" if "tget ars j = Some c" for j c
      using None that artifact_with_key_none[OF wf] by blast
    have wf': "wf_table ars'" using wf new by auto
    have row: "tget ars' j = (if j = ?i then Some a else tget ars j)" for j by (simp add: new tget_insert_row)
    have "artifact_with_key (artifact_key a) ars' \<noteq> None"
      using artifact_with_key_none[OF wf'] row[of ?i] by auto
    then obtain i b where k: "artifact_with_key (artifact_key a) ars' = Some (i, b)" by auto
    from artifact_with_key_some[OF wf' k] have ib: "tget ars' i = Some b" "artifact_key b = artifact_key a" by auto
    then have "i = ?i" using no row[of i] by (auto split: if_splits)
    moreover have "unique_keys ars'"
      using assms(1) wf' no row unfolding unique_keys_def by (metis option.inject)
    ultimately show ?thesis using ib k r row fresh by (intro exI[of _ ?i] exI[of _ a]) auto
  next
    case (Some x)
    then obtain i b where k: "artifact_with_key (artifact_key a) ars = Some (i, b)" by (cases x) auto
    then have "ars' = ars" "r = Inr i" using assms(2) by (auto simp: create_source_if_missing_def)
    with artifact_with_key_some[OF wf k] assms(1) show ?thesis by auto
  qed
qed

text \<open>What the handler needs to have been given.\<close>

definition index_input :: "(string \<times> json) list \<Rightarrow> task table \<Rightarrow> (int \<times> int \<times> int \<times> string \<times> string \<times> (string \<times> json) list) option" where
  "index_input payload ts =
     (case (json_int (jget payload ''target_id''), jget payload ''work_id'', execution_task_id payload) of
        (Some tid, JStr work_id, Inr task_id) \<Rightarrow>
          (case dependency_payload task_id ts of
             Inl _ \<Rightarrow> None
           | Inr previous \<Rightarrow>
               (case (json_int (jget previous ''storage_id''), jget previous ''relative_path'', jget previous ''file_path'') of
                  (Some sid, JStr path, JStr raw) \<Rightarrow> Some (tid, task_id, sid, path, work_id, previous)
                | _ \<Rightarrow> None))
      | _ \<Rightarrow> None)"

definition downloaded_row :: "instant \<Rightarrow> target \<Rightarrow> target" where
  "downloaded_row now tg = (if tg_downloaded_at tg = None then tg\<lparr>tg_downloaded_at := Some now, tg_updated_at := now\<rparr> else tg)"

lemma set_downloaded_at_row:
  "tget (set_downloaded_at tid now tgs) i = (if i = tid then map_option (downloaded_row now) (tget tgs i) else tget tgs i)"
  by (cases "tget tgs i") (auto simp: set_downloaded_at_def downloaded_row_def)

lemma index_run_unfold:
  assumes "index_input payload (db_tasks d) = Some (tid, task_id, sid, path, work_id, previous)"
  shows "\<exists>raw. index_run he now payload d =
    (case create_source_if_missing (source_artifact he tid task_id sid path previous now) (db_artifacts d) of
       (Inl e, ars) \<Rightarrow> (Inl e, [], [], d\<lparr>db_artifacts := ars\<rparr>)
     | (Inr artifact_id, ars) \<Rightarrow>
         (case advance_target tid TG_Downloaded now (db_targets d) of
            (Inl e, tgs) \<Rightarrow>
              (if is_lookup_or_value_error e
               then Inr (plain_result TO_Failed (Some msg_no_transition)) else Inl e,
               [], [], d\<lparr>db_artifacts := ars, db_targets := tgs\<rparr>)
          | (Inr _, tgs) \<Rightarrow>
              (let ev = [(''target_id'', JInt tid), (''artifact_id'', JInt artifact_id),
                         (''storage_id'', JInt sid), (''relative_path'', JStr path)]
               in (Inr (done_result (dict_merge previous
                     [(''artifact_id'', JInt artifact_id),
                      (''staging_deleted'', JBool (staging_deleted he work_id raw))])),
                   [[(''status'', JStr ''indexed''), (''percent'', JFloat 100)]],
                   [Event ''target_downloaded'' ev, Event ''artifact_published'' ev],
                   d\<lparr>db_artifacts := ars, db_targets := set_downloaded_at tid now tgs\<rparr>))))"
proof -
  from assms obtain raw where "json_int (jget payload ''target_id'') = Some tid" "jget payload ''work_id'' = JStr work_id"
    "execution_task_id payload = Inr task_id" "dependency_payload task_id (db_tasks d) = Inr previous"
    "json_int (jget previous ''storage_id'') = Some sid" "jget previous ''relative_path'' = JStr path"
    "jget previous ''file_path'' = JStr raw"
    unfolding index_input_def
    by (auto split: option.splits json.splits sum.splits)
  then show ?thesis unfolding index_run_def by (intro exI[of _ raw]) simp
qed

lemma set_downloaded_at_same:
  assumes "wf_table tgs" "tget tgs tid = Some g" "tg_downloaded_at g \<noteq> None"
  shows "set_downloaded_at tid now tgs = tgs"
  unfolding set_downloaded_at_def using assms by (intro update_where_none) auto


definition index_db :: db where
  "index_db = attempt_db\<lparr>db_tasks :=
     [(3, attempt_task\<lparr>tk_status := TS_Succeeded, tk_payload_json := Some (JObj [(''storage_id'', JInt 1),
        (''relative_path'', JStr ''a.mp3''), (''file_path'', JStr ''/s/w/a.mp3'')])\<rparr>),
      (4, attempt_task\<lparr>tk_depends_on_task_id := Some 3\<rparr>)],
     db_targets := [(1, (new_target 1 1 0)\<lparr>tg_status := TG_Processing\<rparr>)]\<rparr>"


end
