(* ===== verification/Local_Storage.thy ===== *)
theory Local_Storage
  imports Storage_Adapter
begin

text \<open>
  The adapter of a local directory, \<open>src/sluicery/storage/local.py\<close>, over a model of the file system: a map from absolute
  paths, as lists of their parts, to nodes. A hard link is a second path with the same inode; files are never
  written in place. Following symbolic links is the parameter \<open>lo_resolve\<close>; system calls may fail
  as \<open>lo_fail\<close> says, and other processes may act at the points where the code looks again (\<open>lo_others\<close>).
  Messages are dropped; a text of a storage error is its reason code.
\<close>

section \<open>Files\<close>

type_synonym path = "string list"

record inode =
  in_id :: string
  in_data :: string
  in_mtime :: string
  in_mtime_ns :: string

datatype node = N_Dir | N_File inode | N_Link | N_Special

type_synonym file_system = "path \<Rightarrow> node option"

datatype errno = ENOSPC | EDQUOT | EACCES | EPERM | EROFS | EXDEV | ENOSYS | EOPNOTSUPP | EEXIST | ENOENT | ELOOP
  | ENOTDIR | EISDIR | EIO

datatype os_call = C_Link path path | C_Copy path path | C_Rename path path | C_Replace path path | C_Open path
  | C_Unlink path | C_Mkdir path | C_Scan path | C_Stat path | C_Create path | C_Read path

record local_env =
  lo_root :: path
  lo_resolve :: "file_system \<Rightarrow> path \<Rightarrow> path"
  lo_fail :: "os_call \<Rightarrow> errno option"
  lo_partial :: "os_call \<Rightarrow> string option"
  lo_others :: "nat \<Rightarrow> file_system \<Rightarrow> file_system"
  lo_uuid :: string
  lo_new_inode :: "path \<Rightarrow> string \<Rightarrow> inode"
  lo_sha256 :: "string \<Rightarrow> string"
  lo_rglob :: "file_system \<Rightarrow> path \<Rightarrow> path list"
  lo_disk_free :: "int option"

definition classification_for_os_error :: "errno \<Rightarrow> storage_classification" where
  "classification_for_os_error e =
     (if e \<in> {ENOSPC, EDQUOT} then SC_No_space
      else if e \<in> {EACCES, EPERM, EROFS} then SC_Permission_denied else SC_Failed)"

definition hardlink_fallback_errnos :: "errno set" where
  "hardlink_fallback_errnos = {EACCES, EPERM, EXDEV, ENOSYS, EOPNOTSUPP}"

definition operation_error :: "storage_classification \<Rightarrow> string \<Rightarrow> exn" where
  "operation_error c reason = StorageOperationError (storage_classification_value c) reason"

text \<open>\<open>Path.is_relative_to\<close>, \<open>Path.exists\<close>, \<open>Path.is_file\<close> and \<open>os.path.lexists\<close>.\<close>

definition under :: "path \<Rightarrow> path \<Rightarrow> bool" where
  "under base p \<longleftrightarrow> take (length base) p = base"

definition posix_below :: "path \<Rightarrow> path \<Rightarrow> string" where
  "posix_below base p = join ''/'' (drop (length base) p)"

definition path_exists :: "local_env \<Rightarrow> file_system \<Rightarrow> path \<Rightarrow> bool" where
  "path_exists env fs p \<longleftrightarrow> fs (lo_resolve env fs p) \<noteq> None"

definition file_at :: "local_env \<Rightarrow> file_system \<Rightarrow> path \<Rightarrow> inode option" where
  "file_at env fs p = (case fs (lo_resolve env fs p) of Some (N_File i) \<Rightarrow> Some i | _ \<Rightarrow> None)"

definition inode_size :: "inode \<Rightarrow> int" where
  "inode_size i = int (length (in_data i))"

section \<open>System calls\<close>

text \<open>\<open>renameat2\<close> with \<open>RENAME_NOREPLACE\<close>: an existing destination is an error.\<close>

definition rename_noreplace :: "local_env \<Rightarrow> path \<Rightarrow> path \<Rightarrow> file_system \<Rightarrow> errno option \<times> file_system" where
  "rename_noreplace env src dest fs =
     (case lo_fail env (C_Rename src dest) of
        Some e \<Rightarrow> (Some e, fs)
      | None \<Rightarrow>
          if fs src = None then (Some ENOENT, fs)
          else if fs dest \<noteq> None then (Some EEXIST, fs)
          else (None, fs(src := None, dest := fs src)))"

definition replace_file :: "local_env \<Rightarrow> path \<Rightarrow> path \<Rightarrow> file_system \<Rightarrow> errno option \<times> file_system" where
  "replace_file env src dest fs =
     (case lo_fail env (C_Replace src dest) of
        Some e \<Rightarrow> (Some e, fs)
      | None \<Rightarrow>
          if fs src = None then (Some ENOENT, fs)
          else if fs dest = Some N_Dir then (Some EISDIR, fs)
          else (None, fs(src := None, dest := fs src)))"

text \<open>\<open>mkdir(parents=True, exist_ok=True)\<close>: directories are made from the top.\<close>

definition make_parents :: "local_env \<Rightarrow> path \<Rightarrow> file_system \<Rightarrow> errno option \<times> file_system" where
  "make_parents env p fs =
     (case lo_fail env (C_Mkdir p) of
        Some e \<Rightarrow> (Some e, fs)
      | None \<Rightarrow>
          (let ancestors = map (\<lambda>n. take n p) [1..<Suc (length p)]
           in if list_ex (\<lambda>a. fs a \<noteq> None \<and> fs a \<noteq> Some N_Dir \<and> fs a \<noteq> Some N_Link) ancestors then (Some EEXIST, fs)
              else (None, fold (\<lambda>a f. if f a = None then f(a := Some N_Dir) else f) ancestors fs)))"

definition unlink_file :: "local_env \<Rightarrow> path \<Rightarrow> file_system \<Rightarrow> errno option \<times> file_system" where
  "unlink_file env p fs =
     (case lo_fail env (C_Unlink p) of
        Some e \<Rightarrow> (Some e, fs)
      | None \<Rightarrow>
          if fs p = None then (Some ENOENT, fs)
          else if fs p = Some N_Dir then (Some EISDIR, fs) else (None, fs(p := None)))"

text \<open>
  \<open>_stage_without_removing_source\<close>: a hard link, or a copy where links are not possible. A copy that
  fails may leave a part of the data behind.
\<close>

definition copy_file :: "local_env \<Rightarrow> path \<Rightarrow> path \<Rightarrow> string \<Rightarrow> file_system \<Rightarrow> errno option \<times> file_system" where
  "copy_file env src temp data fs =
     (if fs temp \<noteq> None then (Some EEXIST, fs)
      else (case lo_fail env (C_Copy src temp) of
              None \<Rightarrow> (None, fs(temp := Some (N_File (lo_new_inode env temp data))))
            | Some e \<Rightarrow>
                (Some e, case lo_partial env (C_Copy src temp) of
                   None \<Rightarrow> fs
                 | Some part \<Rightarrow> fs(temp := Some (N_File (lo_new_inode env temp part))))))"

definition stage_without_removing_source :: "local_env \<Rightarrow> path \<Rightarrow> inode \<Rightarrow> path \<Rightarrow> file_system
    \<Rightarrow> errno option \<times> file_system" where
  "stage_without_removing_source env src i temp fs =
     (case lo_fail env (C_Link src temp) of
        None \<Rightarrow> if fs temp \<noteq> None then (Some EEXIST, fs) else (None, fs(temp := Some (N_File i)))
      | Some e \<Rightarrow> if e \<in> hardlink_fallback_errnos then copy_file env src temp (in_data i) fs else (Some e, fs))"

section \<open>Paths of the adapter\<close>

definition local_path :: "local_env \<Rightarrow> file_system \<Rightarrow> string \<Rightarrow> bool \<Rightarrow> exn + path" where
  "local_path env fs rel allow_empty =
     (case validate_relative_path rel allow_empty of
        Inl e \<Rightarrow> Inl e
      | Inr normalized \<Rightarrow>
          (let p = lo_resolve env fs (lo_root env @ path_parts normalized)
           in if under (lo_root env) p then Inr p else Inl StoragePathError))"

text \<open>The directory entry itself: only the parent is resolved, and it must exist.\<close>

definition no_follow_path :: "local_env \<Rightarrow> file_system \<Rightarrow> string \<Rightarrow> exn + path" where
  "no_follow_path env fs rel =
     (case validate_relative_path rel False of
        Inl e \<Rightarrow> Inl e
      | Inr normalized \<Rightarrow>
          (let unresolved = lo_root env @ path_parts normalized;
               parent = lo_resolve env fs (butlast unresolved)
           in if fs parent = None
              then Inl (operation_error (classification_for_os_error ENOENT) ''source_not_found'')
              else if \<not> under (lo_root env) parent then Inl StoragePathError
              else Inr (parent @ [last unresolved])))"

definition local_init :: "path \<Rightarrow> (path \<Rightarrow> path) \<Rightarrow> string \<Rightarrow> exn + path" where
  "local_init media_root resolve configured_path =
     (let checked = (\<lambda>root. if under media_root root then Inr root else Inl StoragePathError)
      in if path_is_absolute configured_path then checked (resolve (path_parts configured_path))
         else (case validate_relative_path configured_path True of
                 Inl e \<Rightarrow> Inl e
               | Inr relative \<Rightarrow> checked (resolve (media_root @ path_parts relative))))"

section \<open>Publishing\<close>

definition local_result :: "bool \<Rightarrow> string \<Rightarrow> int option \<Rightarrow> storage_classification \<Rightarrow> string \<Rightarrow> string option
    \<Rightarrow> string option \<Rightarrow> publish_result" where
  "local_result success dest size0 c reason checksum temporary =
     \<lparr>pr_success = success, pr_dest_rel = dest, pr_size = size0, pr_classification = c, pr_reason_code = reason,
      pr_checksum_sha256 = checksum, pr_temporary_rel = temporary\<rparr>"

text \<open>The paths a publication works with, and what its source was at the start.\<close>

record local_publish =
  lp_normalized :: string
  lp_final :: path
  lp_temp :: path
  lp_temp_rel :: string
  lp_overwrite :: bool
  lp_size :: int
  lp_hash :: string

text \<open>\<open>except OSError\<close>: nothing is removed.\<close>

definition publish_failed :: "local_env \<Rightarrow> local_publish \<Rightarrow> errno \<Rightarrow> file_system \<Rightarrow> publish_result" where
  "publish_failed env lp e fs =
     local_result False (lp_normalized lp) (map_option inode_size (file_at env fs (lp_temp lp)))
       (classification_for_os_error e) ''publish_failed'' None
       (if path_exists env fs (lp_temp lp) then Some (lp_temp_rel lp) else None)"

definition destination_taken :: "local_publish \<Rightarrow> publish_result" where
  "destination_taken lp = local_result False (lp_normalized lp) (Some (lp_size lp)) SC_Failed ''destination_exists''
     (Some (lp_hash lp)) (Some (lp_temp_rel lp))"

text \<open>From the staged file to its final name; other processes act before the check and before the rename.\<close>

definition finish_publish :: "local_env \<Rightarrow> local_publish \<Rightarrow> file_system \<Rightarrow> publish_result \<times> file_system" where
  "finish_publish env lp fs =
     (if path_exists env fs (lp_final lp) \<and> \<not> lp_overwrite lp then (destination_taken lp, fs)
      else
        (let fs1 = lo_others env 2 fs
         in case (if lp_overwrite lp then replace_file env (lp_temp lp) (lp_final lp) fs1
                  else rename_noreplace env (lp_temp lp) (lp_final lp) fs1) of
              (Some e, fs2) \<Rightarrow>
                (if e = EEXIST then destination_taken lp else publish_failed env lp e fs2, fs2)
            | (None, fs2) \<Rightarrow>
                (local_result True (lp_normalized lp) (Some (lp_size lp)) SC_Ok ''ok_source_retained''
                   (Some (lp_hash lp)) None, fs2)))"

definition check_staged :: "local_env \<Rightarrow> local_publish \<Rightarrow> file_system \<Rightarrow> publish_result \<times> file_system" where
  "check_staged env lp fs =
     (case file_at env fs (lp_temp lp) of
        None \<Rightarrow> (publish_failed env lp ENOENT fs, fs)
      | Some t \<Rightarrow>
          if inode_size t \<noteq> lp_size lp \<or> lo_sha256 env (in_data t) \<noteq> lp_hash lp
          then (local_result False (lp_normalized lp) (Some (inode_size t)) SC_Failed ''verification_failed'' None
                  (Some (lp_temp_rel lp)), fs)
          else finish_publish env lp fs)"

text \<open>\<open>final_path.with_name(...)\<close>, a name no other publication has.\<close>

definition temp_suffix :: "local_env \<Rightarrow> string" where
  "temp_suffix env = ''.sluicery-tmp-'' @ lo_uuid env"

definition temp_path :: "local_env \<Rightarrow> path \<Rightarrow> path" where
  "temp_path env final = butlast final @ [last final @ temp_suffix env]"

definition local_publish_file :: "local_env \<Rightarrow> path \<Rightarrow> string \<Rightarrow> bool \<Rightarrow> file_system
    \<Rightarrow> (exn + publish_result) \<times> file_system" where
  "local_publish_file env src dest_rel overwrite fs =
     (case validate_relative_path dest_rel False of Inl e \<Rightarrow> (Inl e, fs) | Inr normalized \<Rightarrow>
     (case local_path env fs normalized False of Inl e \<Rightarrow> (Inl e, fs) | Inr final \<Rightarrow>
     (case file_at env fs src of
        None \<Rightarrow> (Inr (local_result False normalized None SC_Failed ''source_not_found'' None None), fs)
      | Some i \<Rightarrow>
          if path_exists env fs final \<and> \<not> overwrite
          then (Inr (local_result False normalized (map_option inode_size (file_at env fs final)) SC_Failed
                       ''destination_exists'' None None), fs)
          else (case make_parents env (butlast final) fs of
                  (Some e, fs1) \<Rightarrow> (Inl OSError, fs1)
                | (None, fs1) \<Rightarrow>
                    (let temp = temp_path env final;
                         lp = \<lparr>lp_normalized = normalized, lp_final = final, lp_temp = temp,
                               lp_temp_rel = posix_below (lo_root env) temp, lp_overwrite = overwrite,
                               lp_size = inode_size i, lp_hash = lo_sha256 env (in_data i)\<rparr>
                     in case stage_without_removing_source env src i temp fs1 of
                          (Some e, fs2) \<Rightarrow> (Inr (publish_failed env lp e fs2), fs2)
                        | (None, fs2) \<Rightarrow>
                            (case check_staged env lp (lo_others env 1 fs2) of (r, fs3) \<Rightarrow> (Inr r, fs3)))))))"

definition local_exists :: "local_env \<Rightarrow> file_system \<Rightarrow> string \<Rightarrow> exn + bool" where
  "local_exists env fs rel =
     (case local_path env fs rel False of Inl e \<Rightarrow> Inl e | Inr p \<Rightarrow> Inr (path_exists env fs p))"

text \<open>\<open>rglob\<close> gives the paths below a directory in an order of its own; the time limit is not used here.\<close>

fun list_paths :: "local_env \<Rightarrow> file_system \<Rightarrow> path list \<Rightarrow> remote_file list \<times> exn option" where
  "list_paths env fs [] = ([], None)"
| "list_paths env fs (p # ps) =
     (if \<not> under (lo_root env) (lo_resolve env fs p) then ([], Some StoragePathError)
      else (case file_at env fs p of
              None \<Rightarrow> list_paths env fs ps
            | Some i \<Rightarrow>
                (case lo_fail env (C_Stat p) of
                   Some e \<Rightarrow> ([], Some (operation_error (classification_for_os_error e) ''listing_failed''))
                 | None \<Rightarrow>
                     (case list_paths env fs ps of
                        (entries, raised) \<Rightarrow>
                          (\<lparr>rf_relative_path = posix_below (lo_root env) p, rf_size = Some (inode_size i),
                            rf_modified_at = Some (in_mtime i), rf_hashes = [], rf_file_id = None\<rparr> # entries, raised)))))"

definition local_list_recursive :: "local_env \<Rightarrow> file_system \<Rightarrow> string \<Rightarrow> remote_file list \<times> exn option" where
  "local_list_recursive env fs rel =
     (case local_path env fs rel True of
        Inl e \<Rightarrow> ([], Some e)
      | Inr base \<Rightarrow>
          if \<not> path_exists env fs base then ([], None)
          else (case lo_fail env (C_Scan base) of
                  Some e \<Rightarrow> ([], Some (operation_error (classification_for_os_error e) ''listing_failed''))
                | None \<Rightarrow> list_paths env fs (lo_rglob env fs base)))"

definition local_free_space :: "local_env \<Rightarrow> int option" where
  "local_free_space env = lo_disk_free env"

section \<open>Moving, linking, deleting\<close>

definition local_move :: "local_env \<Rightarrow> string \<Rightarrow> string \<Rightarrow> file_system \<Rightarrow> (exn + unit) \<times> file_system" where
  "local_move env src_rel dest_rel fs =
     (case no_follow_path env fs src_rel of Inl e \<Rightarrow> (Inl e, fs) | Inr src \<Rightarrow>
     (case local_path env fs dest_rel False of Inl e \<Rightarrow> (Inl e, fs) | Inr candidate \<Rightarrow>
     (case make_parents env (butlast candidate) fs of
        (Some e, fs1) \<Rightarrow> (Inl (operation_error (classification_for_os_error e) ''move_failed''), fs1)
      | (None, fs1) \<Rightarrow>
     (case no_follow_path env fs1 dest_rel of Inl e \<Rightarrow> (Inl e, fs1) | Inr dest \<Rightarrow>
     (case fs1 src of
        None \<Rightarrow> (Inl (operation_error SC_Failed ''source_not_found''), fs1)
      | Some (N_File i) \<Rightarrow>
          if fs1 dest \<noteq> None then (Inl (operation_error SC_Failed ''destination_exists''), fs1)
          else (case rename_noreplace env src dest (lo_others env 1 fs1) of
                  (Some e, fs2) \<Rightarrow> (Inl (operation_error (classification_for_os_error e) ''move_failed''), fs2)
                | (None, fs2) \<Rightarrow> (Inr (), fs2))
      | Some _ \<Rightarrow> (Inl (operation_error SC_Failed ''not_a_file''), fs1))))))"

definition remote_of :: "local_env \<Rightarrow> string \<Rightarrow> inode \<Rightarrow> remote_file" where
  "remote_of env normalized i = \<lparr>rf_relative_path = normalized, rf_size = Some (inode_size i),
     rf_modified_at = Some (in_mtime_ns i), rf_hashes = [(''sha256'', lo_sha256 env (in_data i))],
     rf_file_id = Some (in_id i)\<rparr>"

text \<open>\<open>_inspect_path\<close>: the file is opened without following a link and read.\<close>

definition inspect_path :: "local_env \<Rightarrow> file_system \<Rightarrow> path \<Rightarrow> string \<Rightarrow> exn + remote_file" where
  "inspect_path env fs p rel =
     (case lo_fail env (C_Open p) of
        Some e \<Rightarrow> Inl (if e = ENOENT then operation_error SC_Failed ''source_not_found''
                      else operation_error (classification_for_os_error e) ''unsafe_file'')
      | None \<Rightarrow>
          (case fs p of
             None \<Rightarrow> Inl (operation_error SC_Failed ''source_not_found'')
           | Some N_Link \<Rightarrow> Inl (operation_error (classification_for_os_error ELOOP) ''unsafe_file'')
           | Some (N_File i) \<Rightarrow>
               (case lo_fail env (C_Read p) of
                  Some e \<Rightarrow> Inl OSError
                | None \<Rightarrow>
                    (case validate_relative_path rel False of
                       Inl e \<Rightarrow> Inl e
                     | Inr normalized \<Rightarrow>
                         Inr (remote_of env normalized i)))
           | Some _ \<Rightarrow> Inl (operation_error SC_Failed ''not_a_file'')))"

definition local_inspect_file :: "local_env \<Rightarrow> file_system \<Rightarrow> string \<Rightarrow> exn + remote_file" where
  "local_inspect_file env fs rel =
     (case no_follow_path env fs rel of Inl e \<Rightarrow> Inl e | Inr p \<Rightarrow> inspect_path env fs p rel)"

definition same_file :: "local_env \<Rightarrow> inode \<Rightarrow> remote_file \<Rightarrow> bool" where
  "same_file env i expected \<longleftrightarrow> rf_file_id expected = Some (in_id i) \<and> rf_size expected = Some (inode_size i) \<and>
     map_of (rf_hashes expected) ''sha256'' = Some (lo_sha256 env (in_data i))"

text \<open>\<open>source\<close> is the other adapter when it is a local one too.\<close>

definition hardlink_unsupported :: "errno set" where
  "hardlink_unsupported = {EXDEV, EPERM, ENOENT, EOPNOTSUPP}"

definition hardlink_os_error :: "errno \<Rightarrow> exn + bool" where
  "hardlink_os_error e =
     (if e = EEXIST then Inl (operation_error SC_Failed ''destination_exists'')
      else if e \<in> hardlink_unsupported then Inr False
      else Inl (operation_error (classification_for_os_error e) ''hardlink_failed''))"

definition local_hardlink_from :: "local_env \<Rightarrow> local_env option \<Rightarrow> string \<Rightarrow> string \<Rightarrow> remote_file \<Rightarrow> file_system
    \<Rightarrow> (exn + bool) \<times> file_system" where
  "local_hardlink_from env source src_rel dest_rel expected fs =
     (case source of None \<Rightarrow> (Inr False, fs) | Some other \<Rightarrow>
     (case no_follow_path other fs src_rel of Inl e \<Rightarrow> (Inl e, fs) | Inr src \<Rightarrow>
     (case local_path env fs dest_rel False of Inl e \<Rightarrow> (Inl e, fs) | Inr candidate \<Rightarrow>
     (case make_parents env (butlast candidate) fs of (Some e, fs1) \<Rightarrow> (Inl OSError, fs1) | (None, fs1) \<Rightarrow>
     (case no_follow_path env fs1 dest_rel of Inl e \<Rightarrow> (Inl e, fs1) | Inr dest \<Rightarrow>
     (case lo_fail env (C_Open src) of Some e \<Rightarrow> (hardlink_os_error e, fs1) | None \<Rightarrow>
     (case fs1 src of
        None \<Rightarrow> (hardlink_os_error ENOENT, fs1)
      | Some N_Link \<Rightarrow> (hardlink_os_error ELOOP, fs1)
      | Some (N_File i) \<Rightarrow>
          if \<not> same_file env i expected then (Inr False, fs1)
          else (let fs2 = lo_others env 1 fs1
                in case lo_fail env (C_Link src dest) of
                     Some e \<Rightarrow> (hardlink_os_error e, fs2)
                   | None \<Rightarrow>
                       if fs2 dest \<noteq> None then (hardlink_os_error EEXIST, fs2)
                       else (let fs3 = lo_others env 2 (fs2(dest := Some (N_File i)))
                             in case fs3 dest of
                                  Some (N_File k) \<Rightarrow>
                                    if rf_file_id expected = Some (in_id k) then (Inr True, fs3)
                                    else (Inl (operation_error SC_Failed ''hardlink_destination_changed''), fs3)
                                | None \<Rightarrow> (hardlink_os_error ENOENT, fs3)
                                | Some _ \<Rightarrow> (Inl (operation_error SC_Failed ''hardlink_destination_changed''), fs3)))
      | Some _ \<Rightarrow> (Inr False, fs1))))))))"

text \<open>The entry is renamed to its quarantine name, looked at again, and removed or renamed back.\<close>

definition delete_quarantined :: "local_env \<Rightarrow> string \<Rightarrow> path \<Rightarrow> path \<Rightarrow> remote_file option \<Rightarrow> file_system
    \<Rightarrow> (exn + unit) \<times> file_system" where
  "delete_quarantined env rel p quarantine expected fs =
     (let delete_failed = (\<lambda>e f.
            (Inl (operation_error (classification_for_os_error e) ''delete_failed''),
             if f quarantine \<noteq> None \<and> f p = None then snd (rename_noreplace env quarantine p f) else f))
      in case rename_noreplace env p quarantine fs of
           (Some e, fs1) \<Rightarrow> delete_failed e fs1
         | (None, fs1) \<Rightarrow>
             (case inspect_path env fs1 quarantine rel of
                Inl OSError \<Rightarrow> delete_failed (case lo_fail env (C_Read quarantine) of Some e \<Rightarrow> e | None \<Rightarrow> EIO) fs1
              | Inl e \<Rightarrow> (Inl e, fs1)
              | Inr current \<Rightarrow>
                  if expected \<noteq> None \<and> expected \<noteq> Some current
                  then (let fs2 = lo_others env 1 fs1
                        in case rename_noreplace env quarantine p fs2 of
                             (Some e, fs3) \<Rightarrow> (Inl (operation_error SC_Failed ''identity_changed_quarantined''), fs3)
                           | (None, fs3) \<Rightarrow> (Inl (operation_error SC_Failed ''identity_changed''), fs3))
                  else (case unlink_file env quarantine fs1 of
                          (Some e, fs2) \<Rightarrow> delete_failed e fs2
                        | (None, fs2) \<Rightarrow> (Inr (), fs2))))"

definition local_delete_file :: "local_env \<Rightarrow> string \<Rightarrow> remote_file option \<Rightarrow> string option \<Rightarrow> file_system
    \<Rightarrow> (exn + unit) \<times> file_system" where
  "local_delete_file env rel expected quarantine_rel fs =
     (case no_follow_path env fs rel of Inl e \<Rightarrow> (Inl e, fs) | Inr p \<Rightarrow>
     (case (case quarantine_rel of
              Some q \<Rightarrow> no_follow_path env fs q
            | None \<Rightarrow> Inr (butlast p @ [''.sluicery-retention-'' @ lo_uuid env])) of
        Inl e \<Rightarrow> (Inl e, fs)
      | Inr quarantine \<Rightarrow>
          if butlast quarantine \<noteq> butlast p \<or> fs quarantine \<noteq> None
          then (Inl (operation_error SC_Failed ''quarantine_conflict''), fs)
          else (case (if expected = None then map_sum id (\<lambda>_. ()) (local_inspect_file env fs rel) else Inr ()) of
                  Inl e \<Rightarrow> (Inl e, fs)
                | Inr _ \<Rightarrow> delete_quarantined env rel p quarantine expected (lo_others env 0 fs))))"

section \<open>The connection test\<close>

definition stage_result :: "connection_stage \<Rightarrow> stage_status \<Rightarrow> storage_classification \<Rightarrow> string \<Rightarrow> connection_stage_result" where
  "stage_result stage st c reason = \<lparr>sr_stage = stage, sr_status = st, sr_classification = c, sr_reason_code = reason\<rparr>"

definition passed :: "connection_stage \<Rightarrow> stage_status \<Rightarrow> connection_stage_result" where
  "passed stage st = stage_result stage st SC_Ok ''ok''"

text \<open>
  The write test: the file is created, read back and removed. What reads back differently is
  \<open>lo_partial\<close> of the read; the file that cannot be removed stays.
\<close>

definition write_test :: "local_env \<Rightarrow> path \<Rightarrow> file_system \<Rightarrow> (connection_stage_result \<times> bool) \<times> file_system" where
  "write_test env p fs =
     (let failed = (\<lambda>c. stage_result CS_Write SS_Failed c ''write_test_failed'');
          cleanup = (\<lambda>c f. case unlink_file env p f of (e, f') \<Rightarrow> ((failed c, e \<noteq> None), f'))
      in case (if fs p \<noteq> None then Some EEXIST else lo_fail env (C_Create p)) of
           Some e \<Rightarrow> ((failed (classification_for_os_error e), False), fs)
         | None \<Rightarrow>
             (let fs1 = fs(p := Some (N_File (lo_new_inode env p (lo_uuid env))))
              in case lo_fail env (C_Read p) of
                   Some e \<Rightarrow> cleanup (classification_for_os_error e) fs1
                 | None \<Rightarrow>
                     if lo_partial env (C_Read p) \<noteq> None then cleanup SC_Failed fs1
                     else (case unlink_file env p fs1 of
                             (Some e, fs2) \<Rightarrow> cleanup (classification_for_os_error e) fs2
                           | (None, fs2) \<Rightarrow> ((passed CS_Write SS_Success, False), fs2))))"

definition msg_cleanup :: string where "msg_cleanup = ''the test file cannot be removed: ''"

definition local_test_connection :: "local_env \<Rightarrow> file_system \<Rightarrow> connection_test_result \<times> file_system" where
  "local_test_connection env fs =
     (let result = (\<lambda>stages. \<lparr>ct_stages = stages, ct_cleanup_warning = None\<rparr>)
      in if fs (lo_resolve env fs (lo_root env)) \<noteq> Some N_Dir then
           (result [stage_result CS_Connectivity SS_Failed SC_Unreachable ''path_not_found'',
                    passed CS_Authentication SS_Not_applicable,
                    stage_result CS_Listing SS_Skipped SC_Unreachable ''prerequisite_failed'',
                    stage_result CS_Write SS_Skipped SC_Unreachable ''prerequisite_failed''], fs)
         else
           (let first = [passed CS_Connectivity SS_Success, passed CS_Authentication SS_Not_applicable]
            in case lo_fail env (C_Scan (lo_root env)) of
                 Some e \<Rightarrow>
                   (result (first @ [stage_result CS_Listing SS_Failed (classification_for_os_error e) ''listing_failed'',
                      stage_result CS_Write SS_Skipped (classification_for_os_error e) ''prerequisite_failed'']), fs)
               | None \<Rightarrow>
                   (let name = ''.sluicery-connection-test-'' @ lo_uuid env
                    in case write_test env (lo_root env @ [name]) fs of ((stage, left), fs') \<Rightarrow>
                         (\<lparr>ct_stages = first @ [passed CS_Listing SS_Success, stage],
                           ct_cleanup_warning = (if left then Some (msg_cleanup @ name) else None)\<rparr>, fs'))))"

section \<open>The adapter\<close>

definition local_adapter :: "local_env \<Rightarrow> (int \<Rightarrow> local_env option) \<Rightarrow> file_system storage_adapter" where
  "local_adapter env other =
     \<lparr>ad_free_space = (\<lambda>_. Inr (local_free_space env)), ad_exists = local_exists env,
      ad_list_recursive = local_list_recursive env, ad_inspect_file = local_inspect_file env,
      ad_publish = (\<lambda>src dest. local_publish_file env (path_parts src) dest False),
      ad_hardlink_from = (\<lambda>sid. local_hardlink_from env (other sid)),
      ad_move = local_move env, ad_delete_file = local_delete_file env\<rparr>"

end
