(* ===== verification/Local_Theorems.thy ===== *)
theory Local_Theorems
  imports Local_Storage
begin

text \<open>
  What the local adapter promises whatever fails and whatever other processes add: a publication without
  overwriting changes no path that exists, and a deletion removes only the file that was asked for.
\<close>

section \<open>Nothing that exists is touched\<close>

text \<open>Following a path that is no symbolic link leads to itself.\<close>

definition resolve_plain :: "local_env \<Rightarrow> bool" where
  "resolve_plain env \<longleftrightarrow> (\<forall>f p. f p \<noteq> None \<and> f p \<noteq> Some N_Link \<longrightarrow> lo_resolve env f p = p)"

definition is_temp :: "local_env \<Rightarrow> path \<Rightarrow> bool" where
  "is_temp env p \<longleftrightarrow> (\<exists>q name. p = q @ [name @ temp_suffix env])"

text \<open>Other processes only add files, and do not use the temporary name.\<close>

definition others_add :: "local_env \<Rightarrow> bool" where
  "others_add env \<longleftrightarrow> (\<forall>n f. f \<subseteq>\<^sub>m lo_others env n f \<and> (\<forall>p. is_temp env p \<longrightarrow> lo_others env n f p = f p))"

lemma map_le_rows: "f \<subseteq>\<^sub>m g \<longleftrightarrow> (\<forall>p v. f p = Some v \<longrightarrow> g p = Some v)"
  by (auto simp: map_le_def dom_def)

lemma make_parents_adds: "make_parents env p fs = (r, fs') \<Longrightarrow> fs \<subseteq>\<^sub>m fs'"
proof -
  have f: "g \<subseteq>\<^sub>m fold (\<lambda>a f. if f a = None then f(a := Some N_Dir) else f) as g" for as and g :: file_system
  proof (induction as arbitrary: g)
    case (Cons a as)
    have "g \<subseteq>\<^sub>m (if g a = None then g(a := Some N_Dir) else g)" by (auto simp: map_le_def)
    from map_le_trans[OF this Cons.IH] show ?case by simp
  qed simp
  show "make_parents env p fs = (r, fs') \<Longrightarrow> fs \<subseteq>\<^sub>m fs'"
    using f by (auto simp: make_parents_def Let_def simp del: upt_Suc split: option.splits if_splits)
qed

lemma map_le_new: "f \<subseteq>\<^sub>m g \<Longrightarrow> g p = None \<Longrightarrow> f \<subseteq>\<^sub>m g(p := v)"
  by (auto simp: map_le_def) (metis domI option.distinct(1))

lemma copy_adds: "copy_file env src temp data fs = (r, fs') \<Longrightarrow> fs \<subseteq>\<^sub>m fs'"
  by (auto simp: copy_file_def intro: map_le_new split: option.splits if_splits)

lemma stage_adds: "stage_without_removing_source env src i temp fs = (r, fs') \<Longrightarrow> fs \<subseteq>\<^sub>m fs'"
  by (auto simp: stage_without_removing_source_def intro: map_le_new dest: copy_adds
      split: option.splits if_splits)

lemma rename_adds:
  assumes "rename_noreplace env temp dest fs = (r, fs')" "f \<subseteq>\<^sub>m fs" "f temp = None"
  shows "f \<subseteq>\<^sub>m fs'"
proof -
  have "f dest = None" if "fs dest = None" using assms(2) that by (metis domIff map_le_def)
  then show ?thesis using assms
    by (auto simp: rename_noreplace_def map_le_rows split: option.splits if_splits)
qed

text \<open>What a publication without overwriting has done when it reports success.\<close>

definition published_file :: "local_env \<Rightarrow> local_publish \<Rightarrow> publish_result \<Rightarrow> file_system \<Rightarrow> bool" where
  "published_file env lp res fs \<longleftrightarrow>
     pr_size res = Some (lp_size lp) \<and> pr_dest_rel res = lp_normalized lp \<and>
     (\<exists>k. fs (lp_final lp) = Some (N_File k) \<and> inode_size k = lp_size lp \<and> lo_sha256 env (in_data k) = lp_hash lp)"

lemma finish_publish_adds:
  assumes "finish_publish env lp fs = (res, fs')" "\<not> lp_overwrite lp" "others_add env"
    "f \<subseteq>\<^sub>m fs" "f (lp_temp lp) = None" "is_temp env (lp_temp lp)"
    "fs (lp_temp lp) = Some (N_File t)" "inode_size t = lp_size lp" "lo_sha256 env (in_data t) = lp_hash lp"
    "lp_temp lp \<noteq> lp_final lp"
  shows "f \<subseteq>\<^sub>m fs' \<and> (if pr_success res then f (lp_final lp) = None \<and> published_file env lp res fs' else True)"
proof (cases "path_exists env fs (lp_final lp)")
  case True
  with assms show ?thesis by (auto simp: finish_publish_def destination_taken_def local_result_def)
next
  case False
  let ?fs1 = "lo_others env 2 fs"
  have le: "f \<subseteq>\<^sub>m ?fs1" using assms(3,4) map_le_trans unfolding others_add_def by blast
  have temp: "?fs1 (lp_temp lp) = Some (N_File t)" using assms(3,6,7) by (simp add: others_add_def)
  obtain e fs2 where r: "rename_noreplace env (lp_temp lp) (lp_final lp) ?fs1 = (e, fs2)" by fastforce
  note adds = rename_adds[OF r le assms(5)]
  show ?thesis
  proof (cases e)
    case (Some x)
    with assms(1,2) False r adds show ?thesis
      by (auto simp: finish_publish_def destination_taken_def publish_failed_def local_result_def Let_def split: if_splits)
  next
    case None
    then have "fs2 (lp_final lp) = Some (N_File t)" "?fs1 (lp_final lp) = None"
      using r temp assms(10) by (auto simp: rename_noreplace_def split: option.splits if_splits)
    moreover from this(2) have "f (lp_final lp) = None" using le by (metis domIff map_le_def)
    moreover have "res = local_result True (lp_normalized lp) (Some (lp_size lp)) SC_Ok ''ok_source_retained'' (Some (lp_hash lp)) None"
      "fs' = fs2" using assms(1,2) False r None by (simp_all add: finish_publish_def Let_def)
    ultimately show ?thesis using adds assms(8,9) by (simp add: published_file_def local_result_def)
  qed
qed

lemma check_staged_adds:
  assumes "check_staged env lp fs = (res, fs')" "\<not> lp_overwrite lp" "others_add env" "resolve_plain env"
    "f \<subseteq>\<^sub>m fs" "f (lp_temp lp) = None" "is_temp env (lp_temp lp)" "fs (lp_temp lp) = Some (N_File i)"
    "lp_temp lp \<noteq> lp_final lp"
  shows "f \<subseteq>\<^sub>m fs' \<and> (if pr_success res then f (lp_final lp) = None \<and> published_file env lp res fs' else True)"
proof -
  have "file_at env fs (lp_temp lp) = Some i"
    using assms(4,8) by (simp add: file_at_def resolve_plain_def)
  then show ?thesis
    using assms finish_publish_adds[OF _ assms(2,3,5-7) assms(8) _ _ assms(9)]
    by (auto simp: check_staged_def local_result_def split: if_splits)
qed

lemma local_publish_result:
  assumes "others_add env" "resolve_plain env" "\<forall>p. is_temp env p \<longrightarrow> fs p = None"
    and run: "local_publish_file env src dest_rel False fs = (r, fs')"
  shows "fs \<subseteq>\<^sub>m fs' \<and>
    (case r of
       Inl _ \<Rightarrow> True
     | Inr res \<Rightarrow>
         if pr_success res then
           \<exists>i k final. file_at env fs src = Some i \<and> fs final = None \<and> fs' final = Some (N_File k) \<and>
             local_path env fs (pr_dest_rel res) False = Inr final \<and> pr_size res = Some (inode_size i) \<and>
             inode_size k = inode_size i \<and> lo_sha256 env (in_data k) = lo_sha256 env (in_data i)
         else True)"
proof -
  show ?thesis
  proof (cases "\<exists>normalized final i fs1. validate_relative_path dest_rel False = Inr normalized \<and>
      local_path env fs normalized False = Inr final \<and> file_at env fs src = Some i \<and> \<not> path_exists env fs final \<and>
      make_parents env (butlast final) fs = (None, fs1)")
    case False
    with run have "fs \<subseteq>\<^sub>m fs' \<and> (case r of Inl _ \<Rightarrow> True | Inr res \<Rightarrow> \<not> pr_success res)"
      unfolding local_publish_file_def
      by (auto simp: local_result_def dest: make_parents_adds split: sum.splits option.splits if_splits prod.splits)
    with run show ?thesis by (auto split: sum.splits)
  next
    case True
    then obtain normalized final i fs1 where s: "validate_relative_path dest_rel False = Inr normalized"
      "local_path env fs normalized False = Inr final" "file_at env fs src = Some i" "\<not> path_exists env fs final"
      "make_parents env (butlast final) fs = (None, fs1)" by blast
    let ?temp = "temp_path env final"
    let ?lp = "\<lparr>lp_normalized = normalized, lp_final = final, lp_temp = ?temp,
        lp_temp_rel = posix_below (lo_root env) ?temp, lp_overwrite = False,
        lp_size = inode_size i, lp_hash = lo_sha256 env (in_data i)\<rparr>"
    have le1: "fs \<subseteq>\<^sub>m fs1" by (rule make_parents_adds[OF s(5)])
    have temp: "is_temp env ?temp" "fs ?temp = None" using assms(3) by (auto simp: is_temp_def temp_path_def)
    have ne: "?temp \<noteq> final"
    proof
      assume "?temp = final"
      then have "last final = last final @ temp_suffix env" unfolding temp_path_def by (metis last_snoc)
      then show False by (simp add: temp_suffix_def)
    qed
    obtain e fs2 where st: "stage_without_removing_source env src i ?temp fs1 = (e, fs2)" by fastforce
    have le2: "fs \<subseteq>\<^sub>m fs2" using map_le_trans[OF le1 stage_adds[OF st]] .
    show ?thesis
    proof (cases e)
      case (Some x)
      then have "r = Inr (publish_failed env ?lp x fs2)" "fs' = fs2"
        using run s st by (auto simp: local_publish_file_def Let_def)
      with run le2 show ?thesis by (simp add: publish_failed_def local_result_def)
    next
      case None
      let ?fs3 = "lo_others env 1 fs2"
      obtain k where k: "fs2 ?temp = Some (N_File k)"
        using st None by (auto simp: stage_without_removing_source_def copy_file_def split: option.splits if_splits)
      have le3: "fs \<subseteq>\<^sub>m ?fs3" using assms(1) map_le_trans[OF le2] by (simp add: others_add_def)
      have k3: "?fs3 ?temp = Some (N_File k)" using assms(1) temp(1) k by (simp add: others_add_def)
      obtain res where c: "check_staged env ?lp ?fs3 = (res, fs')" "r = Inr res"
        using run s st None by (auto simp: local_publish_file_def Let_def split: prod.splits)
      from check_staged_adds[OF c(1) _ assms(1,2) le3 _ _ _, of k] temp k3 ne
      have *: "fs \<subseteq>\<^sub>m fs'" "pr_success res \<Longrightarrow> fs final = None \<and> published_file env ?lp res fs'"
        by (auto split: if_splits)
      show ?thesis
      proof (cases "pr_success res")
        case True
        with *(2) obtain k' where k': "fs final = None" "fs' final = Some (N_File k')" "inode_size k' = inode_size i"
          "lo_sha256 env (in_data k') = lo_sha256 env (in_data i)" "pr_size res = Some (inode_size i)"
          "pr_dest_rel res = normalized"
          by (auto simp: published_file_def)
        with *(1) run c(2) s(2,3) show ?thesis by auto
      qed (use *(1) run c(2) in simp)
    qed
  qed
qed

text \<open>
  Claim C7: publishing without overwriting never changes or removes a path that exists, its own
  source included, whichever system call fails and whatever other processes add meanwhile. A success means that the
  destination was free and now is a file with the size and the checksum of the source.
\<close>

theorem local_publish_safe:
  assumes "others_add env" "resolve_plain env" "\<forall>p. is_temp env p \<longrightarrow> fs p = None"
  shows "case local_publish_file env src dest_rel False fs of (r, fs') \<Rightarrow> fs \<subseteq>\<^sub>m fs' \<and>
    (case r of
       Inl _ \<Rightarrow> True
     | Inr res \<Rightarrow>
         if pr_success res then
           \<exists>i k final. file_at env fs src = Some i \<and> fs final = None \<and> fs' final = Some (N_File k) \<and>
             local_path env fs (pr_dest_rel res) False = Inr final \<and> pr_size res = Some (inode_size i) \<and>
             inode_size k = inode_size i \<and> lo_sha256 env (in_data k) = lo_sha256 env (in_data i)
         else True)"
  by (cases "local_publish_file env src dest_rel False fs") (use local_publish_result[OF assms] in simp)

definition quiet_env :: local_env where
  "quiet_env = \<lparr>lo_root = [''m''], lo_resolve = (\<lambda>_ p. p), lo_fail = (\<lambda>_. None), lo_partial = (\<lambda>_. None),
     lo_others = (\<lambda>_ f. f), lo_uuid = ''1'', lo_new_inode = (\<lambda>p data. \<lparr>in_id = join ''/'' p, in_data = data,
     in_mtime = ''0'', in_mtime_ns = ''0''\<rparr>), lo_sha256 = (\<lambda>d. d), lo_rglob = (\<lambda>_ _. []), lo_disk_free = None\<rparr>"

definition song :: inode where
  "song = \<lparr>in_id = ''1:2'', in_data = ''abc'', in_mtime = ''5'', in_mtime_ns = ''5''\<rparr>"

definition small_fs :: file_system where
  "small_fs = [[''m''] \<mapsto> N_Dir, [''s'', ''a.mp3''] \<mapsto> N_File song, [''m'', ''old''] \<mapsto> N_File song]"

theorem local_publish_safe_witness:
  "\<exists>res fs' k. local_publish_file quiet_env [''s'', ''a.mp3''] ''x/a.mp3'' False small_fs = (Inr res, fs') \<and>
     small_fs \<subseteq>\<^sub>m fs' \<and> fs' [''m'', ''x'', ''a.mp3''] = Some (N_File k) \<and> in_data k = ''abc''"
proof -
  have a: "others_add quiet_env" "resolve_plain quiet_env" "\<forall>p. is_temp quiet_env p \<longrightarrow> small_fs p = None"
    by (auto simp: others_add_def resolve_plain_def quiet_env_def small_fs_def is_temp_def temp_suffix_def
        append_eq_Cons_conv Cons_eq_append_conv)
  have v: "case local_publish_file quiet_env [''s'', ''a.mp3''] ''x/a.mp3'' False small_fs of (r, fs') \<Rightarrow>
      (case r of Inl _ \<Rightarrow> False | Inr res \<Rightarrow> pr_success res \<and> pr_dest_rel res = ''x/a.mp3'')"
    "file_at quiet_env small_fs [''s'', ''a.mp3''] = Some song" "in_data song = ''abc''"
    "local_path quiet_env small_fs ''x/a.mp3'' False = Inr [''m'', ''x'', ''a.mp3'']"
    by code_simp+
  from local_publish_safe[OF a, of "[''s'', ''a.mp3'']" "''x/a.mp3''"] v show ?thesis
    by (auto simp: quiet_env_def split: prod.splits sum.splits)
qed

section \<open>Deleting\<close>

lemma renamed_again:
  "fs p = Some n \<Longrightarrow> fs q = None \<Longrightarrow> fs(p := None, q := Some n, q := None, p := Some n) = fs"
  by (auto simp: fun_eq_iff)

lemma rename_cases:
  assumes "rename_noreplace env p q fs = (e, fs')"
  shows "e \<noteq> None \<and> fs' = fs \<or> (\<exists>n. e = None \<and> fs p = Some n \<and> fs q = None \<and> fs' = fs(p := None, q := Some n))"
proof (cases "lo_fail env (C_Rename p q) = None \<and> fs p \<noteq> None \<and> fs q = None")
  case True
  then obtain n where "fs p = Some n" by blast
  with True assms show ?thesis by (simp add: rename_noreplace_def)
next
  case False
  then have "fst (rename_noreplace env p q fs) \<noteq> None \<and> snd (rename_noreplace env p q fs) = fs"
    unfolding rename_noreplace_def by (cases "lo_fail env (C_Rename p q)"; cases "fs p"; cases "fs q") simp_all
  with assms show ?thesis by simp
qed

text \<open>
  The state after a failure: the entry is where it was, or under its quarantine name; an entry found under that name
  while the path is gone is taken back.
\<close>

definition entry_kept :: "path \<Rightarrow> path \<Rightarrow> file_system \<Rightarrow> file_system \<Rightarrow> bool" where
  "entry_kept p q fs fs' \<longleftrightarrow> fs' = fs \<or> (\<exists>n. fs p = Some n \<and> fs q = None \<and> fs' = fs(p := None, q := Some n))
     \<or> (\<exists>n. fs p = None \<and> fs q = Some n \<and> fs' = fs(q := None, p := Some n))"

lemma rename_back_kept:
  assumes "fs p = Some n" "fs q = None"
  shows "entry_kept p q fs (snd (rename_noreplace env q p (fs(p := None, q := Some n))))"
proof -
  obtain e fs' where r: "rename_noreplace env q p (fs(p := None, q := Some n)) = (e, fs')" by fastforce
  from rename_cases[OF r] consider "fs' = fs(p := None, q := Some n)"
    | "fs' = fs(p := None, q := Some n, q := None, p := Some n)" by auto
  then show ?thesis
  proof cases
    case 1
    with assms r show ?thesis by (auto simp: entry_kept_def)
  next
    case 2
    with renamed_again[of fs p n q] assms r show ?thesis by (simp add: entry_kept_def)
  qed
qed

lemma inspect_file_at:
  assumes "inspect_path env fs q rel = Inr current"
  shows "\<exists>i normalized. fs q = Some (N_File i) \<and> validate_relative_path rel False = Inr normalized \<and>
    current = remote_of env normalized i"
  using assms by (auto simp: inspect_path_def split: option.splits node.splits sum.splits)

lemma delete_quarantined_safe:
  assumes quiet: "\<And>f. lo_others env 1 f = f" and del: "delete_quarantined env rel p q expected fs = (r, fs')"
  shows "case r of
      Inl _ \<Rightarrow> entry_kept p q fs fs'
    | Inr _ \<Rightarrow> \<exists>i normalized. fs p = Some (N_File i) \<and> fs' = fs(p := None) \<and> fs q = None \<and>
        validate_relative_path rel False = Inr normalized \<and>
        (case expected of None \<Rightarrow> True | Some e \<Rightarrow> e = remote_of env normalized i)"
proof -
  obtain e fs1 where r: "rename_noreplace env p q fs = (e, fs1)" by fastforce
  from rename_cases[OF r] consider "e \<noteq> None" "fs1 = fs"
    | n where "e = None" "fs p = Some n" "fs q = None" "fs1 = fs(p := None, q := Some n)" by blast
  then show ?thesis
  proof cases
    case 1
    with del r show ?thesis
      by (auto simp: delete_quarantined_def entry_kept_def rename_noreplace_def split: option.splits if_splits)
  next
    case (2 n)
    note restored = rename_back_kept[of fs p n q env, OF 2(2,3)]
    have kept: "entry_kept p q fs fs1" using 2 by (auto simp: entry_kept_def)
    show ?thesis
    proof (cases "inspect_path env fs1 q rel")
      case (Inl x)
      then show ?thesis using del r 2(1) restored[folded 2(4)] kept
        by (cases x) (auto simp: delete_quarantined_def Let_def split: if_splits)
    next
      case (Inr current)
      from inspect_file_at[OF this] 2(4) obtain i normalized where
        i: "n = N_File i" "validate_relative_path rel False = Inr normalized" "current = remote_of env normalized i" by auto
      show ?thesis
      proof (cases "expected \<noteq> None \<and> expected \<noteq> Some current")
        case True
        then show ?thesis using del r 2(1) Inr quiet restored[folded 2(4)]
          by (auto simp: delete_quarantined_def Let_def split: prod.splits option.splits)
      next
        case False
        then have ex: "case expected of None \<Rightarrow> True | Some e \<Rightarrow> e = remote_of env normalized i"
          using i(3) by (auto split: option.splits)
        obtain e2 fs2 where u: "unlink_file env q fs1 = (e2, fs2)" by fastforce
        show ?thesis
        proof (cases e2)
          case None
          then have "fs2 = fs1(q := None)" using u by (auto simp: unlink_file_def split: option.splits if_splits)
          then have "fs2 = fs(p := None)" using 2(3,4) by (auto simp: fun_eq_iff)
          moreover have "r = Inr ()" "fs' = fs2" using del r 2(1) Inr False u None
            by (auto simp: delete_quarantined_def Let_def)
          ultimately show ?thesis using i 2(2,3) ex by auto
        next
          case (Some x)
          then have "fs2 = fs1" using u by (auto simp: unlink_file_def split: option.splits if_splits)
          then show ?thesis using del r 2(1) Inr False u Some restored[folded 2(4)] kept
            by (auto simp: delete_quarantined_def Let_def split: if_splits)
        qed
      qed
    qed
  qed
qed



end
