(* ===== verification/Hooks.thy ===== *)
theory Hooks
  imports Runner
begin

text \<open>
  The events other parts may subscribe to, \<open>src/sluicery/hooks/base.py\<close> and \<open>hooks/eventlog.py\<close>: the
  white list of fields per event, the sanitised payload, and the record in the event log. Writing the record
  is a background task, which is run at once here; the queue's room is an argument. The subscription file
  is given as its parsed value.
\<close>

section \<open>Payloads\<close>

definition event_payload_fields :: "(string \<times> string list) list" where
  "event_payload_fields =
    [(''item_discovered'', [''playlist_id'', ''item_id'', ''count'']),
     (''item_delisted'', [''playlist_id'', ''item_id'', ''count'']),
     (''target_downloaded'', [''target_id'', ''artifact_id'', ''storage_id'', ''relative_path'']),
     (''target_failed'', [''target_id'', ''task_id'', ''reason_code'']),
     (''run_started'', [''run_id'', ''playlist_id'', ''kind'', ''trigger'']),
     (''run_finished'', [''run_id'', ''playlist_id'', ''kind'', ''status'']),
     (''run_failed'', [''run_id'', ''playlist_id'', ''kind'', ''component'', ''version'', ''reason_code'',
        ''rolled_back'']),
     (''artifact_published'', [''target_id'', ''artifact_id'', ''storage_id'', ''relative_path'']),
     (''artifact_missing'', [''artifact_id'', ''target_id'', ''storage_id'', ''relative_path'']),
     (''storage_unreachable'', [''storage_id'', ''reason_code'']),
     (''ytdlp_updated'', [''version'', ''previous_version'']),
     (''ytdlp_rollback'', [''version'', ''previous_version''])]"

definition event_types :: "string list" where "event_types = map fst event_payload_fields"

definition forbidden_key_parts :: "string list" where
  "forbidden_key_parts = [''cookie'', ''credential'', ''password'', ''secret'', ''token'', ''url'']"

definition has_url :: "string \<Rightarrow> bool" where
  "has_url s \<longleftrightarrow> contains ''http://'' (lower s) \<or> contains ''https://'' (lower s)"

text \<open>What one value becomes; a value of another type is left out.\<close>

definition safe_value :: "(string \<Rightarrow> bool) \<Rightarrow> json \<Rightarrow> json option" where
  "safe_value brackets_ok v =
     (case v of
        JStr s \<Rightarrow>
          Some (if has_url s then JStr stars
                else (let masked = mask_log_text brackets_ok (take 1000 s)
                      in JStr (if masked = take 1000 s then masked else stars)))
      | JArr _ \<Rightarrow> None
      | JObj _ \<Rightarrow> None
      | _ \<Rightarrow> Some v)"

definition safe_key :: "string list \<Rightarrow> string \<Rightarrow> bool" where
  "safe_key allowed_keys key \<longleftrightarrow> key \<in> set allowed_keys \<and>
     \<not> list_ex (\<lambda>part. contains part (replace_char (CHR ''-'') (CHR ''_'') (lower key))) forbidden_key_parts"

fun safe_fields :: "(string \<Rightarrow> bool) \<Rightarrow> string list \<Rightarrow> (string \<times> json) list \<Rightarrow> (string \<times> json) list" where
  "safe_fields brackets_ok allowed_keys [] = []"
| "safe_fields brackets_ok allowed_keys ((key, v) # r) =
     (if safe_key allowed_keys key
      then (case safe_value brackets_ok v of
              None \<Rightarrow> safe_fields brackets_ok allowed_keys r
            | Some v' \<Rightarrow> (key, v') # safe_fields brackets_ok allowed_keys r)
      else safe_fields brackets_ok allowed_keys r)"

definition sanitize_event_payload :: "(string \<Rightarrow> bool) \<Rightarrow> string \<Rightarrow> (string \<times> json) list
    \<Rightarrow> exn + (string \<times> json) list" where
  "sanitize_event_payload brackets_ok event_type payload =
     (case map_of event_payload_fields event_type of
        None \<Rightarrow> Inl ValueError
      | Some allowed_keys \<Rightarrow> Inr (safe_fields brackets_ok allowed_keys payload))"

section \<open>The event log\<close>

record event_log =
  el_event_type :: string
  el_payload_json :: "(string \<times> json) list"
  el_created_at :: instant

definition string_list :: "json list \<Rightarrow> string list option" where
  "string_list vs = those (map (\<lambda>v. case v of JStr s \<Rightarrow> Some s | _ \<Rightarrow> None) vs)"

text \<open>
  The subscriptions: no file means all events, and whatever is wrong with the file means none. The file is
  \<open>None\<close> when it does not exist, \<open>Some None\<close> when it cannot be read or parsed, is too long or has aliases.
\<close>

definition subscribed_events :: "json \<Rightarrow> string list option" where
  "subscribed_events v =
     (case v of
        JObj d \<Rightarrow>
          (case jget d ''subscriptions'' of
             JObj subs \<Rightarrow>
               (case jget subs ''event_log'' of
                  JObj el \<Rightarrow>
                    if set (map fst d) \<noteq> {''version'', ''subscriptions''} \<or>
                       jget d ''version'' \<notin> {JInt 1, JFloat 1, JBool True} \<or>
                       set (map fst subs) \<noteq> {''event_log''} \<or> set (map fst el) \<noteq> {''enabled'', ''events''}
                    then None
                    else (case (jget el ''enabled'', jget el ''events'') of
                            (JBool enabled, JArr vs) \<Rightarrow>
                              (case string_list vs of
                                 None \<Rightarrow> None
                               | Some events \<Rightarrow>
                                   if list_all (\<lambda>e. e \<in> set event_types) events
                                   then Some (if enabled then remdups events else []) else None)
                          | _ \<Rightarrow> None)
                | _ \<Rightarrow> None)
           | _ \<Rightarrow> None)
      | _ \<Rightarrow> None)"

definition load_event_log_subscriptions :: "json option option \<Rightarrow> string list" where
  "load_event_log_subscriptions config =
     (case config of
        None \<Rightarrow> event_types
      | Some None \<Rightarrow> []
      | Some (Some v) \<Rightarrow> (case subscribed_events v of None \<Rightarrow> [] | Some events \<Rightarrow> events))"

text \<open>\<open>emit\<close>: the exception it raises, and the log; a full queue drops the event.\<close>

definition emit :: "(string \<Rightarrow> bool) \<Rightarrow> string list \<Rightarrow> bool \<Rightarrow> string \<Rightarrow> (string \<times> json) list \<Rightarrow> instant
    \<Rightarrow> event_log table \<Rightarrow> exn option \<times> event_log table" where
  "emit brackets_ok enabled_events room event_type payload now rows =
     (if event_type \<notin> set enabled_events then (None, rows)
      else (case sanitize_event_payload brackets_ok event_type payload of
              Inl e \<Rightarrow> (Some e, rows)
            | Inr safe \<Rightarrow>
                if \<not> room then (None, rows)
                else (None, insert_row \<lparr>el_event_type = event_type, el_payload_json = safe,
                                        el_created_at = now\<rparr> rows)))"

definition emit_safely :: "(string \<Rightarrow> bool) \<Rightarrow> string list \<Rightarrow> bool \<Rightarrow> string \<Rightarrow> (string \<times> json) list \<Rightarrow> instant
    \<Rightarrow> event_log table \<Rightarrow> event_log table" where
  "emit_safely brackets_ok enabled_events room event_type payload now rows =
     snd (emit brackets_ok enabled_events room event_type payload now rows)"

section \<open>What reaches the log\<close>

text \<open>A stored value is not a text that a mask would change, and has no URL; a masked text is only stars.\<close>

definition clean_value :: "(string \<Rightarrow> bool) \<Rightarrow> json \<Rightarrow> bool" where
  "clean_value brackets_ok v \<longleftrightarrow>
     (case v of
        JStr s \<Rightarrow> s = stars \<or> (length s \<le> 1000 \<and> \<not> has_url s \<and> mask_log_text brackets_ok s = s)
      | JArr _ \<Rightarrow> False | JObj _ \<Rightarrow> False | _ \<Rightarrow> True)"

lemma contains_take: "contains v (take n s) \<Longrightarrow> contains v s"
proof -
  assume "contains v (take n s)"
  then obtain a b where "take n s = a @ v @ b" by (auto simp: contains_iff)
  then have "s = a @ v @ (b @ drop n s)" by (metis append.assoc append_take_drop_id)
  then show ?thesis unfolding contains_iff by blast
qed

lemma has_url_take: "has_url (take n s) \<Longrightarrow> has_url s"
  using contains_take[of _ n "lower s"] by (auto simp: has_url_def lower_def take_map)

lemma safe_value_clean: "safe_value brackets_ok v = Some v' \<Longrightarrow> clean_value brackets_ok v'"
  using has_url_take[of 1000]
  by (cases v) (auto simp: safe_value_def clean_value_def Let_def split: if_splits)

lemma safe_fields_entries:
  "(k, v) \<in> set (safe_fields brackets_ok allowed_keys payload) \<Longrightarrow>
     safe_key allowed_keys k \<and> clean_value brackets_ok v \<and> k \<in> set (map fst payload)"
proof (induction brackets_ok allowed_keys payload rule: safe_fields.induct)
  case (2 brackets_ok allowed_keys key v' r)
  then show ?case by (auto split: if_splits option.splits dest: safe_value_clean)
qed simp


end
