(* ===== verification/Integrity.thy ===== *)
theory Integrity
  imports Repositories Storage_Adapter
begin

text \<open>
  The integrity check, \<open>src/sluicery/core/integrity.py\<close>: it looks at the storages and changes only the
  database. The check reads the database once, looks at every file twice, and applies its decisions to the database
  as it is then: \<open>d\<close> and \<open>d2\<close> are the two states of the database, \<open>w1\<close> and \<open>w2\<close> the two of the
  storages. The adapters are parameters, so a storage is only read.
\<close>

section \<open>Reports\<close>

record integrity_issue =
  is_artifact_id :: int
  is_target_id :: int
  is_storage_id :: int
  is_kind :: string
  is_candidates :: "string list"

record integrity_report =
  ig_checked :: nat
  ig_present :: nat
  ig_relinked :: nat
  ig_missing :: nat
  ig_restored :: nat
  ig_rescanned_storages :: nat
  ig_issues :: "integrity_issue list"

definition empty_report :: integrity_report where
  "empty_report = \<lparr>ig_checked = 0, ig_present = 0, ig_relinked = 0, ig_missing = 0, ig_restored = 0,
     ig_rescanned_storages = 0, ig_issues = []\<rparr>"

record artifact_snapshot =
  sn_artifact_id :: int
  sn_target_id :: int
  sn_storage_id :: int
  sn_relative_path :: string
  sn_source_id :: string
  sn_artifact_updated_at :: instant
  sn_target_status :: target_status
  sn_target_updated_at :: instant

datatype decision = DC_Present | DC_Relink string | DC_Missing string "string list"

definition issue :: "artifact_snapshot \<Rightarrow> string \<Rightarrow> string list \<Rightarrow> integrity_issue" where
  "issue s kind candidates = \<lparr>is_artifact_id = sn_artifact_id s, is_target_id = sn_target_id s,
     is_storage_id = sn_storage_id s, is_kind = kind, is_candidates = candidates\<rparr>"

definition add_issues :: "integrity_issue list \<Rightarrow> integrity_report \<Rightarrow> integrity_report" where
  "add_issues xs r = r\<lparr>ig_issues := ig_issues r @ xs\<rparr>"

section \<open>File names\<close>

text \<open>The source id in brackets, then one or more extensions that are not empty, at the end of the name.\<close>

definition extensions_ok :: "string \<Rightarrow> bool" where
  "extensions_ok s \<longleftrightarrow> (case s of [] \<Rightarrow> False
     | c # r \<Rightarrow> c = CHR ''.'' \<and> list_all (\<lambda>p. p \<noteq> []) (split_on (CHR ''.'') r))"

fun id_then_extensions :: "string \<Rightarrow> string \<Rightarrow> bool" where
  "id_then_extensions source_id [] \<longleftrightarrow> False"
| "id_then_extensions source_id (c # s) \<longleftrightarrow>
     (let bracketed = ''['' @ source_id @ '']''
      in starts_with bracketed (c # s) \<and> extensions_ok (drop (length bracketed) (c # s)))
     \<or> id_then_extensions source_id s"

definition matches_source_id :: "string \<Rightarrow> string \<Rightarrow> bool" where
  "matches_source_id relative_path source_id =
     id_then_extensions source_id (if path_parts relative_path = [] then [] else last (path_parts relative_path))"

definition list_with_timeout :: "'s storage_adapter \<Rightarrow> 's \<Rightarrow> string + remote_file list" where
  "list_with_timeout ad w =
     (case ad_list_recursive ad w [] of
        (entries, None) \<Rightarrow> Inr entries
      | (entries, Some (StorageOperationError c reason)) \<Rightarrow>
          Inl (if reason = ''timeout'' then ''scan_timeout'' else ''scan_error'')
      | (entries, Some e) \<Rightarrow> Inl ''scan_error'')"

section \<open>Reading\<close>

definition artifact_snapshot :: "db \<Rightarrow> int option \<Rightarrow> int option \<Rightarrow> int \<times> artifact \<Rightarrow> artifact_snapshot option" where
  "artifact_snapshot d storage_id playlist_id x =
     (case x of (aid, a) \<Rightarrow>
        case tget (db_targets d) (ar_target_id a) of None \<Rightarrow> None | Some tg \<Rightarrow>
        (case tget (db_items d) (tg_item_id tg) of None \<Rightarrow> None | Some it \<Rightarrow>
        (case tget (db_playlists d) (it_playlist_id it) of None \<Rightarrow> None | Some pl \<Rightarrow>
        (case tget (db_storages d) (ar_storage_id a) of None \<Rightarrow> None | Some st \<Rightarrow>
           if (storage_id \<noteq> None \<and> storage_id \<noteq> Some (ar_storage_id a)) \<or>
              (playlist_id \<noteq> None \<and> playlist_id \<noteq> Some (it_playlist_id it)) then None
           else Some \<lparr>sn_artifact_id = aid, sn_target_id = ar_target_id a, sn_storage_id = ar_storage_id a,
                      sn_relative_path = ar_relative_path a, sn_source_id = it_source_id it,
                      sn_artifact_updated_at = ar_updated_at a, sn_target_status = tg_status tg,
                      sn_target_updated_at = tg_updated_at tg\<rparr>))))"

definition integrity_rows :: "db \<Rightarrow> int option \<Rightarrow> int option \<Rightarrow> artifact_snapshot list" where
  "integrity_rows d storage_id playlist_id =
     sort_key (\<lambda>s. (sn_storage_id s, sn_artifact_id s))
       (List.map_filter (artifact_snapshot d storage_id playlist_id) (db_artifacts d))"

definition group_ids :: "artifact_snapshot list \<Rightarrow> int list" where
  "group_ids rows = remdups (map sn_storage_id rows)"

definition rows_of :: "int \<Rightarrow> artifact_snapshot list \<Rightarrow> artifact_snapshot list" where
  "rows_of sid rows = filter (\<lambda>s. sn_storage_id s = sid) rows"

definition tracked_paths :: "db \<Rightarrow> int \<Rightarrow> string list" where
  "tracked_paths d sid = map (\<lambda>(_, a). ar_relative_path a) (select_where (\<lambda>_ a. ar_storage_id a = sid) (db_artifacts d))"

section \<open>Looking\<close>

text \<open>The first look: how many were asked, and which are there and which are not, unless one raises.\<close>

fun look :: "(string \<Rightarrow> exn + bool) \<Rightarrow> artifact_snapshot list
    \<Rightarrow> nat \<times> (artifact_snapshot list \<times> artifact_snapshot list) option" where
  "look exists [] = (0, Some ([], []))"
| "look exists (s # rows) =
     (case exists (sn_relative_path s) of
        Inl _ \<Rightarrow> (1, None)
      | Inr b \<Rightarrow>
          (case look exists rows of
             (n, None) \<Rightarrow> (n + 1, None)
           | (n, Some (present, absent)) \<Rightarrow>
               (n + 1, Some (if b then (s # present, absent) else (present, s # absent)))))"

definition candidates_of :: "remote_file list \<Rightarrow> artifact_snapshot \<Rightarrow> string list" where
  "candidates_of untracked s =
     map rf_relative_path (filter (\<lambda>f. matches_source_id (rf_relative_path f) (sn_source_id s)) untracked)"

definition claimants :: "remote_file list \<Rightarrow> artifact_snapshot list \<Rightarrow> string \<Rightarrow> nat" where
  "claimants untracked absent path = length (filter (\<lambda>s. path \<in> set (candidates_of untracked s)) absent)"

definition decide_absent :: "nat \<Rightarrow> remote_file list \<Rightarrow> artifact_snapshot list \<Rightarrow> artifact_snapshot
    \<Rightarrow> artifact_snapshot \<times> decision" where
  "decide_absent max_candidates untracked absent s =
     (let candidates = candidates_of untracked s
      in (s, case candidates of
               [c] \<Rightarrow> if claimants untracked absent c = 1 then DC_Relink c
                      else DC_Missing ''shared_candidate'' (take max_candidates candidates)
             | [] \<Rightarrow> DC_Missing ''missing'' []
             | _ \<Rightarrow> DC_Missing ''multiple_candidates'' (take max_candidates candidates)))"

definition decide_storage :: "nat \<Rightarrow> (int \<Rightarrow> exn + 's storage_adapter) \<Rightarrow> 's \<Rightarrow> db \<Rightarrow> artifact_snapshot list \<Rightarrow> int
    \<Rightarrow> integrity_report \<Rightarrow> (artifact_snapshot \<times> decision) list \<times> integrity_report" where
  "decide_storage max_candidates adapters w d snapshots sid report =
     (let rows = rows_of sid snapshots
      in case adapters sid of
           Inl _ \<Rightarrow> ([], report)
         | Inr ad \<Rightarrow>
             (case look (ad_exists ad w) rows of
                (n, None) \<Rightarrow>
                  ([], add_issues (map (\<lambda>s. issue s ''storage_error'' []) rows)
                         (report\<lparr>ig_checked := ig_checked report + n\<rparr>))
              | (n, Some (present, absent)) \<Rightarrow>
                  (let report1 = report\<lparr>ig_checked := ig_checked report + n\<rparr>;
                       found = map (\<lambda>s. (s, DC_Present)) present
                   in if absent = [] then (found, report1)
                      else (let report2 = report1\<lparr>ig_rescanned_storages := ig_rescanned_storages report1 + 1\<rparr>
                            in case list_with_timeout ad w of
                                 Inl kind \<Rightarrow> ([], add_issues (map (\<lambda>s. issue s kind []) absent) report2)
                               | Inr files \<Rightarrow>
                                   (let untracked = filter (\<lambda>f. rf_relative_path f \<notin> set (tracked_paths d sid)) files
                                    in (map (decide_absent max_candidates untracked absent) absent @ found,
                                        report2))))))"

definition adapter_issues :: "(int \<Rightarrow> exn + 's storage_adapter) \<Rightarrow> artifact_snapshot list \<Rightarrow> integrity_issue list" where
  "adapter_issues adapters rows =
     concat (map (\<lambda>sid. if isl (adapters sid) then map (\<lambda>s. issue s ''storage_error'' []) (rows_of sid rows) else [])
       (group_ids rows))"

definition decide_all :: "nat \<Rightarrow> (int \<Rightarrow> exn + 's storage_adapter) \<Rightarrow> 's \<Rightarrow> db \<Rightarrow> artifact_snapshot list
    \<Rightarrow> (artifact_snapshot \<times> decision) list \<times> integrity_report" where
  "decide_all max_candidates adapters w d rows =
     fold (\<lambda>sid (decisions, report). case decide_storage max_candidates adapters w d rows sid report of
            (ds, report') \<Rightarrow> (decisions @ ds, report'))
       (group_ids rows) ([], add_issues (adapter_issues adapters rows) empty_report)"

text \<open>The second look: a decision stands only if the storage still shows what it rests on.\<close>

definition second_look :: "(string \<Rightarrow> exn + bool) \<Rightarrow> decision \<Rightarrow> string \<Rightarrow> string + decision" where
  "second_look exists decision path =
     (case exists path of
        Inl _ \<Rightarrow> Inl ''storage_error''
      | Inr True \<Rightarrow> Inr DC_Present
      | Inr False \<Rightarrow>
          (case decision of
             DC_Missing kind candidates \<Rightarrow> Inr decision
           | DC_Relink c \<Rightarrow>
               (case exists c of
                  Inl _ \<Rightarrow> Inl ''storage_error'' | Inr True \<Rightarrow> Inr decision | Inr False \<Rightarrow> Inl ''storage_changed'')
           | DC_Present \<Rightarrow> Inl ''storage_changed''))"

fun revalidate :: "(int \<Rightarrow> exn + 's storage_adapter) \<Rightarrow> 's \<Rightarrow> (artifact_snapshot \<times> decision) list
    \<Rightarrow> (artifact_snapshot \<times> decision) list \<times> integrity_issue list" where
  "revalidate adapters w [] = ([], [])"
| "revalidate adapters w ((s, decision) # ds) =
     (case revalidate adapters w ds of
        (kept, issues) \<Rightarrow>
          (case (case adapters (sn_storage_id s) of
                   Inl _ \<Rightarrow> Inl ''storage_error''
                 | Inr ad \<Rightarrow> second_look (ad_exists ad w) decision (sn_relative_path s)) of
             Inl kind \<Rightarrow> (kept, issue s kind [] # issues)
           | Inr decision' \<Rightarrow> ((s, decision') # kept, issues)))"

section \<open>Applying\<close>

record integrity_state =
  ia_db :: db
  ia_report :: integrity_report
  ia_missing_events :: "event list"
  ia_affected_target_ids :: "int list"

text \<open>A row that is loaded and assigned to is written, with its \<open>updated_at\<close>, only if it changed.\<close>

definition touch_artifact :: "instant \<Rightarrow> (artifact \<Rightarrow> artifact) \<Rightarrow> artifact \<Rightarrow> artifact" where
  "touch_artifact now f a = (if f a = a then a else (f a)\<lparr>ar_updated_at := now\<rparr>)"

definition touch_target :: "instant \<Rightarrow> (target \<Rightarrow> target) \<Rightarrow> target \<Rightarrow> target" where
  "touch_target now f t = (if f t = t then t else (f t)\<lparr>tg_updated_at := now\<rparr>)"

definition update_artifact :: "instant \<Rightarrow> int \<Rightarrow> (artifact \<Rightarrow> artifact) \<Rightarrow> db \<Rightarrow> db" where
  "update_artifact now aid f d = d\<lparr>db_artifacts := set_row aid (touch_artifact now f) (db_artifacts d)\<rparr>"

definition update_target :: "instant \<Rightarrow> int \<Rightarrow> (target \<Rightarrow> target) \<Rightarrow> db \<Rightarrow> db" where
  "update_target now tid f d = d\<lparr>db_targets := set_row tid (touch_target now f) (db_targets d)\<rparr>"

definition artifact_event :: "int \<Rightarrow> int \<Rightarrow> int \<Rightarrow> string \<Rightarrow> event" where
  "artifact_event aid tid sid path = Event ''artifact_missing''
     [(''artifact_id'', JInt aid), (''target_id'', JInt tid), (''storage_id'', JInt sid),
      (''relative_path'', JStr path)]"

definition still_current :: "db \<Rightarrow> artifact_snapshot \<Rightarrow> bool" where
  "still_current d s \<longleftrightarrow>
     (case (tget (db_artifacts d) (sn_artifact_id s), tget (db_targets d) (sn_target_id s)) of
        (Some a, Some t) \<Rightarrow>
          ar_relative_path a = sn_relative_path s \<and> ar_updated_at a = sn_artifact_updated_at s \<and>
          tg_status t = sn_target_status s \<and> tg_updated_at t = sn_target_updated_at s
      | _ \<Rightarrow> False)"

definition tracked_by_other :: "db \<Rightarrow> int \<Rightarrow> string \<Rightarrow> int \<Rightarrow> bool" where
  "tracked_by_other d sid path aid \<longleftrightarrow>
     select_where (\<lambda>i a. ar_storage_id a = sid \<and> ar_relative_path a = path \<and> i \<noteq> aid) (db_artifacts d) \<noteq> []"

definition relinked_row :: "string \<Rightarrow> artifact \<Rightarrow> artifact" where
  "relinked_row path a = a\<lparr>ar_relative_path := path, ar_absolute_path_cache := None, ar_missing_since := None\<rparr>"

definition missing_row :: "instant \<Rightarrow> artifact \<Rightarrow> artifact" where
  "missing_row checked_at a =
     a\<lparr>ar_missing_since := (case ar_missing_since a of None \<Rightarrow> Some checked_at | Some m \<Rightarrow> Some m)\<rparr>"

definition present_row :: "artifact \<Rightarrow> artifact" where
  "present_row a = a\<lparr>ar_missing_since := None\<rparr>"

definition newly_missing :: "db \<Rightarrow> int \<Rightarrow> bool" where
  "newly_missing d aid \<longleftrightarrow>
     (case tget (db_artifacts d) aid of None \<Rightarrow> False | Some a \<Rightarrow> ar_missing_since a = None)"

definition apply_decision :: "instant \<Rightarrow> instant \<Rightarrow> artifact_snapshot \<times> decision
    \<Rightarrow> integrity_state \<Rightarrow> integrity_state" where
  "apply_decision checked_at now x ia =
     (case x of (s, decision) \<Rightarrow>
      let d = ia_db ia; r = ia_report ia; aid = sn_artifact_id s
      in if \<not> still_current d s then ia
         else (case decision of
                 DC_Relink path \<Rightarrow>
                   if tracked_by_other d (sn_storage_id s) path aid then ia
                   else ia\<lparr>ia_db := update_artifact now aid (relinked_row path) d,
                           ia_report := r\<lparr>ig_relinked := ig_relinked r + 1\<rparr>,
                           ia_affected_target_ids := ia_affected_target_ids ia @ [sn_target_id s]\<rparr>
               | DC_Missing kind candidates \<Rightarrow>
                   ia\<lparr>ia_db := update_artifact now aid (missing_row checked_at) d,
                      ia_report := add_issues [issue s kind candidates] (r\<lparr>ig_missing := ig_missing r + 1\<rparr>),
                      ia_missing_events := ia_missing_events ia @
                        (if newly_missing d aid
                         then [artifact_event aid (sn_target_id s) (sn_storage_id s) (sn_relative_path s)] else []),
                      ia_affected_target_ids := ia_affected_target_ids ia @ [sn_target_id s]\<rparr>
               | DC_Present \<Rightarrow>
                   ia\<lparr>ia_db := update_artifact now aid present_row d,
                      ia_report := r\<lparr>ig_present := ig_present r + 1\<rparr>,
                      ia_affected_target_ids := ia_affected_target_ids ia @ [sn_target_id s]\<rparr>))"

definition apply_decisions :: "instant \<Rightarrow> instant \<Rightarrow> (artifact_snapshot \<times> decision) list
    \<Rightarrow> integrity_state \<Rightarrow> integrity_state" where
  "apply_decisions checked_at now decisions ia = fold (apply_decision checked_at now) decisions ia"

text \<open>The Target follows its artifacts, by the policy of its playlist.\<close>

primrec missing_destination :: "missing_policy \<Rightarrow> target_status" where
  "missing_destination MP_Leave = TG_Missing"
| "missing_destination MP_Redownload = TG_Pending"
| "missing_destination MP_Ignore = TG_Ignored"

definition policy_of_target :: "db \<Rightarrow> target \<Rightarrow> missing_policy option" where
  "policy_of_target d t =
     (case tget (db_items d) (tg_item_id t) of None \<Rightarrow> None
      | Some it \<Rightarrow> map_option pl_missing_policy (tget (db_playlists d) (it_playlist_id it)))"

definition has_missing_artifact :: "db \<Rightarrow> int \<Rightarrow> bool" where
  "has_missing_artifact d tid \<longleftrightarrow>
     list_ex (\<lambda>(_, a). ar_target_id a = tid \<and> ar_missing_since a \<noteq> None) (db_artifacts d)"

definition set_target_status :: "instant \<Rightarrow> int \<Rightarrow> target_status \<Rightarrow> db \<Rightarrow> db" where
  "set_target_status now tid st d = update_target now tid (\<lambda>t. t\<lparr>tg_status := st\<rparr>) d"

definition settle_target :: "instant \<Rightarrow> int \<Rightarrow> db \<times> integrity_report \<Rightarrow> exn + db \<times> integrity_report" where
  "settle_target now tid x =
     (case x of (d, r) \<Rightarrow>
      case tget (db_targets d) tid of None \<Rightarrow> Inl AssertionError
      | Some t \<Rightarrow>
          if has_missing_artifact d tid \<and> tg_status t = TG_Downloaded then
            (case policy_of_target d t of
               None \<Rightarrow> Inl AssertionError
             | Some policy \<Rightarrow> Inr (set_target_status now tid (missing_destination policy) d, r))
          else if \<not> has_missing_artifact d tid \<and> tg_status t = TG_Missing then
            Inr (set_target_status now tid TG_Downloaded d, r\<lparr>ig_restored := ig_restored r + 1\<rparr>)
          else Inr (d, r))"

fun settle_targets :: "instant \<Rightarrow> int list \<Rightarrow> db \<times> integrity_report \<Rightarrow> exn + db \<times> integrity_report" where
  "settle_targets now [] x = Inr x"
| "settle_targets now (tid # tids) x =
     (case settle_target now tid x of Inl e \<Rightarrow> Inl e | Inr x' \<Rightarrow> settle_targets now tids x')"

definition storage_failures :: "integrity_issue list \<Rightarrow> (int \<times> string) list" where
  "storage_failures issues =
     remdups (map (\<lambda>i. (is_storage_id i, is_kind i))
       (filter (\<lambda>i. is_kind i \<in> {''storage_error'', ''scan_error'', ''scan_timeout''}) issues))"

definition storage_event :: "int \<times> string \<Rightarrow> event" where
  "storage_event x = (case x of (sid, reason) \<Rightarrow> Event ''storage_unreachable''
     [(''storage_id'', JInt sid), (''reason_code'', JStr reason)])"

text \<open>
  \<open>check_integrity\<close>: the exception or the report, the database it commits, and the events. A failed assertion
  leaves the transaction uncommitted. The order of the events of failing storages is that of a set.
\<close>

definition decided :: "nat \<Rightarrow> (int \<Rightarrow> exn + 's storage_adapter) \<Rightarrow> 's \<Rightarrow> 's \<Rightarrow> int option \<Rightarrow> int option \<Rightarrow> db
    \<Rightarrow> (artifact_snapshot \<times> decision) list \<times> integrity_report" where
  "decided max_candidates adapters w1 w2 storage_id playlist_id d =
     (case decide_all max_candidates adapters w1 d (integrity_rows d storage_id playlist_id) of
        (decisions, report) \<Rightarrow>
          (case revalidate adapters w2 decisions of
             (kept, issues) \<Rightarrow> (kept, add_issues issues report)))"

definition applied :: "nat \<Rightarrow> (int \<Rightarrow> exn + 's storage_adapter) \<Rightarrow> 's \<Rightarrow> 's \<Rightarrow> int option \<Rightarrow> int option
    \<Rightarrow> instant \<Rightarrow> instant \<Rightarrow> db \<Rightarrow> db \<Rightarrow> integrity_state" where
  "applied max_candidates adapters w1 w2 storage_id playlist_id checked_at now d d2 =
     (case decided max_candidates adapters w1 w2 storage_id playlist_id d of
        (kept, report) \<Rightarrow>
          apply_decisions checked_at now kept
            \<lparr>ia_db = d2, ia_report = report, ia_missing_events = [], ia_affected_target_ids = []\<rparr>)"

definition check_integrity :: "int \<Rightarrow> int \<Rightarrow> (int \<Rightarrow> exn + 's storage_adapter) \<Rightarrow> 's \<Rightarrow> 's \<Rightarrow> int option
    \<Rightarrow> int option \<Rightarrow> instant \<Rightarrow> instant \<Rightarrow> db \<Rightarrow> db \<Rightarrow> exn + integrity_report \<times> db \<times> event list" where
  "check_integrity rescan_timeout_sec max_candidates adapters w1 w2 storage_id playlist_id checked_at now d d2 =
     (if rescan_timeout_sec \<le> 0 \<or> max_candidates \<le> 0 then Inl ValueError
      else (let ia = applied (nat max_candidates) adapters w1 w2 storage_id playlist_id checked_at now d d2
            in case settle_targets now (remdups (ia_affected_target_ids ia)) (ia_db ia, ia_report ia) of
                 Inl e \<Rightarrow> Inl e
               | Inr (d3, report) \<Rightarrow>
                   Inr (report, d3,
                        ia_missing_events ia @ map storage_event (storage_failures (ig_issues report)))))"

section \<open>The operations of a user\<close>

definition list_orphan_files :: "'s storage_adapter \<Rightarrow> 's \<Rightarrow> int \<Rightarrow> db \<Rightarrow> remote_file list \<times> string option" where
  "list_orphan_files ad w sid d =
     (case list_with_timeout ad w of
        Inl error \<Rightarrow> ([], Some error)
      | Inr files \<Rightarrow> (filter (\<lambda>f. rf_relative_path f \<notin> set (tracked_paths d sid)) files, None))"

definition set_missing_action :: "instant \<Rightarrow> int \<Rightarrow> missing_policy \<Rightarrow> db \<Rightarrow> exn + target_status \<times> db" where
  "set_missing_action now tid action d =
     (case tget (db_targets d) tid of
        None \<Rightarrow> Inl LookupError
      | Some t \<Rightarrow>
          if \<not> has_missing_artifact d tid then Inl ValueError
          else Inr (missing_destination action,
                    update_target now tid
                      (\<lambda>t. t\<lparr>tg_status := missing_destination action, tg_last_error := None,
                             tg_blocked_reason := None\<rparr>) d))"

definition linked_row :: "instant \<Rightarrow> string \<Rightarrow> artifact \<Rightarrow> artifact" where
  "linked_row linked_at path a =
     a\<lparr>ar_manual_link_previous_path := Some (ar_relative_path a), ar_manual_linked_at := Some linked_at,
       ar_relative_path := path, ar_absolute_path_cache := None, ar_missing_since := None\<rparr>"

definition manual_link :: "'s storage_adapter \<Rightarrow> 's \<Rightarrow> instant \<Rightarrow> instant \<Rightarrow> int \<Rightarrow> string \<Rightarrow> db \<Rightarrow> exn + db" where
  "manual_link ad w linked_at now aid candidate_path d =
     (case tget (db_artifacts d) aid of
        None \<Rightarrow> Inl LookupError
      | Some a \<Rightarrow>
          if ar_missing_since a = None then Inl ValueError
          else (case validate_relative_path candidate_path False of
                  Inl e \<Rightarrow> Inl e
                | Inr normalized \<Rightarrow>
                    if tracked_by_other d (ar_storage_id a) normalized aid then Inl ValueError
                    else (case ad_exists ad w normalized of
                            Inl e \<Rightarrow> Inl e
                          | Inr False \<Rightarrow> Inl ValueError
                          | Inr True \<Rightarrow>
                              (let d' = update_artifact now aid (linked_row linked_at normalized) d
                               in case tget (db_targets d') (ar_target_id a) of
                                    None \<Rightarrow> Inl AssertionError
                                  | Some t \<Rightarrow>
                                      Inr (if has_missing_artifact d' (ar_target_id a) then d'
                                           else set_target_status now (ar_target_id a) TG_Downloaded d')))))"

definition unlinked_row :: "instant \<Rightarrow> string \<Rightarrow> artifact \<Rightarrow> artifact" where
  "unlinked_row unlinked_at previous a =
     a\<lparr>ar_relative_path := previous, ar_absolute_path_cache := None, ar_manual_link_previous_path := None,
       ar_manual_linked_at := None, ar_missing_since := Some unlinked_at\<rparr>"

definition undo_manual_link :: "instant \<Rightarrow> instant \<Rightarrow> int \<Rightarrow> db \<Rightarrow> exn + db \<times> event list" where
  "undo_manual_link unlinked_at now aid d =
     (case tget (db_artifacts d) aid of
        None \<Rightarrow> Inl LookupError
      | Some a \<Rightarrow>
          (case ar_manual_link_previous_path a of
             None \<Rightarrow> Inl ValueError
           | Some previous \<Rightarrow>
               (let d' = update_artifact now aid (unlinked_row unlinked_at previous) d
                in case tget (db_targets d') (ar_target_id a) of
                     None \<Rightarrow> Inl AssertionError
                   | Some t \<Rightarrow>
                       Inr (set_target_status now (ar_target_id a) TG_Missing d',
                            [artifact_event aid (ar_target_id a) (ar_storage_id a) previous]))))"

end
