(* ===== verification/Retention.thy ===== *)
theory Retention
  imports Integrity Sync Settings "HOL-Library.List_Lexorder" "HOL-Library.Char_ord"
begin

text \<open>
  The retention of playlists, \<open>src/sluicery/core/retention.py\<close>: the policy, the dry run with its guards, the
  signed confirmation and the deletion with its two-phase audit. A date is its proleptic ordinal. Digests, the
  signature of tokens and the reading of a time stamp are arguments; failures of writing the audit and the acts
  of other processes between the sessions are functions in the environment of an execution.
\<close>

datatype retention_error =
    RetentionPolicyError | RetentionSafetyError | RetentionConfirmationError | RetentionExecutionError
  | RE_Other exn

section \<open>Policies\<close>

record retention_policy =
  rp_enabled :: bool
  rp_keep_latest :: "int option"
  rp_max_age_days :: "int option"

definition no_policy :: retention_policy where
  "no_policy = \<lparr>rp_enabled = False, rp_keep_latest = None, rp_max_age_days = None\<rparr>"

definition positive_text :: "int \<Rightarrow> string \<Rightarrow> retention_error + int option" where
  "positive_text n shown =
     (if n \<le> 0 \<or> int_str n \<noteq> strip shown then Inl RetentionPolicyError else Inr (Some n))"

definition optional_positive_int :: "json \<Rightarrow> retention_error + int option" where
  "optional_positive_int v =
     (case v of
        JNull \<Rightarrow> Inr None
      | JInt n \<Rightarrow> positive_text n (int_str n)
      | JStr s \<Rightarrow>
          if s = [] then Inr None
          else (case py_int s of None \<Rightarrow> Inl RetentionPolicyError | Some n \<Rightarrow> positive_text n s)
      | _ \<Rightarrow> Inl RetentionPolicyError)"

definition policy_from_json :: "json \<Rightarrow> retention_error + retention_policy" where
  "policy_from_json v =
     (case v of
        JNull \<Rightarrow> Inr no_policy
      | JObj d \<Rightarrow>
          if \<not> set (map fst d) \<subseteq> {''enabled'', ''keep_latest'', ''max_age_days''} then Inl RetentionPolicyError
          else (case (case map_of d ''enabled'' of None \<Rightarrow> JBool False | Some e \<Rightarrow> e) of
                  JBool enabled \<Rightarrow>
                    (case optional_positive_int (jget d ''keep_latest'') of
                       Inl e \<Rightarrow> Inl e
                     | Inr keep_latest \<Rightarrow>
                         (case optional_positive_int (jget d ''max_age_days'') of
                            Inl e \<Rightarrow> Inl e
                          | Inr max_age_days \<Rightarrow>
                              if enabled \<and> keep_latest = None \<and> max_age_days = None then Inl RetentionPolicyError
                              else Inr \<lparr>rp_enabled = enabled, rp_keep_latest = keep_latest,
                                        rp_max_age_days = max_age_days\<rparr>))
                | _ \<Rightarrow> Inl RetentionPolicyError)
      | _ \<Rightarrow> Inl RetentionPolicyError)"

definition int_or_null :: "int option \<Rightarrow> json" where
  "int_or_null n = (case n of None \<Rightarrow> JNull | Some i \<Rightarrow> JInt i)"

definition str_or_null :: "string option \<Rightarrow> json" where
  "str_or_null s = (case s of None \<Rightarrow> JNull | Some t \<Rightarrow> JStr t)"

definition policy_to_json :: "retention_policy \<Rightarrow> json" where
  "policy_to_json p = JObj [(''enabled'', JBool (rp_enabled p)), (''keep_latest'', int_or_null (rp_keep_latest p)),
     (''max_age_days'', int_or_null (rp_max_age_days p))]"

definition save_retention_policy :: "instant \<Rightarrow> int \<Rightarrow> retention_policy \<Rightarrow> db \<Rightarrow> exn + db" where
  "save_retention_policy now pid policy d =
     (case tget (db_playlists d) pid of
        None \<Rightarrow> Inl LookupError
      | Some pl \<Rightarrow>
          (let v = (if rp_enabled policy then Some (policy_to_json policy) else None)
           in Inr (if pl_retention_policy_json pl = v then d
                   else d\<lparr>db_playlists := set_row pid
                            (\<lambda>p. p\<lparr>pl_retention_policy_json := v, pl_updated_at := now\<rparr>) (db_playlists d)\<rparr>)))"

section \<open>Dates\<close>

text \<open>
  \<open>strptime(value, "%Y%m%d")\<close>: four digits, then the first way to read a month and a day in the order of
  the alternatives of the pattern, and nothing after them.
\<close>

definition digit_value :: "char \<Rightarrow> int" where
  "digit_value c = int (code c) - 48"

definition one_to_nine :: "char \<Rightarrow> bool" where
  "one_to_nine c \<longleftrightarrow> is_digit c \<and> c \<noteq> CHR ''0''"

definition two_digits :: "(char \<Rightarrow> char \<Rightarrow> bool) \<Rightarrow> string \<Rightarrow> (int \<times> string) list" where
  "two_digits ok s = (case s of a # b # r \<Rightarrow> if ok a b then [(10 * digit_value a + digit_value b, r)] else []
                      | _ \<Rightarrow> [])"

definition one_digit :: "string \<Rightarrow> (int \<times> string) list" where
  "one_digit s = (case s of a # r \<Rightarrow> if one_to_nine a then [(digit_value a, r)] else [] | [] \<Rightarrow> [])"

definition month_matches :: "string \<Rightarrow> (int \<times> string) list" where
  "month_matches s =
     two_digits (\<lambda>a b. a = CHR ''1'' \<and> b \<in> {CHR ''0'', CHR ''1'', CHR ''2''}) s @
     two_digits (\<lambda>a b. a = CHR ''0'' \<and> one_to_nine b) s @ one_digit s"

definition day_matches :: "string \<Rightarrow> (int \<times> string) list" where
  "day_matches s =
     two_digits (\<lambda>a b. a = CHR ''3'' \<and> b \<in> {CHR ''0'', CHR ''1''}) s @
     two_digits (\<lambda>a b. a \<in> {CHR ''1'', CHR ''2''} \<and> is_digit b) s @
     two_digits (\<lambda>a b. a = CHR ''0'' \<and> one_to_nine b) s @ one_digit s @
     (case s of a # r \<Rightarrow> if a = CHR '' '' then one_digit r else [] | [] \<Rightarrow> [])"

definition month_day_matches :: "string \<Rightarrow> (int \<times> int \<times> string) list" where
  "month_day_matches s =
     concat (map (\<lambda>(m, r). map (\<lambda>(dd, r'). (m, dd, r')) (day_matches r)) (month_matches s))"

definition is_leap :: "int \<Rightarrow> bool" where
  "is_leap y \<longleftrightarrow> y mod 4 = 0 \<and> (y mod 100 \<noteq> 0 \<or> y mod 400 = 0)"

definition month_lengths :: "int \<Rightarrow> int list" where
  "month_lengths y = [31, if is_leap y then 29 else 28, 31, 30, 31, 30, 31, 31, 30, 31, 30, 31]"

definition to_ordinal :: "int \<Rightarrow> int \<Rightarrow> int \<Rightarrow> int" where
  "to_ordinal y m dd = 365 * (y - 1) + (y - 1) div 4 - (y - 1) div 100 + (y - 1) div 400
     + sum_list (take (nat (m - 1)) (month_lengths y)) + dd"

definition parse_upload_date :: "string option \<Rightarrow> int option" where
  "parse_upload_date v =
     (case v of None \<Rightarrow> None
      | Some s \<Rightarrow>
          if length s < 4 \<or> \<not> list_all is_digit (take 4 s) then None
          else (case month_day_matches (drop 4 s) of
                  [] \<Rightarrow> None
                | (m, dd, r) # _ \<Rightarrow>
                    (let y = int (digits_value (take 4 s))
                     in if r \<noteq> [] \<or> y < 1 \<or> month_lengths y ! nat (m - 1) < dd then None
                        else Some (to_ordinal y m dd))))"

section \<open>The dry run\<close>

record retention_candidate =
  rc_artifact_id :: int
  rc_target_id :: int
  rc_storage_id :: int
  rc_relative_path :: string
  rc_filesize :: "int option"
  rc_item_date :: "string option"
  rc_artifact_updated_at :: instant
  rc_target_updated_at :: instant
  rc_storage_updated_at :: instant
  rc_storage_config_fingerprint :: string
  rc_file_identity :: "remote_file option"

datatype blocked_reason = BR_No_storage int | BR_Unverified int exn | BR_Too_many nat int | BR_Majority

record retention_plan =
  rl_playlist_id :: int
  rl_policy :: retention_policy
  rl_candidates :: "retention_candidate list"
  rl_total_artifacts :: nat
  rl_blocked_reasons :: "blocked_reason list"

definition deletable :: "retention_plan \<Rightarrow> bool" where
  "deletable plan \<longleftrightarrow> rp_enabled (rl_policy plan) \<and> rl_blocked_reasons plan = []"

type_synonym retention_row = "(int \<times> artifact) \<times> (int \<times> target) \<times> (int \<times> item)"

definition retention_row :: "db \<Rightarrow> int \<Rightarrow> int \<times> artifact \<Rightarrow> retention_row option" where
  "retention_row d pid x =
     (case x of (aid, a) \<Rightarrow>
        case tget (db_targets d) (ar_target_id a) of None \<Rightarrow> None | Some t \<Rightarrow>
        (case tget (db_items d) (tg_item_id t) of None \<Rightarrow> None | Some it \<Rightarrow>
           if it_playlist_id it = pid then Some ((aid, a), (ar_target_id a, t), (tg_item_id t, it)) else None))"

definition retention_rows :: "db \<Rightarrow> int \<Rightarrow> retention_row list" where
  "retention_rows d pid = sort_key (fst \<circ> fst) (List.map_filter (retention_row d pid) (db_artifacts d))"

definition items_of_rows :: "retention_row list \<Rightarrow> (int \<times> item) list" where
  "items_of_rows rows = rev (remdups (rev (map (snd \<circ> snd) rows)))"

definition latest_key :: "int \<times> item \<Rightarrow> string \<times> int \<times> int" where
  "latest_key x = (case x of (iid, it) \<Rightarrow>
     (case it_upload_date it of None \<Rightarrow> ''99999999'' | Some s \<Rightarrow> if s = [] then ''99999999'' else s,
      - (case it_playlist_index it of None \<Rightarrow> 0 | Some i \<Rightarrow> i), iid))"

definition latest_first :: "(int \<times> item) list \<Rightarrow> (int \<times> item) list" where
  "latest_first items = rev (sort_key latest_key (rev items))"

definition beyond_latest :: "int \<Rightarrow> (int \<times> item) list \<Rightarrow> int list" where
  "beyond_latest n items =
     (let ordered = latest_first items; kept = map fst (take (nat n) ordered)
      in filter (\<lambda>i. i \<notin> set kept) (map fst ordered))"

definition age_cutoff :: "int \<Rightarrow> int \<Rightarrow> exn + int" where
  "age_cutoff today days = (if 999999999 < days \<or> today - days < 1 then Inl OverflowError else Inr (today - days))"

definition uploaded_before :: "int \<Rightarrow> int \<times> item \<Rightarrow> bool" where
  "uploaded_before cutoff x =
     (case parse_upload_date (it_upload_date (snd x)) of None \<Rightarrow> False | Some day \<Rightarrow> day < cutoff)"

definition selected_item_ids :: "retention_policy \<Rightarrow> int \<Rightarrow> (int \<times> item) list \<Rightarrow> exn + int list" where
  "selected_item_ids policy today items =
     (let beyond = (case rp_keep_latest policy of None \<Rightarrow> [] | Some n \<Rightarrow> beyond_latest n items)
      in case rp_max_age_days policy of
           None \<Rightarrow> Inr beyond
         | Some days \<Rightarrow>
             (case age_cutoff today days of
                Inl e \<Rightarrow> Inl e
              | Inr cutoff \<Rightarrow> Inr (beyond @ map fst (filter (uploaded_before cutoff) items))))"

text \<open>The identity of the file behind an artifact, and the failure that blocks the plan; others end the dry run.\<close>

definition blocks_plan :: "exn \<Rightarrow> bool" where
  "blocks_plan e \<longleftrightarrow> is_os_error e \<or> is_value_error e \<or>
     (case e of StorageOperationError c r \<Rightarrow> True | _ \<Rightarrow> False)"

definition escapes_plan :: "exn option \<Rightarrow> bool" where
  "escapes_plan failure \<longleftrightarrow> (case failure of None \<Rightarrow> False | Some e \<Rightarrow> \<not> blocks_plan e)"

definition inspect_candidate :: "(int \<Rightarrow> exn + 's storage_adapter) \<Rightarrow> 's \<Rightarrow> artifact
    \<Rightarrow> remote_file option \<times> exn option" where
  "inspect_candidate adapters w a =
     (case adapters (ar_storage_id a) of
        Inl e \<Rightarrow> (None, Some e)
      | Inr ad \<Rightarrow>
          (case ad_inspect_file ad w (ar_relative_path a) of
             Inl e \<Rightarrow> (None, Some e)
           | Inr f \<Rightarrow>
               (Some f,
                if rf_hashes f = [] \<and> rf_file_id f = None
                then Some (StorageOperationError ''failed'' ''identity_unavailable'')
                else if ar_filesize a \<noteq> None \<and> rf_size f \<noteq> ar_filesize a
                then Some (StorageOperationError ''failed'' ''size_mismatch'') else None)))"

definition storage_config :: "storage \<Rightarrow> json" where
  "storage_config st = JObj
     [(''config'', case st_config_json st of None \<Rightarrow> JNull | Some v \<Rightarrow> v),
      (''kind'', JStr (case st_kind st of SK_Local \<Rightarrow> ''local'' | SK_Remote \<Rightarrow> ''remote'' | SK_Mount \<Rightarrow> ''mount''))]"

definition make_candidate :: "(json \<Rightarrow> string) \<Rightarrow> retention_row \<Rightarrow> storage \<Rightarrow> remote_file option
    \<Rightarrow> retention_candidate" where
  "make_candidate digest row st identity =
     (case row of ((aid, a), (tid, t), (iid, it)) \<Rightarrow>
        \<lparr>rc_artifact_id = aid, rc_target_id = tid, rc_storage_id = ar_storage_id a,
         rc_relative_path = ar_relative_path a, rc_filesize = ar_filesize a, rc_item_date = it_upload_date it,
         rc_artifact_updated_at = ar_updated_at a, rc_target_updated_at = tg_updated_at t,
         rc_storage_updated_at = st_updated_at st, rc_storage_config_fingerprint = digest (storage_config st),
         rc_file_identity = identity\<rparr>)"

fun collect_candidates :: "(json \<Rightarrow> string) \<Rightarrow> (int \<Rightarrow> exn + 's storage_adapter) option \<Rightarrow> 's \<Rightarrow> db
    \<Rightarrow> retention_row list \<Rightarrow> exn + retention_candidate list \<times> blocked_reason list" where
  "collect_candidates digest factory w d [] = Inr ([], [])"
| "collect_candidates digest factory w d (row # rows) =
     (case tget (db_storages d) (ar_storage_id (snd (fst row))) of
        None \<Rightarrow>
          (case collect_candidates digest factory w d rows of
             Inl e \<Rightarrow> Inl e
           | Inr (cs, bs) \<Rightarrow> Inr (cs, BR_No_storage (fst (fst row)) # bs))
      | Some st \<Rightarrow>
          (case (case factory of None \<Rightarrow> (None, None) | Some adapters \<Rightarrow> inspect_candidate adapters w (snd (fst row))) of
             (identity, failure) \<Rightarrow>
               if escapes_plan failure then Inl (the failure)
               else (case collect_candidates digest factory w d rows of
                       Inl e \<Rightarrow> Inl e
                     | Inr (cs, bs) \<Rightarrow>
                         Inr (make_candidate digest row st identity # cs,
                              (case failure of None \<Rightarrow> [] | Some e \<Rightarrow> [BR_Unverified (fst (fst row)) e]) @ bs))))"

definition guard_reasons :: "nat \<Rightarrow> nat \<Rightarrow> int \<Rightarrow> blocked_reason list" where
  "guard_reasons count artifacts max_delete_per_run =
     (if max_delete_per_run < int count then [BR_Too_many count max_delete_per_run] else []) @
     (if artifacts \<noteq> 0 \<and> artifacts < count * 2 then [BR_Majority] else [])"

definition candidate_rows :: "int list \<Rightarrow> retention_row list \<Rightarrow> retention_row list" where
  "candidate_rows selected rows =
     filter (\<lambda>(_, (_, t), (iid, _)). iid \<in> set selected \<and> tg_status t = TG_Downloaded) rows"

definition build_retention_plan :: "(json \<Rightarrow> string) \<Rightarrow> (int \<Rightarrow> exn + 's storage_adapter) option \<Rightarrow> 's \<Rightarrow> db \<Rightarrow> int
    \<Rightarrow> retention_policy \<Rightarrow> int \<Rightarrow> int \<Rightarrow> exn + retention_plan" where
  "build_retention_plan digest factory w d pid policy max_delete_per_run today =
     (if tget (db_playlists d) pid = None then Inl LookupError
      else if max_delete_per_run \<le> 0 then Inl ValueError
      else (let rows = retention_rows d pid
            in if \<not> rp_enabled policy
               then Inr \<lparr>rl_playlist_id = pid, rl_policy = policy, rl_candidates = [],
                         rl_total_artifacts = length rows, rl_blocked_reasons = []\<rparr>
               else (case selected_item_ids policy today (items_of_rows rows) of
                       Inl e \<Rightarrow> Inl e
                     | Inr selected \<Rightarrow>
                         (case collect_candidates digest factory w d (candidate_rows selected rows) of
                            Inl e \<Rightarrow> Inl e
                          | Inr (cs, bs) \<Rightarrow>
                              Inr \<lparr>rl_playlist_id = pid, rl_policy = policy, rl_candidates = cs,
                                   rl_total_artifacts = length rows,
                                   rl_blocked_reasons = bs @ guard_reasons (length cs) (length rows) max_delete_per_run\<rparr>))))"

section \<open>The confirmation\<close>

definition remote_file_json :: "remote_file \<Rightarrow> json" where
  "remote_file_json f = JObj
     [(''relative_path'', JStr (rf_relative_path f)), (''size'', int_or_null (rf_size f)),
      (''modified_at'', str_or_null (rf_modified_at f)),
      (''hashes'', JObj (map (\<lambda>(k, v). (k, JStr v)) (rf_hashes f))), (''file_id'', str_or_null (rf_file_id f))]"

definition candidate_json :: "(instant \<Rightarrow> string) \<Rightarrow> retention_candidate \<Rightarrow> json" where
  "candidate_json iso_text c = JObj
     [(''artifact_id'', JInt (rc_artifact_id c)), (''target_id'', JInt (rc_target_id c)),
      (''storage_id'', JInt (rc_storage_id c)), (''relative_path'', JStr (rc_relative_path c)),
      (''filesize'', int_or_null (rc_filesize c)), (''item_date'', str_or_null (rc_item_date c)),
      (''artifact_updated_at'', JStr (iso_text (rc_artifact_updated_at c))),
      (''target_updated_at'', JStr (iso_text (rc_target_updated_at c))),
      (''storage_updated_at'', JStr (iso_text (rc_storage_updated_at c))),
      (''storage_config_fingerprint'', JStr (rc_storage_config_fingerprint c)),
      (''file_identity'', case rc_file_identity c of None \<Rightarrow> JNull | Some f \<Rightarrow> remote_file_json f)]"

definition plan_json :: "(instant \<Rightarrow> string) \<Rightarrow> retention_plan \<Rightarrow> json" where
  "plan_json iso_text plan = JObj
     [(''playlist_id'', JInt (rl_playlist_id plan)), (''policy'', policy_to_json (rl_policy plan)),
      (''candidates'', JArr (map (candidate_json iso_text) (rl_candidates plan))),
      (''total_artifacts'', JInt (int (rl_total_artifacts plan)))]"

definition plan_fingerprint :: "(json \<Rightarrow> string) \<Rightarrow> (instant \<Rightarrow> string) \<Rightarrow> retention_plan \<Rightarrow> string" where
  "plan_fingerprint digest iso_text plan = digest (plan_json iso_text plan)"

record retention_confirmation =
  cf_playlist_id :: int
  cf_purpose :: string
  cf_policy :: retention_policy
  cf_fingerprint :: string
  cf_issued_at :: instant

definition confirmation_payload :: "(json \<Rightarrow> string) \<Rightarrow> (instant \<Rightarrow> string) \<Rightarrow> instant \<Rightarrow> retention_plan
    \<Rightarrow> string \<Rightarrow> (string \<times> json) list" where
  "confirmation_payload digest iso_text now plan purpose =
     [(''playlist_id'', JInt (rl_playlist_id plan)), (''purpose'', JStr purpose),
      (''policy'', policy_to_json (rl_policy plan)), (''fingerprint'', JStr (plan_fingerprint digest iso_text plan)),
      (''issued_at'', JFloat (of_int now / 1000000))]"

definition issue_confirmation :: "(json \<Rightarrow> string) \<Rightarrow> (json \<Rightarrow> string) \<Rightarrow> (instant \<Rightarrow> string) \<Rightarrow> instant
    \<Rightarrow> retention_plan \<Rightarrow> string \<Rightarrow> exn + string" where
  "issue_confirmation dumps digest iso_text now plan purpose =
     (if purpose \<notin> {''enable'', ''execute''} then Inl ValueError
      else Inr (dumps (JObj (confirmation_payload digest iso_text now plan purpose))))"

definition token_int :: "json \<Rightarrow> int option" where
  "token_int v = (case v of JInt i \<Rightarrow> Some i | JBool b \<Rightarrow> Some (if b then 1 else 0)
     | JFloat x \<Rightarrow> Some (if x < 0 then \<lceil>x\<rceil> else \<lfloor>x\<rfloor>) | JStr s \<Rightarrow> py_int s | _ \<Rightarrow> None)"

definition token_failure :: "exn \<Rightarrow> retention_error" where
  "token_failure e = (if e = KeyError \<or> e = TypeError \<or> is_value_error e then RetentionConfirmationError else RE_Other e)"

text \<open>\<open>read_stamp v\<close> is \<open>datetime.fromtimestamp(float(v), UTC)\<close>.\<close>

definition token_fields :: "settings_env \<Rightarrow> (json \<Rightarrow> exn + instant) \<Rightarrow> (string \<times> json) list
    \<Rightarrow> retention_error + retention_confirmation" where
  "token_fields env read_stamp d =
     (case map_of d ''issued_at'' of None \<Rightarrow> Inl RetentionConfirmationError | Some stamp \<Rightarrow>
      (case read_stamp stamp of Inl e \<Rightarrow> Inl (token_failure e) | Inr issued_at \<Rightarrow>
       (case (case map_of d ''playlist_id'' of None \<Rightarrow> None | Some v \<Rightarrow> token_int v) of
          None \<Rightarrow> Inl RetentionConfirmationError
        | Some pid \<Rightarrow>
            (case (map_of d ''purpose'', map_of d ''fingerprint'', map_of d ''policy'') of
               (Some purpose, Some fingerprint, Some policy) \<Rightarrow>
                 (case policy_from_json policy of
                    Inl e \<Rightarrow> Inl RetentionConfirmationError
                  | Inr p \<Rightarrow> Inr \<lparr>cf_playlist_id = pid, cf_purpose = py_str env purpose, cf_policy = p,
                                  cf_fingerprint = py_str env fingerprint, cf_issued_at = issued_at\<rparr>)
             | _ \<Rightarrow> Inl RetentionConfirmationError))))"

definition load_confirmation :: "settings_env \<Rightarrow> (string \<Rightarrow> json option) \<Rightarrow> (json \<Rightarrow> exn + instant) \<Rightarrow> instant
    \<Rightarrow> string \<Rightarrow> string \<Rightarrow> int \<Rightarrow> retention_error + retention_confirmation" where
  "load_confirmation env loads read_stamp now token purpose ttl_sec =
     (if ttl_sec \<le> 0 then Inl (RE_Other ValueError)
      else (case loads token of
              Some (JObj d) \<Rightarrow>
                (case token_fields env read_stamp d of
                   Inl e \<Rightarrow> Inl e
                 | Inr c \<Rightarrow>
                     if now < cf_issued_at c \<or> ttl_sec * 1000000 < now - cf_issued_at c
                     then Inl RetentionConfirmationError
                     else if cf_purpose c \<noteq> purpose then Inl RetentionConfirmationError
                     else Inr c)
            | _ \<Rightarrow> Inl RetentionConfirmationError))"

definition verify_plan :: "(json \<Rightarrow> string) \<Rightarrow> (instant \<Rightarrow> string) \<Rightarrow> retention_confirmation \<Rightarrow> retention_plan
    \<Rightarrow> retention_error option" where
  "verify_plan digest iso_text c plan =
     (if cf_playlist_id c \<noteq> rl_playlist_id plan \<or> cf_policy c \<noteq> rl_policy plan \<or>
         cf_fingerprint c \<noteq> plan_fingerprint digest iso_text plan
      then Some RetentionConfirmationError else None)"

section \<open>The audit\<close>

definition delete_intent :: "(instant \<Rightarrow> string) \<Rightarrow> instant \<Rightarrow> retention_candidate \<Rightarrow> string \<Rightarrow> json" where
  "delete_intent iso_text now c quarantine = JObj
     [(''event'', JStr ''delete_intent''), (''artifact_id'', JInt (rc_artifact_id c)),
      (''storage_id'', JInt (rc_storage_id c)), (''path'', JStr (rc_relative_path c)),
      (''quarantine_path'', JStr quarantine), (''size'', int_or_null (rc_filesize c)),
      (''file_identity'', case rc_file_identity c of None \<Rightarrow> JNull | Some f \<Rightarrow> remote_file_json f),
      (''storage_config_fingerprint'', JStr (rc_storage_config_fingerprint c)), (''recorded_at'', JStr (iso_text now))]"

definition deleted_record :: "(instant \<Rightarrow> string) \<Rightarrow> instant \<Rightarrow> retention_candidate \<Rightarrow> json" where
  "deleted_record iso_text now c = JObj
     [(''event'', JStr ''deleted''), (''artifact_id'', JInt (rc_artifact_id c)),
      (''storage_id'', JInt (rc_storage_id c)), (''path'', JStr (rc_relative_path c)),
      (''size'', int_or_null (rc_filesize c)), (''deleted_at'', JStr (iso_text now))]"

definition quarantine_path :: "string \<Rightarrow> string \<Rightarrow> string" where
  "quarantine_path hex relative_path =
     (let name = ''.sluicery-retention-'' @ hex; parent = path_parent relative_path
      in if parent = ''.'' then name else if ends_with ''/'' parent then parent @ name else parent @ ''/'' @ name)"

text \<open>A log is too long or unreadable, or it is its records; a key is compared as the three values read.\<close>

datatype audit_log = AL_Too_long | AL_Unreadable | AL_Records "json list"

definition audit_event :: "json \<Rightarrow> json" where
  "audit_event r = (case r of JObj d \<Rightarrow> jget d ''event'' | _ \<Rightarrow> JNull)"

definition audit_key :: "json \<Rightarrow> json \<times> json \<times> json" where
  "audit_key r = (case r of JObj d \<Rightarrow> (jget d ''artifact_id'', jget d ''storage_id'', jget d ''path'')
                  | _ \<Rightarrow> (JNull, JNull, JNull))"

definition unfinished_intents :: "json list \<Rightarrow> json list" where
  "unfinished_intents records =
     (let completed = map audit_key (filter (\<lambda>r. audit_event r = JStr ''deleted'') records)
      in filter (\<lambda>r. audit_event r = JStr ''delete_intent'' \<and> audit_key r \<notin> set completed) records)"

fun assert_no_unfinished_retention_intents :: "audit_log list \<Rightarrow> retention_error option" where
  "assert_no_unfinished_retention_intents [] = None"
| "assert_no_unfinished_retention_intents (AL_Records records # logs) =
     (if unfinished_intents records \<noteq> [] then Some RetentionSafetyError
      else assert_no_unfinished_retention_intents logs)"
| "assert_no_unfinished_retention_intents (_ # logs) = Some RetentionSafetyError"

section \<open>The deletion\<close>

definition candidate_matches :: "int \<Rightarrow> artifact \<Rightarrow> retention_candidate \<Rightarrow> bool" where
  "candidate_matches aid a c \<longleftrightarrow> aid = rc_artifact_id c \<and> ar_target_id a = rc_target_id c \<and>
     ar_storage_id a = rc_storage_id c \<and> ar_relative_path a = rc_relative_path c \<and>
     ar_filesize a = rc_filesize c \<and> ar_updated_at a = rc_artifact_updated_at c"

definition related_rows_match :: "(json \<Rightarrow> string) \<Rightarrow> target option \<Rightarrow> storage option \<Rightarrow> retention_candidate \<Rightarrow> bool" where
  "related_rows_match digest target storage c \<longleftrightarrow>
     (case (target, storage) of
        (Some t, Some st) \<Rightarrow>
          tg_status t = TG_Downloaded \<and> tg_updated_at t = rc_target_updated_at c \<and>
          st_updated_at st = rc_storage_updated_at c \<and>
          digest (storage_config st) = rc_storage_config_fingerprint c
      | _ \<Rightarrow> False)"

definition unchanged :: "(json \<Rightarrow> string) \<Rightarrow> db \<Rightarrow> retention_candidate \<Rightarrow> bool" where
  "unchanged digest d c \<longleftrightarrow>
     (case tget (db_artifacts d) (rc_artifact_id c) of None \<Rightarrow> False
      | Some a \<Rightarrow> candidate_matches (rc_artifact_id c) a c \<and>
          related_rows_match digest (tget (db_targets d) (rc_target_id c)) (tget (db_storages d) (rc_storage_id c)) c)"

definition forget_artifact :: "instant \<Rightarrow> retention_candidate \<Rightarrow> db \<Rightarrow> db" where
  "forget_artifact now c d =
     (let d' = update_target now (rc_target_id c) (\<lambda>t. t\<lparr>tg_status := TG_Ignored, tg_last_error := None\<rparr>) d
      in d'\<lparr>db_artifacts := delete_where (\<lambda>i _. i = rc_artifact_id c) (db_artifacts d')\<rparr>)"

text \<open>
  The environment of an execution: the adapters, the digest and time texts, the names of the quarantine, which
  writes of the audit fail (the intent of candidate \<open>k\<close> is write \<open>2 k\<close>, its completion \<open>2 k + 1\<close>), and what
  other processes do to the database before each session (0 the first, \<open>2 k + 1\<close> and \<open>2 k + 2\<close> those of
  candidate \<open>k\<close>) and before the last one.
\<close>

record 's retention_env =
  re_adapters :: "int \<Rightarrow> exn + 's storage_adapter"
  re_digest :: "json \<Rightarrow> string"
  re_iso :: "instant \<Rightarrow> string"
  re_now :: instant
  re_hex :: "nat \<Rightarrow> string"
  re_open_fails :: bool
  re_write_fails :: "nat \<Rightarrow> bool"
  re_others :: "nat \<Rightarrow> db \<Rightarrow> db"
  re_others_at_end :: "db \<Rightarrow> db"
  re_log_path :: string

record 's retention_state =
  rs_db :: db
  rs_world :: 's
  rs_audit :: "json list"
  rs_deleted_count :: nat
  rs_deleted_bytes :: int

definition delete_candidate :: "'s retention_env \<Rightarrow> nat \<Rightarrow> retention_candidate \<Rightarrow> 's retention_state
    \<Rightarrow> bool \<times> 's retention_state" where
  "delete_candidate env k c st =
     (let d1 = re_others env (2 * k + 1) (rs_db st);
          st1 = st\<lparr>rs_db := d1\<rparr>
      in if \<not> unchanged (re_digest env) d1 c then (False, st1)
         else (case (re_adapters env (rc_storage_id c), rc_file_identity c) of
                 (Inr ad, Some identity) \<Rightarrow>
                   (let q = quarantine_path (re_hex env k) (rc_relative_path c);
                        st2 = st1\<lparr>rs_audit := rs_audit st1 @ [delete_intent (re_iso env) (re_now env) c q]\<rparr>
                    in if re_write_fails env (2 * k) then (False, st1)
                       else (case ad_delete_file ad (rc_relative_path c) (Some identity) (Some q) (rs_world st2) of
                               (Inl e, w') \<Rightarrow> (False, st2\<lparr>rs_world := w'\<rparr>)
                             | (Inr _, w') \<Rightarrow>
                                 if re_write_fails env (2 * k + 1) then (False, st2\<lparr>rs_world := w'\<rparr>)
                                 else (let st3 = st2\<lparr>rs_world := w',
                                             rs_audit := rs_audit st2 @ [deleted_record (re_iso env) (re_now env) c]\<rparr>;
                                           d2 = re_others env (2 * k + 2) (rs_db st3)
                                       in if \<not> unchanged (re_digest env) d2 c then (False, st3\<lparr>rs_db := d2\<rparr>)
                                          else (True, st3\<lparr>rs_db := forget_artifact (re_now env) c d2,
                                                  rs_deleted_count := rs_deleted_count st3 + 1,
                                                  rs_deleted_bytes := rs_deleted_bytes st3 +
                                                    (case rc_filesize c of None \<Rightarrow> 0 | Some n \<Rightarrow> n)\<rparr>))))
               | _ \<Rightarrow> (False, st1)))"

fun delete_candidates :: "'s retention_env \<Rightarrow> nat \<Rightarrow> retention_candidate list \<Rightarrow> 's retention_state
    \<Rightarrow> bool \<times> 's retention_state" where
  "delete_candidates env k [] st = (True, st)"
| "delete_candidates env k (c # cs) st =
     (case delete_candidate env k c st of
        (False, st') \<Rightarrow> (False, st')
      | (True, st') \<Rightarrow> delete_candidates env (k + 1) cs st')"

definition retention_run :: "instant \<Rightarrow> int \<Rightarrow> string \<Rightarrow> run" where
  "retention_run now pid log_path = (new_run RT_Manual ''retention'' pid now)\<lparr>rn_log_path := Some log_path\<rparr>"

definition retention_stats :: "'s retention_state \<Rightarrow> (string \<times> json) list" where
  "retention_stats st = [(''deleted_count'', JInt (int (rs_deleted_count st))), (''deleted_bytes'', JInt (rs_deleted_bytes st))]"

definition settle_run :: "instant \<Rightarrow> int \<Rightarrow> run_status \<Rightarrow> (string \<times> json) list \<Rightarrow> db \<Rightarrow> db" where
  "settle_run now run_id status stats d =
     d\<lparr>db_runs := set_row run_id
         (\<lambda>r. r\<lparr>rn_status := status, rn_finished_at := Some now, rn_stats_json := Some (JObj stats)\<rparr>) (db_runs d)\<rparr>"

definition retention_event :: "string \<Rightarrow> int \<Rightarrow> int \<Rightarrow> string \<Rightarrow> string \<Rightarrow> event" where
  "retention_event ty run_id pid key v = Event ty
     [(''run_id'', JInt run_id), (''playlist_id'', JInt pid), (''kind'', JStr ''retention''), (key, JStr v)]"

text \<open>What \<open>execute_retention\<close> refuses before it opens a session.\<close>

definition refuse_plan :: "retention_plan \<Rightarrow> retention_error option" where
  "refuse_plan plan =
     (if \<not> deletable plan \<or> rl_candidates plan = [] \<or> list_ex (\<lambda>c. rc_file_identity c = None) (rl_candidates plan)
      then Some RetentionSafetyError else None)"

definition start_retention :: "'s retention_env \<Rightarrow> retention_plan \<Rightarrow> db \<Rightarrow> retention_error option" where
  "start_retention env plan d =
     (case lock_and_validate_playlist_operation_start False (rl_playlist_id plan) d of
        Some e \<Rightarrow> Some (if e = SyncAlreadyRunningError then RetentionSafetyError else RE_Other e)
      | None \<Rightarrow> if list_all (unchanged (re_digest env) d) (rl_candidates plan) then None else Some RetentionSafetyError)"

text \<open>The work between the confirmed plan and the settled Run; the events are those of the Run.\<close>

definition perform_retention :: "'s retention_env \<Rightarrow> retention_plan \<Rightarrow> 's \<Rightarrow> db
    \<Rightarrow> (retention_error + int \<times> nat \<times> int) \<times> 's retention_state \<times> event list" where
  "perform_retention env plan w d =
     (let d0 = re_others env 0 d; pid = rl_playlist_id plan;
          st0 = \<lparr>rs_db = d0, rs_world = w, rs_audit = [], rs_deleted_count = 0, rs_deleted_bytes = 0\<rparr>
      in case start_retention env plan d0 of
           Some e \<Rightarrow> (Inl e, st0, [])
         | None \<Rightarrow>
             (let run_id = fresh_id (db_runs d0);
                  st1 = st0\<lparr>rs_db := d0\<lparr>db_runs :=
                    insert_row (retention_run (re_now env) pid (re_log_path env)) (db_runs d0)\<rparr>\<rparr>;
                  begun = run_started_event run_id pid ''retention'' RT_Manual
              in case (if re_open_fails env then (False, st1)
                       else delete_candidates env 0 (rl_candidates plan) st1) of
                   (ok, st2) \<Rightarrow>
                     (let d2 = re_others_at_end env (rs_db st2)
                      in if ok
                         then (Inr (run_id, rs_deleted_count st2, rs_deleted_bytes st2),
                               st2\<lparr>rs_db := settle_run (re_now env) run_id RS_Succeeded (retention_stats st2) d2\<rparr>,
                               [begun, retention_event ''run_finished'' run_id pid ''status'' ''succeeded''])
                         else (Inl RetentionExecutionError,
                               st2\<lparr>rs_db := settle_run (re_now env) run_id RS_Failed
                                 (retention_stats st2 @ [(''reason_code'', JStr ''retention_failed'')]) d2\<rparr>,
                               [begun, retention_event ''run_failed'' run_id pid ''reason_code'' ''retention_failed'']))))"

definition execute_retention :: "settings_env \<Rightarrow> (string \<Rightarrow> json option) \<Rightarrow> (json \<Rightarrow> exn + instant)
    \<Rightarrow> 's retention_env \<Rightarrow> retention_plan \<Rightarrow> string \<Rightarrow> int \<Rightarrow> 's \<Rightarrow> db
    \<Rightarrow> (retention_error + int \<times> nat \<times> int) \<times> 's retention_state \<times> event list" where
  "execute_retention senv loads read_stamp env plan token ttl_sec w d =
     (let st0 = \<lparr>rs_db = d, rs_world = w, rs_audit = [], rs_deleted_count = 0, rs_deleted_bytes = 0\<rparr>
      in case load_confirmation senv loads read_stamp (re_now env) token ''execute'' ttl_sec of
           Inl e \<Rightarrow> (Inl e, st0, [])
         | Inr c \<Rightarrow>
             (case verify_plan (re_digest env) (re_iso env) c plan of
                Some e \<Rightarrow> (Inl e, st0, [])
              | None \<Rightarrow>
                  (case refuse_plan plan of
                     Some e \<Rightarrow> (Inl e, st0, [])
                   | None \<Rightarrow> perform_retention env plan w d)))"

end
