(* ===== verification/Integrity_Theorems.thy ===== *)
theory Integrity_Theorems
  imports Integrity
begin

text \<open>
  What the integrity check may conclude: every change it makes to an artifact rests on what both looks at the
  storage showed, a storage that could not be read changes nothing, no two artifacts come to track one path, and
  the Targets follow their artifacts. A link made by hand can be undone.
\<close>

section \<open>What a decision rests on\<close>

definition seen_by_first_look :: "(int \<Rightarrow> exn + 's storage_adapter) \<Rightarrow> 's \<Rightarrow> db \<Rightarrow> artifact_snapshot list
    \<Rightarrow> artifact_snapshot \<Rightarrow> decision \<Rightarrow> bool" where
  "seen_by_first_look adapters w d rows s decision \<longleftrightarrow>
     (\<exists>ad. adapters (sn_storage_id s) = Inr ad \<and>
       (case decision of
          DC_Present \<Rightarrow> ad_exists ad w (sn_relative_path s) = Inr True
        | DC_Missing kind candidates \<Rightarrow>
            ad_exists ad w (sn_relative_path s) = Inr False \<and> \<not> isl (list_with_timeout ad w)
        | DC_Relink c \<Rightarrow>
            ad_exists ad w (sn_relative_path s) = Inr False \<and>
            (\<exists>files. list_with_timeout ad w = Inr files \<and> c \<in> rf_relative_path ` set files) \<and>
            c \<notin> set (tracked_paths d (sn_storage_id s)) \<and> matches_source_id c (sn_source_id s) \<and>
            (\<forall>s' \<in> set rows. s' \<noteq> s \<longrightarrow> sn_storage_id s' = sn_storage_id s \<longrightarrow>
               ad_exists ad w (sn_relative_path s') = Inr False \<longrightarrow> \<not> matches_source_id c (sn_source_id s'))))"

lemma look_sound:
  "look exists rows = (n, Some (present, absent)) \<Longrightarrow>
     set present = {s \<in> set rows. exists (sn_relative_path s) = Inr True} \<and>
     set absent = {s \<in> set rows. exists (sn_relative_path s) = Inr False}"
proof (induction rows arbitrary: n present absent)
  case (Cons s rows)
  then obtain b where b: "exists (sn_relative_path s) = Inr b" by (auto split: sum.splits)
  obtain m r where m: "look exists rows = (m, r)" by (cases "look exists rows")
  with Cons.prems b obtain p q where r: "r = Some (p, q)" by (auto split: option.splits)
  show ?case using Cons.IH[OF m[unfolded r]] Cons.prems b m r by (cases b) auto
qed simp

lemma two_in_filter:
  "s \<in> set xs \<Longrightarrow> s' \<in> set xs \<Longrightarrow> s \<noteq> s' \<Longrightarrow> P s \<Longrightarrow> P s' \<Longrightarrow> 2 \<le> length (filter P xs)"
proof -
  assume "s \<in> set xs" "s' \<in> set xs" "s \<noteq> s'" "P s" "P s'"
  then have sub: "{s, s'} \<subseteq> set (filter P xs)" and two: "card {s, s'} = 2" by auto
  from sub have "card {s, s'} \<le> card (set (filter P xs))" by (intro card_mono) auto
  also have "\<dots> \<le> length (filter P xs)" by (rule card_length)
  finally show ?thesis using two by simp
qed

lemma decide_absent_sound:
  assumes "decide_absent n untracked absent s = (s', decision)" "s \<in> set absent"
  shows "s' = s \<and> decision \<noteq> DC_Present \<and>
    (\<forall>c. decision = DC_Relink c \<longrightarrow> candidates_of untracked s = [c] \<and>
       (\<forall>s'' \<in> set absent. s'' \<noteq> s \<longrightarrow> c \<notin> set (candidates_of untracked s'')))"
proof (cases "\<exists>c. candidates_of untracked s = [c] \<and> claimants untracked absent c = 1")
  case True
  then obtain c where c: "candidates_of untracked s = [c]" "claimants untracked absent c = 1" by blast
  have "c \<notin> set (candidates_of untracked s'')" if "s'' \<in> set absent" "s'' \<noteq> s" for s''
    using two_in_filter[of s absent s'' "\<lambda>s. c \<in> set (candidates_of untracked s)"] that assms(2) c
    by (auto simp: claimants_def)
  with c assms(1) show ?thesis by (auto simp: decide_absent_def)
next
  case False
  then show ?thesis using assms(1)
    by (cases "candidates_of untracked s" rule: list.exhaust;
        cases "tl (candidates_of untracked s)") (auto simp: decide_absent_def)
qed

lemma decide_storage_sound:
  assumes "decide_storage n adapters w d rows sid report = (ds, report')" "(s, decision) \<in> set ds"
  shows "s \<in> set rows \<and> sn_storage_id s = sid \<and> seen_by_first_look adapters w d rows s decision"
proof -
  obtain ad where ad: "adapters sid = Inr ad"
    using assms by (cases "adapters sid") (auto simp: decide_storage_def)
  obtain m seen where "look (ad_exists ad w) (rows_of sid rows) = (m, seen)" by (metis surj_pair)
  moreover from this assms ad obtain present absent where "seen = Some (present, absent)"
    by (cases seen) (auto simp: decide_storage_def Let_def)
  ultimately have lk: "look (ad_exists ad w) (rows_of sid rows) = (m, Some (present, absent))" by simp
  note sets = look_sound[OF lk]
  have in_rows: "s \<in> set rows \<and> sn_storage_id s = sid" if "s \<in> set present \<or> s \<in> set absent" for s
    using that sets by (auto simp: rows_of_def)
  have present: "s \<in> set rows \<and> sn_storage_id s = sid \<and> seen_by_first_look adapters w d rows s DC_Present"
    if "s \<in> set present" for s
    using that sets in_rows ad by (auto simp: seen_by_first_look_def)
  show ?thesis
  proof (cases "absent = []")
    case True
    then show ?thesis using assms ad lk present by (auto simp: decide_storage_def)
  next
    case False
    then obtain files where files: "list_with_timeout ad w = Inr files"
      using assms ad lk by (cases "list_with_timeout ad w") (auto simp: decide_storage_def Let_def)
    define untracked where "untracked = filter (\<lambda>f. rf_relative_path f \<notin> set (tracked_paths d sid)) files"
    have "ds = map (decide_absent n untracked absent) absent @ map (\<lambda>s. (s, DC_Present)) present"
      using assms(1) ad lk False files by (simp add: decide_storage_def untracked_def Let_def)
    with assms(2) consider "s \<in> set present" "decision = DC_Present"
      | s0 where "s0 \<in> set absent" "decide_absent n untracked absent s0 = (s, decision)" by (auto simp: eq_commute)
    then show ?thesis
    proof cases
      case 1
      then show ?thesis using present by simp
    next
      case 2
      note da = decide_absent_sound[OF 2(2,1)]
      then have s: "s \<in> set absent" "s = s0" using 2(1) by auto
      have cand: "c \<in> set (candidates_of untracked s') \<longleftrightarrow>
          c \<in> rf_relative_path ` set files \<and> c \<notin> set (tracked_paths d sid) \<and> matches_source_id c (sn_source_id s')"
        for c s' by (auto simp: candidates_of_def untracked_def)
      have gone: "ad_exists ad w (sn_relative_path s) = Inr False" and sid: "sn_storage_id s = sid"
        using s(1) sets in_rows by auto
      have "seen_by_first_look adapters w d rows s decision"
      proof (cases decision)
        case DC_Present
        then show ?thesis using da by simp
      next
        case (DC_Missing kind cs)
        then show ?thesis using gone sid ad files by (auto simp: seen_by_first_look_def)
      next
        case (DC_Relink c)
        then have c: "c \<in> set (candidates_of untracked s)"
          and others: "\<forall>s'' \<in> set absent. s'' \<noteq> s \<longrightarrow> c \<notin> set (candidates_of untracked s'')"
          using da s(2) by auto
        have "\<not> matches_source_id c (sn_source_id s')"
          if "s' \<in> set rows" "s' \<noteq> s" "sn_storage_id s' = sid" "ad_exists ad w (sn_relative_path s') = Inr False" for s'
        proof -
          have "s' \<in> set absent" using that sets by (auto simp: rows_of_def)
          then show ?thesis using others that(2) c cand by blast
        qed
        then show ?thesis using DC_Relink gone sid ad files c cand by (auto simp: seen_by_first_look_def)
      qed
      then show ?thesis using in_rows s(1) by blast
    qed
  qed
qed

lemma decide_fold_sound:
  assumes "fold (\<lambda>sid (decisions, report). case decide_storage n adapters w d rows sid report of
             (ds, report') \<Rightarrow> (decisions @ ds, report')) sids (ds0, report0) = (ds, report)"
    "\<forall>(s, decision) \<in> set ds0. s \<in> set rows \<and> seen_by_first_look adapters w d rows s decision"
  shows "\<forall>(s, decision) \<in> set ds. s \<in> set rows \<and> seen_by_first_look adapters w d rows s decision"
  using assms
proof (induction sids arbitrary: ds0 report0)
  case (Cons sid sids)
  obtain ds1 report1 where one: "decide_storage n adapters w d rows sid report0 = (ds1, report1)" by (metis surj_pair)
  have "\<forall>(s, decision) \<in> set (ds0 @ ds1). s \<in> set rows \<and> seen_by_first_look adapters w d rows s decision"
    using Cons.prems(2) decide_storage_sound[OF one] by auto
  with Cons.prems(1) one show ?case by (intro Cons.IH[of "ds0 @ ds1" report1]) simp_all
qed simp

lemma decide_all_sound:
  "decide_all n adapters w d rows = (ds, report) \<Longrightarrow> (s, decision) \<in> set ds \<Longrightarrow>
     s \<in> set rows \<and> seen_by_first_look adapters w d rows s decision"
  unfolding decide_all_def using decide_fold_sound[of n adapters w d rows] by fastforce

text \<open>After the second look.\<close>

definition justified :: "(int \<Rightarrow> exn + 's storage_adapter) \<Rightarrow> 's \<Rightarrow> 's \<Rightarrow> db \<Rightarrow> artifact_snapshot list
    \<Rightarrow> artifact_snapshot \<Rightarrow> decision \<Rightarrow> bool" where
  "justified adapters w1 w2 d rows s decision \<longleftrightarrow>
     (\<exists>ad. adapters (sn_storage_id s) = Inr ad \<and>
       (if decision = DC_Present then ad_exists ad w2 (sn_relative_path s) = Inr True
        else seen_by_first_look adapters w1 d rows s decision \<and>
             ad_exists ad w2 (sn_relative_path s) = Inr False \<and>
             (\<forall>c. decision = DC_Relink c \<longrightarrow> ad_exists ad w2 c = Inr True)))"

lemma second_look_sound:
  assumes "second_look exists decision path = Inr decision'"
  shows "if decision' = DC_Present then exists path = Inr True
         else decision = decision' \<and> exists path = Inr False \<and> (\<forall>c. decision' = DC_Relink c \<longrightarrow> exists c = Inr True)"
proof (cases "exists path")
  case (Inr b)
  show ?thesis
  proof (cases b)
    case False
    with Inr assms show ?thesis
      by (cases decision) (auto simp: second_look_def split: sum.splits bool.splits)
  qed (use Inr assms in \<open>auto simp: second_look_def\<close>)
qed (use assms in \<open>simp add: second_look_def\<close>)

lemma revalidate_sound:
  "(s, decision') \<in> set (fst (revalidate adapters w ds)) \<Longrightarrow>
     \<exists>decision ad. (s, decision) \<in> set ds \<and> adapters (sn_storage_id s) = Inr ad \<and>
       second_look (ad_exists ad w) decision (sn_relative_path s) = Inr decision'"
proof (induction ds)
  case (Cons x ds)
  obtain s0 decision0 where x: "x = (s0, decision0)" by (cases x)
  obtain kept issues where kept: "revalidate adapters w ds = (kept, issues)" by (metis surj_pair)
  show ?case
  proof (cases "(s, decision') \<in> set kept")
    case True
    then show ?thesis using Cons.IH kept by auto
  next
    case False
    with Cons.prems x kept have "s = s0" "\<exists>ad. adapters (sn_storage_id s0) = Inr ad \<and>
        second_look (ad_exists ad w) decision0 (sn_relative_path s0) = Inr decision'"
      by (auto split: sum.splits)
    then show ?thesis using x by auto
  qed
qed simp

lemma revalidate_ids:
  "distinct (map (sn_artifact_id \<circ> fst) ds) \<Longrightarrow>
     distinct (map (sn_artifact_id \<circ> fst) (fst (revalidate adapters w ds)))"
proof (induction ds)
  case (Cons x ds)
  obtain s0 decision0 where x: "x = (s0, decision0)" by (cases x)
  obtain kept issues where kept: "revalidate adapters w ds = (kept, issues)" by (metis surj_pair)
  have "sn_artifact_id s0 \<notin> (sn_artifact_id \<circ> fst) ` set kept"
    using Cons.prems x kept revalidate_sound[of _ _ adapters w ds] by force
  then show ?case using Cons x kept by (auto split: sum.splits)
qed simp

lemma decided_justified:
  assumes "decided n adapters w1 w2 storage_id playlist_id d = (kept, report)" "(s, decision) \<in> set kept"
  shows "s \<in> set (integrity_rows d storage_id playlist_id) \<and>
    justified adapters w1 w2 d (integrity_rows d storage_id playlist_id) s decision"
proof -
  obtain ds report1 where ds: "decide_all n adapters w1 d (integrity_rows d storage_id playlist_id) = (ds, report1)"
    by (metis surj_pair)
  obtain kept' issues where rv: "revalidate adapters w2 ds = (kept', issues)" by (metis surj_pair)
  have "kept' = kept" using assms(1) ds rv by (simp add: decided_def)
  then obtain decision0 ad where first: "(s, decision0) \<in> set ds" "adapters (sn_storage_id s) = Inr ad"
      "second_look (ad_exists ad w2) decision0 (sn_relative_path s) = Inr decision"
    using revalidate_sound[of s decision adapters w2 ds] assms(2) rv by auto
  show ?thesis using decide_all_sound[OF ds first(1)] second_look_sound[OF first(3)] first(2)
    by (auto simp: justified_def split: if_splits)
qed

text \<open>There is one decision for an artifact.\<close>

lemma look_filters:
  "look exists rows = (n, Some (present, absent)) \<Longrightarrow>
     present = filter (\<lambda>s. exists (sn_relative_path s) = Inr True) rows \<and>
     absent = filter (\<lambda>s. exists (sn_relative_path s) = Inr False) rows"
proof (induction rows arbitrary: n present absent)
  case (Cons s rows)
  then obtain b where b: "exists (sn_relative_path s) = Inr b" by (auto split: sum.splits)
  obtain m r where m: "look exists rows = (m, r)" by (cases "look exists rows")
  with Cons.prems b obtain p q where r: "r = Some (p, q)" by (auto split: option.splits)
  show ?case using Cons.IH[OF m[unfolded r]] Cons.prems b m r by (cases b) auto
qed simp

lemma fst_decide_absent: "fst (decide_absent n untracked absent s) = s"
  by (simp add: decide_absent_def Let_def)

lemma decide_storage_rows:
  assumes "distinct rows" "decide_storage n adapters w d rows sid report = (ds, report')"
  shows "distinct (map fst ds) \<and> set (map fst ds) \<subseteq> set (rows_of sid rows)"
proof (cases "adapters sid")
  case (Inl e)
  then show ?thesis using assms(2) by (simp add: decide_storage_def)
next
  case (Inr ad)
  obtain m seen where lk: "look (ad_exists ad w) (rows_of sid rows) = (m, seen)" by (metis surj_pair)
  show ?thesis
  proof (cases seen)
    case None
    then show ?thesis using assms(2) Inr lk by (simp add: decide_storage_def)
  next
    case (Some pa)
    then obtain present absent where pa: "seen = Some (present, absent)" by (cases pa) auto
    have sets: "present = filter (\<lambda>s. ad_exists ad w (sn_relative_path s) = Inr True) (rows_of sid rows)"
        "absent = filter (\<lambda>s. ad_exists ad w (sn_relative_path s) = Inr False) (rows_of sid rows)"
      using look_filters[of "ad_exists ad w"] lk pa by auto
    have "map fst ds = [] \<or> map fst ds = absent @ present \<or> (absent = [] \<and> map fst ds = present)"
      using assms(2) Inr lk pa by (cases "list_with_timeout ad w")
        (auto simp: decide_storage_def Let_def comp_def fst_decide_absent split: if_splits)
    moreover have "distinct (absent @ present)" "set (absent @ present) \<subseteq> set (rows_of sid rows)"
      using assms(1) by (auto simp: sets rows_of_def)
    ultimately show ?thesis by (elim disjE conjE) (simp_all only: list.map list.set distinct.simps append_Nil empty_subsetI simp_thms)
  qed
qed

lemma decide_fold_rows:
  assumes "distinct rows" "distinct sids" "distinct (map fst ds0)" "\<forall>x \<in> set ds0. sn_storage_id (fst x) \<notin> set sids"
    "fold (\<lambda>sid (decisions, report). case decide_storage n adapters w d rows sid report of
             (ds, report') \<Rightarrow> (decisions @ ds, report')) sids (ds0, report0) = (ds, report)"
  shows "distinct (map fst ds)"
  using assms(2-)
proof (induction sids arbitrary: ds0 report0)
  case (Cons sid sids)
  obtain ds1 report1 where one: "decide_storage n adapters w d rows sid report0 = (ds1, report1)" by (metis surj_pair)
  note rows = decide_storage_rows[OF assms(1) one]
  have sids: "sn_storage_id (fst x) = sid" if "x \<in> set ds1" for x using rows that by (auto simp: rows_of_def)
  have "distinct (map fst (ds0 @ ds1))" using rows Cons.prems(2,3) sids by fastforce
  moreover have "\<forall>x \<in> set (ds0 @ ds1). sn_storage_id (fst x) \<notin> set sids" using Cons.prems(1,3) sids by auto
  ultimately show ?case using Cons.prems(1,4) one by (intro Cons.IH[of "ds0 @ ds1" report1]) simp_all
qed simp

lemma decide_all_rows:
  "distinct rows \<Longrightarrow> decide_all n adapters w d rows = (ds, report) \<Longrightarrow> distinct (map fst ds)"
  unfolding decide_all_def group_ids_def by (rule decide_fold_rows) auto

lemma snapshot_id: "artifact_snapshot d storage_id playlist_id (aid, a) = Some s \<Longrightarrow> sn_artifact_id s = aid"
  by (auto simp: artifact_snapshot_def split: option.splits if_splits)

lemma map_filter_ids:
  "distinct (map fst xs) \<Longrightarrow> distinct (map sn_artifact_id (List.map_filter (artifact_snapshot d sid pid) xs)) \<and>
     set (map sn_artifact_id (List.map_filter (artifact_snapshot d sid pid) xs)) \<subseteq> set (map fst xs)"
proof (induction xs)
  case (Cons x xs)
  obtain aid a where x: "x = (aid, a)" by (cases x)
  show ?case using Cons x snapshot_id[of d sid pid aid a]
    by (cases "artifact_snapshot d sid pid (aid, a)") (auto simp: List.map_filter_simps)
qed (simp add: List.map_filter_simps)

lemma integrity_rows_ids:
  assumes "wf_table (db_artifacts d)"
  shows "distinct (map sn_artifact_id (integrity_rows d storage_id playlist_id))"
proof -
  have "distinct (map sn_artifact_id (List.map_filter (artifact_snapshot d storage_id playlist_id) (db_artifacts d)))"
    using assms map_filter_ids by (auto simp: wf_table_def ids_def)
  then show ?thesis unfolding integrity_rows_def by (simp add: distinct_map)
qed

lemma decided_ids:
  assumes "wf_table (db_artifacts d)" "decided n adapters w1 w2 storage_id playlist_id d = (kept, report)"
  shows "distinct (map (sn_artifact_id \<circ> fst) kept)"
proof -
  obtain ds report1 where ds: "decide_all n adapters w1 d (integrity_rows d storage_id playlist_id) = (ds, report1)"
    by (metis surj_pair)
  note rows = integrity_rows_ids[OF assms(1), of storage_id playlist_id]
  have one: "distinct (map fst ds)" using decide_all_rows[OF _ ds] rows by (simp add: distinct_map)
  have "set (map fst ds) \<subseteq> set (integrity_rows d storage_id playlist_id)" using decide_all_sound[OF ds] by auto
  then have "inj_on sn_artifact_id (set (map fst ds))" using rows by (meson distinct_map inj_on_subset)
  then have "distinct (map sn_artifact_id (map fst ds))" using one by (simp only: distinct_map)
  then have "distinct (map (sn_artifact_id \<circ> fst) ds)" by (simp add: comp_def)
  then have "distinct (map (sn_artifact_id \<circ> fst) (fst (revalidate adapters w2 ds)))" by (rule revalidate_ids)
  then show ?thesis using assms(2) ds by (auto simp: decided_def split: prod.splits)
qed

section \<open>The database afterwards\<close>

primrec decision_row :: "instant \<Rightarrow> decision \<Rightarrow> artifact \<Rightarrow> artifact" where
  "decision_row checked_at DC_Present = present_row"
| "decision_row checked_at (DC_Relink path) = relinked_row path"
| "decision_row checked_at (DC_Missing kind candidates) = missing_row checked_at"

text \<open>A decision is dropped when the row, its Target or the paths changed; otherwise it rewrites one row.\<close>

definition decision_stands :: "db \<Rightarrow> artifact_snapshot \<Rightarrow> decision \<Rightarrow> bool" where
  "decision_stands d s decision \<longleftrightarrow> still_current d s \<and>
     (\<forall>c. decision = DC_Relink c \<longrightarrow> \<not> tracked_by_other d (sn_storage_id s) c (sn_artifact_id s))"

lemma apply_decision_db:
  "ia_db (apply_decision checked_at now (s, decision) ia) =
     (if decision_stands (ia_db ia) s decision
      then update_artifact now (sn_artifact_id s) (decision_row checked_at decision) (ia_db ia) else ia_db ia)"
  by (cases decision) (auto simp: apply_decision_def decision_stands_def Let_def)

lemma apply_decision_affected:
  "ia_affected_target_ids (apply_decision checked_at now (s, decision) ia) =
     ia_affected_target_ids ia @ (if decision_stands (ia_db ia) s decision then [sn_target_id s] else [])"
  by (cases decision) (auto simp: apply_decision_def decision_stands_def Let_def)

lemma update_artifact_simps [simp]:
  "db_targets (update_artifact now aid f d) = db_targets d"
  "db_items (update_artifact now aid f d) = db_items d"
  "db_playlists (update_artifact now aid f d) = db_playlists d"
  "tget (db_artifacts (update_artifact now aid f d)) i =
     (if i = aid then map_option (touch_artifact now f) (tget (db_artifacts d) i) else tget (db_artifacts d) i)"
  "(update_artifact now aid f d)\<lparr>db_artifacts := x\<rparr> = d\<lparr>db_artifacts := x\<rparr>"
  by (simp_all add: update_artifact_def option.map_id0 cong: map_option_cong)

lemma update_target_simps [simp]:
  "db_artifacts (update_target now tid f d) = db_artifacts d"
  "db_items (update_target now tid f d) = db_items d"
  "db_playlists (update_target now tid f d) = db_playlists d"
  "tget (db_targets (update_target now tid f d)) i =
     (if i = tid then map_option (touch_target now f) (tget (db_targets d) i) else tget (db_targets d) i)"
  "(update_target now tid f d)\<lparr>db_targets := x\<rparr> = d\<lparr>db_targets := x\<rparr>"
  by (simp_all add: update_target_def option.map_id0 cong: map_option_cong)

text \<open>One path of a storage is tracked by one artifact.\<close>

definition paths_distinct :: "db \<Rightarrow> bool" where
  "paths_distinct d \<longleftrightarrow> (\<forall>i j a b. tget (db_artifacts d) i = Some a \<longrightarrow> tget (db_artifacts d) j = Some b \<longrightarrow>
     ar_storage_id a = ar_storage_id b \<longrightarrow> ar_relative_path a = ar_relative_path b \<longrightarrow> i = j)"

definition path_after :: "decision \<Rightarrow> artifact \<Rightarrow> string" where
  "path_after decision a = (case decision of DC_Relink c \<Rightarrow> c | _ \<Rightarrow> ar_relative_path a)"

lemma touch_artifact_keeps [simp]:
  "ar_relative_path (touch_artifact now f a) = ar_relative_path (f a)"
  "ar_storage_id (touch_artifact now f a) = ar_storage_id (f a)"
  "ar_target_id (touch_artifact now f a) = ar_target_id (f a)"
  "ar_missing_since (touch_artifact now f a) = ar_missing_since (f a)"
  by (simp_all add: touch_artifact_def)

lemma decision_row_keeps [simp]:
  "ar_relative_path (decision_row checked_at decision a) = path_after decision a"
  "ar_storage_id (decision_row checked_at decision a) = ar_storage_id a"
  "ar_target_id (decision_row checked_at decision a) = ar_target_id a"
  by (cases decision; simp add: path_after_def present_row_def relinked_row_def missing_row_def)+

lemma not_tracked:
  "\<not> tracked_by_other d sid path aid \<Longrightarrow> tget (db_artifacts d) i = Some a \<Longrightarrow> ar_storage_id a = sid \<Longrightarrow>
     ar_relative_path a = path \<Longrightarrow> i = aid"
  by (drule tget_in_set) (auto simp: tracked_by_other_def select_where_def filter_empty_conv)

text \<open>The snapshot still names the storage of its artifact.\<close>

definition same_storage :: "db \<Rightarrow> artifact_snapshot \<Rightarrow> bool" where
  "same_storage d s \<longleftrightarrow> (\<forall>a. tget (db_artifacts d) (sn_artifact_id s) = Some a \<longrightarrow> ar_storage_id a = sn_storage_id s)"

lemma update_paths:
  assumes distinct: "paths_distinct d" and stands: "decision_stands d s decision" and same: "same_storage d s"
  shows "paths_distinct (update_artifact now (sn_artifact_id s) (decision_row checked_at decision) d)"
  unfolding paths_distinct_def
proof (intro allI impI)
  define aid where "aid = sn_artifact_id s"
  have clash: "j = aid" if "tget (db_artifacts d) aid = Some a" "tget (db_artifacts d) j = Some b"
    "ar_storage_id a = ar_storage_id b" "path_after decision a = ar_relative_path b" for a b j
  proof (cases "\<exists>c. decision = DC_Relink c")
    case True
    then obtain c where c: "decision = DC_Relink c" by blast
    then have "\<not> tracked_by_other d (sn_storage_id s) c aid" using stands by (simp add: decision_stands_def aid_def)
    moreover have "ar_storage_id b = sn_storage_id s" using same that(1,3) by (simp add: same_storage_def aid_def)
    ultimately show ?thesis using not_tracked that(2,4) c by (auto simp: path_after_def)
  next
    case False
    then have "path_after decision a = ar_relative_path a" by (cases decision) (auto simp: path_after_def)
    then show ?thesis using distinct that unfolding paths_distinct_def by metis
  qed
  fix i j a b
  assume i: "tget (db_artifacts (update_artifact now (sn_artifact_id s) (decision_row checked_at decision) d)) i = Some a"
    and j: "tget (db_artifacts (update_artifact now (sn_artifact_id s) (decision_row checked_at decision) d)) j = Some b"
    and st: "ar_storage_id a = ar_storage_id b" and path: "ar_relative_path a = ar_relative_path b"
  show "i = j"
  proof (cases "i = aid"; cases "j = aid")
    assume "i = aid" "j \<noteq> aid"
    with i obtain a0 where "tget (db_artifacts d) aid = Some a0"
      "a = touch_artifact now (decision_row checked_at decision) a0" by (auto simp: aid_def)
    then show ?thesis using clash[of a0 j b] j st path \<open>j \<noteq> aid\<close> \<open>i = aid\<close> by (simp add: aid_def)
  next
    assume "i \<noteq> aid" "j = aid"
    with j obtain b0 where "tget (db_artifacts d) aid = Some b0"
      "b = touch_artifact now (decision_row checked_at decision) b0" by (auto simp: aid_def)
    then show ?thesis using clash[of b0 i a] i st path \<open>j = aid\<close> \<open>i \<noteq> aid\<close> by (simp add: aid_def)
  next
    assume "i \<noteq> aid" "j \<noteq> aid"
    then show ?thesis using i j st path distinct unfolding paths_distinct_def aid_def by auto
  qed simp
qed

text \<open>One application after another: each row is rewritten at most once, from its row at the start.\<close>

definition row_effect :: "instant \<Rightarrow> instant \<Rightarrow> (artifact_snapshot \<times> decision) list \<Rightarrow> db \<Rightarrow> db \<Rightarrow> int \<Rightarrow> bool" where
  "row_effect checked_at now ds d d' i \<longleftrightarrow>
     tget (db_artifacts d') i = tget (db_artifacts d) i \<or>
     (\<exists>(s, decision) \<in> set ds. sn_artifact_id s = i \<and> still_current d s \<and>
        tget (db_artifacts d') i = map_option (touch_artifact now (decision_row checked_at decision)) (tget (db_artifacts d) i))"

lemma still_current_cong:
  "tget (db_artifacts d') (sn_artifact_id s) = tget (db_artifacts d) (sn_artifact_id s) \<Longrightarrow> db_targets d' = db_targets d \<Longrightarrow>
     still_current d' s = still_current d s"
  by (simp add: still_current_def)

lemma apply_decisions_effect:
  assumes "distinct (map (sn_artifact_id \<circ> fst) ds)"
  shows "row_effect checked_at now ds (ia_db ia) (ia_db (apply_decisions checked_at now ds ia)) i \<and>
    (i \<notin> set (map (sn_artifact_id \<circ> fst) ds) \<longrightarrow>
       tget (db_artifacts (ia_db (apply_decisions checked_at now ds ia))) i = tget (db_artifacts (ia_db ia)) i)"
  using assms
proof (induction ds arbitrary: ia)
  case Nil
  then show ?case by (simp add: apply_decisions_def row_effect_def)
next
  case (Cons x ds)
  obtain s decision where x: "x = (s, decision)" by (cases x)
  define ia1 where "ia1 = apply_decision checked_at now (s, decision) ia"
  define ia2 where "ia2 = apply_decisions checked_at now ds ia1"
  have step: "apply_decisions checked_at now ((s, decision) # ds) ia = ia2"
    by (simp add: apply_decisions_def ia1_def ia2_def)
  have IH: "row_effect checked_at now ds (ia_db ia1) (ia_db ia2) i"
    "i \<notin> set (map (sn_artifact_id \<circ> fst) ds) \<Longrightarrow> tget (db_artifacts (ia_db ia2)) i = tget (db_artifacts (ia_db ia1)) i"
    using Cons.IH[of ia1] Cons.prems unfolding ia2_def by auto
  have targets: "db_targets (ia_db ia1) = db_targets (ia_db ia)" by (simp add: ia1_def apply_decision_db)
  have one: "tget (db_artifacts (ia_db ia1)) i = tget (db_artifacts (ia_db ia)) i \<or>
    i = sn_artifact_id s \<and> still_current (ia_db ia) s \<and> tget (db_artifacts (ia_db ia1)) i =
      map_option (touch_artifact now (decision_row checked_at decision)) (tget (db_artifacts (ia_db ia)) i)"
    by (simp add: ia1_def apply_decision_db decision_stands_def)
  show ?case
  proof (cases "i = sn_artifact_id s")
    case True
    then have "i \<notin> set (map (sn_artifact_id \<circ> fst) ds)" using Cons.prems x by auto
    then have "tget (db_artifacts (ia_db ia2)) i = tget (db_artifacts (ia_db ia1)) i" by (rule IH(2))
    with one True show ?thesis unfolding x step row_effect_def by auto
  next
    case False
    then have same: "tget (db_artifacts (ia_db ia1)) i = tget (db_artifacts (ia_db ia)) i" using one by blast
    have "still_current (ia_db ia1) s' = still_current (ia_db ia) s'" if "sn_artifact_id s' = i" for s'
      using that same targets by (intro still_current_cong) auto
    with IH(1) same have "row_effect checked_at now ((s, decision) # ds) (ia_db ia) (ia_db ia2) i"
      unfolding row_effect_def by (auto simp: split_beta)
    with IH(2) same False show ?thesis unfolding x step by auto
  qed
qed

lemma apply_decisions_frame:
  "(ia_db (apply_decisions checked_at now ds ia))\<lparr>db_artifacts := x\<rparr> = (ia_db ia)\<lparr>db_artifacts := x\<rparr>"
proof (induction ds arbitrary: ia)
  case (Cons y ds)
  obtain s decision where y: "y = (s, decision)" by (cases y)
  show ?case using Cons[of "apply_decision checked_at now y ia"] y
    by (simp add: apply_decisions_def apply_decision_db)
qed (simp add: apply_decisions_def)

lemma apply_decisions_paths:
  assumes "distinct (map (sn_artifact_id \<circ> fst) ds)" "paths_distinct (ia_db ia)"
    "\<forall>(s, decision) \<in> set ds. same_storage (ia_db ia) s"
  shows "paths_distinct (ia_db (apply_decisions checked_at now ds ia))"
  using assms
proof (induction ds arbitrary: ia)
  case (Cons x ds)
  obtain s decision where x: "x = (s, decision)" by (cases x)
  define ia1 where "ia1 = apply_decision checked_at now (s, decision) ia"
  have "paths_distinct (ia_db ia1)"
    using Cons.prems x update_paths[of "ia_db ia" s decision now checked_at] by (simp add: ia1_def apply_decision_db)
  moreover have "same_storage (ia_db ia1) s'" if "(s', dec) \<in> set ds" for s' dec
    using that Cons.prems x by (force simp: ia1_def apply_decision_db same_storage_def)
  ultimately have "paths_distinct (ia_db (apply_decisions checked_at now ds ia1))"
    using Cons.prems(1) by (intro Cons.IH) auto
  then show ?case by (simp add: apply_decisions_def ia1_def x)
qed (simp add: apply_decisions_def)

section \<open>The Targets afterwards\<close>

definition settled_status :: "db \<Rightarrow> int \<Rightarrow> target \<Rightarrow> target_status" where
  "settled_status d tid t =
     (if has_missing_artifact d tid \<and> tg_status t = TG_Downloaded
      then missing_destination (the (policy_of_target d t))
      else if \<not> has_missing_artifact d tid \<and> tg_status t = TG_Missing then TG_Downloaded
      else tg_status t)"

definition settled_row :: "instant \<Rightarrow> db \<Rightarrow> int \<Rightarrow> target \<Rightarrow> target" where
  "settled_row now d tid t = touch_target now (\<lambda>t. t\<lparr>tg_status := settled_status d tid t\<rparr>) t"

lemma touch_same: "f t = t \<Longrightarrow> touch_target now f t = t"
  by (simp add: touch_target_def)

lemma touch_cong: "f t = g t \<Longrightarrow> touch_target now f t = touch_target now g t"
  by (simp add: touch_target_def)

lemma settled_row_cong:
  assumes "db_artifacts d' = db_artifacts d" "db_items d' = db_items d" "db_playlists d' = db_playlists d"
  shows "settled_row now d' = settled_row now d"
proof -
  have "has_missing_artifact d' = has_missing_artifact d"
    by (rule ext) (simp only: has_missing_artifact_def assms)
  moreover have "policy_of_target d' = policy_of_target d"
    by (rule ext) (simp only: policy_of_target_def assms)
  ultimately have "settled_status d' = settled_status d" by (intro ext) (simp only: settled_status_def)
  then show ?thesis by (intro ext) (simp only: settled_row_def)
qed

text \<open>One Target: the status it gets, and only that.\<close>

lemma settle_target_status:
  assumes "settle_target now tid (d, r) = Inr (d', r')"
  shows "\<exists>t. tget (db_targets d) tid = Some t \<and>
    (d' = set_target_status now tid (settled_status d tid t) d \<or> d' = d \<and> settled_status d tid t = tg_status t)"
proof (cases "tget (db_targets d) tid")
  case None
  then show ?thesis using assms by (simp add: settle_target_def)
next
  case (Some t)
  show ?thesis
  proof (cases "has_missing_artifact d tid \<and> tg_status t = TG_Downloaded")
    case True
    then show ?thesis using assms Some
      by (cases "policy_of_target d t") (simp_all add: settle_target_def settled_status_def)
  next
    case False
    then show ?thesis using assms Some
      by (cases "\<not> has_missing_artifact d tid \<and> tg_status t = TG_Missing")
        (auto simp: settle_target_def settled_status_def)
  qed
qed

lemma settle_target_row:
  assumes "settle_target now tid (d, r) = Inr (d', r')"
  shows "d'\<lparr>db_targets := x\<rparr> = d\<lparr>db_targets := x\<rparr> \<and>
    tget (db_targets d') j = (if j = tid then map_option (settled_row now d tid) (tget (db_targets d) j)
                              else tget (db_targets d) j)"
proof -
  obtain t where t: "tget (db_targets d) tid = Some t"
    "d' = set_target_status now tid (settled_status d tid t) d \<or> d' = d \<and> settled_status d tid t = tg_status t"
    using settle_target_status[OF assms] by blast
  have "touch_target now (\<lambda>u. u\<lparr>tg_status := settled_status d tid t\<rparr>) t = settled_row now d tid t"
    unfolding settled_row_def by (rule touch_cong) simp
  moreover have "settled_row now d tid t = t" if "settled_status d tid t = tg_status t"
    unfolding settled_row_def by (rule touch_same) (simp add: that)
  ultimately show ?thesis using t by (elim disjE conjE) (simp_all add: set_target_status_def)
qed

lemma settle_targets_row:
  assumes "settle_targets now tids (d, r) = Inr (d', r')" "distinct tids"
  shows "d'\<lparr>db_targets := x\<rparr> = d\<lparr>db_targets := x\<rparr> \<and>
    tget (db_targets d') j = (if j \<in> set tids then map_option (settled_row now d j) (tget (db_targets d) j)
                              else tget (db_targets d) j)"
  using assms
proof (induction tids arbitrary: d r)
  case (Cons tid tids)
  then obtain d1 r1 where one: "settle_target now tid (d, r) = Inr (d1, r1)" "settle_targets now tids (d1, r1) = Inr (d', r')"
    by (auto split: sum.splits)
  have frame: "d1\<lparr>db_targets := y\<rparr> = d\<lparr>db_targets := y\<rparr>" for y using settle_target_row[OF one(1)] by blast
  have "db_artifacts (d1\<lparr>db_targets := x\<rparr>) = db_artifacts (d\<lparr>db_targets := x\<rparr>)"
    "db_items (d1\<lparr>db_targets := x\<rparr>) = db_items (d\<lparr>db_targets := x\<rparr>)"
    "db_playlists (d1\<lparr>db_targets := x\<rparr>) = db_playlists (d\<lparr>db_targets := x\<rparr>)"
    unfolding frame by (rule refl)+
  then have same: "settled_row now d1 = settled_row now d" by (intro settled_row_cong) simp_all
  have rest: "d'\<lparr>db_targets := x\<rparr> = d1\<lparr>db_targets := x\<rparr>"
    "tget (db_targets d') j = (if j \<in> set tids then map_option (settled_row now d j) (tget (db_targets d1) j)
                              else tget (db_targets d1) j)"
    using Cons.IH[OF one(2)] Cons.prems(2) same by auto
  have row: "tget (db_targets d1) j = (if j = tid then map_option (settled_row now d tid) (tget (db_targets d) j)
                              else tget (db_targets d) j)"
    using settle_target_row[OF one(1), of x j] by blast
  show ?case using rest frame[of x] row Cons.prems(2) by auto
qed simp

section \<open>The whole check\<close>

definition checked_target :: "instant \<Rightarrow> db \<Rightarrow> db \<Rightarrow> db \<Rightarrow> int \<Rightarrow> bool" where
  "checked_target now d d2 d3 tid \<longleftrightarrow>
     tget (db_targets d3) tid = tget (db_targets d2) tid \<or>
     tget (db_targets d3) tid = map_option (settled_row now d3 tid) (tget (db_targets d2) tid)"

lemma db_frame:
  fixes d :: db
  assumes "d1\<lparr>db_artifacts := x\<rparr> = d2\<lparr>db_artifacts := x\<rparr>" "d3\<lparr>db_targets := y\<rparr> = d1\<lparr>db_targets := y\<rparr>"
  shows "d3\<lparr>db_artifacts := x, db_targets := y\<rparr> = d2\<lparr>db_artifacts := x, db_targets := y\<rparr>"
proof -
  have "d3\<lparr>db_artifacts := x, db_targets := y\<rparr> = d3\<lparr>db_targets := y, db_artifacts := x\<rparr>" by simp
  also have "\<dots> = d1\<lparr>db_targets := y, db_artifacts := x\<rparr>" using assms(2) by simp
  also have "\<dots> = d1\<lparr>db_artifacts := x, db_targets := y\<rparr>" by simp
  finally show ?thesis using assms(1) by simp
qed

text \<open>
  Claim C15: the integrity check, however the storages and the database change while it runs, changes an artifact
  only on evidence. Each row stays as it is, or it is marked present because its file was there at the second look;
  or marked missing because its file was absent at both looks while a full listing of the storage succeeded; or it
  is relinked to a listed file of its source, still there at the second look, that no artifact tracked and no other
  absent artifact of the storage could claim. A row that changed meanwhile is left alone, no path of a storage comes to be tracked
  twice, a Target changes only by the policy of its playlist, and nothing else of the database changes.
\<close>

theorem check_integrity_safe:
  assumes "wf_table (db_artifacts d)"
    and "check_integrity rescan_timeout max_candidates adapters w1 w2 storage_id playlist_id checked_at now d d2
           = Inr (report, d3, events)"
  shows "(\<forall>i. tget (db_artifacts d3) i = tget (db_artifacts d2) i \<or>
            (\<exists>s decision. s \<in> set (integrity_rows d storage_id playlist_id) \<and> sn_artifact_id s = i \<and>
               justified adapters w1 w2 d (integrity_rows d storage_id playlist_id) s decision \<and> still_current d2 s \<and>
               tget (db_artifacts d3) i =
                 map_option (touch_artifact now (decision_row checked_at decision)) (tget (db_artifacts d2) i)))
    \<and> ((\<forall>s \<in> set (integrity_rows d storage_id playlist_id). same_storage d2 s) \<longrightarrow>
         paths_distinct d2 \<longrightarrow> paths_distinct d3)
    \<and> (\<forall>tid. checked_target now d d2 d3 tid)
    \<and> d3\<lparr>db_artifacts := [], db_targets := []\<rparr> = d2\<lparr>db_artifacts := [], db_targets := []\<rparr>"
proof -
  obtain kept report0 where kept: "decided (nat max_candidates) adapters w1 w2 storage_id playlist_id d = (kept, report0)"
    by (metis surj_pair)
  define ia0 where "ia0 = \<lparr>ia_db = d2, ia_report = report0, ia_missing_events = [], ia_affected_target_ids = []\<rparr>"
  define ia where "ia = apply_decisions checked_at now kept ia0"
  have ia: "applied (nat max_candidates) adapters w1 w2 storage_id playlist_id checked_at now d d2 = ia"
    by (simp add: applied_def kept ia_def ia0_def)
  have start: "ia_db ia0 = d2" by (simp add: ia0_def)
  obtain report3 where settled:
      "settle_targets now (remdups (ia_affected_target_ids ia)) (ia_db ia, ia_report ia) = Inr (d3, report3)"
    using assms(2) ia by (auto simp: check_integrity_def Let_def split: if_splits sum.splits)
  have frame: "d3\<lparr>db_targets := x\<rparr> = (ia_db ia)\<lparr>db_targets := x\<rparr>"
    and rows: "tget (db_targets d3) j = (if j \<in> set (remdups (ia_affected_target_ids ia))
        then map_option (settled_row now (ia_db ia) j) (tget (db_targets (ia_db ia)) j) else tget (db_targets (ia_db ia)) j)" for x j
    using settle_targets_row[OF settled distinct_remdups] by blast+
  have frame2: "(ia_db ia)\<lparr>db_artifacts := x\<rparr> = d2\<lparr>db_artifacts := x\<rparr>" for x
    using apply_decisions_frame start unfolding ia_def by metis
  have "db_artifacts (d3\<lparr>db_targets := []\<rparr>) = db_artifacts ((ia_db ia)\<lparr>db_targets := []\<rparr>)"
    "db_items (d3\<lparr>db_targets := []\<rparr>) = db_items ((ia_db ia)\<lparr>db_targets := []\<rparr>)"
    "db_playlists (d3\<lparr>db_targets := []\<rparr>) = db_playlists ((ia_db ia)\<lparr>db_targets := []\<rparr>)"
    unfolding frame by (rule refl)+
  then have arts: "db_artifacts d3 = db_artifacts (ia_db ia)" and same: "settled_row now (ia_db ia) = settled_row now d3"
    by (simp, intro settled_row_cong) simp_all
  have "db_targets ((ia_db ia)\<lparr>db_artifacts := []\<rparr>) = db_targets (d2\<lparr>db_artifacts := []\<rparr>)" unfolding frame2 by (rule refl)
  then have tgs: "db_targets (ia_db ia) = db_targets d2" by simp
  note ids = decided_ids[OF assms(1) kept]
  have effect: "row_effect checked_at now kept d2 (ia_db ia) i" for i
    using apply_decisions_effect[OF ids, of checked_at now ia0 i] start unfolding ia_def by simp
  have one: "tget (db_artifacts d3) i = tget (db_artifacts d2) i \<or>
            (\<exists>s decision. s \<in> set (integrity_rows d storage_id playlist_id) \<and> sn_artifact_id s = i \<and>
               justified adapters w1 w2 d (integrity_rows d storage_id playlist_id) s decision \<and> still_current d2 s \<and>
               tget (db_artifacts d3) i =
                 map_option (touch_artifact now (decision_row checked_at decision)) (tget (db_artifacts d2) i))" for i
    using effect[of i] decided_justified[OF kept] unfolding row_effect_def arts by blast
  have two: "paths_distinct d3" if "\<forall>s \<in> set (integrity_rows d storage_id playlist_id). same_storage d2 s" "paths_distinct d2"
  proof -
    have "\<forall>(s, decision) \<in> set kept. same_storage (ia_db ia0) s" using that(1) decided_justified[OF kept] start by auto
    then have "paths_distinct (ia_db ia)"
      unfolding ia_def using apply_decisions_paths[OF ids] that(2) start by simp
    then show ?thesis unfolding paths_distinct_def arts .
  qed
  have three: "checked_target now d d2 d3 tid" for tid
    unfolding checked_target_def rows[of tid] tgs same by simp
  show ?thesis using one two three db_frame[OF frame2 frame] by blast
qed

text \<open>A file that was moved by hand inside its storage, and is found again.\<close>

definition iw_storage :: storage where
  "iw_storage = \<lparr>st_name = ''s'', st_kind = SK_Local, st_enabled = True, st_config_json = None, st_credentials = None,
     st_last_check_at = None, st_last_check_result_json = None, st_created_at = 0, st_updated_at = 0\<rparr>"

definition iw_playlist :: playlist where
  "iw_playlist = \<lparr>pl_name = ''p'', pl_folder_name = ''p'', pl_url = ''u'', pl_enabled = True, pl_kind_hint = KH_Video,
     pl_paused = False, pl_ytdlp_args = None, pl_discover_cron = None, pl_download_cron = None,
     pl_retention_policy_json = None, pl_missing_policy = MP_Leave, pl_dedup_hardlink = False,
     pl_cookie_enabled = False, pl_cookies = None, pl_last_discover_at = None, pl_last_download_at = None,
     pl_created_at = 0, pl_updated_at = 0\<rparr>"

definition iw_item :: item where
  "iw_item = \<lparr>it_playlist_id = 1, it_source_id = ''x1'', it_source_url = ''u'', it_title = None, it_uploader = None,
     it_duration = None, it_upload_date = None, it_playlist_index = None, it_membership = IM_Active,
     it_metadata_json = None, it_first_seen_at = 0, it_last_seen_at = 0, it_delisted_at = None, it_created_at = 0,
     it_updated_at = 0\<rparr>"

definition iw_artifact :: artifact where
  "iw_artifact = \<lparr>ar_target_id = 1, ar_role = AR_Source, ar_storage_id = 1, ar_relative_path = ''a [x1].mp4'',
     ar_absolute_path_cache = None, ar_container = None, ar_format_id = None, ar_video_codec = None,
     ar_audio_codec = None, ar_filesize = None, ar_duration = None, ar_checksum = None, ar_produced_by_task_id = None,
     ar_verified_at = None, ar_missing_since = Some 5, ar_manual_link_previous_path = None, ar_manual_linked_at = None,
     ar_created_at = 0, ar_updated_at = 0\<rparr>"

definition iw_db :: db where
  "iw_db = \<lparr>db_storages = [(1, iw_storage)], db_profiles = [], db_playlists = [(1, iw_playlist)], db_assignments = [],
     db_items = [(1, iw_item)], db_targets = [(1, (new_target 1 1 0)\<lparr>tg_status := TG_Missing\<rparr>)],
     db_artifacts = [(1, iw_artifact)], db_tasks = [], db_runs = []\<rparr>"

definition iw_adapter :: "unit storage_adapter" where
  "iw_adapter = \<lparr>ad_free_space = (\<lambda>_. Inr None), ad_exists = (\<lambda>_ p. Inr (p = ''b/[x1].mp4'')),
     ad_list_recursive = (\<lambda>_ _. ([\<lparr>rf_relative_path = ''b/[x1].mp4'', rf_size = Some 3, rf_modified_at = None,
        rf_hashes = [], rf_file_id = None\<rparr>], None)),
     ad_inspect_file = (\<lambda>_ _. Inl FileNotFoundError), ad_publish = (\<lambda>_ _ _. (Inl OSError, ())),
     ad_hardlink_from = (\<lambda>_ _ _ _ _. (Inr False, ())), ad_move = (\<lambda>_ _ _. (Inl OSError, ())),
     ad_delete_file = (\<lambda>_ _ _ _. (Inl OSError, ()))\<rparr>"

definition iw_adapters :: "int \<Rightarrow> exn + unit storage_adapter" where
  "iw_adapters sid = Inr iw_adapter"

definition iw_after :: db where
  "iw_after = iw_db\<lparr>db_targets := [(1, (new_target 1 1 0)\<lparr>tg_status := TG_Downloaded, tg_updated_at := 9\<rparr>)],
     db_artifacts := [(1, iw_artifact\<lparr>ar_relative_path := ''b/[x1].mp4'', ar_missing_since := None, ar_updated_at := 9\<rparr>)]\<rparr>"

definition iw_report :: integrity_report where
  "iw_report = \<lparr>ig_checked = 1, ig_present = 0, ig_relinked = 1, ig_missing = 0, ig_restored = 1,
     ig_rescanned_storages = 1, ig_issues = []\<rparr>"

lemma iw_wf: "wf_table (db_artifacts iw_db)"
  by (simp add: iw_db_def wf_table_def ids_def)

lemma iw_run:
  "check_integrity 600 5 iw_adapters () () None None 8 9 iw_db iw_db = Inr (iw_report, iw_after, [])"
  by code_simp

lemma iw_relinked: "tget (db_artifacts iw_after) 1 \<noteq> tget (db_artifacts iw_db) 1"
  by (simp add: iw_after_def iw_db_def iw_artifact_def tget_def)

theorem check_integrity_safe_witness:
  "\<exists>s decision. sn_artifact_id s = 1 \<and> still_current iw_db s \<and>
     justified iw_adapters () () iw_db (integrity_rows iw_db None None) s decision \<and>
     tget (db_artifacts iw_after) 1 =
       map_option (touch_artifact 9 (decision_row 8 decision)) (tget (db_artifacts iw_db) 1)"
  using check_integrity_safe[OF iw_wf iw_run] iw_relinked by blast

section \<open>Links made by hand\<close>

lemma linked_touched:
  assumes "ar_missing_since a \<noteq> None"
  shows "touch_artifact now (linked_row linked_at p) a = (linked_row linked_at p a)\<lparr>ar_updated_at := now\<rparr>"
proof -
  have "ar_missing_since (linked_row linked_at p a) = None" by (simp add: linked_row_def)
  then have "linked_row linked_at p a \<noteq> a" using assms by metis
  then show ?thesis by (simp add: touch_artifact_def)
qed

lemma touch_columns:
  "tg_status (touch_target now g t) = tg_status (g t)"
  "ar_manual_link_previous_path (touch_artifact now f a) = ar_manual_link_previous_path (f a)"
  "ar_manual_linked_at (touch_artifact now f a) = ar_manual_linked_at (f a)"
  by (simp_all add: touch_target_def touch_artifact_def)

lemma unlinked_columns:
  "ar_manual_link_previous_path (touch_artifact now (unlinked_row u q) a) = None"
  "ar_manual_linked_at (touch_artifact now (unlinked_row u q) a) = None"
  unfolding touch_columns by (simp_all add: unlinked_row_def)


definition lw_after :: db where
  "lw_after = iw_db\<lparr>db_targets := [(1, (new_target 1 1 0)\<lparr>tg_status := TG_Downloaded, tg_updated_at := 9\<rparr>)],
     db_artifacts := [(1, iw_artifact\<lparr>ar_relative_path := ''b/[x1].mp4'', ar_missing_since := None,
       ar_manual_link_previous_path := Some ''a [x1].mp4'', ar_manual_linked_at := Some 8, ar_updated_at := 9\<rparr>)]\<rparr>"

lemma lw_run: "manual_link iw_adapter () 8 9 1 ''b/[x1].mp4'' iw_db = Inr lw_after"
  by code_simp


end
