(* ===== verification/Retention_Theorems.thy ===== *)
theory Retention_Theorems
  imports Retention Integrity_Theorems Settings_Theorems "HOL-Library.Multiset"
begin

text \<open>
  Retention deletes only what was confirmed: the guards of a plan, the binding of a confirmation to its plan, the
  order of intent, deletion and completion under every failure, what a crash leaves for the next run, and the
  case that always fails.
\<close>

section \<open>The audit of an execution\<close>

definition audit_pair :: "'s retention_env \<Rightarrow> nat \<times> retention_candidate \<Rightarrow> json list" where
  "audit_pair env x = (case x of (k, c) \<Rightarrow>
     [delete_intent (re_iso env) (re_now env) c (quarantine_path (re_hex env k) (rc_relative_path c)),
      deleted_record (re_iso env) (re_now env) c])"

definition full_audit :: "'s retention_env \<Rightarrow> nat \<Rightarrow> retention_candidate list \<Rightarrow> json list" where
  "full_audit env k cs = concat (map (audit_pair env) (enumerate k cs))"

text \<open>The call that deletes a candidate: its path, the confirmed identity, its name in quarantine.\<close>

definition delete_call :: "'s retention_env \<Rightarrow> nat \<times> retention_candidate \<Rightarrow> 's \<Rightarrow> 's" where
  "delete_call env x w = (case x of (k, c) \<Rightarrow>
     (case re_adapters env (rc_storage_id c) of
        Inl _ \<Rightarrow> w
      | Inr ad \<Rightarrow> snd (ad_delete_file ad (rc_relative_path c) (rc_file_identity c)
                     (Some (quarantine_path (re_hex env k) (rc_relative_path c))) w)))"

definition storage_after :: "'s retention_env \<Rightarrow> nat \<Rightarrow> retention_candidate list \<Rightarrow> 's \<Rightarrow> 's" where
  "storage_after env k cs w = fold (delete_call env) (enumerate k cs) w"

definition freed_bytes :: "retention_candidate list \<Rightarrow> int" where
  "freed_bytes cs = sum_list (map (\<lambda>c. case rc_filesize c of None \<Rightarrow> 0 | Some n \<Rightarrow> n) cs)"

definition quiet :: "'s retention_env \<Rightarrow> bool" where
  "quiet env \<longleftrightarrow> (\<forall>k d. re_others env k d = d) \<and> (\<forall>d. re_others_at_end env d = d)"

text \<open>How far one candidate may get.\<close>

lemma delete_candidate_cases:
  assumes "delete_candidate env k c st = (ok, st')"
  shows "(if ok then rs_audit st' = rs_audit st @ audit_pair env (k, c) \<and>
            rs_world st' = delete_call env (k, c) (rs_world st) \<and> rs_deleted_count st' = rs_deleted_count st + 1 \<and>
            rs_deleted_bytes st' = rs_deleted_bytes st + freed_bytes [c] \<and>
            (quiet env \<longrightarrow> rs_db st' = forget_artifact (re_now env) c (rs_db st) \<and> unchanged (re_digest env) (rs_db st) c)
          else rs_deleted_count st' = rs_deleted_count st \<and> rs_deleted_bytes st' = rs_deleted_bytes st \<and>
            (\<exists>m \<le> 2. rs_audit st' = rs_audit st @ take m (audit_pair env (k, c)) \<and>
               rs_world st' = (if m = 0 then rs_world st else delete_call env (k, c) (rs_world st))) \<and>
            (quiet env \<longrightarrow> rs_db st' = rs_db st))"
proof -
  define d1 where "d1 = re_others env (2 * k + 1) (rs_db st)"
  define q where "q = quarantine_path (re_hex env k) (rc_relative_path c)"
  have quiet: "quiet env \<Longrightarrow> d1 = rs_db st" by (simp add: quiet_def d1_def)
  show ?thesis
  proof (cases "unchanged (re_digest env) d1 c \<and> (\<exists>ad f. re_adapters env (rc_storage_id c) = Inr ad \<and>
      rc_file_identity c = Some f) \<and> \<not> re_write_fails env (2 * k)")
    case False
    then have "\<not> ok \<and> st' = st\<lparr>rs_db := d1\<rparr>" using assms
      by (cases "re_adapters env (rc_storage_id c)"; cases "rc_file_identity c")
        (auto simp: delete_candidate_def Let_def d1_def split: if_splits)
    then show ?thesis using quiet by (auto intro!: exI[of _ 0])
  next
    case True
    then obtain ad f where ad: "re_adapters env (rc_storage_id c) = Inr ad" and f: "rc_file_identity c = Some f"
      and un: "unchanged (re_digest env) d1 c" and wf: "\<not> re_write_fails env (2 * k)" by blast
    obtain r w' where call: "ad_delete_file ad (rc_relative_path c) (Some f) (Some q) (rs_world st) = (r, w')"
      by (metis surj_pair)
    have dc: "delete_call env (k, c) (rs_world st) = w'" using ad f call by (simp add: delete_call_def q_def)
    define st2 where "st2 = st\<lparr>rs_db := d1, rs_audit := rs_audit st @ [delete_intent (re_iso env) (re_now env) c q], rs_world := w'\<rparr>"
    define st3 where "st3 = st2\<lparr>rs_audit := rs_audit st2 @ [deleted_record (re_iso env) (re_now env) c]\<rparr>"
    define d2 where "d2 = re_others env (2 * k + 2) d1"
    have quiet2: "quiet env \<Longrightarrow> d2 = rs_db st" using quiet by (simp add: quiet_def d2_def)
    have run: "delete_candidate env k c st =
        (if isl r \<or> re_write_fails env (2 * k + 1) then (False, st2)
         else if \<not> unchanged (re_digest env) d2 c then (False, st3\<lparr>rs_db := d2\<rparr>)
         else (True, st3\<lparr>rs_db := forget_artifact (re_now env) c d2, rs_deleted_count := rs_deleted_count st + 1,
                         rs_deleted_bytes := rs_deleted_bytes st + freed_bytes [c]\<rparr>))"
      unfolding delete_candidate_def d1_def[symmetric]
      using un wf ad f call
      by (cases r) (auto simp: Let_def q_def st2_def st3_def d2_def freed_bytes_def)
    have pair: "audit_pair env (k, c) = [delete_intent (re_iso env) (re_now env) c q, deleted_record (re_iso env) (re_now env) c]"
      by (simp add: audit_pair_def q_def)
    consider (one) "ok = False" "st' = st2" | (two) "ok = False" "st' = st3\<lparr>rs_db := d2\<rparr>"
      | (all) "ok = True" "st' = st3\<lparr>rs_db := forget_artifact (re_now env) c d2, rs_deleted_count := rs_deleted_count st + 1,
                         rs_deleted_bytes := rs_deleted_bytes st + freed_bytes [c]\<rparr>"
      using assms run by (auto split: if_splits)
    then show ?thesis
    proof cases
      case one
      then show ?thesis using dc quiet by (auto simp: st2_def pair intro!: exI[of _ 1])
    next
      case two
      then show ?thesis using dc quiet2 by (auto simp: st2_def st3_def pair intro!: exI[of _ 2])
    next
      case all
      then show ?thesis using dc quiet quiet2 un by (auto simp: st2_def st3_def pair)
    qed
  qed
qed

lemma full_audit_Cons: "full_audit env k (c # cs) = audit_pair env (k, c) @ full_audit env (k + 1) cs"
  by (simp add: full_audit_def)

lemma storage_after_Cons: "storage_after env k (c # cs) w = storage_after env (k + 1) cs (delete_call env (k, c) w)"
  by (simp add: storage_after_def)

lemma freed_bytes_Cons: "freed_bytes (c # cs) = freed_bytes [c] + freed_bytes cs"
  by (simp add: freed_bytes_def)

lemma length_audit_pair [simp]: "length (audit_pair env x) = 2"
  by (cases x) (simp add: audit_pair_def)

lemma storage_after_Nil [simp]: "storage_after env k [] w = w"
  by (simp add: storage_after_def)

lemma freed_bytes_Nil [simp]: "freed_bytes [] = 0"
  by (simp add: freed_bytes_def)

text \<open>
  An execution goes through \<open>n\<close> candidates and \<open>m\<close> of the two records of the next: its audit is the beginning of
  the full one.
\<close>

lemma delete_candidates_progress:
  assumes "delete_candidates env k cs st = (ok, st')"
  shows "\<exists>n m. n \<le> length cs \<and> m \<le> 2 \<and> (n = length cs \<longrightarrow> m = 0) \<and> (ok \<longleftrightarrow> n = length cs) \<and>
    rs_audit st' = rs_audit st @ take (2 * n + m) (full_audit env k cs) \<and>
    rs_world st' = storage_after env k (take (if m = 0 then n else n + 1) cs) (rs_world st) \<and>
    rs_deleted_count st' = rs_deleted_count st + n \<and>
    rs_deleted_bytes st' = rs_deleted_bytes st + freed_bytes (take n cs) \<and>
    (quiet env \<longrightarrow> rs_db st' = fold (forget_artifact (re_now env)) (take n cs) (rs_db st))"
  using assms
proof (induction cs arbitrary: k st)
  case Nil
  then show ?case by simp
next
  case (Cons c cs)
  obtain ok1 st1 where one: "delete_candidate env k c st = (ok1, st1)" by (metis surj_pair)
  note step = delete_candidate_cases[OF one]
  show ?case
  proof (cases ok1)
    case False
    with Cons.prems one have res: "ok = False" "st' = st1" by simp_all
    obtain m where m: "m \<le> 2" "rs_audit st1 = rs_audit st @ take m (audit_pair env (k, c))"
      "rs_world st1 = (if m = 0 then rs_world st else delete_call env (k, c) (rs_world st))"
      using step False by auto
    have "take m (full_audit env k (c # cs)) = take m (audit_pair env (k, c))" using m(1) by (simp add: full_audit_Cons)
    then show ?thesis using step False m res
      by (intro exI[of _ 0] exI[of _ m]) (auto simp: storage_after_Cons)
  next
    case True
    with Cons.prems one have rest: "delete_candidates env (k + 1) cs st1 = (ok, st')" by simp
    from step True have a: "rs_audit st1 = rs_audit st @ audit_pair env (k, c)"
      and w: "rs_world st1 = delete_call env (k, c) (rs_world st)"
      and cnt: "rs_deleted_count st1 = rs_deleted_count st + 1"
      and b: "rs_deleted_bytes st1 = rs_deleted_bytes st + freed_bytes [c]"
      and db: "quiet env \<Longrightarrow> rs_db st1 = forget_artifact (re_now env) c (rs_db st)" by auto
    obtain n m where nm: "n \<le> length cs" "m \<le> 2" "n = length cs \<longrightarrow> m = 0" "ok \<longleftrightarrow> n = length cs"
      and a': "rs_audit st' = rs_audit st1 @ take (2 * n + m) (full_audit env (k + 1) cs)"
      and w': "rs_world st' = storage_after env (k + 1) (take (if m = 0 then n else n + 1) cs) (rs_world st1)"
      and cnt': "rs_deleted_count st' = rs_deleted_count st1 + n"
      and b': "rs_deleted_bytes st' = rs_deleted_bytes st1 + freed_bytes (take n cs)"
      and db': "quiet env \<longrightarrow> rs_db st' = fold (forget_artifact (re_now env)) (take n cs) (rs_db st1)"
      using Cons.IH[OF rest] by blast
    have "take (2 * Suc n + m) (full_audit env k (c # cs)) = audit_pair env (k, c) @ take (2 * n + m) (full_audit env (k + 1) cs)"
      by (simp add: full_audit_Cons)
    moreover have "storage_after env k (take (if m = 0 then Suc n else Suc n + 1) (c # cs)) (rs_world st) = rs_world st'"
      using w w' by (simp add: storage_after_Cons)
    moreover have "freed_bytes (take (Suc n) (c # cs)) = freed_bytes [c] + freed_bytes (take n cs)"
      using freed_bytes_Cons[of c "take n cs"] by simp
    ultimately show ?thesis using nm a a' cnt cnt' b b' db db'
      by (intro exI[of _ "Suc n"] exI[of _ m]) auto
  qed
qed

definition started_db :: "'s retention_env \<Rightarrow> retention_plan \<Rightarrow> db \<Rightarrow> db" where
  "started_db env plan d = d\<lparr>db_runs :=
     insert_row (retention_run (re_now env) (rl_playlist_id plan) (re_log_path env)) (db_runs d)\<rparr>"

definition begun_state :: "'s retention_env \<Rightarrow> retention_plan \<Rightarrow> 's \<Rightarrow> db \<Rightarrow> 's retention_state" where
  "begun_state env plan w d = \<lparr>rs_db = started_db env plan d, rs_world = w, rs_audit = [], rs_deleted_count = 0,
     rs_deleted_bytes = 0\<rparr>"

definition deletions :: "'s retention_env \<Rightarrow> retention_plan \<Rightarrow> 's \<Rightarrow> db \<Rightarrow> bool \<times> 's retention_state" where
  "deletions env plan w d =
     (if re_open_fails env then (False, begun_state env plan w d)
      else delete_candidates env 0 (rl_candidates plan) (begun_state env plan w d))"

lemma perform_retention_refused:
  "start_retention env plan (re_others env 0 d) = Some e \<Longrightarrow> perform_retention env plan w d =
     (Inl e, \<lparr>rs_db = re_others env 0 d, rs_world = w, rs_audit = [], rs_deleted_count = 0, rs_deleted_bytes = 0\<rparr>, [])"
  unfolding perform_retention_def Let_def by simp

lemma perform_retention_started:
  assumes none: "start_retention env plan (re_others env 0 d) = None"
    and go: "deletions env plan w (re_others env 0 d) = (ok, st2)"
  shows "perform_retention env plan w d =
     (let run_id = fresh_id (db_runs (re_others env 0 d));
          stats = (if ok then retention_stats st2 else retention_stats st2 @ [(''reason_code'', JStr ''retention_failed'')])
      in (if ok then Inr (run_id, rs_deleted_count st2, rs_deleted_bytes st2) else Inl RetentionExecutionError,
          st2\<lparr>rs_db := settle_run (re_now env) run_id (if ok then RS_Succeeded else RS_Failed) stats
                (re_others_at_end env (rs_db st2))\<rparr>,
          [run_started_event run_id (rl_playlist_id plan) ''retention'' RT_Manual,
           if ok then retention_event ''run_finished'' run_id (rl_playlist_id plan) ''status'' ''succeeded''
           else retention_event ''run_failed'' run_id (rl_playlist_id plan) ''reason_code'' ''retention_failed'']))"
proof -
  have begun: "\<lparr>rs_db = d0, rs_world = w, rs_audit = [], rs_deleted_count = 0, rs_deleted_bytes = 0\<rparr>
      \<lparr>rs_db := d0\<lparr>db_runs := insert_row (retention_run (re_now env) (rl_playlist_id plan) (re_log_path env)) (db_runs d0)\<rparr>\<rparr>
      = begun_state env plan w d0" for d0
    by (simp add: begun_state_def started_db_def)
  show ?thesis unfolding perform_retention_def Let_def none option.case begun deletions_def[symmetric] go prod.case
    by (cases ok) simp_all
qed

lemma settle_run_row:
  "tget (db_runs (settle_run now run_id status stats d)) run_id = Some r \<Longrightarrow>
     rn_status r = status \<and> rn_finished_at r = Some now"
  by (auto simp: settle_run_def)

text \<open>
  Claim C16: a retention deletes only what its confirmed plan names, in order, each deletion after its intent is in the audit
  and with the identity of the dry run, whatever fails and whatever others do. With \<open>n\<close> candidates done and
  \<open>m\<close> records written for the next, the audit is the beginning of length \<open>2 n + m\<close> of the full audit, the storage
  is what the first calls made of it, and success is reported exactly when all are done. Once begun, the Run is
  settled in every case; and if nobody else writes, the database changes only by forgetting the \<open>n\<close> artifacts.
\<close>

theorem retention_deletes_as_confirmed:
  assumes "perform_retention env plan w d = (result, st, events)"
  shows "(events = [] \<and> isl result \<and> rs_world st = w \<and> rs_audit st = [] \<and> rs_db st = re_others env 0 d) \<or>
    (list_all (unchanged (re_digest env) (re_others env 0 d)) (rl_candidates plan) \<and>
     (\<exists>n m stats. n \<le> length (rl_candidates plan) \<and> m \<le> 2 \<and> (n = length (rl_candidates plan) \<longrightarrow> m = 0) \<and>
        rs_audit st = take (2 * n + m) (full_audit env 0 (rl_candidates plan)) \<and>
        rs_world st = storage_after env 0 (take (if m = 0 then n else n + 1) (rl_candidates plan)) w \<and>
        (let run_id = fresh_id (db_runs (re_others env 0 d)); status = (if isl result then RS_Failed else RS_Succeeded)
         in (\<forall>r. tget (db_runs (rs_db st)) run_id = Some r \<longrightarrow>
               rn_status r = status \<and> rn_finished_at r = Some (re_now env)) \<and>
            (result = Inl RetentionExecutionError \<or>
             n = length (rl_candidates plan) \<and> result = Inr (run_id, n, freed_bytes (rl_candidates plan))) \<and>
            (quiet env \<longrightarrow> rs_db st = settle_run (re_now env) run_id status stats
               (fold (forget_artifact (re_now env)) (take n (rl_candidates plan)) (started_db env plan d))))))"
proof (cases "start_retention env plan (re_others env 0 d)")
  case (Some e)
  then show ?thesis using assms by (intro disjI1) (auto simp: perform_retention_refused)
next
  case None
  define cs where "cs = rl_candidates plan"
  define d0 where "d0 = re_others env 0 d"
  define run_id where "run_id = fresh_id (db_runs d0)"
  define st1 where "st1 = begun_state env plan w d0"
  obtain ok st2 where go: "deletions env plan w d0 = (ok, st2)" by (metis surj_pair)
  have un: "list_all (unchanged (re_digest env) d0) cs"
    using None by (auto simp: start_retention_def d0_def cs_def split: option.splits if_splits)
  have "\<exists>n m. n \<le> length cs \<and> m \<le> 2 \<and> (n = length cs \<longrightarrow> m = 0) \<and> (ok \<longrightarrow> n = length cs) \<and>
    rs_audit st2 = take (2 * n + m) (full_audit env 0 cs) \<and>
    rs_world st2 = storage_after env 0 (take (if m = 0 then n else n + 1) cs) w \<and>
    (ok \<longrightarrow> rs_deleted_count st2 = n \<and> rs_deleted_bytes st2 = freed_bytes cs) \<and>
    (quiet env \<longrightarrow> rs_db st2 = fold (forget_artifact (re_now env)) (take n cs) (started_db env plan d0))"
  proof (cases "re_open_fails env")
    case True
    with go have "ok = False" "st2 = st1" by (auto simp: deletions_def st1_def)
    then show ?thesis by (intro exI[of _ 0]) (simp add: st1_def begun_state_def)
  next
    case False
    with go have "delete_candidates env 0 cs st1 = (ok, st2)" by (simp add: deletions_def st1_def cs_def)
    then obtain n m where p: "n \<le> length cs" "m \<le> 2" "n = length cs \<longrightarrow> m = 0" "ok \<longleftrightarrow> n = length cs"
      "rs_audit st2 = rs_audit st1 @ take (2 * n + m) (full_audit env 0 cs)"
      "rs_world st2 = storage_after env 0 (take (if m = 0 then n else n + 1) cs) (rs_world st1)"
      "rs_deleted_count st2 = rs_deleted_count st1 + n" "rs_deleted_bytes st2 = rs_deleted_bytes st1 + freed_bytes (take n cs)"
      "quiet env \<longrightarrow> rs_db st2 = fold (forget_artifact (re_now env)) (take n cs) (rs_db st1)"
      using delete_candidates_progress by blast
    have "rs_audit st1 = []" "rs_world st1 = w" "rs_deleted_count st1 = 0" "rs_deleted_bytes st1 = 0"
      "rs_db st1 = started_db env plan d0" by (simp_all add: st1_def begun_state_def)
    with p show ?thesis by (intro exI[of _ n] exI[of _ m]) simp
  qed
  then obtain n m where nm: "n \<le> length cs" "m \<le> 2" "n = length cs \<longrightarrow> m = 0" "ok \<longrightarrow> n = length cs"
    and audit: "rs_audit st2 = take (2 * n + m) (full_audit env 0 cs)"
    and world: "rs_world st2 = storage_after env 0 (take (if m = 0 then n else n + 1) cs) w"
    and count: "ok \<longrightarrow> rs_deleted_count st2 = n \<and> rs_deleted_bytes st2 = freed_bytes cs"
    and db: "quiet env \<longrightarrow> rs_db st2 = fold (forget_artifact (re_now env)) (take n cs) (started_db env plan d0)"
    by blast
  define status where "status = (if ok then RS_Succeeded else RS_Failed)"
  define stats where "stats = (if ok then retention_stats st2
      else retention_stats st2 @ [(''reason_code'', JStr ''retention_failed'')])"
  have res: "st = st2\<lparr>rs_db := settle_run (re_now env) run_id status stats (re_others_at_end env (rs_db st2))\<rparr>"
      "result = (if ok then Inr (run_id, rs_deleted_count st2, rs_deleted_bytes st2) else Inl RetentionExecutionError)"
    using assms perform_retention_started[OF None, of w] go
    by (simp_all add: Let_def d0_def run_id_def status_def stats_def)
  have "quiet env \<Longrightarrow> d0 = d" "quiet env \<Longrightarrow> re_others_at_end env x = x" for x by (simp_all add: quiet_def d0_def)
  then have db': "quiet env \<longrightarrow> rs_db st = settle_run (re_now env) run_id status stats
      (fold (forget_artifact (re_now env)) (take n cs) (started_db env plan d))"
    using db res(1) by simp
  have settled: "tget (db_runs (rs_db st)) run_id = Some r \<Longrightarrow> rn_status r = status \<and> rn_finished_at r = Some (re_now env)" for r
    unfolding res(1) by (simp add: settle_run_row)
  have st_eq: "(if isl result then RS_Failed else RS_Succeeded) = status" using res(2) by (simp add: status_def)
  have "rs_audit st = take (2 * n + m) (full_audit env 0 cs)"
    "rs_world st = storage_after env 0 (take (if m = 0 then n else n + 1) cs) w" using audit world res(1) by simp_all
  moreover have "result = Inl RetentionExecutionError \<or> n = length cs \<and> result = Inr (run_id, n, freed_bytes cs)"
    using res(2) nm(4) count by auto
  ultimately show ?thesis
    using un nm(1-3) db' settled unfolding Let_def cs_def[symmetric] d0_def[symmetric] run_id_def[symmetric] st_eq
    by (intro disjI2 conjI[OF un] exI[of _ n] exI[of _ m] exI[of _ stats]) blast
qed

section \<open>After a crash\<close>

definition candidate_key_json :: "retention_candidate \<Rightarrow> json \<times> json \<times> json" where
  "candidate_key_json c = (JInt (rc_artifact_id c), JInt (rc_storage_id c), JStr (rc_relative_path c))"

lemma audit_records [simp]:
  "audit_event (delete_intent iso_text now c q) = JStr ''delete_intent''"
  "audit_event (deleted_record iso_text now c) = JStr ''deleted''"
  "audit_key (delete_intent iso_text now c q) = candidate_key_json c"
  "audit_key (deleted_record iso_text now c) = candidate_key_json c"
  by (simp_all add: audit_event_def audit_key_def delete_intent_def deleted_record_def jget_def candidate_key_json_def)

lemma full_audit_keys:
  "r \<in> set (full_audit env k cs) \<Longrightarrow> \<exists>c \<in> set cs. audit_key r = candidate_key_json c"
proof (induction cs arbitrary: k)
  case (Cons c cs)
  then have "r \<in> set (audit_pair env (k, c)) \<or> r \<in> set (full_audit env (k + 1) cs)" by (simp add: full_audit_Cons)
  then show ?case using Cons.IH by (auto simp: audit_pair_def)
qed (simp add: full_audit_def)

lemma unfinished_pair:
  assumes "\<forall>r \<in> set rs. audit_key r \<noteq> candidate_key_json c"
  shows "unfinished_intents (audit_pair env (k, c) @ rs) = unfinished_intents rs"
proof -
  have "filter (\<lambda>r. audit_event r = JStr ''delete_intent'' \<and>
          audit_key r \<notin> insert (candidate_key_json c) (audit_key ` {r \<in> set rs. audit_event r = JStr ''deleted''})) rs
      = filter (\<lambda>r. audit_event r = JStr ''delete_intent'' \<and>
          audit_key r \<notin> audit_key ` {r \<in> set rs. audit_event r = JStr ''deleted''}) rs"
    using assms by (intro filter_cong) auto
  then show ?thesis by (simp add: unfinished_intents_def audit_pair_def)
qed

lemma unfinished_prefix:
  assumes "distinct (map rc_artifact_id cs)"
  shows "unfinished_intents (take j (full_audit env k cs)) = [] \<longleftrightarrow> even j \<or> 2 * length cs \<le> j"
  using assms
proof (induction cs arbitrary: j k)
  case Nil
  then show ?case by (simp add: full_audit_def unfinished_intents_def)
next
  case (Cons c cs)
  show ?case
  proof (cases "2 \<le> j")
    case False
    then consider "j = 0" | "j = 1" by linarith
    then show ?thesis
      by cases (simp_all add: full_audit_Cons audit_pair_def unfinished_intents_def)
  next
    case True
    then have take: "take j (full_audit env k (c # cs)) = audit_pair env (k, c) @ take (j - 2) (full_audit env (k + 1) cs)"
      by (simp add: full_audit_Cons)
    have "\<forall>r \<in> set (take (j - 2) (full_audit env (k + 1) cs)). audit_key r \<noteq> candidate_key_json c"
    proof
      fix r assume "r \<in> set (take (j - 2) (full_audit env (k + 1) cs))"
      then obtain c' where "c' \<in> set cs" "audit_key r = candidate_key_json c'"
        using full_audit_keys in_set_takeD by fast
      moreover have "rc_artifact_id c' \<noteq> rc_artifact_id c" using Cons.prems \<open>c' \<in> set cs\<close> by (metis distinct.simps(2) image_eqI list.set_map list.simps(9))
      ultimately show "audit_key r \<noteq> candidate_key_json c" by (simp add: candidate_key_json_def)
    qed
    then have "unfinished_intents (take j (full_audit env k (c # cs))) =
        unfinished_intents (take (j - 2) (full_audit env (k + 1) cs))"
      unfolding take by (rule unfinished_pair)
    moreover have "even j \<longleftrightarrow> even (j - 2)" using True by simp
    ultimately show ?thesis using Cons True by auto
  qed
qed

lemma length_full_audit [simp]: "length (full_audit env k cs) = 2 * length cs"
  by (induction cs arbitrary: k) (simp_all add: full_audit_Cons, simp add: full_audit_def)

lemma assert_unfinished_iff:
  "assert_no_unfinished_retention_intents logs = None \<longleftrightarrow>
     (\<forall>l \<in> set logs. \<exists>rs. l = AL_Records rs \<and> unfinished_intents rs = [])"
  by (induction logs rule: assert_no_unfinished_retention_intents.induct) auto

lemma audit_events:
  "i < 2 * length cs \<Longrightarrow>
     audit_event (full_audit env k cs ! i) = JStr (if even i then ''delete_intent'' else ''deleted'')"
proof (induction cs arbitrary: i k)
  case (Cons c cs)
  show ?case
  proof (cases "2 \<le> i")
    case True
    then have "full_audit env k (c # cs) ! i = full_audit env (k + 1) cs ! (i - 2)"
      by (simp add: full_audit_Cons nth_append)
    moreover have "even i \<longleftrightarrow> even (i - 2)" using True by simp
    ultimately show ?thesis using Cons True by auto
  next
    case False
    then consider "i = 0" | "i = 1" by linarith
    then show ?thesis by cases (simp_all add: full_audit_Cons audit_pair_def)
  qed
qed simp

lemma perform_audit_prefix:
  assumes "perform_retention env plan w d = (result, st, events)"
  shows "\<exists>n. rs_audit st = take n (full_audit env 0 (rl_candidates plan))"
proof (cases "start_retention env plan (re_others env 0 d)")
  case (Some e)
  then show ?thesis using assms by (intro exI[of _ 0]) (auto simp: perform_retention_refused)
next
  case None
  obtain ok st2 where go: "deletions env plan w (re_others env 0 d) = (ok, st2)" by (metis surj_pair)
  have "rs_audit st = rs_audit st2" using assms perform_retention_started[OF None go] by (auto simp: Let_def)
  moreover have "\<exists>n. rs_audit st2 = take n (full_audit env 0 (rl_candidates plan))"
  proof (cases "re_open_fails env")
    case True
    with go show ?thesis by (intro exI[of _ 0]) (auto simp: deletions_def begun_state_def)
  next
    case False
    with go have "delete_candidates env 0 (rl_candidates plan) (begun_state env plan w (re_others env 0 d)) = (ok, st2)"
      by (simp add: deletions_def)
    from delete_candidates_progress[OF this] show ?thesis by (auto simp: begun_state_def)
  qed
  ultimately show ?thesis by simp
qed


section \<open>Two artifacts of one Target\<close>

lemma forget_target_status:
  "map_option tg_status (tget (db_targets (forget_artifact now c d)) tid) =
     (if tid = rc_target_id c then map_option (\<lambda>_. TG_Ignored) (tget (db_targets d) tid)
      else map_option tg_status (tget (db_targets d) tid))"
proof -
  have "tg_status (touch_target now (\<lambda>t. t\<lparr>tg_status := TG_Ignored, tg_last_error := None\<rparr>) t) = TG_Ignored" for t
    unfolding touch_columns by simp
  then show ?thesis by (simp add: forget_artifact_def Let_def option.map_comp comp_def)
qed

lemma unchanged_downloaded:
  "unchanged digest d c \<Longrightarrow> map_option tg_status (tget (db_targets d) (rc_target_id c)) = Some TG_Downloaded"
  by (auto simp: unchanged_def related_rows_match_def split: option.splits)

lemma delete_candidates_not_downloaded:
  assumes "quiet env" "delete_candidates env k cs st = (True, st')"
    "map_option tg_status (tget (db_targets (rs_db st)) tid) \<noteq> Some TG_Downloaded"
  shows "\<forall>c \<in> set cs. rc_target_id c \<noteq> tid"
  using assms(2,3)
proof (induction cs arbitrary: k st)
  case (Cons c cs)
  obtain ok st1 where one: "delete_candidate env k c st = (ok, st1)" by (metis surj_pair)
  with Cons.prems have ok: "ok" "delete_candidates env (k + 1) cs st1 = (True, st')" by (cases ok; simp)+
  have step: "rs_db st1 = forget_artifact (re_now env) c (rs_db st)" "unchanged (re_digest env) (rs_db st) c"
    using delete_candidate_cases[OF one] ok(1) assms(1) by auto
  have "rc_target_id c \<noteq> tid" using unchanged_downloaded[OF step(2)] Cons.prems(2) by auto
  moreover have "map_option tg_status (tget (db_targets (rs_db st1)) tid) \<noteq> Some TG_Downloaded"
    using Cons.prems(2) by (auto simp: step(1) forget_target_status)
  ultimately show ?case using Cons.IH[OF ok(2)] by simp
qed simp

lemma delete_candidates_one_per_target:
  assumes "quiet env" "delete_candidates env k cs st = (True, st')"
  shows "distinct (map rc_target_id cs)"
  using assms(2)
proof (induction cs arbitrary: k st)
  case (Cons c cs)
  obtain ok st1 where one: "delete_candidate env k c st = (ok, st1)" by (metis surj_pair)
  with Cons.prems have ok: "ok" "delete_candidates env (k + 1) cs st1 = (True, st')" by (cases ok; simp)+
  have "rs_db st1 = forget_artifact (re_now env) c (rs_db st)"
    using delete_candidate_cases[OF one] ok(1) assms(1) by auto
  then have "map_option tg_status (tget (db_targets (rs_db st1)) (rc_target_id c)) \<noteq> Some TG_Downloaded"
    by (auto simp: forget_target_status)
  from delete_candidates_not_downloaded[OF assms(1) ok(2) this] Cons.IH[OF ok(2)] show ?case by auto
qed simp


section \<open>The guards of a plan\<close>

definition verified_candidate :: "(json \<Rightarrow> string) \<Rightarrow> (int \<Rightarrow> exn + 's storage_adapter) \<Rightarrow> 's \<Rightarrow> db
    \<Rightarrow> retention_row \<Rightarrow> retention_candidate \<Rightarrow> bool" where
  "verified_candidate digest adapters w d row c \<longleftrightarrow>
     (\<exists>st ad f. tget (db_storages d) (ar_storage_id (snd (fst row))) = Some st \<and>
        adapters (ar_storage_id (snd (fst row))) = Inr ad \<and>
        ad_inspect_file ad w (ar_relative_path (snd (fst row))) = Inr f \<and>
        (rf_hashes f \<noteq> [] \<or> rf_file_id f \<noteq> None) \<and>
        (ar_filesize (snd (fst row)) = None \<or> rf_size f = ar_filesize (snd (fst row))) \<and>
        c = make_candidate digest row st (Some f))"

lemma inspect_candidate_ok:
  "inspect_candidate adapters w a = (identity, None) \<Longrightarrow>
     \<exists>ad f. identity = Some f \<and> adapters (ar_storage_id a) = Inr ad \<and> ad_inspect_file ad w (ar_relative_path a) = Inr f \<and>
       (rf_hashes f \<noteq> [] \<or> rf_file_id f \<noteq> None) \<and> (ar_filesize a = None \<or> rf_size f = ar_filesize a)"
proof (cases "adapters (ar_storage_id a)")
  case (Inr ad)
  then show "inspect_candidate adapters w a = (identity, None) \<Longrightarrow> ?thesis"
    by (cases "ad_inspect_file ad w (ar_relative_path a)") (auto simp: inspect_candidate_def split: if_splits)
qed (simp add: inspect_candidate_def)

lemma collect_candidates_verified:
  "collect_candidates digest (Some adapters) w d rows = Inr (cs, []) \<Longrightarrow>
     list_all2 (verified_candidate digest adapters w d) rows cs"
proof (induction rows arbitrary: cs)
  case (Cons row rows)
  obtain st where st: "tget (db_storages d) (ar_storage_id (snd (fst row))) = Some st"
    using Cons.prems by (cases "tget (db_storages d) (ar_storage_id (snd (fst row)))") (auto split: sum.splits)
  obtain identity failure where ins: "inspect_candidate adapters w (snd (fst row)) = (identity, failure)" by (metis surj_pair)
  obtain cs' bs where rest: "collect_candidates digest (Some adapters) w d rows = Inr (cs', bs)"
    using Cons.prems st ins
    by (cases "collect_candidates digest (Some adapters) w d rows") (auto split: if_splits)
  have "failure = None" "bs = []" "cs = make_candidate digest row st identity # cs'"
    using Cons.prems st ins rest by (auto split: if_splits option.splits)
  then show ?case using Cons.IH rest st ins inspect_candidate_ok[of adapters w "snd (fst row)" identity]
    by (auto simp: verified_candidate_def)
qed simp

text \<open>The order of the items: newer ones first, and a distinct id decides at last.\<close>

lemma latest_key_inj: "latest_key x = latest_key y \<Longrightarrow> fst x = fst y"
  by (cases x; cases y) (simp add: latest_key_def)

lemma set_latest_first [simp]: "set (latest_first items) = set items"
  by (simp add: latest_first_def)

lemma mset_latest_first: "mset (latest_first items) = mset items"
  by (simp add: latest_first_def)

lemma latest_first_sorted: "sorted_wrt (\<lambda>x y. latest_key y \<le> latest_key x) (latest_first items)"
proof -
  have "sorted (map latest_key (sort_key latest_key (rev items)))" by (rule sorted_sort_key)
  then show ?thesis by (simp only: latest_first_def sorted_wrt_rev sorted_map)
qed

lemma beyond_latest_newer:
  assumes ids: "distinct (map fst items)" and i: "i \<in> set (beyond_latest n items)"
  shows "\<exists>it. (i, it) \<in> set items \<and> nat n \<le> length (filter (\<lambda>y. latest_key (i, it) < latest_key y) items)"
proof -
  define xs where "xs = latest_first items"
  have xs: "mset xs = mset items" "sorted_wrt (\<lambda>x y. latest_key y \<le> latest_key x) xs"
    by (simp_all add: xs_def mset_latest_first latest_first_sorted)
  have "mset (map fst xs) = mset (map fst items)" using xs(1) by simp
  then have dist: "distinct (map fst xs)" using ids mset_eq_imp_distinct_iff by blast
  from i have "i \<in> set (map fst xs)" and out: "i \<notin> set (map fst (take (nat n) xs))"
    by (auto simp: beyond_latest_def Let_def xs_def)
  then obtain k it where k: "k < length xs" "xs ! k = (i, it)" by (force simp: in_set_conv_nth)
  have nk: "nat n \<le> k"
  proof (rule ccontr)
    assume "\<not> nat n \<le> k"
    then have "take (nat n) xs ! k = (i, it)" "k < length (take (nat n) xs)" using k by auto
    then have "(i, it) \<in> set (take (nat n) xs)" by (metis nth_mem)
    then show False using out by force
  qed
  have newer: "latest_key (i, it) < latest_key (xs ! j)" if "j < nat n" for j
  proof -
    have jk: "j < k" using that nk by simp
    have "latest_key (xs ! k) \<le> latest_key (xs ! j)" using xs(2) jk k(1) by (rule sorted_wrt_nth_less)
    moreover have "fst (xs ! j) \<noteq> fst (xs ! k)"
      using dist jk k(1) nth_eq_iff_index_eq[of "map fst xs" j k] by simp
    then have "latest_key (xs ! k) \<noteq> latest_key (xs ! j)" using latest_key_inj by metis
    ultimately show ?thesis using k(2) by simp
  qed
  define P where "P = (\<lambda>y. latest_key (i, it) < latest_key y)"
  have "\<forall>y \<in> set (take (nat n) xs). P y"
  proof
    fix y assume "y \<in> set (take (nat n) xs)"
    then obtain j where "j < nat n" "y = xs ! j" by (auto simp: in_set_conv_nth)
    then show "P y" using newer by (simp add: P_def)
  qed
  then have "filter P (take (nat n) xs) = take (nat n) xs" by (simp add: filter_id_conv)
  moreover have "length (filter P xs) = length (filter P (take (nat n) xs)) + length (filter P (drop (nat n) xs))"
    by (metis append_take_drop_id filter_append length_append)
  moreover have "length (filter P xs) = length (filter P items)" using xs(1) by (metis mset_filter size_mset)
  moreover have "length (take (nat n) xs) = nat n" using nk k(1) by simp
  ultimately have "nat n \<le> length (filter P items)" by simp
  moreover have "(i, it) \<in> set items" using k nth_mem[OF k(1)] by (simp add: xs_def)
  ultimately show ?thesis unfolding P_def by blast
qed

lemma retention_row_some:
  "retention_row d pid x = Some ((aid, a), (tid, t), (iid, it)) \<Longrightarrow>
     x = (aid, a) \<and> tid = ar_target_id a \<and> tget (db_targets d) tid = Some t \<and> tget (db_items d) iid = Some it \<and>
     it_playlist_id it = pid"
  by (cases x) (auto simp: retention_row_def split: option.splits if_splits)

lemma set_retention_rows: "set (retention_rows d pid) = {row. \<exists>x \<in> set (db_artifacts d). retention_row d pid x = Some row}"
  by (force simp: retention_rows_def List.map_filter_def)

lemma items_of_rows_distinct: "distinct (map fst (items_of_rows (retention_rows d pid)))"
proof -
  have "tget (db_items d) (fst x) = Some (snd x)" if "x \<in> set (items_of_rows (retention_rows d pid))" for x
  proof -
    from that obtain row where "row \<in> set (retention_rows d pid)" "x = snd (snd row)" by (auto simp: items_of_rows_def)
    moreover from this obtain y where "retention_row d pid y = Some row" by (auto simp: set_retention_rows)
    moreover obtain aid a tid t iid it where "row = ((aid, a), (tid, t), (iid, it))" by (metis surj_pair)
    ultimately show ?thesis using retention_row_some[of d pid y aid a tid t iid it] by simp
  qed
  then have "inj_on fst (set (items_of_rows (retention_rows d pid)))"
    by (intro inj_onI) (metis option.inject prod.expand)
  then show ?thesis by (simp add: distinct_map items_of_rows_def)
qed

lemma selected_item_reason:
  assumes "selected_item_ids policy today items = Inr selected" "i \<in> set selected"
  shows "(\<exists>n. rp_keep_latest policy = Some n \<and> i \<in> set (beyond_latest n items)) \<or>
    (\<exists>days it. rp_max_age_days policy = Some days \<and> (i, it) \<in> set items \<and> uploaded_before (today - days) (i, it))"
proof (cases "rp_max_age_days policy")
  case None
  then show ?thesis using assms by (auto simp: selected_item_ids_def split: option.splits)
next
  case (Some days)
  then obtain cutoff where cutoff: "age_cutoff today days = Inr cutoff"
    using assms(1) by (cases "age_cutoff today days") (auto simp: selected_item_ids_def)
  then have days: "cutoff = today - days" by (auto simp: age_cutoff_def split: if_splits)
  have "i \<in> set (case rp_keep_latest policy of None \<Rightarrow> [] | Some n \<Rightarrow> beyond_latest n items) \<or>
      i \<in> fst ` set (filter (uploaded_before (today - days)) items)"
    using assms Some cutoff days by (auto simp: selected_item_ids_def Let_def)
  then show ?thesis
  proof
    assume "i \<in> set (case rp_keep_latest policy of None \<Rightarrow> [] | Some n \<Rightarrow> beyond_latest n items)"
    then show ?thesis by (cases "rp_keep_latest policy") auto
  next
    assume "i \<in> fst ` set (filter (uploaded_before (today - days)) items)"
    then obtain x where "x \<in> set items" "uploaded_before (today - days) x" "i = fst x" by auto
    then have "(i, snd x) \<in> set items" "uploaded_before (today - days) (i, snd x)" by simp_all
    then show ?thesis using Some by blast
  qed
qed

definition old_or_surplus :: "retention_policy \<Rightarrow> int \<Rightarrow> (int \<times> item) list \<Rightarrow> int \<times> item \<Rightarrow> bool" where
  "old_or_surplus policy today items x \<longleftrightarrow>
     (\<exists>n. rp_keep_latest policy = Some n \<and> nat n \<le> length (filter (\<lambda>y. latest_key x < latest_key y) items)) \<or>
     (\<exists>days day. rp_max_age_days policy = Some days \<and> parse_upload_date (it_upload_date (snd x)) = Some day \<and>
        day < today - days)"

lemma retention_rows_sub:
  "row \<in> set (retention_rows d pid) \<Longrightarrow> snd (snd row) \<in> set (items_of_rows (retention_rows d pid))"
  by (auto simp: items_of_rows_def image_iff intro!: bexI[of _ row])

lemma selected_old_or_surplus:
  assumes "selected_item_ids policy today (items_of_rows (retention_rows d pid)) = Inr selected"
    and "row \<in> set (candidate_rows selected (retention_rows d pid))"
  shows "row \<in> set (retention_rows d pid) \<and> tg_status (snd (fst (snd row))) = TG_Downloaded \<and>
    old_or_surplus policy today (items_of_rows (retention_rows d pid)) (snd (snd row))"
proof -
  define items where "items = items_of_rows (retention_rows d pid)"
  obtain x y where "row = (x, y)" by (metis surj_pair)
  then have row: "row \<in> set (retention_rows d pid)" "tg_status (snd (fst (snd row))) = TG_Downloaded"
    and sel: "fst (snd (snd row)) \<in> set selected"
    using assms(2) by (auto simp: candidate_rows_def)
  have mem: "snd (snd row) \<in> set items" using retention_rows_sub[OF row(1)] by (simp add: items_def)
  have same: "(fst (snd (snd row)), it) \<in> set items \<Longrightarrow> (fst (snd (snd row)), it) = snd (snd row)" for it
    using items_of_rows_distinct[of d pid] mem unfolding items_def[symmetric]
    by (metis eq_key_imp_eq_value prod.collapse)
  have "old_or_surplus policy today items (snd (snd row))"
    using selected_item_reason[OF assms(1) sel, folded items_def]
  proof (elim disjE exE conjE)
    fix n assume "rp_keep_latest policy = Some n" "fst (snd (snd row)) \<in> set (beyond_latest n items)"
    then show ?thesis
      using beyond_latest_newer[of items "fst (snd (snd row))" n] items_of_rows_distinct[of d pid] same
      unfolding items_def[symmetric] old_or_surplus_def by metis
  next
    fix days it assume "rp_max_age_days policy = Some days" "(fst (snd (snd row)), it) \<in> set items"
      "uploaded_before (today - days) (fst (snd (snd row)), it)"
    moreover from this same have "(fst (snd (snd row)), it) = snd (snd row)" by blast
    ultimately have "rp_max_age_days policy = Some days" "uploaded_before (today - days) (snd (snd row))" by simp_all
    then show ?thesis unfolding old_or_surplus_def uploaded_before_def
      by (cases "parse_upload_date (it_upload_date (snd (snd (snd row))))") auto
  qed
  then show ?thesis using row by (simp add: items_def)
qed

lemma row_ids_distinct:
  assumes "wf_table (db_artifacts d)"
  shows "distinct (map (fst \<circ> fst) (retention_rows d pid))"
proof -
  have "distinct (map (fst \<circ> fst) (List.map_filter (retention_row d pid) xs)) \<and>
      set (map (fst \<circ> fst) (List.map_filter (retention_row d pid) xs)) \<subseteq> set (map fst xs)"
    if "distinct (map fst xs)" for xs
    using that
  proof (induction xs)
    case (Cons x xs)
    show ?case
    proof (cases "retention_row d pid x")
      case None
      then show ?thesis using Cons by (auto simp: List.map_filter_simps)
    next
      case (Some row)
      then have "fst (fst row) = fst x" using retention_row_some[of d pid x] by (cases row) auto
      then show ?thesis using Some Cons by (auto simp: List.map_filter_simps)
    qed
  qed (simp add: List.map_filter_simps)
  then have "distinct (map (fst \<circ> fst) (List.map_filter (retention_row d pid) (db_artifacts d)))"
    using assms by (auto simp: wf_table_def ids_def)
  then show ?thesis unfolding retention_rows_def by (simp add: distinct_map)
qed

text \<open>
  Claim C17: a plan that may be executed is bounded and checked. It has at most the allowed number of candidates and at
  most half of the artifacts of the playlist; each candidate is a different artifact of a downloaded Target of the
  playlist whose item is older than the maximal age or has the number of newer items that are to be kept, and its
  file was inspected, has a strong identity, which the candidate carries, and the recorded size.
\<close>

theorem retention_plan_guarded:
  assumes "wf_table (db_artifacts d)"
    and "build_retention_plan digest (Some adapters) w d pid policy max_delete_per_run today = Inr plan"
    and "deletable plan"
  shows "rl_playlist_id plan = pid \<and> rl_policy plan = policy \<and> rp_enabled policy \<and>
    int (length (rl_candidates plan)) \<le> max_delete_per_run \<and>
    2 * length (rl_candidates plan) \<le> rl_total_artifacts plan \<and>
    rl_total_artifacts plan = length (retention_rows d pid) \<and>
    distinct (map rc_artifact_id (rl_candidates plan)) \<and>
    (\<forall>c \<in> set (rl_candidates plan). \<exists>row \<in> set (retention_rows d pid).
       verified_candidate digest adapters w d row c \<and> tg_status (snd (fst (snd row))) = TG_Downloaded \<and>
       old_or_surplus policy today (items_of_rows (retention_rows d pid)) (snd (snd row)))"
proof -
  define rows where "rows = retention_rows d pid"
  have enabled: "rp_enabled policy" using assms(2,3)
    by (auto simp: build_retention_plan_def deletable_def Let_def split: if_splits)
  obtain selected where sel: "selected_item_ids policy today (items_of_rows rows) = Inr selected"
    using assms(2) enabled by (cases "selected_item_ids policy today (items_of_rows rows)")
      (auto simp: build_retention_plan_def Let_def rows_def split: if_splits)
  obtain cs bs where cc: "collect_candidates digest (Some adapters) w d (candidate_rows selected rows) = Inr (cs, bs)"
    using assms(2) enabled sel by (cases "collect_candidates digest (Some adapters) w d (candidate_rows selected rows)")
      (auto simp: build_retention_plan_def Let_def rows_def split: if_splits)
  have plan: "plan = \<lparr>rl_playlist_id = pid, rl_policy = policy, rl_candidates = cs, rl_total_artifacts = length rows,
      rl_blocked_reasons = bs @ guard_reasons (length cs) (length rows) max_delete_per_run\<rparr>"
    using assms(2) enabled sel cc by (auto simp: build_retention_plan_def Let_def rows_def split: if_splits)
  have none: "bs = []" "guard_reasons (length cs) (length rows) max_delete_per_run = []"
    using assms(3) by (simp_all add: deletable_def plan)
  have verified: "list_all2 (verified_candidate digest adapters w d) (candidate_rows selected rows) cs"
    using collect_candidates_verified cc none(1) by simp
  have length: "length cs \<le> length rows"
    using list_all2_lengthD[OF verified] by (metis candidate_rows_def length_filter_le)
  have guards: "int (length cs) \<le> max_delete_per_run" "2 * length cs \<le> length rows"
    using none(2) length by (auto simp: guard_reasons_def split: if_splits)
  have "map rc_artifact_id cs = map (fst \<circ> fst) (candidate_rows selected rows)"
    using verified by (induction rule: list_all2_induct)
      (auto simp: verified_candidate_def make_candidate_def split: prod.splits)
  moreover have "distinct (map (fst \<circ> fst) (candidate_rows selected rows))"
    using row_ids_distinct[OF assms(1), of pid] unfolding candidate_rows_def rows_def by (rule distinct_map_filter)
  ultimately have "distinct (map rc_artifact_id cs)" by simp
  moreover have "\<exists>row \<in> set rows. verified_candidate digest adapters w d row c \<and> tg_status (snd (fst (snd row))) = TG_Downloaded \<and>
       old_or_surplus policy today (items_of_rows rows) (snd (snd row))" if mem: "c \<in> set cs" for c
  proof -
    obtain j where j: "j < length cs" "c = cs ! j" using mem by (auto simp: in_set_conv_nth)
    define row where "row = candidate_rows selected rows ! j"
    have "verified_candidate digest adapters w d row c"
      unfolding row_def j(2) using verified j(1) by (rule list_all2_nthD2)
    moreover have "row \<in> set (candidate_rows selected rows)"
      unfolding row_def using j(1) list_all2_lengthD[OF verified] by simp
    ultimately show ?thesis using selected_old_or_surplus[of policy today d pid selected row] sel unfolding rows_def by blast
  qed
  ultimately show ?thesis using enabled guards by (simp add: plan rows_def)
qed

section \<open>A confirmation belongs to its plan\<close>

definition valid_policy :: "retention_policy \<Rightarrow> bool" where
  "valid_policy p \<longleftrightarrow> (\<forall>n. rp_keep_latest p = Some n \<longrightarrow> 0 < n) \<and> (\<forall>n. rp_max_age_days p = Some n \<longrightarrow> 0 < n) \<and>
     (rp_enabled p \<longrightarrow> rp_keep_latest p \<noteq> None \<or> rp_max_age_days p \<noteq> None)"

lemma nat_str_no_space: "c \<in> set (nat_str n) \<Longrightarrow> \<not> is_space c"
  using nat_str_digits[of c n] by (auto simp: is_digit_def is_space_def)

lemma strip_no_space: "(\<And>c. c \<in> set s \<Longrightarrow> \<not> is_space c) \<Longrightarrow> strip s = s"
proof -
  assume none: "\<And>c. c \<in> set s \<Longrightarrow> \<not> is_space c"
  then have "dropWhile is_space s = s" by (cases s) auto
  moreover have "dropWhile is_space (rev s) = rev s" using none by (cases s rule: rev_cases) auto
  ultimately show ?thesis by (simp add: strip_def lstrip_where_def rstrip_where_def)
qed

lemma optional_positive_int_or_null: "(\<And>n. v = Some n \<Longrightarrow> 0 < n) \<Longrightarrow> optional_positive_int (int_or_null v) = Inr v"
proof (cases v)
  case (Some n)
  moreover assume "\<And>n. v = Some n \<Longrightarrow> 0 < n"
  ultimately have "0 < n" by simp
  moreover have "strip (nat_str (nat n)) = nat_str (nat n)" by (rule strip_no_space) (rule nat_str_no_space)
  ultimately show ?thesis by (simp add: Some int_or_null_def optional_positive_int_def positive_text_def int_str_def)
qed (simp add: int_or_null_def optional_positive_int_def)

lemma policy_roundtrip: "valid_policy p \<Longrightarrow> policy_from_json (policy_to_json p) = Inr p"
  using optional_positive_int_or_null[of "rp_keep_latest p"] optional_positive_int_or_null[of "rp_max_age_days p"]
  by (auto simp: policy_from_json_def policy_to_json_def jget_def valid_policy_def)

lemma int_or_null_inject [simp]: "int_or_null a = int_or_null b \<longleftrightarrow> a = b"
  by (cases a; cases b) (simp_all add: int_or_null_def)

lemma str_or_null_inject [simp]: "str_or_null a = str_or_null b \<longleftrightarrow> a = b"
  by (cases a; cases b) (simp_all add: str_or_null_def)

lemma hashes_inject: "map (\<lambda>(k, v). (k, JStr v)) xs = map (\<lambda>(k, v). (k, JStr v)) ys \<longleftrightarrow> xs = ys"
  by (rule inj_map_eq_map) (auto intro!: injI)

lemma remote_file_json_inject [simp]: "remote_file_json f = remote_file_json g \<longleftrightarrow> f = g"
  by (cases f; cases g) (auto simp: remote_file_json_def hashes_inject)

lemma candidate_json_inject:
  assumes "inj iso_text"
  shows "candidate_json iso_text c = candidate_json iso_text c' \<longleftrightarrow> c = c'"
proof -
  have iso: "iso_text a = iso_text b \<longleftrightarrow> a = b" for a b using assms by (auto dest: injD)
  have id: "(case x of None \<Rightarrow> JNull | Some f \<Rightarrow> remote_file_json f) = (case y of None \<Rightarrow> JNull | Some f \<Rightarrow> remote_file_json f)
      \<longleftrightarrow> x = y" for x y
    by (cases x; cases y) (simp_all, simp_all add: remote_file_json_def)
  show ?thesis by (cases c; cases c') (auto simp: candidate_json_def iso id)
qed

lemma plan_json_same:
  assumes "inj iso_text"
  shows "plan_json iso_text p = plan_json iso_text p' \<longleftrightarrow>
    rl_playlist_id p = rl_playlist_id p' \<and> policy_to_json (rl_policy p) = policy_to_json (rl_policy p') \<and>
    rl_candidates p = rl_candidates p' \<and> rl_total_artifacts p = rl_total_artifacts p'"
proof -
  have "inj (candidate_json iso_text)" using candidate_json_inject[OF assms] by (auto intro!: injI)
  then show ?thesis by (auto simp: plan_json_def inj_map_eq_map)
qed

lemma policy_to_json_inject: "policy_to_json p = policy_to_json q \<longleftrightarrow> p = q"
  by (cases p; cases q) (auto simp: policy_to_json_def)

text \<open>
  The confirmation issued for a plan is accepted for its purpose and within its time to live, and for nothing else;
  and it lets a plan through exactly when that plan has the same playlist, policy, candidates, down to the
  identity of every file, and number of artifacts, provided that the digest tells the two plans apart.
\<close>

theorem confirmation_binds_plan:
  assumes "valid_policy (rl_policy p)" "purpose \<in> {''enable'', ''execute''}" "0 < ttl_sec"
    and signed: "loads (dumps (JObj (confirmation_payload digest iso_text issued p purpose))) =
      Some (JObj (confirmation_payload digest iso_text issued p purpose))"
    and stamp: "read_stamp (JFloat (of_int issued / 1000000)) = Inr issued"
    and iso: "inj iso_text"
    and digest: "digest (plan_json iso_text p) = digest (plan_json iso_text p') \<Longrightarrow> plan_json iso_text p = plan_json iso_text p'"
  shows "\<exists>token c. issue_confirmation dumps digest iso_text issued p purpose = Inr token \<and>
    (\<forall>now purpose'. load_confirmation env loads read_stamp now token purpose' ttl_sec =
       (if issued \<le> now \<and> now - issued \<le> ttl_sec * 1000000 \<and> purpose' = purpose then Inr c
        else Inl RetentionConfirmationError)) \<and>
    (verify_plan digest iso_text c p' = None \<longleftrightarrow>
       rl_playlist_id p' = rl_playlist_id p \<and> rl_policy p' = rl_policy p \<and> rl_candidates p' = rl_candidates p \<and>
       rl_total_artifacts p' = rl_total_artifacts p)"
proof -
  define d where "d = confirmation_payload digest iso_text issued p purpose"
  define c where "c = \<lparr>cf_playlist_id = rl_playlist_id p, cf_purpose = purpose, cf_policy = rl_policy p,
    cf_fingerprint = plan_fingerprint digest iso_text p, cf_issued_at = issued\<rparr>"
  have issue: "issue_confirmation dumps digest iso_text issued p purpose = Inr (dumps (JObj d))"
    using assms(2) by (auto simp: issue_confirmation_def d_def)
  have fields: "token_fields env read_stamp d = Inr c"
    using policy_roundtrip[OF assms(1)]
    by (simp add: token_fields_def d_def confirmation_payload_def c_def stamp token_int_def py_str_def)
  have load: "load_confirmation env loads read_stamp now (dumps (JObj d)) purpose' ttl_sec =
      (if issued \<le> now \<and> now - issued \<le> ttl_sec * 1000000 \<and> purpose' = purpose then Inr c
       else Inl RetentionConfirmationError)" for now purpose'
  proof -
    have "load_confirmation env loads read_stamp now (dumps (JObj d)) purpose' ttl_sec =
      (if now < cf_issued_at c \<or> ttl_sec * 1000000 < now - cf_issued_at c then Inl RetentionConfirmationError
       else if cf_purpose c \<noteq> purpose' then Inl RetentionConfirmationError else Inr c)"
      using assms(3) by (simp add: load_confirmation_def signed[folded d_def] fields)
    moreover have "cf_issued_at c = issued" "cf_purpose c = purpose" by (simp_all add: c_def)
    ultimately show ?thesis by (simp only: not_less split: if_split) auto
  qed
  have same: "plan_json iso_text p = plan_json iso_text p' \<longleftrightarrow>
      rl_playlist_id p = rl_playlist_id p' \<and> rl_policy p = rl_policy p' \<and> rl_candidates p = rl_candidates p' \<and>
      rl_total_artifacts p = rl_total_artifacts p'"
    unfolding plan_json_same[OF iso] policy_to_json_inject by (rule refl)
  have "verify_plan digest iso_text c p' = None \<longleftrightarrow> rl_playlist_id p = rl_playlist_id p' \<and> rl_policy p = rl_policy p' \<and>
      digest (plan_json iso_text p) = digest (plan_json iso_text p')"
    by (simp add: verify_plan_def c_def plan_fingerprint_def)
  then have verify: "verify_plan digest iso_text c p' = None \<longleftrightarrow>
      rl_playlist_id p' = rl_playlist_id p \<and> rl_policy p' = rl_policy p \<and> rl_candidates p' = rl_candidates p \<and>
      rl_total_artifacts p' = rl_total_artifacts p"
    using digest same by metis
  show ?thesis
    by (rule exI[of _ "dumps (JObj d)"], rule exI[of _ c]) (intro conjI allI, rule issue, rule load, rule verify)
qed

section \<open>A concrete retention\<close>

text \<open>Two downloaded items, of which the older one is surplus.\<close>

definition rw_item :: "string \<Rightarrow> item" where
  "rw_item date = iw_item\<lparr>it_upload_date := Some date\<rparr>"

definition rw_target :: "int \<Rightarrow> target" where
  "rw_target i = (new_target i 1 0)\<lparr>tg_status := TG_Downloaded\<rparr>"

definition rw_artifact :: "int \<Rightarrow> artifact" where
  "rw_artifact i = iw_artifact\<lparr>ar_target_id := i, ar_filesize := Some 3, ar_missing_since := None\<rparr>"

definition rw_db :: db where
  "rw_db = iw_db\<lparr>db_items := [(1, rw_item ''20200101''), (2, rw_item ''20210101'')],
     db_targets := [(1, rw_target 1), (2, rw_target 2)],
     db_artifacts := [(1, rw_artifact 1), (2, rw_artifact 2)]\<rparr>"

definition rw_file :: remote_file where
  "rw_file = \<lparr>rf_relative_path = ''a [x1].mp4'', rf_size = Some 3, rf_modified_at = None, rf_hashes = [],
     rf_file_id = Some ''7''\<rparr>"

definition rw_adapters :: "int \<Rightarrow> exn + unit storage_adapter" where
  "rw_adapters sid = Inr (iw_adapter\<lparr>ad_inspect_file := (\<lambda>_ _. Inr rw_file),
     ad_delete_file := (\<lambda>_ _ _ w. (Inr (), w))\<rparr>)"

definition rw_policy :: retention_policy where
  "rw_policy = \<lparr>rp_enabled = True, rp_keep_latest = Some 1, rp_max_age_days = None\<rparr>"

definition rw_digest :: "json \<Rightarrow> string" where
  "rw_digest v = (case v of JObj [(k, JNull), (k', JStr s)] \<Rightarrow> s | _ \<Rightarrow> ''plan'')"

definition rw_candidate :: retention_candidate where
  "rw_candidate = \<lparr>rc_artifact_id = 1, rc_target_id = 1, rc_storage_id = 1, rc_relative_path = ''a [x1].mp4'',
     rc_filesize = Some 3, rc_item_date = Some ''20200101'', rc_artifact_updated_at = 0, rc_target_updated_at = 0,
     rc_storage_updated_at = 0, rc_storage_config_fingerprint = ''local'', rc_file_identity = Some rw_file\<rparr>"

definition rw_plan :: retention_plan where
  "rw_plan = \<lparr>rl_playlist_id = 1, rl_policy = rw_policy, rl_candidates = [rw_candidate], rl_total_artifacts = 2,
     rl_blocked_reasons = []\<rparr>"

definition rw_env :: "unit retention_env" where
  "rw_env = \<lparr>re_adapters = rw_adapters, re_digest = rw_digest, re_iso = int_str, re_now = 9, re_hex = (\<lambda>_. ''q''),
     re_open_fails = False, re_write_fails = (\<lambda>_. False), re_others = (\<lambda>_ d. d), re_others_at_end = (\<lambda>d. d),
     re_log_path = ''l''\<rparr>"

lemma rw_wf: "wf_table (db_artifacts rw_db)"
  by (simp add: rw_db_def wf_table_def ids_def)

lemma rw_build: "build_retention_plan rw_digest (Some rw_adapters) () rw_db 1 rw_policy 5 700000 = Inr rw_plan"
  by code_simp

lemma rw_deletable: "deletable rw_plan"
  by (simp add: deletable_def rw_plan_def rw_policy_def)

theorem retention_plan_guarded_witness:
  "int (length (rl_candidates rw_plan)) \<le> 5 \<and> 2 * length (rl_candidates rw_plan) \<le> rl_total_artifacts rw_plan \<and>
   (\<exists>row \<in> set (retention_rows rw_db 1). verified_candidate rw_digest rw_adapters () rw_db row rw_candidate)"
  using retention_plan_guarded[OF rw_wf rw_build rw_deletable] by (auto simp: rw_plan_def)

lemma rw_quiet: "quiet rw_env"
  by (simp add: quiet_def rw_env_def)

lemma rw_performed: "\<not> isl (fst (perform_retention rw_env rw_plan () rw_db))"
  by code_simp

lemma rw_audit: "length (rs_audit (fst (snd (perform_retention rw_env rw_plan () rw_db)))) = 2"
  by code_simp

theorem retention_deletes_as_confirmed_witness:
  "\<exists>result st events. perform_retention rw_env rw_plan () rw_db = (result, st, events) \<and>
     rs_audit st = full_audit rw_env 0 [rw_candidate] \<and> rs_world st = storage_after rw_env 0 [rw_candidate] ()"
proof -
  obtain result st events where run: "perform_retention rw_env rw_plan () rw_db = (result, st, events)" by (metis surj_pair)
  have ok: "\<not> isl result" using rw_performed by (simp add: run)
  have cs: "rl_candidates rw_plan = [rw_candidate]" by (simp add: rw_plan_def)
  have len: "length (full_audit rw_env 0 [rw_candidate]) = 2" by simp
  show ?thesis using retention_deletes_as_confirmed[OF run] ok len run unfolding cs Let_def by auto
qed


definition rw_shared :: retention_plan where
  "rw_shared = rw_plan\<lparr>rl_candidates := [rw_candidate, rw_candidate\<lparr>rc_artifact_id := 2\<rparr>]\<rparr>"


lemma int_str_inj: "inj int_str"
  by (rule injI) (simp add: int_str_inject)

definition rw_token :: "(string \<times> json) list" where
  "rw_token = confirmation_payload rw_digest int_str 0 rw_plan ''execute''"

theorem confirmation_binds_plan_witness:
  "\<exists>token c. issue_confirmation (\<lambda>_. ''t'') rw_digest int_str 0 rw_plan ''execute'' = Inr token \<and>
     load_confirmation sample_settings_env (\<lambda>_. Some (JObj rw_token)) (\<lambda>_. Inr 0) 5 token ''execute'' 60 = Inr c \<and>
     verify_plan rw_digest int_str c rw_plan = None"
proof -
  have "valid_policy (rl_policy rw_plan)" by (simp add: rw_plan_def rw_policy_def valid_policy_def)
  from confirmation_binds_plan[OF this, of "''execute''" 60 "\<lambda>_. Some (JObj rw_token)" "\<lambda>_. ''t''" rw_digest int_str 0
      "\<lambda>_. Inr 0" rw_plan sample_settings_env] int_str_inj
  show ?thesis unfolding rw_token_def by auto
qed

end
