(* ===== verification/Auth.thy ===== *)
theory Auth
  imports Models Text
begin

text \<open>
  The login of the web application, \<open>src/sluicery/web/auth.py\<close>, with its two repositories: one user with a lockout
  after failed logins, and sessions kept in the database behind a signed cookie. The hashing of passwords, the
  digest of a session token, the signature of the cookie and the random token are arguments; so are the three
  settings the code reads.
\<close>

section \<open>State\<close>

record user =
  us_username :: string
  us_password_hash :: string
  us_last_login_at :: "instant option"
  us_failed_login_attempts :: int
  us_locked_until :: "instant option"
  us_created_at :: instant
  us_updated_at :: instant

record auth_session =
  as_token_hash :: string
  as_user_id :: "int option"
  as_expires_at :: instant
  as_flash_json :: "(string \<times> string) list option"
  as_created_at :: instant

record auth_db =
  au_users :: "user table"
  au_sessions :: "auth_session table"

record password_hasher =
  ph_verify :: "string \<Rightarrow> string \<Rightarrow> bool"
  ph_needs_rehash :: "string \<Rightarrow> bool"
  ph_hash :: "string \<Rightarrow> string"

record auth_env =
  ae_hasher :: password_hasher
  ae_token_hash :: "string \<Rightarrow> string"
  ae_sign :: "string \<Rightarrow> string"
  ae_unsign :: "string \<Rightarrow> json option"
  ae_session_max_age_sec :: int
  ae_max_login_attempts :: int
  ae_lockout_sec :: int

definition seconds :: "int \<Rightarrow> int" where
  "seconds n = n * 1000000"

record session_identity =
  si_token :: string
  si_session_id :: int
  si_user_id :: "int option"
  si_username :: "string option"
  si_expires_at :: instant

record new_session =
  ns_token :: string
  ns_signed_cookie :: string
  ns_identity :: session_identity

section \<open>The repositories\<close>

definition get_single :: "user table \<Rightarrow> (int \<times> user) option" where
  "get_single users = (case users of [] \<Rightarrow> None | x # _ \<Rightarrow> Some x)"

definition create_single :: "user \<Rightarrow> user table \<Rightarrow> exn + user table" where
  "create_single u users = (if get_single users \<noteq> None then Inl RuntimeError else Inr (insert_row u users))"

definition get_by_token_hash :: "string \<Rightarrow> auth_session table \<Rightarrow> (int \<times> auth_session) option" where
  "get_by_token_hash h rows = List.find (\<lambda>(_, r). as_token_hash r = h) rows"

definition delete_by_token_hash :: "string \<Rightarrow> auth_session table \<Rightarrow> auth_session table" where
  "delete_by_token_hash h rows = delete_where (\<lambda>_ r. as_token_hash r = h) rows"

definition delete_expired :: "instant \<Rightarrow> auth_session table \<Rightarrow> auth_session table" where
  "delete_expired now rows = delete_where (\<lambda>_ r. as_expires_at r \<le> now) rows"

section \<open>Tokens\<close>

definition signer_loads :: "auth_env \<Rightarrow> string \<Rightarrow> string option" where
  "signer_loads env signed_token = (case ae_unsign env signed_token of Some (JStr s) \<Rightarrow> Some s | _ \<Rightarrow> None)"

text \<open>\<open>compare_digest\<close> of two texts raises \<open>TypeError\<close> unless both are ASCII; a token is ASCII.\<close>

definition is_ascii :: "string \<Rightarrow> bool" where
  "is_ascii s \<longleftrightarrow> list_all (\<lambda>c. code c < 128) s"

definition csrf_verify :: "(string \<Rightarrow> string) \<Rightarrow> string \<Rightarrow> string option \<Rightarrow> exn + bool" where
  "csrf_verify token_for session_token candidate =
     (case candidate of
        None \<Rightarrow> Inr False
      | Some s \<Rightarrow> if s = [] then Inr False else if \<not> is_ascii s then Inl TypeError
                  else Inr (token_for session_token = s))"

section \<open>Sessions\<close>

text \<open>A user id without a row violates the foreign key, which aborts the insertion.\<close>

definition create_session :: "auth_env \<Rightarrow> string \<Rightarrow> int option \<Rightarrow> instant \<Rightarrow> auth_db
    \<Rightarrow> (exn + new_session) \<times> auth_db" where
  "create_session env token user_id now d =
     (let kept = delete_expired now (au_sessions d); expires = now + seconds (ae_session_max_age_sec env);
          row = \<lparr>as_token_hash = ae_token_hash env token, as_user_id = user_id, as_expires_at = expires,
                 as_flash_json = None, as_created_at = now\<rparr>;
          user = (case user_id of None \<Rightarrow> None | Some i \<Rightarrow> tget (au_users d) i)
      in if user_id \<noteq> None \<and> user = None then (Inl RuntimeError, d\<lparr>au_sessions := kept\<rparr>)
         else (Inr \<lparr>ns_token = token, ns_signed_cookie = ae_sign env token,
                    ns_identity = \<lparr>si_token = token, si_session_id = fresh_id kept, si_user_id = user_id,
                      si_username = map_option us_username user, si_expires_at = expires\<rparr>\<rparr>,
               d\<lparr>au_sessions := insert_row row kept\<rparr>))"

definition delete_row :: "int \<Rightarrow> auth_db \<Rightarrow> auth_db" where
  "delete_row sid d = d\<lparr>au_sessions := delete_where (\<lambda>i _. i = sid) (au_sessions d)\<rparr>"

definition load_session :: "auth_env \<Rightarrow> string option \<Rightarrow> instant \<Rightarrow> auth_db \<Rightarrow> session_identity option \<times> auth_db" where
  "load_session env signed_cookie now d =
     (case signed_cookie of
        None \<Rightarrow> (None, d)
      | Some cookie \<Rightarrow>
          if cookie = [] then (None, d)
          else (case signer_loads env cookie of
                  None \<Rightarrow> (None, d)
                | Some token \<Rightarrow>
                    (case get_by_token_hash (ae_token_hash env token) (au_sessions d) of
                       None \<Rightarrow> (None, d)
                     | Some (sid, row) \<Rightarrow>
                         if as_expires_at row \<le> now then (None, delete_row sid d)
                         else (let user = (case as_user_id row of None \<Rightarrow> None | Some i \<Rightarrow> tget (au_users d) i)
                               in if as_user_id row \<noteq> None \<and> user = None then (None, delete_row sid d)
                                  else (Some \<lparr>si_token = token, si_session_id = sid, si_user_id = as_user_id row,
                                              si_username = map_option us_username user,
                                              si_expires_at = as_expires_at row\<rparr>, d)))))"

definition delete_session :: "auth_env \<Rightarrow> string \<Rightarrow> auth_db \<Rightarrow> auth_db" where
  "delete_session env token d = d\<lparr>au_sessions := delete_by_token_hash (ae_token_hash env token) (au_sessions d)\<rparr>"

section \<open>Logging in\<close>

definition is_locked :: "user \<Rightarrow> instant \<Rightarrow> bool" where
  "is_locked u now \<longleftrightarrow> (case us_locked_until u of None \<Rightarrow> False | Some t \<Rightarrow> now < t)"

definition forget_lock :: "user \<Rightarrow> user" where
  "forget_lock u = (if us_locked_until u = None then u else u\<lparr>us_locked_until := None, us_failed_login_attempts := 0\<rparr>)"

definition credentials_ok :: "auth_env \<Rightarrow> user \<Rightarrow> string \<Rightarrow> string \<Rightarrow> bool" where
  "credentials_ok env u username password \<longleftrightarrow>
     username = us_username u \<and> ph_verify (ae_hasher env) (us_password_hash u) password"

definition failed_row :: "auth_env \<Rightarrow> instant \<Rightarrow> user \<Rightarrow> user" where
  "failed_row env now u =
     (let n = us_failed_login_attempts u + 1
      in u\<lparr>us_failed_login_attempts := n,
           us_locked_until := if ae_max_login_attempts env \<le> n then Some (now + seconds (ae_lockout_sec env))
                              else us_locked_until u,
           us_updated_at := now\<rparr>)"

definition logged_in_row :: "auth_env \<Rightarrow> instant \<Rightarrow> string \<Rightarrow> user \<Rightarrow> user" where
  "logged_in_row env now password u =
     u\<lparr>us_password_hash := if ph_needs_rehash (ae_hasher env) (us_password_hash u)
         then ph_hash (ae_hasher env) password else us_password_hash u,
       us_failed_login_attempts := 0, us_locked_until := None, us_last_login_at := Some now, us_updated_at := now\<rparr>"

definition put_user :: "int \<Rightarrow> user \<Rightarrow> auth_db \<Rightarrow> auth_db" where
  "put_user i u d = d\<lparr>au_users := set_row i (\<lambda>_. u) (au_users d)\<rparr>"

text \<open>\<open>authenticate\<close>: the new session, or no login; \<open>new_token\<close> is the token drawn for the new session.\<close>

definition authenticate :: "auth_env \<Rightarrow> string \<Rightarrow> string \<Rightarrow> string \<Rightarrow> string \<Rightarrow> instant \<Rightarrow> auth_db
    \<Rightarrow> (exn + new_session option) \<times> auth_db" where
  "authenticate env current_token username password new_token now d =
     (case get_single (au_users d) of
        None \<Rightarrow> (Inr None, d)
      | Some (i, u) \<Rightarrow>
          if is_locked u now then (Inr None, d)
          else (let u1 = forget_lock u
                in if \<not> credentials_ok env u1 username password
                   then (Inr None, put_user i (failed_row env now u1) d)
                   else (case create_session env new_token (Some i) now
                                (delete_session env current_token (put_user i (logged_in_row env now password u1) d)) of
                           (Inl e, d') \<Rightarrow> (Inl e, d')
                         | (Inr s, d') \<Rightarrow> (Inr (Some s), d'))))"

definition change_password :: "auth_env \<Rightarrow> int \<Rightarrow> string \<Rightarrow> string \<Rightarrow> instant \<Rightarrow> auth_db \<Rightarrow> bool \<times> auth_db" where
  "change_password env user_id current_password new_password now d =
     (case tget (au_users d) user_id of
        None \<Rightarrow> (False, d)
      | Some u \<Rightarrow>
          if \<not> ph_verify (ae_hasher env) (us_password_hash u) current_password then (False, d)
          else (True, (put_user user_id
                 (u\<lparr>us_password_hash := ph_hash (ae_hasher env) new_password, us_failed_login_attempts := 0,
                    us_locked_until := None, us_updated_at := now\<rparr>) d)
                 \<lparr>au_sessions := delete_where (\<lambda>_ r. as_user_id r = Some user_id) (au_sessions d)\<rparr>))"

section \<open>Messages kept for the next page\<close>

definition session_row :: "auth_env \<Rightarrow> session_identity \<Rightarrow> auth_db \<Rightarrow> auth_session option" where
  "session_row env identity d =
     (case tget (au_sessions d) (si_session_id identity) of
        None \<Rightarrow> None
      | Some r \<Rightarrow> if as_token_hash r = ae_token_hash env (si_token identity) then Some r else None)"

definition flashes :: "auth_session \<Rightarrow> (string \<times> string) list" where
  "flashes r = (case as_flash_json r of None \<Rightarrow> [] | Some ms \<Rightarrow> ms)"

definition put_flashes :: "session_identity \<Rightarrow> (string \<times> string) list option \<Rightarrow> auth_db \<Rightarrow> auth_db" where
  "put_flashes identity ms d =
     d\<lparr>au_sessions := set_row (si_session_id identity) (\<lambda>r. r\<lparr>as_flash_json := ms\<rparr>) (au_sessions d)\<rparr>"

definition add_flash :: "auth_env \<Rightarrow> session_identity \<Rightarrow> string \<Rightarrow> string \<Rightarrow> auth_db \<Rightarrow> auth_db" where
  "add_flash env identity level message d =
     (let safe_level = (if level \<in> {''success'', ''info'', ''warning'', ''error''} then level else ''info'')
      in case session_row env identity d of
           None \<Rightarrow> d
         | Some r \<Rightarrow> put_flashes identity (Some (last_n 20 (flashes r @ [(safe_level, message)]))) d)"

definition pop_flashes :: "auth_env \<Rightarrow> session_identity \<Rightarrow> auth_db \<Rightarrow> (string \<times> string) list \<times> auth_db" where
  "pop_flashes env identity d =
     (case session_row env identity d of
        None \<Rightarrow> ([], d)
      | Some r \<Rightarrow> if flashes r = [] then ([], d) else (flashes r, put_flashes identity None d))"

text \<open>The first start: the password that was generated, if the administrator is created without one.\<close>

definition ensure_initial_user :: "auth_env \<Rightarrow> string \<Rightarrow> string option \<Rightarrow> string \<Rightarrow> instant \<Rightarrow> auth_db
    \<Rightarrow> (bool \<times> string option) \<times> auth_db" where
  "ensure_initial_user env admin_username admin_password drawn now d =
     (if get_single (au_users d) \<noteq> None then ((False, None), d)
      else (let given = (case admin_password of None \<Rightarrow> False | Some p \<Rightarrow> p \<noteq> []);
                password = (if given then the admin_password else drawn)
            in ((True, if given then None else Some drawn),
                d\<lparr>au_users := insert_row
                  \<lparr>us_username = admin_username, us_password_hash = ph_hash (ae_hasher env) password,
                   us_last_login_at = None, us_failed_login_attempts = 0, us_locked_until = None,
                   us_created_at = now, us_updated_at = now\<rparr> (au_users d)\<rparr>)))"

end
