(* ===== verification/Auth_Theorems.thy ===== *)
theory Auth_Theorems
  imports Auth
begin

text \<open>
  What the login guarantees: how many passwords can be tried in a time shorter than the lockout, what a login
  leaves of the sessions, and that a change of the password ends every session of the user.
\<close>

section \<open>Guessing passwords\<close>

type_synonym attempt = "instant \<times> string \<times> string"

text \<open>A guess by somebody who has no session: no token is given up, and the drawn token plays no role.\<close>

definition guess :: "auth_env \<Rightarrow> attempt \<Rightarrow> auth_db \<Rightarrow> auth_db" where
  "guess env a d = (case a of (now, username, password) \<Rightarrow> snd (authenticate env [] username password [] now d))"

text \<open>The guesses whose password is compared, that is those that do not meet the lock.\<close>

fun compared_guesses :: "auth_env \<Rightarrow> attempt list \<Rightarrow> auth_db \<Rightarrow> nat" where
  "compared_guesses env [] d = 0"
| "compared_guesses env (a # as) d =
     (case get_single (au_users d) of
        None \<Rightarrow> 0
      | Some (i, u) \<Rightarrow> (if is_locked u (fst a) then 0 else 1) + compared_guesses env as (guess env a d))"

definition wrong_guess :: "auth_env \<Rightarrow> user \<Rightarrow> attempt \<Rightarrow> bool" where
  "wrong_guess env u a \<longleftrightarrow> \<not> credentials_ok env u (fst (snd a)) (snd (snd a))"

definition guessed_row :: "auth_env \<Rightarrow> instant \<Rightarrow> user \<Rightarrow> user" where
  "guessed_row env now u = (if is_locked u now then u else failed_row env now (forget_lock u))"

lemma credentials_cong:
  "us_username u' = us_username u \<Longrightarrow> us_password_hash u' = us_password_hash u \<Longrightarrow>
     credentials_ok env u' n p = credentials_ok env u n p"
  by (simp add: credentials_ok_def)

lemma guessed_row_keeps [simp]:
  "us_username (guessed_row env now u) = us_username u"
  "us_password_hash (guessed_row env now u) = us_password_hash u"
  by (simp_all add: guessed_row_def failed_row_def forget_lock_def Let_def)

lemma forget_lock_credentials [simp]: "credentials_ok env (forget_lock u) n p = credentials_ok env u n p"
  by (rule credentials_cong) (simp_all add: forget_lock_def)

lemma guess_wrong:
  assumes "au_users d = (i, u) # rest" "wrong_guess env u (now, n, p)"
  shows "\<exists>rest'. au_users (guess env (now, n, p) d) = (i, guessed_row env now u) # rest'"
  using assms
  by (auto simp: guess_def authenticate_def get_single_def wrong_guess_def guessed_row_def Let_def put_user_def
      set_row_def update_where_def)

definition guess_budget :: "auth_env \<Rightarrow> user \<Rightarrow> int" where
  "guess_budget env u =
     (if us_locked_until u = None then max 1 (ae_max_login_attempts env - us_failed_login_attempts u)
      else max 1 (ae_max_login_attempts env))"

text \<open>Once a lock reaches past the end of the time considered, no password is compared any more.\<close>

lemma locked_out:
  assumes "au_users d = (i, u) # rest" "us_locked_until u = Some until" "\<forall>a \<in> set as. fst a < until"
    "\<forall>a \<in> set as. wrong_guess env u a"
  shows "compared_guesses env as d = 0"
  using assms
proof (induction as arbitrary: d rest)
  case (Cons a as)
  obtain now n p where a: "a = (now, n, p)" by (cases a)
  have locked: "is_locked u now" using Cons.prems(2,3) a by (simp add: is_locked_def)
  have "wrong_guess env u (now, n, p)" using Cons.prems(4) a by simp
  from guess_wrong[OF Cons.prems(1) this] obtain rest' where "au_users (guess env a d) = (i, u) # rest'"
    using locked by (auto simp: a guessed_row_def)
  from Cons.IH[OF this Cons.prems(2)] Cons.prems(3,4) have "compared_guesses env as (guess env a d) = 0" by simp
  then show ?case using Cons.prems(1) locked by (simp add: get_single_def a)
qed simp

lemma compared_bounded:
  assumes "au_users d = (i, u) # rest" "0 \<le> us_failed_login_attempts u"
    "\<forall>a \<in> set as. start \<le> fst a \<and> fst a < start + seconds (ae_lockout_sec env)" "\<forall>a \<in> set as. wrong_guess env u a"
  shows "int (compared_guesses env as d) \<le> guess_budget env u"
  using assms
proof (induction as arbitrary: d u rest)
  case Nil
  then show ?case by (auto simp: guess_budget_def max_def)
next
  case (Cons a as)
  obtain now n p where a: "a = (now, n, p)" by (cases a)
  have wrong: "wrong_guess env u (now, n, p)" using Cons.prems(4) a by simp
  obtain rest' where row: "au_users (guess env a d) = (i, guessed_row env now u) # rest'"
    using guess_wrong[OF Cons.prems(1) wrong] a by auto
  have later: "\<forall>x \<in> set as. wrong_guess env (guessed_row env now u) x"
    using Cons.prems(4) credentials_cong[of "guessed_row env now u" u env] by (simp add: wrong_guess_def)
  have times: "\<forall>x \<in> set as. start \<le> fst x \<and> fst x < start + seconds (ae_lockout_sec env)" "start \<le> now"
    using Cons.prems(3) a by auto
  show ?case
  proof (cases "is_locked u now")
    case True
    then have same: "guessed_row env now u = u" by (simp add: guessed_row_def)
    have "int (compared_guesses env as (guess env a d)) \<le> guess_budget env u"
      using Cons.IH[OF row[unfolded same] Cons.prems(2) times(1)] later same by simp
    then show ?thesis using True Cons.prems(1) by (simp add: get_single_def a)
  next
    case False
    define v where "v = forget_lock u"
    have v: "us_locked_until v = None" "0 \<le> us_failed_login_attempts v"
      "guess_budget env u = max 1 (ae_max_login_attempts env - us_failed_login_attempts v)"
      using Cons.prems(2) by (auto simp: v_def forget_lock_def guess_budget_def)
    have u': "guessed_row env now u = failed_row env now v" using False by (simp add: guessed_row_def v_def)
    have here: "compared_guesses env (a # as) d = 1 + compared_guesses env as (guess env a d)"
      using False Cons.prems(1) by (simp add: get_single_def a)
    show ?thesis
    proof (cases "ae_max_login_attempts env \<le> us_failed_login_attempts v + 1")
      case True
      then have "us_locked_until (guessed_row env now u) = Some (now + seconds (ae_lockout_sec env))"
        by (simp add: u' failed_row_def Let_def)
      moreover have "\<forall>x \<in> set as. fst x < now + seconds (ae_lockout_sec env)" using times by fastforce
      ultimately have "compared_guesses env as (guess env a d) = 0" by (rule locked_out[OF row _ _ later])
      then show ?thesis using here v by simp
    next
      case more: False
      then have fields: "us_locked_until (guessed_row env now u) = None"
        "us_failed_login_attempts (guessed_row env now u) = us_failed_login_attempts v + 1"
        using v by (simp_all add: u' failed_row_def Let_def)
      have "int (compared_guesses env as (guess env a d)) \<le> guess_budget env (guessed_row env now u)"
        using v(2) fields(2) by (intro Cons.IH[OF row _ times(1) later]) simp
      then show ?thesis using here v(3) fields more by (simp add: guess_budget_def)
    qed
  qed
qed


definition sample_auth_env :: auth_env where
  "sample_auth_env = \<lparr>ae_hasher = \<lparr>ph_verify = (\<lambda>h p. h = p), ph_needs_rehash = (\<lambda>_. False), ph_hash = (\<lambda>p. p)\<rparr>,
     ae_token_hash = (\<lambda>t. t), ae_sign = (\<lambda>t. t), ae_unsign = (\<lambda>t. Some (JStr t)), ae_session_max_age_sec = 60,
     ae_max_login_attempts = 2, ae_lockout_sec = 10\<rparr>"

definition sample_user :: user where
  "sample_user = \<lparr>us_username = ''admin'', us_password_hash = ''p'', us_last_login_at = None,
     us_failed_login_attempts = 0, us_locked_until = None, us_created_at = 0, us_updated_at = 0\<rparr>"

definition sample_auth_db :: auth_db where
  "sample_auth_db = \<lparr>au_users = [(1, sample_user)],
     au_sessions = [(1, \<lparr>as_token_hash = ''old'', as_user_id = None, as_expires_at = 100, as_flash_json = None,
       as_created_at = 0\<rparr>)]\<rparr>"


section \<open>Sessions\<close>

lemma find_deleted: "h \<noteq> h' \<Longrightarrow> get_by_token_hash h (delete_by_token_hash h' rows) = get_by_token_hash h rows"
  by (induction rows) (auto simp: get_by_token_hash_def delete_by_token_hash_def delete_where_def)

lemma find_gone: "get_by_token_hash h (delete_by_token_hash h rows) = None"
  by (auto simp: get_by_token_hash_def delete_by_token_hash_def delete_where_def find_None_iff)

lemma find_unexpired:
  "get_by_token_hash h rows = None \<Longrightarrow> get_by_token_hash h (delete_expired now rows) = None"
  by (auto simp: get_by_token_hash_def delete_expired_def delete_where_def find_None_iff)

lemma find_snoc: "List.find p xs = None \<Longrightarrow> List.find p (xs @ [y]) = (if p y then Some y else None)"
  by (induction xs) (auto split: if_splits)

lemma find_insert:
  "get_by_token_hash h rows = None \<Longrightarrow>
     get_by_token_hash h (insert_row r rows) = (if as_token_hash r = h then Some (fresh_id rows, r) else None)"
  by (simp add: get_by_token_hash_def insert_row_def find_snoc)

lemma load_by_row:
  assumes "ae_unsign env cookie = Some (JStr token)" "cookie \<noteq> []"
  shows "load_session env (Some cookie) now d =
    (case get_by_token_hash (ae_token_hash env token) (au_sessions d) of
       None \<Rightarrow> (None, d)
     | Some (sid, row) \<Rightarrow>
         if as_expires_at row \<le> now then (None, delete_row sid d)
         else (let user = (case as_user_id row of None \<Rightarrow> None | Some i \<Rightarrow> tget (au_users d) i)
               in if as_user_id row \<noteq> None \<and> user = None then (None, delete_row sid d)
                  else (Some \<lparr>si_token = token, si_session_id = sid, si_user_id = as_user_id row,
                              si_username = map_option us_username user, si_expires_at = as_expires_at row\<rparr>, d)))"
  using assms by (simp add: load_session_def signer_loads_def)

lemma tget_head: "tget ((i, u) # rest) i = Some u"
  by (simp add: tget_def)

lemma put_user_head: "au_users d = (i, u) # rest \<Longrightarrow> tget (au_users (put_user i v d)) i = Some v"
  by (simp add: put_user_def tget_head)

text \<open>
  Claim C21: a login succeeds exactly for an unlocked user with the right name and password, and then replaces the session: the
  new cookie is the user's until it expires and not a moment longer, and the former session's cookie is worth
  nothing any more. A login that is refused changes no session. (The token drawn is new, and the digests of
  both tokens differ.)
\<close>

theorem login_replaces_session:
  assumes "au_users d = (i, u) # rest"
    and new: "get_by_token_hash (ae_token_hash env token) (au_sessions d) = None"
    and hashes: "ae_token_hash env token \<noteq> ae_token_hash env old"
    and signed: "ae_unsign env (ae_sign env token) = Some (JStr token)" "ae_sign env token \<noteq> []"
    and signed_old: "ae_unsign env old_cookie = Some (JStr old)"
    and "authenticate env old username password token now d = (result, d')"
  shows "(\<not> is_locked u now \<and> credentials_ok env u username password \<longrightarrow>
      (\<exists>s. result = Inr (Some s) \<and> ns_signed_cookie s = ae_sign env token \<and>
        fst (load_session env (Some old_cookie) later d') = None \<and>
        (case fst (load_session env (Some (ae_sign env token)) later d') of
           None \<Rightarrow> now + seconds (ae_session_max_age_sec env) \<le> later
         | Some identity \<Rightarrow> later < now + seconds (ae_session_max_age_sec env) \<and> si_user_id identity = Some i \<and>
             si_username identity = Some (us_username u)))) \<and>
    (\<not> (\<not> is_locked u now \<and> credentials_ok env u username password) \<longrightarrow>
      result = Inr None \<and> au_sessions d' = au_sessions d)"
proof (cases "\<not> is_locked u now \<and> credentials_ok env u username password")
  case False
  have "result = Inr None \<and> au_sessions d' = au_sessions d"
    using False assms(1,7) by (auto simp: authenticate_def get_single_def Let_def put_user_def split: if_splits)
  with False show ?thesis by blast
next
  case True
  define v where "v = logged_in_row env now password (forget_lock u)"
  define rows where "rows = delete_expired now (delete_by_token_hash (ae_token_hash env old) (au_sessions d))"
  define row where "row = \<lparr>as_token_hash = ae_token_hash env token, as_user_id = Some i,
    as_expires_at = now + seconds (ae_session_max_age_sec env), as_flash_json = None, as_created_at = now\<rparr>"
  have user: "tget (au_users (put_user i v d)) i = Some v" using assms(1) by (rule put_user_head)
  have name: "us_username v = us_username u" by (simp add: v_def logged_in_row_def forget_lock_def)
  have out: "authenticate env old username password token now d =
     (Inr (Some \<lparr>ns_token = token, ns_signed_cookie = ae_sign env token,
        ns_identity = \<lparr>si_token = token, si_session_id = fresh_id rows, si_user_id = Some i,
          si_username = Some (us_username v), si_expires_at = now + seconds (ae_session_max_age_sec env)\<rparr>\<rparr>),
      (put_user i v d)\<lparr>au_sessions := insert_row row rows\<rparr>)"
    using True assms(1) user
    by (simp add: authenticate_def get_single_def Let_def v_def[symmetric] create_session_def delete_session_def
        rows_def row_def put_user_def)
  then have d': "d' = (put_user i v d)\<lparr>au_sessions := insert_row row rows\<rparr>"
    and result: "\<exists>s. result = Inr (Some s) \<and> ns_signed_cookie s = ae_sign env token"
    using assms(7) by auto
  have none: "get_by_token_hash (ae_token_hash env token) rows = None" "get_by_token_hash (ae_token_hash env old) rows = None"
    unfolding rows_def using new hashes by (simp_all add: find_unexpired find_deleted find_gone)
  have users: "tget (au_users d') i = Some v" using user by (simp add: d')
  have here: "get_by_token_hash (ae_token_hash env token) (au_sessions d') = Some (fresh_id rows, row)"
    using none(1) by (simp add: d' find_insert row_def)
  have gone: "get_by_token_hash (ae_token_hash env old) (au_sessions d') = None"
    using none(2) hashes by (simp add: d' find_insert row_def)
  have "fst (load_session env (Some old_cookie) later d') = None"
    using signed_old gone by (simp add: load_session_def signer_loads_def)
  moreover have "case fst (load_session env (Some (ae_sign env token)) later d') of
           None \<Rightarrow> now + seconds (ae_session_max_age_sec env) \<le> later
         | Some identity \<Rightarrow> later < now + seconds (ae_session_max_age_sec env) \<and> si_user_id identity = Some i \<and>
             si_username identity = Some (us_username u)"
    unfolding load_by_row[OF signed] here by (simp add: row_def users name)
  ultimately show ?thesis using True result by blast
qed

lemma sample_login:
  "authenticate sample_auth_env ''old'' ''admin'' ''p'' ''new'' 5 sample_auth_db =
    (Inr (Some \<lparr>ns_token = ''new'', ns_signed_cookie = ''new'', ns_identity = \<lparr>si_token = ''new'', si_session_id = 1,
       si_user_id = Some 1, si_username = Some ''admin'', si_expires_at = 60000005\<rparr>\<rparr>),
     \<lparr>au_users = [(1, sample_user\<lparr>us_last_login_at := Some 5, us_updated_at := 5\<rparr>)],
      au_sessions = [(1, \<lparr>as_token_hash = ''new'', as_user_id = Some 1, as_expires_at = 60000005,
        as_flash_json = None, as_created_at = 5\<rparr>)]\<rparr>)"
  by code_simp

theorem login_replaces_session_witness:
  "fst (load_session sample_auth_env (Some ''old'') 6
     (snd (authenticate sample_auth_env ''old'' ''admin'' ''p'' ''new'' 5 sample_auth_db))) = None"
proof -
  have env: "ae_token_hash sample_auth_env t = t" "ae_sign sample_auth_env t = t" "ae_unsign sample_auth_env t = Some (JStr t)" for t
    by (simp_all add: sample_auth_env_def)
  have first: "au_users sample_auth_db = (1, sample_user) # []" by (simp add: sample_auth_db_def)
  have new: "get_by_token_hash (ae_token_hash sample_auth_env ''new'') (au_sessions sample_auth_db) = None"
    by (simp add: env get_by_token_hash_def sample_auth_db_def)
  have ok: "\<not> is_locked sample_user 5 \<and> credentials_ok sample_auth_env sample_user ''admin'' ''p''"
    by (simp add: is_locked_def sample_user_def credentials_ok_def sample_auth_env_def)
  show ?thesis
    using login_replaces_session[OF first new, where old = "''old''" and old_cookie = "''old''" and
        username = "''admin''" and password = "''p''" and now = 5 and later = 6] ok
    by (simp add: env sample_login)
qed

text \<open>
  Changing the password ends every session of the user, and no cookie authenticates as this user until the next
  login.
\<close>

theorem change_password_ends_sessions:
  assumes "change_password env user_id current_password new_password now d = (True, d')"
  shows "fst (load_session env cookie later d') = Some identity \<Longrightarrow> si_user_id identity \<noteq> Some user_id"
    and "map_option us_password_hash (tget (au_users d') user_id) = Some (ph_hash (ae_hasher env) new_password)"
proof -
  obtain u where u: "tget (au_users d) user_id = Some u"
    using assms by (cases "tget (au_users d) user_id") (auto simp: change_password_def)
  have rows: "as_user_id r \<noteq> Some user_id" if "(sid, r) \<in> set (au_sessions d')" for sid r
    using assms that u by (auto simp: change_password_def delete_where_def split: if_splits)
  show "map_option us_password_hash (tget (au_users d') user_id) = Some (ph_hash (ae_hasher env) new_password)"
    using assms u by (auto simp: change_password_def put_user_def split: if_splits)
  assume loaded: "fst (load_session env cookie later d') = Some identity"
  then obtain c token where c: "cookie = Some c" "signer_loads env c = Some token"
    by (auto simp: load_session_def split: option.splits if_splits)
  obtain sid r where r: "get_by_token_hash (ae_token_hash env token) (au_sessions d') = Some (sid, r)"
    using loaded c by (auto simp: load_session_def split: option.splits if_splits)
  then have "(sid, r) \<in> set (au_sessions d')" unfolding get_by_token_hash_def find_Some_iff
    by (metis nth_mem)
  moreover have "si_user_id identity = as_user_id r"
    using loaded c r by (auto simp: load_session_def Let_def split: if_splits)
  ultimately show "si_user_id identity \<noteq> Some user_id" using rows by simp
qed

end
