(* ===== verification/Format_Probe.thy ===== *)
theory Format_Probe
  imports Models Text "HOL-Library.List_Lexorder"
begin

text \<open>
  What a format probe shows and how often one may start, \<open>src/sluicery/core/format_probe.py\<close>, and the files of the
  work area that belong to no task, \<open>core/staging.py\<close>. The JSON parser is an argument: the line is given as its
  parsed value. A tree of files is its list of regular files, in the order of the walk.
\<close>

section \<open>The interval between probes\<close>

text \<open>\<open>acquire\<close>: the time left when it is refused, and the instant of the last probe. Times are in seconds.\<close>

definition acquire :: "rat \<Rightarrow> rat \<Rightarrow> rat option \<Rightarrow> rat option \<times> rat option" where
  "acquire min_interval_sec current last_started =
     (case last_started of
        None \<Rightarrow> (None, Some current)
      | Some t \<Rightarrow>
          (let remaining = min_interval_sec - (current - t)
           in if 0 < remaining then (Some remaining, last_started) else (None, Some current)))"

section \<open>The result of a probe\<close>

record format_row =
  fm_format_id :: string
  fm_extension :: "string option"
  fm_resolution :: "string option"
  fm_video_codec :: "string option"
  fm_audio_codec :: "string option"
  fm_estimated_size :: "int option"

record format_probe_result =
  fp_formats :: "format_row list"
  fp_selected_format_ids :: "string list"
  fp_estimated_size :: "int option"

definition probe_text :: "json \<Rightarrow> string option" where
  "probe_text v = (case v of JStr s \<Rightarrow> if s \<noteq> [] then Some s else None | _ \<Rightarrow> None)"

text \<open>\<open>_size\<close>: an integer too large for a float raises; a float is positive, finite and truncated.\<close>

definition probe_size :: "json \<Rightarrow> exn + int option" where
  "probe_size v =
     (case v of
        JInt n \<Rightarrow> if double_bound \<le> \<bar>of_int n\<bar> then Inl OverflowError else Inr (if n \<le> 0 then None else Some n)
      | JFloat x \<Rightarrow> Inr (if x \<le> 0 then None else Some \<lfloor>x\<rfloor>)
      | _ \<Rightarrow> Inr None)"

definition truthy :: "int option \<Rightarrow> bool" where
  "truthy n \<longleftrightarrow> n \<noteq> None \<and> n \<noteq> Some 0"

definition estimated_size :: "(string \<times> json) list \<Rightarrow> exn + int option" where
  "estimated_size d =
     (case probe_size (jget d ''filesize'') of
        Inl e \<Rightarrow> Inl e
      | Inr n \<Rightarrow> if truthy n then Inr n else probe_size (jget d ''filesize_approx''))"

definition dimension_text :: "json \<Rightarrow> string option" where
  "dimension_text v = (case v of JInt n \<Rightarrow> Some (int_str n) | JBool b \<Rightarrow> Some (if b then ''True'' else ''False'')
     | _ \<Rightarrow> None)"

definition resolution_of :: "(string \<times> json) list \<Rightarrow> string option" where
  "resolution_of d =
     (case probe_text (jget d ''resolution'') of
        Some s \<Rightarrow> Some s
      | None \<Rightarrow>
          (case (dimension_text (jget d ''width''), dimension_text (jget d ''height'')) of
             (Some w, Some h) \<Rightarrow> Some (w @ ''x'' @ h)
           | _ \<Rightarrow> None))"

text \<open>An entry that is no object or has no format id is left out.\<close>

definition format_row :: "json \<Rightarrow> exn + format_row option" where
  "format_row v =
     (case v of
        JObj d \<Rightarrow>
          (case probe_text (jget d ''format_id'') of
             None \<Rightarrow> Inr None
           | Some format_id \<Rightarrow>
               (case estimated_size d of
                  Inl e \<Rightarrow> Inl e
                | Inr n \<Rightarrow> Inr (Some \<lparr>fm_format_id = format_id, fm_extension = probe_text (jget d ''ext''),
                    fm_resolution = resolution_of d, fm_video_codec = probe_text (jget d ''vcodec''),
                    fm_audio_codec = probe_text (jget d ''acodec''), fm_estimated_size = n\<rparr>)))
      | _ \<Rightarrow> Inr None)"

definition format_rows :: "json \<Rightarrow> exn + format_row list" where
  "format_rows formats =
     (case formats of
        JArr vs \<Rightarrow> (case map_results format_row vs of
                       Inl e \<Rightarrow> Inl e | Inr rows \<Rightarrow> Inr (List.map_filter (\<lambda>r. r) rows))
      | _ \<Rightarrow> Inr [])"

definition objects :: "json list \<Rightarrow> (string \<times> json) list list" where
  "objects vs = List.map_filter (\<lambda>v. case v of JObj d \<Rightarrow> Some d | _ \<Rightarrow> None) vs"

definition selected_values :: "(string \<times> json) list \<Rightarrow> (string \<times> json) list list" where
  "selected_values raw =
     (case jget raw ''requested_formats'' of
        JArr vs \<Rightarrow> objects vs
      | _ \<Rightarrow> (case jget raw ''requested_downloads'' of JArr vs \<Rightarrow> objects vs | _ \<Rightarrow> []))"

definition selected_ids :: "(string \<times> json) list \<Rightarrow> string list" where
  "selected_ids raw =
     (let named = List.map_filter (\<lambda>d. probe_text (jget d ''format_id'')) (selected_values raw)
      in if named \<noteq> [] then named
         else (case probe_text (jget raw ''format_id'') of
                 None \<Rightarrow> []
               | Some combined \<Rightarrow> filter (\<lambda>p. p \<noteq> []) (split_on (CHR ''+'') combined)))"

definition total_size :: "(string \<times> json) list \<Rightarrow> int option list \<Rightarrow> exn + int option" where
  "total_size raw sizes =
     (if sizes \<noteq> [] \<and> list_all (\<lambda>n. n \<noteq> None) sizes then Inr (Some (sum_list (map the sizes)))
      else estimated_size raw)"

definition first_occurrences :: "'a list \<Rightarrow> 'a list" where
  "first_occurrences xs = rev (remdups (rev xs))"

text \<open>The line as its parsed value, or \<open>None\<close> if it is no JSON; the exceptions are those the code lets out.\<close>

definition parse_format_probe_output :: "json option \<Rightarrow> exn + format_probe_result" where
  "parse_format_probe_output line =
     (case line of
        Some (JObj raw) \<Rightarrow>
          (case format_rows (jget raw ''formats'') of
             Inl e \<Rightarrow> Inl e
           | Inr rows \<Rightarrow>
               (case map_results estimated_size (selected_values raw) of
                  Inl e \<Rightarrow> Inl e
                | Inr sizes \<Rightarrow>
                    (case total_size raw sizes of
                       Inl e \<Rightarrow> Inl e
                     | Inr n \<Rightarrow>
                         Inr \<lparr>fp_formats = rows, fp_selected_format_ids = first_occurrences (selected_ids raw),
                              fp_estimated_size = n\<rparr>)))
      | _ \<Rightarrow> Inl ValueError)"

section \<open>Orphans of the work area\<close>

definition work_id_of :: "task \<Rightarrow> string option" where
  "work_id_of t =
     (case tk_payload_json t of
        Some (JObj d) \<Rightarrow> (case map_of d ''work_id'' of Some (JStr s) \<Rightarrow> Some s | _ \<Rightarrow> None)
      | _ \<Rightarrow> None)"

definition active_work_ids :: "task table \<Rightarrow> string list" where
  "active_work_ids ts = List.map_filter (\<lambda>(_, t). work_id_of t) ts"

text \<open>A file is given as its parts below the work area and its size.\<close>

definition find_orphans :: "task table \<Rightarrow> (string list \<times> int) list \<Rightarrow> (string \<times> int) list" where
  "find_orphans ts tree =
     sort_key (\<lambda>x. map code (fst x))
       (map (\<lambda>(parts, n). (join ''/'' parts, n))
          (filter (\<lambda>(parts, _). \<not> (parts \<noteq> [] \<and> hd parts \<in> set (active_work_ids ts))) tree))"

section \<open>What holds\<close>

text \<open>The starts that are let through, for a sequence of requests.\<close>

fun accepted_starts :: "rat \<Rightarrow> rat option \<Rightarrow> rat list \<Rightarrow> rat list" where
  "accepted_starts interval last_started [] = []"
| "accepted_starts interval last_started (t # ts) =
     (case acquire interval t last_started of
        (None, started') \<Rightarrow> t # accepted_starts interval started' ts
      | (Some _, started') \<Rightarrow> accepted_starts interval started' ts)"

lemma accepted_after:
  "sorted_wrt (\<lambda>s t. interval \<le> t - s) (case last_started of None \<Rightarrow> accepted_starts interval None ts
     | Some s \<Rightarrow> s # accepted_starts interval (Some s) ts)"
  if "0 \<le> interval"
proof (induction ts arbitrary: last_started)
  case Nil
  then show ?case by (cases last_started) simp_all
next
  case (Cons t ts)
  note step = Cons.IH[of "Some t"]
  show ?case
  proof (cases last_started)
    case None
    then show ?thesis using step by (simp add: acquire_def)
  next
    case (Some s)
    show ?thesis
    proof (cases "0 < interval - (t - s)")
      case True
      then show ?thesis using Some Cons.IH[of "Some s"] by (simp add: acquire_def)
    next
      case False
      then have "s + interval \<le> t" by simp
      moreover have "t + interval \<le> x" if "x \<in> set (accepted_starts interval (Some t) ts)" for x
        using step that by (fastforce simp: field_simps)
      ultimately have "interval \<le> x - s" if "x \<in> set (accepted_starts interval (Some t) ts)" for x
        using that \<open>0 \<le> interval\<close> by fastforce
      then show ?thesis using Some False step by (auto simp: acquire_def field_simps)
    qed
  qed
qed

text \<open>Whatever is requested when, two probes that are let through start at least the interval apart.\<close>

theorem probes_keep_interval:
  "0 \<le> interval \<Longrightarrow> sorted_wrt (\<lambda>s t. interval \<le> t - s) (accepted_starts interval None ts)"
  using accepted_after[where interval = interval and last_started = None and ts = ts] by simp

lemma set_first_occurrences [simp]: "set (first_occurrences xs) = set xs"
  by (simp add: first_occurrences_def)

lemma distinct_first_occurrences [simp]: "distinct (first_occurrences xs)"
  by (simp add: first_occurrences_def)

lemma probe_text_some: "probe_text v = Some s \<Longrightarrow> s \<noteq> []"
  by (cases v) (auto simp: probe_text_def split: if_splits)

lemma selected_ids_named: "s \<in> set (selected_ids raw) \<Longrightarrow> s \<noteq> []"
  using probe_text_some
  by (auto simp: selected_ids_def Let_def List.map_filter_def split: option.splits if_splits)

lemma parsed_ids:
  "parse_format_probe_output line = Inr r \<Longrightarrow>
     distinct (fp_selected_format_ids r) \<and> [] \<notin> set (fp_selected_format_ids r)"
proof -
  assume parsed: "parse_format_probe_output line = Inr r"
  obtain raw where "fp_selected_format_ids r = first_occurrences (selected_ids raw)"
    using parsed by (auto simp: parse_format_probe_output_def split: option.splits json.splits sum.splits)
  moreover have "[] \<notin> set (selected_ids raw)" using selected_ids_named[of "[]" raw] by blast
  ultimately show ?thesis by simp
qed

text \<open>A number too long for a float is a valid JSON size and ends the probe with \<open>OverflowError\<close>.\<close>

lemma huge_size_overflows:
  "parse_format_probe_output (Some (JObj [(''filesize'', JInt (10 ^ 400))])) = Inl OverflowError"
proof -
  have "double_bound \<le> \<bar>of_int (10 ^ 400)\<bar>"
  proof -
    have "(2::rat) ^ 1024 \<le> 10 ^ 400" by simp
    moreover have "double_bound \<le> 2 ^ 1024" by (simp add: double_bound_def)
    ultimately show ?thesis by simp
  qed
  then have "probe_size (JInt (10 ^ 400)) = Inl OverflowError" unfolding probe_size_def by (simp del: power_numeral)
  then show ?thesis
    by (simp add: parse_format_probe_output_def format_rows_def jget_def selected_values_def total_size_def
        estimated_size_def del: power_numeral)
qed

text \<open>The orphans are exactly the files that lie in no directory of a task.\<close>

lemma find_orphans_exact:
  "set (find_orphans ts tree) =
     {(join ''/'' parts, n) |parts n. (parts, n) \<in> set tree \<and>
        (parts = [] \<or> \<not> (\<exists>i t. (i, t) \<in> set ts \<and> work_id_of t = Some (hd parts)))}"
proof -
  have "w \<in> set (active_work_ids ts) \<longleftrightarrow> (\<exists>i t. (i, t) \<in> set ts \<and> work_id_of t = Some w)" for w
    by (force simp: active_work_ids_def List.map_filter_def)
  then show ?thesis by (auto simp: find_orphans_def image_iff)
qed

end
