(* ===== verification/Folder_Move.thy ===== *)
theory Folder_Move
  imports Retention Naming
begin

text \<open>
  Renaming the folder of a playlist with its files, \<open>src/sluicery/core/folder_move.py\<close>: the plan, its
  confirmation, and the execution that records each intent in the Run before it touches a file. The adapters, the
  digest, the signature of a token, time texts and the values of replacement fields outside the documented ones are
  arguments; the acts of other processes between the sessions, the lock and failing writes of the journal are in
  the environment of an execution.
\<close>

datatype move_error =
    FolderMovePlanError | FolderMoveConfirmationError | FolderMoveExecutionError | FE_Other exn

record move_candidate =
  mc_artifact_id :: int
  mc_target_id :: int
  mc_assignment_id :: int
  mc_profile_id :: int
  mc_storage_id :: int
  mc_source_path :: string
  mc_destination_path :: string
  mc_artifact_updated_at :: instant
  mc_target_updated_at :: instant
  mc_assignment_updated_at :: instant
  mc_profile_updated_at :: instant
  mc_storage_updated_at :: instant
  mc_storage_config_fingerprint :: string
  mc_file_identity :: "remote_file option"
  mc_remote_or_mount :: bool
  mc_already_moved :: bool

datatype move_blocked =
    MB_Other_storage int | MB_Unresolved int | MB_Duplicate int string | MB_Unverified int exn

record move_plan =
  mp_playlist_id :: int
  mp_old_folder_name :: string
  mp_new_folder_name :: string
  mp_playlist_updated_at :: instant
  mp_candidates :: "move_candidate list"
  mp_unaffected_count :: nat
  mp_blocked_reasons :: "move_blocked list"
  mp_recovery_run_ids :: "int list"

definition movable :: "move_plan \<Rightarrow> bool" where
  "movable plan \<longleftrightarrow> mp_old_folder_name plan \<noteq> mp_new_folder_name plan \<and> mp_blocked_reasons plan = []"

section \<open>Paths and identities\<close>

text \<open>A path below the old prefix with the new one in its place.\<close>

definition replace_prefix :: "string \<Rightarrow> string \<Rightarrow> string \<Rightarrow> string option" where
  "replace_prefix path old_prefix new_prefix =
     (if \<not> is_relative_to path old_prefix then None
      else (let parts = path_parts new_prefix @ drop (length (path_parts old_prefix)) (path_parts path)
            in Some (if path_is_absolute new_prefix then CHR ''/'' # join ''/'' parts
                     else if parts = [] then ''.'' else join ''/'' parts)))"

definition identity_matches :: "remote_file \<Rightarrow> remote_file \<Rightarrow> bool" where
  "identity_matches current expected \<longleftrightarrow> rf_size current = rf_size expected \<and>
     rf_modified_at current = rf_modified_at expected \<and> rf_hashes current = rf_hashes expected \<and>
     rf_file_id current = rf_file_id expected"

definition nullable :: "(json \<Rightarrow> 'a option) \<Rightarrow> json \<Rightarrow> 'a option option" where
  "nullable read v = (if v = JNull then Some None else map_option Some (read v))"

definition read_str :: "json \<Rightarrow> string option" where
  "read_str v = (case v of JStr s \<Rightarrow> Some s | _ \<Rightarrow> None)"

definition read_int :: "json \<Rightarrow> int option" where
  "read_int v = (case v of JInt i \<Rightarrow> Some i | _ \<Rightarrow> None)"

definition read_hashes :: "json \<Rightarrow> (string \<times> string) list option" where
  "read_hashes v = (case v of JObj d \<Rightarrow> those (map (\<lambda>(k, x). map_option (\<lambda>s. (k, s)) (read_str x)) d) | _ \<Rightarrow> None)"

definition remote_file_from_json :: "json \<Rightarrow> remote_file option" where
  "remote_file_from_json v =
     (case v of
        JObj d \<Rightarrow>
          (case (read_str (jget d ''relative_path''), nullable read_int (jget d ''size''),
                 nullable read_str (jget d ''modified_at''), read_hashes (jget d ''hashes''),
                 nullable read_str (jget d ''file_id'')) of
             (Some path, Some n, Some modified_at, Some hashes, Some file_id) \<Rightarrow>
               Some \<lparr>rf_relative_path = path, rf_size = n, rf_modified_at = modified_at, rf_hashes = hashes,
                     rf_file_id = file_id\<rparr>
           | _ \<Rightarrow> None)
      | _ \<Rightarrow> None)"

definition move_candidate_json :: "(instant \<Rightarrow> string) \<Rightarrow> move_candidate \<Rightarrow> (string \<times> json) list" where
  "move_candidate_json iso_text c =
     [(''artifact_id'', JInt (mc_artifact_id c)), (''target_id'', JInt (mc_target_id c)),
      (''assignment_id'', JInt (mc_assignment_id c)), (''profile_id'', JInt (mc_profile_id c)),
      (''storage_id'', JInt (mc_storage_id c)), (''source_path'', JStr (mc_source_path c)),
      (''destination_path'', JStr (mc_destination_path c)),
      (''artifact_updated_at'', JStr (iso_text (mc_artifact_updated_at c))),
      (''target_updated_at'', JStr (iso_text (mc_target_updated_at c))),
      (''assignment_updated_at'', JStr (iso_text (mc_assignment_updated_at c))),
      (''profile_updated_at'', JStr (iso_text (mc_profile_updated_at c))),
      (''storage_updated_at'', JStr (iso_text (mc_storage_updated_at c))),
      (''storage_config_fingerprint'', JStr (mc_storage_config_fingerprint c)),
      (''file_identity'', case mc_file_identity c of None \<Rightarrow> JNull | Some f \<Rightarrow> remote_file_json f),
      (''remote_or_mount'', JBool (mc_remote_or_mount c)), (''already_moved'', JBool (mc_already_moved c))]"

definition move_plan_json :: "(instant \<Rightarrow> string) \<Rightarrow> move_plan \<Rightarrow> json" where
  "move_plan_json iso_text plan = JObj
     [(''playlist_id'', JInt (mp_playlist_id plan)), (''old_folder_name'', JStr (mp_old_folder_name plan)),
      (''new_folder_name'', JStr (mp_new_folder_name plan)),
      (''playlist_updated_at'', JStr (iso_text (mp_playlist_updated_at plan))),
      (''candidates'', JArr (map (\<lambda>c. JObj (move_candidate_json iso_text c)) (mp_candidates plan))),
      (''unaffected_count'', JInt (int (mp_unaffected_count plan))),
      (''recovery_run_ids'', JArr (map JInt (mp_recovery_run_ids plan)))]"

section \<open>The plan\<close>

record move_row =
  ms_artifact_id :: int
  ms_artifact :: artifact
  ms_target :: target
  ms_assignment_id :: int
  ms_assignment :: playlist_profile
  ms_profile_id :: int
  ms_profile :: profile
  ms_storage :: storage

definition read_move_row :: "db \<Rightarrow> int \<Rightarrow> int \<times> artifact \<Rightarrow> move_row option" where
  "read_move_row d pid x =
     (case x of (aid, a) \<Rightarrow>
        case tget (db_targets d) (ar_target_id a) of None \<Rightarrow> None | Some t \<Rightarrow>
        (case tget (db_items d) (tg_item_id t) of None \<Rightarrow> None | Some it \<Rightarrow>
        (case tget (db_assignments d) (tg_playlist_profile_id t) of None \<Rightarrow> None | Some pp \<Rightarrow>
        (case tget (db_profiles d) (pp_profile_id pp) of None \<Rightarrow> None | Some pf \<Rightarrow>
        (case tget (db_storages d) (ar_storage_id a) of None \<Rightarrow> None | Some st \<Rightarrow>
           if it_playlist_id it \<noteq> pid then None
           else Some \<lparr>ms_artifact_id = aid, ms_artifact = a, ms_target = t,
             ms_assignment_id = tg_playlist_profile_id t, ms_assignment = pp, ms_profile_id = pp_profile_id pp,
             ms_profile = pf, ms_storage = st\<rparr>)))))"

definition move_rows :: "db \<Rightarrow> int \<Rightarrow> move_row list" where
  "move_rows d pid = sort_key ms_artifact_id (List.map_filter (read_move_row d pid) (db_artifacts d))"

text \<open>Runs of this very rename that are open or failed: the ones to close, and the intents they left.\<close>

definition move_stats :: "run \<Rightarrow> (string \<times> json) list" where
  "move_stats r = (case rn_stats_json r of Some (JObj d) \<Rightarrow> d | _ \<Rightarrow> [])"

definition pending_runs :: "db \<Rightarrow> int \<Rightarrow> string \<Rightarrow> string \<Rightarrow> (int \<times> run) list" where
  "pending_runs d pid old_name new_name =
     filter (\<lambda>(_, r). rn_playlist_id r = Some pid \<and> rn_kind r = ''folder_move'' \<and>
         (rn_status r = RS_Running \<or> rn_status r = RS_Failed) \<and>
         jget (move_stats r) ''old_folder_name'' = JStr old_name \<and> jget (move_stats r) ''new_folder_name'' = JStr new_name)
       (db_runs d)"

definition recovery_run_ids :: "(int \<times> run) list \<Rightarrow> int list" where
  "recovery_run_ids runs = sort (map fst (filter (\<lambda>(_, r). rn_status r = RS_Running) runs))"

definition intent_of_run :: "int \<times> run \<Rightarrow> (int \<times> int \<times> (string \<times> json) list) option" where
  "intent_of_run x =
     (case jget (move_stats (snd x)) ''current_intent'' of
        JObj intent \<Rightarrow>
          (case jget intent ''artifact_id'' of
             JInt aid \<Rightarrow> Some (aid, fst x, intent)
           | JBool b \<Rightarrow> Some (if b then 1 else 0, fst x, intent)
           | _ \<Rightarrow> None)
      | _ \<Rightarrow> None)"

definition pending_intents :: "(int \<times> run) list \<Rightarrow> (int \<times> int \<times> (string \<times> json) list) list" where
  "pending_intents runs = rev (List.map_filter intent_of_run runs)"

text \<open>Python's equality of a decoded number with an integer: \<open>True\<close> is one, and a float may be equal too.\<close>

definition equals_int :: "json \<Rightarrow> int \<Rightarrow> bool" where
  "equals_int v i \<longleftrightarrow>
     (case v of JInt j \<Rightarrow> j = i | JBool b \<Rightarrow> (if b then 1 else 0) = i | JFloat x \<Rightarrow> x = of_int i | _ \<Rightarrow> False)"

definition pending_intent_for_row :: "(instant \<Rightarrow> string) \<Rightarrow> (json \<Rightarrow> string)
    \<Rightarrow> (int \<times> int \<times> (string \<times> json) list) list \<Rightarrow> move_row \<Rightarrow> string \<Rightarrow> (int \<times> remote_file) option" where
  "pending_intent_for_row iso_text digest intents row destination =
     (case map_of intents (ms_artifact_id row) of
        None \<Rightarrow> None
      | Some (run_id, intent) \<Rightarrow>
          if equals_int (jget intent ''artifact_id'') (ms_artifact_id row) \<and>
             equals_int (jget intent ''storage_id'') (ar_storage_id (ms_artifact row)) \<and>
             jget intent ''source_path'' = JStr (ar_relative_path (ms_artifact row)) \<and>
             jget intent ''destination_path'' = JStr destination \<and>
             jget intent ''artifact_updated_at'' = JStr (iso_text (ar_updated_at (ms_artifact row))) \<and>
             jget intent ''storage_updated_at'' = JStr (iso_text (st_updated_at (ms_storage row))) \<and>
             jget intent ''storage_config_fingerprint'' = JStr (digest (storage_config (ms_storage row)))
          then map_option (\<lambda>f. (run_id, f)) (remote_file_from_json (jget intent ''file_identity''))
          else None)"

definition row_context :: "string \<Rightarrow> string \<Rightarrow> move_row \<Rightarrow> layout_context" where
  "row_context playlist_name folder_name row =
     \<lparr>lc_playlist_name = playlist_name, lc_playlist_folder_name = folder_name,
      lc_profile_name = pf_name (ms_profile row), lc_profile_kind = profile_kind_value (pf_kind (ms_profile row)),
      lc_subpath = pp_subpath (ms_assignment row), lc_custom_output_template = None\<rparr>"

definition row_prefix :: "(string \<Rightarrow> exn + string) \<Rightarrow> string \<Rightarrow> string \<Rightarrow> move_row \<Rightarrow> exn + string" where
  "row_prefix other_field playlist_name folder_name row =
     resolve_subpath other_field (pp_subpath (ms_assignment row)) (row_context playlist_name folder_name row)"

text \<open>
  What the storage shows for a row: the identity as far as it was read, whether the file is already at its
  destination, and the failure that blocks the row.
\<close>

definition size_failure :: "artifact \<Rightarrow> remote_file \<Rightarrow> exn option" where
  "size_failure a f =
     (if ar_filesize a \<noteq> None \<and> rf_size f \<noteq> ar_filesize a
      then Some (StorageOperationError ''failed'' ''size_mismatch'') else None)"

definition inspect_move :: "'s storage_adapter \<Rightarrow> 's \<Rightarrow> artifact \<Rightarrow> string \<Rightarrow> remote_file option
    \<Rightarrow> remote_file option \<times> bool \<times> exn option" where
  "inspect_move ad w a destination pending =
     (case ad_exists ad w (ar_relative_path a) of
        Inl e \<Rightarrow> (None, False, Some e)
      | Inr True \<Rightarrow>
          (case ad_inspect_file ad w (ar_relative_path a) of
             Inl e \<Rightarrow> (None, False, Some e)
           | Inr f \<Rightarrow>
               (case ad_exists ad w destination of
                  Inl e \<Rightarrow> (Some f, False, Some e)
                | Inr True \<Rightarrow> (Some f, False, Some (StorageOperationError ''failed'' ''ambiguous_move_state''))
                | Inr False \<Rightarrow> (Some f, False, size_failure a f)))
      | Inr False \<Rightarrow>
          (case pending of
             None \<Rightarrow> (None, False, Some (StorageOperationError ''failed'' ''source_missing''))
           | Some expected \<Rightarrow>
               (case ad_exists ad w destination of
                  Inl e \<Rightarrow> (None, False, Some e)
                | Inr False \<Rightarrow> (None, False, Some (StorageOperationError ''failed'' ''source_missing''))
                | Inr True \<Rightarrow>
                    (case ad_inspect_file ad w destination of
                       Inl e \<Rightarrow> (None, False, Some e)
                     | Inr moved \<Rightarrow>
                         if \<not> identity_matches moved expected
                         then (None, False, Some (StorageOperationError ''failed'' ''identity_mismatch''))
                         else (Some expected, True, size_failure a expected)))))"

definition make_move_candidate :: "(json \<Rightarrow> string) \<Rightarrow> move_row \<Rightarrow> string \<Rightarrow> remote_file option \<Rightarrow> bool
    \<Rightarrow> move_candidate" where
  "make_move_candidate digest row destination identity moved =
     \<lparr>mc_artifact_id = ms_artifact_id row, mc_target_id = ar_target_id (ms_artifact row),
      mc_assignment_id = ms_assignment_id row, mc_profile_id = ms_profile_id row,
      mc_storage_id = ar_storage_id (ms_artifact row), mc_source_path = ar_relative_path (ms_artifact row),
      mc_destination_path = destination, mc_artifact_updated_at = ar_updated_at (ms_artifact row),
      mc_target_updated_at = tg_updated_at (ms_target row),
      mc_assignment_updated_at = pp_updated_at (ms_assignment row),
      mc_profile_updated_at = pf_updated_at (ms_profile row),
      mc_storage_updated_at = st_updated_at (ms_storage row),
      mc_storage_config_fingerprint = digest (storage_config (ms_storage row)), mc_file_identity = identity,
      mc_remote_or_mount = (st_kind (ms_storage row) = SK_Remote \<or> st_kind (ms_storage row) = SK_Mount),
      mc_already_moved = moved\<rparr>"

record move_collection =
  mv_destinations :: "(int \<times> string) list"
  mv_unaffected :: nat
  mv_blocked :: "move_blocked list"
  mv_candidates :: "move_candidate list"

record 's move_inputs =
  mi_iso :: "instant \<Rightarrow> string"
  mi_digest :: "json \<Rightarrow> string"
  mi_other_field :: "string \<Rightarrow> exn + string"
  mi_adapters :: "(int \<Rightarrow> exn + 's storage_adapter) option"
  mi_world :: 's

text \<open>One row: the exception that ends the plan, or what it adds.\<close>

definition look_at_row :: "'s move_inputs \<Rightarrow> (int \<times> int \<times> (string \<times> json) list) list \<Rightarrow> move_row \<Rightarrow> string
    \<Rightarrow> remote_file option \<times> bool \<times> exn option" where
  "look_at_row inp intents row destination =
     (case mi_adapters inp of
        None \<Rightarrow> (None, False, None)
      | Some adapters \<Rightarrow>
          (case adapters (ar_storage_id (ms_artifact row)) of
             Inl e \<Rightarrow> (None, False, Some e)
           | Inr ad \<Rightarrow> inspect_move ad (mi_world inp) (ms_artifact row) destination
               (map_option snd (pending_intent_for_row (mi_iso inp) (mi_digest inp) intents row destination))))"

definition add_row :: "'s move_inputs \<Rightarrow> string \<Rightarrow> string \<Rightarrow> string \<Rightarrow> (int \<times> int \<times> (string \<times> json) list) list
    \<Rightarrow> move_row \<Rightarrow> move_collection \<Rightarrow> exn + move_collection" where
  "add_row inp playlist_name old_name new_name intents row c =
     (if pp_storage_id (ms_assignment row) \<noteq> ar_storage_id (ms_artifact row)
      then Inr (c\<lparr>mv_blocked := mv_blocked c @ [MB_Other_storage (ms_artifact_id row)]\<rparr>)
      else
        (case (case row_prefix (mi_other_field inp) playlist_name old_name row of
                 Inl e \<Rightarrow> Inl e
               | Inr old_prefix \<Rightarrow>
                   map_sum id (\<lambda>new_prefix. (old_prefix, new_prefix))
                     (row_prefix (mi_other_field inp) playlist_name new_name row)) of
           Inl e \<Rightarrow>
             if e = LayoutValidationError
             then Inr (c\<lparr>mv_blocked := mv_blocked c @ [MB_Unresolved (ms_assignment_id row)]\<rparr>) else Inl e
         | Inr (old_prefix, new_prefix) \<Rightarrow>
             (if old_prefix = new_prefix then Inr (c\<lparr>mv_unaffected := mv_unaffected c + 1\<rparr>)
              else
                (case replace_prefix (ar_relative_path (ms_artifact row)) old_prefix new_prefix of
                   None \<Rightarrow> Inr (c\<lparr>mv_unaffected := mv_unaffected c + 1\<rparr>)
                 | Some destination \<Rightarrow>
                     if (ar_storage_id (ms_artifact row), destination) \<in> set (mv_destinations c)
                     then Inr (c\<lparr>mv_blocked := mv_blocked c @
                            [MB_Duplicate (ar_storage_id (ms_artifact row)) destination]\<rparr>)
                     else
                       (case look_at_row inp intents row destination of (identity, moved, failure) \<Rightarrow>
                          if escapes_plan failure then Inl (the failure)
                          else Inr (c\<lparr>mv_destinations := (ar_storage_id (ms_artifact row), destination) # mv_destinations c,
                                 mv_blocked := mv_blocked c @
                                   (case failure of None \<Rightarrow> [] | Some e \<Rightarrow> [MB_Unverified (ms_artifact_id row) e]),
                                 mv_candidates := mv_candidates c @
                                   [make_move_candidate (mi_digest inp) row destination identity moved]\<rparr>))))))"

fun add_rows :: "'s move_inputs \<Rightarrow> string \<Rightarrow> string \<Rightarrow> string \<Rightarrow> (int \<times> int \<times> (string \<times> json) list) list
    \<Rightarrow> move_row list \<Rightarrow> move_collection \<Rightarrow> exn + move_collection" where
  "add_rows inp playlist_name old_name new_name intents [] c = Inr c"
| "add_rows inp playlist_name old_name new_name intents (row # rows) c =
     (case add_row inp playlist_name old_name new_name intents row c of
        Inl e \<Rightarrow> Inl e
      | Inr c' \<Rightarrow> add_rows inp playlist_name old_name new_name intents rows c')"

definition no_moves :: move_collection where
  "no_moves = \<lparr>mv_destinations = [], mv_unaffected = 0, mv_blocked = [], mv_candidates = []\<rparr>"

definition build_folder_move_plan :: "'s move_inputs \<Rightarrow> int \<Rightarrow> string \<Rightarrow> db \<Rightarrow> move_error + move_plan" where
  "build_folder_move_plan inp pid new_folder_name d =
     (case tget (db_playlists d) pid of
        None \<Rightarrow> Inl (FE_Other LookupError)
      | Some pl \<Rightarrow>
          (case sanitize_component new_folder_name of
             Inl e \<Rightarrow> Inl (if e = NamingValidationError then FolderMovePlanError else FE_Other e)
           | Inr normalized \<Rightarrow>
               if normalized \<noteq> new_folder_name \<or> normalized = pl_folder_name pl then Inl FolderMovePlanError
               else (let runs = pending_runs d pid (pl_folder_name pl) normalized
                     in case add_rows inp (pl_name pl) (pl_folder_name pl) normalized (pending_intents runs)
                               (move_rows d pid) no_moves of
                          Inl e \<Rightarrow> Inl (FE_Other e)
                        | Inr c \<Rightarrow>
                            Inr \<lparr>mp_playlist_id = pid, mp_old_folder_name = pl_folder_name pl,
                                 mp_new_folder_name = normalized, mp_playlist_updated_at = pl_updated_at pl,
                                 mp_candidates = mv_candidates c, mp_unaffected_count = mv_unaffected c,
                                 mp_blocked_reasons = mv_blocked c,
                                 mp_recovery_run_ids = recovery_run_ids runs\<rparr>)))"

end
