(* ===== verification/Folder_Execution.thy ===== *)
theory Folder_Execution
  imports Folder_Move
begin

text \<open>
  The confirmation of a folder move and its execution. An execution makes the Run of its plan, then takes one
  candidate after another: check the rows, keep the intent in the Run, write it to the journal, move the file
  without overwriting, compare its identity, and only then move the path in the database.
\<close>

section \<open>The confirmation\<close>

record move_confirmation =
  mf_playlist_id :: int
  mf_old_folder_name :: string
  mf_new_folder_name :: string
  mf_fingerprint :: string
  mf_issued_at :: instant

definition move_fingerprint :: "(json \<Rightarrow> string) \<Rightarrow> (instant \<Rightarrow> string) \<Rightarrow> move_plan \<Rightarrow> string" where
  "move_fingerprint digest iso_text plan = digest (move_plan_json iso_text plan)"

definition issue_move_confirmation :: "(json \<Rightarrow> string) \<Rightarrow> (json \<Rightarrow> string) \<Rightarrow> (instant \<Rightarrow> string) \<Rightarrow> instant
    \<Rightarrow> move_plan \<Rightarrow> move_error + string" where
  "issue_move_confirmation dumps digest iso_text now plan =
     (if \<not> movable plan then Inl FolderMovePlanError
      else Inr (dumps (JObj
        [(''playlist_id'', JInt (mp_playlist_id plan)), (''old_folder_name'', JStr (mp_old_folder_name plan)),
         (''new_folder_name'', JStr (mp_new_folder_name plan)),
         (''fingerprint'', JStr (move_fingerprint digest iso_text plan)),
         (''issued_at'', JFloat (of_int now / 1000000))])))"

definition move_token_failure :: "exn \<Rightarrow> move_error" where
  "move_token_failure e =
     (if e = KeyError \<or> e = TypeError \<or> is_value_error e then FolderMoveConfirmationError else FE_Other e)"

definition move_token_fields :: "settings_env \<Rightarrow> (json \<Rightarrow> exn + instant) \<Rightarrow> (string \<times> json) list
    \<Rightarrow> move_error + move_confirmation" where
  "move_token_fields env read_stamp d =
     (case map_of d ''issued_at'' of None \<Rightarrow> Inl FolderMoveConfirmationError | Some stamp \<Rightarrow>
      (case read_stamp stamp of Inl e \<Rightarrow> Inl (move_token_failure e) | Inr issued_at \<Rightarrow>
       (case (case map_of d ''playlist_id'' of None \<Rightarrow> None | Some v \<Rightarrow> token_int v) of
          None \<Rightarrow> Inl FolderMoveConfirmationError
        | Some pid \<Rightarrow>
            (case (map_of d ''old_folder_name'', map_of d ''new_folder_name'', map_of d ''fingerprint'') of
               (Some old_name, Some new_name, Some fingerprint) \<Rightarrow>
                 Inr \<lparr>mf_playlist_id = pid, mf_old_folder_name = py_str env old_name,
                      mf_new_folder_name = py_str env new_name, mf_fingerprint = py_str env fingerprint,
                      mf_issued_at = issued_at\<rparr>
             | _ \<Rightarrow> Inl FolderMoveConfirmationError))))"

definition load_move_confirmation :: "settings_env \<Rightarrow> (string \<Rightarrow> json option) \<Rightarrow> (json \<Rightarrow> exn + instant) \<Rightarrow> instant
    \<Rightarrow> string \<Rightarrow> int \<Rightarrow> move_error + move_confirmation" where
  "load_move_confirmation env loads read_stamp now token ttl_sec =
     (if ttl_sec \<le> 0 then Inl (FE_Other ValueError)
      else (case loads token of
              Some (JObj d) \<Rightarrow>
                (case move_token_fields env read_stamp d of
                   Inl e \<Rightarrow> Inl e
                 | Inr c \<Rightarrow>
                     if now < mf_issued_at c \<or> ttl_sec * 1000000 < now - mf_issued_at c
                     then Inl FolderMoveConfirmationError else Inr c)
            | _ \<Rightarrow> Inl FolderMoveConfirmationError))"

definition verify_move_plan :: "(json \<Rightarrow> string) \<Rightarrow> (instant \<Rightarrow> string) \<Rightarrow> move_confirmation \<Rightarrow> move_plan
    \<Rightarrow> move_error option" where
  "verify_move_plan digest iso_text c plan =
     (if mf_playlist_id c \<noteq> mp_playlist_id plan \<or> mf_old_folder_name c \<noteq> mp_old_folder_name plan \<or>
         mf_new_folder_name c \<noteq> mp_new_folder_name plan \<or> mf_fingerprint c \<noteq> move_fingerprint digest iso_text plan
      then Some FolderMoveConfirmationError else None)"

section \<open>The environment and the state of an execution\<close>

text \<open>
  The sessions are numbered: 0 begins the Run, 1 keeps the path of the journal, \<open>2 k + 2\<close> and \<open>2 k + 3\<close> are those of
  candidate \<open>k\<close>; the last one ends the Run. \<open>me_locked\<close> is why the lock or the directory of the logs is refused. \<open>me_before k\<close> is what other processes do to the database before
  session \<open>k\<close>. Writes of the journal: 0 the beginning, \<open>3 k + 1\<close> the intent of candidate \<open>k\<close>, \<open>3 k + 2\<close> its
  physical completion. Writes after a commit do not matter when they fail and are always kept here.
\<close>

record 's move_env =
  me_adapters :: "int \<Rightarrow> exn + 's storage_adapter"
  me_digest :: "json \<Rightarrow> string"
  me_iso :: "instant \<Rightarrow> string"
  me_now :: instant
  me_locked :: "move_error option"
  me_write_fails :: "nat \<Rightarrow> bool"
  me_before :: "nat \<Rightarrow> db \<Rightarrow> db"
  me_before_end :: "db \<Rightarrow> db"
  me_log_path :: string
  me_log_kept :: bool

record 's move_state =
  mx_db :: db
  mx_world :: 's
  mx_journal :: "(string \<times> (string \<times> json) list) list"
  mx_moved :: nat
  mx_intent :: "move_candidate option"

definition move_rows_match :: "(json \<Rightarrow> string) \<Rightarrow> db \<Rightarrow> move_candidate \<Rightarrow> bool" where
  "move_rows_match digest d c \<longleftrightarrow>
     (case (tget (db_artifacts d) (mc_artifact_id c), tget (db_targets d) (mc_target_id c),
            tget (db_assignments d) (mc_assignment_id c), tget (db_profiles d) (mc_profile_id c),
            tget (db_storages d) (mc_storage_id c)) of
        (Some a, Some t, Some pp, Some pf, Some st) \<Rightarrow>
          ar_target_id a = mc_target_id c \<and> ar_storage_id a = mc_storage_id c \<and>
          ar_relative_path a = mc_source_path c \<and> ar_updated_at a = mc_artifact_updated_at c \<and>
          tg_playlist_profile_id t = mc_assignment_id c \<and> tg_updated_at t = mc_target_updated_at c \<and>
          pp_profile_id pp = mc_profile_id c \<and> pp_storage_id pp = mc_storage_id c \<and>
          pp_updated_at pp = mc_assignment_updated_at c \<and> pf_updated_at pf = mc_profile_updated_at c \<and>
          st_updated_at st = mc_storage_updated_at c \<and> digest (storage_config st) = mc_storage_config_fingerprint c
      | _ \<Rightarrow> False)"

definition playlist_unchanged :: "move_plan \<Rightarrow> db \<Rightarrow> bool" where
  "playlist_unchanged plan d \<longleftrightarrow>
     (case tget (db_playlists d) (mp_playlist_id plan) of None \<Rightarrow> False
      | Some pl \<Rightarrow> pl_folder_name pl = mp_old_folder_name plan \<and> pl_updated_at pl = mp_playlist_updated_at plan)"

definition run_stats :: "(instant \<Rightarrow> string) \<Rightarrow> move_plan \<Rightarrow> nat \<Rightarrow> move_candidate option \<Rightarrow> string option
    \<Rightarrow> (string \<times> json) list" where
  "run_stats iso_text plan moved_count current_intent reason_code =
     [(''moved_count'', JInt (int moved_count)), (''total_count'', JInt (int (length (mp_candidates plan)))),
      (''unaffected_count'', JInt (int (mp_unaffected_count plan))),
      (''old_folder_name'', JStr (mp_old_folder_name plan)), (''new_folder_name'', JStr (mp_new_folder_name plan))] @
     (case current_intent of None \<Rightarrow> [] | Some c \<Rightarrow> [(''current_intent'', JObj (move_candidate_json iso_text c))]) @
     (case reason_code of None \<Rightarrow> [] | Some s \<Rightarrow> [(''reason_code'', JStr s)])"

definition set_run_stats :: "int \<Rightarrow> (string \<times> json) list \<Rightarrow> db \<Rightarrow> db" where
  "set_run_stats run_id stats d =
     d\<lparr>db_runs := set_row run_id (\<lambda>r. r\<lparr>rn_stats_json := Some (JObj stats)\<rparr>) (db_runs d)\<rparr>"

section \<open>The file of one candidate\<close>

text \<open>
  \<open>None\<close> is success; the error is \<open>FolderMoveConfirmationError\<close> or any other. An answer that is lost after
  the file has moved is recognised by the identity at the destination.
\<close>

definition arrived :: "'s storage_adapter \<Rightarrow> 's \<Rightarrow> move_candidate \<Rightarrow> remote_file \<Rightarrow> bool" where
  "arrived ad w c expected \<longleftrightarrow>
     (case ad_inspect_file ad w (mc_destination_path c) of Inl _ \<Rightarrow> False | Inr f \<Rightarrow> identity_matches f expected)"

definition surely_moved :: "'s storage_adapter \<Rightarrow> 's \<Rightarrow> move_candidate \<Rightarrow> remote_file \<Rightarrow> bool" where
  "surely_moved ad w c expected \<longleftrightarrow> ad_exists ad w (mc_source_path c) = Inr False \<and>
     ad_exists ad w (mc_destination_path c) = Inr True \<and> arrived ad w c expected"

definition place_file :: "'s storage_adapter \<Rightarrow> move_candidate \<Rightarrow> remote_file \<Rightarrow> 's \<Rightarrow> move_error option \<times> 's" where
  "place_file ad c expected w =
     (if mc_already_moved c
      then (if ad_exists ad w (mc_source_path c) \<noteq> Inr False \<or> \<not> arrived ad w c expected
            then (Some FolderMoveExecutionError, w) else (None, w))
      else
        (case ad_inspect_file ad w (mc_source_path c) of
           Inl _ \<Rightarrow> (Some FolderMoveExecutionError, w)
         | Inr current \<Rightarrow>
             if \<not> identity_matches current expected then (Some FolderMoveConfirmationError, w)
             else if ad_exists ad w (mc_destination_path c) \<noteq> Inr False then (Some FolderMoveExecutionError, w)
             else
               (case ad_move ad (mc_source_path c) (mc_destination_path c) w of
                  (outcome, w') \<Rightarrow>
                    if isl outcome \<and> \<not> surely_moved ad w' c expected then (Some FolderMoveExecutionError, w')
                    else if \<not> arrived ad w' c expected then (Some FolderMoveExecutionError, w')
                    else (None, w'))))"

section \<open>One candidate\<close>

definition relocated_row :: "move_candidate \<Rightarrow> artifact \<Rightarrow> artifact" where
  "relocated_row c a = a\<lparr>ar_relative_path := mc_destination_path c, ar_absolute_path_cache := None\<rparr>"

definition keep_intent :: "'s move_env \<Rightarrow> move_plan \<Rightarrow> int \<Rightarrow> move_candidate \<Rightarrow> 's move_state \<Rightarrow> db \<Rightarrow> 's move_state" where
  "keep_intent env plan run_id c st d =
     st\<lparr>mx_db := set_run_stats run_id (run_stats (me_iso env) plan (mx_moved st) (Some c) None) d,
        mx_intent := Some c\<rparr>"

definition write_journal :: "'s move_env \<Rightarrow> string \<Rightarrow> (string \<times> json) list \<Rightarrow> 's move_state \<Rightarrow> 's move_state" where
  "write_journal env event vals st = st\<lparr>mx_journal := mx_journal st @ [(event, vals)]\<rparr>"

definition commit_move :: "'s move_env \<Rightarrow> move_plan \<Rightarrow> int \<Rightarrow> move_candidate \<Rightarrow> db \<Rightarrow> 's move_state \<Rightarrow> 's move_state" where
  "commit_move env plan run_id c d st =
     write_journal env ''database_move_committed'' [(''artifact_id'', JInt (mc_artifact_id c))]
       (st\<lparr>mx_db := set_run_stats run_id (run_stats (me_iso env) plan (mx_moved st + 1) None None)
                     (update_artifact (me_now env) (mc_artifact_id c) (relocated_row c) d),
           mx_moved := mx_moved st + 1, mx_intent := None\<rparr>)"

text \<open>The file is in its place: the journal, and the rows once more.\<close>

definition settle_move :: "'s move_env \<Rightarrow> move_plan \<Rightarrow> int \<Rightarrow> nat \<Rightarrow> move_candidate \<Rightarrow> 's move_state
    \<Rightarrow> move_error option \<times> 's move_state" where
  "settle_move env plan run_id k c st =
     (if me_write_fails env (3 * k + 2) then (Some FolderMoveExecutionError, st)
      else
        (let st3 = write_journal env ''physical_move_completed'' (move_candidate_json (me_iso env) c) st;
             d2 = me_before env (2 * k + 3) (mx_db st3)
         in if \<not> move_rows_match (me_digest env) d2 c
            then (Some FolderMoveConfirmationError, st3\<lparr>mx_db := d2\<rparr>)
            else if tget (db_runs d2) run_id = None then (Some FolderMoveExecutionError, st3\<lparr>mx_db := d2\<rparr>)
            else (None, commit_move env plan run_id c d2 st3)))"

definition move_one :: "'s move_env \<Rightarrow> move_plan \<Rightarrow> int \<Rightarrow> nat \<Rightarrow> move_candidate \<Rightarrow> 's move_state
    \<Rightarrow> move_error option \<times> 's move_state" where
  "move_one env plan run_id k c st =
     (let d1 = me_before env (2 * k + 2) (mx_db st)
      in if \<not> playlist_unchanged plan d1 \<or> \<not> move_rows_match (me_digest env) d1 c
         then (Some FolderMoveConfirmationError, st\<lparr>mx_db := d1\<rparr>)
         else if tget (db_runs d1) run_id = None then (Some FolderMoveExecutionError, st\<lparr>mx_db := d1\<rparr>)
         else
           (let st1 = keep_intent env plan run_id c st d1
            in if me_write_fails env (3 * k + 1) then (Some FolderMoveExecutionError, st1)
               else
                 (let st2 = write_journal env ''move_intent'' (move_candidate_json (me_iso env) c) st1
                  in case (me_adapters env (mc_storage_id c), mc_file_identity c) of
                       (Inr ad, Some expected) \<Rightarrow>
                         (case place_file ad c expected (mx_world st2) of
                            (Some e, w') \<Rightarrow> (Some e, st2\<lparr>mx_world := w'\<rparr>)
                          | (None, w') \<Rightarrow> settle_move env plan run_id k c (st2\<lparr>mx_world := w'\<rparr>))
                     | _ \<Rightarrow> (Some FolderMoveExecutionError, st2))))"

fun move_all :: "'s move_env \<Rightarrow> move_plan \<Rightarrow> int \<Rightarrow> nat \<Rightarrow> move_candidate list \<Rightarrow> 's move_state
    \<Rightarrow> move_error option \<times> 's move_state" where
  "move_all env plan run_id k [] st = (None, st)"
| "move_all env plan run_id k (c # cs) st =
     (case move_one env plan run_id k c st of
        (Some e, st') \<Rightarrow> (Some e, st')
      | (None, st') \<Rightarrow> move_all env plan run_id (k + 1) cs st')"

section \<open>The Run\<close>

definition recoverable :: "move_plan \<Rightarrow> db \<Rightarrow> int \<Rightarrow> bool" where
  "recoverable plan d rid \<longleftrightarrow>
     (case tget (db_runs d) rid of None \<Rightarrow> False
      | Some r \<Rightarrow> rn_kind r = ''folder_move'' \<and> rn_playlist_id r = Some (mp_playlist_id plan) \<and>
          rn_status r = RS_Running \<and> jget (move_stats r) ''old_folder_name'' = JStr (mp_old_folder_name plan) \<and>
          jget (move_stats r) ''new_folder_name'' = JStr (mp_new_folder_name plan))"

definition interrupted_row :: "instant \<Rightarrow> run \<Rightarrow> run" where
  "interrupted_row now r = r\<lparr>rn_status := RS_Failed, rn_finished_at := Some now,
     rn_stats_json := Some (JObj (dict_merge (move_stats r) [(''reason_code'', JStr ''process_interrupted'')]))\<rparr>"

definition close_interrupted :: "instant \<Rightarrow> int list \<Rightarrow> db \<Rightarrow> db" where
  "close_interrupted now rids d =
     d\<lparr>db_runs := fold (\<lambda>rid. set_row rid (interrupted_row now)) rids (db_runs d)\<rparr>"

definition move_event :: "string \<Rightarrow> int \<Rightarrow> int \<Rightarrow> string \<Rightarrow> string \<Rightarrow> event" where
  "move_event ty run_id pid key v = Event ty
     [(''run_id'', JInt run_id), (''playlist_id'', JInt pid), (''kind'', JStr ''folder_move''), (key, JStr v)]"

text \<open>What is refused in the first session, which then is rolled back.\<close>

definition start_move :: "'s move_env \<Rightarrow> move_plan \<Rightarrow> db \<Rightarrow> move_error option" where
  "start_move env plan d =
     (let d1 = close_interrupted (me_now env) (mp_recovery_run_ids plan) d
      in if \<not> list_all (recoverable plan d) (mp_recovery_run_ids plan) then Some FolderMoveConfirmationError
         else if playlist_sync_is_active d1 (mp_playlist_id plan) then Some FolderMoveExecutionError
         else if \<not> playlist_unchanged plan d1 \<or> \<not> list_all (move_rows_match (me_digest env) d1) (mp_candidates plan)
         then Some FolderMoveConfirmationError else None)"

definition move_run :: "'s move_env \<Rightarrow> move_plan \<Rightarrow> run" where
  "move_run env plan = (new_run RT_Manual ''folder_move'' (mp_playlist_id plan) (me_now env))
     \<lparr>rn_stats_json := Some (JObj (run_stats (me_iso env) plan 0 None None))\<rparr>"

definition end_run :: "instant \<Rightarrow> int \<Rightarrow> run_status \<Rightarrow> (string \<times> json) list \<Rightarrow> db \<Rightarrow> db" where
  "end_run now run_id status stats d =
     d\<lparr>db_runs := set_row run_id (\<lambda>r. r\<lparr>rn_status := status, rn_finished_at := Some now,
        rn_stats_json := Some (JObj stats)\<rparr>) (db_runs d)\<rparr>"

definition set_log_path :: "int \<Rightarrow> string option \<Rightarrow> db \<Rightarrow> db" where
  "set_log_path run_id path d = d\<lparr>db_runs := set_row run_id (\<lambda>r. r\<lparr>rn_log_path := path\<rparr>) (db_runs d)\<rparr>"

definition rename_folder :: "instant \<Rightarrow> move_plan \<Rightarrow> db \<Rightarrow> db" where
  "rename_folder now plan d = d\<lparr>db_playlists := set_row (mp_playlist_id plan)
     (\<lambda>p. p\<lparr>pl_folder_name := mp_new_folder_name plan, pl_updated_at := now\<rparr>) (db_playlists d)\<rparr>"

text \<open>All candidates and then the name of the folder, which only a complete move changes.\<close>

definition move_and_rename :: "'s move_env \<Rightarrow> move_plan \<Rightarrow> int \<Rightarrow> 's move_state \<Rightarrow> move_error option \<times> 's move_state" where
  "move_and_rename env plan run_id st =
     (case move_all env plan run_id 0 (mp_candidates plan) st of
        (Some e, st') \<Rightarrow> (Some e, st')
      | (None, st') \<Rightarrow>
          (let d = me_before env (2 * length (mp_candidates plan) + 2) (mx_db st')
           in if \<not> playlist_unchanged plan d \<or> tget (db_runs d) run_id = None
              then (Some FolderMoveConfirmationError, st'\<lparr>mx_db := d\<rparr>)
              else (None, write_journal env ''run_finished'' [(''moved_count'', JInt (int (mx_moved st')))]
                      (st'\<lparr>mx_db := end_run (me_now env) run_id RS_Succeeded
                        (run_stats (me_iso env) plan (mx_moved st') None None) (rename_folder (me_now env) plan d)\<rparr>))))"

definition fail_run :: "'s move_env \<Rightarrow> move_plan \<Rightarrow> int \<Rightarrow> string \<Rightarrow> 's move_state \<Rightarrow> 's move_state" where
  "fail_run env plan run_id reason st =
     st\<lparr>mx_db := end_run (me_now env) run_id RS_Failed
        (run_stats (me_iso env) plan (mx_moved st) (mx_intent st) (Some reason)) (me_before_end env (mx_db st))\<rparr>"

definition reported :: "move_error \<Rightarrow> move_error" where
  "reported e = (if e = FolderMoveConfirmationError then e else FolderMoveExecutionError)"

text \<open>The Run is begun; its journal may fail to begin.\<close>

definition run_moves :: "'s move_env \<Rightarrow> move_plan \<Rightarrow> int \<Rightarrow> 's move_state
    \<Rightarrow> (move_error + nat) \<times> 's move_state \<times> event list" where
  "run_moves env plan run_id st =
     (let pid = mp_playlist_id plan; d1 = me_before env 1 (mx_db st)
      in if me_write_fails env 0 \<or> tget (db_runs d1) run_id = None
         then (let st' = fail_run env plan run_id ''journal_initialization_failed''
                 ((if me_write_fails env 0 then st else write_journal env ''run_started'' [(''playlist_id'', JInt pid)] st)
                  \<lparr>mx_db := d1\<rparr>)
               in (Inl FolderMoveExecutionError,
                   st'\<lparr>mx_db := set_log_path run_id (if me_log_kept env then Some (me_log_path env) else None) (mx_db st')\<rparr>,
                   [move_event ''run_failed'' run_id pid ''reason_code'' ''journal_initialization_failed'']))
         else
           (let st1 = write_journal env ''run_started'' [(''playlist_id'', JInt pid)]
                  (st\<lparr>mx_db := set_log_path run_id (Some (me_log_path env)) d1\<rparr>)
            in case move_and_rename env plan run_id st1 of
                 (None, st2) \<Rightarrow>
                   (Inr (mx_moved st2), st2, [move_event ''run_finished'' run_id pid ''status'' ''succeeded''])
               | (Some e, st2) \<Rightarrow>
                   (Inl (reported e),
                    write_journal env ''run_failed'' [(''moved_count'', JInt (int (mx_moved st2)))]
                      (fail_run env plan run_id ''folder_move_failed'' st2),
                    [move_event ''run_failed'' run_id pid ''reason_code'' ''folder_move_failed''])))"

definition perform_move :: "'s move_env \<Rightarrow> move_plan \<Rightarrow> 's \<Rightarrow> db
    \<Rightarrow> (move_error + int \<times> nat \<times> nat) \<times> 's move_state \<times> event list" where
  "perform_move env plan w d =
     (let st0 = \<lparr>mx_db = d, mx_world = w, mx_journal = [], mx_moved = 0, mx_intent = None\<rparr>
      in if \<not> movable plan \<or> list_ex (\<lambda>c. mc_file_identity c = None) (mp_candidates plan)
         then (Inl FolderMovePlanError, st0, [])
         else if me_locked env \<noteq> None then (Inl (the (me_locked env)), st0, [])
         else
           (let d0 = me_before env 0 d
            in case start_move env plan d0 of
                 Some e \<Rightarrow> (Inl e, st0\<lparr>mx_db := d0\<rparr>, [])
               | None \<Rightarrow>
                   (let d1 = close_interrupted (me_now env) (mp_recovery_run_ids plan) d0;
                        run_id = fresh_id (db_runs d1);
                        begun = map (\<lambda>rid. move_event ''run_failed'' rid (mp_playlist_id plan) ''reason_code'' ''process_interrupted'')
                                  (mp_recovery_run_ids plan) @
                                [run_started_event run_id (mp_playlist_id plan) ''folder_move'' RT_Manual]
                    in case run_moves env plan run_id
                              (st0\<lparr>mx_db := d1\<lparr>db_runs := insert_row (move_run env plan) (db_runs d1)\<rparr>\<rparr>) of
                         (Inl e, st, evs) \<Rightarrow> (Inl e, st, begun @ evs)
                       | (Inr moved, st, evs) \<Rightarrow>
                           (Inr (run_id, moved, length (mp_candidates plan)), st, begun @ evs))))"

definition execute_folder_move :: "settings_env \<Rightarrow> (string \<Rightarrow> json option) \<Rightarrow> (json \<Rightarrow> exn + instant)
    \<Rightarrow> 's move_env \<Rightarrow> move_plan \<Rightarrow> string \<Rightarrow> int \<Rightarrow> 's \<Rightarrow> db
    \<Rightarrow> (move_error + int \<times> nat \<times> nat) \<times> 's move_state \<times> event list" where
  "execute_folder_move senv loads read_stamp env plan token ttl_sec w d =
     (let st0 = \<lparr>mx_db = d, mx_world = w, mx_journal = [], mx_moved = 0, mx_intent = None\<rparr>
      in case load_move_confirmation senv loads read_stamp (me_now env) token ttl_sec of
           Inl e \<Rightarrow> (Inl e, st0, [])
         | Inr c \<Rightarrow>
             (case verify_move_plan (me_digest env) (me_iso env) c plan of
                Some e \<Rightarrow> (Inl e, st0, [])
              | None \<Rightarrow> perform_move env plan w d))"

end
