(* ===== verification/Folder_Theorems.thy ===== *)
theory Folder_Theorems
  imports Folder_Execution Retention_Theorems Options_Theorems
begin

text \<open>
  A folder move never overwrites a file and never loses track of one: what a plan promises of its candidates, which
  calls an execution makes, what the Run keeps when it stops anywhere, and that the next plan reads the kept intent
  back.
\<close>

section \<open>The calls of an execution\<close>

definition move_call :: "'s move_env \<Rightarrow> move_candidate \<Rightarrow> 's \<Rightarrow> 's" where
  "move_call env c w =
     (case me_adapters env (mc_storage_id c) of
        Inl _ \<Rightarrow> w | Inr ad \<Rightarrow> snd (ad_move ad (mc_source_path c) (mc_destination_path c) w))"

definition ready_to_move :: "'s move_env \<Rightarrow> move_candidate \<Rightarrow> 's \<Rightarrow> bool" where
  "ready_to_move env c w \<longleftrightarrow>
     (\<exists>ad f expected. me_adapters env (mc_storage_id c) = Inr ad \<and> mc_file_identity c = Some expected \<and>
        ad_inspect_file ad w (mc_source_path c) = Inr f \<and> identity_matches f expected \<and>
        ad_exists ad w (mc_destination_path c) = Inr False)"

fun safe_calls :: "'s move_env \<Rightarrow> move_candidate list \<Rightarrow> 's \<Rightarrow> bool" where
  "safe_calls env [] w \<longleftrightarrow> True"
| "safe_calls env (c # cs) w \<longleftrightarrow> ready_to_move env c w \<and> safe_calls env cs (move_call env c w)"

definition to_move :: "move_candidate list \<Rightarrow> move_candidate list" where
  "to_move cs = filter (\<lambda>c. \<not> mc_already_moved c) cs"

definition moves :: "'s move_env \<Rightarrow> move_candidate list \<Rightarrow> 's \<Rightarrow> 's" where
  "moves env cs w = fold (move_call env) cs w"

lemma safe_calls_append: "safe_calls env (xs @ ys) w \<longleftrightarrow> safe_calls env xs w \<and> safe_calls env ys (moves env xs w)"
  by (induction xs arbitrary: w) (simp_all add: moves_def)

definition quiet_moves :: "'s move_env \<Rightarrow> bool" where
  "quiet_moves env \<longleftrightarrow> (\<forall>k d. me_before env k d = d) \<and> (\<forall>d. me_before_end env d = d)"

lemma place_file_cases:
  assumes "place_file ad c expected w = (r, w')" "me_adapters env (mc_storage_id c) = Inr ad" "mc_file_identity c = Some expected"
  shows "(w' = w \<and> (r = None \<longrightarrow> mc_already_moved c) \<or>
      w' = move_call env c w \<and> \<not> mc_already_moved c \<and> ready_to_move env c w) \<and>
    (r = None \<longrightarrow> arrived ad w' c expected)"
proof (cases "mc_already_moved c")
  case True
  then show ?thesis using assms(1) by (auto simp: place_file_def split: if_splits)
next
  case False
  show ?thesis
  proof (cases "ad_inspect_file ad w (mc_source_path c)")
    case (Inl e)
    then show ?thesis using assms(1) False by (auto simp: place_file_def)
  next
    case (Inr f)
    obtain outcome w1 where mv: "ad_move ad (mc_source_path c) (mc_destination_path c) w = (outcome, w1)" by (metis surj_pair)
    have call: "move_call env c w = w1" using assms(2) mv by (simp add: move_call_def)
    show ?thesis
    proof (cases "identity_matches f expected \<and> ad_exists ad w (mc_destination_path c) = Inr False")
      case True
      then have "ready_to_move env c w" using Inr assms(2,3) by (auto simp: ready_to_move_def)
      then show ?thesis using assms(1) False Inr True mv call
        by (auto simp: place_file_def split: if_splits)
    next
      case no: False
      then have "w' = w \<and> r \<noteq> None" using assms(1) False Inr by (auto simp: place_file_def split: if_splits)
      then show ?thesis by auto
    qed
  qed
qed

definition forget_runs :: "db \<Rightarrow> db" where
  "forget_runs d = d\<lparr>db_runs := []\<rparr>"

definition move_path :: "instant \<Rightarrow> move_candidate \<Rightarrow> db \<Rightarrow> db" where
  "move_path now c d = update_artifact now (mc_artifact_id c) (relocated_row c) d"

lemma forget_runs_simps [simp]:
  "forget_runs (set_run_stats i s d) = forget_runs d"
  "forget_runs (set_log_path i p d) = forget_runs d"
  "forget_runs (end_run now i st s d) = forget_runs d"
  by (simp_all add: forget_runs_def set_run_stats_def set_log_path_def end_run_def)

lemma forget_runs_move_path: "forget_runs (move_path now c d) = move_path now c (forget_runs d)"
  by (simp add: forget_runs_def move_path_def update_artifact_def)

text \<open>What one candidate may do to the state.\<close>

lemma settle_move_cases:
  assumes "settle_move env plan run_id k c st = (r, st')"
  shows "mx_world st' = mx_world st \<and>
    (if r = None then mx_moved st' = mx_moved st + 1 \<and> mx_intent st' = None \<and>
        (quiet_moves env \<longrightarrow> forget_runs (mx_db st') = move_path (me_now env) c (forget_runs (mx_db st)))
     else mx_moved st' = mx_moved st \<and> mx_intent st' = mx_intent st \<and>
        (quiet_moves env \<longrightarrow> mx_db st' = mx_db st))"
proof (cases "me_write_fails env (3 * k + 2)")
  case True
  then show ?thesis using assms by (auto simp: settle_move_def)
next
  case False
  define st3 where "st3 = write_journal env ''physical_move_completed'' (move_candidate_json (me_iso env) c) st"
  define d2 where "d2 = me_before env (2 * k + 3) (mx_db st3)"
  have st3: "mx_moved st3 = mx_moved st" "mx_intent st3 = mx_intent st" "mx_world st3 = mx_world st" "mx_db st3 = mx_db st"
    by (simp_all add: st3_def write_journal_def)
  have q2: "quiet_moves env \<Longrightarrow> d2 = mx_db st" by (simp add: quiet_moves_def d2_def st3)
  consider "r \<noteq> None" "st' = st3\<lparr>mx_db := d2\<rparr>" | (committed) "r = None" "st' = commit_move env plan run_id c d2 st3"
    using assms False unfolding settle_move_def Let_def st3_def[symmetric] d2_def[symmetric]
    by (auto split: if_splits)
  then show ?thesis
  proof cases
    case 1
    then show ?thesis using st3 q2 by simp
  next
    case committed
    have "forget_runs (mx_db st') = move_path (me_now env) c (forget_runs d2)"
      by (simp add: committed(2) commit_move_def write_journal_def move_path_def[symmetric] forget_runs_move_path)
    then have db: "quiet_moves env \<longrightarrow> forget_runs (mx_db st') = move_path (me_now env) c (forget_runs (mx_db st))"
      using q2 by simp
    have "mx_world st' = mx_world st" "mx_moved st' = mx_moved st + 1" "mx_intent st' = None"
      using st3 by (simp_all add: committed(2) commit_move_def write_journal_def)
    with db committed(1) show ?thesis by simp
  qed
qed

lemma move_one_cases:
  assumes "move_one env plan run_id k c st = (r, st')"
  shows "if r = None then
      mx_moved st' = mx_moved st + 1 \<and> mx_intent st' = None \<and>
      mx_world st' = moves env (to_move [c]) (mx_world st) \<and> safe_calls env (to_move [c]) (mx_world st) \<and>
      (quiet_moves env \<longrightarrow> forget_runs (mx_db st') = move_path (me_now env) c (forget_runs (mx_db st)))
    else
      mx_moved st' = mx_moved st \<and>
      (mx_world st' = mx_world st \<and> (mx_intent st' = mx_intent st \<or> mx_intent st' = Some c) \<or>
       mx_world st' = move_call env c (mx_world st) \<and> \<not> mc_already_moved c \<and> ready_to_move env c (mx_world st) \<and>
       mx_intent st' = Some c) \<and>
      (quiet_moves env \<longrightarrow> forget_runs (mx_db st') = forget_runs (mx_db st))"
proof -
  define d1 where "d1 = me_before env (2 * k + 2) (mx_db st)"
  define st1 where "st1 = keep_intent env plan run_id c st d1"
  define st2 where "st2 = write_journal env ''move_intent'' (move_candidate_json (me_iso env) c) st1"
  have q1: "quiet_moves env \<Longrightarrow> d1 = mx_db st" by (simp add: quiet_moves_def d1_def)
  have st1: "mx_moved st1 = mx_moved st" "mx_intent st1 = Some c" "mx_world st1 = mx_world st"
    "forget_runs (mx_db st1) = forget_runs d1"
    by (simp_all add: st1_def keep_intent_def)
  have st2: "mx_moved st2 = mx_moved st" "mx_intent st2 = Some c" "mx_world st2 = mx_world st"
    "forget_runs (mx_db st2) = forget_runs d1"
    using st1 by (simp_all add: st2_def write_journal_def)
  note unfold = move_one_def Let_def d1_def[symmetric] st1_def[symmetric] st2_def[symmetric]
  have early: ?thesis if "st' = st\<lparr>mx_db := d1\<rparr>" "r \<noteq> None" using that q1 by simp
  have intent: ?thesis if "st' = st1 \<or> st' = st2" "r \<noteq> None" using that q1 st1 st2 by auto
  show ?thesis
  proof (cases "\<not> playlist_unchanged plan d1 \<or> \<not> move_rows_match (me_digest env) d1 c")
    case True
    show ?thesis using assms unfolding unfold if_P[OF True] by (intro early) auto
  next
    case rows: False
    show ?thesis
    proof (cases "tget (db_runs d1) run_id = None")
      case True
      show ?thesis using assms unfolding unfold if_not_P[OF rows] if_P[OF True] by (intro early) auto
    next
      case run: False
      show ?thesis
      proof (cases "me_write_fails env (3 * k + 1)")
        case True
        show ?thesis using assms unfolding unfold if_not_P[OF rows] if_not_P[OF run] if_P[OF True] by (intro intent) auto
      next
        case written: False
        note step = assms[unfolded unfold if_not_P[OF rows] if_not_P[OF run] if_not_P[OF written]]
        show ?thesis
        proof (cases "\<exists>ad expected. me_adapters env (mc_storage_id c) = Inr ad \<and> mc_file_identity c = Some expected")
          case False
          then have "st' = st2 \<and> r \<noteq> None" using step
            by (cases "me_adapters env (mc_storage_id c)"; cases "mc_file_identity c") auto
          then show ?thesis by (intro intent) simp_all
        next
          case True
          then obtain ad expected where ad: "me_adapters env (mc_storage_id c) = Inr ad" "mc_file_identity c = Some expected"
            by blast
          obtain r1 w1 where pf: "place_file ad c expected (mx_world st2) = (r1, w1)" by (metis surj_pair)
          have placed: "w1 = mx_world st \<and> (r1 = None \<longrightarrow> mc_already_moved c) \<or>
              w1 = move_call env c (mx_world st) \<and> \<not> mc_already_moved c \<and> ready_to_move env c (mx_world st)"
            using place_file_cases[OF pf ad] st2(3) by auto
          show ?thesis
          proof (cases r1)
            case (Some e)
            then have "r = Some e \<and> st' = st2\<lparr>mx_world := w1\<rparr>" using step ad pf by simp
            then show ?thesis using placed st2 q1 by auto
          next
            case None
            then have settle: "settle_move env plan run_id k c (st2\<lparr>mx_world := w1\<rparr>) = (r, st')" using step ad pf by simp
            have world: "w1 = moves env (to_move [c]) (mx_world st) \<and> safe_calls env (to_move [c]) (mx_world st)"
              using placed None by (auto simp: to_move_def moves_def)
            show ?thesis using settle_move_cases[OF settle] placed world st2 q1 by (cases r) auto
          qed
        qed
      qed
    qed
  qed
qed

lemma to_move_append [simp]: "to_move (xs @ ys) = to_move xs @ to_move ys"
  by (simp add: to_move_def)

lemma to_move_Cons: "to_move (c # cs) = to_move [c] @ to_move cs"
  by (simp add: to_move_def)

lemma moves_append: "moves env (xs @ ys) w = moves env ys (moves env xs w)"
  by (simp add: moves_def)

text \<open>\<open>reach env cs n calls w intent\<close>: \<open>n\<close> candidates are through, and at most the next one has moved, whose intent is kept.\<close>

definition reach :: "move_candidate list \<Rightarrow> nat \<Rightarrow> move_candidate list \<Rightarrow> move_candidate option \<Rightarrow> bool" where
  "reach cs n calls intent \<longleftrightarrow> n \<le> length cs \<and>
     (calls = to_move (take n cs) \<and> (intent = None \<or> n < length cs \<and> intent = Some (cs ! n)) \<or>
      n < length cs \<and> \<not> mc_already_moved (cs ! n) \<and> calls = to_move (take n cs) @ [cs ! n] \<and> intent = Some (cs ! n))"

lemma move_all_reach:
  assumes "move_all env plan run_id k cs st = (r, st')" "mx_intent st = None"
  shows "\<exists>n calls. reach cs n calls (mx_intent st') \<and> safe_calls env calls (mx_world st) \<and>
    mx_world st' = moves env calls (mx_world st) \<and> mx_moved st' = mx_moved st + n \<and>
    (r = None \<longrightarrow> n = length cs \<and> mx_intent st' = None \<and> calls = to_move cs) \<and>
    (quiet_moves env \<longrightarrow> forget_runs (mx_db st') = fold (move_path (me_now env)) (take n cs) (forget_runs (mx_db st)))"
  using assms
proof (induction cs arbitrary: k st)
  case Nil
  then show ?case by (auto simp: reach_def to_move_def moves_def intro!: exI[of _ 0])
next
  case (Cons c cs)
  obtain r1 st1 where one: "move_one env plan run_id k c st = (r1, st1)" by (metis surj_pair)
  note step = move_one_cases[OF one]
  show ?case
  proof (cases r1)
    case (Some e)
    then have res: "r = Some e" "st' = st1" using Cons.prems(1) one by simp_all
    have s: "mx_moved st1 = mx_moved st" "quiet_moves env \<longrightarrow> forget_runs (mx_db st1) = forget_runs (mx_db st)"
      using step Some by auto
    consider "mx_world st1 = mx_world st" "mx_intent st1 = None \<or> mx_intent st1 = Some c"
      | "mx_world st1 = move_call env c (mx_world st)" "\<not> mc_already_moved c" "ready_to_move env c (mx_world st)"
        "mx_intent st1 = Some c"
      using step Some Cons.prems(2) by auto
    then show ?thesis
    proof cases
      case 1
      then show ?thesis using s res
        by (intro exI[of _ 0] exI[of _ "[]"]) (auto simp: reach_def to_move_def moves_def)
    next
      case 2
      then show ?thesis using s res
        by (intro exI[of _ 0] exI[of _ "[c]"]) (auto simp: reach_def to_move_def moves_def)
    qed
  next
    case None
    then have rest: "move_all env plan run_id (k + 1) cs st1 = (r, st')" using Cons.prems(1) one by simp
    have s: "mx_moved st1 = mx_moved st + 1" "mx_intent st1 = None"
      "mx_world st1 = moves env (to_move [c]) (mx_world st)" "safe_calls env (to_move [c]) (mx_world st)"
      "quiet_moves env \<longrightarrow> forget_runs (mx_db st1) = move_path (me_now env) c (forget_runs (mx_db st))"
      using step None by auto
    obtain n calls where ih: "reach cs n calls (mx_intent st')" "safe_calls env calls (mx_world st1)"
      "mx_world st' = moves env calls (mx_world st1)" "mx_moved st' = mx_moved st1 + n"
      "r = None \<longrightarrow> n = length cs \<and> mx_intent st' = None \<and> calls = to_move cs"
      "quiet_moves env \<longrightarrow> forget_runs (mx_db st') = fold (move_path (me_now env)) (take n cs) (forget_runs (mx_db st1))"
      using Cons.IH[OF rest s(2)] by blast
    have "reach (c # cs) (Suc n) (to_move [c] @ calls) (mx_intent st')"
      using ih(1) by (auto simp: reach_def to_move_Cons[of c "take n cs"])
    moreover have "safe_calls env (to_move [c] @ calls) (mx_world st)" using s(3,4) ih(2) by (simp add: safe_calls_append)
    moreover have "mx_world st' = moves env (to_move [c] @ calls) (mx_world st)" using s(3) ih(3) by (simp add: moves_append)
    moreover have "r = None \<longrightarrow> to_move [c] @ calls = to_move (c # cs)" using ih(5) to_move_Cons[of c cs] by simp
    ultimately show ?thesis using s ih
      by (intro exI[of _ "Suc n"] exI[of _ "to_move [c] @ calls"]) auto
  qed
qed

lemma forget_runs_rename: "forget_runs (rename_folder now plan d) = rename_folder now plan (forget_runs d)"
  by (simp add: forget_runs_def rename_folder_def)

lemma move_and_rename_reach:
  assumes "move_and_rename env plan run_id st = (r, st')" "mx_intent st = None"
  shows "\<exists>n calls. reach (mp_candidates plan) n calls (mx_intent st') \<and> safe_calls env calls (mx_world st) \<and>
    mx_world st' = moves env calls (mx_world st) \<and> mx_moved st' = mx_moved st + n \<and>
    (r = None \<longrightarrow> n = length (mp_candidates plan) \<and> mx_intent st' = None \<and>
       (\<forall>x. tget (db_runs (mx_db st')) run_id = Some x \<longrightarrow> rn_status x = RS_Succeeded)) \<and>
    (quiet_moves env \<longrightarrow> forget_runs (mx_db st') =
       (if r = None then rename_folder (me_now env) plan else id)
         (fold (move_path (me_now env)) (take n (mp_candidates plan)) (forget_runs (mx_db st))))"
proof -
  obtain r1 st1 where all: "move_all env plan run_id 0 (mp_candidates plan) st = (r1, st1)" by (metis surj_pair)
  obtain n calls where nc: "reach (mp_candidates plan) n calls (mx_intent st1)" "safe_calls env calls (mx_world st)"
    "mx_world st1 = moves env calls (mx_world st)" "mx_moved st1 = mx_moved st + n"
    "r1 = None \<longrightarrow> n = length (mp_candidates plan) \<and> mx_intent st1 = None \<and> calls = to_move (mp_candidates plan)"
    "quiet_moves env \<longrightarrow> forget_runs (mx_db st1) =
       fold (move_path (me_now env)) (take n (mp_candidates plan)) (forget_runs (mx_db st))"
    using move_all_reach[OF all assms(2)] by blast
  show ?thesis
  proof (cases r1)
    case (Some e)
    then have "r = Some e" "st' = st1" using assms(1) all by (simp_all add: move_and_rename_def)
    then show ?thesis using nc by (intro exI[of _ n] exI[of _ calls]) simp
  next
    case None
    define d where "d = me_before env (2 * length (mp_candidates plan) + 2) (mx_db st1)"
    have q: "quiet_moves env \<Longrightarrow> d = mx_db st1" by (simp add: quiet_moves_def d_def)
    consider (bad) "r = Some FolderMoveConfirmationError" "st' = st1\<lparr>mx_db := d\<rparr>"
      | (good) "r = None" "st' = write_journal env ''run_finished'' [(''moved_count'', JInt (int (mx_moved st1)))]
          (st1\<lparr>mx_db := end_run (me_now env) run_id RS_Succeeded (run_stats (me_iso env) plan (mx_moved st1) None None)
             (rename_folder (me_now env) plan d)\<rparr>)"
      using assms(1) unfolding move_and_rename_def all prod.case None option.case Let_def d_def[symmetric]
      by (auto split: if_splits)
    then show ?thesis
    proof cases
      case bad
      then show ?thesis using nc q by (intro exI[of _ n] exI[of _ calls]) simp
    next
      case good
      have fields: "mx_world st' = mx_world st1" "mx_intent st' = mx_intent st1" "mx_moved st' = mx_moved st1"
        "forget_runs (mx_db st') = rename_folder (me_now env) plan (forget_runs d)"
        "mx_db st' = end_run (me_now env) run_id RS_Succeeded (run_stats (me_iso env) plan (mx_moved st1) None None)
             (rename_folder (me_now env) plan d)"
        by (simp_all add: good(2) write_journal_def forget_runs_rename)
      have "\<forall>x. tget (db_runs (mx_db st')) run_id = Some x \<longrightarrow> rn_status x = RS_Succeeded"
        unfolding fields(5) by (auto simp: end_run_def)
      then show ?thesis using nc q None good(1) fields(1-4)
        by (intro exI[of _ n] exI[of _ calls]) simp
    qed
  qed
qed

section \<open>The Run of an execution\<close>

text \<open>How the Run of an execution stands when it has ended.\<close>

definition run_ended :: "'s move_env \<Rightarrow> move_plan \<Rightarrow> nat \<Rightarrow> move_candidate option \<Rightarrow> bool \<Rightarrow> run \<Rightarrow> bool" where
  "run_ended env plan n intent failed r =
     (if failed then rn_status r = RS_Failed \<and>
        (\<exists>reason. rn_stats_json r = Some (JObj (run_stats (me_iso env) plan n intent (Some reason))))
      else rn_status r = RS_Succeeded)"

lemma fail_run_ended:
  assumes "tget (db_runs (mx_db (fail_run env plan run_id reason st))) run_id = Some r"
  shows "run_ended env plan (mx_moved st) (mx_intent st) True r"
  using assms by (auto simp: fail_run_def end_run_def run_ended_def)

lemma fail_run_simps [simp]:
  "mx_world (fail_run env plan run_id reason st) = mx_world st"
  "mx_intent (fail_run env plan run_id reason st) = mx_intent st"
  "mx_moved (fail_run env plan run_id reason st) = mx_moved st"
  by (simp_all add: fail_run_def)

lemma fail_run_forget:
  "quiet_moves env \<Longrightarrow> forget_runs (mx_db (fail_run env plan run_id reason st)) = forget_runs (mx_db st)"
  by (simp add: fail_run_def quiet_moves_def)

lemma write_journal_simps [simp]:
  "mx_world (write_journal env e v st) = mx_world st" "mx_intent (write_journal env e v st) = mx_intent st"
  "mx_moved (write_journal env e v st) = mx_moved st" "mx_db (write_journal env e v st) = mx_db st"
  by (simp_all add: write_journal_def)

lemma tget_set_log_path:
  "tget (db_runs (set_log_path i p d)) i = map_option (\<lambda>r. r\<lparr>rn_log_path := p\<rparr>) (tget (db_runs d) i)"
  by (simp add: set_log_path_def)

lemma run_ended_log_path [simp]: "run_ended env plan n i f (r\<lparr>rn_log_path := p\<rparr>) = run_ended env plan n i f r"
  by (simp add: run_ended_def)

lemma run_moves_reach:
  assumes "run_moves env plan run_id st = (r, st', evs)" "mx_intent st = None" "mx_moved st = 0"
  shows "\<exists>n calls. reach (mp_candidates plan) n calls (mx_intent st') \<and> safe_calls env calls (mx_world st) \<and>
    mx_world st' = moves env calls (mx_world st) \<and>
    (\<not> isl r \<longrightarrow> n = length (mp_candidates plan) \<and> mx_intent st' = None) \<and>
    (\<forall>x. tget (db_runs (mx_db st')) run_id = Some x \<longrightarrow> run_ended env plan n (mx_intent st') (isl r) x) \<and>
    (quiet_moves env \<longrightarrow> forget_runs (mx_db st') =
       (if isl r then id else rename_folder (me_now env) plan)
         (fold (move_path (me_now env)) (take n (mp_candidates plan)) (forget_runs (mx_db st))))"
proof -
  define d1 where "d1 = me_before env 1 (mx_db st)"
  have q1: "quiet_moves env \<Longrightarrow> d1 = mx_db st" by (simp add: quiet_moves_def d1_def)
  show ?thesis
  proof (cases "me_write_fails env 0 \<or> tget (db_runs d1) run_id = None")
    case True
    define s where "s = (if me_write_fails env 0 then st
        else write_journal env ''run_started'' [(''playlist_id'', JInt (mp_playlist_id plan))] st)\<lparr>mx_db := d1\<rparr>"
    define f where "f = fail_run env plan run_id ''journal_initialization_failed'' s"
    have s: "mx_world s = mx_world st" "mx_intent s = None" "mx_moved s = 0" "mx_db s = d1"
      using assms(2,3) by (simp_all add: s_def)
    have res: "r = Inl FolderMoveExecutionError"
      "st' = f\<lparr>mx_db := set_log_path run_id (if me_log_kept env then Some (me_log_path env) else None) (mx_db f)\<rparr>"
      using assms(1) unfolding run_moves_def Let_def d1_def[symmetric] if_P[OF True] s_def[symmetric] f_def[symmetric]
      by simp_all
    have "\<forall>x. tget (db_runs (mx_db st')) run_id = Some x \<longrightarrow> run_ended env plan 0 (mx_intent st') True x"
      using fail_run_ended[of env plan run_id "''journal_initialization_failed''" s] s
      by (auto simp: res(2) tget_set_log_path f_def)
    then show ?thesis using res(1) s q1
      by (intro exI[of _ 0] exI[of _ "[]"])
        (simp add: reach_def to_move_def moves_def res(2) f_def fail_run_forget)
  next
    case False
    define s where "s = write_journal env ''run_started'' [(''playlist_id'', JInt (mp_playlist_id plan))]
        (st\<lparr>mx_db := set_log_path run_id (Some (me_log_path env)) d1\<rparr>)"
    have s: "mx_world s = mx_world st" "mx_intent s = None" "mx_moved s = 0" "forget_runs (mx_db s) = forget_runs d1"
      using assms(2,3) by (simp_all add: s_def)
    obtain r2 st2 where mr: "move_and_rename env plan run_id s = (r2, st2)" by (metis surj_pair)
    obtain n calls where nc: "reach (mp_candidates plan) n calls (mx_intent st2)" "safe_calls env calls (mx_world st)"
      "mx_world st2 = moves env calls (mx_world st)" "mx_moved st2 = n"
      "r2 = None \<longrightarrow> n = length (mp_candidates plan) \<and> mx_intent st2 = None \<and>
         (\<forall>x. tget (db_runs (mx_db st2)) run_id = Some x \<longrightarrow> rn_status x = RS_Succeeded)"
      "quiet_moves env \<longrightarrow> forget_runs (mx_db st2) =
         (if r2 = None then rename_folder (me_now env) plan else id)
           (fold (move_path (me_now env)) (take n (mp_candidates plan)) (forget_runs d1))"
      using move_and_rename_reach[OF mr s(2)] s by auto
    note step = assms(1)[unfolded run_moves_def Let_def d1_def[symmetric] if_not_P[OF False] s_def[symmetric] mr prod.case]
    show ?thesis
    proof (cases r2)
      case None
      then have "r = Inr (mx_moved st2)" "st' = st2" using step by auto
      then show ?thesis using nc None q1
        by (intro exI[of _ n] exI[of _ calls]) (simp add: run_ended_def)
    next
      case (Some e)
      define f where "f = fail_run env plan run_id ''folder_move_failed'' st2"
      have res: "r = Inl (reported e)"
        "st' = write_journal env ''run_failed'' [(''moved_count'', JInt (int (mx_moved st2)))] f"
        using step unfolding Some option.case f_def[symmetric] by simp_all
      have "\<forall>x. tget (db_runs (mx_db st')) run_id = Some x \<longrightarrow> run_ended env plan n (mx_intent st') True x"
        using fail_run_ended[of env plan run_id "''folder_move_failed''" st2] nc(4) by (simp add: res(2) f_def)
      then show ?thesis using nc Some res(1) q1
        by (intro exI[of _ n] exI[of _ calls]) (simp add: res(2) f_def fail_run_forget)
    qed
  qed
qed

lemma forget_runs_begin [simp]:
  "forget_runs (d\<lparr>db_runs := rs\<rparr>) = forget_runs d" "forget_runs (close_interrupted now rids d) = forget_runs d"
  by (simp_all add: forget_runs_def close_interrupted_def)

lemma ids_fold_set_row: "ids (fold (\<lambda>i. set_row i f) is t) = ids t"
  by (induction "is" arbitrary: t) simp_all

lemma fresh_id_close: "fresh_id (db_runs (close_interrupted now rids d)) = fresh_id (db_runs d)"
  by (simp add: close_interrupted_def fresh_id_def ids_fold_set_row)

lemma perform_move_cases:
  assumes "perform_move env plan w d = (result, st, events)"
  obtains (refused) "isl result" "mx_world st = w" "mx_intent st = None" "mx_db st \<in> {d, me_before env 0 d}" "events = []"
  | (begun) s r evs where "run_moves env plan (fresh_id (db_runs (me_before env 0 d))) s = (r, st, evs)"
      "isl result = isl r" "mx_world s = w" "mx_intent s = None" "mx_moved s = 0"
      "forget_runs (mx_db s) = forget_runs (me_before env 0 d)"
proof -
  define st0 where "st0 = \<lparr>mx_db = d, mx_world = w, mx_journal = [], mx_moved = 0, mx_intent = None\<rparr>"
  define d0 where "d0 = me_before env 0 d"
  note unfold = perform_move_def Let_def st0_def[symmetric] d0_def[symmetric]
  have early: thesis if "isl result" "st = st0 \<or> st = st0\<lparr>mx_db := d0\<rparr>" "events = []"
    by (rule refused) (use that in \<open>auto simp: st0_def d0_def\<close>)
  show thesis
  proof (cases "\<not> movable plan \<or> list_ex (\<lambda>c. mc_file_identity c = None) (mp_candidates plan)")
    case True
    show thesis by (rule early) (use assms[unfolded unfold if_P[OF True]] in auto)
  next
    case plan: False
    show thesis
    proof (cases "me_locked env \<noteq> None")
      case True
      show thesis by (rule early) (use assms[unfolded unfold if_not_P[OF plan] if_P[OF True]] in auto)
    next
      case lock: False
      note step = assms[unfolded unfold if_not_P[OF plan] if_not_P[OF lock]]
      show thesis
      proof (cases "start_move env plan d0")
        case (Some e)
        show thesis by (rule early) (use step[unfolded Some option.case] in auto)
      next
        case None
        define d1 where "d1 = close_interrupted (me_now env) (mp_recovery_run_ids plan) d0"
        define s where "s = st0\<lparr>mx_db := d1\<lparr>db_runs := insert_row (move_run env plan) (db_runs d1)\<rparr>\<rparr>"
        obtain r st' evs where rm: "run_moves env plan (fresh_id (db_runs d1)) s = (r, st', evs)" by (metis surj_pair)
        have res: "st = st'" "isl result = isl r"
          using step unfolding None option.case d1_def[symmetric] s_def[symmetric] rm prod.case
          by (auto split: sum.splits)
        have id: "fresh_id (db_runs d1) = fresh_id (db_runs (me_before env 0 d))" by (simp add: d1_def fresh_id_close d0_def)
        show thesis by (rule begun[OF rm[unfolded id, folded res(1)]]) (simp_all add: res s_def st0_def d1_def d0_def)
      qed
    qed
  qed
qed

text \<open>
  Claim C12: a folder move takes its candidates in order and moves a file only when it is still the confirmed one and
  nothing is at its destination, whatever other processes do to the database between its sessions. However it
  ends, the moved files are those of the first \<open>n\<close> candidates and at most the next one, whose intent the Run then
  keeps; the Run is not left open. Without interference the database has the new paths of exactly these \<open>n\<close>
  artifacts, and the new name of the folder only after a complete move.
\<close>

theorem folder_move_never_overwrites:
  assumes "perform_move env plan w d = (result, st, events)"
  shows "\<exists>n calls. reach (mp_candidates plan) n calls (mx_intent st) \<and> safe_calls env calls w \<and>
    mx_world st = moves env calls w \<and>
    (\<not> isl result \<longrightarrow> n = length (mp_candidates plan) \<and> mx_intent st = None) \<and>
    (events \<noteq> [] \<longrightarrow> (\<forall>r. tget (db_runs (mx_db st)) (fresh_id (db_runs (me_before env 0 d))) = Some r \<longrightarrow>
       run_ended env plan n (mx_intent st) (isl result) r)) \<and>
    (quiet_moves env \<longrightarrow> forget_runs (mx_db st) =
       (if isl result then id else rename_folder (me_now env) plan)
         (fold (move_path (me_now env)) (take n (mp_candidates plan)) (forget_runs d)))"
  using assms
proof (cases rule: perform_move_cases)
  case refused
  then show ?thesis
    by (intro exI[of _ 0] exI[of _ "[]"]) (auto simp: reach_def to_move_def moves_def quiet_moves_def)
next
  case (begun s r evs)
  obtain n calls where nc: "reach (mp_candidates plan) n calls (mx_intent st)" "safe_calls env calls w"
    "mx_world st = moves env calls w" "\<not> isl r \<longrightarrow> n = length (mp_candidates plan) \<and> mx_intent st = None"
    "\<forall>x. tget (db_runs (mx_db st)) (fresh_id (db_runs (me_before env 0 d))) = Some x \<longrightarrow>
       run_ended env plan n (mx_intent st) (isl r) x"
    "quiet_moves env \<longrightarrow> forget_runs (mx_db st) = (if isl r then id else rename_folder (me_now env) plan)
       (fold (move_path (me_now env)) (take n (mp_candidates plan)) (forget_runs (me_before env 0 d)))"
    using run_moves_reach[OF begun(1,4,5)] unfolding begun(3,6) by blast
  moreover have "quiet_moves env \<Longrightarrow> me_before env 0 d = d" by (simp add: quiet_moves_def)
  ultimately show ?thesis by (intro exI[of _ n] exI[of _ calls]) (simp add: begun(2))
qed

section \<open>The intent is read back\<close>

lemma jget_Cons [simp]: "jget ((k', v) # d) k = (if k = k' then v else jget d k)"
  by (simp add: jget_def)

lemma jget_Nil [simp]: "jget [] k = JNull"
  by (simp add: jget_def)

lemma nullable_str [simp]: "nullable read_str (str_or_null s) = Some s"
  by (cases s) (simp_all add: nullable_def str_or_null_def read_str_def)

lemma nullable_int [simp]: "nullable read_int (int_or_null n) = Some n"
  by (cases n) (simp_all add: nullable_def int_or_null_def read_int_def)

lemma read_hashes_json [simp]: "read_hashes (JObj (map (\<lambda>(k, v). (k, JStr v)) h)) = Some h"
  by (induction h) (auto simp: read_hashes_def read_str_def)

lemma remote_file_round_trip [simp]: "remote_file_from_json (remote_file_json f) = Some f"
  by (simp add: remote_file_json_def remote_file_from_json_def read_str_def)

lemma run_stats_intent:
  "jget (run_stats iso_text plan n (Some c) reason) ''current_intent'' = JObj (move_candidate_json iso_text c)"
  "jget (run_stats iso_text plan n (Some c) reason) ''old_folder_name'' = JStr (mp_old_folder_name plan)"
  "jget (run_stats iso_text plan n (Some c) reason) ''new_folder_name'' = JStr (mp_new_folder_name plan)"
  by (simp_all add: run_stats_def)

lemma intent_of_ended_run:
  assumes "run_ended env plan n (Some c) True r"
  shows "intent_of_run (rid, r) = Some (mc_artifact_id c, rid, move_candidate_json (me_iso env) c)"
proof -
  obtain reason where "rn_stats_json r = Some (JObj (run_stats (me_iso env) plan n (Some c) (Some reason)))"
    using assms by (auto simp: run_ended_def)
  moreover have "jget (move_candidate_json (me_iso env) c) ''artifact_id'' = JInt (mc_artifact_id c)"
    by (simp add: move_candidate_json_def)
  ultimately show ?thesis by (simp add: intent_of_run_def move_stats_def run_stats_intent)
qed

lemma ended_run_is_pending:
  assumes "run_ended env plan n (Some c) True r" "rn_playlist_id r = Some (mp_playlist_id plan)" "rn_kind r = ''folder_move''"
    "(rid, r) \<in> set (db_runs d)"
  shows "(rid, r) \<in> set (pending_runs d (mp_playlist_id plan) (mp_old_folder_name plan) (mp_new_folder_name plan))"
proof -
  obtain reason where "rn_stats_json r = Some (JObj (run_stats (me_iso env) plan n (Some c) (Some reason)))"
    using assms(1) by (auto simp: run_ended_def)
  then show ?thesis using assms by (simp add: pending_runs_def run_ended_def move_stats_def run_stats_intent)
qed

lemma map_filter_append: "List.map_filter f (xs @ ys) = List.map_filter f xs @ List.map_filter f ys"
  by (induction xs) (auto simp: List.map_filter_simps split: option.splits)

lemma latest_intent:
  assumes "intent_of_run x = Some (k, v)" "\<forall>y \<in> set later. \<forall>u. intent_of_run y \<noteq> Some (k, u)"
  shows "map_of (pending_intents (earlier @ x # later)) k = Some v"
proof -
  have "k \<notin> fst ` set (rev (List.map_filter intent_of_run later))"
    using assms(2) by (auto simp: List.map_filter_def)
  then have "map_of (rev (List.map_filter intent_of_run later)) k = None" by (simp only: map_of_eq_None_iff) simp
  then show ?thesis using assms(1)
    by (simp add: pending_intents_def map_filter_append List.map_filter_simps map_of_append map_add_def)
qed

text \<open>
  Claim C13: the intent that a failed folder move leaves in its Run is what the next plan of the same rename needs:
  the Run is among the pending ones, and for the artifact's row, unless its row changed or a later Run left
  another intent for it, the plan finds the Run and exactly the file identity that was confirmed, so it can recognise
  the moved file.
\<close>

theorem kept_intent_is_read_back:
  assumes "pending = pending_runs d (mp_playlist_id plan) (mp_old_folder_name plan) (mp_new_folder_name plan)"
    and "run_ended env plan n (Some (make_move_candidate digest row destination (Some f) moved)) True r"
    and "rn_playlist_id r = Some (mp_playlist_id plan)" "rn_kind r = ''folder_move''" "(rid, r) \<in> set (db_runs d)"
    and "\<And>earlier later y u. pending = earlier @ (rid, r) # later \<Longrightarrow> y \<in> set later \<Longrightarrow>
      intent_of_run y \<noteq> Some (ms_artifact_id row, u)"
  shows "pending_intent_for_row (me_iso env) digest (pending_intents (pending)) row destination = Some (rid, f)"
proof -
  let ?c = "make_move_candidate digest row destination (Some f) moved"
  let ?v = "move_candidate_json (me_iso env) ?c"
  obtain earlier later where split: "pending = earlier @ (rid, r) # later"
    using ended_run_is_pending[OF assms(2-5)] unfolding assms(1) by (meson split_list)
  have "mc_artifact_id ?c = ms_artifact_id row" by (simp add: make_move_candidate_def)
  then have "intent_of_run (rid, r) = Some (ms_artifact_id row, rid, ?v)" using intent_of_ended_run[OF assms(2)] by simp
  then have found: "map_of (pending_intents (pending)) (ms_artifact_id row) = Some (rid, ?v)"
    using latest_intent assms(6)[OF split] unfolding split by blast
  have "jget ?v ''artifact_id'' = JInt (ms_artifact_id row)" "jget ?v ''storage_id'' = JInt (ar_storage_id (ms_artifact row))"
    "jget ?v ''source_path'' = JStr (ar_relative_path (ms_artifact row))" "jget ?v ''destination_path'' = JStr destination"
    "jget ?v ''artifact_updated_at'' = JStr (me_iso env (ar_updated_at (ms_artifact row)))"
    "jget ?v ''storage_updated_at'' = JStr (me_iso env (st_updated_at (ms_storage row)))"
    "jget ?v ''storage_config_fingerprint'' = JStr (digest (storage_config (ms_storage row)))"
    "jget ?v ''file_identity'' = remote_file_json f"
    by (simp_all add: move_candidate_json_def make_move_candidate_def)
  then show ?thesis by (simp add: pending_intent_for_row_def equals_int_def found)
qed

section \<open>What a plan promises\<close>

text \<open>A candidate whose file the storage showed: where it was, or already at its destination as the intent says.\<close>

definition verified_move :: "'s move_inputs \<Rightarrow> (int \<Rightarrow> exn + 's storage_adapter)
    \<Rightarrow> (int \<times> int \<times> (string \<times> json) list) list \<Rightarrow> move_row \<Rightarrow> move_candidate \<Rightarrow> bool" where
  "verified_move inp adapters intents row c \<longleftrightarrow>
     (\<exists>ad f. adapters (mc_storage_id c) = Inr ad \<and>
        c = make_move_candidate (mi_digest inp) row (mc_destination_path c) (Some f) (mc_already_moved c) \<and>
        size_failure (ms_artifact row) f = None \<and>
        (if mc_already_moved c
         then ad_exists ad (mi_world inp) (mc_source_path c) = Inr False \<and>
              ad_exists ad (mi_world inp) (mc_destination_path c) = Inr True \<and>
              map_option snd (pending_intent_for_row (mi_iso inp) (mi_digest inp) intents row (mc_destination_path c)) = Some f \<and>
              (\<exists>g. ad_inspect_file ad (mi_world inp) (mc_destination_path c) = Inr g \<and> identity_matches g f)
         else ad_exists ad (mi_world inp) (mc_source_path c) = Inr True \<and>
              ad_exists ad (mi_world inp) (mc_destination_path c) = Inr False \<and>
              ad_inspect_file ad (mi_world inp) (mc_source_path c) = Inr f))"

lemma inspect_move_verified:
  assumes "inspect_move ad w a destination pending = (identity, moved, None)"
  shows "\<exists>f. identity = Some f \<and> size_failure a f = None \<and>
    (if moved then ad_exists ad w (ar_relative_path a) = Inr False \<and> ad_exists ad w destination = Inr True \<and>
        pending = Some f \<and> (\<exists>g. ad_inspect_file ad w destination = Inr g \<and> identity_matches g f)
     else ad_exists ad w (ar_relative_path a) = Inr True \<and> ad_exists ad w destination = Inr False \<and>
        ad_inspect_file ad w (ar_relative_path a) = Inr f)"
  using assms by (auto simp: inspect_move_def split: sum.splits bool.splits option.splits if_splits)

lemma look_at_row_verified:
  assumes "look_at_row inp intents row destination = (identity, moved, None)" "mi_adapters inp = Some adapters"
  shows "verified_move inp adapters intents row (make_move_candidate (mi_digest inp) row destination identity moved)"
proof -
  obtain ad where ad: "adapters (ar_storage_id (ms_artifact row)) = Inr ad"
    "inspect_move ad (mi_world inp) (ms_artifact row) destination
       (map_option snd (pending_intent_for_row (mi_iso inp) (mi_digest inp) intents row destination)) = (identity, moved, None)"
    using assms by (auto simp: look_at_row_def split: sum.splits)
  from inspect_move_verified[OF ad(2)] ad(1) show ?thesis
    by (auto simp: verified_move_def make_move_candidate_def split: if_splits)
qed

definition move_key :: "move_candidate \<Rightarrow> int \<times> string" where
  "move_key c = (mc_storage_id c, mc_destination_path c)"

definition good_collection :: "'s move_inputs \<Rightarrow> (int \<Rightarrow> exn + 's storage_adapter)
    \<Rightarrow> (int \<times> int \<times> (string \<times> json) list) list \<Rightarrow> move_row set \<Rightarrow> move_collection \<Rightarrow> bool" where
  "good_collection inp adapters intents rows c \<longleftrightarrow>
     set (mv_destinations c) = move_key ` set (mv_candidates c) \<and> distinct (map move_key (mv_candidates c)) \<and>
     (mv_blocked c = [] \<longrightarrow> (\<forall>k \<in> set (mv_candidates c). \<exists>row \<in> rows. verified_move inp adapters intents row k))"

lemma add_row_good:
  assumes "add_row inp playlist_name old_name new_name intents row c = Inr c'" "mi_adapters inp = Some adapters"
    "good_collection inp adapters intents rows c" "row \<in> rows"
  shows "good_collection inp adapters intents rows c'"
proof -
  consider (kept) "mv_destinations c' = mv_destinations c" "mv_candidates c' = mv_candidates c"
      "mv_blocked c' = [] \<longrightarrow> mv_blocked c = []"
    | (added) destination identity moved failure where
      "look_at_row inp intents row destination = (identity, moved, failure)"
      "(ar_storage_id (ms_artifact row), destination) \<notin> set (mv_destinations c)"
      "c' = c\<lparr>mv_destinations := (ar_storage_id (ms_artifact row), destination) # mv_destinations c,
              mv_blocked := mv_blocked c @ (case failure of None \<Rightarrow> [] | Some e \<Rightarrow> [MB_Unverified (ms_artifact_id row) e]),
              mv_candidates := mv_candidates c @ [make_move_candidate (mi_digest inp) row destination identity moved]\<rparr>"
    using assms(1) by (auto simp: add_row_def split: if_splits sum.splits option.splits prod.splits)
  then show ?thesis
  proof cases
    case kept
    then show ?thesis using assms(3) by (auto simp: good_collection_def)
  next
    case added
    let ?k = "make_move_candidate (mi_digest inp) row destination identity moved"
    have key: "move_key ?k = (ar_storage_id (ms_artifact row), destination)"
      by (simp add: move_key_def make_move_candidate_def)
    have "verified_move inp adapters intents row ?k" if "failure = None"
      using look_at_row_verified[OF added(1)[unfolded that] assms(2)] .
    then show ?thesis using assms(3,4) added(2) key
      by (cases failure) (auto simp: good_collection_def added(3))
  qed
qed

lemma add_rows_good:
  assumes "add_rows inp playlist_name old_name new_name intents rs c = Inr c'" "mi_adapters inp = Some adapters"
    "good_collection inp adapters intents rows c" "set rs \<subseteq> rows"
  shows "good_collection inp adapters intents rows c'"
  using assms
proof (induction rs arbitrary: c)
  case (Cons row rs)
  then show ?case using add_row_good by (fastforce split: sum.splits)
qed simp

text \<open>
  Claim C14: a movable plan really renames, to a name that its cleaning leaves alone, gives no two artifacts one
  destination on a storage, and has seen every file: each candidate is a row of the playlist whose file is there with
  the recorded size and whose destination is free, or whose file is gone from there and stands at the destination with the
  identity that the intent of an earlier attempt had kept.
\<close>

theorem folder_move_plan_verified:
  assumes "build_folder_move_plan inp pid new_name d = Inr plan" "movable plan" "mi_adapters inp = Some adapters"
  shows "sanitize_component (mp_new_folder_name plan) = Inr (mp_new_folder_name plan) \<and>
    mp_new_folder_name plan \<noteq> mp_old_folder_name plan \<and>
    distinct (map (\<lambda>c. (mc_storage_id c, mc_destination_path c)) (mp_candidates plan)) \<and>
    (\<forall>c \<in> set (mp_candidates plan). \<exists>row \<in> set (move_rows d pid). verified_move inp adapters
       (pending_intents (pending_runs d pid (mp_old_folder_name plan) (mp_new_folder_name plan))) row c)"
proof -
  obtain pl where pl: "tget (db_playlists d) pid = Some pl"
    using assms(1) by (auto simp: build_folder_move_plan_def split: option.splits)
  have clean: "sanitize_component new_name = Inr new_name" "new_name \<noteq> pl_folder_name pl"
    using assms(1) pl by (auto simp: build_folder_move_plan_def split: sum.splits if_splits)
  define intents where "intents = pending_intents (pending_runs d pid (pl_folder_name pl) new_name)"
  obtain c where c: "add_rows inp (pl_name pl) (pl_folder_name pl) new_name intents (move_rows d pid) no_moves = Inr c"
    "mp_candidates plan = mv_candidates c" "mp_blocked_reasons plan = mv_blocked c"
    "mp_old_folder_name plan = pl_folder_name pl" "mp_new_folder_name plan = new_name"
    using assms(1) pl clean by (auto simp: build_folder_move_plan_def Let_def intents_def split: sum.splits)
  have "good_collection inp adapters intents (set (move_rows d pid)) no_moves"
    by (simp add: good_collection_def no_moves_def)
  from add_rows_good[OF c(1) assms(3) this subset_refl] assms(2)
  have good: "distinct (map move_key (mv_candidates c))"
    "\<forall>k \<in> set (mv_candidates c). \<exists>row \<in> set (move_rows d pid). verified_move inp adapters intents row k"
    by (simp_all add: good_collection_def movable_def c(3))
  have "distinct (map (\<lambda>c. (mc_storage_id c, mc_destination_path c)) (mv_candidates c))"
    using good(1) by (simp add: move_key_def[abs_def])
  then show ?thesis using clean good(2) by (simp add: c(2,4,5) intents_def)
qed

section \<open>An interrupted move and its recovery\<close>

text \<open>
  One artifact. Its storage is a truth value, whether the file has moved; the first move's answer is lost, and the
  journal then fails, so the Run ends with the intent kept while the file stands at its destination.
\<close>

definition fw_assignment :: playlist_profile where
  "fw_assignment = \<lparr>pp_playlist_id = 1, pp_profile_id = 1, pp_storage_id = 1, pp_subpath = ''{playlist.folder_name}'',
     pp_enabled = True, pp_sort_order = 0, pp_created_at = 0, pp_updated_at = 0\<rparr>"

definition fw_db :: db where
  "fw_db = iw_db\<lparr>db_profiles := [(1, sample_profile)], db_assignments := [(1, fw_assignment)],
     db_artifacts := [(1, iw_artifact\<lparr>ar_relative_path := ''p/a [x1].mp4'', ar_filesize := Some 3, ar_missing_since := None\<rparr>)]\<rparr>"

definition fw_file :: remote_file where
  "fw_file = \<lparr>rf_relative_path = ''p/a [x1].mp4'', rf_size = Some 3, rf_modified_at = None, rf_hashes = [(''md5'', ''h'')],
     rf_file_id = Some ''7''\<rparr>"

definition fw_place :: "bool \<Rightarrow> string" where
  "fw_place moved = (if moved then ''q/a [x1].mp4'' else ''p/a [x1].mp4'')"

definition fw_adapter :: "bool storage_adapter" where
  "fw_adapter = \<lparr>ad_free_space = (\<lambda>_. Inr None), ad_exists = (\<lambda>w p. Inr (p = fw_place w)),
     ad_list_recursive = (\<lambda>_ _. ([], None)),
     ad_inspect_file = (\<lambda>w p. if p = fw_place w then Inr fw_file else Inl FileNotFoundError),
     ad_publish = (\<lambda>_ _ w. (Inl OSError, w)), ad_hardlink_from = (\<lambda>_ _ _ _ w. (Inr False, w)),
     ad_move = (\<lambda>_ _ w. (Inl OSError, True)), ad_delete_file = (\<lambda>_ _ _ w. (Inl OSError, w))\<rparr>"

definition fw_digest :: "json \<Rightarrow> string" where
  "fw_digest v = ''d''"

definition fw_inputs :: "bool \<Rightarrow> bool move_inputs" where
  "fw_inputs moved = \<lparr>mi_iso = int_str, mi_digest = fw_digest, mi_other_field = (\<lambda>_. Inl KeyError),
     mi_adapters = Some (\<lambda>_. Inr fw_adapter), mi_world = moved\<rparr>"

definition fw_candidate :: "bool \<Rightarrow> move_candidate" where
  "fw_candidate moved = \<lparr>mc_artifact_id = 1, mc_target_id = 1, mc_assignment_id = 1, mc_profile_id = 1, mc_storage_id = 1,
     mc_source_path = ''p/a [x1].mp4'', mc_destination_path = ''q/a [x1].mp4'', mc_artifact_updated_at = 0,
     mc_target_updated_at = 0, mc_assignment_updated_at = 0, mc_profile_updated_at = 0, mc_storage_updated_at = 0,
     mc_storage_config_fingerprint = ''d'', mc_file_identity = Some fw_file, mc_remote_or_mount = False,
     mc_already_moved = moved\<rparr>"

definition fw_plan :: "bool \<Rightarrow> move_plan" where
  "fw_plan moved = \<lparr>mp_playlist_id = 1, mp_old_folder_name = ''p'', mp_new_folder_name = ''q'', mp_playlist_updated_at = 0,
     mp_candidates = [fw_candidate moved], mp_unaffected_count = 0, mp_blocked_reasons = [], mp_recovery_run_ids = []\<rparr>"

definition fw_env :: "bool \<Rightarrow> bool move_env" where
  "fw_env broken = \<lparr>me_adapters = (\<lambda>_. Inr fw_adapter), me_digest = fw_digest, me_iso = int_str, me_now = 9,
     me_locked = None, me_write_fails = (\<lambda>k. broken \<and> k = 2), me_before = (\<lambda>_ d. d), me_before_end = (\<lambda>d. d),
     me_log_path = ''l'', me_log_kept = True\<rparr>"

definition fw_run :: run where
  "fw_run = (move_run (fw_env True) (fw_plan False))\<lparr>rn_status := RS_Failed, rn_finished_at := Some 9, rn_log_path := Some ''l'',
     rn_stats_json := Some (JObj (run_stats int_str (fw_plan False) 0 (Some (fw_candidate False)) (Some ''folder_move_failed'')))\<rparr>"

lemma fw_first_plan: "build_folder_move_plan (fw_inputs False) 1 ''q'' fw_db = Inr (fw_plan False)"
  by code_simp

lemma fw_interrupted:
  "(case perform_move (fw_env True) (fw_plan False) False fw_db of (r, st, evs) \<Rightarrow>
     r = Inl FolderMoveExecutionError \<and> mx_world st \<and> mx_intent st = Some (fw_candidate False) \<and>
     db_runs (mx_db st) = [(1, fw_run)] \<and> evs \<noteq> [])"
  by code_simp

lemma fw_second_plan:
  "build_folder_move_plan (fw_inputs True) 1 ''q'' (fw_db\<lparr>db_runs := [(1, fw_run)]\<rparr>) = Inr (fw_plan True)"
  by code_simp

lemma fw_recovered:
  "(case perform_move (fw_env False) (fw_plan True) True (fw_db\<lparr>db_runs := [(1, fw_run)]\<rparr>) of (r, st, evs) \<Rightarrow>
     r = Inr (2, 1, 1) \<and> map (ar_relative_path \<circ> snd) (db_artifacts (mx_db st)) = [''q/a [x1].mp4''] \<and>
     map (pl_folder_name \<circ> snd) (db_playlists (mx_db st)) = [''q''])"
  by code_simp

theorem folder_move_plan_verified_witness:
  "\<exists>row \<in> set (move_rows (fw_db\<lparr>db_runs := [(1, fw_run)]\<rparr>) 1).
     verified_move (fw_inputs True) (\<lambda>_. Inr fw_adapter)
       (pending_intents (pending_runs (fw_db\<lparr>db_runs := [(1, fw_run)]\<rparr>) 1 ''p'' ''q'')) row (fw_candidate True)"
proof -
  have "movable (fw_plan True)" by (simp add: movable_def fw_plan_def)
  moreover have "mi_adapters (fw_inputs True) = Some (\<lambda>_. Inr fw_adapter)" by (simp add: fw_inputs_def)
  ultimately show ?thesis using folder_move_plan_verified[OF fw_second_plan] by (simp add: fw_plan_def)
qed

theorem folder_move_never_overwrites_witness:
  "\<exists>n calls. reach [fw_candidate False] n calls (Some (fw_candidate False)) \<and> safe_calls (fw_env True) calls False \<and>
     moves (fw_env True) calls False"
proof -
  obtain r st evs where run: "perform_move (fw_env True) (fw_plan False) False fw_db = (r, st, evs)" by (metis surj_pair)
  have "mx_world st" "mx_intent st = Some (fw_candidate False)" using fw_interrupted unfolding run prod.case by blast+
  moreover have "mp_candidates (fw_plan False) = [fw_candidate False]" by (simp add: fw_plan_def)
  ultimately show ?thesis using folder_move_never_overwrites[OF run] by metis
qed

definition fw_row :: move_row where
  "fw_row = hd (move_rows fw_db 1)"

lemma fw_row_candidate: "fw_candidate False = make_move_candidate fw_digest fw_row ''q/a [x1].mp4'' (Some fw_file) False"
  by code_simp

theorem kept_intent_is_read_back_witness:
  "pending_intent_for_row int_str fw_digest (pending_intents [(1, fw_run)]) fw_row ''q/a [x1].mp4'' = Some (1, fw_file)"
proof -
  let ?d = "fw_db\<lparr>db_runs := [(1, fw_run)]\<rparr>"
  have ended: "run_ended (fw_env True) (fw_plan False) 0
      (Some (make_move_candidate fw_digest fw_row ''q/a [x1].mp4'' (Some fw_file) False)) True fw_run"
    unfolding fw_row_candidate[symmetric] by (auto simp: run_ended_def fw_run_def fw_env_def)
  have run: "rn_playlist_id fw_run = Some (mp_playlist_id (fw_plan False))" "rn_kind fw_run = ''folder_move''"
    by (simp_all add: fw_run_def move_run_def new_run_def fw_plan_def)
  have pending: "[(1, fw_run)] =
      pending_runs ?d (mp_playlist_id (fw_plan False)) (mp_old_folder_name (fw_plan False)) (mp_new_folder_name (fw_plan False))"
    by code_simp
  have iso: "me_iso (fw_env True) = int_str" by (simp add: fw_env_def)
  show ?thesis
    by (rule kept_intent_is_read_back[OF pending ended run, unfolded iso]) (auto simp: Cons_eq_append_conv)
qed

end
