(* ===== verification/Storage_Contract.thy ===== *)
theory Storage_Contract
  imports Local_Theorems Publishing_Theorems Folder_Theorems
begin

text \<open>
  What the parts that write to a storage rely on, as interfaces, and what they keep because of it: the publish handler
  leaves every existing entry as it was, a folder move loses no file. The adapter of a local directory provides
  both contracts, so the theorems hold for the composed program.
\<close>

section \<open>Storages that keep what they have\<close>

locale file_store =
  fixes ready :: "'s storage_adapter \<Rightarrow> string \<Rightarrow> 's \<Rightarrow> bool"
    and kept :: "'s \<Rightarrow> 's \<Rightarrow> bool"
  assumes kept_refl: "kept w w"
    and kept_trans: "kept w1 w2 \<Longrightarrow> kept w2 w3 \<Longrightarrow> kept w1 w3"
    and publish_keeps: "ready ad dest w \<Longrightarrow> ad_publish ad src dest w = (r, w') \<Longrightarrow> kept w w'"
    and link_keeps: "ready ad dest w \<Longrightarrow> ad_hardlink_from ad sid path dest expected w = (r2, w') \<Longrightarrow> kept w w' \<and> ready ad dest w'"
begin

lemma hardlink_keeps:
  assumes "try_hardlink pj dest n sha w = (r, w')" "ready (pj_adapter pj) dest w"
  shows "kept w w' \<and> ready (pj_adapter pj) dest w'"
proof -
  have "w' = w \<or> (\<exists>sid path existing r2. ad_hardlink_from (pj_adapter pj) sid path dest existing w = (r2, w'))"
    using assms(1) unfolding try_hardlink_def by (auto split: option.splits sum.splits exn.splits if_splits prod.splits)
  then show ?thesis using assms(2) kept_refl link_keeps by blast
qed

lemma world_of_failure [simp]:
  "snd (snd (snd (fail_publish tid c m now reports d w))) = w"
  "snd (snd (snd (publish_exception tid e now reports d w))) = w"
  by (auto simp: fail_publish_def publish_exception_def split: prod.splits exn.splits)

lemma copy_keeps:
  assumes "ready (pj_adapter pj) dest w"
  shows "kept w (snd (snd (snd (publish_copy pj resolved dest now d w))))"
proof -
  obtain r w' where p: "ad_publish (pj_adapter pj) resolved dest w = (r, w')" by (metis surj_pair)
  have "snd (snd (snd (publish_copy pj resolved dest now d w))) = w'"
    unfolding publish_copy_def p by (auto split: sum.splits bool.splits)
  then show ?thesis using publish_keeps[OF assms p] by simp
qed

lemma new_keeps:
  assumes "ready (pj_adapter pj) dest w"
  shows "kept w (snd (snd (snd (publish_new pj resolved dest n sha now d w))))"
proof -
  obtain r w1 where h: "try_hardlink pj dest n sha w = (r, w1)" by (metis surj_pair)
  note k = hardlink_keeps[OF h assms]
  from copy_keeps[of pj dest w1 resolved now d] k kept_trans show ?thesis
    unfolding publish_new_def h by (auto split: sum.splits bool.splits)
qed

lemma transfer_keeps:
  assumes "ready (pj_adapter pj) dest w"
  shows "kept w (snd (snd (snd (publish_transfer he pj resolved dest now d w))))"
  unfolding publish_transfer_def Let_def
  using new_keeps[OF assms] kept_refl
  by (auto split: sum.splits option.splits if_splits)

lemma run_keeps:
  assumes "publish_graph d tid = Some (sid, st, pp, pl, it)" "maker sid st = Inr ad"
    "json_int (jget payload ''target_id'') = Some tid" "jget payload ''work_id'' = JStr work_id"
    "\<And>previous resolved. previous_payload payload (db_tasks d) = Inr previous \<Longrightarrow>
      staged_source he work_id previous = Some resolved \<Longrightarrow> ready ad (relative_to resolved (hv_work_root he work_id)) w"
  shows "kept w (snd (snd (snd (publish_run he maker now payload d w))))"
proof (cases "previous_payload payload (db_tasks d)")
  case (Inl e)
  then show ?thesis using assms(3,4) kept_refl by (simp add: publish_run_def)
next
  case prev: (Inr previous)
  show ?thesis
  proof (cases "publish_job_of he maker tid previous d (sid, st, pp, pl, it)")
    case (Inl e)
    then show ?thesis using assms(1,3,4) prev kept_refl by (simp add: publish_run_def Let_def)
  next
    case (Inr pj)
    have job: "pj_adapter pj = ad" using Inr assms(2) by (auto simp: publish_job_of_def Let_def split: sum.splits)
    have transfer: "kept w (snd (snd (snd (publish_transfer he pj resolved (relative_to resolved (hv_work_root he work_id)) now d1 w))))"
      if "staged_source he work_id previous = Some resolved" for resolved d1
      by (rule transfer_keeps) (simp add: job assms(5)[OF prev that])
    show ?thesis
      unfolding publish_run_def Let_def
      using assms(1,3,4) prev Inr transfer kept_refl
      by (auto simp: staged_source_def split: sum.splits option.splits if_splits prod.splits json.splits)
  qed
qed

end

text \<open>A store whose files can also be moved: a move may change where a file is, not whether it is there.\<close>

locale moving_store = file_store ready kept
  for ready :: "'s storage_adapter \<Rightarrow> string \<Rightarrow> 's \<Rightarrow> bool" and kept :: "'s \<Rightarrow> 's \<Rightarrow> bool" +
  fixes movable_store :: "'s storage_adapter \<Rightarrow> bool"
    and no_loss :: "'s \<Rightarrow> 's \<Rightarrow> bool"
  assumes kept_no_loss: "kept w w' \<Longrightarrow> no_loss w w'"
    and no_loss_trans: "no_loss w1 w2 \<Longrightarrow> no_loss w2 w3 \<Longrightarrow> no_loss w1 w3"
    and move_no_loss: "movable_store ad \<Longrightarrow> ad_move ad src dest w = (r, w') \<Longrightarrow> no_loss w w'"
begin

definition movable_stores :: "'s move_env \<Rightarrow> bool" where
  "movable_stores env \<longleftrightarrow> (\<forall>sid ad. me_adapters env sid = Inr ad \<longrightarrow> movable_store ad)"

lemma no_loss_refl: "no_loss w w"
  by (rule kept_no_loss[OF kept_refl])

lemma call_no_loss: "movable_stores env \<Longrightarrow> no_loss w (move_call env c w)"
  unfolding move_call_def movable_stores_def
  by (cases "me_adapters env (mc_storage_id c)") (auto intro: no_loss_refl move_no_loss prod.collapse[symmetric])

lemma moves_no_loss: "movable_stores env \<Longrightarrow> no_loss w (moves env cs w)"
proof (induction cs arbitrary: w)
  case Nil
  then show ?case by (simp add: moves_def no_loss_refl)
next
  case (Cons c cs)
  then show ?case using no_loss_trans[OF call_no_loss[of env w c] Cons.IH] by (simp add: moves_def)
qed

lemma folder_no_loss:
  assumes "perform_move env plan w d = (result, st, events)" "movable_stores env"
  shows "no_loss w (mx_world st)"
  using assms(1)
proof (cases rule: perform_move_cases)
  case (begun s r evs)
  then show ?thesis using run_moves_reach[OF begun(1,4,5)] moves_no_loss[OF assms(2)] by auto
qed (simp add: no_loss_refl)

end

section \<open>The local directory\<close>

text \<open>Symbolic links do not lead to a name made from the fresh identifier of a publication.\<close>

definition temp_name :: "local_env \<Rightarrow> string \<Rightarrow> bool" where
  "temp_name env x \<longleftrightarrow> (\<exists>name. x = name @ temp_suffix env)"

definition plain_path :: "local_env \<Rightarrow> path \<Rightarrow> bool" where
  "plain_path env p \<longleftrightarrow> (\<forall>x \<in> set p. \<not> temp_name env x)"

definition good_env :: "local_env \<Rightarrow> bool" where
  "good_env env \<longleftrightarrow> others_add env \<and> resolve_plain env \<and> plain_path env (lo_root env) \<and>
     (\<forall>f p. plain_path env p \<longrightarrow> plain_path env (lo_resolve env f p))"

definition fresh_uuid :: "local_env \<Rightarrow> file_system \<Rightarrow> bool" where
  "fresh_uuid env fs \<longleftrightarrow> (\<forall>p. is_temp env p \<longrightarrow> fs p = None)"

definition local_ready :: "file_system storage_adapter \<Rightarrow> string \<Rightarrow> file_system \<Rightarrow> bool" where
  "local_ready ad dest fs \<longleftrightarrow> (\<exists>env other. ad = local_adapter env other \<and> good_env env \<and> fresh_uuid env fs \<and>
     (\<forall>n. validate_relative_path dest False = Inr n \<longrightarrow> plain_path env (path_parts n)))"

definition local_moves :: "file_system storage_adapter \<Rightarrow> bool" where
  "local_moves ad \<longleftrightarrow> (\<exists>env other. ad = local_adapter env other \<and> others_add env)"

definition every_file_kept :: "file_system \<Rightarrow> file_system \<Rightarrow> bool" where
  "every_file_kept fs fs' \<longleftrightarrow> (\<forall>p i. fs p = Some (N_File i) \<longrightarrow> (\<exists>q. fs' q = Some (N_File i)))"


lemma map_le_update: "f \<subseteq>\<^sub>m g \<Longrightarrow> g p = None \<Longrightarrow> f \<subseteq>\<^sub>m g(p \<mapsto> v)"
  by (rule map_le_new)

lemma others_adds: "others_add env \<Longrightarrow> f \<subseteq>\<^sub>m g \<Longrightarrow> f \<subseteq>\<^sub>m lo_others env n g"
  unfolding others_add_def by (blast intro: map_le_trans)

lemma others_fresh: "others_add env \<Longrightarrow> fresh_uuid env fs \<Longrightarrow> fresh_uuid env (lo_others env n fs)"
  by (auto simp: others_add_def fresh_uuid_def)

lemma plain_not_temp: "plain_path env p \<Longrightarrow> \<not> is_temp env p"
  by (auto simp: plain_path_def is_temp_def temp_name_def)

lemma plain_take: "plain_path env p \<Longrightarrow> plain_path env (take n p)"
  by (auto simp: plain_path_def dest: in_set_takeD)

lemma plain_butlast: "plain_path env p \<Longrightarrow> plain_path env (butlast p)"
  by (auto simp: plain_path_def dest: in_set_butlastD)

lemma fresh_update: "fresh_uuid env fs \<Longrightarrow> \<not> is_temp env p \<Longrightarrow> fresh_uuid env (fs(p \<mapsto> v))"
  by (auto simp: fresh_uuid_def)

lemma make_parents_fresh:
  assumes "make_parents env p fs = (e, fs')" "plain_path env p" "fresh_uuid env fs"
  shows "fresh_uuid env fs'"
proof -
  have "fresh_uuid env (fold (\<lambda>a f. if f a = None then f(a := Some N_Dir) else f) as g)"
    if "\<forall>a \<in> set as. plain_path env a" "fresh_uuid env g" for as and g :: file_system
    using that
  proof (induction as arbitrary: g)
    case (Cons a as)
    then have "fresh_uuid env (if g a = None then g(a := Some N_Dir) else g)"
      by (simp add: fresh_update plain_not_temp)
    with Cons show ?case by simp
  qed simp
  from this[of "map (\<lambda>n. take n p) [1..<Suc (length p)]" fs] assms plain_take[OF assms(2)] show ?thesis
    by (auto simp: make_parents_def Let_def simp del: upt_Suc split: option.splits if_splits)
qed

lemma hardlink_cases:
  assumes "local_hardlink_from env source src_rel dest_rel expected fs = (r, fs')"
  obtains "fs' = fs"
  | candidate e fs1 where "local_path env fs dest_rel False = Inr candidate"
      "make_parents env (butlast candidate) fs = (e, fs1)" "fs' = fs1 \<or> fs' = lo_others env 1 fs1"
  | candidate e fs1 dest i where "local_path env fs dest_rel False = Inr candidate"
      "make_parents env (butlast candidate) fs = (e, fs1)" "no_follow_path env fs1 dest_rel = Inr dest"
      "lo_others env 1 fs1 dest = None" "fs' = lo_others env 2 ((lo_others env 1 fs1)(dest \<mapsto> N_File i))"
proof -
  have "fs' = fs \<or> (\<exists>candidate e fs1. local_path env fs dest_rel False = Inr candidate \<and>
      make_parents env (butlast candidate) fs = (e, fs1) \<and> (fs' = fs1 \<or> fs' = lo_others env 1 fs1 \<or>
        (\<exists>dest i. no_follow_path env fs1 dest_rel = Inr dest \<and> lo_others env 1 fs1 dest = None \<and>
           fs' = lo_others env 2 ((lo_others env 1 fs1)(dest \<mapsto> N_File i)))))"
    using assms unfolding local_hardlink_from_def Let_def
    by (auto split: option.splits sum.splits prod.splits node.splits if_splits)
  then show thesis using that by blast
qed

lemma local_path_plain:
  assumes "local_path env fs rel False = Inr p" "good_env env"
    "\<forall>n. validate_relative_path rel False = Inr n \<longrightarrow> plain_path env (path_parts n)"
  shows "plain_path env p"
proof -
  obtain n where n: "validate_relative_path rel False = Inr n" "p = lo_resolve env fs (lo_root env @ path_parts n)"
    using assms(1) by (auto simp: local_path_def Let_def split: sum.splits if_splits)
  have "plain_path env (lo_root env @ path_parts n)" using assms(2,3) n(1) by (auto simp: good_env_def plain_path_def)
  then show ?thesis using assms(2) by (simp add: n(2) good_env_def)
qed

lemma validated_parts:
  assumes "validate_relative_path rel False = Inr n"
  shows "path_parts n \<noteq> []"
proof -
  obtain m where "n = join ''/'' (path_parts m)" "path_parts m \<noteq> []"
    using assms by (auto simp: validate_relative_path_def Let_def split: if_splits)
  then show ?thesis using path_parts_join[of "path_parts m"] path_parts_mem[of _ m] by simp
qed

lemma no_follow_plain:
  assumes "no_follow_path env fs rel = Inr p" "good_env env"
    "\<forall>n. validate_relative_path rel False = Inr n \<longrightarrow> plain_path env (path_parts n)"
  shows "plain_path env p"
proof -
  obtain n where n: "validate_relative_path rel False = Inr n"
    "p = lo_resolve env fs (butlast (lo_root env @ path_parts n)) @ [last (lo_root env @ path_parts n)]"
    using assms(1) by (auto simp: no_follow_path_def Let_def split: sum.splits if_splits)
  have "plain_path env (lo_root env @ path_parts n)" using assms(2,3) n(1) by (auto simp: good_env_def plain_path_def)
  moreover have "path_parts n \<noteq> []" using validated_parts n(1) by blast
  ultimately show ?thesis using assms(2) plain_butlast[of env "lo_root env @ path_parts n"]
    unfolding n(2) good_env_def plain_path_def
    by (metis (no_types, lifting) append_is_Nil_conv last_in_set set_ConsD set_append Un_iff list.set(1) empty_iff)
qed


lemma hardlink_law:
  assumes "local_hardlink_from env source src_rel dest_rel expected fs = (r, fs')" "good_env env" "fresh_uuid env fs"
    "\<forall>n. validate_relative_path dest_rel False = Inr n \<longrightarrow> plain_path env (path_parts n)"
  shows "fs \<subseteq>\<^sub>m fs' \<and> fresh_uuid env fs'"
proof -
  have others: "others_add env" using assms(2) by (simp add: good_env_def)
  have parents: "fs \<subseteq>\<^sub>m fs1 \<and> fresh_uuid env fs1"
    if "local_path env fs dest_rel False = Inr candidate" "make_parents env (butlast candidate) fs = (e, fs1)" for candidate e fs1
    using make_parents_adds[OF that(2)]
      make_parents_fresh[OF that(2) plain_butlast[OF local_path_plain[OF that(1) assms(2,4)]] assms(3)] by simp
  from assms(1) show ?thesis
  proof (cases rule: hardlink_cases)
    case 1
    then show ?thesis using assms(3) by simp
  next
    case (2 candidate e fs1)
    then show ?thesis using parents[OF 2(1,2)] others_adds[OF others] others_fresh[OF others] by auto
  next
    case (3 candidate e fs1 dest i)
    have f2: "fs \<subseteq>\<^sub>m lo_others env 1 fs1" "fresh_uuid env (lo_others env 1 fs1)"
      using parents[OF 3(1,2)] others_adds[OF others] others_fresh[OF others] by auto
    have "\<not> is_temp env dest" using no_follow_plain[OF 3(3) assms(2,4)] plain_not_temp by blast
    then have "fs \<subseteq>\<^sub>m (lo_others env 1 fs1)(dest \<mapsto> N_File i)" "fresh_uuid env ((lo_others env 1 fs1)(dest \<mapsto> N_File i))"
      using map_le_update[OF f2(1) 3(4)] fresh_update[OF f2(2)] by auto
    then show ?thesis unfolding 3(5) using others_adds[OF others] others_fresh[OF others] by blast
  qed
qed

lemma every_file_kept_trans: "every_file_kept f g \<Longrightarrow> every_file_kept g h \<Longrightarrow> every_file_kept f h"
  unfolding every_file_kept_def by metis

lemma map_le_files: "f \<subseteq>\<^sub>m g \<Longrightarrow> every_file_kept f g"
  unfolding every_file_kept_def map_le_rows by blast

lemma rename_files: "rename_noreplace env p q fs = (e, fs') \<Longrightarrow> every_file_kept fs fs'"
proof (drule rename_cases, elim disjE exE conjE)
  fix n assume r: "fs p = Some n" "fs q = None" "fs' = fs(p := None, q := Some n)"
  have "\<exists>q'. fs' q' = Some (N_File i)" if "fs p' = Some (N_File i)" for p' i
  proof (cases "p' = p")
    case True
    then show ?thesis using that r by (intro exI[of _ q]) simp
  next
    case False
    then show ?thesis using that r by (intro exI[of _ p']) auto
  qed
  then show "every_file_kept fs fs'" by (simp add: every_file_kept_def)
qed (simp add: map_le_files)

lemma move_law:
  assumes "local_move env src_rel dest_rel fs = (r, fs')" "others_add env"
  shows "every_file_kept fs fs'"
proof -
  have "fs' = fs \<or> (\<exists>p e fs1. make_parents env p fs = (e, fs1) \<and>
      (fs' = fs1 \<or> (\<exists>src dest e2. rename_noreplace env src dest (lo_others env 1 fs1) = (e2, fs'))))"
    using assms(1) unfolding local_move_def
    by (auto split: option.splits sum.splits prod.splits node.splits if_splits)
  then consider "fs' = fs" | p e where "make_parents env p fs = (e, fs')"
    | p e fs1 src dest e2 where "make_parents env p fs = (e, fs1)"
      "rename_noreplace env src dest (lo_others env 1 fs1) = (e2, fs')" by blast
  then show ?thesis
  proof cases
    case 1
    then show ?thesis by (simp add: map_le_files)
  next
    case 2
    then show ?thesis by (intro map_le_files make_parents_adds)
  next
    case 3
    have "fs \<subseteq>\<^sub>m lo_others env 1 fs1" using make_parents_adds[OF 3(1)] by (rule others_adds[OF assms(2)])
    then show ?thesis using every_file_kept_trans[OF map_le_files rename_files[OF 3(2)]] by blast
  qed
qed

text \<open>The adapter of a local directory honours both contracts.\<close>

interpretation local_store: file_store local_ready "(\<subseteq>\<^sub>m)"
proof unfold_locales
  fix ad dest src r and fs fs' :: file_system
  assume "local_ready ad dest fs" "ad_publish ad src dest fs = (r, fs')"
  then show "fs \<subseteq>\<^sub>m fs'"
    using local_publish_result by (auto simp: local_ready_def good_env_def fresh_uuid_def local_adapter_def)
next
  fix ad dest sid path expected r2 and fs fs' :: file_system
  assume "local_ready ad dest fs" "ad_hardlink_from ad sid path dest expected fs = (r2, fs')"
  then show "fs \<subseteq>\<^sub>m fs' \<and> local_ready ad dest fs'"
    using hardlink_law unfolding local_ready_def by (auto simp: local_adapter_def)
qed (auto intro: map_le_trans)

interpretation local_moving: moving_store local_ready "(\<subseteq>\<^sub>m)" local_moves every_file_kept
proof unfold_locales
  fix ad src dest r and fs fs' :: file_system
  assume "local_moves ad" "ad_move ad src dest fs = (r, fs')"
  then show "every_file_kept fs fs'" using move_law by (auto simp: local_moves_def local_adapter_def)
qed (auto intro: map_le_files every_file_kept_trans)

section \<open>The composed program\<close>


text \<open>
  Claim C10: a folder move over local directories loses no file, whatever fails and whenever it stops: every file that
  was somewhere before, its contents and its identity, is somewhere afterwards.
\<close>

theorem local_folder_move_loses_nothing:
  assumes "perform_move env plan fs d = (result, st, events)"
    and "\<And>sid ad. me_adapters env sid = Inr ad \<Longrightarrow> \<exists>lo other. ad = local_adapter lo other \<and> others_add lo"
  shows "\<forall>p i. fs p = Some (N_File i) \<longrightarrow> (\<exists>q. mx_world st q = Some (N_File i))"
proof -
  have "local_moving.movable_stores env" using assms(2) by (auto simp: local_moving.movable_stores_def local_moves_def)
  from local_moving.folder_no_loss[OF assms(1) this] show ?thesis by (simp add: every_file_kept_def)
qed


section \<open>A publication and a folder move on the model of the file system\<close>

definition sc_fs :: file_system where
  "sc_fs = small_fs([''s'', ''w'', ''a.mp3''] \<mapsto> N_File song, [''m'', ''p''] \<mapsto> N_Dir,
     [''m'', ''p'', ''a [x1].mp4''] \<mapsto> N_File song)"

abbreviation sc_adapter :: "file_system storage_adapter" where
  "sc_adapter \<equiv> local_adapter quiet_env (\<lambda>_. None)"

lemma sc_env: "good_env quiet_env" "fresh_uuid quiet_env sc_fs"
proof -
  have "\<not> temp_name quiet_env ''m''" by (simp add: temp_name_def temp_suffix_def quiet_env_def append_eq_Cons_conv Cons_eq_append_conv)
  then show "good_env quiet_env"
    by (simp add: good_env_def others_add_def resolve_plain_def plain_path_def quiet_env_def)
  show "fresh_uuid quiet_env sc_fs"
    by (auto simp: fresh_uuid_def sc_fs_def small_fs_def is_temp_def temp_suffix_def quiet_env_def
        append_eq_Cons_conv Cons_eq_append_conv)
qed

definition sc_plan :: move_plan where
  "sc_plan = (fw_plan False)\<lparr>mp_candidates :=
     [(fw_candidate False)\<lparr>mc_file_identity := Some (remote_of quiet_env ''p/a [x1].mp4'' song)\<rparr>]\<rparr>"

definition sc_move_env :: "file_system move_env" where
  "sc_move_env = \<lparr>me_adapters = (\<lambda>_. Inr sc_adapter), me_digest = fw_digest, me_iso = int_str, me_now = 9,
     me_locked = None, me_write_fails = (\<lambda>_. False), me_before = (\<lambda>_ d. d), me_before_end = (\<lambda>d. d),
     me_log_path = ''l'', me_log_kept = True\<rparr>"

lemma sc_moved:
  "(case perform_move sc_move_env sc_plan sc_fs fw_db of (r, st, evs) \<Rightarrow>
     r = Inr (1, 1, 1) \<and> mx_world st [''m'', ''p'', ''a [x1].mp4''] = None \<and>
     mx_world st [''m'', ''q'', ''a [x1].mp4''] = Some (N_File song))"
  by code_simp

theorem local_folder_move_loses_nothing_witness:
  "\<exists>r st evs. perform_move sc_move_env sc_plan sc_fs fw_db = (r, st, evs) \<and> \<not> isl r \<and>
     (\<exists>q. mx_world st q = Some (N_File song))"
proof -
  obtain r st evs where run: "perform_move sc_move_env sc_plan sc_fs fw_db = (r, st, evs)" by (metis surj_pair)
  have stores: "\<exists>lo other. ad = local_adapter lo other \<and> others_add lo" if "me_adapters sc_move_env sid = Inr ad" for sid ad
    using that sc_env(1) by (auto simp: sc_move_env_def good_env_def)
  have files: "\<forall>p i. sc_fs p = Some (N_File i) \<longrightarrow> (\<exists>q. mx_world st q = Some (N_File i))"
    by (rule local_folder_move_loses_nothing[OF run]) (rule stores)
  have "sc_fs [''m'', ''p'', ''a [x1].mp4''] = Some (N_File song)" by (simp add: sc_fs_def)
  then have "\<exists>q. mx_world st q = Some (N_File song)" using files by blast
  moreover have "\<not> isl r" using sc_moved by (simp add: run)
  ultimately show ?thesis using run by blast
qed

abbreviation sc_payload :: "(string \<times> json) list" where
  "sc_payload \<equiv> execution_payload 4 (attempt_task\<lparr>tk_depends_on_task_id := Some 3\<rparr>)"

lemma sc_published:
  "(case publish_run (attempt_env failing) (\<lambda>_ _. Inr sc_adapter) 7 sc_payload publish_db sc_fs of (r, reports, d', fs') \<Rightarrow>
     \<not> isl r \<and> (case fs' [''m'', ''a.mp3''] of Some (N_File k) \<Rightarrow> in_data k = ''abc'' | _ \<Rightarrow> False))"
  by code_simp



end
