(* ===== verification/Spec2Isabelle.thy ===== *)
theory Spec2Isabelle
  imports Options_Theorems Worker_Theorems Progress_Theorems Scheduler_Theorems Runner_Theorems Publishing_Theorems Index_Theorems Local_Theorems Hooks Retention_Theorems
    Auth_Theorems Format_Probe Storage_Contract
begin

text \<open>
  Sluicery keeps local copies of playlists: it discovers the entries of a playlist, decides per entry
  and profile what to fetch, runs yt-dlp in a pipeline of tasks, and publishes the files to a storage.
  This development models the program under \<open>src/sluicery/\<close> in Isabelle/HOL and proves what makes its
  parts correct. The program is a Python package around one SQLite database; its processes (the web
  application with the scheduler, the workers, the command line) meet only there.

  \<^bold>\<open>Parts and theories.\<close>
  \<^item> \<open>Prelude\<close>, \<open>Text\<close>: tables and the statements issued on them, instants, dictionaries, JSON, exceptions;
    Python's string functions, numbers and POSIX paths. The collections \<open>table_simps\<close> and
    \<open>table_intros\<close> carry the component proofs.
  \<^item> \<open>Models\<close>: \<open>db/models.py\<close>, one record per table, the enumerations, the database.
  \<^item> \<open>Task_Repository\<close>, \<open>Task_Queue\<close>, \<open>Task_Lifecycle\<close>, \<open>Task_Theorems\<close>, \<open>Claim_Theorems\<close>: the queue of
    \<open>db/repositories/task.py\<close>. The first holds every statement of the repository; the next ones the row
    invariant, the operations as data and their effect on one row; the last ones the status graph,
    ownership, the exactness of cancellation and recovery, retry budgets, fairness of the order.
  \<^item> \<open>Target_State\<close>, \<open>Target_Theorems\<close>: \<open>core/target_state.py\<close> and the compare-and-set statements of the
    target and item repositories, with the transition tables.
  \<^item> \<open>Repositories\<close>: the queries of the other repositories. \<open>Pipeline\<close>: \<open>tasks/pipeline.py\<close> and
    \<open>tasks/queue.py\<close>, the five steps of a Target.
  \<^item> \<open>Storage_Base\<close>: \<open>storage/base.py\<close> and \<open>storage/errors.py\<close>, the contract of the storage adapters with
    the path boundary.
  \<^item> \<open>Sync\<close>, \<open>Discovery_Theorems\<close>, \<open>Sync_Theorems\<close>: \<open>core/sync.py\<close>, discovery and download runs.
  \<^item> \<open>Naming\<close>: \<open>core/naming.py\<close> and \<open>layout/\<close>, from names and templates to output paths.
  \<^item> \<open>Options_Guard\<close>, \<open>Options\<close>, \<open>Options_Theorems\<close>: \<open>core/options.py\<close>, the guard of free yt-dlp options and
    the composition of commands.
  \<^item> \<open>Settings\<close>, \<open>Settings_Theorems\<close>: \<open>core/settings.py\<close>, the typed settings over their table.
  \<^item> \<open>Worker\<close>, \<open>Worker_Theorems\<close>, \<open>Progress_Theorems\<close>: \<open>tasks/worker.py\<close> and \<open>tasks/progress.py\<close>, the execution
    and the settling of one claimed task, its throttled progress, the reaper of stale tasks.
  \<^item> \<open>Scheduler\<close>, \<open>Scheduler_Theorems\<close>: \<open>scheduler/\<close>, the jobs that are registered, what a job does when it
    fires, the recovery of orphan Runs.
  \<^item> \<open>Runner\<close>, \<open>Runner_Theorems\<close>: the text handling of \<open>runner/\<close>, which hides secrets in command lines,
    output and logs. \<open>Downloader\<close>: \<open>downloader/\<close> and \<open>core/cookies.py\<close>, error rules, progress lines, cookies.
  \<^item> \<open>Handlers\<close>, \<open>Handler_Theorems\<close>, \<open>Publishing\<close>, \<open>Publishing_Theorems\<close>, \<open>Index_Theorems\<close>: \<open>tasks/handlers/\<close>, the
    five steps of a pipeline and the discovery of a playlist, with what each does to its Target.
  \<^item> \<open>Storage_Adapter\<close>, \<open>Local_Storage\<close>, \<open>Local_Theorems\<close>: the protocol of an adapter as a record of operations on
    the outside world, and \<open>storage/local.py\<close> over a map from paths to nodes.
  \<^item> \<open>Hooks\<close>: \<open>hooks/\<close>, the event log and what may get into it.
  \<^item> \<open>Integrity\<close>, \<open>Integrity_Theorems\<close>: \<open>core/integrity.py\<close>, two looks at the storages and the decisions of the
    check; links made by hand.
  \<^item> \<open>Retention\<close>, \<open>Retention_Theorems\<close>: \<open>core/retention.py\<close>, the policy, the plan, its confirmation and the
    deletions with their audit.
  \<^item> \<open>Folder_Move\<close>, \<open>Folder_Execution\<close>, \<open>Folder_Theorems\<close>: \<open>core/folder_move.py\<close>, the plan of a rename, its
    confirmation, the moves with the intents kept in the Run, and the recovery of an interrupted rename.
  \<^item> \<open>Auth\<close>, \<open>Auth_Theorems\<close>: \<open>web/auth.py\<close>, login, lockout and sessions.
  \<^item> \<open>Format_Probe\<close>: \<open>core/format_probe.py\<close> and \<open>core/staging.py\<close>.

  \<^bold>\<open>What the lemmas show.\<close> Of the queue: a row invariant, the status graph, ownership, fairness and bounds of claims.
  Of Targets and items: guarded transitions, exact discovery, pipelines in order. Of commands, paths and settings:
  only permitted options, no escape from the output directory, validated values. Of workers and handlers: task and
  Target settle together. Of everything that touches files (publish, integrity, retention, folder moves, the local
  adapter): what is written, moved or deleted was seen to be what was confirmed, nothing is overwritten,
  whatever call fails and whatever other processes do, and an interrupted operation leaves a record that the next one
  reads. Of the login: bounded guesses and replaced sessions. Several theorems describe a behaviour the code does
  not want; the manifest lists them as findings.

  \<^bold>\<open>How the model reads the code.\<close>
  A database operation is a function from the tables to its result and the new tables; an operation
  that raises leaves the tables as they were, which is the rollback of its session. A statement with a
  condition checks it on the table at that moment, so interleavings of processes are sequences of
  operations; where one operation uses several sessions, what others do in between is an argument of
  the model (\<open>re_others\<close>, \<open>me_before\<close>, the two states of an integrity check). The clock is read once per operation and
  passed as \<open>now\<close>. Integers are unbounded, as in Python; floats are exact rationals. A string is a list of the code
  points 0 to 255; on these NFC normalisation is the identity. Japanese messages are dropped or stand as ASCII
  constants. A comparison with SQL's NULL does not hold. Exceptions are values of \<open>exn + 'a\<close>. The text of an instant
  is only written and compared, so it is the instant itself, or the argument \<open>iso_text\<close>.

  \<^bold>\<open>Parameters.\<close> Code outside the repository is an argument: the JSON parser, the validity of a
  bracketed IP host, the cron parser of APScheduler, \<open>str\<close> of floats and containers, \<open>uuid4\<close> and \<open>random\<close>, other
  replacement fields of \<open>str.format\<close>, SHA-256, the signatures of itsdangerous, the hashing of passwords. So is
  what the operating system answers: the result of a child process, temporary files, failing system calls and
  writes, where a symbolic link leads, and the answers of a storage adapter wherever a client is modelled.

  \<^bold>\<open>Interfaces.\<close> \<open>cas_store\<close> is the contract of a guarded status update, interpreted on the targets and on
  the items; \<open>task_row_invariant\<close> lifts an invariant of a task row over every queue operation,
  interpreted on the consistency of rows and on the cancel flag. \<open>file_store\<close> and its extension \<open>moving_store\<close>
  (\<open>Storage_Contract\<close>) are what the publish handler and a folder move rely on in a storage; both are interpreted on
  the adapter of a local directory, which gives theorems about the composed program.

  \<^bold>\<open>Termination and bounds.\<close> No fuel is used: loops are recursive over their lists, and the cancellation
  of descendants terminates because every round settles at least one waiting task.

  \<^bold>\<open>Not modelled.\<close> The routes of the web application and the command line parse requests, call the operations
  modelled here and render results; \<open>db/session.py\<close> and \<open>config.py\<close> set up libraries. The rclone and CIFS storages are
  calls of a foreign program whose output they parse; starting, watching and killing child processes is the
  operating system's. The releases of yt-dlp (downloads, checksums, symbolic links), backups, database
  migrations and the transfer of configurations are left out; the components list in the manifest gives the
  reason for each.
\<close>

end
